(* ===== verification/Pxbee_Prelude.thy ===== *)
theory Pxbee_Prelude
  imports Main "HOL-Library.Word" "HOL-Library.Signed_Division"
begin

text \<open>
  Shared vocabulary of the development: the machine integers of the HCS08 target
  (\<open>int\<close> is 16 bits wide, \<open>char\<close> and \<open>uint_fast8_t\<close> 8 bits, \<open>long\<close> 32 bits, and
  memory is big-endian), the error codes of \<open>pxbee/headers/xbee/platform.h\<close>, conversions
  between words and byte sequences, and the generic list and word lemmas the component
  theories share.  Collections: \<open>ring_simps\<close> for ring buffers, \<open>byte_simps\<close> for
  byte-level encodings.
\<close>

unbundle bit_operations_syntax

section \<open>Machine integers and error codes\<close>

type_synonym u8 = "8 word"
type_synonym u16 = "16 word"
type_synonym u32 = "32 word"
type_synonym u64 = "64 word"

text \<open>
  The names of \<open>xbee/platform.h\<close>.  Their numeric values differ between the headers of the
  tree (\<open>types.h\<close> and \<open>platform.h\<close> both define \<open>EINVAL\<close>, for instance), and the code only
  returns them negated and compares results with 0, so they are kept symbolic: a C function
  returning a non-negative value or \<open>-errno\<close> becomes a function into \<open>errno + 'a\<close>.
\<close>

datatype errno =
    ENODATA | EINVAL | EIO | EBUSY | EEXIST | ENOSPC | ENOENT | E2BIG | EBADMSG
  | ENOTSUP | ETIMEDOUT | EILSEQ | EAGAIN | ENOSYS | EACCES | ECANCELED | EMSGSIZE | EPERM

named_theorems ring_simps
named_theorems byte_simps

text \<open>A value reduced to the range of a C \<open>int\<close> (16 bits, two's complement).\<close>

definition s16 :: "int \<Rightarrow> int" where
  "s16 x = sint (word_of_int x :: 16 word)"

lemma s16_id [simp]: "- 32768 \<le> x \<Longrightarrow> x < 32768 \<Longrightarrow> s16 x = x"
  by (simp add: s16_def signed_of_int signed_take_bit_int_eq_self)

lemma s16_range: "- 32768 \<le> s16 x" "s16 x < 32768"
  using sint_greater_eq [of "word_of_int x :: 16 word"] sint_less [of "word_of_int x :: 16 word"]
  by (simp_all add: s16_def)

section \<open>Words\<close>

lemma unat_u8_bound [simp]: "unat (x :: u8) < 256"
  using unsigned_less [of x, where ?'a = nat] by simp

lemma unat_u16_bound [simp]: "unat (x :: u16) < 65536"
  using unsigned_less [of x, where ?'a = nat] by simp

lemma unat_u32_bound [simp]: "unat (x :: u32) < 4294967296"
  using unsigned_less [of x, where ?'a = nat] by simp

lemma unat_u8_le [simp]: "unat (x :: u8) \<le> 255"
  using unat_u8_bound [of x] by linarith

lemma unat_u16_le [simp]: "unat (x :: u16) \<le> 65535"
  using unat_u16_bound [of x] by linarith

lemma unat_u32_le [simp]: "unat (x :: u32) \<le> 4294967295"
  using unat_u32_bound [of x] by linarith

lemma uint_bound_u8 [simp]: "uint (x :: u8) < 256"
  using unsigned_less [of x, where ?'a = int] by simp

lemma uint_bound_u16 [simp]: "uint (x :: u16) < 65536"
  using unsigned_less [of x, where ?'a = int] by simp

lemma uint_bound_u32 [simp]: "uint (x :: u32) < 4294967296"
  using unsigned_less [of x, where ?'a = int] by simp

lemma uint_of_int_u8: "0 \<le> k \<Longrightarrow> k < 256 \<Longrightarrow> uint (word_of_int k :: u8) = k"
  by (simp add: uint_word_of_int_eq take_bit_int_eq_self)

lemma uint_of_int_u16: "0 \<le> k \<Longrightarrow> k < 65536 \<Longrightarrow> uint (word_of_int k :: u16) = k"
  by (simp add: uint_word_of_int_eq take_bit_int_eq_self)

lemma uint_of_int_u32: "0 \<le> k \<Longrightarrow> k < 4294967296 \<Longrightarrow> uint (word_of_int k :: u32) = k"
  by (simp add: uint_word_of_int_eq take_bit_int_eq_self)

lemma unat_of_nat_u8: "n < 256 \<Longrightarrow> unat (of_nat n :: u8) = n"
  by (simp add: unsigned_of_nat take_bit_nat_eq_self)

lemma unat_of_nat_u16: "n < 65536 \<Longrightarrow> unat (of_nat n :: u16) = n"
  by (simp add: unsigned_of_nat take_bit_nat_eq_self)

lemma unat_of_nat_u32: "n < 4294967296 \<Longrightarrow> unat (of_nat n :: u32) = n"
  by (simp add: unsigned_of_nat take_bit_nat_eq_self)

text \<open>Masking with \<open>2 ^ k - 1\<close> is reduction modulo \<open>2 ^ k\<close>.\<close>

lemma unat_and_pow2_mask:
  fixes x m :: "'a::len word"
  assumes "Suc (unat m) = 2 ^ k"
  shows "unat (x AND m) = unat x mod Suc (unat m)"
proof -
  have "unat m = mask k"
    using assms by (simp add: mask_eq_exp_minus_1)
  then have "unat (x AND m) = unat x AND mask k"
    by (simp add: unsigned_and_eq)
  also have "\<dots> = unat x mod 2 ^ k"
    by (simp add: take_bit_eq_mask [symmetric] take_bit_eq_mod)
  finally show ?thesis
    using assms by simp
qed

text \<open>Bytes are equal when their eight bits are.\<close>

lemma ucast_add_u16: "(ucast (a + word_of_int n :: u32) :: u16) = ucast a + word_of_int n"
proof transfer
  fix a n :: int
  have "(a mod 4294967296 + n) mod 65536 = (a mod 4294967296 mod 65536 + n) mod 65536"
    by (simp only: mod_add_left_eq)
  also have "a mod 4294967296 mod 65536 = a mod 65536" by (rule mod_mod_cancel) simp
  also have "(a mod 65536 + n) mod 65536 = (a + n) mod 65536" by (rule mod_add_left_eq)
  also have "\<dots> = (a + n) mod 4294967296 mod 65536" by (rule mod_mod_cancel [symmetric]) simp
  finally show "take_bit LENGTH(16) (take_bit LENGTH(32) (a + n)) = take_bit LENGTH(16) (take_bit LENGTH(32) a + n)"
    by (simp only: take_bit_eq_mod) simp
qed

lemma sint_small_u16: "unat (x :: u16) < 32768 \<Longrightarrow> sint x = int (unat x)"
proof -
  assume "unat x < 32768"
  then have "int (unat x) < int 32768" by (simp only: of_nat_less_iff)
  then have "uint x < 2 ^ 15" by simp
  moreover have "- (2 ^ 15) \<le> uint x" by (rule order_trans [of _ 0]) simp_all
  ultimately have "signed_take_bit 15 (uint x) = uint x"
    by (intro signed_take_bit_int_eq_self)
  then show ?thesis by (simp add: sint_uint)
qed

lemma u8_bits_eqI:
  fixes x y :: u8
  assumes "\<And>n. n \<in> {0, 1, 2, 3, 4, 5, 6, 7} \<Longrightarrow> bit x n = bit y n"
  shows "x = y"
proof (rule bit_word_eqI)
  fix n assume "n < LENGTH(8)"
  then have "n \<in> {0, 1, 2, 3, 4, 5, 6, 7}" by (simp add: numeral_eq_Suc less_Suc_eq)
  then show "bit x n = bit y n" by (rule assms)
qed

end
