(* ===== verification/Byte_Queue.thy ===== *)
theory Byte_Queue
  imports Pxbee_Prelude
begin

text \<open>
  The contract both circular buffers of the tree (\<open>misc/cbuffer.c\<close> and
  \<open>pan/xbee/xbee_cbuf.c\<close>) implement: a bounded first-in first-out queue of bytes.  The
  locale \<open>byte_queue\<close> states the laws of one insertion and one extraction; the facts about
  whole sequences of operations are proved once, here.  The first part holds the ring-indexing
  lemmas the two implementations share.
\<close>

section \<open>Ring indexing\<close>

text \<open>The \<open>k\<close> elements found in \<open>buf\<close> from index \<open>start\<close> on, indices modulo \<open>n\<close>.\<close>

definition ring_list :: "'a list \<Rightarrow> nat \<Rightarrow> nat \<Rightarrow> nat \<Rightarrow> 'a list" where
  "ring_list buf n start k = map (\<lambda>i. buf ! ((start + i) mod n)) [0..<k]"

lemma length_ring_list [simp, ring_simps]: "length (ring_list buf n start k) = k"
  by (simp add: ring_list_def)

lemma ring_list_0 [simp, ring_simps]: "ring_list buf n start 0 = []"
  by (simp add: ring_list_def)

lemma ring_list_Suc:
  assumes "start < n"
  shows "ring_list buf n start (Suc k) = buf ! start # ring_list buf n (Suc start mod n) k"
proof (rule nth_equalityI)
  show "length (ring_list buf n start (Suc k)) = length (buf ! start # ring_list buf n (Suc start mod n) k)"
    by simp
next
  fix i assume "i < length (ring_list buf n start (Suc k))"
  then have i: "i < Suc k" by simp
  show "ring_list buf n start (Suc k) ! i = (buf ! start # ring_list buf n (Suc start mod n) k) ! i"
  proof (cases i)
    case 0
    then show ?thesis using assms
      by (simp add: ring_list_def del: upt_Suc)
  next
    case (Suc j)
    then show ?thesis using i
      by (simp add: ring_list_def mod_simps del: upt_Suc)
  qed
qed

text \<open>Two different offsets below \<open>n\<close> never share a ring slot.\<close>

lemma ring_slot_inj:
  fixes start i k n :: nat
  assumes "i < k" "k < n"
  shows "(start + i) mod n \<noteq> (start + k) mod n"
proof
  assume "(start + i) mod n = (start + k) mod n"
  then have "(start + k) mod n = (start + i) mod n" ..
  then have "n dvd (start + k) - (start + i)"
    using assms by (subst (asm) mod_eq_dvd_iff_nat) simp_all
  with assms show False
    by (auto dest: dvd_imp_le)
qed

lemma ring_list_write_outside:
  assumes "k < n"
  shows "ring_list (buf[(start + k) mod n := x]) n start k = ring_list buf n start k"
  unfolding ring_list_def
  using assms ring_slot_inj [of _ k n start]
  by (intro map_cong refl nth_list_update_neq) (metis atLeastLessThan_iff atLeastLessThan_upt)

lemma ring_list_snoc:
  assumes "k < n" "n \<le> length buf"
  shows "ring_list (buf[(start + k) mod n := x]) n start (Suc k) = ring_list buf n start k @ [x]"
proof -
  have "(start + k) mod n < length buf"
    using assms by (metis mod_less_divisor less_le_trans gr0I not_less_zero)
  then show ?thesis
    using ring_list_write_outside [OF assms(1), of buf start x]
    by (simp add: ring_list_def)
qed

lemma ring_used_mod:
  fixes h t n :: nat
  assumes "h < n" "t < n"
  shows "(t + (n + h - t) mod n) mod n = h"
  using assms by (simp add: mod_add_right_eq)

text \<open>The number of elements between tail \<open>t\<close> and head \<open>h\<close> of a ring of \<open>n\<close> slots.\<close>

lemma ring_count_if:
  fixes h t n :: nat
  assumes "h < n" "t < n"
  shows "(n + h - t) mod n = (if t \<le> h then h - t else n + h - t)"
proof (cases "t \<le> h")
  case True
  then have "n + h - t = (h - t) + n" by simp
  then have "(n + h - t) mod n = (h - t) mod n" by (simp only: mod_add_self2)
  then show ?thesis using True assms by simp
next
  case False
  then show ?thesis using assms by simp
qed

lemma Suc_mod_if:
  fixes t n :: nat
  assumes "t < n"
  shows "Suc t mod n = (if Suc t = n then 0 else Suc t)"
  using assms by simp

lemma add_mod_if:
  fixes t u n :: nat
  assumes "t < n" "u \<le> n"
  shows "(t + u) mod n = (if t + u < n then t + u else t + u - n)"
proof (cases "t + u < n")
  case False
  then have "t + u = (t + u - n) + n" by simp
  then have "(t + u) mod n = (t + u - n) mod n" by (metis mod_add_self2)
  then show ?thesis using False assms by (auto simp: not_less)
qed simp

lemma ring_count_add:
  fixes t u n :: nat
  assumes "t < n" "u < n"
  shows "(n + (t + u) mod n - t) mod n = u"
proof -
  have "(t + u) mod n < n" using assms by simp
  then show ?thesis
    using assms by (simp add: ring_count_if add_mod_if) arith
qed

lemma ring_count_Suc_tail:
  fixes h t n :: nat
  assumes "h < n" "t < n" "h \<noteq> t"
  shows "(n + h - t) mod n = Suc ((n + h - Suc t mod n) mod n)"
proof -
  have "Suc t mod n < n" using assms by simp
  then show ?thesis
    using assms by (simp add: ring_count_if Suc_mod_if) arith
qed

section \<open>The abstract queue\<close>

text \<open>A queue of at most \<open>cap\<close> bytes; an insertion into a full queue is dropped.\<close>

datatype queue_op = Put u8 | Get

fun fifo_run :: "nat \<Rightarrow> u8 list \<Rightarrow> queue_op list \<Rightarrow> u8 option list \<times> u8 list" where
  "fifo_run cap xs [] = ([], xs)"
| "fifo_run cap xs (Put x # ops) = fifo_run cap (if length xs < cap then xs @ [x] else xs) ops"
| "fifo_run cap [] (Get # ops) = (case fifo_run cap [] ops of (rs, ys) \<Rightarrow> (None # rs, ys))"
| "fifo_run cap (x # xs) (Get # ops) = (case fifo_run cap xs ops of (rs, ys) \<Rightarrow> (Some x # rs, ys))"

text \<open>The same operations on an implementation: the results of the extractions, in order.\<close>

fun run_ops :: "('s \<Rightarrow> u8 \<Rightarrow> 's) \<Rightarrow> ('s \<Rightarrow> u8 option \<times> 's) \<Rightarrow> 's \<Rightarrow> queue_op list \<Rightarrow> u8 option list \<times> 's" where
  "run_ops put get s [] = ([], s)"
| "run_ops put get s (Put x # ops) = run_ops put get (put s x) ops"
| "run_ops put get s (Get # ops) =
     (case get s of (r, s') \<Rightarrow> case run_ops put get s' ops of (rs, s'') \<Rightarrow> (r # rs, s''))"

section \<open>The queue contract\<close>

locale byte_queue =
  fixes inv :: "'s \<Rightarrow> bool"
    and contents :: "'s \<Rightarrow> u8 list"
    and capacity :: "'s \<Rightarrow> nat"
    and put :: "'s \<Rightarrow> u8 \<Rightarrow> 's"
    and get :: "'s \<Rightarrow> u8 option \<times> 's"
  assumes put_inv: "inv s \<Longrightarrow> inv (put s x)"
    and put_contents: "inv s \<Longrightarrow>
      contents (put s x) = (if length (contents s) < capacity s then contents s @ [x] else contents s)"
    and put_capacity: "inv s \<Longrightarrow> capacity (put s x) = capacity s"
    and get_inv: "inv s \<Longrightarrow> inv (snd (get s))"
    and get_contents: "inv s \<Longrightarrow> contents (snd (get s)) = tl (contents s)"
    and get_result: "inv s \<Longrightarrow> fst (get s) = (case contents s of [] \<Rightarrow> None | x # _ \<Rightarrow> Some x)"
    and get_capacity: "inv s \<Longrightarrow> capacity (snd (get s)) = capacity s"
    and contents_bound: "inv s \<Longrightarrow> length (contents s) \<le> capacity s"
begin

lemmas step_facts = put_inv put_contents put_capacity get_inv get_contents get_result get_capacity

lemma foldl_put_inv: "inv s \<Longrightarrow> inv (foldl put s xs)"
  by (induction xs arbitrary: s) (simp_all add: put_inv)

lemma foldl_put_capacity: "inv s \<Longrightarrow> capacity (foldl put s xs) = capacity s"
  by (induction xs arbitrary: s) (simp_all add: step_facts)

lemma foldl_put_contents:
  "inv s \<Longrightarrow> contents (foldl put s xs) = contents s @ take (capacity s - length (contents s)) xs"
proof (induction xs arbitrary: s)
  case Nil
  then show ?case by simp
next
  case (Cons x xs)
  have IH: "contents (foldl put (put s x) xs)
      = contents (put s x) @ take (capacity (put s x) - length (contents (put s x))) xs"
    using Cons by (simp add: put_inv)
  show ?case
  proof (cases "length (contents s) < capacity s")
    case True
    then obtain k where k: "capacity s - length (contents s) = Suc k"
      using less_imp_Suc_add by (metis Suc_diff_Suc)
    then have "capacity s - Suc (length (contents s)) = k" by simp
    with True k IH show ?thesis
      using Cons.prems by (simp add: put_contents put_capacity)
  next
    case False
    with IH show ?thesis
      using Cons.prems by (simp add: put_contents put_capacity)
  qed
qed

text \<open>Every sequence of operations behaves as on the abstract queue.\<close>

lemma run_ops_refines:
  assumes "inv s"
  shows "fst (run_ops put get s ops) = fst (fifo_run (capacity s) (contents s) ops) \<and>
    contents (snd (run_ops put get s ops)) = snd (fifo_run (capacity s) (contents s) ops)"
  using assms
proof (induction ops arbitrary: s)
  case Nil
  then show ?case by simp
next
  case (Cons op ops)
  show ?case
  proof (cases op)
    case (Put x)
    then show ?thesis
      using Cons.IH [of "put s x"] Cons.prems by (simp add: step_facts)
  next
    case Get
    obtain r s' where g: "get s = (r, s')" by (cases "get s")
    have "inv s'" "contents s' = tl (contents s)" "capacity s' = capacity s"
      "r = (case contents s of [] \<Rightarrow> None | x # _ \<Rightarrow> Some x)"
      using Cons.prems g step_facts [of s] by simp_all
    then show ?thesis
      using Cons.IH [of s'] Get g
      by (cases "contents s") (auto split: prod.splits)
  qed
qed

end

end
