(* ===== verification/Cbuf.thy ===== *)
theory Cbuf
  imports Byte_Queue
begin

text \<open>
  The circular buffer of \<open>pxbee/misc/cbuffer.c\<close> (used by the UART driver): head and tail
  indices modulo the length given at initialisation, one slot kept free to tell a full
  buffer from an empty one.  The last part shows that it is a bounded byte queue.
\<close>

section \<open>The code\<close>

text \<open>\<open>struct cbuf\<close>; the memory \<open>buf\<close> points to is the byte list \<open>cb_buf\<close>.\<close>

record cbuf =
  cb_head :: u8
  cb_tail :: u8
  cb_blen :: u8
  cb_buf :: "u8 list"

definition cbuf_init :: "cbuf \<Rightarrow> u8 list \<Rightarrow> u8 \<Rightarrow> cbuf" where
  "cbuf_init cb buffer buflen =
     cb\<lparr>cb_head := 0, cb_tail := 0, cb_buf := buffer, cb_blen := buflen\<rparr>"

text \<open>The operands are promoted to \<open>int\<close>, so the remainder is the signed one.\<close>

definition cbuf_data_in_buf :: "cbuf \<Rightarrow> u8" where
  "cbuf_data_in_buf cb =
     word_of_int ((uint (cb_blen cb) + uint (cb_head cb) - uint (cb_tail cb)) smod uint (cb_blen cb))"

definition cbuf_space_in_buf :: "cbuf \<Rightarrow> u8" where
  "cbuf_space_in_buf cb = word_of_int (uint (cb_blen cb) - uint (cbuf_data_in_buf cb) - 1)"

definition is_cbuf_emtpy :: "cbuf \<Rightarrow> bool" where
  "is_cbuf_emtpy cb \<longleftrightarrow> cb_head cb = cb_tail cb"

definition cbuf_flush :: "cbuf \<Rightarrow> cbuf" where
  "cbuf_flush cb = cb\<lparr>cb_head := cb_tail cb\<rparr>"

definition is_cbuf_full :: "cbuf \<Rightarrow> bool" where
  "is_cbuf_full cb \<longleftrightarrow> (uint (cb_head cb) + 1) smod uint (cb_blen cb) = uint (cb_tail cb)"

definition cbuf_append :: "cbuf \<Rightarrow> u8 \<Rightarrow> cbuf" where
  "cbuf_append cb data =
     (let nhead = word_of_int ((uint (cb_head cb) + 1) smod uint (cb_blen cb))
      in if nhead \<noteq> cb_tail cb
         then cb\<lparr>cb_buf := (cb_buf cb)[unat (cb_head cb) := data], cb_head := nhead\<rparr>
         else cb)"

definition cbuf_get_nocheck :: "cbuf \<Rightarrow> u8 \<times> cbuf" where
  "cbuf_get_nocheck cb =
     (let data = cb_buf cb ! unat (cb_tail cb)
      in (data, cb\<lparr>cb_tail := word_of_int ((uint (cb_tail cb) + 1) smod uint (cb_blen cb))\<rparr>))"

definition cbuf_get :: "cbuf \<Rightarrow> (errno + int) \<times> cbuf" where
  "cbuf_get cb =
     (if is_cbuf_emtpy cb then (Inl ENOENT, cb)
      else let data = cb_buf cb ! unat (cb_tail cb)
           in (Inr (uint data),
               cb\<lparr>cb_tail := word_of_int ((uint (cb_tail cb) + 1) smod uint (cb_blen cb))\<rparr>))"

section \<open>Well-formedness and contents\<close>

text \<open>
  What \<open>cbuf_init\<close> with a non-zero length no larger than the memory establishes: both
  indices below the length.
\<close>

definition cbuf_wf :: "cbuf \<Rightarrow> bool" where
  "cbuf_wf cb \<longleftrightarrow> cb_head cb < cb_blen cb \<and> cb_tail cb < cb_blen cb \<and>
     unat (cb_blen cb) \<le> length (cb_buf cb)"

definition cbuf_used :: "cbuf \<Rightarrow> nat" where
  "cbuf_used cb = (unat (cb_blen cb) + unat (cb_head cb) - unat (cb_tail cb)) mod unat (cb_blen cb)"

definition cbuf_contents :: "cbuf \<Rightarrow> u8 list" where
  "cbuf_contents cb = ring_list (cb_buf cb) (unat (cb_blen cb)) (unat (cb_tail cb)) (cbuf_used cb)"

definition cbuf_capacity :: "cbuf \<Rightarrow> nat" where
  "cbuf_capacity cb = unat (cb_blen cb) - 1"

lemma cbuf_wf_nat [ring_simps]:
  "cbuf_wf cb \<longleftrightarrow> unat (cb_head cb) < unat (cb_blen cb) \<and> unat (cb_tail cb) < unat (cb_blen cb) \<and>
     unat (cb_blen cb) \<le> length (cb_buf cb)"
  by (simp add: cbuf_wf_def word_less_nat_alt)

text \<open>The signed remainders of the code never see a negative operand.\<close>

lemma uint_succ_smod_u8:
  fixes a n :: u8
  shows "(uint a + 1) smod uint n = int (Suc (unat a) mod unat n)"
proof -
  have "(uint a + 1) smod uint n = (1 + uint a) mod uint n"
    by (simp add: smod_mod_positive add.commute)
  also have "\<dots> = int (Suc (unat a) mod unat n)"
    by (simp add: zmod_int)
  finally show ?thesis .
qed

lemma succ_smod_u8:
  "word_of_int ((uint (a :: u8) + 1) smod uint (n :: u8)) = (of_nat (Suc (unat a) mod unat n) :: u8)"
  by (simp only: uint_succ_smod_u8 of_int_of_nat_eq)

lemma unat_of_nat_mod_u8 [simp]: "unat (of_nat (k mod unat (n :: u8)) :: u8) = k mod unat n"
  if "0 < unat n"
proof -
  have "k mod unat n < 256"
    using that unat_u8_bound [of n] by (meson less_trans mod_less_divisor)
  then show ?thesis by (simp add: unat_of_nat)
qed

lemma unat_cbuf_data_in_buf:
  assumes "cbuf_wf cb"
  shows "unat (cbuf_data_in_buf cb) = cbuf_used cb"
proof -
  have le: "unat (cb_tail cb) \<le> unat (cb_blen cb) + unat (cb_head cb)" and pos: "0 < unat (cb_blen cb)"
    using assms by (auto simp: cbuf_wf_nat)
  have "uint (cb_blen cb) + uint (cb_head cb) - uint (cb_tail cb)
      = int (unat (cb_blen cb) + unat (cb_head cb) - unat (cb_tail cb))"
    using le by (simp add: of_nat_diff)
  then have "(uint (cb_blen cb) + uint (cb_head cb) - uint (cb_tail cb)) smod uint (cb_blen cb)
      = int (unat (cb_blen cb) + unat (cb_head cb) - unat (cb_tail cb)) mod int (unat (cb_blen cb))"
    by (simp only: smod_mod_positive of_nat_0_le_iff uint_nat)
  also have "\<dots> = int (cbuf_used cb)"
    unfolding cbuf_used_def by (simp only: zmod_int)
  finally have "(uint (cb_blen cb) + uint (cb_head cb) - uint (cb_tail cb)) smod uint (cb_blen cb)
      = int (cbuf_used cb)" .
  then have "cbuf_data_in_buf cb = of_nat (cbuf_used cb)"
    by (simp add: cbuf_data_in_buf_def)
  with pos show ?thesis by (simp add: cbuf_used_def)
qed

lemma cbuf_used_less: "cbuf_wf cb \<Longrightarrow> cbuf_used cb < unat (cb_blen cb)"
  by (auto simp: cbuf_used_def cbuf_wf_nat)

lemma cbuf_head_eq:
  "cbuf_wf cb \<Longrightarrow> (unat (cb_tail cb) + cbuf_used cb) mod unat (cb_blen cb) = unat (cb_head cb)"
  unfolding cbuf_used_def by (rule ring_used_mod) (simp_all add: cbuf_wf_nat)

lemma cbuf_used_0: "cbuf_wf cb \<Longrightarrow> cbuf_used cb = 0 \<longleftrightarrow> cb_head cb = cb_tail cb"
proof
  assume "cbuf_wf cb" "cbuf_used cb = 0"
  then show "cb_head cb = cb_tail cb"
    using cbuf_head_eq [of cb] by (auto simp: cbuf_wf_nat word_unat_eq_iff)
next
  assume "cbuf_wf cb" "cb_head cb = cb_tail cb"
  then show "cbuf_used cb = 0" by (simp add: cbuf_used_def)
qed

lemma length_cbuf_contents [simp]: "length (cbuf_contents cb) = cbuf_used cb"
  by (simp add: cbuf_contents_def)

section \<open>The operations as queue operations\<close>

lemma cbuf_init_wf:
  assumes "0 < n" "unat n \<le> length mem"
  shows "cbuf_wf (cbuf_init cb mem n)" "cbuf_contents (cbuf_init cb mem n) = []"
    "cbuf_capacity (cbuf_init cb mem n) = unat n - 1"
  using assms
  by (simp_all add: cbuf_wf_def cbuf_init_def cbuf_contents_def cbuf_used_def cbuf_capacity_def)

lemma cbuf_full_nat:
  assumes "cbuf_wf cb"
  shows "Suc (unat (cb_head cb)) mod unat (cb_blen cb) = unat (cb_tail cb) \<longleftrightarrow>
    cbuf_used cb = unat (cb_blen cb) - 1"
proof -
  have wf: "unat (cb_head cb) < unat (cb_blen cb)" "unat (cb_tail cb) < unat (cb_blen cb)"
    using assms by (simp_all add: cbuf_wf_nat)
  then show ?thesis
    unfolding cbuf_used_def by (simp add: ring_count_if Suc_mod_if) arith
qed

lemma cbuf_append_unfold:
  assumes "cbuf_wf cb"
  shows "cbuf_append cb x =
    (if cbuf_used cb < cbuf_capacity cb
     then cb\<lparr>cb_buf := (cb_buf cb)[unat (cb_head cb) := x],
             cb_head := of_nat (Suc (unat (cb_head cb)) mod unat (cb_blen cb))\<rparr>
     else cb)"
proof -
  have "(of_nat (Suc (unat (cb_head cb)) mod unat (cb_blen cb)) = cb_tail cb) \<longleftrightarrow>
      cbuf_used cb = unat (cb_blen cb) - 1"
    using cbuf_full_nat [OF assms] assms by (simp add: word_unat_eq_iff cbuf_wf_nat)
  with cbuf_used_less [OF assms] show ?thesis
    by (auto simp: cbuf_append_def succ_smod_u8 cbuf_capacity_def Let_def)
qed

lemma cbuf_append_wf: "cbuf_wf cb \<Longrightarrow> cbuf_wf (cbuf_append cb x)"
  by (simp add: cbuf_append_unfold) (auto simp: cbuf_wf_nat)

lemma cbuf_append_contents:
  assumes "cbuf_wf cb"
  shows "cbuf_contents (cbuf_append cb x) =
    (if length (cbuf_contents cb) < cbuf_capacity cb then cbuf_contents cb @ [x] else cbuf_contents cb)"
proof (cases "cbuf_used cb < cbuf_capacity cb")
  case True
  let ?n = "unat (cb_blen cb)" and ?t = "unat (cb_tail cb)" and ?u = "cbuf_used cb"
  let ?cb = "cbuf_append cb x"
  have u: "Suc ?u < ?n" using True by (simp add: cbuf_capacity_def)
  have cb: "?cb = cb\<lparr>cb_buf := (cb_buf cb)[(?t + ?u) mod ?n := x],
             cb_head := of_nat (Suc (unat (cb_head cb)) mod ?n)\<rparr>"
    using True assms by (simp add: cbuf_append_unfold cbuf_head_eq)
  have "Suc (unat (cb_head cb)) mod ?n = (?t + Suc ?u) mod ?n"
    using cbuf_head_eq [OF assms] by (metis add_Suc_right mod_Suc_eq)
  then have "cbuf_used ?cb = (?n + (?t + Suc ?u) mod ?n - ?t) mod ?n"
    using u by (simp add: cbuf_used_def cb)
  also have "\<dots> = Suc ?u"
    using u assms by (intro ring_count_add) (simp_all add: cbuf_wf_nat)
  finally have "cbuf_used ?cb = Suc ?u" .
  then have "cbuf_contents ?cb
      = ring_list ((cb_buf cb)[(?t + ?u) mod ?n := x]) ?n ?t (Suc ?u)"
    by (simp add: cbuf_contents_def cb)
  also have "\<dots> = cbuf_contents cb @ [x]"
    unfolding cbuf_contents_def using u assms
    by (intro ring_list_snoc) (simp_all add: cbuf_wf_nat)
  finally show ?thesis using True by simp
next
  case False
  then show ?thesis using assms by (simp add: cbuf_append_unfold)
qed

lemma cbuf_append_capacity [simp]: "cbuf_capacity (cbuf_append cb x) = cbuf_capacity cb"
  by (simp add: cbuf_append_def cbuf_capacity_def Let_def)

text \<open>Extraction: \<open>cbuf_get\<close> is \<open>cbuf_get_nocheck\<close> behind the emptiness test.\<close>

lemma cbuf_get_eq:
  "cbuf_get cb = (if is_cbuf_emtpy cb then (Inl ENOENT, cb)
    else (Inr (uint (fst (cbuf_get_nocheck cb))), snd (cbuf_get_nocheck cb)))"
  by (simp add: cbuf_get_def cbuf_get_nocheck_def Let_def)

lemma cbuf_get_nocheck_contents:
  assumes "cbuf_wf cb" "\<not> is_cbuf_emtpy cb"
  shows "cbuf_wf (snd (cbuf_get_nocheck cb))"
    "cbuf_contents cb = fst (cbuf_get_nocheck cb) # cbuf_contents (snd (cbuf_get_nocheck cb))"
proof -
  let ?n = "unat (cb_blen cb)" and ?t = "unat (cb_tail cb)" and ?h = "unat (cb_head cb)"
  let ?cb = "snd (cbuf_get_nocheck cb)"
  have wf: "?h < ?n" "?t < ?n" "?n \<le> length (cb_buf cb)" using assms by (simp_all add: cbuf_wf_nat)
  have cb: "?cb = cb\<lparr>cb_tail := of_nat (Suc ?t mod ?n)\<rparr>" "fst (cbuf_get_nocheck cb) = cb_buf cb ! ?t"
    by (simp_all add: cbuf_get_nocheck_def Let_def succ_smod_u8)
  show "cbuf_wf ?cb" using wf by (simp add: cb cbuf_wf_nat)
  have ne: "?h \<noteq> ?t" using assms by (simp add: is_cbuf_emtpy_def word_unat_eq_iff)
  have "cbuf_used cb = Suc ((?n + ?h - Suc ?t mod ?n) mod ?n)"
    unfolding cbuf_used_def using wf ne by (intro ring_count_Suc_tail) simp_all
  then have used: "cbuf_used cb = Suc (cbuf_used ?cb)"
    using wf by (simp add: cbuf_used_def cb)
  then show "cbuf_contents cb = fst (cbuf_get_nocheck cb) # cbuf_contents ?cb"
    using wf by (simp add: cbuf_contents_def cb ring_list_Suc)
qed

lemma cbuf_empty_contents: "cbuf_wf cb \<Longrightarrow> is_cbuf_emtpy cb \<longleftrightarrow> cbuf_contents cb = []"
  using cbuf_used_0 [of cb] length_cbuf_contents [of cb]
  by (metis is_cbuf_emtpy_def length_0_conv)

definition cbuf_pop :: "cbuf \<Rightarrow> u8 option \<times> cbuf" where
  "cbuf_pop cb = (case cbuf_get cb of (Inl _, cb') \<Rightarrow> (None, cb') | (Inr d, cb') \<Rightarrow> (Some (word_of_int d), cb'))"

lemma cbuf_pop_eq:
  "cbuf_pop cb = (if is_cbuf_emtpy cb then (None, cb)
    else (Some (fst (cbuf_get_nocheck cb)), snd (cbuf_get_nocheck cb)))"
  by (simp add: cbuf_pop_def cbuf_get_eq)

lemma cbuf_get_capacity [simp]: "cbuf_capacity (snd (cbuf_get_nocheck cb)) = cbuf_capacity cb"
  by (simp add: cbuf_get_nocheck_def cbuf_capacity_def Let_def)

interpretation cbq: byte_queue cbuf_wf cbuf_contents cbuf_capacity cbuf_append cbuf_pop
proof unfold_locales
  fix s assume "cbuf_wf s"
  then show "length (cbuf_contents s) \<le> cbuf_capacity s"
    using cbuf_used_less [of s] by (simp add: cbuf_capacity_def)
next
  fix s assume "cbuf_wf s"
  then have "fst (cbuf_pop s) = (case cbuf_contents s of [] \<Rightarrow> None | x # _ \<Rightarrow> Some x) \<and>
    cbuf_contents (snd (cbuf_pop s)) = tl (cbuf_contents s) \<and> cbuf_wf (snd (cbuf_pop s))"
  proof (cases "is_cbuf_emtpy s")
    case True
    then have "cbuf_contents s = []" using \<open>cbuf_wf s\<close> cbuf_empty_contents by blast
    then show ?thesis using True \<open>cbuf_wf s\<close> by (simp add: cbuf_pop_eq)
  next
    case False
    note nc = cbuf_get_nocheck_contents [OF \<open>cbuf_wf s\<close> False]
    show ?thesis by (subst (1 2) nc(2)) (simp add: cbuf_pop_eq False nc(1))
  qed
  then show "fst (cbuf_pop s) = (case cbuf_contents s of [] \<Rightarrow> None | x # _ \<Rightarrow> Some x)"
    and "cbuf_contents (snd (cbuf_pop s)) = tl (cbuf_contents s)"
    and "cbuf_wf (snd (cbuf_pop s))" by blast+
qed (simp_all add: cbuf_append_wf cbuf_append_contents cbuf_pop_eq del: length_cbuf_contents)

text \<open>Flushing empties the buffer, and the counts agree with the contents.\<close>

lemma cbuf_flush_facts:
  assumes "cbuf_wf cb"
  shows "cbuf_wf (cbuf_flush cb)" "cbuf_contents (cbuf_flush cb) = []"
    "cbuf_capacity (cbuf_flush cb) = cbuf_capacity cb"
  using assms
  by (simp_all add: cbuf_flush_def cbuf_wf_def cbuf_contents_def cbuf_used_def cbuf_capacity_def)

text \<open>
  C30: Refinement.  Starting from any well-formed buffer, any sequence of \<open>cbuf_append\<close> and
  \<open>cbuf_get\<close> calls returns what a first-in first-out queue of \<open>blen - 1\<close> bytes returns, and
  leaves the contents that queue has: no byte is lost, reordered or invented while there is room.
\<close>

theorem cbuf_refines_fifo:
  assumes "cbuf_wf cb"
  shows "fst (run_ops cbuf_append cbuf_pop cb ops)
      = fst (fifo_run (cbuf_capacity cb) (cbuf_contents cb) ops) \<and>
    cbuf_contents (snd (run_ops cbuf_append cbuf_pop cb ops))
      = snd (fifo_run (cbuf_capacity cb) (cbuf_contents cb) ops)"
  using assms by (rule cbq.run_ops_refines)

definition cbuf_demo :: cbuf where
  "cbuf_demo = cbuf_init \<lparr>cb_head = 0, cb_tail = 0, cb_blen = 0, cb_buf = []\<rparr> [0, 0, 0] 3"

lemma cbuf_demo_facts: "cbuf_wf cbuf_demo" "cbuf_contents cbuf_demo = []" "cbuf_capacity cbuf_demo = 2"
  unfolding cbuf_demo_def using cbuf_init_wf [of 3 "[0, 0, 0]"] by simp_all

theorem cbuf_refines_fifo_witness:
  "cbuf_wf cbuf_demo \<and>
   fst (run_ops cbuf_append cbuf_pop cbuf_demo [Put 5, Put 6, Put 7, Get, Get, Get]) = [Some 5, Some 6, None]"
  using cbuf_refines_fifo [OF cbuf_demo_facts(1), of "[Put 5, Put 6, Put 7, Get, Get, Get]"] cbuf_demo_facts
  by simp

lemma cbuf_count_facts:
  assumes "cbuf_wf cb"
  shows "unat (cbuf_data_in_buf cb) = length (cbuf_contents cb)"
    and "unat (cbuf_space_in_buf cb) = cbuf_capacity cb - length (cbuf_contents cb)"
    and "is_cbuf_emtpy cb \<longleftrightarrow> cbuf_contents cb = []"
    and "is_cbuf_full cb \<longleftrightarrow> length (cbuf_contents cb) = cbuf_capacity cb"
proof -
  show d: "unat (cbuf_data_in_buf cb) = length (cbuf_contents cb)"
    using assms by (simp add: unat_cbuf_data_in_buf)
  show "is_cbuf_emtpy cb \<longleftrightarrow> cbuf_contents cb = []"
    using assms by (rule cbuf_empty_contents)
  have u: "cbuf_used cb < unat (cb_blen cb)" using assms by (rule cbuf_used_less)
  have "uint (cb_blen cb) - uint (cbuf_data_in_buf cb) - 1 = int (cbuf_capacity cb - cbuf_used cb)"
    using u d by (simp add: cbuf_capacity_def of_nat_diff flip: uint_nat) (metis d length_cbuf_contents uint_nat)
  then have "cbuf_space_in_buf cb = of_nat (cbuf_capacity cb - cbuf_used cb)"
    by (simp only: cbuf_space_in_buf_def of_int_of_nat_eq)
  moreover have "cbuf_capacity cb - cbuf_used cb < 256"
    using unat_u8_bound [of "cb_blen cb"] unfolding cbuf_capacity_def by linarith
  ultimately show "unat (cbuf_space_in_buf cb) = cbuf_capacity cb - length (cbuf_contents cb)"
    by (simp add: unat_of_nat)
  have "(uint (cb_head cb) + 1) smod uint (cb_blen cb) = uint (cb_tail cb) \<longleftrightarrow>
      Suc (unat (cb_head cb)) mod unat (cb_blen cb) = unat (cb_tail cb)"
    unfolding uint_succ_smod_u8 by (metis of_nat_eq_iff uint_nat)
  then show "is_cbuf_full cb \<longleftrightarrow> length (cbuf_contents cb) = cbuf_capacity cb"
    using cbuf_full_nat [OF assms] by (simp add: is_cbuf_full_def cbuf_capacity_def)
qed

text \<open>
  Counts.  On a well-formed buffer \<open>cbuf_data_in_buf\<close> is the number of bytes stored,
  \<open>cbuf_space_in_buf\<close> the number that still fit, and the empty and full tests agree with them.
\<close>

theorem cbuf_counts_agree:
  assumes "cbuf_wf cb"
  shows "unat (cbuf_data_in_buf cb) = length (cbuf_contents cb) \<and>
    unat (cbuf_space_in_buf cb) = cbuf_capacity cb - length (cbuf_contents cb) \<and>
    (is_cbuf_emtpy cb \<longleftrightarrow> cbuf_contents cb = []) \<and>
    (is_cbuf_full cb \<longleftrightarrow> length (cbuf_contents cb) = cbuf_capacity cb)"
  by (intro conjI cbuf_count_facts assms)

theorem cbuf_counts_agree_witness:
  "cbuf_wf cbuf_demo \<and> unat (cbuf_space_in_buf (cbuf_append cbuf_demo 9)) = 1"
  using cbuf_counts_agree [OF cbuf_append_wf [OF cbuf_demo_facts(1)], of 9] cbuf_demo_facts
    cbuf_append_contents [OF cbuf_demo_facts(1), of 9]
  by (simp del: length_cbuf_contents)

end
