(* ===== verification/Xbee_Cbuf.thy ===== *)
theory Xbee_Cbuf
  imports Byte_Queue
begin

text \<open>
  The circular buffer of \<open>pxbee/pan/xbee/xbee_cbuf.c\<close> (serial receive buffers, the OTA client
  and the transparent serial cluster): its size is \<open>2 ^ k - 1\<close> and indices wrap by masking.
  Bytes are written at the tail and read at the head.  The index arithmetic is the code's
  \<open>int\<close> arithmetic followed by a mask of at most 255, for which 8-bit arithmetic gives the
  same value.
\<close>

section \<open>The code\<close>

record xbee_cbuf =
  xc_lock :: u8
  xc_head :: u8
  xc_tail :: u8
  xc_mask :: u8
  xc_data :: "u8 list"

text \<open>\<open>None\<close> is the null pointer.\<close>

definition xbee_cbuf_init :: "xbee_cbuf option \<Rightarrow> u8 \<Rightarrow> (errno + unit) \<times> xbee_cbuf option" where
  "xbee_cbuf_init cbuf datasize =
     (case cbuf of
        None \<Rightarrow> (Inl EINVAL, None)
      | Some cb \<Rightarrow>
          if datasize < 3 \<or> datasize AND (datasize + 1) \<noteq> 0 then (Inl EINVAL, Some cb)
          else (Inr (), Some (cb\<lparr>xc_mask := datasize, xc_lock := 0, xc_head := 0, xc_tail := 0\<rparr>)))"

definition xbee_cbuf_putch :: "xbee_cbuf \<Rightarrow> u8 \<Rightarrow> int \<times> xbee_cbuf" where
  "xbee_cbuf_putch cb ch =
     (let t = xc_tail cb;
          cb = cb\<lparr>xc_data := (xc_data cb)[unat t := ch]\<rparr>;
          t = (t + 1) AND xc_mask cb
      in if t = xc_head cb then (0, cb) else (1, cb\<lparr>xc_tail := t\<rparr>))"

definition xbee_cbuf_getch :: "xbee_cbuf \<Rightarrow> int \<times> xbee_cbuf" where
  "xbee_cbuf_getch cb =
     (let h = xc_head cb
      in if h = xc_tail cb then (-1, cb)
         else let retval = xc_data cb ! unat h
              in (uint retval, cb\<lparr>xc_head := (h + 1) AND xc_mask cb\<rparr>))"

definition xbee_cbuf_used :: "xbee_cbuf \<Rightarrow> u8" where
  "xbee_cbuf_used cb = (xc_tail cb - xc_head cb) AND xc_mask cb"

definition xbee_cbuf_free :: "xbee_cbuf \<Rightarrow> u8" where
  "xbee_cbuf_free cb = (xc_head cb - xc_tail cb - 1) AND xc_mask cb"

definition xbee_cbuf_flush :: "xbee_cbuf \<Rightarrow> xbee_cbuf" where
  "xbee_cbuf_flush cb = cb\<lparr>xc_head := xc_tail cb\<rparr>"

text \<open>
  The copy loops.  \<open>copy\<close> counts down from the requested length; the result is the number of
  bytes not copied.
\<close>

fun xbee_cbuf_put_loop :: "xbee_cbuf \<Rightarrow> u8 \<Rightarrow> u8 list \<Rightarrow> nat \<Rightarrow> nat \<times> xbee_cbuf" where
  "xbee_cbuf_put_loop cb stop buffer 0 = (0, cb)"
| "xbee_cbuf_put_loop cb stop buffer (Suc copy) =
     (if xc_tail cb \<noteq> stop
      then xbee_cbuf_put_loop
             (cb\<lparr>xc_data := (xc_data cb)[unat (xc_tail cb) := hd buffer],
                 xc_tail := (xc_tail cb + 1) AND xc_mask cb\<rparr>) stop (tl buffer) copy
      else (Suc copy, cb))"

definition xbee_cbuf_put :: "xbee_cbuf \<Rightarrow> u8 list \<Rightarrow> u8 \<Rightarrow> u8 \<times> xbee_cbuf" where
  "xbee_cbuf_put cb buffer len =
     (let stop = (xc_head cb - 1) AND xc_mask cb
      in case xbee_cbuf_put_loop cb stop buffer (unat len) of
           (copy, cb') \<Rightarrow> (len - of_nat copy, cb'))"

fun xbee_cbuf_get_loop :: "xbee_cbuf \<Rightarrow> nat \<Rightarrow> nat \<times> u8 list \<times> xbee_cbuf" where
  "xbee_cbuf_get_loop cb 0 = (0, [], cb)"
| "xbee_cbuf_get_loop cb (Suc copy) =
     (if xc_head cb \<noteq> xc_tail cb
      then case xbee_cbuf_get_loop (cb\<lparr>xc_head := (xc_head cb + 1) AND xc_mask cb\<rparr>) copy of
             (rest, out, cb') \<Rightarrow> (rest, xc_data cb ! unat (xc_head cb) # out, cb')
      else (Suc copy, [], cb))"

text \<open>The bytes stored through the output pointer are the second component.\<close>

definition xbee_cbuf_get :: "xbee_cbuf \<Rightarrow> u8 \<Rightarrow> u8 \<times> u8 list \<times> xbee_cbuf" where
  "xbee_cbuf_get cb len =
     (case xbee_cbuf_get_loop cb (unat len) of (copy, out, cb') \<Rightarrow> (len - of_nat copy, out, cb'))"

section \<open>Well-formedness and contents\<close>

definition xcb_size :: "xbee_cbuf \<Rightarrow> nat" where
  "xcb_size cb = Suc (unat (xc_mask cb))"

definition xcb_wf :: "xbee_cbuf \<Rightarrow> bool" where
  "xcb_wf cb \<longleftrightarrow> xc_mask cb AND (xc_mask cb + 1) = 0 \<and> xc_head cb \<le> xc_mask cb \<and>
     xc_tail cb \<le> xc_mask cb \<and> xcb_size cb \<le> length (xc_data cb)"

definition xcb_count :: "xbee_cbuf \<Rightarrow> nat" where
  "xcb_count cb = (xcb_size cb + unat (xc_tail cb) - unat (xc_head cb)) mod xcb_size cb"

definition xcb_contents :: "xbee_cbuf \<Rightarrow> u8 list" where
  "xcb_contents cb = ring_list (xc_data cb) (xcb_size cb) (unat (xc_head cb)) (xcb_count cb)"

definition xcb_capacity :: "xbee_cbuf \<Rightarrow> nat" where
  "xcb_capacity cb = unat (xc_mask cb)"

text \<open>
  The sizes \<open>xbee_cbuf_init\<close> accepts are the powers of two less one: the test
  \<open>datasize & (datasize + 1)\<close>, checked over all 256 bytes.
\<close>

lemma pow2_mask_bytes:
  "list_all (\<lambda>n. (of_nat n :: u8) AND (of_nat n + 1) \<noteq> 0 \<or>
     n \<in> set [0, 1, 3, 7, 15, 31, 63, 127, 255]) [0..<256]"
  by code_simp

lemma pow2_mask_cases:
  fixes m :: u8
  assumes "m AND (m + 1) = 0"
  obtains k where "Suc (unat m) = 2 ^ k"
proof -
  have "unat m \<in> set [0, 1, 3, 7, 15, 31, 63, 127, 255]"
    using pow2_mask_bytes assms unat_u8_bound [of m]
    by (auto simp: list_all_iff simp del: unat_u8_bound dest!: bspec [of _ _ "unat m"])
  then have "\<exists>k\<in>{0, 1, 2, 3, 4, 5, 6, 7, 8}. Suc (unat m) = 2 ^ k" by auto
  then show ?thesis using that by blast
qed

lemma xcb_and_mask:
  assumes "xcb_wf cb"
  shows "unat (x AND xc_mask cb) = unat x mod xcb_size cb"
proof -
  from assms have "xc_mask cb AND (xc_mask cb + 1) = 0" by (simp add: xcb_wf_def)
  then obtain k where "Suc (unat (xc_mask cb)) = 2 ^ k" by (rule pow2_mask_cases)
  then show ?thesis unfolding xcb_size_def by (rule unat_and_pow2_mask)
qed

lemma xcb_size_dvd:
  assumes "xcb_wf cb"
  shows "xcb_size cb dvd 256"
proof -
  from assms have "xc_mask cb AND (xc_mask cb + 1) = 0" by (simp add: xcb_wf_def)
  then obtain k where k: "Suc (unat (xc_mask cb)) = 2 ^ k" by (rule pow2_mask_cases)
  then have "(2::nat) ^ k \<le> 2 ^ 8" using Suc_leI [OF unat_u8_bound [of "xc_mask cb"]] by simp
  then have "k \<le> 8" by (simp only: power_increasing_iff)
  then have "(2::nat) ^ k dvd 2 ^ 8" by (rule le_imp_power_dvd)
  then show ?thesis using k by (simp add: xcb_size_def)
qed

lemma xcb_wf_nat:
  "xcb_wf cb \<Longrightarrow> unat (xc_head cb) < xcb_size cb \<and> unat (xc_tail cb) < xcb_size cb \<and>
     xcb_size cb \<le> length (xc_data cb)"
  by (auto simp: xcb_wf_def xcb_size_def word_le_nat_alt)

lemma xcb_wf_update:
  assumes "xcb_wf cb"
  shows "xcb_wf (cb\<lparr>xc_data := (xc_data cb)[i := x]\<rparr>)"
    "xcb_wf (cb\<lparr>xc_tail := t AND xc_mask cb\<rparr>)"
    "xcb_wf (cb\<lparr>xc_head := t AND xc_mask cb\<rparr>)"
    "xcb_wf (cb\<lparr>xc_head := xc_tail cb\<rparr>)"
  using assms by (auto simp: xcb_wf_def xcb_size_def word_and_le1)

text \<open>Index successor, predecessor and distance, read as numbers modulo the ring size.\<close>

lemma xcb_succ:
  assumes "xcb_wf cb"
  shows "unat ((x + 1) AND xc_mask cb) = Suc (unat x) mod xcb_size cb"
proof -
  have "unat ((x + 1) AND xc_mask cb) = (Suc (unat x) mod 256) mod xcb_size cb"
    using assms by (simp add: xcb_and_mask unat_word_ariths)
  then show ?thesis using xcb_size_dvd [OF assms] by (simp add: mod_mod_cancel)
qed

lemma xcb_diff:
  assumes "xcb_wf cb" "unat x < xcb_size cb" "unat y < xcb_size cb"
  shows "unat ((x - y) AND xc_mask cb) = (xcb_size cb + unat x - unat y) mod xcb_size cb"
proof -
  have "unat (x - y) = (256 + unat x - unat y) mod 256"
    unfolding ring_count_if [OF unat_u8_bound unat_u8_bound]
    by (simp add: unat_sub_if_size word_size) arith
  then have "unat ((x - y) AND xc_mask cb) = (256 + unat x - unat y) mod xcb_size cb"
    using assms xcb_size_dvd [OF assms(1)] by (simp add: xcb_and_mask mod_mod_cancel)
  moreover obtain d where "256 = xcb_size cb * d"
    using xcb_size_dvd [OF assms(1)] by (blast elim: dvdE)
  moreover from this obtain e where "d = Suc e" by (cases d) auto
  ultimately have "unat ((x - y) AND xc_mask cb)
      = ((xcb_size cb + unat x - unat y) + xcb_size cb * e) mod xcb_size cb"
    using assms(3) by (simp add: algebra_simps)
  then show ?thesis by simp
qed

lemma unat_xbee_cbuf_used: "xcb_wf cb \<Longrightarrow> unat (xbee_cbuf_used cb) = xcb_count cb"
  using xcb_wf_nat [of cb] by (simp add: xbee_cbuf_used_def xcb_count_def xcb_diff)

lemma xcb_count_less: "xcb_wf cb \<Longrightarrow> xcb_count cb < xcb_size cb"
  by (simp add: xcb_count_def xcb_size_def)

lemma length_xcb_contents [simp]: "length (xcb_contents cb) = xcb_count cb"
  by (simp add: xcb_contents_def)

section \<open>The operations as queue operations\<close>

lemma xcb_empty_iff: "xcb_wf cb \<Longrightarrow> xcb_count cb = 0 \<longleftrightarrow> xc_head cb = xc_tail cb"
  using xcb_wf_nat [of cb]
  by (auto simp: xcb_count_def ring_count_if word_unat_eq_iff split: if_splits)

lemma xcb_tail_eq:
  "xcb_wf cb \<Longrightarrow> (unat (xc_head cb) + xcb_count cb) mod xcb_size cb = unat (xc_tail cb)"
  unfolding xcb_count_def by (rule ring_used_mod) (simp_all add: xcb_wf_nat)

lemma xcb_full_iff:
  assumes "xcb_wf cb"
  shows "(xc_tail cb + 1) AND xc_mask cb = xc_head cb \<longleftrightarrow> xcb_count cb = xcb_capacity cb"
proof -
  let ?n = "xcb_size cb" and ?h = "unat (xc_head cb)" and ?t = "unat (xc_tail cb)"
  have wf: "?h < ?n" "?t < ?n" using xcb_wf_nat [OF assms] by simp_all
  have "(xc_tail cb + 1) AND xc_mask cb = xc_head cb \<longleftrightarrow> Suc ?t mod ?n = ?h"
    using assms by (simp add: word_unat_eq_iff xcb_succ)
  also have "\<dots> \<longleftrightarrow> xcb_count cb = ?n - 1"
    unfolding xcb_count_def using wf by (simp add: ring_count_if Suc_mod_if) arith
  finally show ?thesis by (simp add: xcb_capacity_def xcb_size_def)
qed

lemma xcb_write_free:
  assumes "xcb_wf cb"
  shows "xcb_contents (cb\<lparr>xc_data := (xc_data cb)[unat (xc_tail cb) := x]\<rparr>) = xcb_contents cb"
proof -
  have "xcb_contents (cb\<lparr>xc_data := (xc_data cb)[unat (xc_tail cb) := x]\<rparr>)
      = ring_list ((xc_data cb)[unat (xc_tail cb) := x]) (xcb_size cb) (unat (xc_head cb)) (xcb_count cb)"
    by (simp add: xcb_contents_def xcb_count_def xcb_size_def)
  also have "\<dots> = xcb_contents cb"
    using ring_list_write_outside [OF xcb_count_less [OF assms], of "xc_data cb" "unat (xc_head cb)" x]
    by (simp add: xcb_tail_eq assms xcb_contents_def)
  finally show ?thesis .
qed

lemma xcb_write_advance:
  assumes "xcb_wf cb" "xcb_count cb < xcb_capacity cb"
  shows "xcb_contents (cb\<lparr>xc_data := (xc_data cb)[unat (xc_tail cb) := x],
      xc_tail := (xc_tail cb + 1) AND xc_mask cb\<rparr>) = xcb_contents cb @ [x]" (is "xcb_contents ?cb = _")
proof -
  let ?n = "xcb_size cb" and ?h = "unat (xc_head cb)" and ?u = "xcb_count cb"
  have u: "Suc ?u < ?n" using assms by (simp add: xcb_capacity_def xcb_size_def)
  have sz: "xcb_size ?cb = ?n" by (simp add: xcb_size_def)
  have "unat (xc_tail ?cb) = (?h + Suc ?u) mod ?n"
    using xcb_tail_eq [OF assms(1)] by (simp add: xcb_succ assms) (metis mod_Suc_eq)
  then have "xcb_count ?cb = (?n + (?h + Suc ?u) mod ?n - ?h) mod ?n"
    unfolding xcb_count_def sz by simp
  also have "\<dots> = Suc ?u"
    using u xcb_wf_nat [OF assms(1)] by (intro ring_count_add) simp_all
  finally have "xcb_contents ?cb = ring_list ((xc_data cb)[(?h + ?u) mod ?n := x]) ?n ?h (Suc ?u)"
    unfolding xcb_contents_def sz using xcb_tail_eq [OF assms(1)] by simp
  also have "\<dots> = xcb_contents cb @ [x]"
    unfolding xcb_contents_def using u xcb_wf_nat [OF assms(1)] by (intro ring_list_snoc) simp_all
  finally show ?thesis .
qed

definition xcb_push :: "xbee_cbuf \<Rightarrow> u8 \<Rightarrow> xbee_cbuf" where
  "xcb_push cb x = snd (xbee_cbuf_putch cb x)"

definition xcb_pop :: "xbee_cbuf \<Rightarrow> u8 option \<times> xbee_cbuf" where
  "xcb_pop cb = (case xbee_cbuf_getch cb of (r, cb') \<Rightarrow> (if r < 0 then None else Some (word_of_int r), cb'))"

lemma xbee_cbuf_putch_result:
  "xcb_wf cb \<Longrightarrow> fst (xbee_cbuf_putch cb x) = (if xcb_count cb < xcb_capacity cb then 1 else 0)"
  using xcb_full_iff [of cb] xcb_count_less [of cb]
  by (auto simp: xbee_cbuf_putch_def Let_def xcb_size_def xcb_capacity_def)

lemma xcb_push_facts:
  assumes "xcb_wf cb"
  shows "xcb_wf (xcb_push cb x)" "xcb_capacity (xcb_push cb x) = xcb_capacity cb"
    "xcb_contents (xcb_push cb x) =
      (if length (xcb_contents cb) < xcb_capacity cb then xcb_contents cb @ [x] else xcb_contents cb)"
proof -
  have wf: "xcb_wf (cb\<lparr>xc_data := (xc_data cb)[unat (xc_tail cb) := x]\<rparr>)"
    using assms by (rule xcb_wf_update)
  show "xcb_wf (xcb_push cb x)"
    using wf xcb_wf_update(2) [OF wf, of "xc_tail cb + 1"]
    by (simp add: xcb_push_def xbee_cbuf_putch_def Let_def)
  show "xcb_capacity (xcb_push cb x) = xcb_capacity cb"
    by (simp add: xcb_push_def xbee_cbuf_putch_def Let_def xcb_capacity_def)
  show "xcb_contents (xcb_push cb x) =
      (if length (xcb_contents cb) < xcb_capacity cb then xcb_contents cb @ [x] else xcb_contents cb)"
    using xcb_full_iff [OF assms] xcb_write_free [OF assms, of x] xcb_write_advance [OF assms, of x]
      xcb_count_less [OF assms]
    by (auto simp: xcb_push_def xbee_cbuf_putch_def Let_def xcb_size_def xcb_capacity_def)
qed

lemma xcb_advance_head:
  assumes "xcb_wf cb" "xc_head cb \<noteq> xc_tail cb"
  shows "xcb_contents cb = xc_data cb ! unat (xc_head cb) #
    xcb_contents (cb\<lparr>xc_head := (xc_head cb + 1) AND xc_mask cb\<rparr>)" (is "_ = _ # xcb_contents ?cb")
proof -
  let ?n = "xcb_size cb" and ?h = "unat (xc_head cb)" and ?t = "unat (xc_tail cb)"
  have sz: "xcb_size ?cb = ?n" by (simp add: xcb_size_def)
  have h: "unat (xc_head ?cb) = Suc ?h mod ?n" by (simp add: xcb_succ assms)
  have "xcb_count cb = Suc ((?n + ?t - Suc ?h mod ?n) mod ?n)"
    unfolding xcb_count_def using xcb_wf_nat [OF assms(1)] assms(2)
    by (intro ring_count_Suc_tail) (auto simp: word_unat_eq_iff)
  then have "xcb_count cb = Suc (xcb_count ?cb)"
    unfolding xcb_count_def sz h by simp
  then show ?thesis
    unfolding xcb_contents_def sz h using xcb_wf_nat [OF assms(1)] by (simp add: ring_list_Suc)
qed

lemma xcb_pop_eq:
  "xcb_pop cb = (if xc_head cb = xc_tail cb then (None, cb)
    else (Some (xc_data cb ! unat (xc_head cb)), cb\<lparr>xc_head := (xc_head cb + 1) AND xc_mask cb\<rparr>))"
  by (simp add: xcb_pop_def xbee_cbuf_getch_def Let_def)

interpretation xcq: byte_queue xcb_wf xcb_contents xcb_capacity xcb_push xcb_pop
proof unfold_locales
  fix s assume wf: "xcb_wf s"
  show "length (xcb_contents s) \<le> xcb_capacity s"
    using xcb_count_less [OF wf] by (simp add: xcb_capacity_def xcb_size_def)
  have "fst (xcb_pop s) = (case xcb_contents s of [] \<Rightarrow> None | x # _ \<Rightarrow> Some x) \<and>
    xcb_contents (snd (xcb_pop s)) = tl (xcb_contents s)"
  proof (cases "xc_head s = xc_tail s")
    case True
    then have "xcb_contents s = []"
      using xcb_empty_iff [OF wf] by (metis length_xcb_contents length_0_conv)
    then show ?thesis using True by (simp add: xcb_pop_eq)
  next
    case False
    show ?thesis by (subst (1 2) xcb_advance_head [OF wf False]) (simp add: xcb_pop_eq False)
  qed
  then show "fst (xcb_pop s) = (case xcb_contents s of [] \<Rightarrow> None | x # _ \<Rightarrow> Some x)"
    and "xcb_contents (snd (xcb_pop s)) = tl (xcb_contents s)" by blast+
  show "xcb_wf (snd (xcb_pop s))"
    using wf xcb_wf_update(3) [OF wf] by (simp add: xcb_pop_eq)
  show "xcb_capacity (snd (xcb_pop s)) = xcb_capacity s"
    by (simp add: xcb_pop_eq xcb_capacity_def)
qed (simp_all add: xcb_push_facts del: length_xcb_contents)

section \<open>Bulk operations and counts\<close>

lemma xcb_stop_iff:
  assumes "xcb_wf cb"
  shows "xc_tail cb = (xc_head cb - 1) AND xc_mask cb \<longleftrightarrow> xcb_count cb = xcb_capacity cb"
proof -
  let ?n = "xcb_size cb" and ?h = "unat (xc_head cb)" and ?t = "unat (xc_tail cb)"
  have wf: "?h < ?n" "?t < ?n" using xcb_wf_nat [OF assms] by simp_all
  show ?thesis
  proof (cases "xc_mask cb = 0")
    case True
    then show ?thesis using wf
      by (simp add: xcb_size_def xcb_capacity_def xcb_count_def unat_0_iff)
  next
    case False
    then have "1 < ?n" by (simp add: xcb_size_def unat_gt_0)
    then have "unat ((xc_head cb - 1) AND xc_mask cb) = (?n + ?h - 1) mod ?n"
      using xcb_diff [OF assms wf(1), of 1] by simp
    then have "xc_tail cb = (xc_head cb - 1) AND xc_mask cb \<longleftrightarrow> ?t = (?n + ?h - 1) mod ?n"
      by (simp add: word_unat_eq_iff)
    also have "\<dots> \<longleftrightarrow> xcb_count cb = ?n - 1"
      unfolding xcb_count_def
      using wf \<open>1 < ?n\<close> ring_count_if [of ?h ?n 1] by (simp add: ring_count_if) arith
    finally show ?thesis by (simp add: xcb_capacity_def xcb_size_def)
  qed
qed

text \<open>Read as integers, masked differences are differences modulo the ring size.\<close>

lemma xcb_uint_and:
  assumes "xcb_wf cb"
  shows "uint (w AND xc_mask cb) = uint w mod int (xcb_size cb)"
proof -
  have "int (unat (w AND xc_mask cb)) = int (unat w) mod int (xcb_size cb)"
    using assms by (simp only: xcb_and_mask zmod_int)
  then show ?thesis by simp
qed

lemma mod_256_size:
  "xcb_wf cb \<Longrightarrow> i mod 256 mod int (xcb_size cb) = i mod int (xcb_size cb)"
  using xcb_size_dvd [of cb] by (intro mod_mod_cancel) (simp flip: int_dvd_int_iff)

lemma uint_xbee_cbuf_used:
  "xcb_wf cb \<Longrightarrow> uint (xbee_cbuf_used cb) = (uint (xc_tail cb) - uint (xc_head cb)) mod int (xcb_size cb)"
  by (simp add: xbee_cbuf_used_def xcb_uint_and uint_word_ariths mod_256_size)

lemma uint_xbee_cbuf_free:
  "xcb_wf cb \<Longrightarrow>
    uint (xbee_cbuf_free cb) = (uint (xc_head cb) - uint (xc_tail cb) - 1) mod int (xcb_size cb)"
  by (simp add: xbee_cbuf_free_def xcb_uint_and uint_word_ariths mod_256_size mod_simps)

lemma neg_pred_mod:
  fixes x n :: int
  assumes "0 < n"
  shows "(- x - 1) mod n = n - 1 - x mod n"
proof -
  have "- x - 1 = (n - 1 - x mod n) + n * (- (x div n) - 1)"
    using mult_div_mod_eq [of n x] by (simp add: algebra_simps)
  then have "(- x - 1) mod n = (n - 1 - x mod n) mod n"
    by (metis mod_mult_self2)
  also have "\<dots> = n - 1 - x mod n"
    using assms pos_mod_bound [OF assms, of x] pos_mod_sign [OF assms, of x] by simp
  finally show ?thesis .
qed

lemma xbee_cbuf_free_used:
  assumes "xcb_wf cb"
  shows "unat (xbee_cbuf_free cb) + unat (xbee_cbuf_used cb) = xcb_capacity cb"
proof -
  have pos: "0 < int (xcb_size cb)" by (simp only: xcb_size_def of_nat_0_less_iff zero_less_Suc)
  have "uint (xbee_cbuf_free cb) = int (xcb_size cb) - 1 - uint (xbee_cbuf_used cb)"
    using neg_pred_mod [OF pos, of "uint (xc_tail cb) - uint (xc_head cb)"]
    by (simp add: uint_xbee_cbuf_used uint_xbee_cbuf_free assms algebra_simps)
  then have "int (unat (xbee_cbuf_free cb) + unat (xbee_cbuf_used cb)) = int (xcb_capacity cb)"
    by (simp add: xcb_size_def xcb_capacity_def)
  then show ?thesis by (simp only: of_nat_eq_iff)
qed

text \<open>
  The bulk operations are the byte operations iterated: as many pushes as fit, as many pops
  as there are bytes.
\<close>

lemma xbee_cbuf_put_loop_correct:
  assumes "xcb_wf cb" "n \<le> length bs"
    "stop = (xc_head cb - 1) AND xc_mask cb" "xbee_cbuf_put_loop cb stop bs n = (r, cb')"
  shows "xcb_wf cb' \<and> xcb_capacity cb' = xcb_capacity cb \<and>
    n - r = min n (xcb_capacity cb - xcb_count cb) \<and> r \<le> n \<and>
    xcb_contents cb' = xcb_contents cb @ take (n - r) bs"
  using assms
proof (induction cb stop bs n arbitrary: r cb' rule: xbee_cbuf_put_loop.induct)
  case (1 cb stop buffer)
  then show ?case by simp
next
  case (2 cb stop buffer copy)
  note full = xcb_stop_iff [OF "2.prems"(1)] and wf = "2.prems"(1)
  show ?case
  proof (cases "xc_tail cb = stop")
    case True
    then show ?thesis using 2 full by auto
  next
    case False
    let ?cb = "cb\<lparr>xc_data := (xc_data cb)[unat (xc_tail cb) := hd buffer],
                 xc_tail := (xc_tail cb + 1) AND xc_mask cb\<rparr>"
    from "2.prems"(2) obtain b bs where buffer: "buffer = b # bs" "copy \<le> length bs"
      by (cases buffer) auto
    have lt: "xcb_count cb < xcb_capacity cb"
      using False full "2.prems"(3) xcb_count_less [OF wf] by (auto simp: xcb_capacity_def xcb_size_def)
    have wf': "xcb_wf ?cb"
      using xcb_wf_update(2) [OF xcb_wf_update(1) [OF wf, of "unat (xc_tail cb)" "hd buffer"], of "xc_tail cb + 1"]
      by simp
    have c: "xcb_contents ?cb = xcb_contents cb @ [b]"
      using xcb_write_advance [OF wf lt, of b] buffer by simp
    then have n: "xcb_count ?cb = Suc (xcb_count cb)" 
      using length_xcb_contents by (metis length_append_singleton)
    have cap: "xcb_capacity ?cb = xcb_capacity cb" by (simp add: xcb_capacity_def)
    have ih: "xcb_wf cb' \<and> xcb_capacity cb' = xcb_capacity ?cb \<and>
      copy - r = min copy (xcb_capacity ?cb - xcb_count ?cb) \<and> r \<le> copy \<and>
      xcb_contents cb' = xcb_contents ?cb @ take (copy - r) bs"
      using "2.IH" [OF False wf'] "2.prems" False buffer by simp
    then show ?thesis
      unfolding cap n c using lt buffer by (auto simp: Suc_diff_le)
  qed
qed

lemma xbee_cbuf_get_loop_correct:
  assumes "xcb_wf cb" "xbee_cbuf_get_loop cb n = (r, out, cb')"
  shows "xcb_wf cb' \<and> n - r = min n (xcb_count cb) \<and> r \<le> n \<and>
    out = take n (xcb_contents cb) \<and> xcb_contents cb' = drop n (xcb_contents cb)"
  using assms
proof (induction cb n arbitrary: r out cb' rule: xbee_cbuf_get_loop.induct)
  case (1 cb)
  then show ?case by simp
next
  case (2 cb copy)
  note wf = "2.prems"(1)
  show ?case
  proof (cases "xc_head cb = xc_tail cb")
    case True
    then have "xcb_count cb = 0" "xcb_contents cb = []"
      using xcb_empty_iff [OF wf] by (simp, metis length_xcb_contents length_0_conv)
    then show ?thesis using 2 True by auto
  next
    case False
    let ?cb = "cb\<lparr>xc_head := (xc_head cb + 1) AND xc_mask cb\<rparr>"
    obtain rest out' where rec: "xbee_cbuf_get_loop ?cb copy = (rest, out', cb')"
      and out: "r = rest" "out = xc_data cb ! unat (xc_head cb) # out'"
      using "2.prems"(2) False by (auto split: prod.splits)
    have c: "xcb_contents cb = xc_data cb ! unat (xc_head cb) # xcb_contents ?cb"
      using xcb_advance_head [OF wf False] .
    then have n: "xcb_count cb = Suc (xcb_count ?cb)"
      using length_xcb_contents by (metis length_Cons)
    show ?thesis
      using "2.IH" [OF False xcb_wf_update(3) [OF wf] rec]
      unfolding c n out by auto
  qed
qed

lemma xbee_cbuf_put_facts:
  assumes "xcb_wf cb" "unat len \<le> length bs" "xbee_cbuf_put cb bs len = (n, cb')"
  shows "unat n = min (unat len) (unat (xbee_cbuf_free cb))"
    and "xcb_contents cb' = xcb_contents cb @ take (unat n) bs"
    and "xcb_wf cb'" and "unat (xbee_cbuf_free cb') = unat (xbee_cbuf_free cb) - unat n"
proof -
  obtain r where loop: "xbee_cbuf_put_loop cb ((xc_head cb - 1) AND xc_mask cb) bs (unat len) = (r, cb')"
    and n: "n = len - of_nat r"
    using assms(3) by (auto simp: xbee_cbuf_put_def Let_def split: prod.splits)
  note c = xbee_cbuf_put_loop_correct [OF assms(1,2) refl loop]
  have free: "xcb_capacity cb - xcb_count cb = unat (xbee_cbuf_free cb)"
    using xbee_cbuf_free_used [OF assms(1)] unat_xbee_cbuf_used [OF assms(1)] by simp
  have "r < 256" using c unat_u8_bound [of len] by linarith
  then have "unat (of_nat r :: u8) = r" by (simp add: unat_of_nat)
  then have un: "unat n = unat len - r"
    using c by (simp add: n unat_sub_if_size)
  then show n': "unat n = min (unat len) (unat (xbee_cbuf_free cb))"
    using c free by simp
  show cont: "xcb_contents cb' = xcb_contents cb @ take (unat n) bs"
    using c un by simp
  show wf: "xcb_wf cb'" using c by blast
  have "xcb_count cb' = xcb_count cb + unat n"
    using arg_cong [OF cont, of length] assms(2) n' by simp
  then show "unat (xbee_cbuf_free cb') = unat (xbee_cbuf_free cb) - unat n"
    using xbee_cbuf_free_used [OF wf] unat_xbee_cbuf_used [OF wf] c free by simp
qed

text \<open>
  Bulk write.  \<open>xbee_cbuf_put\<close> stores exactly as many of the requested bytes as fit, reports
  that number, appends precisely those bytes in order, and keeps the buffer well formed.
\<close>

theorem xbee_cbuf_put_correct:
  assumes "xcb_wf cb" "unat len \<le> length bs" "xbee_cbuf_put cb bs len = (n, cb')"
  shows "unat n = min (unat len) (unat (xbee_cbuf_free cb)) \<and>
    xcb_contents cb' = xcb_contents cb @ take (unat n) bs \<and>
    xcb_wf cb' \<and> unat (xbee_cbuf_free cb') = unat (xbee_cbuf_free cb) - unat n"
  by (intro conjI xbee_cbuf_put_facts [OF assms])

definition xcb_demo :: xbee_cbuf where
  "xcb_demo = \<lparr>xc_lock = 0, xc_head = 2, xc_tail = 3, xc_mask = 3, xc_data = [9, 8, 7, 6]\<rparr>"

lemma xcb_demo_wf: "xcb_wf xcb_demo"
  by (simp add: xcb_wf_def xcb_demo_def xcb_size_def)

lemma xcb_demo_put: "xbee_cbuf_put xcb_demo [1, 2, 3] 3 =
   (2, \<lparr>xc_lock = 0, xc_head = 2, xc_tail = 1, xc_mask = 3, xc_data = [2, 8, 7, 1]\<rparr>)"
  by code_simp

theorem xbee_cbuf_put_correct_witness:
  "xcb_wf xcb_demo \<and> unat (3 :: u8) \<le> length [1, 2, 3 :: u8] \<and>
   unat (fst (xbee_cbuf_put xcb_demo [1, 2, 3] 3)) = min 3 (unat (xbee_cbuf_free xcb_demo))"
  using xbee_cbuf_put_correct [OF xcb_demo_wf _ xcb_demo_put] xcb_demo_wf
  by (simp add: xcb_demo_put)

lemma xbee_cbuf_get_facts:
  assumes "xcb_wf cb" "xbee_cbuf_get cb len = (n, out, cb')"
  shows "unat n = min (unat len) (unat (xbee_cbuf_used cb))"
    and "out = take (unat n) (xcb_contents cb)"
    and "xcb_contents cb' = drop (unat n) (xcb_contents cb)" and "xcb_wf cb'"
proof -
  obtain r where loop: "xbee_cbuf_get_loop cb (unat len) = (r, out, cb')"
    and n: "n = len - of_nat r"
    using assms(2) by (auto simp: xbee_cbuf_get_def split: prod.splits)
  note c = xbee_cbuf_get_loop_correct [OF assms(1) loop]
  have "r < 256" using c unat_u8_bound [of len] by linarith
  then have "unat (of_nat r :: u8) = r" by (simp add: unat_of_nat)
  then have un: "unat n = unat len - r"
    using c by (simp add: n unat_sub_if_size)
  then show n': "unat n = min (unat len) (unat (xbee_cbuf_used cb))"
    using c unat_xbee_cbuf_used [OF assms(1)] by simp
  show "out = take (unat n) (xcb_contents cb)"
    and "xcb_contents cb' = drop (unat n) (xcb_contents cb)" and "xcb_wf cb'"
    using c n' unat_xbee_cbuf_used [OF assms(1)] by (auto simp: min_def)
qed

text \<open>
  Bulk read.  \<open>xbee_cbuf_get\<close> returns the oldest bytes in order, as many as requested or
  available, reports their number, and leaves the rest.
\<close>

theorem xbee_cbuf_get_correct:
  assumes "xcb_wf cb" "xbee_cbuf_get cb len = (n, out, cb')"
  shows "unat n = min (unat len) (unat (xbee_cbuf_used cb)) \<and>
    out = take (unat n) (xcb_contents cb) \<and>
    xcb_contents cb' = drop (unat n) (xcb_contents cb) \<and> xcb_wf cb'"
  by (intro conjI xbee_cbuf_get_facts [OF assms])

lemma xcb_demo_get: "xbee_cbuf_get xcb_demo 5 = (1, [7], xcb_demo\<lparr>xc_head := 3\<rparr>)"
  by code_simp

theorem xbee_cbuf_get_correct_witness:
  "xcb_wf xcb_demo \<and> fst (snd (xbee_cbuf_get xcb_demo 5)) = take 1 (xcb_contents xcb_demo)"
  using xbee_cbuf_get_correct [OF xcb_demo_wf xcb_demo_get] xcb_demo_wf
  by (simp add: xcb_demo_get)

text \<open>
  C31: Refinement.  Any sequence of \<open>xbee_cbuf_putch\<close> and \<open>xbee_cbuf_getch\<close> calls on a well-formed
  buffer returns what a first-in first-out queue bounded by the mask returns, and ends with the
  contents that queue has.
\<close>

theorem xbee_cbuf_refines_fifo:
  assumes "xcb_wf cb"
  shows "fst (run_ops xcb_push xcb_pop cb ops)
      = fst (fifo_run (xcb_capacity cb) (xcb_contents cb) ops) \<and>
    xcb_contents (snd (run_ops xcb_push xcb_pop cb ops))
      = snd (fifo_run (xcb_capacity cb) (xcb_contents cb) ops)"
  using assms by (rule xcq.run_ops_refines)

theorem xbee_cbuf_refines_fifo_witness:
  "xcb_wf xcb_demo \<and>
   fst (run_ops xcb_push xcb_pop xcb_demo [Put 5, Get, Get, Get])
     = fst (fifo_run 3 [7] [Put 5, Get, Get, Get])"
proof -
  have "xcb_capacity xcb_demo = 3" "xcb_contents xcb_demo = [7]"
    by (simp_all add: xcb_demo_def xcb_capacity_def xcb_contents_def xcb_count_def xcb_size_def ring_list_def)
  then show ?thesis using xbee_cbuf_refines_fifo [OF xcb_demo_wf] xcb_demo_wf by metis
qed

end
