(* ===== verification/Byte_Util.thy ===== *)
theory Byte_Util
  imports Pxbee_Prelude
begin

text \<open>
  The byte-level helpers of \<open>pxbee/pan/util\<close>, of the HCS08 platform file and of
  \<open>src/lib/utils.c\<close>: hexadecimal parsing, byte-order swaps, memory comparison, the CRC-16 of
  the Xmodem code and the length-prefixed string writer.  A C string is the list of its bytes
  without the terminating zero; reading at its end gives that zero.
\<close>

section \<open>C strings\<close>

definition cstr_deref :: "u8 list \<Rightarrow> u8" where
  "cstr_deref p = (case p of [] \<Rightarrow> 0 | c # _ \<Rightarrow> c)"

lemma cstr_deref_simps [simp]: "cstr_deref [] = 0" "cstr_deref (c # cs) = c"
  by (simp_all add: cstr_deref_def)

section \<open>Hexadecimal digits\<close>

text \<open>
  \<open>hexstrtobyte\<close> reads two characters; the loop counts down from 2.  Characters are compared
  with the ranges of digits and letters, so the signedness of \<open>char\<close> does not matter.
\<close>

fun hexstrtobyte_loop :: "nat \<Rightarrow> u8 \<Rightarrow> u8 list \<Rightarrow> int" where
  "hexstrtobyte_loop 0 b p = uint b"
| "hexstrtobyte_loop (Suc i) b p =
     (let b = push_bit 4 b; ch = cstr_deref p; p = tl p
      in if 0x30 \<le> ch \<and> ch \<le> 0x39 then hexstrtobyte_loop i (b + (ch - 0x30)) p
         else if 0x61 \<le> ch \<and> ch \<le> 0x66 then hexstrtobyte_loop i (b + (ch - (0x61 - 10))) p
         else if 0x41 \<le> ch \<and> ch \<le> 0x46 then hexstrtobyte_loop i (b + (ch - (0x41 - 10))) p
         else -1)"

definition hexstrtobyte :: "u8 list \<Rightarrow> int" where
  "hexstrtobyte p = hexstrtobyte_loop 2 0 p"

section \<open>Byte order\<close>

text \<open>\<open>swapbytes.c\<close>: the portable versions.\<close>

definition swap32 :: "u32 \<Rightarrow> u32" where
  "swap32 value =
     push_bit 24 (value AND 0x000000FF) OR push_bit 8 (value AND 0x0000FF00)
     OR drop_bit 8 (value AND 0x00FF0000) OR drop_bit 24 (value AND 0xFF000000)"

definition swap16 :: "u16 \<Rightarrow> u16" where
  "swap16 value = push_bit 8 (value AND 0x00FF) OR drop_bit 8 value"

text \<open>
  \<open>xbee_platform_hcs08.c\<close>: the assembler versions.  \<open>swap16\<close> pushes H then X and pops them
  into H and X, the last pushed first; \<open>swap32\<close> copies the bytes at stack offsets 3 to 6 (most
  significant first) to offsets 3 down to 0 of the result.
\<close>

definition swap16_hcs08 :: "u16 \<Rightarrow> u16" where
  "swap16_hcs08 value =
     (let h = (ucast (drop_bit 8 value) :: u8); x = (ucast value :: u8);
          stack = [x, h];
          h' = stack ! 0; x' = stack ! 1
      in word_cat h' x')"

definition swap32_hcs08 :: "u32 \<Rightarrow> u32" where
  "swap32_hcs08 value =
     (let param = [ucast (drop_bit 24 value), ucast (drop_bit 16 value), ucast (drop_bit 8 value), ucast value :: u8];
          ret = [0, 0, 0, 0 :: u8];
          ret = ret[3 := param ! 0];
          ret = ret[2 := param ! 1];
          ret = ret[1 := param ! 2];
          ret = ret[0 := param ! 3]
      in word_cat (word_cat (ret ! 0) (ret ! 1) :: u16) (word_cat (ret ! 2) (ret ! 3) :: u16))"

text \<open>
  \<open>_swapcpy\<close>: the source is read from its end downwards, the destination written upwards.
  The result is the list of bytes stored at the destination.
\<close>

fun swapcpy_loop :: "u8 list \<Rightarrow> nat \<Rightarrow> u8 list" where
  "swapcpy_loop src 0 = []"
| "swapcpy_loop src (Suc bytes) = src ! bytes # swapcpy_loop src bytes"

definition swapcpy :: "u8 list \<Rightarrow> u8 \<Rightarrow> u8 list" where
  "swapcpy src bytes = (if bytes \<noteq> 0 then swapcpy_loop src (unat bytes) else [])"

section \<open>Memory comparison\<close>

fun memcheck_loop :: "u8 list \<Rightarrow> u8 \<Rightarrow> nat \<Rightarrow> int" where
  "memcheck_loop s c 0 = 0"
| "memcheck_loop s c (Suc len) =
     (if hd s \<noteq> c then (if hd s > c then 1 else -1) else memcheck_loop (tl s) c len)"

definition memcheck :: "u8 list \<Rightarrow> int \<Rightarrow> u16 \<Rightarrow> int" where
  "memcheck src ch len = memcheck_loop src (word_of_int ch AND 0xFF) (unat len)"

section \<open>CRC-16\<close>

definition crc16_table :: "u16 list" where
  "crc16_table = [
     0, 4129, 8258, 12387, 16516, 20645, 24774, 28903,
     33032, 37161, 41290, 45419, 49548, 53677, 57806, 61935,
     4657, 528, 12915, 8786, 21173, 17044, 29431, 25302,
     37689, 33560, 45947, 41818, 54205, 50076, 62463, 58334,
     9314, 13379, 1056, 5121, 25830, 29895, 17572, 21637,
     42346, 46411, 34088, 38153, 58862, 62927, 50604, 54669,
     13907, 9842, 5649, 1584, 30423, 26358, 22165, 18100,
     46939, 42874, 38681, 34616, 63455, 59390, 55197, 51132,
     18628, 22757, 26758, 30887, 2112, 6241, 10242, 14371,
     51660, 55789, 59790, 63919, 35144, 39273, 43274, 47403,
     23285, 19156, 31415, 27286, 6769, 2640, 14899, 10770,
     56317, 52188, 64447, 60318, 39801, 35672, 47931, 43802,
     27814, 31879, 19684, 23749, 11298, 15363, 3168, 7233,
     60846, 64911, 52716, 56781, 44330, 48395, 36200, 40265,
     32407, 28342, 24277, 20212, 15891, 11826, 7761, 3696,
     65439, 61374, 57309, 53244, 48923, 44858, 40793, 36728,
     37256, 33193, 45514, 41451, 53516, 49453, 61774, 57711,
     4224, 161, 12482, 8419, 20484, 16421, 28742, 24679,
     33721, 37784, 41979, 46042, 49981, 54044, 58239, 62302,
     689, 4752, 8947, 13010, 16949, 21012, 25207, 29270,
     46570, 42443, 38312, 34185, 62830, 58703, 54572, 50445,
     13538, 9411, 5280, 1153, 29798, 25671, 21540, 17413,
     42971, 47098, 34713, 38840, 59231, 63358, 50973, 55100,
     9939, 14066, 1681, 5808, 26199, 30326, 17941, 22068,
     55628, 51565, 63758, 59695, 39368, 35305, 47498, 43435,
     22596, 18533, 30726, 26663, 6336, 2273, 14466, 10403,
     52093, 56156, 60223, 64286, 35833, 39896, 43963, 48026,
     19061, 23124, 27191, 31254, 2801, 6864, 10931, 14994,
     64814, 60687, 56684, 52557, 48554, 44427, 40424, 36297,
     31782, 27655, 23652, 19525, 15522, 11395, 7392, 3265,
     61215, 65342, 53085, 57212, 44955, 49082, 36825, 40952,
     28183, 32310, 20053, 24180, 11923, 16050, 3793, 7920
  ]"

fun crc16_loop :: "u8 list \<Rightarrow> nat \<Rightarrow> u16 \<Rightarrow> u16" where
  "crc16_loop bytes 0 current = current"
| "crc16_loop bytes (Suc len) current =
     crc16_loop (tl bytes) len
       (push_bit 8 current XOR crc16_table ! unat (drop_bit 8 current XOR ucast (hd bytes)))"

definition crc16_calc :: "u8 list \<Rightarrow> u16 \<Rightarrow> u16 \<Rightarrow> u16" where
  "crc16_calc data len current = crc16_loop data (unat len) current"

section \<open>Length-prefixed strings\<close>

text \<open>
  \<open>appendStringChar\<close> of \<open>src/lib/utils.c\<close>: the bytes written at \<open>dest\<close>; the returned pointer
  is just past them.  The length byte is the 16-bit count truncated to 8 bits.
\<close>

fun append_string_loop :: "u8 list \<Rightarrow> u16 \<Rightarrow> u8 list \<Rightarrow> u16 \<times> u8 list" where
  "append_string_loop [] len acc = (len, acc)"
| "append_string_loop (c # cs) len acc =
     (if c = 0 then (len, acc) else append_string_loop cs (len + 1) (acc @ [c]))"

definition appendStringChar :: "u8 list \<Rightarrow> u8 list" where
  "appendStringChar str =
     (case append_string_loop str 0 [] of (len, written) \<Rightarrow> ucast len # written)"

section \<open>Facts about the helpers\<close>

subsection \<open>Hexadecimal\<close>

text \<open>The value of a hexadecimal digit character of either case.\<close>

definition hex_value :: "u8 \<Rightarrow> nat option" where
  "hex_value ch =
     (if 0x30 \<le> ch \<and> ch \<le> 0x39 then Some (unat ch - 0x30)
      else if 0x61 \<le> ch \<and> ch \<le> 0x66 then Some (unat ch - 87)
      else if 0x41 \<le> ch \<and> ch \<le> 0x46 then Some (unat ch - 55)
      else None)"

lemma hex_value_bound: "hex_value c = Some v \<Longrightarrow> v < 16"
  by (auto simp: hex_value_def word_le_nat_alt split: if_splits)

lemma hex_value_NUL [simp]: "hex_value 0 = None"
  by (simp add: hex_value_def)

text \<open>One round of the loop, in terms of the digit value.\<close>

lemma hexstrtobyte_loop_step:
  "hexstrtobyte_loop (Suc i) b p =
     (case hex_value (cstr_deref p) of
        None \<Rightarrow> -1
      | Some v \<Rightarrow> hexstrtobyte_loop i (push_bit 4 b + of_nat v) (tl p))"
proof -
  define ch where "ch = cstr_deref p"
  have digit: "of_nat (unat ch - unat k) = ch - k" if "k \<le> ch" for k :: u8
    using that by (metis unat_sub of_nat_unat ucast_id)
  have "87 \<le> ch" if "0x61 \<le> ch" using that by (simp add: word_le_nat_alt)
  moreover have "55 \<le> ch" if "0x41 \<le> ch" using that by (simp add: word_le_nat_alt)
  ultimately show ?thesis
    using digit [of "0x30"] digit [of "87"] digit [of "55"]
    unfolding hexstrtobyte_loop.simps hex_value_def Let_def ch_def [symmetric]
    by auto
qed

lemma hexstrtobyte_eq:
  "hexstrtobyte p =
     (case hex_value (cstr_deref p) of None \<Rightarrow> -1
      | Some v \<Rightarrow> (case hex_value (cstr_deref (tl p)) of None \<Rightarrow> -1 | Some w \<Rightarrow> int (16 * v + w)))"
proof -
  have "uint (push_bit 4 (of_nat v) + of_nat w :: u8) = int (16 * v + w)"
    if "v < 16" "w < 16" for v w
  proof -
    have "push_bit 4 (of_nat v) + of_nat w = (of_nat (16 * v + w) :: u8)"
      by (simp add: push_bit_eq_mult)
    moreover have "16 * v + w < 256" using that by simp
    moreover have "unat (of_nat (16 * v + w) :: u8) = 16 * v + w"
      using calculation by (simp add: unat_of_nat del: of_nat_add of_nat_mult)
    ultimately show ?thesis by (simp only: uint_nat)
  qed
  then show ?thesis
    unfolding hexstrtobyte_def numeral_2_eq_2
    by (auto simp: hexstrtobyte_loop_step dest: hex_value_bound simp del: hexstrtobyte_loop.simps(2)
        split: option.splits)
qed

subsection \<open>Byte order\<close>

lemma byte_masks:
  "(0x00FF :: u16) = mask 8" "(0x000000FF :: u32) = mask 8"
  "(0x0000FF00 :: u32) = push_bit 8 (mask 8)" "(0x00FF0000 :: u32) = push_bit 16 (mask 8)"
  "(0xFF000000 :: u32) = push_bit 24 (mask 8)"
  by (simp_all add: mask_eq_exp_minus_1)

lemma swap16_eq: "swap16 v = word_cat (ucast v :: u8) (ucast (drop_bit 8 v) :: u8)"
  unfolding swap16_def byte_masks
  by (rule bit_word_eqI) (auto simp: bit_simps dest: bit_imp_le_length)

lemma swap32_eq:
  "swap32 v = word_cat (word_cat (ucast v :: u8) (ucast (drop_bit 8 v) :: u8) :: u16)
     (word_cat (ucast (drop_bit 16 v) :: u8) (ucast (drop_bit 24 v) :: u8) :: u16)"
  unfolding swap32_def byte_masks
  by (rule bit_word_eqI) (auto simp: bit_simps dest: bit_imp_le_length)

text \<open>
  The assembler byte swaps of the HCS08 platform compute what the portable C versions
  compute, and swapping twice gives the value back.
\<close>

theorem swap_hcs08_equiv:
  "swap16_hcs08 v = swap16 v \<and> swap32_hcs08 w = swap32 w \<and>
   swap16 (swap16 v) = v \<and> swap32 (swap32 w) = w"
proof (intro conjI)
  show "swap16_hcs08 v = swap16 v"
    by (simp add: swap16_hcs08_def swap16_eq Let_def)
  show "swap32_hcs08 w = swap32 w"
    by (simp add: swap32_hcs08_def swap32_eq Let_def)
  show "swap16 (swap16 v) = v"
    unfolding swap16_eq by (rule bit_word_eqI) (auto simp: bit_simps)
  show "swap32 (swap32 w) = w"
    unfolding swap32_eq by (rule bit_word_eqI) (auto simp: bit_simps)
qed

lemma append_string_loop_eq:
  "0 \<notin> set cs \<Longrightarrow> append_string_loop (cs @ 0 # rest) len acc = (len + of_nat (length cs), acc @ cs)"
  by (induction cs arbitrary: len acc) (auto simp: algebra_simps)

text \<open>
  Length-prefixed strings.  For a text without NUL, terminated by a NUL and shorter than the
  address space, \<open>appendStringChar\<close> writes one length byte and then the text.  The length byte
  is the length modulo 256: for texts of up to 255 bytes the reader gets the text back, a text
  of 256 bytes is announced as empty.
\<close>

theorem appendStringChar_prefixed:
  assumes "0 \<notin> set cs" and "length cs < 2 ^ 16"
  shows "\<exists>n. appendStringChar (cs @ 0 # rest) = n # cs \<and> unat n = length cs mod 256 \<and>
    (length cs \<le> 255 \<longrightarrow> take (unat n) (tl (appendStringChar (cs @ 0 # rest))) = cs)"
proof -
  have "unat (ucast (of_nat (length cs) :: u16) :: u8) = length cs mod 256"
    using assms(2) by (simp add: unsigned_ucast_eq unat_of_nat take_bit_eq_mod)
  then show ?thesis using assms(1) by (simp add: appendStringChar_def append_string_loop_eq)
qed

theorem appendStringChar_prefixed_witness:
  "\<exists>n. appendStringChar [72, 105, 0, 7] = n # [72, 105] \<and> unat n = 2"
  using appendStringChar_prefixed [of "[72, 105]" "[7]"] by auto

lemma swapcpy_loop_rev: "n \<le> length src \<Longrightarrow> swapcpy_loop src n = rev (take n src)"
  by (induction n) (simp_all add: take_Suc_conv_app_nth)

lemma swapcpy_rev: "unat bytes \<le> length src \<Longrightarrow> swapcpy src bytes = rev (take (unat bytes) src)"
  by (simp add: swapcpy_def swapcpy_loop_rev unat_gt_0)

subsection \<open>memcheck\<close>

lemma memcheck_loop_zero:
  "n \<le> length s \<Longrightarrow> memcheck_loop s c n = 0 \<longleftrightarrow> take n s = replicate n c"
proof (induction n arbitrary: s)
  case 0
  then show ?case by simp
next
  case (Suc n)
  then show ?case by (cases s) auto
qed

subsection \<open>CRC-16\<close>

text \<open>The reference: one bit at a time, polynomial 0x1021, most significant bit first.\<close>

definition crc16_bit :: "u16 \<Rightarrow> u16" where
  "crc16_bit c = (if bit c 15 then push_bit 1 c XOR 0x1021 else push_bit 1 c)"

definition crc16_byte :: "u16 \<Rightarrow> u16" where
  "crc16_byte c = (crc16_bit ^^ 8) c"

definition crc16_ref :: "u8 list \<Rightarrow> u16 \<Rightarrow> u16" where
  "crc16_ref bs c = foldl (\<lambda>c b. crc16_byte (c XOR push_bit 8 (ucast b))) c bs"

lemma crc16_bit_xor: "crc16_bit (x XOR y) = crc16_bit x XOR crc16_bit y"
  by (rule bit_word_eqI) (auto simp: crc16_bit_def bit_simps)

lemma crc16_byte_xor: "crc16_byte (x XOR y) = crc16_byte x XOR crc16_byte y"
  by (simp add: crc16_byte_def crc16_bit_xor numeral_eq_Suc)

lemma crc16_byte_unfold:
  "crc16_byte c = crc16_bit (crc16_bit (crc16_bit (crc16_bit
     (crc16_bit (crc16_bit (crc16_bit (crc16_bit c)))))))"
  by (simp add: crc16_byte_def numeral_eq_Suc)

lemma crc16_byte_0 [simp]: "crc16_byte 0 = 0"
  by (simp add: crc16_byte_unfold crc16_bit_def)

text \<open>The eight low bits just shift out.\<close>

lemma crc16_bit_funpow_low:
  fixes b :: u8
  shows "k \<le> 8 \<Longrightarrow> (crc16_bit ^^ k) (ucast b) = push_bit k (ucast b)"
proof (induction k)
  case 0
  then show ?case by simp
next
  case (Suc k)
  then have "\<not> bit (push_bit k (ucast b :: u16)) 15"
    by (auto simp: bit_simps dest: bit_imp_le_length)
  with Suc show ?case by (simp add: crc16_bit_def)
qed

text \<open>
  The table holds the reference value of every byte: entry \<open>2i\<close> is one reference step from
  entry \<open>i\<close>, and entry \<open>2i + 1\<close> adds the polynomial.
\<close>

fun pair_up :: "'a list \<Rightarrow> ('a \<times> 'a) list" where
  "pair_up (a # b # xs) = (a, b) # pair_up xs"
| "pair_up xs = []"

lemma crc16_table_doubling:
  "list_all (\<lambda>(t, a, b). a = crc16_bit t \<and> b = a XOR 0x1021)
     (zip crc16_table (pair_up crc16_table))"
  by (simp add: crc16_table_def crc16_bit_def)

lemma length_pair_up [simp]: "length (pair_up xs) = length xs div 2"
  by (induction xs rule: pair_up.induct) auto

lemma pair_up_nth: "i < length xs div 2 \<Longrightarrow> pair_up xs ! i = (xs ! (2 * i), xs ! Suc (2 * i))"
proof (induction xs arbitrary: i rule: pair_up.induct)
  case (1 a b xs)
  then show ?case by (cases i) auto
qed auto

lemma length_crc16_table [simp]: "length crc16_table = 256"
  by (simp add: crc16_table_def)

lemma crc16_table_step:
  assumes "i < 128"
  shows "crc16_table ! (2 * i) = crc16_bit (crc16_table ! i)"
    "crc16_table ! Suc (2 * i) = crc16_bit (crc16_table ! i) XOR 0x1021"
  using crc16_table_doubling assms
  by (auto simp: list_all_length pair_up_nth dest!: spec [of _ i])

lemma crc16_byte_bit: "crc16_byte (crc16_bit x) = crc16_bit (crc16_byte x)"
  by (simp add: crc16_byte_def funpow_swap1)

lemma push_bit_8_double:
  "i < 128 \<Longrightarrow> push_bit 8 (of_nat (2 * i) :: u16) = crc16_bit (push_bit 8 (of_nat i))"
proof -
  assume "i < 128"
  then have "\<not> bit (of_nat i :: u16) 7"
    unfolding bit_of_nat_iff by (simp add: bit_iff_odd)
  then have "\<not> bit (push_bit 8 (of_nat i) :: u16) 15"
    by (simp only: bit_push_bit_iff) simp
  moreover have "push_bit 8 (of_nat (2 * i) :: u16) = push_bit 1 (push_bit 8 (of_nat i))"
    by (simp add: push_bit_eq_mult)
  ultimately show ?thesis by (simp only: crc16_bit_def if_False)
qed

lemma crc16_table_nth: "i < 256 \<Longrightarrow> crc16_table ! i = crc16_byte (push_bit 8 (of_nat i))"
proof (induction i rule: less_induct)
  case (less i)
  show ?case
  proof (cases "i = 0")
    case True
    then show ?thesis by (simp add: crc16_table_def)
  next
    case False
    define j where "j = i div 2"
    then have j: "j < i" "j < 128" using False less.prems by auto
    then have step: "crc16_byte (push_bit 8 (of_nat (2 * j))) = crc16_bit (crc16_table ! j)"
      using less.IH [of j] by (simp only: push_bit_8_double crc16_byte_bit)
    show ?thesis
    proof (cases "even i")
      case True
      then have "i = 2 * j" by (simp add: j_def)
      then show ?thesis using step crc16_table_step(1) [OF j(2)] by simp
    next
      case False
      then have i: "i = Suc (2 * j)" by (simp add: j_def)
      have "(of_nat i :: u16) = of_nat (2 * j) XOR 1"
        unfolding i by (simp add: xor_one_eq even_iff_mod_2_eq_zero [symmetric])
      then have "push_bit 8 (of_nat i :: u16) = push_bit 8 (of_nat (2 * j)) XOR 0x100"
        by (simp only: push_bit_xor) simp
      moreover have "crc16_byte 0x100 = 0x1021"
        by (simp add: crc16_byte_unfold crc16_bit_def)
      ultimately show ?thesis
        using step crc16_table_step(2) [OF j(2)] by (simp only: crc16_byte_xor i)
    qed
  qed
qed

lemma unat_ucast_u8: "unat (ucast (b :: u8) :: u16) = unat b"
  using unat_u8_bound [of b]
  by (simp add: unsigned_ucast_eq take_bit_nat_eq_self_iff del: unat_u8_bound)

lemma crc16_step_eq:
  fixes c :: u16 and b :: u8
  shows "push_bit 8 c XOR crc16_table ! unat (drop_bit 8 c XOR ucast b)
    = crc16_byte (c XOR push_bit 8 (ucast b))"
proof -
  let ?i = "drop_bit 8 c XOR ucast b"
  have split: "c XOR push_bit 8 (ucast b) = push_bit 8 ?i XOR ucast (ucast c :: u8)"
    by (rule bit_word_eqI) (auto simp: bit_simps dest: bit_imp_le_length)
  have i: "?i = ucast (ucast ?i :: u8)"
    by (rule bit_word_eqI) (auto simp: bit_simps dest: bit_imp_le_length)
  then have "unat ?i < 256"
    by (metis unat_u8_bound unat_ucast_u8)
  then have "crc16_table ! unat ?i = crc16_byte (push_bit 8 ?i)"
    by (simp add: crc16_table_nth)
  moreover have "crc16_byte (ucast (ucast c :: u8)) = push_bit 8 c"
    unfolding crc16_byte_def by (simp add: crc16_bit_funpow_low)
      (rule bit_word_eqI, auto simp: bit_simps)
  ultimately show ?thesis by (simp add: split crc16_byte_xor xor.commute)
qed

lemma crc16_loop_eq: "n \<le> length bs \<Longrightarrow> crc16_loop bs n c = crc16_ref (take n bs) c"
proof (induction n arbitrary: bs c)
  case 0
  then show ?case by (simp add: crc16_ref_def)
next
  case (Suc n)
  then obtain b bs' where "bs = b # bs'" "n \<le> length bs'" by (cases bs) auto
  with Suc.IH show ?case by (simp add: crc16_step_eq crc16_ref_def)
qed

text \<open>
  C32: The table-driven \<open>crc16_calc\<close> computes the bit-serial CRC with polynomial 0x1021 of the
  first \<open>length\<close> bytes, for every starting value.
\<close>

theorem crc16_calc_bitwise:
  assumes "unat len \<le> length bs"
  shows "crc16_calc bs len c = crc16_ref (take (unat len) bs) c"
  using assms by (simp add: crc16_calc_def crc16_loop_eq)

theorem crc16_calc_bitwise_witness:
  "unat (2 :: u16) \<le> length [0x31, 0x32, 0x33 :: u8] \<and>
   crc16_calc [0x31, 0x32, 0x33] 2 0xFFFF = crc16_ref [0x31, 0x32] 0xFFFF"
  using crc16_calc_bitwise [of 2 "[0x31, 0x32, 0x33]" "0xFFFF"] by simp

lemma crc16_ref_append: "crc16_ref (xs @ ys) c = crc16_ref ys (crc16_ref xs c)"
  by (simp add: crc16_ref_def)

text \<open>
  Error detection set-up of an Xmodem packet: a block followed by its CRC, high byte first,
  has CRC 0, and the CRC of a block can be computed piecewise.
\<close>

theorem crc16_residue:
  assumes "length bs + 2 < 65536" "c = crc16_calc bs (of_nat (length bs)) s"
  shows "crc16_calc (bs @ [ucast (drop_bit 8 c), ucast c]) (of_nat (length bs + 2)) s = 0"
proof -
  have small: "unat (of_nat n :: u16) = n" if "n < 65536" for n
    using that by (simp add: unat_of_nat)
  have [simp]: "unat (of_nat (length bs) :: u16) = length bs" using assms(1) by (intro small) simp
  have len2: "unat (of_nat (length bs + 2) :: u16) = length bs + 2" by (rule small [OF assms(1)])
  have c: "crc16_ref bs s = c" using assms(2) by (simp add: crc16_calc_bitwise)
  have hi: "c XOR push_bit 8 (ucast (ucast (drop_bit 8 c) :: u8)) = ucast (ucast c :: u8)"
    by (rule bit_word_eqI) (auto simp: bit_simps dest: bit_imp_le_length)
  have "crc16_byte (ucast (ucast c :: u8)) = push_bit 8 (ucast (ucast c :: u8))"
    unfolding crc16_byte_def by (rule crc16_bit_funpow_low) simp
  then have "crc16_ref [ucast (drop_bit 8 c), ucast c] c = 0"
    by (simp add: crc16_ref_def hi)
  then show ?thesis
    unfolding crc16_calc_def len2 using c
    by (simp add: crc16_loop_eq crc16_ref_append del: crc16_loop.simps)
qed

theorem crc16_residue_witness:
  "length [1 :: u8] + 2 < 65536 \<and>
   crc16_calc ([1] @ [ucast (drop_bit 8 (crc16_calc [1] 1 0)), ucast (crc16_calc [1] 1 0)]) 3 0 = 0"
  using crc16_residue [of "[1]" "crc16_calc [1] 1 0" 0] by simp

end
