(* ===== verification/Jslong.thy ===== *)
theory Jslong
  imports Byte_Util
begin

text \<open>
  The 64-bit arithmetic of \<open>pxbee/pan/util/jslong.c\<close> and \<open>headers/xbee/jslong.h\<close> for compilers
  without a 64-bit type (the HCS08 one): a value is two 32-bit halves.  The macros \<open>JSLL_*\<close> and
  the functions \<open>jsll_*\<close> are translated on \<open>u32\<close> words; \<open>js_val\<close> and \<open>js64\<close> read a pair of
  halves as a number and as a 64-bit word.  \<open>Jslong_Division\<close> holds the proofs about division.
\<close>

section \<open>The code\<close>

record JSInt64 =
  js_hi :: u32
  js_lo :: u32

definition jslo16 :: "u32 \<Rightarrow> u32" where
  "jslo16 a = a AND 0x0000FFFF"

definition jshi16 :: "u32 \<Rightarrow> u32" where
  "jshi16 a = drop_bit 16 a"

definition JSLL_INIT :: "u32 \<Rightarrow> u32 \<Rightarrow> JSInt64" where
  "JSLL_INIT hi lo = \<lparr>js_hi = hi, js_lo = lo\<rparr>"

definition JSLL_IS_ZERO :: "JSInt64 \<Rightarrow> bool" where
  "JSLL_IS_ZERO a \<longleftrightarrow> js_hi a = 0 \<and> js_lo a = 0"

text \<open>\<open>JSLL_CMP\<close> with the operator \<open><\<close>, signed and unsigned.\<close>

definition JSLL_CMP_less :: "JSInt64 \<Rightarrow> JSInt64 \<Rightarrow> bool" where
  "JSLL_CMP_less a b \<longleftrightarrow> sint (js_hi a) < sint (js_hi b) \<or> (js_hi a = js_hi b \<and> js_lo a < js_lo b)"

definition JSLL_UCMP_less :: "JSInt64 \<Rightarrow> JSInt64 \<Rightarrow> bool" where
  "JSLL_UCMP_less a b \<longleftrightarrow> js_hi a < js_hi b \<or> (js_hi a = js_hi b \<and> js_lo a < js_lo b)"

definition JSLL_NEG :: "JSInt64 \<Rightarrow> JSInt64" where
  "JSLL_NEG a =
     (let rlo = - js_lo a
      in \<lparr>js_hi = - js_hi a - (if rlo \<noteq> 0 then 1 else 0), js_lo = rlo\<rparr>)"

definition JSLL_ADD :: "JSInt64 \<Rightarrow> JSInt64 \<Rightarrow> JSInt64" where
  "JSLL_ADD a b =
     (let t = js_lo a + js_lo b
      in \<lparr>js_hi = js_hi a + js_hi b + (if t < js_lo b then 1 else 0), js_lo = t\<rparr>)"

definition JSLL_SUB :: "JSInt64 \<Rightarrow> JSInt64 \<Rightarrow> JSInt64" where
  "JSLL_SUB a b =
     \<lparr>js_hi = js_hi a - js_hi b - (if js_lo a < js_lo b then 1 else 0), js_lo = js_lo a - js_lo b\<rparr>"

definition jsll_mul32 :: "u32 \<Rightarrow> u32 \<Rightarrow> JSInt64" where
  "jsll_mul32 a b =
     (let a1 = jshi16 a; a0 = jslo16 a; b1 = jshi16 b; b0 = jslo16 b;
          y0 = a0 * b0; y1 = a0 * b1; y2 = a1 * b0; y3 = a1 * b1;
          y1 = y1 + jshi16 y0;
          y1 = y1 + y2;
          y3 = (if y1 < y2 then y3 + 0x00010000 else y3)
      in \<lparr>js_hi = y3 + jshi16 y1, js_lo = push_bit 16 (jslo16 y1) + jslo16 y0\<rparr>)"

definition jsll_mul :: "JSInt64 \<Rightarrow> JSInt64 \<Rightarrow> JSInt64" where
  "jsll_mul a b =
     (let rp = jsll_mul32 (js_lo a) (js_lo b)
      in rp\<lparr>js_hi := js_hi rp + (js_hi a * js_lo b + js_lo a * js_hi b)\<rparr>)"

text \<open>
  \<open>norm_udivmod32\<close> develops two 16-bit quotient digits with the same sequence of statements,
  which is \<open>norm_digit\<close>: \<open>u\<close> is the running remainder, \<open>x\<close> the next 16 bits of the dividend.
\<close>

definition norm_digit :: "u32 \<Rightarrow> u32 \<Rightarrow> u32 \<Rightarrow> u32 \<times> u32" where
  "norm_digit u x b =
     (let d1 = jshi16 b; d0 = jslo16 b;
          r = u mod d1; q = u div d1; m = q * d0;
          r = push_bit 16 r OR x;
          (q, r) = (if r < m
                    then let q = q - 1; r = r + b
                         in if b \<le> r \<and> r < m then (q - 1, r + b) else (q, r)
                    else (q, r))
      in (q, r - m))"

definition norm_udivmod32 :: "JSInt64 \<Rightarrow> u32 \<Rightarrow> u32 \<times> u32" where
  "norm_udivmod32 a b =
     (let (q1, r1) = norm_digit (js_hi a) (jshi16 (js_lo a)) b;
          (q0, r0) = norm_digit r1 (jslo16 (js_lo a)) b
      in (push_bit 16 q1 OR q0, r0))"

definition clz_step :: "nat \<Rightarrow> u32 \<times> u8 \<Rightarrow> u32 \<times> u8" where
  "clz_step n = (\<lambda>(a, r). let t = drop_bit n a in if t \<noteq> 0 then (t, r - of_nat n) else (a, r))"

definition CountLeadingZeros :: "u32 \<Rightarrow> u8" where
  "CountLeadingZeros a =
     (let (a, r) = clz_step 1 (clz_step 2 (clz_step 4 (clz_step 8 (clz_step 16 (a, 32)))))
      in if a AND 1 \<noteq> 0 then r - 1 else r)"

text \<open>
  \<open>jsll_udivmod\<close>: the pair is what is stored through \<open>qp\<close> and \<open>rp\<close> where these are not null;
  the result \<open>None\<close> is the deliberate division trap of a zero divisor.
\<close>

definition jsll_udivmod :: "JSInt64 \<Rightarrow> JSInt64 \<Rightarrow> (JSInt64 \<times> JSInt64) option" where
  "jsll_udivmod a b =
     (let n0 = js_lo a; n1 = js_hi a in
      if js_hi b = 0 then
        if js_lo b > n1 then
          let lsh = unat (CountLeadingZeros (js_lo b));
              (blo, n1, n0) =
                (if lsh \<noteq> 0
                 then (push_bit lsh (js_lo b), push_bit lsh n1 OR drop_bit (32 - lsh) n0, push_bit lsh n0)
                 else (js_lo b, n1, n0));
              (q0, n0) = norm_udivmod32 \<lparr>js_hi = n1, js_lo = n0\<rparr> blo
          in Some (\<lparr>js_hi = 0, js_lo = q0\<rparr>, \<lparr>js_hi = 0, js_lo = drop_bit lsh n0\<rparr>)
        else if js_lo b = 0 then None
        else
          let lsh = unat (CountLeadingZeros (js_lo b));
              (q1, blo, n1, n0) =
                (if lsh = 0 then (1, js_lo b, n1 - js_lo b, n0)
                 else
                   let rsh = 32 - lsh;
                       blo = push_bit lsh (js_lo b);
                       n2 = drop_bit rsh n1;
                       n1 = push_bit lsh n1 OR drop_bit rsh n0;
                       n0 = push_bit lsh n0;
                       (q1, n1) = norm_udivmod32 \<lparr>js_hi = n2, js_lo = n1\<rparr> blo
                   in (q1, blo, n1, n0));
              (q0, n0) = norm_udivmod32 \<lparr>js_hi = n1, js_lo = n0\<rparr> blo
          in Some (\<lparr>js_hi = q1, js_lo = q0\<rparr>, \<lparr>js_hi = 0, js_lo = drop_bit lsh n0\<rparr>)
      else if js_hi b > n1 then
        Some (\<lparr>js_hi = 0, js_lo = 0\<rparr>, \<lparr>js_hi = n1, js_lo = n0\<rparr>)
      else
        let lsh = unat (CountLeadingZeros (js_hi b)) in
        if lsh = 0 then
          let q0 = (if n1 > js_hi b \<or> n0 \<ge> js_lo b then 1 else 0)
          in Some (\<lparr>js_hi = 0, js_lo = q0\<rparr>, \<lparr>js_hi = n1, js_lo = n0\<rparr>)
        else
          let rsh = 32 - lsh;
              b = \<lparr>js_hi = push_bit lsh (js_hi b) OR drop_bit rsh (js_lo b), js_lo = push_bit lsh (js_lo b)\<rparr>;
              n2 = drop_bit rsh n1;
              n1 = push_bit lsh n1 OR drop_bit rsh n0;
              n0 = push_bit lsh n0;
              (q0, n1) = norm_udivmod32 \<lparr>js_hi = n2, js_lo = n1\<rparr> (js_hi b);
              m = jsll_mul32 q0 (js_lo b);
              (q0, m) = (if js_hi m > n1 \<or> (js_hi m = n1 \<and> js_lo m > n0)
                         then (q0 - 1, JSLL_SUB m b) else (q0, m));
              a = JSLL_SUB \<lparr>js_hi = n1, js_lo = n0\<rparr> m
          in Some (\<lparr>js_hi = 0, js_lo = q0\<rparr>,
               \<lparr>js_hi = drop_bit lsh (js_hi a),
                js_lo = push_bit rsh (js_hi a) OR drop_bit lsh (js_lo a)\<rparr>))"

text \<open>
  The signed operations make both operands non-negative first.  The quotient is negative when the
  signs differ, the remainder when the dividend is negative.
\<close>

definition jsll_abs :: "JSInt64 \<Rightarrow> JSInt64" where
  "jsll_abs v = (if sint (js_hi v) < 0 then JSLL_NEG v else v)"

definition jsll_div :: "JSInt64 \<Rightarrow> JSInt64 \<Rightarrow> JSInt64 option" where
  "jsll_div a b =
     (let negative = sint (js_hi a) < 0;
          negative = (if sint (js_hi b) < 0 then \<not> negative else negative)
      in case jsll_udivmod (jsll_abs a) (jsll_abs b) of
           None \<Rightarrow> None
         | Some (r, _) \<Rightarrow> Some (if negative then JSLL_NEG r else r))"

definition jsll_mod :: "JSInt64 \<Rightarrow> JSInt64 \<Rightarrow> JSInt64 option" where
  "jsll_mod a b =
     (let negative = sint (js_hi a) < 0
      in case jsll_udivmod (jsll_abs a) (jsll_abs b) of
           None \<Rightarrow> None
         | Some (_, r) \<Rightarrow> Some (if negative then JSLL_NEG r else r))"

definition jsll_shl :: "JSInt64 \<Rightarrow> u8 \<Rightarrow> JSInt64" where
  "jsll_shl a b =
     (if b \<noteq> 0 then
        let lowb = unat (b AND 31) in
        if b < 32
        then \<lparr>js_hi = push_bit lowb (js_hi a) OR drop_bit (unat (32 - b)) (js_lo a),
              js_lo = push_bit lowb (js_lo a)\<rparr>
        else \<lparr>js_hi = push_bit lowb (js_lo a), js_lo = 0\<rparr>
      else a)"

definition jsll_shr :: "JSInt64 \<Rightarrow> u8 \<Rightarrow> JSInt64" where
  "jsll_shr a b =
     (if b \<noteq> 0 then
        let lowb = unat (b AND 31) in
        if b < 32
        then \<lparr>js_hi = signed_drop_bit lowb (js_hi a),
              js_lo = push_bit (unat (32 - b)) (js_hi a) OR drop_bit lowb (js_lo a)\<rparr>
        else \<lparr>js_hi = signed_drop_bit 31 (js_hi a), js_lo = signed_drop_bit lowb (js_hi a)\<rparr>
      else a)"

definition jsll_ushr :: "JSInt64 \<Rightarrow> u8 \<Rightarrow> JSInt64" where
  "jsll_ushr a b =
     (if b \<noteq> 0 then
        let lowb = unat (b AND 31) in
        if b < 32
        then \<lparr>js_hi = drop_bit lowb (js_hi a),
              js_lo = push_bit (unat (32 - b)) (js_hi a) OR drop_bit lowb (js_lo a)\<rparr>
        else \<lparr>js_hi = 0, js_lo = drop_bit lowb (js_hi a)\<rparr>
      else a)"

section \<open>Reading a pair of halves\<close>

definition js64 :: "JSInt64 \<Rightarrow> u64" where
  "js64 a = word_cat (js_hi a) (js_lo a)"

definition js_val :: "JSInt64 \<Rightarrow> nat" where
  "js_val a = unat (js_hi a) * 2 ^ 32 + unat (js_lo a)"

lemma js_val_bound: "js_val a < 2 ^ 64"
proof -
  have "unat (js_hi a) \<le> 4294967295" "unat (js_lo a) \<le> 4294967295" by simp_all
  then show ?thesis by (simp add: js_val_def del: unat_u32_le unat_u32_bound)
qed

lemma unat_js64: "unat (js64 a) = js_val a"
proof -
  have "js64 a = of_nat (js_val a)"
    by (simp add: js64_def js_val_def word_cat_eq push_bit_eq_mult unsigned_of_nat)
  then show ?thesis
    using js_val_bound [of a] by (simp add: unat_of_nat)
qed

lemma js64_of_nat: "js64 a = of_nat (js_val a)"
  by (metis unat_js64 of_nat_unat ucast_id)

lemma js_val_inj: "js_val a = js_val b \<Longrightarrow> a = b"
proof -
  assume eq: "js_val a = js_val b"
  have "js_val a div 2 ^ 32 = unat (js_hi a)" "js_val a mod 2 ^ 32 = unat (js_lo a)" for a
    by (simp_all add: js_val_def)
  then have "unat (js_hi a) = unat (js_hi b)" "unat (js_lo a) = unat (js_lo b)"
    using eq by metis+
  then show ?thesis by (simp add: word_unat_eq_iff)
qed

section \<open>Addition, subtraction, negation and comparison\<close>

lemma js_int: "int (js_val a) = uint (js_hi a) * 2 ^ 32 + uint (js_lo a)"
  by (simp add: js_val_def)

lemma js64_eq_of_int: "js64 a = word_of_int (uint (js_hi a) * 2 ^ 32 + uint (js_lo a))"
  by (metis js64_of_nat js_int of_int_of_nat_eq)

text \<open>A carry between the halves disappears modulo \<open>2 ^ 64\<close>.\<close>

lemma of_int_halves:
  fixes h l c :: int
  assumes "l = l' - c * 2 ^ 32"
  shows "(word_of_int (h * 2 ^ 32 + l') :: u64) = word_of_int ((h + c) * 2 ^ 32 + l)"
proof -
  have "h * 2 ^ 32 + l' = (h + c) * 2 ^ 32 + l"
    using assms by (simp add: algebra_simps)
  then show ?thesis by (simp only:)
qed

lemma u64_overflow_0: "(18446744073709551616 :: u64) = 0"
  by transfer (simp add: take_bit_eq_mod)

lemma of_int_high_mod:
  "(word_of_int (h mod 2 ^ 32 * 2 ^ 32 + l) :: u64) = word_of_int (h * 2 ^ 32 + l)"
proof -
  define q r where "q = h div 2 ^ 32" and "r = h mod 2 ^ 32"
  have "h = q * 2 ^ 32 + r" unfolding q_def r_def by simp
  then have eq: "h * 2 ^ 32 + l = (h mod 2 ^ 32 * 2 ^ 32 + l) + (h div 2 ^ 32) * 2 ^ 64"
    unfolding q_def [symmetric] r_def [symmetric] by (simp add: algebra_simps)
  have "(word_of_int (k * 2 ^ 64) :: u64) = 0" for k
  proof -
    have "(word_of_int (k * 2 ^ 64) :: u64) = word_of_int k * 18446744073709551616" by simp
    then show ?thesis by (simp only: u64_overflow_0 mult_zero_right)
  qed
  then show ?thesis unfolding eq by (simp only: wi_hom_add [symmetric] add_0_right)
qed

lemma JSLL_ADD_eq: "js64 (JSLL_ADD a b) = js64 a + js64 b"
proof -
  let ?al = "uint (js_lo a)" and ?bl = "uint (js_lo b)"
  define c :: int where "c = (if js_lo a + js_lo b < js_lo b then 1 else 0)"
  have lo: "uint (js_lo a + js_lo b) = ?al + ?bl - c * 2 ^ 32"
    using uint_bound_u32 [of "js_lo a"] by (auto simp: c_def word_less_def uint_plus_if' simp del: uint_bound_u32)
  have hi: "uint (js_hi (JSLL_ADD a b)) = (uint (js_hi a) + uint (js_hi b) + c) mod 2 ^ 32"
    by (simp add: JSLL_ADD_def Let_def c_def uint_word_ariths mod_simps)
  have "js64 (JSLL_ADD a b) = word_of_int ((uint (js_hi a) + uint (js_hi b) + c) * 2 ^ 32 + uint (js_lo a + js_lo b))"
    unfolding js64_eq_of_int hi of_int_high_mod by (simp add: JSLL_ADD_def Let_def)
  also have "\<dots> = word_of_int ((uint (js_hi a) + uint (js_hi b)) * 2 ^ 32 + (?al + ?bl))"
    by (rule of_int_halves [symmetric]) (rule lo)
  also have "\<dots> = js64 a + js64 b"
    unfolding js64_eq_of_int by (simp add: algebra_simps flip: wi_hom_add)
  finally show ?thesis .
qed

lemma JSLL_SUB_eq: "js64 (JSLL_SUB a b) = js64 a - js64 b"
proof -
  let ?al = "uint (js_lo a)" and ?bl = "uint (js_lo b)"
  define c :: int where "c = (if js_lo a < js_lo b then - 1 else 0)"
  have lo: "uint (js_lo a - js_lo b) = (?al - ?bl) - c * 2 ^ 32"
    by (auto simp: c_def word_less_def uint_sub_if')
  have hi: "uint (js_hi (JSLL_SUB a b)) = (uint (js_hi a) - uint (js_hi b) + c) mod 2 ^ 32"
    by (simp add: JSLL_SUB_def c_def uint_word_ariths mod_simps)
  have "js64 (JSLL_SUB a b) = word_of_int ((uint (js_hi a) - uint (js_hi b) + c) * 2 ^ 32 + uint (js_lo a - js_lo b))"
    unfolding js64_eq_of_int hi of_int_high_mod by (simp add: JSLL_SUB_def)
  also have "\<dots> = word_of_int ((uint (js_hi a) - uint (js_hi b)) * 2 ^ 32 + (?al - ?bl))"
    by (rule of_int_halves [symmetric]) (rule lo)
  also have "\<dots> = js64 a - js64 b"
    unfolding js64_eq_of_int by (simp add: algebra_simps flip: wi_hom_sub)
  finally show ?thesis .
qed

lemma JSLL_NEG_sub: "JSLL_NEG a = JSLL_SUB \<lparr>js_hi = 0, js_lo = 0\<rparr> a"
  by (auto simp: JSLL_NEG_def JSLL_SUB_def Let_def word_gt_0)

lemma JSLL_NEG_eq: "js64 (JSLL_NEG a) = - js64 a"
  by (simp add: JSLL_NEG_sub JSLL_SUB_eq) (simp add: js64_def word_cat_eq)

lemma lex_pair_less:
  fixes h l h' l' :: nat
  assumes "l < w" "l' < w"
  shows "h * w + l < h' * w + l' \<longleftrightarrow> h < h' \<or> (h = h' \<and> l < l')"
proof (cases h h' rule: linorder_cases)
  case less
  then have "h * w + w \<le> h' * w" using mult_le_mono1 [of "Suc h" h' w] by simp
  then show ?thesis using less assms by simp
next
  case greater
  then have "h' * w + w \<le> h * w" using mult_le_mono1 [of "Suc h'" h w] by simp
  then show ?thesis using greater assms by simp
qed simp

lemma JSLL_UCMP_less_iff: "JSLL_UCMP_less a b \<longleftrightarrow> js_val a < js_val b"
  unfolding JSLL_UCMP_less_def js_val_def
  by (subst lex_pair_less) (simp_all add: word_less_nat_alt word_unat_eq_iff)

section \<open>Multiplication\<close>

lemma unat_jslo16: "unat (jslo16 a) = unat a mod 2 ^ 16"
  unfolding jslo16_def
  by (subst unat_and_pow2_mask [where k = 16]) simp_all

lemma unat_jshi16: "unat (jshi16 a) = unat a div 2 ^ 16"
  by (simp add: jshi16_def drop_bit_eq_div unat_div)

lemma half_bounds: "unat (jslo16 a) < 65536" "unat (jshi16 a) < 65536"
  using unat_u32_bound [of a] by (simp_all add: unat_jslo16 unat_jshi16 del: unat_u32_bound)

lemma halves_eq: "unat a = unat (jshi16 a) * 2 ^ 16 + unat (jslo16 a)"
  by (simp add: unat_jslo16 unat_jshi16)

lemma unat_push16_small: "unat a < 65536 \<Longrightarrow> unat (push_bit 16 (a :: u32)) = unat a * 2 ^ 16"
  by (simp add: push_bit_eq_mult unat_mult_lem [THEN iffD1])

lemma unat_mult_small: "unat a * unat b < 2 ^ 32 \<Longrightarrow> unat (a * b :: u32) = unat a * unat b"
  by (rule unat_mult_lem [THEN iffD1]) simp

lemma unat_add_small: "unat a + unat b < 2 ^ 32 \<Longrightarrow> unat (a + b :: u32) = unat a + unat b"
  by (rule unat_add_lem [THEN iffD1]) simp

lemma mult_16_bits:
  fixes x y :: nat
  assumes "x < 65536" "y < 65536"
  shows "x * y \<le> 65535 * 65535"
  using assms by (intro mult_le_mono) simp_all

lemma jsll_mul32_val: "js_val (jsll_mul32 a b) = unat a * unat b"
proof -
  define a1 a0 b1 b0 where "a1 = unat (jshi16 a)" and "a0 = unat (jslo16 a)"
    and "b1 = unat (jshi16 b)" and "b0 = unat (jslo16 b)"
  note parts = a1_def a0_def b1_def b0_def
  have lt: "a1 < 65536" "a0 < 65536" "b1 < 65536" "b0 < 65536"
    by (simp_all add: parts half_bounds)
  have le: "a0 * b0 \<le> 65535 * 65535" "a0 * b1 \<le> 65535 * 65535" "a1 * b0 \<le> 65535 * 65535"
    "a1 * b1 \<le> 65535 * 65535"
    using lt by (intro mult_16_bits; simp)+
  define y0 y1 y2 y3 where "y0 = jslo16 a * jslo16 b" and "y1 = jslo16 a * jshi16 b + jshi16 y0"
    and "y2 = jshi16 a * jslo16 b" and "y3 = jshi16 a * jshi16 b"
  have y0: "unat y0 = a0 * b0" and y2: "unat y2 = a1 * b0" and y3: "unat y3 = a1 * b1"
    and y01: "unat (jslo16 a * jshi16 b) = a0 * b1"
    using le by (simp_all add: y0_def y2_def y3_def parts unat_mult_small)
  have y1: "unat y1 = a0 * b1 + a0 * b0 div 65536"
    using le y0 y01 unfolding y1_def by (subst unat_add_small) (simp_all add: unat_jshi16)
  define c where "c = (if y1 + y2 < y2 then 1 else 0 :: nat)"
  have sum: "unat (y1 + y2) + c * 4294967296 = unat y1 + unat y2"
    using unat_u32_bound [of y1] unat_u32_bound [of y2]
    by (auto simp: c_def word_less_nat_alt unat_plus_if' simp del: unat_u32_bound)
  define mid where "mid = y1 + y2"
  have hi: "unat y3 + c * 65536 + unat mid div 65536 < 4294967296"
  proof -
    have "unat mid + c * 4294967296 \<le> 65535 * 65535 + 65534 + 65535 * 65535"
      unfolding mid_def sum using y1 y2 le by linarith
    then have "unat mid + c * 4294967296 < 131070 * 65536" by simp
    then have "(unat mid + c * 4294967296) div 65536 \<le> 131069"
      by (simp only: less_mult_imp_div_less less_Suc_eq_le flip: Suc_numeral)
    then have "unat mid div 65536 + c * 65536 \<le> 131069" by simp
    then show ?thesis using y3 le by linarith
  qed
  have mul: "jsll_mul32 a b =
      \<lparr>js_hi = y3 + of_nat (c * 65536) + jshi16 mid, js_lo = push_bit 16 (jslo16 mid) + jslo16 y0\<rparr>"
    by (auto simp: jsll_mul32_def Let_def y0_def y1_def y2_def y3_def c_def mid_def)
  have c65536: "unat (of_nat (c * 65536) :: u32) = c * 65536"
    by (simp add: c_def)
  have "unat (y3 + of_nat (c * 65536)) = unat y3 + c * 65536"
    using hi c65536 by (subst unat_add_small) simp_all
  then have h: "unat (js_hi (jsll_mul32 a b)) = unat y3 + c * 65536 + unat mid div 65536"
    using hi unfolding mul by (simp add: unat_jshi16 unat_add_small)
  have l: "unat (js_lo (jsll_mul32 a b)) = unat mid mod 65536 * 65536 + unat y0 mod 65536"
    unfolding mul by (simp add: unat_push16_small half_bounds unat_jslo16 unat_add_small)
  have "js_val (jsll_mul32 a b)
      = unat y3 * 4294967296 + (c * 4294967296 + unat mid) * 65536 + unat y0 mod 65536"
  proof -
    define q r where "q = unat mid div 65536" and "r = unat mid mod 65536"
    have "unat mid = q * 65536 + r" unfolding q_def r_def by simp
    then show ?thesis
      unfolding js_val_def h l q_def [symmetric] r_def [symmetric] by (simp add: algebra_simps)
  qed
  also have "c * 4294967296 + unat mid = a0 * b1 + a0 * b0 div 65536 + a1 * b0"
    using sum y1 y2 by (simp add: mid_def)
  also have "unat y3 * 4294967296 + (a0 * b1 + a0 * b0 div 65536 + a1 * b0) * 65536 + unat y0 mod 65536
      = (a1 * 65536 + a0) * (b1 * 65536 + b0)"
    unfolding y3 y0 using div_mult_mod_eq [of "a0 * b0" 65536] by (simp add: algebra_simps)
  also have "\<dots> = unat a * unat b"
    using halves_eq [of a] halves_eq [of b] by (simp add: parts)
  finally show ?thesis .
qed

lemma jsll_mul_eq: "js64 (jsll_mul a b) = js64 a * js64 b"
proof -
  let ?p = "jsll_mul32 (js_lo a) (js_lo b)" and ?x = "js_hi a * js_lo b + js_lo a * js_hi b"
  have "js64 (jsll_mul a b) = word_of_int ((uint (js_hi ?p) + uint ?x) mod 2 ^ 32 * 2 ^ 32 + uint (js_lo ?p))"
    unfolding js64_eq_of_int by (simp add: jsll_mul_def Let_def uint_word_ariths)
  also have "\<dots> = word_of_int (uint ?x * 2 ^ 32) + js64 ?p"
    unfolding of_int_high_mod js64_eq_of_int by (simp add: algebra_simps flip: wi_hom_add)
  also have "word_of_int (uint ?x * 2 ^ 32) = (word_of_int
      ((uint (js_hi a) * uint (js_lo b) + uint (js_lo a) * uint (js_hi b)) * 2 ^ 32) :: u64)"
    using of_int_high_mod [of "uint (js_hi a) * uint (js_lo b) + uint (js_lo a) * uint (js_hi b)" 0]
    by (simp add: uint_word_ariths mod_simps)
  also have "js64 ?p = word_of_int (uint (js_lo a) * uint (js_lo b))"
    by (simp add: js64_of_nat jsll_mul32_val)
  finally show ?thesis
    unfolding js64_eq_of_int [of a] js64_eq_of_int [of b]
    by (simp add: algebra_simps u64_overflow_0 flip: wi_hom_add wi_hom_mult)
qed

end
