(* ===== verification/Jslong_Division.thy ===== *)
theory Jslong_Division
  imports Jslong
begin

text \<open>
  Division on pairs of 32-bit halves: the two-digit step \<open>norm_udivmod32\<close> with its corrected
  quotient estimates, the normalisation by the number of leading zeros, and \<open>jsll_udivmod\<close>,
  \<open>jsll_div\<close> and \<open>jsll_mod\<close> against division of numbers.
\<close>

section \<open>Words and numbers\<close>

lemma u32_eq_of_nat: "(w :: u32) = of_nat (unat w)"
  by simp

lemma unat_drop_bit: "unat (drop_bit n w :: u32) = unat w div 2 ^ n"
  by (simp only: unat_drop_bit_eq) (simp add: drop_bit_eq_div)

lemma take_bit_small: "unat (x :: u32) < 2 ^ n \<Longrightarrow> take_bit n x = x"
  by (simp add: word_unat_eq_iff unsigned_take_bit_eq take_bit_nat_eq_self_iff)

lemma unat_push_or:
  fixes r x :: u32
  assumes "unat r < 2 ^ (32 - n)" "unat x < 2 ^ n" "n < 32"
  shows "unat (push_bit n r OR x) = unat r * 2 ^ n + unat x"
proof -
  have x: "take_bit n x = x" using assms by (intro take_bit_small)
  have "push_bit n r AND x = 0"
    by (subst x [symmetric]) (rule bit_word_eqI, auto simp: bit_simps)
  then have "push_bit n r OR x = push_bit n r + x"
    using word_plus_and_or [of "push_bit n r" x] by simp
  also have "\<dots> = of_nat (unat r * 2 ^ n + unat x)"
    by (simp add: push_bit_eq_mult)
  finally have eq: "push_bit n r OR x = of_nat (unat r * 2 ^ n + unat x)" .
  have "Suc (unat r) * 2 ^ n \<le> 2 ^ (32 - n) * 2 ^ n"
    using assms(1) by (intro mult_le_mono1) simp
  also have "\<dots> = (2::nat) ^ 32" using assms(3) by (simp flip: power_add)
  finally have "unat r * 2 ^ n + unat x < 2 ^ 32" using assms(2) by simp
  then show ?thesis unfolding eq by (intro unat_of_nat_u32) simp
qed

section \<open>One quotient digit\<close>

text \<open>
  The estimate from the high half of the divisor is at most two too large; the two conditional
  corrections, the second guarded by the absence of a carry, make it exact.
\<close>

lemma norm_digit_correct:
  assumes b: "2147483648 \<le> unat b" and u: "unat u < unat b" and x: "unat x < 65536"
    and nd: "norm_digit u x b = (q, r)"
  shows "unat u * 65536 + unat x = unat q * unat b + unat r \<and> unat r < unat b"
proof -
  define D1 D0 where "D1 = unat (jshi16 b)" and "D0 = unat (jslo16 b)"
  define Q R where "Q = unat u div D1" and "R = unat u mod D1"
  define M P RX where "M = Q * D0" and "P = Q * unat b" and "RX = R * 65536 + unat x"
  define qe m rx where "qe = u div jshi16 b" and "m = qe * jslo16 b"
    and "rx = push_bit 16 (u mod jshi16 b) OR x"
  have b_eq: "unat b = D1 * 65536 + D0" and D0: "D0 < 65536" "D1 < 65536"
    using halves_eq [of b] half_bounds [of b] by (simp_all add: D1_def D0_def)
  have D1: "32768 \<le> D1" using b b_eq D0 by simp
  have "unat u < D1 * 65536 + 2 * D1" using u b_eq D0 D1 by linarith
  then have "unat u < 65538 * D1" by simp
  then have Q: "Q \<le> 65537"
    unfolding Q_def using less_mult_imp_div_less [of "unat u" 65538 D1] by simp
  have "M \<le> 65537 * 65535" unfolding M_def using Q D0 by (intro mult_le_mono) simp_all
  then have M: "M < 4294967296" by simp
  have R: "R < D1" unfolding R_def using D1 by simp
  have qe: "unat qe = Q" by (simp add: qe_def Q_def D1_def unat_div)
  have m: "unat m = M"
    using M unfolding m_def by (subst unat_mult_small) (simp_all add: qe M_def D0_def)
  have r0: "unat (u mod jshi16 b) = R" by (simp add: R_def D1_def unat_mod)
  then have rx: "unat rx = RX"
    unfolding rx_def RX_def using R D0 x by (subst unat_push_or) simp_all
  have RX: "RX < unat b" unfolding RX_def b_eq using R x by linarith
  have N: "unat u * 65536 + unat x + M = P + RX"
  proof -
    have "unat u = Q * D1 + R" unfolding Q_def R_def by simp
    then show ?thesis unfolding M_def P_def RX_def b_eq by (simp add: algebra_simps)
  qed
  have nd': "(case (if rx < m
        then if b \<le> rx + b \<and> rx + b < m then (qe - 1 - 1, rx + b + b) else (qe - 1, rx + b)
        else (qe, rx)) of (q, r) \<Rightarrow> (q, r - m)) = (q, r)"
    using nd by (simp only: norm_digit_def Let_def qe_def m_def rx_def)
  show ?thesis
  proof (cases "RX < M")
    case False
    then have "q = qe" "r = rx - m"
      using nd' by (simp_all add: word_less_nat_alt rx m)
    then have "unat q = Q" "unat r = RX - M"
      using False by (simp_all add: qe rx m unat_sub word_le_nat_alt)
    then show ?thesis using N RX False by (simp add: P_def) arith
  next
    case True
    have "Q \<noteq> 0"
    proof
      assume "Q = 0"
      then show False using True by (simp add: M_def)
    qed
    then obtain Q' where Q': "Q = Suc Q'" by (cases Q) auto
    then have P: "P = Q' * unat b + unat b" by (simp add: P_def)
    have q1: "qe - 1 = of_nat Q'" using qe Q' by (metis add_diff_cancel_left' of_nat_Suc u32_eq_of_nat)
    have mM: "m = of_nat M" by (simp add: m [symmetric])
    have rb: "rx + b = of_nat (RX + unat b)" by (simp add: rx [symmetric])
    show ?thesis
    proof (cases "4294967296 \<le> RX + unat b \<or> M \<le> RX + unat b")
      case True': True
      have le: "M \<le> RX + unat b" using True' M by linarith
      have "\<not> (b \<le> rx + b \<and> rx + b < m)"
      proof (cases "RX + unat b < 4294967296")
        case True
        then show ?thesis using True' by (simp add: rb word_less_nat_alt unat_of_nat_u32 m del: of_nat_add)
      next
        case False
        then have "unat (rx + b) = RX + unat b - 4294967296"
          by (simp add: unat_plus_if' rx)
        then have "rx + b < b" using RX unat_u32_bound [of b]
          by (simp add: word_less_nat_alt rx del: unat_u32_bound)
        then show ?thesis by (auto simp: not_less [symmetric])
      qed
      then have qr: "q = qe - 1" "r = rx + b - m"
        using nd' True by (auto simp: word_less_nat_alt rx m Let_def split: if_splits)
      have "rx + b - m = of_nat (RX + unat b - M)"
        using le by (simp only: rb mM of_nat_diff)
      moreover have lt: "RX + unat b - M < unat b" using True M True' by linarith
      ultimately have ur: "unat r = RX + unat b - M"
        unfolding qr by (simp only: unat_of_nat_u32 less_trans [OF _ unat_u32_bound [of b]])
      have uq: "unat q = Q'" unfolding qr q1 using Q Q' by (intro unat_of_nat_u32) simp
      show ?thesis unfolding uq ur using N P lt le by linarith
    next
      case False
      then have small: "RX + unat b < 4294967296" and lt: "RX + unat b < M" by simp_all
      have le: "M \<le> RX + unat b + unat b" using b M by linarith
      have "b \<le> rx + b \<and> rx + b < m"
        using small lt by (simp add: rb word_less_nat_alt word_le_nat_alt unat_of_nat_u32 m del: of_nat_add)
      then have qr: "q = qe - 1 - 1" "r = rx + b + b - m"
        using nd' True by (auto simp: word_less_nat_alt rx m Let_def split: if_splits)
      have "Q' \<noteq> 0" using N P lt by (auto intro: ccontr)
      then obtain Q'' where Q'': "Q' = Suc Q''" by (cases Q') auto
      have "q = of_nat Q''" unfolding qr q1 Q'' by simp
      then have uq: "unat q = Q''" using Q Q' Q'' by (simp only:) (intro unat_of_nat_u32, simp)
      have "rx + b + b - m = of_nat (RX + unat b + unat b - M)"
      proof -
        have "rx + b + b = of_nat (RX + unat b + unat b)"
          by (simp add: rx [symmetric])
        with le show ?thesis by (simp only: mM of_nat_diff)
      qed
      moreover have lt2: "RX + unat b + unat b - M < unat b" using lt b M by linarith
      ultimately have ur: "unat r = RX + unat b + unat b - M"
        unfolding qr by (simp only: unat_of_nat_u32 less_trans [OF _ unat_u32_bound [of b]])
      have "P = Q'' * unat b + unat b + unat b" using P Q'' by simp
      then show ?thesis unfolding uq ur using N lt2 le by linarith
    qed
  qed
qed

text \<open>Two digits: the whole of \<open>norm_udivmod32\<close>.\<close>

lemma div_mod_unique:
  fixes n q b r :: nat
  assumes "n = q * b + r" "r < b"
  shows "q = n div b" "r = n mod b"
  using assms by simp_all

lemma norm_udivmod32_correct:
  assumes b: "2147483648 \<le> unat b" and a: "js_hi a < b"
    and nd: "norm_udivmod32 a b = (q, r)"
  shows "unat q = js_val a div unat b \<and> unat r = js_val a mod unat b"
proof -
  obtain q1 r1 where d1: "norm_digit (js_hi a) (jshi16 (js_lo a)) b = (q1, r1)"
    by (cases "norm_digit (js_hi a) (jshi16 (js_lo a)) b")
  obtain q0 r0 where d0: "norm_digit r1 (jslo16 (js_lo a)) b = (q0, r0)"
    by (cases "norm_digit r1 (jslo16 (js_lo a)) b")
  have q: "q = push_bit 16 q1 OR q0" "r = r0" using nd d1 d0 by (simp_all add: norm_udivmod32_def)
  have ha: "unat (js_hi a) < unat b" using a by (simp add: word_less_nat_alt)
  note c1 = norm_digit_correct [OF b ha half_bounds(2) d1]
  then have r1: "unat r1 < unat b" by simp
  note c0 = norm_digit_correct [OF b r1 half_bounds(1) d0]
  have small: "unat q < 65536" if "unat u < unat b" "unat x < 65536"
    "unat u * 65536 + unat x = unat q * unat b + unat r" for u x q r :: u32
  proof (rule ccontr)
    assume "\<not> unat q < 65536"
    then have "65536 * unat b \<le> unat q * unat b" by (intro mult_le_mono1) simp
    moreover have "unat u * 65536 + 65536 \<le> unat b * 65536" using that(1) by linarith
    ultimately show False using that by linarith
  qed
  have q1: "unat q1 < 65536" using small [OF ha half_bounds(2)] c1 by blast
  have q0: "unat q0 < 65536" using small [OF r1 half_bounds(1)] c0 by blast
  have uq: "unat q = unat q1 * 65536 + unat q0"
    unfolding q(1) using q1 q0 by (subst unat_push_or) simp_all
  have "js_val a = (unat (js_hi a) * 65536 + unat (jshi16 (js_lo a))) * 65536 + unat (jslo16 (js_lo a))"
    unfolding js_val_def using halves_eq [of "js_lo a"] by simp
  also have "\<dots> = unat q1 * unat b * 65536 + (unat r1 * 65536 + unat (jslo16 (js_lo a)))"
    using c1 by simp
  also have "\<dots> = unat q * unat b + unat r"
    using c0 by (simp add: uq q(2) algebra_simps)
  finally show ?thesis using div_mod_unique [of "js_val a" "unat q" "unat b" "unat r"] c0 q(2) by simp
qed

section \<open>Leading zeros\<close>

text \<open>
  Each step halves the range of the value or leaves it: \<open>a * 2 ^ (32 - r)\<close> bounds the
  original.
\<close>

definition clz_inv :: "nat \<Rightarrow> nat \<Rightarrow> u32 \<times> u8 \<Rightarrow> bool" where
  "clz_inv n x s \<longleftrightarrow> unat (fst s) < 2 ^ n \<and> 0 < unat (fst s) \<and> n \<le> unat (snd s) \<and> unat (snd s) \<le> 32 \<and>
     unat (fst s) * 2 ^ (32 - unat (snd s)) \<le> x \<and> x < Suc (unat (fst s)) * 2 ^ (32 - unat (snd s))"

lemma clz_step_inv:
  assumes "clz_inv (2 * n) x s" "n \<le> 16"
  shows "clz_inv n x (clz_step n s)"
proof -
  obtain a r where s: "s = (a, r)" by (cases s)
  have i: "unat a < 2 ^ (2 * n)" "0 < unat a" "2 * n \<le> unat r" "unat r \<le> 32"
    "unat a * 2 ^ (32 - unat r) \<le> x" "x < Suc (unat a) * 2 ^ (32 - unat r)"
    using assms(1) by (simp_all add: clz_inv_def s)
  define t where "t = drop_bit n a"
  have t: "unat t = unat a div 2 ^ n" by (simp add: t_def unat_drop_bit)
  show ?thesis
  proof (cases "t = 0")
    case True
    then have "unat a div 2 ^ n = 0" using t by simp
    then have "unat a < 2 ^ n" by (simp add: div_eq_0_iff)
    then show ?thesis using i True by (simp add: clz_inv_def s clz_step_def t_def Let_def)
  next
    case False
    then have "0 < unat t" by (simp add: unat_gt_0)
    have lt: "unat t < 2 ^ n"
      unfolding t using i(1) by (intro less_mult_imp_div_less) (simp add: mult_2 power_add)
    have ur: "unat (r - of_nat n) = unat r - n"
      using i assms(2) by (simp add: unat_sub word_le_nat_alt unat_of_nat)
    have e: "32 - (unat r - n) = n + (32 - unat r)" using i by simp
    have "unat t * 2 ^ n \<le> unat a" "unat a < Suc (unat t) * 2 ^ n"
      unfolding t using dividend_less_times_div [of "2 ^ n" "unat a"] by (simp_all add: mult.commute)
    then have lo: "unat t * 2 ^ n * 2 ^ (32 - unat r) \<le> unat a * 2 ^ (32 - unat r)"
      and hi: "Suc (unat a) * 2 ^ (32 - unat r) \<le> Suc (unat t) * 2 ^ n * 2 ^ (32 - unat r)"
      by (intro mult_le_mono1; simp)+
    have lower: "unat t * 2 ^ (32 - (unat r - n)) \<le> x"
      using order_trans [OF lo i(5)] unfolding e power_add by (simp only: mult.assoc)
    have upper: "x < Suc (unat t) * 2 ^ (32 - (unat r - n))"
      using less_le_trans [OF i(6) hi] unfolding e power_add by (simp only: mult.assoc)
    have bounds: "n \<le> unat r - n" "unat r - n \<le> 32" using i by simp_all
    have "clz_step n s = (t, r - of_nat n)"
      using False by (simp add: s clz_step_def Let_def t_def [symmetric])
    then show ?thesis
      using lt \<open>0 < unat t\<close> lower upper bounds by (simp only: clz_inv_def fst_conv snd_conv ur)
  qed
qed

lemma CountLeadingZeros_correct:
  assumes "a \<noteq> 0"
  shows "unat (CountLeadingZeros a) < 32"
    "2 ^ 31 \<le> unat a * 2 ^ unat (CountLeadingZeros a)" "unat a * 2 ^ unat (CountLeadingZeros a) < 2 ^ 32"
proof -
  define s where "s = clz_step 1 (clz_step 2 (clz_step 4 (clz_step 8 (clz_step 16 (a, 32)))))"
  have "clz_inv 32 (unat a) (a, 32)" using assms by (simp add: clz_inv_def unat_gt_0)
  then have "clz_inv 1 (unat a) s"
    unfolding s_def
    using clz_step_inv [of 16 "unat a" "(a, 32)"] clz_step_inv [of 8 "unat a"] clz_step_inv [of 4 "unat a"]
      clz_step_inv [of 2 "unat a"] clz_step_inv [of 1 "unat a"] by simp
  then have f: "unat (fst s) = 1" by (simp add: clz_inv_def)
  with \<open>clz_inv 1 (unat a) s\<close>
  have i: "unat (fst s) = 1" "1 \<le> unat (snd s)" "unat (snd s) \<le> 32"
    "2 ^ (32 - unat (snd s)) \<le> unat a" "unat a < 2 * 2 ^ (32 - unat (snd s))"
    by (auto simp: clz_inv_def)
  have "fst s = 1" using i(1) by (simp add: word_unat_eq_iff)
  then have c: "CountLeadingZeros a = snd s - 1"
    unfolding CountLeadingZeros_def s_def [symmetric] by (simp add: case_prod_beta)
  then have u: "unat (CountLeadingZeros a) = unat (snd s) - 1"
    using i by (simp add: unat_sub word_le_nat_alt)
  obtain k where k: "unat (snd s) = Suc k" using i(2) by (cases "unat (snd s)") auto
  have "2 ^ (32 - unat (snd s)) * 2 ^ (unat (snd s) - 1) = (2::nat) ^ 31"
    using i k by (simp flip: power_add)
  moreover from this have "unat a * 2 ^ (unat (snd s) - 1) < 2 ^ 32"
    using mult_less_mono1 [OF i(5), of "2 ^ (unat (snd s) - 1)"] by (simp only: mult.assoc) simp
  ultimately show "2 ^ 31 \<le> unat a * 2 ^ unat (CountLeadingZeros a)" "unat a * 2 ^ unat (CountLeadingZeros a) < 2 ^ 32"
    "unat (CountLeadingZeros a) < 32"
    using i mult_le_mono1 [OF i(4), of "2 ^ (unat (snd s) - 1)"]
    by (simp_all add: u)
qed

end
