(* ===== verification/Jslong_Udivmod.thy ===== *)
theory Jslong_Udivmod
  imports Jslong_Division
begin

text \<open>
  Correctness of \<open>jsll_udivmod\<close>, branch by branch, and of the signed operations built on it.
\<close>

section \<open>Shifting several halves\<close>

lemma pow_split: "l < 32 \<Longrightarrow> (2::nat) ^ l * 2 ^ (32 - l) = 4294967296"
  by (simp flip: power_add)

lemma unat_push_bit_mod: "unat (push_bit l (x :: u32)) = unat x * 2 ^ l mod 4294967296"
  by (simp only: unsigned_push_bit_eq) (simp add: push_bit_eq_mult take_bit_eq_mod)

lemma unat_take_bit_mod: "unat (take_bit l (x :: u32)) = unat x mod 2 ^ l"
  by (simp only: unsigned_take_bit_eq) (simp add: take_bit_eq_mod)

lemma unat_push_bit:
  assumes "l < 32"
  shows "unat (push_bit l (x :: u32)) = unat x mod 2 ^ (32 - l) * 2 ^ l"
proof -
  have "unat (push_bit l x) = (unat x * 2 ^ l) mod (2 ^ (32 - l) * 2 ^ l)"
    using assms pow_split [OF assms]
    by (simp add: unat_push_bit_mod mult.commute)
  then show ?thesis by (simp only: mult_mod_left)
qed

lemma unat_push_bit_exact:
  "l < 32 \<Longrightarrow> unat x * 2 ^ l < 2 ^ 32 \<Longrightarrow> unat (push_bit l (x :: u32)) = unat x * 2 ^ l"
  by (simp add: unat_push_bit_mod)

lemma unat_shift_in:
  fixes n1 n0 :: u32
  assumes "0 < l" "l < 32"
  shows "unat (push_bit l n1 OR drop_bit (32 - l) n0)
    = unat n1 mod 2 ^ (32 - l) * 2 ^ l + unat n0 div 2 ^ (32 - l)"
proof -
  have "push_bit l n1 = push_bit l (take_bit (32 - l) n1)"
    using assms by (intro bit_word_eqI) (auto simp: bit_simps)
  moreover have "unat (take_bit (32 - l) n1) = unat n1 mod 2 ^ (32 - l)"
    by (rule unat_take_bit_mod)
  moreover have "unat (drop_bit (32 - l) n0) < 2 ^ l"
  proof -
    have "unat n0 < 2 ^ l * 2 ^ (32 - l)" unfolding pow_split [OF assms(2)] by simp
    then show ?thesis by (simp only: unat_drop_bit less_mult_imp_div_less)
  qed
  ultimately show ?thesis
    using assms by (simp add: unat_push_or unat_drop_bit)
qed

text \<open>
  \<open>shl_hi\<close>, \<open>shl_lo\<close> and \<open>shl_top\<close> are the three halves of a two-half value shifted left.
\<close>

lemma shift_two:
  fixes n1 n0 :: u32
  assumes "0 < l" "l < 32"
  shows "unat (drop_bit (32 - l) n1) * 4294967296 + unat (push_bit l n1 OR drop_bit (32 - l) n0)
      = unat n1 * 2 ^ l + unat n0 div 2 ^ (32 - l)"
    and "unat n0 div 2 ^ (32 - l) * 4294967296 + unat (push_bit l n0) = unat n0 * 2 ^ l"
    and "unat n0 div 2 ^ (32 - l) < 2 ^ l"
proof -
  have split: "x div 2 ^ (32 - l) * 4294967296 + x mod 2 ^ (32 - l) * 2 ^ l = x * 2 ^ l" for x :: nat
  proof -
    have "x * 2 ^ l = (x div 2 ^ (32 - l) * 2 ^ (32 - l) + x mod 2 ^ (32 - l)) * 2 ^ l"
      by (simp only: div_mult_mod_eq)
    also have "\<dots> = x div 2 ^ (32 - l) * (2 ^ l * 2 ^ (32 - l)) + x mod 2 ^ (32 - l) * 2 ^ l"
      by (simp only: algebra_simps)
    finally show ?thesis by (simp only: pow_split [OF assms(2)])
  qed
  show "unat (drop_bit (32 - l) n1) * 4294967296 + unat (push_bit l n1 OR drop_bit (32 - l) n0)
      = unat n1 * 2 ^ l + unat n0 div 2 ^ (32 - l)"
    using split [of "unat n1"] by (simp only: unat_shift_in [OF assms] unat_drop_bit)
  show "unat n0 div 2 ^ (32 - l) * 4294967296 + unat (push_bit l n0) = unat n0 * 2 ^ l"
    using split [of "unat n0"] by (simp only: unat_push_bit [OF assms(2)])
  have "unat n0 < 2 ^ l * 2 ^ (32 - l)" unfolding pow_split [OF assms(2)] by simp
  then show "unat n0 div 2 ^ (32 - l) < 2 ^ l" by (rule less_mult_imp_div_less)
qed

lemma shift_two_val:
  assumes "0 < l" "l < 32"
  shows "unat (drop_bit (32 - l) n1) * 4294967296 * 4294967296
      + js_val \<lparr>js_hi = push_bit l n1 OR drop_bit (32 - l) n0, js_lo = push_bit l n0\<rparr>
    = js_val \<lparr>js_hi = n1, js_lo = n0\<rparr> * 2 ^ l"
  using shift_two(1) [OF assms, of n1 n0] shift_two(2) [OF assms, of n0]
  unfolding js_val_def by (simp add: algebra_simps)

text \<open>Scaling dividend and divisor.\<close>

lemma div_mod_scaled:
  fixes n d k :: nat
  assumes "0 < k"
  shows "(n * k) div (d * k) = n div d" "(n * k) mod (d * k) div k = n mod d"
  using assms by (simp_all add: mult_mod_left)

section \<open>The branches of jsll_udivmod\<close>

text \<open>Divisor of one half, quotient of one half.\<close>

lemma udivmod_short:
  assumes hi: "js_hi b = 0" and lt: "js_hi a < js_lo b" and r: "jsll_udivmod a b = Some (q, r)"
  shows "js_val q = js_val a div js_val b" "js_val r = js_val a mod js_val b"
proof -
  define l where "l = unat (CountLeadingZeros (js_lo b))"
  define bl n1 n0 where "bl = push_bit l (js_lo b)"
    and "n1 = (if l = 0 then js_hi a else push_bit l (js_hi a) OR drop_bit (32 - l) (js_lo a))"
    and "n0 = push_bit l (js_lo a)"
  obtain q0 r0 where nd: "norm_udivmod32 \<lparr>js_hi = n1, js_lo = n0\<rparr> bl = (q0, r0)"
    by (cases "norm_udivmod32 \<lparr>js_hi = n1, js_lo = n0\<rparr> bl")
  have b: "js_val b = unat (js_lo b)" using hi by (simp add: js_val_def)
  have nz: "js_lo b \<noteq> 0" using lt by auto
  note clz = CountLeadingZeros_correct [OF nz, folded l_def]
  have bl: "unat bl = unat (js_lo b) * 2 ^ l" 
    unfolding bl_def using clz by (intro unat_push_bit_exact)
  have a: "js_hi a < js_lo b" "unat (js_hi a) < unat (js_lo b)" using lt by (simp_all add: word_less_nat_alt)
  have val: "js_val \<lparr>js_hi = n1, js_lo = n0\<rparr> = js_val a * 2 ^ l \<and> unat n1 < unat bl"
  proof (cases "l = 0")
    case True
    then show ?thesis using a by (simp add: n1_def n0_def bl js_val_def)
  next
    case False
    then have l: "0 < l" "l < 32" using clz by simp_all
    note two = shift_two(1) [OF l, of "js_hi a" "js_lo a"] shift_two(2,3) [OF l, of "js_lo a"]
    have "Suc (unat (js_hi a)) * 2 ^ l \<le> unat bl"
      unfolding bl using a by (intro mult_le_mono1) simp
    then have lt: "unat (js_hi a) * 2 ^ l + unat (js_lo a) div 2 ^ (32 - l) < unat bl"
      using two(3) by simp
    then have "unat (drop_bit (32 - l) (js_hi a)) * 4294967296 + unat n1 < unat bl"
      using two(1) False by (simp add: n1_def)
    moreover from this have "unat (drop_bit (32 - l) (js_hi a)) = 0"
      using unat_u32_bound [of bl] by linarith
    ultimately show ?thesis
      using shift_two_val [OF l, of "js_hi a" "js_lo a"] False by (simp add: n1_def n0_def js_val_def)
  qed
  have c: "unat q0 = js_val \<lparr>js_hi = n1, js_lo = n0\<rparr> div unat bl \<and>
      unat r0 = js_val \<lparr>js_hi = n1, js_lo = n0\<rparr> mod unat bl"
    using clz val bl by (intro norm_udivmod32_correct [OF _ _ nd]) (simp_all add: word_less_nat_alt)
  have "q = \<lparr>js_hi = 0, js_lo = q0\<rparr>" "r = \<lparr>js_hi = 0, js_lo = drop_bit l r0\<rparr>"
    using r nd hi lt unfolding jsll_udivmod_def Let_def l_def [symmetric] n1_def n0_def bl_def
    by (auto split: if_splits)
  then show "js_val q = js_val a div js_val b" "js_val r = js_val a mod js_val b"
    using c val bl div_mod_scaled [of "2 ^ l" "js_val a" "unat (js_lo b)"]
    by (simp_all add: js_val_def [of "\<lparr>js_hi = 0, js_lo = _\<rparr>"] unat_drop_bit b)
qed

text \<open>Divisor of one half, quotient of two halves.\<close>

lemma udivmod_long:
  assumes hi: "js_hi b = 0" and ge: "\<not> js_hi a < js_lo b" and nz: "js_lo b \<noteq> 0"
    and r: "jsll_udivmod a b = Some (q, r)"
  shows "js_val q = js_val a div js_val b" "js_val r = js_val a mod js_val b"
proof -
  define l where "l = unat (CountLeadingZeros (js_lo b))"
  define bl n2 n1 n0 where "bl = push_bit l (js_lo b)" and "n2 = drop_bit (32 - l) (js_hi a)"
    and "n1 = push_bit l (js_hi a) OR drop_bit (32 - l) (js_lo a)" and "n0 = push_bit l (js_lo a)"
  define q1 r1 where "q1 = (if l = 0 then 1 else fst (norm_udivmod32 \<lparr>js_hi = n2, js_lo = n1\<rparr> bl))"
    and "r1 = (if l = 0 then js_hi a - js_lo b else snd (norm_udivmod32 \<lparr>js_hi = n2, js_lo = n1\<rparr> bl))"
  obtain q0 r0 where nd0: "norm_udivmod32 \<lparr>js_hi = r1, js_lo = n0\<rparr> bl = (q0, r0)"
    by (cases "norm_udivmod32 \<lparr>js_hi = r1, js_lo = n0\<rparr> bl")
  have b: "js_val b = unat (js_lo b)" using hi by (simp add: js_val_def)
  note clz = CountLeadingZeros_correct [OF nz, folded l_def]
  have bl: "unat bl = unat (js_lo b) * 2 ^ l"
    unfolding bl_def using clz by (intro unat_push_bit_exact)
  have top: "js_val a * 2 ^ l = (unat q1 * 4294967296) * unat bl + (unat r1 * 4294967296 + unat n0) \<and>
      unat r1 < unat bl"
  proof (cases "l = 0")
    case True
    have "unat r1 = unat (js_hi a) - unat (js_lo b)" "unat (js_lo b) \<le> unat (js_hi a)"
      using ge True by (simp_all add: r1_def unat_sub word_le_nat_alt not_less)
    then show ?thesis
      using True clz(2) bl unat_u32_bound [of "js_hi a"]
      by (simp add: q1_def js_val_def n0_def diff_mult_distrib del: unat_u32_bound)
  next
    case False
    then have l: "0 < l" "l < 32" using clz by simp_all
    note two = shift_two(1) [OF l, of "js_hi a" "js_lo a"] shift_two(2,3) [OF l, of "js_lo a"]
    have "unat (js_hi a) < 2 ^ l * 2 ^ (32 - l)" unfolding pow_split [OF l(2)] by simp
    then have "unat n2 < 2 ^ l" by (simp only: n2_def unat_drop_bit less_mult_imp_div_less)
    also have "(2::nat) ^ l \<le> 2 ^ 31" using l by (intro power_increasing) simp_all
    finally have "unat n2 < unat bl" using clz bl by simp
    then have c1: "unat q1 = js_val \<lparr>js_hi = n2, js_lo = n1\<rparr> div unat bl \<and>
        unat r1 = js_val \<lparr>js_hi = n2, js_lo = n1\<rparr> mod unat bl"
      using clz bl False
      by (intro norm_udivmod32_correct) (simp_all add: word_less_nat_alt q1_def r1_def)
    have v1: "js_val \<lparr>js_hi = n2, js_lo = n1\<rparr> = unat (js_hi a) * 2 ^ l + unat (js_lo a) div 2 ^ (32 - l)"
      using two(1) by (simp add: js_val_def n2_def n1_def)
    have "0 < unat bl" using nz bl by (simp add: unat_gt_0)
    then have lt: "unat r1 < unat bl" using c1 by simp
    have "unat (js_hi a) * 2 ^ l + unat (js_lo a) div 2 ^ (32 - l) = unat q1 * unat bl + unat r1"
      unfolding v1 [symmetric] using c1 by simp
    moreover have "js_val a * 2 ^ l
        = (unat (js_hi a) * 2 ^ l + unat (js_lo a) div 2 ^ (32 - l)) * 4294967296 + unat n0"
      using two(2) by (simp add: js_val_def n0_def algebra_simps)
    ultimately show ?thesis using lt by (simp add: algebra_simps)
  qed
  have c: "unat q0 = js_val \<lparr>js_hi = r1, js_lo = n0\<rparr> div unat bl \<and>
      unat r0 = js_val \<lparr>js_hi = r1, js_lo = n0\<rparr> mod unat bl"
    using clz top bl by (intro norm_udivmod32_correct [OF _ _ nd0]) (simp_all add: word_less_nat_alt)
  have qr: "q = \<lparr>js_hi = q1, js_lo = q0\<rparr>" "r = \<lparr>js_hi = 0, js_lo = drop_bit l r0\<rparr>"
    using r nd0 hi ge nz unfolding jsll_udivmod_def Let_def l_def [symmetric] q1_def r1_def n2_def n1_def n0_def bl_def
    by (auto split: if_splits prod.splits)
  have nz_bl: "0 < unat bl" using top by linarith
  have "unat q0 * unat bl + unat r0 = unat r1 * 4294967296 + unat n0"
    using c by (simp add: js_val_def)
  then have "js_val a * 2 ^ l = (unat q1 * 4294967296 + unat q0) * unat bl + unat r0"
    using top by (simp add: algebra_simps del: unat_u32_bound)
  moreover have "unat r0 < unat bl" using c nz_bl by simp
  ultimately have "js_val a * 2 ^ l div unat bl = unat q1 * 4294967296 + unat q0" "js_val a * 2 ^ l mod unat bl = unat r0"
    by simp_all
  then show "js_val q = js_val a div js_val b" "js_val r = js_val a mod js_val b"
    using qr bl div_mod_scaled [of "2 ^ l" "js_val a" "unat (js_lo b)"]
    by (simp_all add: js_val_def [of "\<lparr>js_hi = _, js_lo = _\<rparr>"] unat_drop_bit b)
qed

text \<open>
  Divisor of two halves, normalised by shifting: the estimate from the high halves is at most
  one too large.
\<close>

lemma js_val_le_iff:
  "js_hi m > n1 \<or> (js_hi m = n1 \<and> js_lo m > n0) \<longleftrightarrow> js_val \<lparr>js_hi = n1, js_lo = n0\<rparr> < js_val m"
  using JSLL_UCMP_less_iff [of "\<lparr>js_hi = n1, js_lo = n0\<rparr>" m]
  by (auto simp: JSLL_UCMP_less_def)

lemma js_val_sub:
  assumes "js_val y \<le> js_val x"
  shows "js_val (JSLL_SUB x y) = js_val x - js_val y"
  using assms unat_js64 [of "JSLL_SUB x y"] by (simp add: JSLL_SUB_eq unat_sub word_le_nat_alt unat_js64)

text \<open>The bound behind the single correction: \<open>x (2^32 - x) \<le> 2^62\<close>, doubled.\<close>

lemma estimate_bound:
  fixes x :: nat
  assumes "x \<le> 4294967296"
  shows "2 * x * (4294967296 - x) \<le> 9223372036854775808"
proof -
  obtain y where y: "4294967296 = x + y" using assms le_Suc_ex by blast
  have "4 * (x * y) \<le> (x + y) * (x + y)"
  proof -
    have "int (4 * (x * y)) \<le> int ((x + y) * (x + y))"
      using zero_le_square [of "int x - int y"] by (simp add: algebra_simps)
    then show ?thesis by (simp only: of_nat_le_iff)
  qed
  also have "(x + y) * (x + y) = 18446744073709551616" by (simp flip: y)
  finally have "4 * (x * y) \<le> 18446744073709551616" .
  moreover have "4294967296 - x = y" using y by simp
  ultimately show ?thesis by (simp add: algebra_simps)
qed

lemma unshift_two:
  assumes "0 < l" "l < 32" "js_val a = v * 2 ^ l"
  shows "js_val \<lparr>js_hi = drop_bit l (js_hi a), js_lo = push_bit (32 - l) (js_hi a) OR drop_bit l (js_lo a)\<rparr> = v"
proof -
  let ?h = "unat (js_hi a)" and ?l = "unat (js_lo a)"
  have l': "0 < 32 - l" "32 - l < 32" "32 - (32 - l) = l" using assms by simp_all
  have "unat (push_bit (32 - l) (js_hi a) OR drop_bit l (js_lo a))
      = ?h mod 2 ^ l * 2 ^ (32 - l) + ?l div 2 ^ l"
    using unat_shift_in [OF l'(1,2), of "js_hi a" "js_lo a"] by (simp only: l'(3))
  then have "js_val \<lparr>js_hi = drop_bit l (js_hi a), js_lo = push_bit (32 - l) (js_hi a) OR drop_bit l (js_lo a)\<rparr>
      = ?h div 2 ^ l * 4294967296 + (?h mod 2 ^ l * 2 ^ (32 - l) + ?l div 2 ^ l)"
    by (simp add: js_val_def unat_drop_bit)
  also have "\<dots> = ?h * 2 ^ (32 - l) + ?l div 2 ^ l"
  proof -
    have "?h * 2 ^ (32 - l) = (?h div 2 ^ l * 2 ^ l + ?h mod 2 ^ l) * 2 ^ (32 - l)"
      by (simp only: div_mult_mod_eq)
    also have "\<dots> = ?h div 2 ^ l * (2 ^ l * 2 ^ (32 - l)) + ?h mod 2 ^ l * 2 ^ (32 - l)"
      by (simp only: algebra_simps)
    finally show ?thesis by (simp only: pow_split [OF assms(2)])
  qed
  also have "\<dots> = js_val a div 2 ^ l"
  proof -
    have "js_val a = ?l + (?h * 2 ^ (32 - l)) * 2 ^ l"
      using pow_split [OF assms(2)] by (simp add: js_val_def mult.assoc) (simp add: mult.commute)
    then show ?thesis by simp
  qed
  finally show ?thesis by (simp add: assms(3))
qed

lemma udivmod_normalised:
  assumes ge: "\<not> js_hi a < js_hi b" and lz: "0 < js_hi b" "js_hi b < 2147483648"
    and r: "jsll_udivmod a b = Some (q, r)"
  shows "js_val q = js_val a div js_val b" "js_val r = js_val a mod js_val b"
proof -
  define l where "l = unat (CountLeadingZeros (js_hi b))"
  define b' n2 n1 n0 where
    "b' = \<lparr>js_hi = push_bit l (js_hi b) OR drop_bit (32 - l) (js_lo b), js_lo = push_bit l (js_lo b)\<rparr>"
    and "n2 = drop_bit (32 - l) (js_hi a)"
    and "n1 = push_bit l (js_hi a) OR drop_bit (32 - l) (js_lo a)" and "n0 = push_bit l (js_lo a)"
  obtain qe r1 where nd: "norm_udivmod32 \<lparr>js_hi = n2, js_lo = n1\<rparr> (js_hi b') = (qe, r1)"
    by (cases "norm_udivmod32 \<lparr>js_hi = n2, js_lo = n1\<rparr> (js_hi b')")
  define m where "m = jsll_mul32 qe (js_lo b')"
  define over where "over \<longleftrightarrow> js_hi m > r1 \<or> (js_hi m = r1 \<and> js_lo m > n0)"
  define q0 m' where "q0 = (if over then qe - 1 else qe)" and "m' = (if over then JSLL_SUB m b' else m)"
  define rest where "rest = JSLL_SUB \<lparr>js_hi = r1, js_lo = n0\<rparr> m'"
  have nz: "js_hi b \<noteq> 0" using lz by auto
  note clz = CountLeadingZeros_correct [OF nz, folded l_def]
  have l0: "0 < l"
  proof (rule ccontr)
    assume "\<not> 0 < l"
    then show False using clz(2) lz(2) by (simp add: word_less_nat_alt)
  qed
  note l = l0 clz(1)
  have qr: "q = \<lparr>js_hi = 0, js_lo = q0\<rparr>"
    "r = \<lparr>js_hi = drop_bit l (js_hi rest), js_lo = push_bit (32 - l) (js_hi rest) OR drop_bit l (js_lo rest)\<rparr>"
    using r ge nz l0 nd
    unfolding jsll_udivmod_def Let_def l_def [symmetric] q0_def rest_def m'_def over_def m_def b'_def n2_def n1_def n0_def
    by (auto split: if_splits prod.splits)
  define X N D D' R M bh bl where "X = (2::nat) ^ l" and "N = js_val a" and "D = js_val b"
    and "D' = js_val b'" and "R = js_val \<lparr>js_hi = r1, js_lo = n0\<rparr>" and "M = js_val m"
    and "bh = unat (js_hi b')" and "bl = unat (js_lo b')"
  have X: "0 < X" "X \<le> 2147483648"
    using l power_increasing [of l 31 "2::nat"] by (simp_all add: X_def)
  note two = shift_two(1) [OF l, of "js_hi a" "js_lo a"] shift_two(2,3) [OF l, of "js_lo a"]
  have "unat (js_hi b) * X < 2 ^ (32 - l) * X"
    using clz(3) pow_split [OF l(2)] by (simp add: X_def mult.commute)
  then have hb: "unat (js_hi b) < 2 ^ (32 - l)" by simp
  have D': "D' = D * X"
    using shift_two_val [OF l, of "js_hi b" "js_lo b"] hb
    by (simp add: D'_def D_def X_def b'_def unat_drop_bit js_val_def)
  have bh: "2147483648 \<le> bh"
    using clz(2) hb by (simp add: bh_def b'_def unat_shift_in [OF l])
  have D'_split: "D' = bh * 4294967296 + bl" by (simp add: D'_def js_val_def bh_def bl_def)
  have bl: "bl \<le> 4294967296 - X"
  proof -
    have "unat (js_lo b) mod 2 ^ (32 - l) \<le> 2 ^ (32 - l) - 1"
    proof -
      have "unat (js_lo b) mod 2 ^ (32 - l) < 2 ^ (32 - l)" by simp
      then show ?thesis by linarith
    qed
    then have "bl \<le> (2 ^ (32 - l) - 1) * X"
      unfolding bl_def b'_def X_def by (simp add: unat_push_bit l)
    also have "\<dots> = 4294967296 - X"
      unfolding pow_split [OF l(2), symmetric] X_def diff_mult_distrib by (simp add: mult.commute)
    finally show ?thesis .
  qed
  define A where "A = unat (js_hi a) * X + unat (js_lo a) div 2 ^ (32 - l)"
  have A: "A = js_val \<lparr>js_hi = n2, js_lo = n1\<rparr>"
    using two(1) by (simp add: A_def js_val_def n2_def n1_def X_def)
  have "Suc (unat (js_hi a)) * X \<le> 4294967296 * X"
    using unat_u32_bound [of "js_hi a"] by (intro mult_le_mono1) (simp only: Suc_le_eq)
  then have "unat (js_hi a) * X + X \<le> 4294967296 * X" by (simp only: mult_Suc add.commute)
  then have A_lt: "A < 4294967296 * X" using two(3) unfolding A_def X_def [symmetric] by linarith
  have NX: "N * X = A * 4294967296 + unat n0"
    using two(2) by (simp add: N_def A_def X_def js_val_def n0_def algebra_simps)
  have "unat (js_hi a) < 2 ^ l * 2 ^ (32 - l)" unfolding pow_split [OF l(2)] by simp
  then have "unat n2 < X" by (simp only: n2_def unat_drop_bit X_def less_mult_imp_div_less)
  then have "js_hi \<lparr>js_hi = n2, js_lo = n1\<rparr> < js_hi b'"
    using X bh by (simp add: word_less_nat_alt bh_def)
  then have c: "unat qe = A div bh" "unat r1 = A mod bh"
    using norm_udivmod32_correct [OF _ _ nd] bh by (simp_all add: A bh_def)
  then have A_qr: "A = unat qe * bh + unat r1" and r1: "unat r1 < bh" using bh by simp_all
  have "unat qe * 2147483648 \<le> unat qe * bh" using bh by (rule mult_le_mono2)
  then have qe: "unat qe \<le> 2 * X" using A_qr A_lt by linarith
  have M: "M = unat qe * bl" by (simp add: M_def m_def jsll_mul32_val bl_def)
  have "unat qe * bl \<le> 2 * X * (4294967296 - X)" using qe bl by (rule mult_le_mono)
  then have M_le: "M \<le> D'"
    unfolding M D'_split using estimate_bound [of X] X bh by linarith
  have R: "R = unat r1 * 4294967296 + unat n0" by (simp add: R_def js_val_def)
  have "Suc (unat r1) * 4294967296 \<le> bh * 4294967296" using r1 by (intro mult_le_mono1) simp
  then have "unat r1 * 4294967296 + 4294967296 \<le> bh * 4294967296" by (simp only: mult_Suc add.commute)
  then have R_lt: "R < D'" unfolding R D'_split using unat_u32_bound [of n0] by linarith
  have sum: "N * X + M = unat qe * D' + R"
    unfolding NX A_qr M D'_split R by (simp add: algebra_simps)
  have over: "over \<longleftrightarrow> R < M" unfolding over_def js_val_le_iff R_def M_def ..
  have D'_lt: "D' < 2 ^ 64" unfolding D'_def by (rule js_val_bound)
  have result: "N * X = unat q0 * D' + js_val rest \<and> js_val rest < D'"
  proof (cases over)
    case False
    then have "js_val rest = R - M"
      using over unfolding rest_def m'_def M_def R_def by (simp add: js_val_sub)
    moreover have "M \<le> R" using False over by simp
    then have "N * X = unat qe * D' + (R - M)" "R - M < D'" using sum R_lt by linarith+
    ultimately show ?thesis using False by (simp add: q0_def)
  next
    case True
    then have lt: "R < M" using over by simp
    then have "unat qe \<noteq> 0" unfolding M by (intro notI) simp
    then have uq: "unat q0 = unat qe - 1"
      using True unat_minus_one [of qe] by (cases "qe = 0") (simp_all add: q0_def)
    have qD: "unat qe * D' = (unat qe - 1) * D' + D'"
      using \<open>unat qe \<noteq> 0\<close> by (cases "unat qe") simp_all
    have "js64 rest = of_nat R - (of_nat M - of_nat D')"
      using True by (simp add: rest_def m'_def JSLL_SUB_eq R_def M_def D'_def flip: js64_of_nat)
    also have "\<dots> = of_nat (R + D' - M)"
      using M_le by (simp add: of_nat_diff)
    finally have "js64 rest = of_nat (R + D' - M)" .
    moreover have "R + D' - M < 2 ^ 64" using lt D'_lt by linarith
    ultimately have "js_val rest = R + D' - M"
      by (simp add: unat_js64 [symmetric] unsigned_of_nat take_bit_nat_eq_self del: of_nat_add of_nat_diff)
    then show ?thesis unfolding uq using lt M_le sum qD by linarith
  qed
  then have "N * X div D' = unat q0" "js_val rest = N * X mod D'" by simp_all
  then have quot: "unat q0 = N div D" and rem: "js_val rest = N mod D * X"
    unfolding D' using X div_mod_scaled(1) [OF X(1), of N D] by (simp_all add: mult_mod_left)
  show "js_val q = js_val a div js_val b"
    using quot by (simp add: qr js_val_def [of "\<lparr>js_hi = 0, js_lo = _\<rparr>"] N_def D_def)
  show "js_val r = js_val a mod js_val b"
    unfolding qr using unshift_two [OF l rem [unfolded X_def]] by (simp add: N_def D_def)
qed

text \<open>The remaining branches: a larger divisor, and a divisor with its top bit set.\<close>

lemma udivmod_small:
  assumes "js_hi b \<noteq> 0" "js_hi a < js_hi b" "jsll_udivmod a b = Some (q, r)"
  shows "js_val q = js_val a div js_val b" "js_val r = js_val a mod js_val b"
proof -
  have "js_val a < js_val b"
    using JSLL_UCMP_less_iff [of a b] assms(2) by (simp add: JSLL_UCMP_less_def)
  moreover have "q = \<lparr>js_hi = 0, js_lo = 0\<rparr>" "js_val r = js_val a"
    using assms by (auto simp: jsll_udivmod_def Let_def js_val_def)
  ultimately show "js_val q = js_val a div js_val b" "js_val r = js_val a mod js_val b"
    by (simp_all add: js_val_def)
qed

lemma udivmod_top:
  assumes "\<not> js_hi a < js_hi b" "2147483648 \<le> js_hi b" "jsll_udivmod a b = Some (q, r)"
  shows "js_val q = js_val a div js_val b" "r = a"
proof -
  have nz: "js_hi b \<noteq> 0" using assms(2) by auto
  have "unat (CountLeadingZeros (js_hi b)) = 0"
  proof (rule ccontr)
    let ?l = "unat (CountLeadingZeros (js_hi b))"
    assume "?l \<noteq> 0"
    then have "2 ^ 1 \<le> (2::nat) ^ ?l" by (intro power_increasing) simp_all
    then have "2147483648 * 2 \<le> unat (js_hi b) * 2 ^ ?l"
      using assms(2) by (intro mult_le_mono) (simp_all add: word_le_nat_alt)
    then show False using CountLeadingZeros_correct(3) [OF nz] by simp
  qed
  then have q: "q = \<lparr>js_hi = 0, js_lo = (if js_hi a > js_hi b \<or> js_lo a \<ge> js_lo b then 1 else 0)\<rparr>" and r: "r = a"
    using assms nz by (auto simp: jsll_udivmod_def Let_def)
  show "r = a" by (rule r)
  have two: "js_val a < 2 * js_val b"
    using js_val_bound [of a] assms(2) by (simp add: js_val_def word_le_nat_alt)
  have cmp: "js_hi a > js_hi b \<or> js_lo a \<ge> js_lo b \<longleftrightarrow> js_val b \<le> js_val a"
    using JSLL_UCMP_less_iff [of a b] assms(1) by (auto simp: JSLL_UCMP_less_def not_less)
  show "js_val q = js_val a div js_val b"
  proof (cases "js_val b \<le> js_val a")
    case True
    then have "js_val a div js_val b = 1"
      using two by (intro div_nat_eqI) simp_all
    then show ?thesis using True cmp by (simp add: q js_val_def)
  next
    case False
    then show ?thesis using cmp by (simp add: q js_val_def)
  qed
qed

lemma jsll_udivmod_None: "jsll_udivmod a b = None \<longleftrightarrow> js_hi b = 0 \<and> js_lo b = 0"
  by (auto simp: jsll_udivmod_def Let_def split: prod.splits)

text \<open>
  The case in which the remainder is left unreduced: a divisor of \<open>2^63\<close> or more that fits into
  the dividend.  The code subtracts the divisor from a copy it then drops.
\<close>

definition udivmod_stale_remainder :: "JSInt64 \<Rightarrow> JSInt64 \<Rightarrow> bool" where
  "udivmod_stale_remainder a b \<longleftrightarrow> 2147483648 \<le> js_hi b \<and> js_val b \<le> js_val a"

lemma jsll_udivmod_spec:
  assumes "js_val b \<noteq> 0"
  shows "\<exists>q r. jsll_udivmod a b = Some (q, r) \<and> js_val q = js_val a div js_val b \<and>
    js_val r = (if udivmod_stale_remainder a b then js_val a else js_val a mod js_val b)"
proof -
  obtain q r where qr: "jsll_udivmod a b = Some (q, r)"
    using assms jsll_udivmod_None [of a b] by (cases "jsll_udivmod a b") (auto simp: js_val_def)
  have le: "js_val b \<le> js_val a \<Longrightarrow> \<not> js_hi a < js_hi b"
    using JSLL_UCMP_less_iff [of a b] by (auto simp: JSLL_UCMP_less_def)
  consider (short) "js_hi b = 0" "js_hi a < js_lo b" | (long) "js_hi b = 0" "\<not> js_hi a < js_lo b"
    | (small) "js_hi b \<noteq> 0" "js_hi a < js_hi b" | (top) "\<not> js_hi a < js_hi b" "2147483648 \<le> js_hi b"
    | (norm) "\<not> js_hi a < js_hi b" "0 < js_hi b" "js_hi b < 2147483648"
    by (cases "js_hi b = 0"; cases "js_hi a < js_lo b"; cases "js_hi a < js_hi b"; cases "js_hi b < 2147483648")
      (auto simp: not_less word_gt_0)
  then have "js_val q = js_val a div js_val b \<and>
    js_val r = (if udivmod_stale_remainder a b then js_val a else js_val a mod js_val b)"
  proof cases
    case short
    then show ?thesis using udivmod_short [OF _ _ qr] by (simp add: udivmod_stale_remainder_def)
  next
    case long
    then show ?thesis using udivmod_long [OF _ _ _ qr] assms
      by (cases "js_lo b = 0") (auto simp: udivmod_stale_remainder_def js_val_def [of b])
  next
    case small
    then show ?thesis using udivmod_small [OF _ _ qr] le by (auto simp: udivmod_stale_remainder_def)
  next
    case top
    then show ?thesis using udivmod_top [OF _ _ qr]
      by (cases "js_val b \<le> js_val a") (auto simp: udivmod_stale_remainder_def)
  next
    case norm
    then show ?thesis using udivmod_normalised [OF _ _ _ qr] 
      by (auto simp: udivmod_stale_remainder_def)
  qed
  then show ?thesis using qr by blast
qed

text \<open>
  C29: 64-bit unsigned division.  For every non-zero divisor \<open>jsll_udivmod\<close> returns, its quotient
  is the exact quotient, and its remainder is the exact remainder except when the divisor is at
  least \<open>2^63\<close> and no larger than the dividend, where the remainder stored is the dividend itself.
\<close>

theorem jsll_udivmod_correct:
  assumes "js_val b \<noteq> 0"
  shows "\<exists>q r. jsll_udivmod a b = Some (q, r) \<and> js_val q = js_val a div js_val b \<and>
    js_val r = (if udivmod_stale_remainder a b then js_val a else js_val a mod js_val b)"
  using assms by (rule jsll_udivmod_spec)

theorem jsll_udivmod_correct_witness:
  "js_val (JSLL_INIT 0 10000) \<noteq> 0 \<and>
   (\<exists>q r. jsll_udivmod (JSLL_INIT 0x12345678 0x9ABCDEF0) (JSLL_INIT 0 10000) = Some (q, r) \<and>
     js_val q = js_val (JSLL_INIT 0x12345678 0x9ABCDEF0) div 10000)"
  using jsll_udivmod_correct [of "JSLL_INIT 0 10000" "JSLL_INIT 0x12345678 0x9ABCDEF0"]
  by (auto simp: JSLL_INIT_def js_val_def)

text \<open>
  The defect in \<open>jsll_udivmod\<close>.  \<open>2^63\<close> divided by \<open>2^63\<close> yields quotient 1 and remainder
  \<open>2^63\<close>, so quotient times divisor plus remainder is not the dividend, nor is the remainder
  below the divisor.
\<close>

theorem jsll_udivmod_stale_remainder:
  "jsll_udivmod (JSLL_INIT 0x80000000 0) (JSLL_INIT 0x80000000 0)
     = Some (JSLL_INIT 0 1, JSLL_INIT 0x80000000 0)"
  by (simp add: jsll_udivmod_def JSLL_INIT_def CountLeadingZeros_def clz_step_def Let_def)

end
