(* ===== verification/Jslong_Ops.thy ===== *)
theory Jslong_Ops
  imports Jslong_Udivmod
begin

text \<open>
  The operations built on the 64-bit core of \<open>jslong.c\<close>: signed division, the three shifts, and
  the decimal output of \<open>jsll_udecstr\<close> and \<open>jsll_decstr\<close> with the reference function
  \<open>decimal\<close> it is compared with.
\<close>

section \<open>Signed division\<close>

lemma js64_sign: "sint (js_hi a) < 0 \<longleftrightarrow> sint (js64 a) < 0"
  using bit_last_iff [of "js_hi a"] bit_last_iff [of "js64 a"]
  by (simp add: js64_def bit_word_cat_iff)

lemma uint_sint_nonneg:
  fixes x :: "'a::len word"
  assumes "0 \<le> sint x"
  shows "uint x = sint x"
proof -
  have "x = word_of_int (sint x)" by simp
  moreover have "sint x < 2 ^ LENGTH('a)"
  proof -
    have "sint x < 2 ^ (LENGTH('a) - 1)" using sint_less [of x] by simp
    also have "\<dots> \<le> (2::int) ^ LENGTH('a)" by (intro power_increasing) simp_all
    finally show ?thesis .
  qed
  ultimately show ?thesis
    using assms by (metis uint_word_of_int_eq take_bit_int_eq_self)
qed

lemma uint_uminus_neg:
  fixes x :: "'a::len word"
  assumes "sint x < 0"
  shows "uint (- x) = - sint x"
proof -
  have "- x = word_of_int (- sint x)" by simp
  moreover have "- sint x < 2 ^ LENGTH('a)"
  proof -
    have "- sint x \<le> 2 ^ (LENGTH('a) - 1)" using sint_greater_eq [of x] by simp
    also have "\<dots> < 2 ^ LENGTH('a)" by (intro power_strict_increasing) simp_all
    finally show ?thesis .
  qed
  ultimately show ?thesis
    using assms by (metis uint_word_of_int_eq take_bit_int_eq_self neg_0_le_iff_le order_less_imp_le)
qed

lemma js_val_abs: "int (js_val (jsll_abs a)) = \<bar>sint (js64 a)\<bar>"
proof -
  have "int (js_val (jsll_abs a)) = uint (js64 (jsll_abs a))"
    by (simp add: unat_js64 [symmetric])
  then show ?thesis
    using uint_sint_nonneg [of "js64 a"] uint_uminus_neg [of "js64 a"]
    by (auto simp: jsll_abs_def js64_sign JSLL_NEG_eq)
qed

lemma word_of_int_sint_id: "word_of_int (sint x) = x"
  by simp

lemma abs_stale:
  "udivmod_stale_remainder (jsll_abs a) (jsll_abs b) \<longleftrightarrow>
     sint (js64 a) = - (2 ^ 63) \<and> sint (js64 b) = - (2 ^ 63)"
proof -
  have big: "2147483648 \<le> js_hi x \<longleftrightarrow> 2 ^ 63 \<le> int (js_val x)" for x
  proof -
    have "2147483648 \<le> unat (js_hi x) \<longleftrightarrow> 2 ^ 63 \<le> js_val x"
    proof -
      have "h * 4294967296 + l < 9223372036854775808 \<longleftrightarrow> h < 2147483648" if "l < 4294967296" for h l :: nat
        using that by arith
      from this [of "unat (js_lo x)" "unat (js_hi x)"] show ?thesis
        by (simp add: js_val_def flip: not_less)
    qed
    then show ?thesis
      using of_nat_le_iff [where 'a = int, of "2 ^ 63" "js_val x"] by (simp add: word_le_nat_alt)
  qed
  have range: "- (2 ^ 63) \<le> sint (js64 x) \<and> sint (js64 x) < 2 ^ 63" for x
    using sint_greater_eq [of "js64 x"] sint_less [of "js64 x"] by simp
  have "udivmod_stale_remainder (jsll_abs a) (jsll_abs b) \<longleftrightarrow>
      2 ^ 63 \<le> \<bar>sint (js64 b)\<bar> \<and> \<bar>sint (js64 b)\<bar> \<le> \<bar>sint (js64 a)\<bar>"
    unfolding udivmod_stale_remainder_def big js_val_abs [symmetric] by simp
  then show ?thesis using range [of a] range [of b] by (auto simp: abs_if split: if_splits)
qed

lemma js64_eq_int: "js64 q = word_of_int (int (js_val q))"
  by (simp add: js64_of_nat)

lemma jsll_div_mod_abs:
  assumes "sint (js64 b) \<noteq> 0"
  obtains q r where "jsll_udivmod (jsll_abs a) (jsll_abs b) = Some (q, r)"
    "js64 q = word_of_int (\<bar>sint (js64 a)\<bar> div \<bar>sint (js64 b)\<bar>)"
    "js64 r = word_of_int (if sint (js64 a) = - (2 ^ 63) \<and> sint (js64 b) = - (2 ^ 63)
                           then 2 ^ 63 else \<bar>sint (js64 a)\<bar> mod \<bar>sint (js64 b)\<bar>)"
proof -
  have "int (js_val (jsll_abs b)) \<noteq> 0" using assms by (simp add: js_val_abs)
  then have "js_val (jsll_abs b) \<noteq> 0" by simp
  from jsll_udivmod_spec [OF this, of "jsll_abs a"] obtain q r where
    qr: "jsll_udivmod (jsll_abs a) (jsll_abs b) = Some (q, r)"
    and q: "js_val q = js_val (jsll_abs a) div js_val (jsll_abs b)"
    and r: "js_val r = (if udivmod_stale_remainder (jsll_abs a) (jsll_abs b) then js_val (jsll_abs a)
              else js_val (jsll_abs a) mod js_val (jsll_abs b))"
    by auto
  show ?thesis
  proof (rule that [OF qr])
    show "js64 q = word_of_int (\<bar>sint (js64 a)\<bar> div \<bar>sint (js64 b)\<bar>)"
      by (simp only: js64_eq_int q zdiv_int js_val_abs)
    show "js64 r = word_of_int (if sint (js64 a) = - (2 ^ 63) \<and> sint (js64 b) = - (2 ^ 63)
                           then 2 ^ 63 else \<bar>sint (js64 a)\<bar> mod \<bar>sint (js64 b)\<bar>)"
      by (simp only: js64_eq_int r abs_stale if_distrib [of int] zmod_int js_val_abs) auto
  qed
qed

text \<open>
  Signed 64-bit division.  For a non-zero divisor \<open>jsll_div\<close> is C's division, truncating
  towards zero, reduced modulo \<open>2^64\<close> (so the most negative number divided by -1 is itself).
\<close>

theorem jsll_div_correct:
  assumes "sint (js64 b) \<noteq> 0"
  shows "\<exists>q. jsll_div a b = Some q \<and> js64 q = word_of_int (sint (js64 a) sdiv sint (js64 b))"
proof -
  obtain q r where q: "jsll_udivmod (jsll_abs a) (jsll_abs b) = Some (q, r)"
    "js64 q = word_of_int (\<bar>sint (js64 a)\<bar> div \<bar>sint (js64 b)\<bar>)"
    using assms by (rule jsll_div_mod_abs)
  show ?thesis
    using assms
    by (cases "sint (js64 a)" "0 :: int" rule: linorder_cases; cases "sint (js64 b) < 0")
       (simp_all add: jsll_div_def js64_sign q JSLL_NEG_eq signed_divide_int_def sgn_if)
qed

theorem jsll_div_correct_witness:
  "sint (js64 (JSLL_INIT 0xFFFFFFFF 0xFFFFFFFD)) \<noteq> 0 \<and>
   (\<exists>q. jsll_div (JSLL_INIT 0 7) (JSLL_INIT 0xFFFFFFFF 0xFFFFFFFD) = Some q \<and> js64 q = word_of_int (- 2))"
proof -
  have v: "sint (js64 (JSLL_INIT 0xFFFFFFFF 0xFFFFFFFD)) = - 3" "sint (js64 (JSLL_INIT 0 7)) = 7"
    by (simp_all add: JSLL_INIT_def js64_def word_cat_eq)
  show ?thesis
    using jsll_div_correct [of "JSLL_INIT 0xFFFFFFFF 0xFFFFFFFD" "JSLL_INIT 0 7"]
    unfolding v by (simp add: signed_divide_int_def)
qed

text \<open>
  Signed 64-bit remainder.  For a non-zero divisor \<open>jsll_mod\<close> is C's remainder, with the sign
  of the dividend; the only exception is the most negative number modulo itself, where the
  unreduced remainder of \<open>jsll_udivmod\<close> shows and the result is the dividend.
\<close>

theorem jsll_mod_correct:
  assumes "sint (js64 b) \<noteq> 0"
  shows "\<exists>r. jsll_mod a b = Some r \<and>
    js64 r = (if sint (js64 a) = - (2 ^ 63) \<and> sint (js64 b) = - (2 ^ 63) then js64 a
              else word_of_int (sint (js64 a) smod sint (js64 b)))"
proof -
  obtain q r where r: "jsll_udivmod (jsll_abs a) (jsll_abs b) = Some (q, r)"
    "js64 r = word_of_int (if sint (js64 a) = - (2 ^ 63) \<and> sint (js64 b) = - (2 ^ 63)
                           then 2 ^ 63 else \<bar>sint (js64 a)\<bar> mod \<bar>sint (js64 b)\<bar>)"
    using assms by (rule jsll_div_mod_abs)
  have *: "js64 a = word_of_int (- (2 ^ 63))" if "sint (js64 a) = - (2 ^ 63)"
    using that word_of_int_sint_id [of "js64 a"] by simp
  show ?thesis
  proof (cases "sint (js64 a) = - (2 ^ 63) \<and> sint (js64 b) = - (2 ^ 63)")
    case True
    then show ?thesis using r * by (simp add: jsll_mod_def js64_sign JSLL_NEG_eq)
  next
    case False
    then have "js64 r = word_of_int (\<bar>sint (js64 a)\<bar> mod \<bar>sint (js64 b)\<bar>)" using r by simp
    then show ?thesis
      using False by (cases "sint (js64 a)" "0 :: int" rule: linorder_cases)
        (auto simp: jsll_mod_def js64_sign r(1) JSLL_NEG_eq signed_modulo_int_def)
  qed
qed

theorem jsll_mod_correct_witness:
  "sint (js64 (JSLL_INIT 0xFFFFFFFF 0xFFFFFFFD)) \<noteq> 0 \<and>
   (\<exists>r. jsll_mod (JSLL_INIT 0 7) (JSLL_INIT 0xFFFFFFFF 0xFFFFFFFD) = Some r \<and> js64 r = word_of_int 1)"
proof -
  have v: "sint (js64 (JSLL_INIT 0xFFFFFFFF 0xFFFFFFFD)) = - 3" "sint (js64 (JSLL_INIT 0 7)) = 7"
    by (simp_all add: JSLL_INIT_def js64_def word_cat_eq)
  show ?thesis
    using jsll_mod_correct [of "JSLL_INIT 0xFFFFFFFF 0xFFFFFFFD" "JSLL_INIT 0 7"]
    unfolding v by (simp add: signed_modulo_int_def)
qed

section \<open>Shifts\<close>

lemma and_31: "unat (b AND 31 :: u8) = unat b mod 32"
  using unat_and_pow2_mask [of "31 :: u8" 5 b] by simp

lemma bit_js64: "bit (js64 a) n \<longleftrightarrow> (if n < 32 then bit (js_lo a) n else n < 64 \<and> bit (js_hi a) (n - 32))"
  by (auto simp: js64_def bit_word_cat_iff)

lemma bits_halves: "bit x n \<Longrightarrow> n < 32" for x :: u32
  by (rule ccontr) (simp add: bit_word.rep_eq)

text \<open>A shift by less than 64 places is by none, within a half, or by a half and more.\<close>

lemma shift_cases:
  fixes b :: u8
  assumes "b < 64"
  obtains (none) "b = 0"
    | (low) "b \<noteq> 0" "b < 32" "unat b < 32" "unat b mod 32 = unat b" "unat (32 - b) = 32 - unat b"
    | (high) "b \<noteq> 0" "\<not> b < 32" "32 \<le> unat b" "unat b mod 32 = unat b - 32"
  using assms by (cases "b = 0"; cases "b < 32")
    (auto simp: word_less_nat_alt unat_sub word_le_nat_alt mod_if)

lemma jsll_shl_eq:
  assumes "b < 64"
  shows "js64 (jsll_shl a b) = push_bit (unat b) (js64 a)"
  using assms
  by (cases rule: shift_cases; intro bit_word_eqI)
     (auto simp: jsll_shl_def bit_js64 bit_simps and_31 Let_def ac_simps dest: bits_halves)

lemma jsll_ushr_eq:
  assumes "b < 64"
  shows "js64 (jsll_ushr a b) = drop_bit (unat b) (js64 a)"
  using assms
  by (cases rule: shift_cases; intro bit_word_eqI)
     (auto simp: jsll_ushr_def bit_js64 bit_simps and_31 Let_def ac_simps dest: bits_halves)

lemma sign_word: "signed_drop_bit 31 (x :: u32) = (if bit x 31 then - 1 else 0)"
proof (rule bit_word_eqI)
  fix n
  assume "n < LENGTH(32)"
  then show "bit (signed_drop_bit 31 x) n = bit (if bit x 31 then - 1 else (0 :: u32)) n"
    by (cases "n = 0") (auto simp: bit_signed_drop_bit_iff)
qed

lemma jsll_shr_eq:
  assumes "b < 64"
  shows "js64 (jsll_shr a b) = signed_drop_bit (unat b) (js64 a)"
  using assms
proof (cases rule: shift_cases)
  case high
  have k: "unat b < 64" using assms by (simp add: word_less_nat_alt)
  have code: "js64 (jsll_shr a b)
      = js64 \<lparr>js_hi = (if bit (js_hi a) 31 then - 1 else 0), js_lo = signed_drop_bit (unat b - 32) (js_hi a)\<rparr>"
    using high by (simp add: jsll_shr_def Let_def and_31 sign_word)
  show ?thesis
  proof (rule bit_word_eqI)
    fix n
    assume "n < LENGTH(64)"
    then have n: "n < 64" by simp
    have "bit (js64 (jsll_shr a b)) n \<longleftrightarrow> bit (js_hi a) (if n < 64 - unat b then unat b - 32 + n else 31)"
      unfolding code using high k n by (cases "n < 32") (auto simp: bit_js64 bit_signed_drop_bit_iff)
    also have "\<dots> \<longleftrightarrow> bit (js64 a) (if n < 64 - unat b then unat b + n else 63)"
      using high n by (auto simp: bit_js64)
    also have "\<dots> \<longleftrightarrow> bit (signed_drop_bit (unat b) (js64 a)) n"
      using n k by (auto simp: bit_signed_drop_bit_iff)
    finally show "bit (js64 (jsll_shr a b)) n \<longleftrightarrow> bit (signed_drop_bit (unat b) (js64 a)) n" .
  qed
qed (intro bit_word_eqI; auto simp: jsll_shr_def bit_js64 bit_simps and_31 Let_def ac_simps dest: bits_halves)+

text \<open>
  Shifts by less than 64 places.  \<open>jsll_shl\<close>, \<open>jsll_ushr\<close> and \<open>jsll_shr\<close> on two halves are
  the left, logical right and arithmetic right shifts of the 64-bit word.
\<close>

theorem jsll_shifts_correct:
  assumes "b < 64"
  shows "js64 (jsll_shl a b) = push_bit (unat b) (js64 a) \<and>
    js64 (jsll_ushr a b) = drop_bit (unat b) (js64 a) \<and>
    js64 (jsll_shr a b) = signed_drop_bit (unat b) (js64 a)"
  using assms by (simp add: jsll_shl_eq jsll_ushr_eq jsll_shr_eq)

theorem jsll_shifts_correct_witness:
  "(40 :: u8) < 64 \<and> js64 (jsll_shl (JSLL_INIT 0 0x123) 40) = 0x1230000000000"
  using jsll_shifts_correct [of 40 "JSLL_INIT 0 0x123"]
  by (simp add: JSLL_INIT_def js64_def word_cat_eq push_bit_eq_mult)

text \<open>
  A shift by 64, which the header allows, does not clear the value: the high half becomes
  the low half.
\<close>

theorem jsll_shift_64_not_zero: "jsll_shl a 64 = \<lparr>js_hi = js_lo a, js_lo = 0\<rparr>"
  by (simp add: jsll_shl_def)

section \<open>Decimal output\<close>

text \<open>
  The inner loop of \<open>jsll_udecstr\<close>: up to \<open>i\<close> digits of \<open>rem16\<close>, least significant first,
  zeros included when \<open>fill\<close> says that more chunks follow.
\<close>

fun udecstr_digits :: "nat \<Rightarrow> bool \<Rightarrow> u16 \<Rightarrow> u8 list" where
  "udecstr_digits i fill rem16 =
     (if i \<noteq> 0 \<and> (fill \<or> rem16 \<noteq> 0)
      then (48 + ucast (rem16 mod 10)) # udecstr_digits (i - 1) fill (rem16 div 10)
      else [])"

declare udecstr_digits.simps [simp del]

definition udecstr_divisor :: JSInt64 where
  "udecstr_divisor = JSLL_INIT 0 10000"

lemma udecstr_divmod:
  obtains q r where "jsll_udivmod v udecstr_divisor = Some (q, r)"
    "js_val q = js_val v div 10000" "js_val r = js_val v mod 10000"
proof -
  have "js_val udecstr_divisor = 10000" by (simp add: udecstr_divisor_def JSLL_INIT_def js_val_def)
  moreover have "\<not> udivmod_stale_remainder v udecstr_divisor"
    by (simp add: udivmod_stale_remainder_def udecstr_divisor_def JSLL_INIT_def)
  ultimately show ?thesis
    using that jsll_udivmod_spec [of udecstr_divisor v] by auto
qed

lemma JSLL_IS_ZERO_iff: "JSLL_IS_ZERO v \<longleftrightarrow> js_val v = 0"
  by (simp add: JSLL_IS_ZERO_def js_val_def unat_eq_0)

text \<open>The outer loop; \<open>temp\<close> is the part of the array of that name below \<open>p\<close>.\<close>

function udecstr_loop :: "JSInt64 \<Rightarrow> u8 list \<Rightarrow> u8 list option" where
  "udecstr_loop quot temp =
     (case jsll_udivmod quot udecstr_divisor of
        None \<Rightarrow> None
      | Some (quot', rm) \<Rightarrow>
          (let fill = (\<not> JSLL_IS_ZERO quot');
               temp' = temp @ udecstr_digits 4 fill (ucast (js_lo rm))
           in if fill then udecstr_loop quot' temp' else Some temp'))"
  by pat_completeness auto

termination
proof (relation "measure (\<lambda>(quot, temp). js_val quot)", simp)
  fix quot quot' rm and temp temp' :: "u8 list" and y :: "JSInt64 \<times> JSInt64" and fill
  assume "jsll_udivmod quot udecstr_divisor = Some y" "(quot', rm) = y"
    "fill = (\<not> JSLL_IS_ZERO quot')" fill
  then show "((quot', temp'), (quot, temp)) \<in> measure (\<lambda>(quot, temp). js_val quot)"
    using udecstr_divmod [of quot] by (force simp: JSLL_IS_ZERO_iff)
qed

declare udecstr_loop.simps [simp del]

text \<open>The bytes written to \<open>buffer\<close>, null terminator included, and the result.\<close>

definition jsll_udecstr :: "JSInt64 \<Rightarrow> (u8 list \<times> nat) option" where
  "jsll_udecstr v =
     (if JSLL_IS_ZERO v then Some ([48, 0], 1)
      else case udecstr_loop v [] of
          None \<Rightarrow> None
        | Some temp \<Rightarrow>
            (let length' = length temp
             in Some (take (unat (of_nat length' :: u8)) (rev temp) @ [0], length')))"

definition jsll_decstr :: "JSInt64 \<Rightarrow> (u8 list \<times> nat) option" where
  "jsll_decstr v =
     (if sint (js_hi v) < 0
      then case jsll_udecstr (JSLL_NEG v) of
          None \<Rightarrow> None
        | Some (buffer, n) \<Rightarrow> Some (45 # buffer, n)
      else jsll_udecstr v)"

text \<open>The reference: the decimal digits of a number, in ASCII.\<close>

fun decimal :: "nat \<Rightarrow> u8 list" where
  "decimal n = (if n < 10 then [48 + of_nat n] else decimal (n div 10) @ [48 + of_nat (n mod 10)])"

declare decimal.simps [simp del]

lemma digit_of_rem: "(48 :: u8) + ucast (x mod 10 :: u16) = 48 + of_nat (unat x mod 10)"
proof -
  have "of_nat (unat (x mod 10)) = (ucast (x mod 10) :: u8)" by (rule of_nat_unat)
  moreover have "unat (x mod 10) = unat x mod 10" by (simp add: unat_mod)
  ultimately show ?thesis by simp
qed

lemma mod_pow_Suc: "n mod 10 ^ Suc k = 10 * (n div 10 mod 10 ^ k) + n mod 10" for n :: nat
  by (simp add: mod_mult2_eq)

lemma udecstr_digits_pad:
  assumes "10 ^ i \<le> n" "unat x mod 10 ^ i = n mod 10 ^ i"
  shows "decimal n = decimal (n div 10 ^ i) @ rev (udecstr_digits i True x)"
  using assms
proof (induction i arbitrary: n x)
  case 0
  then show ?case by (simp add: udecstr_digits.simps)
next
  case (Suc i)
  have "(unat x mod 10 ^ Suc i) mod 10 = (n mod 10 ^ Suc i) mod 10"
    "(unat x mod 10 ^ Suc i) div 10 = (n mod 10 ^ Suc i) div 10"
    using Suc.prems by simp_all
  then have low: "unat x mod 10 = n mod 10" and high: "unat x div 10 mod 10 ^ i = n div 10 mod 10 ^ i"
    by (simp_all only: mod_pow_Suc) simp_all
  have "10 \<le> n" using Suc.prems(1) order_trans [of 10 "10 ^ Suc i" n] by simp
  then have "decimal n = decimal (n div 10) @ [48 + of_nat (n mod 10)]"
    by (subst decimal.simps) simp
  moreover have "decimal (n div 10) = decimal (n div 10 div 10 ^ i) @ rev (udecstr_digits i True (x div 10))"
    using Suc.prems(1) high by (intro Suc.IH) (simp_all add: unat_div)
  ultimately show ?case
    by (subst udecstr_digits.simps) (simp add: div_mult2_eq digit_of_rem low)
qed

lemma udecstr_digits_last:
  assumes "unat x < 10 ^ i" "x \<noteq> 0"
  shows "rev (udecstr_digits i False x) = decimal (unat x)"
  using assms
proof (induction i arbitrary: x)
  case 0
  then show ?case by (simp add: unat_eq_0)
next
  case (Suc i)
  show ?case
  proof (cases "x div 10 = 0")
    case True
    then have "unat x < 10" by (simp add: word_unat_eq_iff unat_div)
    then show ?thesis
      using Suc.prems True
      by (simp add: udecstr_digits.simps [of "Suc i"] udecstr_digits.simps [of i] decimal.simps [of "unat x"] digit_of_rem)
  next
    case False
    then have "\<not> unat x < 10" by (auto simp: word_unat_eq_iff unat_div)
    moreover have "rev (udecstr_digits i False (x div 10)) = decimal (unat (x div 10))"
      using False Suc.prems by (intro Suc.IH) (auto simp: unat_div)
    ultimately show ?thesis
      using Suc.prems by (simp add: udecstr_digits.simps [of "Suc i"] decimal.simps [of "unat x"] digit_of_rem unat_div)
  qed
qed

lemma udecstr_chunk:
  assumes "js_val r = n mod 10000"
  shows "unat (ucast (js_lo r) :: u16) = n mod 10000"
proof -
  have "unat (js_lo r) = n mod 10000"
  proof -
    have "js_val r < 10000" using assms by simp
    then have "unat (js_hi r) = 0" unfolding js_val_def by (cases "unat (js_hi r)") simp_all
    then show ?thesis using assms by (simp add: js_val_def)
  qed
  then show ?thesis by (simp add: unsigned_ucast_eq take_bit_eq_mod)
qed

lemma udecstr_loop_decimal:
  "js_val v \<noteq> 0 \<Longrightarrow> \<exists>t. udecstr_loop v temp = Some t \<and> rev t = decimal (js_val v) @ rev temp"
proof (induction v temp rule: udecstr_loop.induct)
  case (1 quot temp)
  obtain q r where qr: "jsll_udivmod quot udecstr_divisor = Some (q, r)"
    "js_val q = js_val quot div 10000" "js_val r = js_val quot mod 10000"
    by (rule udecstr_divmod)
  note rem16 = udecstr_chunk [OF qr(3)]
  show ?case
  proof (cases "JSLL_IS_ZERO q")
    case True
    then have "js_val quot < 10000" using qr(2) by (simp add: JSLL_IS_ZERO_iff)
    then have "rev (udecstr_digits 4 False (ucast (js_lo r))) = decimal (js_val quot)"
      using rem16 1(2) udecstr_digits_last [of "ucast (js_lo r)" 4] by (auto simp: word_unat_eq_iff)
    then show ?thesis using True qr(1) by (simp add: udecstr_loop.simps [of quot])
  next
    case False
    then have "10000 \<le> js_val quot" using qr(2) by (simp add: JSLL_IS_ZERO_iff)
    then have "decimal (js_val quot) = decimal (js_val q) @ rev (udecstr_digits 4 True (ucast (js_lo r)))"
      using udecstr_digits_pad [of 4 "js_val quot" "ucast (js_lo r)"] rem16 qr(2) by simp
    moreover obtain t where "udecstr_loop q (temp @ udecstr_digits 4 True (ucast (js_lo r))) = Some t"
      "rev t = decimal (js_val q) @ rev (temp @ udecstr_digits 4 True (ucast (js_lo r)))"
      using 1(1) [OF qr(1) refl refl refl] False by (auto simp: JSLL_IS_ZERO_iff)
    ultimately show ?thesis using False qr(1) by (simp add: udecstr_loop.simps [of quot])
  qed
qed

lemma length_decimal: "n < 10 ^ Suc k \<Longrightarrow> length (decimal n) \<le> Suc k"
proof (induction k arbitrary: n)
  case 0
  then show ?case by (simp add: decimal.simps [of n])
next
  case (Suc k)
  then show ?case
    using Suc.IH [of "n div 10"] by (cases "n < 10") (simp_all add: decimal.simps [of n])
qed

lemma length_decimal_js: "length (decimal (js_val v)) \<le> 20"
  using js_val_bound [of v] length_decimal [of "js_val v" 19] by simp

lemma jsll_udecstr_eq:
  "jsll_udecstr v = Some (decimal (js_val v) @ [0], length (decimal (js_val v)))"
proof (cases "js_val v = 0")
  case True
  then show ?thesis by (simp add: jsll_udecstr_def JSLL_IS_ZERO_iff decimal.simps)
next
  case False
  then obtain t where t: "udecstr_loop v [] = Some t" "rev t = decimal (js_val v)"
    using udecstr_loop_decimal [of v "[]"] by auto
  have "length t = length (rev t)" by simp
  then have len: "length t = length (decimal (js_val v))" by (simp only: t(2))
  then have "unat (of_nat (length t) :: u8) = length t"
    using length_decimal_js [of v] by (simp add: unsigned_of_nat take_bit_nat_eq_self)
  then show ?thesis
    using False t len length_decimal_js [of v] by (simp add: jsll_udecstr_def JSLL_IS_ZERO_iff)
qed

text \<open>
  Decimal output of unsigned 64-bit numbers.  \<open>jsll_udecstr\<close> always returns, writes exactly
  the decimal digits of the value with no leading zero, then the null terminator, and returns
  their number, which is at most the 20 bytes of its scratch array.
\<close>

theorem jsll_udecstr_correct:
  "jsll_udecstr v = Some (decimal (js_val v) @ [0], length (decimal (js_val v))) \<and>
   length (decimal (js_val v)) \<le> 20"
  by (simp add: jsll_udecstr_eq length_decimal_js)

text \<open>
  Decimal output of signed numbers.  A negative number gets a minus sign and its magnitude;
  the result counts the digits alone, so it is one less than the length of the text.
\<close>

theorem jsll_decstr_correct:
  "jsll_decstr v =
     (let digits = decimal (nat \<bar>sint (js64 v)\<bar>)
      in Some ((if sint (js64 v) < 0 then [45] else []) @ digits @ [0], length digits))"
proof -
  have "js_val (jsll_abs v) = nat \<bar>sint (js64 v)\<bar>"
    using js_val_abs [of v] by simp
  then show ?thesis
    using jsll_udecstr_eq [of "jsll_abs v"]
    by (simp add: jsll_decstr_def js64_sign jsll_abs_def Let_def split: if_splits)
qed

end
