(* ===== verification/Xbee_Time.thy ===== *)
theory Xbee_Time
  imports Pxbee_Prelude
begin

text \<open>
  The calendar functions of \<open>pxbee/pan/xbee/xbee_time.c\<close>, used by the ZCL time cluster.  A
  \<open>struct tm\<close> holds C \<open>int\<close> fields, 16 bits wide on the target, modelled as \<open>int\<close> with
  \<open>s16\<close> at the additions that can overflow; day counts are \<open>uint16_t\<close> and time stamps
  \<open>uint32_t\<close> words.  Reading a table outside its bounds is the value \<open>None\<close>.

  The specification is \<open>civil_seconds\<close>, the number of seconds a date lies after the start of
  2000, for dates that need not be normalised.
\<close>

section \<open>The code\<close>

record tm =
  tm_sec :: int
  tm_min :: int
  tm_hour :: int
  tm_mday :: int
  tm_mon :: int
  tm_year :: int
  tm_wday :: int
  tm_yday :: int
  tm_isdst :: int

definition tm_zero :: tm where
  "tm_zero = \<lparr>tm_sec = 0, tm_min = 0, tm_hour = 0, tm_mday = 0, tm_mon = 0, tm_year = 0,
    tm_wday = 0, tm_yday = 0, tm_isdst = 0\<rparr>"

definition xbee_time_jom :: "bool \<Rightarrow> int list" where
  "xbee_time_jom is_leap =
     (if is_leap then [0, 31, 60, 91, 121, 152, 182, 213, 244, 274, 305, 335]
      else [0, 31, 59, 90, 120, 151, 181, 212, 243, 273, 304, 334])"

definition xbee_time_dom :: "bool \<Rightarrow> int list" where
  "xbee_time_dom is_leap =
     (if is_leap then [31, 29, 31, 30, 31, 30, 31, 31, 30, 31, 30, 31]
      else [31, 28, 31, 30, 31, 30, 31, 31, 30, 31, 30, 31])"

definition c_index :: "'a list \<Rightarrow> int \<Rightarrow> 'a option" where
  "c_index xs i = (if 0 \<le> i \<and> i < int (length xs) then Some (xs ! nat i) else None)"

definition time_is_leap :: "int \<Rightarrow> bool" where
  "time_is_leap year \<longleftrightarrow> (year AND 3) = 0 \<and> year \<noteq> 2100 - 1900"

lemma diy_pos: "unat (365 + of_bool b :: u16) = 365 + of_bool b"
  by (cases b) simp_all

text \<open>The loop over the years of \<open>xbee_gmtime\<close>: the days left, the year, whether it is a leap year.\<close>

function gmtime_years :: "u16 \<Rightarrow> int \<Rightarrow> u16 \<times> int \<times> bool" where
  "gmtime_years days year =
     (let is_leap = time_is_leap year;
          diy = 365 + of_bool is_leap
      in if days < diy then (days, year, is_leap) else gmtime_years (days - diy) (s16 (year + 1)))"
  by pat_completeness auto

termination
proof (relation "measure (\<lambda>(days, year). unat days)", simp)
  fix days :: u16 and year x xa
  assume "xa = 365 + of_bool x" "\<not> days < xa"
  moreover from this have "0 < unat xa" by (simp add: diy_pos)
  ultimately show "((days - xa, s16 (year + 1)), days, year) \<in> measure (\<lambda>(days, year). unat days)"
    by (simp add: unat_sub word_le_nat_alt not_less del: unat_gt_0)
qed

lemma dom_bounds: "c_index (xbee_time_dom b) m = Some d \<Longrightarrow> 28 \<le> d \<and> d \<le> 31"
proof -
  assume *: "c_index (xbee_time_dom b) m = Some d"
  then have "d \<in> set (xbee_time_dom b)" by (auto simp: c_index_def split: if_splits)
  then show ?thesis by (auto simp: xbee_time_dom_def split: if_splits)
qed

lemma uint_sub_small:
  fixes days :: u16
  assumes "d \<le> uint days" "0 \<le> d"
  shows "uint (days - word_of_int d) = uint days - d"
proof -
  have d: "uint (word_of_int d :: u16) = d"
    using assms uint_bound_u16 [of days]
    by (simp add: uint_word_of_int_eq take_bit_int_eq_self del: uint_bound_u16)
  then show ?thesis using assms by (simp add: uint_sub_lem [symmetric] uint_sub_if')
qed

text \<open>The loop over the months: the days left and the month.\<close>

function gmtime_months :: "bool \<Rightarrow> u16 \<Rightarrow> int \<Rightarrow> (u16 \<times> int) option" where
  "gmtime_months is_leap days mon =
     (case c_index (xbee_time_dom is_leap) mon of
        None \<Rightarrow> None
      | Some d \<Rightarrow>
          if d \<le> uint days then gmtime_months is_leap (days - word_of_int d) (mon + 1)
          else Some (days, mon))"
  by pat_completeness auto

termination
proof (relation "measure (\<lambda>(b, days, mon). unat days)", simp)
  fix is_leap mon d and days :: u16
  assume "c_index (xbee_time_dom is_leap) mon = Some d" "d \<le> uint days"
  then have "uint (days - word_of_int d) < uint days"
    using dom_bounds uint_sub_small [of d days] by fastforce
  then show "((is_leap, days - word_of_int d, mon + 1), is_leap, days, mon) \<in> measure (\<lambda>(b, days, mon). unat days)"
    by (simp add: word_less_def [symmetric] word_less_nat_alt)
qed

declare gmtime_years.simps [simp del] gmtime_months.simps [simp del]

text \<open>\<open>xbee_gmtime\<close> for a destination that is not null; for a null pointer the code returns \<open>NULL\<close>.\<close>

definition xbee_gmtime :: "u32 \<Rightarrow> tm option" where
  "xbee_gmtime timestamp =
     (let seconds = timestamp mod 86400;
          days = (ucast (timestamp div 86400) :: u16);
          quot = uint seconds div 60; rem = uint seconds mod 60;
          t = tm_zero\<lparr>tm_sec := rem, tm_min := quot mod 60, tm_hour := quot div 60,
                      tm_wday := uint ((days + 6) mod 7)\<rparr>;
          (days, year, is_leap) = gmtime_years days 100;
          t = t\<lparr>tm_year := year, tm_isdst := 0, tm_yday := uint days\<rparr>
      in case gmtime_months is_leap days 0 of
           None \<Rightarrow> None
         | Some (days, mon) \<Rightarrow> Some (t\<lparr>tm_mon := mon, tm_mday := uint days + 1\<rparr>))"

text \<open>\<open>_xbee_mktime_normalize\<close>: the new \<open>major\<close> and \<open>minor\<close>; C's \<open>div\<close> truncates towards zero.\<close>

definition xbee_mktime_normalize :: "int \<Rightarrow> int \<Rightarrow> int \<Rightarrow> int \<times> int" where
  "xbee_mktime_normalize major minor count =
     (let quot = minor sdiv count; rem = minor smod count;
          (quot, rem) = (if rem < 0 then (quot - 1, rem + count) else (quot, rem))
      in (s16 (major + quot), rem))"

text \<open>
  The loops over the months in \<open>xbee_mktime\<close>.  The additions to \<open>tm_mday\<close> are of a number below
  1 and a month's length, or the subtraction of a smaller number, and cannot overflow.
\<close>

function mktime_roll_back :: "bool \<Rightarrow> tm \<Rightarrow> (bool \<times> tm) option" where
  "mktime_roll_back is_leap t =
     (if tm_mday t < 1 then
        let (is_leap, t) =
          (if tm_mon t = 0
           then let year = s16 (tm_year t - 1)
                in (time_is_leap year, t\<lparr>tm_mon := 11, tm_year := year\<rparr>)
           else (is_leap, t\<lparr>tm_mon := s16 (tm_mon t - 1)\<rparr>))
        in case c_index (xbee_time_dom is_leap) (tm_mon t) of
             None \<Rightarrow> None
           | Some d \<Rightarrow> mktime_roll_back is_leap (t\<lparr>tm_mday := tm_mday t + d\<rparr>)
      else Some (is_leap, t))"
  by pat_completeness auto

termination
  by (relation "measure (\<lambda>(b, t). nat (1 - tm_mday t))")
     (auto simp: Let_def dest: dom_bounds split: if_splits)

function mktime_roll_on :: "bool \<Rightarrow> tm \<Rightarrow> (bool \<times> tm) option" where
  "mktime_roll_on is_leap t =
     (case c_index (xbee_time_dom is_leap) (tm_mon t) of
        None \<Rightarrow> None
      | Some daysinmonth \<Rightarrow>
          if tm_mday t > daysinmonth then
            let t = t\<lparr>tm_mday := tm_mday t - daysinmonth\<rparr>;
                (is_leap, t) =
                  (if tm_mon t = 11
                   then let year = s16 (tm_year t + 1)
                        in (time_is_leap year, t\<lparr>tm_mon := 0, tm_year := year\<rparr>)
                   else (is_leap, t\<lparr>tm_mon := s16 (tm_mon t + 1)\<rparr>))
            in mktime_roll_on is_leap t
          else Some (is_leap, t))"
  by pat_completeness auto

termination
  by (relation "measure (\<lambda>(b, t). nat (tm_mday t))")
     (auto simp: Let_def dest: dom_bounds split: if_splits)

declare mktime_roll_back.simps [simp del] mktime_roll_on.simps [simp del]

definition XBEE_UTCTIME_INVALID :: u32 where
  "XBEE_UTCTIME_INVALID = 0xFFFFFFFF"

text \<open>The local copy of the structure after the four normalisations.\<close>

definition mktime_fields :: "tm \<Rightarrow> tm" where
  "mktime_fields time_rec =
     (let (min, sec) = xbee_mktime_normalize (tm_min time_rec) (tm_sec time_rec) 60;
          (hour, min) = xbee_mktime_normalize (tm_hour time_rec) min 60;
          (mday, hour) = xbee_mktime_normalize (tm_mday time_rec) hour 24;
          (year, mon) = xbee_mktime_normalize (tm_year time_rec) (tm_mon time_rec) 12
      in time_rec\<lparr>tm_sec := sec, tm_min := min, tm_hour := hour, tm_mday := mday,
                  tm_mon := mon, tm_year := year\<rparr>)"

text \<open>From the normalised date to the time stamp, and the structure with its derived fields.\<close>

definition mktime_stamp :: "bool \<Rightarrow> tm \<Rightarrow> (u32 \<times> tm) option" where
  "mktime_stamp is_leap t =
     (case c_index (xbee_time_jom is_leap) (tm_mon t) of
        None \<Rightarrow> None
      | Some jom \<Rightarrow>
          let years = (word_of_int (tm_year t - 100) :: u8);
              yday = (word_of_int (jom + tm_mday t - 1) :: u16);
              pastleapdays = drop_bit 2 years + (if years AND 3 \<noteq> 0 then 1 else 0);
              pastleapdays = (if years > 100 then pastleapdays - 1 else pastleapdays);
              days = ucast years * 365 + ucast pastleapdays + yday;
              t = t\<lparr>tm_yday := uint yday, tm_wday := uint ((days + 6) mod 7)\<rparr>
          in Some (ucast days * 86400 + word_of_int (tm_hour t) * 3600
                   + word_of_int (tm_min t * 60) + word_of_int (tm_sec t), t))"

text \<open>The result and the structure as the function leaves it.\<close>

definition xbee_mktime :: "tm \<Rightarrow> (u32 \<times> tm) option" where
  "xbee_mktime time_rec =
     (let t = mktime_fields time_rec
      in case mktime_roll_back (time_is_leap (tm_year t)) t of
           None \<Rightarrow> None
         | Some (is_leap, t) \<Rightarrow>
      (case mktime_roll_on is_leap t of
           None \<Rightarrow> None
         | Some (is_leap, t) \<Rightarrow>
           if tm_year t < 100 then Some (XBEE_UTCTIME_INVALID, time_rec)
           else mktime_stamp is_leap t))"

section \<open>The calendar\<close>

text \<open>Days from the start of 2000 to the start of a year, given from 1900 as in \<open>tm_year\<close>.\<close>

definition year_start :: "int \<Rightarrow> int" where
  "year_start y = 365 * (y - 100) + (y - 97) div 4 - of_bool (y > 200)"

text \<open>Days and seconds from the start of 2000 to a date, normalised or not.\<close>

definition date_days :: "int \<Rightarrow> int \<Rightarrow> int \<Rightarrow> int" where
  "date_days y m d = year_start y + xbee_time_jom (time_is_leap y) ! nat m + d - 1"

definition civil_days :: "tm \<Rightarrow> int" where
  "civil_days t = date_days (tm_year t + tm_mon t div 12) (tm_mon t mod 12) (tm_mday t)"

definition civil_seconds :: "tm \<Rightarrow> int" where
  "civil_seconds t = civil_days t * 86400 + tm_hour t * 3600 + tm_min t * 60 + tm_sec t"

definition valid_tm :: "tm \<Rightarrow> bool" where
  "valid_tm t \<longleftrightarrow> 0 \<le> tm_sec t \<and> tm_sec t < 60 \<and> 0 \<le> tm_min t \<and> tm_min t < 60 \<and>
     0 \<le> tm_hour t \<and> tm_hour t < 24 \<and> 0 \<le> tm_mon t \<and> tm_mon t < 12 \<and>
     1 \<le> tm_mday t \<and> tm_mday t \<le> xbee_time_dom (time_is_leap (tm_year t)) ! nat (tm_mon t)"

text \<open>A structure whose derived fields, weekday and day of the year, agree with the date.\<close>

definition full_tm :: "tm \<Rightarrow> bool" where
  "full_tm t \<longleftrightarrow> valid_tm t \<and> tm_wday t = (civil_days t + 6) mod 7 \<and>
     tm_yday t = xbee_time_jom (time_is_leap (tm_year t)) ! nat (tm_mon t) + tm_mday t - 1"

lemma time_is_leap_iff: "time_is_leap y \<longleftrightarrow> 4 dvd y \<and> y \<noteq> 200"
proof -
  have "y AND 3 = y mod 4"
    using take_bit_eq_mask [of 2 y] by (simp add: take_bit_eq_mod mask_eq_exp_minus_1)
  then show ?thesis by (simp add: time_is_leap_def dvd_eq_mod_eq_0)
qed

lemma year_start_Suc: "year_start (y + 1) = year_start y + 365 + of_bool (time_is_leap y)"
proof -
  have "(y + 1 - 97) div 4 = (y - 97) div 4 + of_bool (4 dvd y)"
    by (cases "4 dvd y"; simp; presburger)
  then show ?thesis by (auto simp: year_start_def time_is_leap_iff)
qed

text \<open>The code's rule for leap years is the Gregorian one from 2000 to 2199.\<close>

lemma leap_gregorian:
  assumes "100 \<le> y" "y < 300"
  shows "time_is_leap y \<longleftrightarrow> 4 dvd (1900 + y) \<and> (\<not> 100 dvd (1900 + y) \<or> 400 dvd (1900 + y))"
proof -
  have "100 dvd (1900 + y) \<longleftrightarrow> y = 100 \<or> y = 200" using assms by presburger
  moreover have "4 dvd (1900 + y) \<longleftrightarrow> 4 dvd y" by presburger
  ultimately show ?thesis by (auto simp: time_is_leap_iff)
qed

lemma year_start_2000: "year_start 100 = 0"
  by (simp add: year_start_def)

lemma month_cases:
  fixes m :: int
  assumes "0 \<le> m" "m < 12"
  shows "m = 0 \<or> m = 1 \<or> m = 2 \<or> m = 3 \<or> m = 4 \<or> m = 5 \<or> m = 6 \<or> m = 7 \<or> m = 8 \<or> m = 9 \<or>
    m = 10 \<or> m = 11"
  using assms by presburger

lemma jom_step:
  assumes "0 \<le> m" "m < 12"
  shows "xbee_time_jom b ! nat m + xbee_time_dom b ! nat m
    = (if m = 11 then 365 + of_bool b else xbee_time_jom b ! nat (m + 1))"
  using month_cases [OF assms] by (elim disjE) (simp_all add: xbee_time_jom_def xbee_time_dom_def)

lemma jom_0 [simp]: "xbee_time_jom b ! 0 = 0"
  by (simp add: xbee_time_jom_def)

lemma index_dom: "0 \<le> m \<Longrightarrow> m < 12 \<Longrightarrow> c_index (xbee_time_dom b) m = Some (xbee_time_dom b ! nat m)"
  by (auto simp: c_index_def xbee_time_dom_def)

lemma index_jom: "0 \<le> m \<Longrightarrow> m < 12 \<Longrightarrow> c_index (xbee_time_jom b) m = Some (xbee_time_jom b ! nat m)"
  by (auto simp: c_index_def xbee_time_jom_def)

lemma dom_range: "0 \<le> m \<Longrightarrow> m < 12 \<Longrightarrow> 28 \<le> xbee_time_dom b ! nat m \<and> xbee_time_dom b ! nat m \<le> 31"
  using dom_bounds [OF index_dom] .

text \<open>The start of the next month, and of the next year after December.\<close>

lemma date_days_next:
  assumes "0 \<le> m" "m < 12"
  shows "date_days y m (xbee_time_dom (time_is_leap y) ! nat m + d)
    = (if m = 11 then date_days (y + 1) 0 d else date_days y (m + 1) d)"
  using jom_step [OF assms, of "time_is_leap y"] by (auto simp: date_days_def year_start_Suc)

section \<open>xbee_gmtime\<close>

lemma gmtime_months_result:
  assumes "0 \<le> mon" "mon < 12" "xbee_time_jom b ! nat mon + uint days < 365 + of_bool b"
  shows "\<exists>days' mon'. gmtime_months b days mon = Some (days', mon') \<and> 0 \<le> mon' \<and> mon' < 12 \<and>
    xbee_time_jom b ! nat mon' + uint days' = xbee_time_jom b ! nat mon + uint days \<and>
    uint days' < xbee_time_dom b ! nat mon'"
  using assms
proof (induction b days mon rule: gmtime_months.induct)
  case (1 b days mon)
  let ?d = "xbee_time_dom b ! nat mon"
  note c = index_dom [OF 1(2,3), of b]
  show ?case
  proof (cases "?d \<le> uint days")
    case False
    then show ?thesis using 1(2,3) by (subst gmtime_months.simps) (simp add: c)
  next
    case True
    have u: "uint (days - word_of_int ?d) = uint days - ?d"
      using True dom_range [OF 1(2,3), of b] by (intro uint_sub_small) simp_all
    have "mon \<noteq> 11" using True 1(4) jom_step [OF 1(2,3), of b] by auto
    then have "xbee_time_jom b ! nat (mon + 1) = xbee_time_jom b ! nat mon + ?d" "mon + 1 < 12"
      using jom_step [OF 1(2,3), of b] 1(3) by simp_all
    then show ?thesis
      using 1(1) [OF c True] True 1(2,4) by (subst gmtime_months.simps) (simp add: c u)
  qed
qed

lemma gmtime_years_result:
  assumes "100 \<le> year" "uint days < 365 * (32000 - year)"
  shows "\<exists>days' year'. gmtime_years days year = (days', year', time_is_leap year') \<and> year \<le> year' \<and>
    year_start year' + uint days' = year_start year + uint days \<and>
    uint days' < 365 + of_bool (time_is_leap year')"
  using assms
proof (induction days year rule: gmtime_years.induct)
  case (1 days year)
  let ?b = "time_is_leap year"
  have diy: "uint (365 + of_bool ?b :: u16) = 365 + of_bool ?b" by (cases ?b) simp_all
  show ?case
  proof (cases "days < 365 + of_bool ?b")
    case True
    then show ?thesis by (subst gmtime_years.simps) (simp add: Let_def word_less_def diy)
  next
    case False
    then have le: "365 + of_bool ?b \<le> uint days" by (simp add: word_less_def diy not_less)
    then have u: "uint (days - (365 + of_bool ?b)) = uint days - (365 + of_bool ?b)"
      by (simp add: uint_sub_if' diy)
    have "365 \<le> uint days" using le by (cases ?b) simp_all
    moreover have "365 * year < 11680000 - uint days" using 1(3) by simp
    ultimately have "s16 (year + 1) = year + 1" using 1(2) by (intro s16_id) linarith+
    then have b: "uint (days - (365 + of_bool ?b)) < 365 * (32000 - (year + 1))" "s16 (year + 1) = year + 1"
      using 1(3) le by (simp_all add: u)
    moreover obtain d' y' where "gmtime_years (days - (365 + of_bool ?b)) (year + 1) = (d', y', time_is_leap y')"
      "year + 1 \<le> y'" "year_start y' + uint d' = year_start year + uint days"
      "uint d' < 365 + of_bool (time_is_leap y')"
      using 1(1) [OF refl refl False] 1(2) b \<open>s16 (year + 1) = year + 1\<close>
      by (simp add: year_start_Suc u) auto
    ultimately show ?thesis
      using False by (subst gmtime_years.simps) (simp add: Let_def)
  qed
qed

lemma xbee_gmtime_result:
  "\<exists>t. xbee_gmtime ts = Some t \<and> full_tm t \<and> civil_seconds t = uint ts \<and> tm_isdst t = 0 \<and> 100 \<le> tm_year t"
proof -
  define days where "days = (ucast (ts div 86400) :: u16)"
  have ud: "uint days = uint ts div 86400"
  proof -
    have "uint ts div 86400 < 65536" using uint_bound_u32 [of ts] by linarith
    moreover have "0 \<le> uint ts div 86400" by (simp add: pos_imp_zdiv_nonneg_iff)
    ultimately show ?thesis
      by (simp add: days_def uint_div unsigned_ucast_eq take_bit_int_eq_self)
  qed
  then have small: "uint days \<le> 49710" using uint_bound_u32 [of ts] by linarith
  obtain d y where y: "gmtime_years days 100 = (d, y, time_is_leap y)" "100 \<le> y"
    "year_start y + uint d = uint days" "uint d < 365 + of_bool (time_is_leap y)"
    using gmtime_years_result [of 100 days] small by (auto simp: year_start_2000)
  obtain d' m where m: "gmtime_months (time_is_leap y) d 0 = Some (d', m)" "0 \<le> m" "m < 12"
    "xbee_time_jom (time_is_leap y) ! nat m + uint d' = uint d"
    "uint d' < xbee_time_dom (time_is_leap y) ! nat m"
    using gmtime_months_result [of 0 "time_is_leap y" d] y(4) by auto
  have wd: "uint ((days + 6) mod 7) = (uint days + 6) mod 7"
    using small by (simp add: uint_mod uint_plus_if')
  define t where "t = \<lparr>tm_sec = uint ts mod 86400 mod 60, tm_min = uint ts mod 86400 div 60 mod 60,
    tm_hour = uint ts mod 86400 div 60 div 60, tm_mday = uint d' + 1, tm_mon = m, tm_year = y,
    tm_wday = (uint days + 6) mod 7, tm_yday = uint d, tm_isdst = 0\<rparr>"
  have t: "xbee_gmtime ts = Some t"
    using y(1) m(1) wd
    by (simp add: xbee_gmtime_def Let_def t_def tm_zero_def uint_mod flip: days_def)
  have cd: "civil_days t = uint days"
    using m y(3) by (simp add: civil_days_def date_days_def t_def)
  have sec: "civil_seconds t = uint ts"
  proof -
    let ?s = "uint ts mod 86400"
    have "?s div 60 div 60 * 3600 + ?s div 60 mod 60 * 60 + ?s mod 60 = ?s" by presburger
    moreover have "uint ts div 86400 * 86400 + ?s = uint ts" by simp
    ultimately have "uint ts div 86400 * 86400 + ?s div 60 div 60 * 3600 + ?s div 60 mod 60 * 60 + ?s mod 60 = uint ts"
      by linarith
    then show ?thesis by (simp only: civil_seconds_def cd ud) (simp only: t_def tm.select_convs)
  qed
  have "full_tm t"
  proof -
    define r where "r = uint ts mod 86400"
    have "0 \<le> r" "r < 86400" by (simp_all add: r_def)
    then have "0 \<le> r div 3600" "r div 3600 < 24" by linarith+
    then have "0 \<le> r div 60 div 60" "r div 60 div 60 < 24" by (simp_all flip: zdiv_zmult2_eq)
    moreover have "0 \<le> r mod 60" "r mod 60 < 60" "0 \<le> r div 60 mod 60" "r div 60 mod 60 < 60" by simp_all
    moreover have "1 \<le> uint d' + 1" "uint d' + 1 \<le> xbee_time_dom (time_is_leap y) ! nat m"
      "uint d = xbee_time_jom (time_is_leap y) ! nat m + (uint d' + 1) - 1"
      using m(4,5) uint_ge_0 [of d'] by linarith+
    ultimately have "valid_tm t" "tm_yday t = xbee_time_jom (time_is_leap (tm_year t)) ! nat (tm_mon t) + tm_mday t - 1"
      using m(2,3) unfolding valid_tm_def t_def tm.select_convs r_def [symmetric] by blast+
    moreover have "tm_wday t = (civil_days t + 6) mod 7" unfolding cd by (simp only: t_def tm.select_convs)
    ultimately show ?thesis unfolding full_tm_def by blast
  qed
  moreover have "tm_isdst t = 0" "tm_year t = y" unfolding t_def by simp_all
  ultimately show ?thesis using t sec y(2) by blast
qed

section \<open>xbee_mktime\<close>

lemma normalize_result:
  assumes "0 < count" "- 32768 \<le> major + minor div count" "major + minor div count < 32768"
  shows "xbee_mktime_normalize major minor count = (major + minor div count, minor mod count)"
proof -
  have "minor smod count + (if minor smod count < 0 then count else 0) = minor mod count \<and>
      minor sdiv count - (if minor smod count < 0 then 1 else 0) = minor div count"
  proof (cases "0 \<le> minor")
    case True
    then show ?thesis
      using assms(1) by (cases "minor = 0") (simp_all add: signed_divide_int_def signed_modulo_int_def not_less)
  next
    case False
    define n where "n = - minor"
    have n: "minor = - n" "0 < n" using False by (simp_all add: n_def)
    show ?thesis
    proof (cases "n mod count = 0")
      case True
      then show ?thesis
        using assms(1) n by (simp add: signed_divide_int_def signed_modulo_int_def zmod_zminus1_eq_if zdiv_zminus1_eq_if)
    next
      case False
      then have "0 < n mod count" using pos_mod_sign [OF assms(1), of n] by linarith
      then show ?thesis
        using assms(1) n by (simp add: signed_divide_int_def signed_modulo_int_def zmod_zminus1_eq_if zdiv_zminus1_eq_if)
    qed
  qed
  then show ?thesis
    using assms by (auto simp: xbee_mktime_normalize_def Let_def split: if_splits)
qed

lemma mktime_roll_back_result:
  assumes "0 \<le> tm_mon t" "tm_mon t < 12" "is_leap = time_is_leap (tm_year t)"
    "1 - tm_mday t \<le> 28 * (tm_year t + 32768)" "tm_year t < 32768" "- 32768 \<le> tm_year t"
  shows "\<exists>y m d. mktime_roll_back is_leap t
      = Some (time_is_leap y, t\<lparr>tm_year := y, tm_mon := m, tm_mday := d\<rparr>) \<and>
    0 \<le> m \<and> m < 12 \<and> 1 \<le> d \<and> y \<le> tm_year t \<and> - 32768 \<le> y \<and> d \<le> max 31 (tm_mday t) \<and>
    date_days y m d = date_days (tm_year t) (tm_mon t) (tm_mday t)"
  using assms
proof (induction "nat (1 - tm_mday t)" arbitrary: is_leap t rule: less_induct)
  case less
  note 1 = less.hyps less.prems
  show ?case
  proof (cases "tm_mday t < 1")
    case False
    then show ?thesis
      using 1(2-7) by (subst mktime_roll_back.simps)
        (rule exI [of _ "tm_year t"], rule exI [of _ "tm_mon t"], rule exI [of _ "tm_mday t"], simp)
  next
    case True
    define y m where "y = (if tm_mon t = 0 then tm_year t - 1 else tm_year t)"
      and "m = (if tm_mon t = 0 then 11 else tm_mon t - 1)"
    have m: "0 \<le> m" "m < 12" using 1(2,3) by (simp_all add: m_def)
    note d = dom_range [OF m, of "time_is_leap y"] and c = index_dom [OF m, of "time_is_leap y"]
    have year: "s16 (tm_year t - 1) = tm_year t - 1" "s16 (tm_mon t - 1) = tm_mon t - 1"
      using True 1(2,3,5,6) by (simp_all)
    let ?t = "t\<lparr>tm_mon := m, tm_year := y\<rparr>"
    let ?d = "xbee_time_dom (time_is_leap y) ! nat m"
    have step: "mktime_roll_back is_leap t
        = mktime_roll_back (time_is_leap y) (?t\<lparr>tm_mday := tm_mday t + ?d\<rparr>)"
      using True c year 1(4)
      by (subst mktime_roll_back.simps) (cases "tm_mon t = 0"; simp add: Let_def m_def y_def)
    have days: "date_days y m (tm_mday t + ?d) = date_days (tm_year t) (tm_mon t) (tm_mday t)"
      using date_days_next [OF m, of y "tm_mday t"] 1(3) by (auto simp: m_def y_def add.commute split: if_splits)
    have "\<exists>y' m' d'. mktime_roll_back (time_is_leap y) (?t\<lparr>tm_mday := tm_mday t + ?d\<rparr>)
        = Some (time_is_leap y', ?t\<lparr>tm_mday := tm_mday t + ?d, tm_year := y', tm_mon := m', tm_mday := d'\<rparr>) \<and>
      0 \<le> m' \<and> m' < 12 \<and> 1 \<le> d' \<and> y' \<le> y \<and> - 32768 \<le> y' \<and> d' \<le> max 31 (tm_mday t + ?d) \<and>
      date_days y' m' d' = date_days y m (tm_mday t + ?d)"
    proof -
      have "1 - (tm_mday t + ?d) \<le> 28 * (y + 32768)" "y < 32768" "- 32768 \<le> y"
        "nat (1 - (tm_mday t + ?d)) < nat (1 - tm_mday t)"
        using d True 1(5-7) by (auto simp: y_def)
      then show ?thesis
        using less.hyps [of "?t\<lparr>tm_mday := tm_mday t + ?d\<rparr>" "time_is_leap y"] m by simp
    qed
    then show ?thesis
      unfolding step days using True d by (fastforce simp: y_def split: if_splits)
  qed
qed

lemma mktime_roll_on_result:
  assumes "0 \<le> tm_mon t" "tm_mon t < 12" "is_leap = time_is_leap (tm_year t)" "1 \<le> tm_mday t"
    "tm_mday t \<le> 28 * (32767 - tm_year t) + 28" "- 32768 \<le> tm_year t"
  shows "\<exists>y m d. mktime_roll_on is_leap t
      = Some (time_is_leap y, t\<lparr>tm_year := y, tm_mon := m, tm_mday := d\<rparr>) \<and>
    0 \<le> m \<and> m < 12 \<and> 1 \<le> d \<and> d \<le> xbee_time_dom (time_is_leap y) ! nat m \<and>
    date_days y m d = date_days (tm_year t) (tm_mon t) (tm_mday t)"
  using assms
proof (induction "nat (tm_mday t)" arbitrary: is_leap t rule: less_induct)
  case less
  note 1 = less.hyps less.prems
  let ?d = "xbee_time_dom (time_is_leap (tm_year t)) ! nat (tm_mon t)"
  note d = dom_range [OF 1(2,3), of "time_is_leap (tm_year t)"]
    and c = index_dom [OF 1(2,3), of "time_is_leap (tm_year t)"]
  show ?case
  proof (cases "?d < tm_mday t")
    case False
    then show ?thesis
      using 1(2-7) c by (subst mktime_roll_on.simps)
        (rule exI [of _ "tm_year t"], rule exI [of _ "tm_mon t"], rule exI [of _ "tm_mday t"], simp)
  next
    case True
    define y m where "y = (if tm_mon t = 11 then tm_year t + 1 else tm_year t)"
      and "m = (if tm_mon t = 11 then 0 else tm_mon t + 1)"
    have m: "0 \<le> m" "m < 12" using 1(2,3) by (simp_all add: m_def)
    have year: "s16 (tm_year t + 1) = tm_year t + 1" "s16 (tm_mon t + 1) = tm_mon t + 1"
      using True d 1(2,3,6,7) by (simp_all)
    let ?t = "t\<lparr>tm_mday := tm_mday t - ?d, tm_mon := m, tm_year := y\<rparr>"
    have step: "mktime_roll_on is_leap t
        = mktime_roll_on (time_is_leap y) ?t"
      using True c year 1(4) by (subst mktime_roll_on.simps) (simp add: Let_def m_def y_def)
    have days: "date_days y m (tm_mday t - ?d) = date_days (tm_year t) (tm_mon t) (tm_mday t)"
      using date_days_next [OF 1(2,3), of "tm_year t" "tm_mday t - ?d"] by (auto simp: m_def y_def)
    have "\<exists>y' m' d'. mktime_roll_on (time_is_leap y) ?t
        = Some (time_is_leap y', ?t\<lparr>tm_year := y', tm_mon := m', tm_mday := d'\<rparr>) \<and>
      0 \<le> m' \<and> m' < 12 \<and> 1 \<le> d' \<and> d' \<le> xbee_time_dom (time_is_leap y') ! nat m' \<and>
      date_days y' m' d' = date_days y m (tm_mday t - ?d)"
    proof -
      have "tm_mday t - ?d \<le> 28 * (32767 - y) + 28" "- 32768 \<le> y" "1 \<le> tm_mday t - ?d"
        "nat (tm_mday t - ?d) < nat (tm_mday t)"
        using d True 1(6,7) by (auto simp: y_def)
      then show ?thesis using less.hyps [of ?t "time_is_leap y"] m by simp
    qed
    then show ?thesis
      unfolding step days by fastforce
  qed
qed

lemma year_start_mono_step: "y < y' \<Longrightarrow> year_start y + 365 + of_bool (time_is_leap y) \<le> year_start y'"
proof (induction "nat (y' - y)" arbitrary: y)
  case 0
  then show ?case by simp
next
  case (Suc n)
  show ?case
  proof (cases "y + 1 = y'")
    case True
    then show ?thesis using year_start_Suc [of y] by simp
  next
    case False
    then have "year_start (y + 1) + 365 + of_bool (time_is_leap (y + 1)) \<le> year_start y'"
      using Suc.hyps(2) Suc.prems by (intro Suc.hyps(1)) simp_all
    moreover have "(0 :: int) \<le> of_bool (time_is_leap (y + 1))" by simp
    ultimately show ?thesis using year_start_Suc [of y] by linarith
  qed
qed

lemma jom_mono_step:
  assumes "0 \<le> m" "m < m'" "m' < 12"
  shows "xbee_time_jom b ! nat m + xbee_time_dom b ! nat m \<le> xbee_time_jom b ! nat m'"
  using assms
proof (induction "nat (m' - m)" arbitrary: m)
  case 0
  then show ?case by simp
next
  case (Suc n)
  have step: "xbee_time_jom b ! nat m + xbee_time_dom b ! nat m = xbee_time_jom b ! nat (m + 1)"
    using jom_step [of m b] Suc.prems by simp
  show ?case
  proof (cases "m + 1 = m'")
    case True
    then show ?thesis using step by simp
  next
    case False
    then have "xbee_time_jom b ! nat (m + 1) + xbee_time_dom b ! nat (m + 1) \<le> xbee_time_jom b ! nat m'"
      using Suc.hyps(2) Suc.prems by (intro Suc.hyps(1)) simp_all
    then show ?thesis using step dom_range [of "m + 1" b] Suc.prems by simp
  qed
qed

lemma jom_end:
  assumes "0 \<le> m" "m < 12"
  shows "0 \<le> xbee_time_jom b ! nat m \<and> xbee_time_jom b ! nat m + xbee_time_dom b ! nat m \<le> 365 + of_bool b"
  using month_cases [OF assms] by (elim disjE) (simp_all add: xbee_time_jom_def xbee_time_dom_def)

text \<open>A day number determines the date.\<close>

lemma date_days_unique:
  assumes "date_days y m d = date_days y' m' d'"
    and m: "0 \<le> m" "m < 12" "1 \<le> d" "d \<le> xbee_time_dom (time_is_leap y) ! nat m"
    and m': "0 \<le> m'" "m' < 12" "1 \<le> d'" "d' \<le> xbee_time_dom (time_is_leap y') ! nat m'"
  shows "y = y' \<and> m = m' \<and> d = d'"
proof -
  note e = jom_end [OF m(1,2), of "time_is_leap y"] jom_end [OF m'(1,2), of "time_is_leap y'"]
  have y: "y = y'"
  proof (cases y y' rule: linorder_cases)
    case less
    then show ?thesis using year_start_mono_step [of y y'] assms e by (simp add: date_days_def)
  next
    case greater
    then show ?thesis using year_start_mono_step [of y' y] assms e by (simp add: date_days_def)
  qed
  have "m = m'"
  proof (cases m m' rule: linorder_cases)
    case less
    then show ?thesis using jom_mono_step [of m m' "time_is_leap y"] assms y by (simp add: date_days_def)
  next
    case greater
    then show ?thesis using jom_mono_step [of m' m "time_is_leap y"] assms y by (simp add: date_days_def)
  qed
  then show ?thesis using y assms(1) by (simp add: date_days_def)
qed

lemma div_mod_exact:
  fixes r b q :: int
  assumes "0 \<le> r" "r < b"
  shows "(q * b + r) div b = q \<and> (q * b + r) mod b = r"
  using assms by simp

lemma full_tm_unique:
  assumes "full_tm t" "full_tm t'" "civil_seconds t = civil_seconds t'" "tm_isdst t = tm_isdst t'"
  shows "t = t'"
proof -
  have split: "civil_days x = civil_seconds x div 86400 \<and> tm_hour x = civil_seconds x mod 86400 div 3600 \<and>
      tm_min x = civil_seconds x mod 86400 mod 3600 div 60 \<and> tm_sec x = civil_seconds x mod 86400 mod 3600 mod 60"
    if "full_tm x" for x
  proof -
    have v: "0 \<le> tm_sec x" "tm_sec x < 60" "0 \<le> tm_min x" "tm_min x < 60" "0 \<le> tm_hour x" "tm_hour x < 24"
      using that by (simp_all add: full_tm_def valid_tm_def)
    define M H where "M = tm_min x * 60 + tm_sec x" and "H = tm_hour x * 3600 + M"
    have M: "0 \<le> M" "M < 3600" using v by (simp_all add: M_def)
    then have H: "0 \<le> H" "H < 86400" using v by (simp_all add: H_def)
    have "civil_seconds x = civil_days x * 86400 + H" by (simp add: civil_seconds_def H_def M_def)
    then show ?thesis
      using div_mod_exact [OF H, of "civil_days x"] div_mod_exact [OF M, of "tm_hour x", folded H_def]
        div_mod_exact [of "tm_sec x" 60 "tm_min x", folded M_def] v by simp
  qed
  have time: "civil_days t = civil_days t'" "tm_hour t = tm_hour t'" "tm_min t = tm_min t'" "tm_sec t = tm_sec t'"
    using split [OF assms(1)] split [OF assms(2)] by (simp_all only: assms(3))
  moreover have "tm_year t = tm_year t' \<and> tm_mon t = tm_mon t' \<and> tm_mday t = tm_mday t'"
    using time(1) assms(1,2) by (intro date_days_unique) (simp_all add: civil_days_def full_tm_def valid_tm_def)
  ultimately show ?thesis
    using assms(1,2,4) by (intro tm.equality) (simp_all add: full_tm_def)
qed

text \<open>Fields that keep the 16-bit additions of the normalisation from overflowing.\<close>

definition tm_bounds :: "tm \<Rightarrow> bool" where
  "tm_bounds t \<longleftrightarrow> \<bar>tm_sec t\<bar> < 32768 \<and> \<bar>tm_min t\<bar> \<le> 32000 \<and> \<bar>tm_hour t\<bar> \<le> 32000 \<and>
     \<bar>tm_mday t\<bar> \<le> 31000 \<and> \<bar>tm_mon t\<bar> < 32768 \<and> \<bar>tm_year t\<bar> \<le> 20000"

lemma pastleapdays_eq:
  fixes years :: u8
  assumes "uint years < 137"
  shows "uint (let p = drop_bit 2 years + (if years AND 3 \<noteq> 0 then 1 else 0)
               in if years > 100 then p - 1 else p) = (uint years + 3) div 4 - of_bool (uint years > 100)"
proof -
  have m: "uint (years AND 3) = uint years mod 4"
    using take_bit_eq_mask [of 2 "uint years"]
    by (simp add: unsigned_and_eq take_bit_eq_mod mask_eq_exp_minus_1)
  have d: "uint (drop_bit 2 years) = uint years div 4"
    by (simp add: unsigned_drop_bit_eq drop_bit_eq_div uint_div)
  have z: "years AND 3 = 0 \<longleftrightarrow> uint years mod 4 = 0" using m by (metis uint_0_iff)
  have g: "years > 100 \<longleftrightarrow> uint years > 100" by (simp add: word_less_def)
  have a: "uint (drop_bit 2 years + (if years AND 3 \<noteq> 0 then 1 else 0)) = (uint years + 3) div 4"
    using assms by (auto simp: z uint_plus_if' d) presburger+
  have "uint (drop_bit 2 years + (if years AND 3 \<noteq> 0 then 1 else 0) - 1) = (uint years + 3) div 4 - 1" if "uint years > 100"
    using that by (simp only: uint_sub_if' a) simp
  then show ?thesis using a by (auto simp: Let_def g)
qed

lemma year_start_lower:
  assumes "100 \<le> y"
  shows "365 * (y - 100) - 1 \<le> year_start y"
proof -
  have "0 \<le> (y - 97) div 4" using assms by (simp add: pos_imp_zdiv_nonneg_iff)
  then show ?thesis by (simp add: year_start_def)
qed

text \<open>The last part of \<open>xbee_mktime\<close>, from a normalised date to its time stamp.\<close>

lemma mktime_days:
  fixes years :: u8 and yday :: u16
  assumes "100 \<le> y" "0 \<le> m" "m < 12" "1 \<le> d" "d \<le> xbee_time_dom (time_is_leap y) ! nat m"
    and small: "date_days y m d < 49711"
    and years: "years = word_of_int (y - 100)"
    and yday: "yday = word_of_int (xbee_time_jom (time_is_leap y) ! nat m + d - 1)"
    and p: "p = (let p = drop_bit 2 years + (if years AND 3 \<noteq> 0 then 1 else 0)
               in if years > 100 then p - 1 else p)"
  shows "uint yday = xbee_time_jom (time_is_leap y) ! nat m + d - 1"
    and "uint (ucast years * 365 + ucast p + yday :: u16) = date_days y m d"
proof -
  note e = jom_end [OF assms(2,3), of "time_is_leap y"]
  have b: "(0::int) \<le> of_bool (time_is_leap y)" "of_bool (time_is_leap y) \<le> (1::int)" by simp_all
  have range: "0 \<le> xbee_time_jom (time_is_leap y) ! nat m + d - 1" "xbee_time_jom (time_is_leap y) ! nat m + d - 1 < 366"
    using e b assms(4,5) by linarith+
  then show y: "uint yday = xbee_time_jom (time_is_leap y) ! nat m + d - 1"
    unfolding yday by (intro uint_of_int_u16) linarith+
  have "y - 100 < 137" using small range year_start_lower [OF assms(1)] by (simp add: date_days_def)
  then have uy: "uint years = y - 100"
    unfolding years using assms(1) by (intro uint_of_int_u8) linarith+
  have up: "uint p = (y - 97) div 4 - of_bool (y > 200)"
    unfolding p using \<open>y - 100 < 137\<close> pastleapdays_eq [of years] uy by simp
  have n: "date_days y m d = uint years * 365 + uint p + uint yday"
    by (simp add: date_days_def year_start_def uy up y)
  have "ucast years * 365 + ucast p + yday = (word_of_int (date_days y m d) :: u16)"
    unfolding n by simp
  moreover have "0 \<le> date_days y m d" unfolding n by simp
  ultimately show "uint (ucast years * 365 + ucast p + yday :: u16) = date_days y m d"
    using small by (simp only:) (intro uint_of_int_u16; linarith)
qed

lemma date_days_add: "date_days y m (d + k) = date_days y m d + k"
  by (simp add: date_days_def)

lemma date_days_sign:
  assumes "0 \<le> m" "m < 12" "1 \<le> d" "d \<le> xbee_time_dom (time_is_leap y) ! nat m"
  shows "0 \<le> date_days y m d \<longleftrightarrow> 100 \<le> y"
proof (cases "100 \<le> y")
  case True
  then have "0 \<le> year_start y"
    using year_start_mono_step [of 100 y] year_start_2000 by (cases "y = 100") (auto simp: of_bool_def split: if_splits)
  then show ?thesis using True assms jom_end [of m "time_is_leap y"] by (simp add: date_days_def)
next
  case False
  then have "year_start y + 365 + of_bool (time_is_leap y) \<le> 0"
    using year_start_mono_step [of y 100] year_start_2000 by simp
  then show ?thesis using False assms jom_end [of m "time_is_leap y"] by (simp add: date_days_def)
qed

lemma derived_select:
  "tm_hour (t\<lparr>tm_yday := a, tm_wday := b\<rparr>) = tm_hour t"
  "tm_min (t\<lparr>tm_yday := a, tm_wday := b\<rparr>) = tm_min t"
  "tm_sec (t\<lparr>tm_yday := a, tm_wday := b\<rparr>) = tm_sec t"
  by simp_all

lemma mktime_stamp_Some:
  assumes "c_index (xbee_time_jom b) (tm_mon t) = Some jom"
    "yday = (word_of_int (jom + tm_mday t - 1) :: u16)"
    "p = (let p = drop_bit 2 (word_of_int (tm_year t - 100) :: u8) + (if (word_of_int (tm_year t - 100) :: u8) AND 3 \<noteq> 0 then 1 else 0)
          in if (word_of_int (tm_year t - 100) :: u8) > 100 then p - 1 else p)"
    "days = (ucast (word_of_int (tm_year t - 100) :: u8) * 365 + ucast p + yday :: u16)"
  shows "mktime_stamp b t = Some (ucast days * 86400 + word_of_int (tm_hour t) * 3600
      + word_of_int (tm_min t * 60) + word_of_int (tm_sec t),
    t\<lparr>tm_yday := uint yday, tm_wday := uint ((days + 6) mod 7)\<rparr>)"
  unfolding mktime_stamp_def assms(1) option.case Let_def assms(2-4) derived_select ..

lemma carry_sum:
  fixes D H M S :: int
  assumes "p = D + a" "a * 24 + q = H + b" "b * 60 + r = M + c" "c * 60 + s = S"
  shows "p * 86400 + q * 3600 + r * 60 + s = D * 86400 + H * 3600 + M * 60 + S"
  using assms by linarith

lemma mktime_fields_result:
  assumes "tm_bounds t"
  defines "u \<equiv> mktime_fields t"
  shows "0 \<le> tm_sec u" "tm_sec u < 60" "0 \<le> tm_min u" "tm_min u < 60" "0 \<le> tm_hour u" "tm_hour u < 24"
    "0 \<le> tm_mon u" "tm_mon u < 12" "\<bar>tm_mday u\<bar> \<le> 32767" "\<bar>tm_year u\<bar> \<le> 23000" "tm_isdst u = tm_isdst t"
    "civil_seconds u = civil_seconds t"
proof -
  note b = assms(1) [unfolded tm_bounds_def]
  define m where "m = tm_min t + tm_sec t div 60"
  define h where "h = tm_hour t + m div 60"
  define d where "d = tm_mday t + h div 24"
  define y where "y = tm_year t + tm_mon t div 12"
  have m: "\<bar>m\<bar> \<le> 32600" unfolding m_def using b by linarith
  have h: "\<bar>h\<bar> \<le> 32600" unfolding h_def using b m by linarith
  have d: "\<bar>d\<bar> \<le> 32767" unfolding d_def using b h by linarith
  have y: "\<bar>y\<bar> \<le> 23000" unfolding y_def using b by linarith
  have n: "xbee_mktime_normalize (tm_min t) (tm_sec t) 60 = (m, tm_sec t mod 60)"
    "xbee_mktime_normalize (tm_hour t) m 60 = (h, m mod 60)"
    "xbee_mktime_normalize (tm_mday t) h 24 = (d, h mod 24)"
    "xbee_mktime_normalize (tm_year t) (tm_mon t) 12 = (y, tm_mon t mod 12)"
    using normalize_result [of 60 "tm_min t" "tm_sec t", folded m_def] m
      normalize_result [of 60 "tm_hour t" m, folded h_def] h
      normalize_result [of 24 "tm_mday t" h, folded d_def] d
      normalize_result [of 12 "tm_year t" "tm_mon t", folded y_def] y
    by simp_all
  have u: "u = t\<lparr>tm_sec := tm_sec t mod 60, tm_min := m mod 60, tm_hour := h mod 24, tm_mday := d,
                  tm_mon := tm_mon t mod 12, tm_year := y\<rparr>"
    by (simp add: u_def mktime_fields_def n)
  show "0 \<le> tm_sec u" "tm_sec u < 60" "0 \<le> tm_min u" "tm_min u < 60" "0 \<le> tm_hour u" "tm_hour u < 24"
    "0 \<le> tm_mon u" "tm_mon u < 12" "\<bar>tm_mday u\<bar> \<le> 32767" "\<bar>tm_year u\<bar> \<le> 23000" "tm_isdst u = tm_isdst t"
    using d y by (simp_all add: u)
  have days: "civil_days u = civil_days t + h div 24"
    by (simp add: civil_days_def u y_def d_def date_days_add)
  have hour: "h div 24 * 24 + tm_hour u = tm_hour t + m div 60"
    using div_mult_mod_eq [of h 24] by (simp add: u) (simp add: h_def)
  have min: "m div 60 * 60 + tm_min u = tm_min t + tm_sec t div 60"
    using div_mult_mod_eq [of m 60] by (simp add: u) (simp add: m_def)
  have sec: "tm_sec t div 60 * 60 + tm_sec u = tm_sec t"
    by (simp add: u)
  show "civil_seconds u = civil_seconds t"
    unfolding civil_seconds_def by (rule carry_sum [OF days hour min sec])
qed

lemma xbee_mktime_result:
  assumes "tm_bounds t"
  shows "(civil_seconds t < 0 \<longrightarrow> xbee_mktime t = Some (XBEE_UTCTIME_INVALID, t)) \<and>
    (0 \<le> civil_seconds t \<and> civil_seconds t < 2 ^ 32 \<longrightarrow>
      (\<exists>t'. xbee_mktime t = Some (word_of_int (civil_seconds t), t') \<and> full_tm t' \<and>
        civil_seconds t' = civil_seconds t \<and> tm_isdst t' = tm_isdst t))"
proof -
  define u where "u = mktime_fields t"
  note f = mktime_fields_result [OF assms, folded u_def]
  have "1 - tm_mday u \<le> 28 * (tm_year u + 32768)" "tm_year u < 32768" "- 32768 \<le> tm_year u"
    using f(9,10) by (simp_all add: abs_le_iff)
  then obtain y1 m1 d1 where rb: "mktime_roll_back (time_is_leap (tm_year u)) u
      = Some (time_is_leap y1, u\<lparr>tm_year := y1, tm_mon := m1, tm_mday := d1\<rparr>)"
    "0 \<le> m1" "m1 < 12" "1 \<le> d1" "y1 \<le> tm_year u" "- 32768 \<le> y1" "d1 \<le> max 31 (tm_mday u)"
    "date_days y1 m1 d1 = date_days (tm_year u) (tm_mon u) (tm_mday u)"
    using mktime_roll_back_result [of u "time_is_leap (tm_year u)"] f(7,8) by auto
  let ?t1 = "u\<lparr>tm_year := y1, tm_mon := m1, tm_mday := d1\<rparr>"
  have "d1 \<le> 28 * (32767 - y1) + 28" using rb(5,7) f(9,10) by simp
  then obtain y m d where on: "mktime_roll_on (time_is_leap y1) ?t1
      = Some (time_is_leap y, ?t1\<lparr>tm_year := y, tm_mon := m, tm_mday := d\<rparr>)"
    "0 \<le> m" "m < 12" "1 \<le> d" "d \<le> xbee_time_dom (time_is_leap y) ! nat m"
    "date_days y m d = date_days y1 m1 d1"
    using mktime_roll_on_result [of ?t1 "time_is_leap y1"] rb by auto
  define v where "v = u\<lparr>tm_year := y, tm_mon := m, tm_mday := d\<rparr>"
  have cd: "civil_days v = date_days y m d" "civil_days u = civil_days v"
    using on rb f(7,8) by (simp_all add: civil_days_def v_def)
  have cs: "civil_seconds v = civil_seconds t"
    using f(12) cd by (simp add: civil_seconds_def v_def)
  have valid: "valid_tm v" using f on by (simp add: valid_tm_def v_def)
  have code: "xbee_mktime t = (if y < 100 then Some (XBEE_UTCTIME_INVALID, t) else mktime_stamp (time_is_leap y) v)"
    unfolding xbee_mktime_def Let_def u_def [symmetric] rb(1) option.case prod.case on(1)
    by (simp add: v_def)
  have sign: "0 \<le> civil_seconds t \<longleftrightarrow> 100 \<le> y"
  proof -
    have "0 \<le> civil_seconds v \<longleftrightarrow> 0 \<le> civil_days v"
      using valid unfolding civil_seconds_def valid_tm_def by arith
    then show ?thesis using date_days_sign [OF on(2-5)] by (simp only: cs cd(1))
  qed
  show ?thesis
  proof (cases "0 \<le> civil_seconds t \<and> civil_seconds t < 2 ^ 32")
    case False
    then show ?thesis using sign code by auto
  next
    case True
    then have y: "100 \<le> y" using sign by simp
    have small: "date_days y m d < 49711"
    proof -
      have "civil_seconds v < 4294967296" using True cs by simp
      then show ?thesis using valid unfolding civil_seconds_def cd(1) valid_tm_def by linarith
    qed
    define yday where "yday = (word_of_int (xbee_time_jom (time_is_leap y) ! nat m + d - 1) :: u16)"
    define p where "p = (let p = drop_bit 2 (word_of_int (y - 100) :: u8) + (if (word_of_int (y - 100) :: u8) AND 3 \<noteq> 0 then 1 else 0)
               in if (word_of_int (y - 100) :: u8) > 100 then p - 1 else p)"
    define days where "days = (ucast (word_of_int (y - 100) :: u8) * 365 + ucast p + yday :: u16)"
    note days = mktime_days [OF y on(2-5) small refl yday_def p_def, folded days_def]
    define w where "w = v\<lparr>tm_yday := uint yday, tm_wday := uint ((days + 6) mod 7)\<rparr>"
    have vy: "tm_year v = y" by (simp add: v_def)
    have stamp: "mktime_stamp (time_is_leap y) v
        = Some (ucast days * 86400 + word_of_int (tm_hour v) * 3600 + word_of_int (tm_min v * 60) + word_of_int (tm_sec v), w)"
      unfolding w_def
    proof (rule mktime_stamp_Some)
      show "c_index (xbee_time_jom (time_is_leap y)) (tm_mon v) = Some (xbee_time_jom (time_is_leap y) ! nat m)"
        using index_jom [OF on(2,3)] by (simp add: v_def)
      show "yday = word_of_int (xbee_time_jom (time_is_leap y) ! nat m + tm_mday v - 1)"
        unfolding yday_def v_def by simp
      show "p = (let p = drop_bit 2 (word_of_int (tm_year v - 100) :: u8) + (if (word_of_int (tm_year v - 100) :: u8) AND 3 \<noteq> 0 then 1 else 0)
               in if (word_of_int (tm_year v - 100) :: u8) > 100 then p - 1 else p)"
        unfolding p_def vy ..
      show "days = ucast (word_of_int (tm_year v - 100) :: u8) * 365 + ucast p + yday"
        unfolding days_def vy ..
    qed
    have "ucast days = (word_of_int (date_days y m d) :: u32)"
    proof -
      have "ucast days = (word_of_int (uint days) :: u32)" by simp
      then show ?thesis by (simp only: days(2))
    qed
    then have val: "ucast days * 86400 + word_of_int (tm_hour v) * 3600 + word_of_int (tm_min v * 60) + word_of_int (tm_sec v)
        = (word_of_int (civil_seconds t) :: u32)"
      unfolding cs [symmetric] unfolding civil_seconds_def cd(1) by simp
    have "0 \<le> date_days y m d" using date_days_sign [OF on(2-5)] y by simp
    then have "uint ((days + 6) mod 7) = (date_days y m d + 6) mod 7"
      using small days(2) by (simp add: uint_mod uint_plus_if')
    then have "full_tm w"
      using valid days(1) cd(1) by (simp add: full_tm_def valid_tm_def w_def civil_days_def v_def)
    moreover have "civil_seconds w = civil_seconds t" "tm_isdst w = tm_isdst t"
      using cs f(11) by (simp_all add: civil_seconds_def civil_days_def w_def v_def)
    ultimately show ?thesis using True y code stamp val by auto
  qed
qed

text \<open>
  The broken-down time of a time stamp.  For every time stamp \<open>xbee_gmtime\<close> reads its tables
  within their bounds and returns the date that lies that many seconds after the start of 2000,
  with every field in its range, the weekday and the day of the year agreeing with the date.
\<close>

theorem xbee_gmtime_correct:
  "\<exists>t. xbee_gmtime ts = Some t \<and> full_tm t \<and> civil_seconds t = uint ts \<and> tm_isdst t = 0 \<and> 100 \<le> tm_year t"
  by (rule xbee_gmtime_result)

text \<open>
  C28: Converting to broken-down time and back is the identity: for every time stamp
  \<open>xbee_mktime\<close> of the result of \<open>xbee_gmtime\<close> returns the time stamp and leaves the
  structure as it is.
\<close>

theorem xbee_mktime_gmtime: "\<exists>t. xbee_gmtime ts = Some t \<and> xbee_mktime t = Some (ts, t)"
proof -
  obtain t where t: "xbee_gmtime ts = Some t" "full_tm t" "civil_seconds t = uint ts" "100 \<le> tm_year t"
    using xbee_gmtime_result [of ts] by blast
  have v: "valid_tm t" using t(2) by (simp add: full_tm_def)
  then have "xbee_time_dom (time_is_leap (tm_year t)) ! nat (tm_mon t) \<le> 31"
    using dom_range [of "tm_mon t"] by (simp add: valid_tm_def)
  moreover have "tm_year t \<le> 20000"
  proof -
    have d: "civil_days t \<le> 49710"
      using t(3) v uint_bound_u32 [of ts] by (simp add: civil_seconds_def valid_tm_def del: uint_bound_u32)
    have "year_start (tm_year t) \<le> civil_days t"
      using v jom_end [of "tm_mon t" "time_is_leap (tm_year t)"]
      by (simp add: civil_days_def date_days_def valid_tm_def)
    then show ?thesis using d year_start_lower [OF t(4)] by simp
  qed
  ultimately have "tm_bounds t" using v t(4) by (simp add: tm_bounds_def valid_tm_def)
  moreover have "0 \<le> uint ts" "uint ts < 2 ^ 32" using uint_bound_u32 [of ts] by simp_all
  ultimately obtain t' where "xbee_mktime t = Some (word_of_int (uint ts), t')" "full_tm t'"
    "civil_seconds t' = civil_seconds t" "tm_isdst t' = tm_isdst t"
    using xbee_mktime_result [of t] by (auto simp: t(3))
  then show ?thesis using t full_tm_unique [of t' t] by simp
qed

text \<open>
  Normalisation in \<open>xbee_mktime\<close>.  The fields need not be in range, only far enough from the
  limits of a 16-bit \<open>int\<close>: seconds, minutes, hours, days and months that are too large, zero or
  negative are carried over.  The loops end.  A date before 2000 gives
  \<open>XBEE_UTCTIME_INVALID\<close> and the structure is left alone; a date that a time stamp can hold gives
  its time stamp, and the structure becomes the one \<open>xbee_gmtime\<close> yields for it, up to the
  daylight saving flag, which is not touched.
\<close>

theorem xbee_mktime_normalises:
  assumes "tm_bounds t"
  shows "(civil_seconds t < 0 \<longrightarrow> xbee_mktime t = Some (XBEE_UTCTIME_INVALID, t)) \<and>
    (0 \<le> civil_seconds t \<and> civil_seconds t < 2 ^ 32 \<longrightarrow>
      (\<exists>g. xbee_gmtime (word_of_int (civil_seconds t)) = Some g \<and>
        xbee_mktime t = Some (word_of_int (civil_seconds t), g\<lparr>tm_isdst := tm_isdst t\<rparr>)))"
proof (cases "0 \<le> civil_seconds t \<and> civil_seconds t < 2 ^ 32")
  case False
  then show ?thesis using xbee_mktime_result [OF assms] by auto
next
  case True
  then obtain t' where t': "xbee_mktime t = Some (word_of_int (civil_seconds t), t')" "full_tm t'"
    "civil_seconds t' = civil_seconds t" "tm_isdst t' = tm_isdst t"
    using xbee_mktime_result [OF assms] by auto
  obtain g where g: "xbee_gmtime (word_of_int (civil_seconds t)) = Some g" "full_tm g"
    "civil_seconds g = uint (word_of_int (civil_seconds t) :: u32)"
    using xbee_gmtime_result by blast
  have "civil_seconds g = civil_seconds t" using g(3) True by (simp add: uint_of_int_u32)
  moreover have "full_tm (g\<lparr>tm_isdst := tm_isdst t\<rparr>)"
    "civil_seconds (g\<lparr>tm_isdst := tm_isdst t\<rparr>) = civil_seconds g"
    using g(2) by (simp_all add: full_tm_def valid_tm_def civil_days_def civil_seconds_def)
  ultimately have "t' = g\<lparr>tm_isdst := tm_isdst t\<rparr>"
    using t' by (intro full_tm_unique) simp_all
  then show ?thesis using True t'(1) g(1) by auto
qed

text \<open>The 0th of March 2000 is the 29th of February; one second before it ends.\<close>

theorem xbee_mktime_normalises_witness:
  "\<exists>g. xbee_gmtime 5183999 = Some g \<and>
     xbee_mktime (tm_zero\<lparr>tm_year := 100, tm_mon := 2, tm_mday := 1, tm_sec := - 1\<rparr>) = Some (5183999, g)"
proof -
  let ?t = "tm_zero\<lparr>tm_year := 100, tm_mon := 2, tm_mday := 1, tm_sec := - 1\<rparr>"
  have cs: "civil_seconds ?t = 5183999"
    by (simp add: civil_seconds_def civil_days_def date_days_def year_start_def tm_zero_def
        xbee_time_jom_def time_is_leap_iff)
  have "tm_bounds ?t" by (simp add: tm_bounds_def tm_zero_def)
  from xbee_mktime_normalises [OF this] obtain g where g: "xbee_gmtime 5183999 = Some g"
    "xbee_mktime ?t = Some (5183999, g\<lparr>tm_isdst := tm_isdst ?t\<rparr>)"
    unfolding cs by auto
  have "tm_isdst ?t = 0" "tm_isdst g = 0"
    using g(1) xbee_gmtime_result [of 5183999] by (simp_all add: tm_zero_def)
  then have "g\<lparr>tm_isdst := tm_isdst ?t\<rparr> = g" by (intro tm.equality) simp_all
  then show ?thesis using g by metis
qed

end
