(* ===== verification/Byte_Order.thy ===== *)
theory Byte_Order
  imports Byte_Util
begin

text \<open>
  Multi-byte integers in memory.  The target stores words with the most significant byte first, so
  a word and its memory image are related by \<open>be16\<close> and \<open>be32\<close>; the conversions \<open>be16toh\<close> and
  \<open>htobe16\<close> of \<open>headers/xbee/byteorder.h\<close> are the identity there and the little-endian ones are
  the byte swaps.
\<close>

definition be16 :: "u8 \<Rightarrow> u8 \<Rightarrow> u16" where
  "be16 b1 b0 = word_cat b1 b0"

definition bytes16 :: "u16 \<Rightarrow> u8 list" where
  "bytes16 w = [ucast (drop_bit 8 w), ucast w]"

definition be32 :: "u8 \<Rightarrow> u8 \<Rightarrow> u8 \<Rightarrow> u8 \<Rightarrow> u32" where
  "be32 b3 b2 b1 b0 = word_cat (be16 b3 b2) (be16 b1 b0)"

definition bytes32 :: "u32 \<Rightarrow> u8 list" where
  "bytes32 w = bytes16 (ucast (drop_bit 16 w)) @ bytes16 (ucast w)"

definition htole16 :: "u16 \<Rightarrow> u16" where
  "htole16 x = swap16 x"

definition le16toh :: "u16 \<Rightarrow> u16" where
  "le16toh x = swap16 x"

definition htole32 :: "u32 \<Rightarrow> u32" where
  "htole32 x = swap32 x"

definition le32toh :: "u32 \<Rightarrow> u32" where
  "le32toh x = swap32 x"

lemma length_bytes16 [simp]: "length (bytes16 w) = 2"
  by (simp add: bytes16_def)

lemma length_bytes32 [simp]: "length (bytes32 w) = 4"
  by (simp add: bytes32_def)

lemma be16_bytes [byte_simps]: "be16 (ucast (drop_bit 8 w)) (ucast w) = w"
  unfolding be16_def by (rule bit_word_eqI) (auto simp: bit_simps)

lemma bytes16_be [byte_simps]: "bytes16 (be16 b1 b0) = [b1, b0]"
  unfolding bytes16_def be16_def
  by (intro list.inject [THEN iffD2] conjI bit_word_eqI refl) (auto simp: bit_simps dest: bit_imp_le_length)

lemma be16_inject: "be16 a b = be16 c d \<longleftrightarrow> a = c \<and> b = d"
  by (metis bytes16_be list.inject)

lemma cat_halves32: "(ucast (drop_bit 16 (word_cat x y :: u32)) :: u16) = x" "(ucast (word_cat x y :: u32) :: u16) = y"
  for x y :: u16
  by (rule bit_word_eqI, auto simp: bit_simps dest: bit_imp_le_length)+

lemma bytes32_be [byte_simps]: "bytes32 (be32 b3 b2 b1 b0) = [b3, b2, b1, b0]"
  unfolding bytes32_def be32_def cat_halves32 bytes16_be append.simps ..

lemma be32_inject: "be32 a b c d = be32 a' b' c' d' \<longleftrightarrow> a = a' \<and> b = b' \<and> c = c' \<and> d = d'"
proof
  assume "be32 a b c d = be32 a' b' c' d'"
  then have "bytes32 (be32 a b c d) = bytes32 (be32 a' b' c' d')" by (simp only:)
  then show "a = a' \<and> b = b' \<and> c = c' \<and> d = d'" by (simp only: bytes32_be list.inject)
qed (elim conjE, simp only:)

lemma swap16_be16 [byte_simps]: "swap16 (be16 b1 b0) = be16 b0 b1"
  using bytes16_be [of b1 b0] by (simp add: swap16_eq be16_def bytes16_def)

lemma bytes16_swap16 [byte_simps]: "bytes16 (swap16 w) = rev (bytes16 w)"
  using bytes16_be [of "ucast w" "ucast (drop_bit 8 w)"] by (simp add: swap16_eq be16_def bytes16_def)

lemma unat_be16: "unat (be16 a b) = 256 * unat a + unat b"
proof -
  have "unat a * 256 + unat b < 65536" using unat_u8_bound [of a] unat_u8_bound [of b] by linarith
  then show ?thesis
    unfolding be16_def
    by (simp add: word_cat_eq unat_word_ariths unsigned_push_bit_eq unsigned_ucast_eq push_bit_eq_mult take_bit_eq_mod)
qed

lemma unat_be32:
  "unat (be32 a b c d) = 16777216 * unat a + 65536 * unat b + 256 * unat c + unat d"
proof -
  have "unat (be16 a b) * 65536 + unat (be16 c d) < 4294967296"
    using unat_u16_bound [of "be16 a b"] unat_u16_bound [of "be16 c d"] by linarith
  then have "unat (be32 a b c d) = 65536 * unat (be16 a b) + unat (be16 c d)"
    unfolding be32_def
    by (simp add: word_cat_eq unat_word_ariths unsigned_push_bit_eq unsigned_ucast_eq push_bit_eq_mult take_bit_eq_mod)
  then show ?thesis by (simp add: unat_be16)
qed

lemma be16_bytes_nth [simp]: "be16 (bytes16 w ! 0) (bytes16 w ! Suc 0) = w"
  by (simp add: bytes16_def be16_bytes)

lemma swap16_swap16 [simp]: "swap16 (swap16 w) = w"
  unfolding swap16_eq by (rule bit_word_eqI) (auto simp: bit_simps)

lemma le16toh_htole16 [simp]: "le16toh (htole16 w) = w" "htole16 (le16toh w) = w"
  by (simp_all add: le16toh_def htole16_def)

lemma swap32_swap32 [simp]: "swap32 (swap32 w) = w"
  unfolding swap32_eq by (rule bit_word_eqI) (auto simp: bit_simps)

lemma le32toh_htole32 [simp]: "le32toh (htole32 w) = w" "htole32 (le32toh w) = w"
  by (simp_all add: le32toh_def htole32_def)

text \<open>The little-endian bytes of a word and back.\<close>

lemma bytes16_htole16: "bytes16 (htole16 w) = [ucast w, ucast (drop_bit 8 w)]"
  by (simp add: htole16_def bytes16_swap16) (simp add: bytes16_def)

end
