(* ===== verification/Wpan_Types.thy ===== *)
theory Wpan_Types
  imports Byte_Order
begin

text \<open>
  64-bit IEEE addresses: \<open>pxbee/pan/wpan/wpan_types.c\<close>.  An \<open>addr64\<close> is its eight bytes, most
  significant first; a pointer that may be null is an \<open>option\<close>.  Strings are lists of bytes
  without the terminating zero unless stated otherwise.
\<close>

section \<open>The code\<close>

type_synonym addr64 = "u8 list"

definition WPAN_IEEE_ADDR_ALL_ZEROS :: addr64 where
  "WPAN_IEEE_ADDR_ALL_ZEROS = [0, 0, 0, 0, 0, 0, 0, 0]"

text \<open>The string literal \<open>"0123456789abcdef"\<close>, and the default separator, a hyphen.\<close>

definition hex_chars :: "u8 list" where
  "hex_chars = [0x30, 0x31, 0x32, 0x33, 0x34, 0x35, 0x36, 0x37, 0x38, 0x39, 0x61, 0x62, 0x63, 0x64, 0x65, 0x66]"

definition ADDR64_FORMAT_SEPARATOR :: u8 where
  "ADDR64_FORMAT_SEPARATOR = 0x2D"

text \<open>The loop of \<open>addr64_format\<close>: what is written from \<open>p\<close> on; \<open>i\<close> counts down from 8.\<close>

fun addr64_format_loop :: "nat \<Rightarrow> addr64 \<Rightarrow> u8 list" where
  "addr64_format_loop i b =
     (let ch = hd b; i = i - 1 in
        hex_chars ! unat (drop_bit 4 ch) # hex_chars ! unat (ch AND 0x0F) #
        (if i \<noteq> 0 then ADDR64_FORMAT_SEPARATOR # addr64_format_loop i (tl b) else [0]))"

declare addr64_format_loop.simps [simp del]

definition addr64_format :: "addr64 \<Rightarrow> u8 list" where
  "addr64_format address = addr64_format_loop 8 address"

text \<open>The two 32-bit halves of the union, as the target's big-endian memory gives them.\<close>

definition addr64_l :: "addr64 \<Rightarrow> nat \<Rightarrow> u32" where
  "addr64_l a i = be32 (a ! (4 * i)) (a ! (4 * i + 1)) (a ! (4 * i + 2)) (a ! (4 * i + 3))"

definition addr64_equal :: "addr64 option \<Rightarrow> addr64 option \<Rightarrow> bool" where
  "addr64_equal addr1 addr2 =
     (case (addr1, addr2) of
        (Some a1, Some a2) \<Rightarrow> addr64_l a1 0 = addr64_l a2 0 \<and> addr64_l a1 1 = addr64_l a2 1
      | _ \<Rightarrow> False)"

definition addr64_is_zero :: "addr64 option \<Rightarrow> bool" where
  "addr64_is_zero addr =
     (case addr of Some a \<Rightarrow> \<not> (addr64_l a 0 \<noteq> 0 \<or> addr64_l a 1 \<noteq> 0) | None \<Rightarrow> True)"

text \<open>\<open>isspace\<close> and \<open>isxdigit\<close> of the C library, in its default locale.\<close>

definition isspace :: "u8 \<Rightarrow> bool" where
  "isspace c \<longleftrightarrow> c = 0x20 \<or> (0x09 \<le> c \<and> c \<le> 0x0D)"

definition isxdigit :: "u8 \<Rightarrow> bool" where
  "isxdigit c \<longleftrightarrow> (0x30 \<le> c \<and> c \<le> 0x39) \<or> (0x41 \<le> c \<and> c \<le> 0x46) \<or> (0x61 \<le> c \<and> c \<le> 0x66)"

fun skip_spaces :: "u8 list \<Rightarrow> u8 list" where
  "skip_spaces [] = []"
| "skip_spaces (c # cs) = (if isspace c then skip_spaces cs else c # cs)"

text \<open>The conversion loop: the bytes stored and the value of \<open>i\<close> at the end.\<close>

fun addr64_parse_loop :: "nat \<Rightarrow> u8 list \<Rightarrow> u8 list \<times> nat" where
  "addr64_parse_loop 0 str = ([], 0)"
| "addr64_parse_loop (Suc i) str =
     (let ret = hexstrtobyte str in
      if ret < 0 then ([], Suc i)
      else
        let str = drop 2 str;
            str = (if cstr_deref str \<noteq> 0 \<and> \<not> isxdigit (cstr_deref str) then tl str else str);
            (b, i') = addr64_parse_loop i str
        in (word_of_int ret # b, i'))"

text \<open>The result and what is stored through \<open>address_be\<close>.\<close>

definition addr64_parse :: "addr64 option \<Rightarrow> u8 list option \<Rightarrow> (errno + unit) \<times> addr64 option" where
  "addr64_parse address_be str =
     (let (b, i) =
        (case (str, address_be) of
           (Some s, Some a) \<Rightarrow> addr64_parse_loop 8 (skip_spaces s)
         | _ \<Rightarrow> ([], 8))
      in if i = 0 then (Inr (), Some b)
         else (Inl EINVAL, map_option (\<lambda>_. WPAN_IEEE_ADDR_ALL_ZEROS) address_be))"

section \<open>Comparison\<close>

lemma addr64_cases:
  assumes "length a = 8"
  obtains a0 a1 a2 a3 a4 a5 a6 a7 where "a = [a0, a1, a2, a3, a4, a5, a6, a7]"
  using assms by (auto simp: numeral_eq_Suc length_Suc_conv)

text \<open>
  Comparing addresses.  On two addresses \<open>addr64_equal\<close>, which compares two 32-bit halves,
  is equality of the eight bytes; \<open>addr64_is_zero\<close> holds for the all-zero address alone; a null
  pointer is equal to nothing and counts as zero.
\<close>

theorem addr64_compare_correct:
  assumes "length a = 8" "length b = 8"
  shows "(addr64_equal (Some a) (Some b) \<longleftrightarrow> a = b) \<and>
    (addr64_is_zero (Some a) \<longleftrightarrow> a = WPAN_IEEE_ADDR_ALL_ZEROS) \<and>
    \<not> addr64_equal None x \<and> \<not> addr64_equal x None \<and> addr64_is_zero None"
proof -
  have "be32 0 0 0 0 = 0" by (simp add: be32_def be16_def word_cat_eq)
  then have z: "be32 p q r s = 0 \<longleftrightarrow> p = 0 \<and> q = 0 \<and> r = 0 \<and> s = 0" for p q r s
    using be32_inject [of p q r s 0 0 0 0] by simp
  obtain a0 a1 a2 a3 a4 a5 a6 a7 where a: "a = [a0, a1, a2, a3, a4, a5, a6, a7]"
    using assms(1) by (rule addr64_cases)
  obtain b0 b1 b2 b3 b4 b5 b6 b7 where b: "b = [b0, b1, b2, b3, b4, b5, b6, b7]"
    using assms(2) by (rule addr64_cases)
  show ?thesis
    by (auto simp: addr64_equal_def addr64_is_zero_def addr64_l_def a b be32_inject z
        WPAN_IEEE_ADDR_ALL_ZEROS_def split: option.split)
qed

theorem addr64_compare_correct_witness:
  "addr64_equal (Some [0, 0x13, 0xA2, 0, 1, 2, 3, 4]) (Some [0, 0x13, 0xA2, 0, 1, 2, 3, 4]) \<and>
   \<not> addr64_is_zero (Some [0, 0x13, 0xA2, 0, 1, 2, 3, 4])"
  using addr64_compare_correct [of "[0, 0x13, 0xA2, 0, 1, 2, 3, 4]" "[0, 0x13, 0xA2, 0, 1, 2, 3, 4]" None]
  by (simp add: WPAN_IEEE_ADDR_ALL_ZEROS_def)

section \<open>Parsing\<close>

text \<open>
  The texts the parser is documented to accept: pairs of hexadecimal digits, each pair followed
  by at most one separator, which is any character but a digit or the terminator.
\<close>

fun addr_text :: "(u8 \<times> u8 \<times> u8 option) list \<Rightarrow> u8 list" where
  "addr_text [] = []"
| "addr_text ((h, l, sep) # ps) = h # l # (case sep of None \<Rightarrow> [] | Some c \<Rightarrow> [c]) @ addr_text ps"

definition addr_pair_ok :: "u8 \<times> u8 \<times> u8 option \<Rightarrow> bool" where
  "addr_pair_ok = (\<lambda>(h, l, sep). hex_value h \<noteq> None \<and> hex_value l \<noteq> None \<and>
     (case sep of None \<Rightarrow> True | Some c \<Rightarrow> c \<noteq> 0 \<and> hex_value c = None))"

definition addr_pair_byte :: "u8 \<times> u8 \<times> u8 option \<Rightarrow> u8" where
  "addr_pair_byte = (\<lambda>(h, l, _). of_nat (16 * the (hex_value h) + the (hex_value l)))"

lemma isxdigit_hex_value: "isxdigit c \<longleftrightarrow> hex_value c \<noteq> None"
  by (auto simp: isxdigit_def hex_value_def)

lemma not_isspace_hex: "hex_value c \<noteq> None \<Longrightarrow> \<not> isspace c"
  by (auto simp: isspace_def hex_value_def word_le_nat_alt split: if_splits)

lemma addr64_parse_loop_text:
  assumes "\<forall>p \<in> set ps. addr_pair_ok p"
  shows "addr64_parse_loop (length ps) (addr_text ps) = (map addr_pair_byte ps, 0)"
  using assms
proof (induction ps)
  case Nil
  then show ?case by simp
next
  case (Cons p ps)
  obtain h l sep where p: "p = (h, l, sep)" by (cases p)
  obtain v w where vw: "hex_value h = Some v" "hex_value l = Some w"
    using Cons.prems by (auto simp: p addr_pair_ok_def)
  let ?rest = "(case sep of None \<Rightarrow> [] | Some c \<Rightarrow> [c]) @ addr_text ps"
  have "(if cstr_deref ?rest \<noteq> 0 \<and> \<not> isxdigit (cstr_deref ?rest) then tl ?rest else ?rest) = addr_text ps"
  proof (cases sep)
    case None
    then show ?thesis
      using Cons.prems by (cases ps) (auto simp: isxdigit_hex_value addr_pair_ok_def)
  next
    case (Some c)
    then show ?thesis using Cons.prems by (simp add: p isxdigit_hex_value addr_pair_ok_def)
  qed
  then show ?case
    using Cons by (simp add: p hexstrtobyte_eq vw Let_def addr_pair_byte_def)
qed

lemma skip_spaces_append: "\<forall>c \<in> set sp. isspace c \<Longrightarrow> skip_spaces (sp @ s) = skip_spaces s"
  by (induction sp) simp_all

lemma addr64_parse_text:
  assumes "length ps = 8" "\<forall>p \<in> set ps. addr_pair_ok p" "\<forall>c \<in> set sp. isspace c"
  shows "addr64_parse (Some a) (Some (sp @ addr_text ps)) = (Inr (), Some (map addr_pair_byte ps))"
proof -
  have "skip_spaces (addr_text ps) = addr_text ps"
    using assms(1,2) not_isspace_hex
    by (cases ps) (auto simp: addr_pair_ok_def)
  then show ?thesis
    using addr64_parse_loop_text [OF assms(2)] assms(1)
    by (simp add: addr64_parse_def skip_spaces_append [OF assms(3)])
qed

text \<open>
  What \<open>addr64_parse\<close> accepts.  Leading white space, then eight pairs of hexadecimal digits in
  either case, each followed by an optional separator, are converted to the eight bytes they
  denote.
\<close>

theorem addr64_parse_accepts:
  assumes "length ps = 8" "\<forall>p \<in> set ps. addr_pair_ok p" "\<forall>c \<in> set sp. isspace c"
  shows "addr64_parse (Some a) (Some (sp @ addr_text ps)) = (Inr (), Some (map addr_pair_byte ps))"
  using assms by (rule addr64_parse_text)

text \<open>The documented example \<open>"0123 4567 89AB cdef"\<close>, with a leading space.\<close>

theorem addr64_parse_accepts_witness:
  "addr64_parse (Some WPAN_IEEE_ADDR_ALL_ZEROS)
     (Some [0x20, 0x30, 0x31, 0x32, 0x33, 0x20, 0x34, 0x35, 0x36, 0x37, 0x20, 0x38, 0x39, 0x41, 0x42, 0x20,
            0x63, 0x64, 0x65, 0x66])
   = (Inr (), Some [0x01, 0x23, 0x45, 0x67, 0x89, 0xAB, 0xCD, 0xEF])"
  using addr64_parse_accepts [of "[(0x30, 0x31, None), (0x32, 0x33, Some 0x20), (0x34, 0x35, None),
      (0x36, 0x37, Some 0x20), (0x38, 0x39, None), (0x41, 0x42, Some 0x20), (0x63, 0x64, None), (0x65, 0x66, None)]"
      "[0x20]" WPAN_IEEE_ADDR_ALL_ZEROS]
  by (simp add: addr_pair_ok_def addr_pair_byte_def hex_value_def isspace_def)

text \<open>On any input the parser stores eight bytes or clears the address.\<close>

lemma addr64_parse_loop_result: "addr64_parse_loop i s = (b, i') \<Longrightarrow> i' = 0 \<Longrightarrow> length b = i"
  by (induction i arbitrary: s b) (auto simp: Let_def split: if_splits prod.splits)

text \<open>
  Totality of \<open>addr64_parse\<close>.  Whatever the arguments, it either reports success, with both
  pointers given, and has stored eight bytes, or returns \<open>-EINVAL\<close> and has cleared the address,
  if there is one.
\<close>

theorem addr64_parse_total:
  "(\<exists>b a s. addr64_parse address str = (Inr (), Some b) \<and> length b = 8 \<and> address = Some a \<and> str = Some s) \<or>
   addr64_parse address str = (Inl EINVAL, map_option (\<lambda>_. WPAN_IEEE_ADDR_ALL_ZEROS) address)"
proof (cases str)
  case None
  then show ?thesis by (simp add: addr64_parse_def)
next
  case (Some s)
  show ?thesis
  proof (cases address)
    case None
    then show ?thesis by (simp add: addr64_parse_def Some)
  next
    case (Some a)
    obtain b i where "addr64_parse_loop 8 (skip_spaces s) = (b, i)" by force
    then show ?thesis
      using addr64_parse_loop_result [of 8 "skip_spaces s" b i]
      by (cases "i = 0") (auto simp: addr64_parse_def \<open>str = Some s\<close> Some)
  qed
qed

section \<open>Formatting\<close>

lemma hex_chars_digit:
  assumes "n < 16"
  shows "hex_value (hex_chars ! n) = Some n"
proof -
  have "list_all (\<lambda>n. hex_value (hex_chars ! n) = Some n) [0..<16]"
    by (simp add: upt_rec hex_chars_def hex_value_def)
  then show ?thesis using assms by (simp add: list_all_iff)
qed

lemma separator_not_hex: "ADDR64_FORMAT_SEPARATOR \<noteq> 0" "hex_value ADDR64_FORMAT_SEPARATOR = None"
  by (simp_all add: ADDR64_FORMAT_SEPARATOR_def hex_value_def)

text \<open>The pairs that \<open>addr64_format\<close> writes.\<close>

definition byte_pair :: "u8 \<Rightarrow> u8 option \<Rightarrow> u8 \<times> u8 \<times> u8 option" where
  "byte_pair b sep = (hex_chars ! unat (drop_bit 4 b), hex_chars ! unat (b AND 0x0F), sep)"

fun byte_pairs :: "addr64 \<Rightarrow> (u8 \<times> u8 \<times> u8 option) list" where
  "byte_pairs [] = []"
| "byte_pairs [b] = [byte_pair b None]"
| "byte_pairs (b # bs) = byte_pair b (Some ADDR64_FORMAT_SEPARATOR) # byte_pairs bs"

lemma nibbles: "unat (drop_bit 4 b) = unat b div 16" "unat (b AND 0x0F) = unat b mod 16" for b :: u8
  using unat_and_pow2_mask [of "0x0F :: u8" 4 b]
  by (simp_all add: unsigned_drop_bit_eq drop_bit_eq_div unat_div)

lemma byte_pair_ok: "sep = None \<or> sep = Some ADDR64_FORMAT_SEPARATOR \<Longrightarrow> addr_pair_ok (byte_pair b sep)"
  by (auto simp: addr_pair_ok_def byte_pair_def hex_chars_digit nibbles separator_not_hex less_mult_imp_div_less)

lemma byte_pair_byte: "addr_pair_byte (byte_pair b sep) = b"
proof -
  have "unat b div 16 < 16" by (simp add: less_mult_imp_div_less)
  then show ?thesis
    by (simp add: addr_pair_byte_def byte_pair_def hex_chars_digit nibbles)
       (metis div_mult_mod_eq mult.commute of_nat_unat ucast_id of_nat_add of_nat_mult of_nat_numeral)
qed

lemma byte_pairs_props:
  "length (byte_pairs a) = length a" "\<forall>p \<in> set (byte_pairs a). addr_pair_ok p" "map addr_pair_byte (byte_pairs a) = a"
  by (induction a rule: byte_pairs.induct) (simp_all add: byte_pair_ok byte_pair_byte)

lemma addr64_format_loop_text: "a \<noteq> [] \<Longrightarrow> addr64_format_loop (length a) a = addr_text (byte_pairs a) @ [0]"
  by (induction a rule: byte_pairs.induct)
     (simp_all add: byte_pair_def addr64_format_loop.simps [of "Suc _"] Let_def)

lemma length_addr_text: "a \<noteq> [] \<Longrightarrow> length (addr_text (byte_pairs a)) = 3 * length a - 1"
  by (induction a rule: byte_pairs.induct) (simp_all add: byte_pair_def)

text \<open>
  Printing and parsing an address.  \<open>addr64_format\<close> writes exactly the 24 bytes of
  \<open>ADDR64_STRING_LENGTH\<close>, a text of 23 characters and the terminator, and \<open>addr64_parse\<close> turns
  the text back into the same address.
\<close>

theorem addr64_format_parse:
  assumes "length a = 8"
  shows "\<exists>text. addr64_format a = text @ [0] \<and> length text = 23 \<and>
    addr64_parse (Some x) (Some text) = (Inr (), Some a)"
proof (intro exI conjI)
  have a: "a \<noteq> []" using assms by auto
  show "addr64_format a = addr_text (byte_pairs a) @ [0]"
    using addr64_format_loop_text [OF a] by (simp add: addr64_format_def assms)
  show "length (addr_text (byte_pairs a)) = 23"
    using length_addr_text [OF a] by (simp add: assms)
  show "addr64_parse (Some x) (Some (addr_text (byte_pairs a))) = (Inr (), Some a)"
    using addr64_parse_text [of "byte_pairs a" "[]" x] by (simp add: byte_pairs_props assms)
qed

theorem addr64_format_parse_witness:
  "\<exists>text. addr64_format [0x00, 0x13, 0xA2, 0x00, 0x40, 0x52, 0x8E, 0xF9] = text @ [0] \<and>
     addr64_parse (Some WPAN_IEEE_ADDR_ALL_ZEROS) (Some text)
       = (Inr (), Some [0x00, 0x13, 0xA2, 0x00, 0x40, 0x52, 0x8E, 0xF9])"
  using addr64_format_parse [of "[0x00, 0x13, 0xA2, 0x00, 0x40, 0x52, 0x8E, 0xF9]" WPAN_IEEE_ADDR_ALL_ZEROS]
  by auto

end
