(* ===== verification/Wpan_Aps.thy ===== *)
theory Wpan_Aps
  imports Wpan_Types
begin

text \<open>
  The application support layer, \<open>pxbee/pan/wpan/wpan_aps.c\<close> and \<open>headers/wpan/aps.h\<close>:
  envelopes, the endpoint and cluster tables, the table of conversations of an endpoint, and
  the dispatcher.

  A device is referred to by a number; \<open>'w\<close> is the state handlers work on.  A pointer into an
  endpoint or cluster table is the rest of the table from that entry on.  The endpoint walker
  that an application may install is a function between such pointers; since nothing obliges it
  to end, the loops over it are partial functions, and \<open>None\<close> is a walk that never ends.
\<close>

text \<open>The result of a C function that returns a number or a negated error code.\<close>

type_synonym rc = "errno + int"

section \<open>Envelopes\<close>

record wpan_envelope =
  env_dev :: "nat option"
  env_ieee_address :: addr64
  env_network_address :: u16
  env_profile_id :: u16
  env_cluster_id :: u16
  env_source_endpoint :: u8
  env_dest_endpoint :: u8
  env_options :: u16
  env_payload :: "u8 list option"
  env_length :: u16

abbreviation WPAN_ENVELOPE_CLUSTER_FLAGS :: u16 where "WPAN_ENVELOPE_CLUSTER_FLAGS \<equiv> 0x00FF"
abbreviation WPAN_ENVELOPE_BROADCAST_ADDR :: u16 where "WPAN_ENVELOPE_BROADCAST_ADDR \<equiv> 0x0100"
abbreviation WPAN_ENVELOPE_BROADCAST_EP :: u16 where "WPAN_ENVELOPE_BROADCAST_EP \<equiv> 0x0200"
abbreviation WPAN_ENVELOPE_RX_APS_ENCRYPT :: u16 where "WPAN_ENVELOPE_RX_APS_ENCRYPT \<equiv> 0x0400"

abbreviation WPAN_CLUST_FLAG_INPUT :: u8 where "WPAN_CLUST_FLAG_INPUT \<equiv> 0x01"
abbreviation WPAN_CLUST_FLAG_OUTPUT :: u8 where "WPAN_CLUST_FLAG_OUTPUT \<equiv> 0x02"
abbreviation WPAN_CLUST_FLAG_INOUT :: u8 where "WPAN_CLUST_FLAG_INOUT \<equiv> 0x03"
abbreviation WPAN_CLUST_FLAG_ENCRYPT :: u8 where "WPAN_CLUST_FLAG_ENCRYPT \<equiv> 0x10"
abbreviation WPAN_CLUST_FLAG_ENCRYPT_UNICAST :: u8 where "WPAN_CLUST_FLAG_ENCRYPT_UNICAST \<equiv> 0x20"
abbreviation WPAN_CLUST_FLAG_NOT_ZCL :: u8 where "WPAN_CLUST_FLAG_NOT_ZCL \<equiv> 0x80"

abbreviation WPAN_CLUSTER_END_OF_LIST :: u16 where "WPAN_CLUSTER_END_OF_LIST \<equiv> 0xFFFF"
abbreviation WPAN_ENDPOINT_END_OF_LIST :: u8 where "WPAN_ENDPOINT_END_OF_LIST \<equiv> 0xFF"
abbreviation WPAN_ENDPOINT_BROADCAST :: u8 where "WPAN_ENDPOINT_BROADCAST \<equiv> 0xFF"
abbreviation WPAN_APS_PROFILE_ANY :: u16 where "WPAN_APS_PROFILE_ANY \<equiv> 0xFFFF"

text \<open>\<open>wpan_envelope_create\<close>, for an envelope that is not null.\<close>

definition wpan_envelope_create :: "nat option \<Rightarrow> addr64 \<Rightarrow> u16 \<Rightarrow> wpan_envelope" where
  "wpan_envelope_create dev ieee network_addr =
     \<lparr>env_dev = dev, env_ieee_address = ieee, env_network_address = network_addr,
      env_profile_id = 0, env_cluster_id = 0, env_source_endpoint = 0, env_dest_endpoint = 0,
      env_options = 0, env_payload = None, env_length = 0\<rparr>"

text \<open>\<open>wpan_envelope_reply\<close>, for pointers that are not null and differ.\<close>

definition wpan_envelope_reply :: "wpan_envelope \<Rightarrow> wpan_envelope" where
  "wpan_envelope_reply original =
     original\<lparr>env_source_endpoint := env_dest_endpoint original,
              env_dest_endpoint := env_source_endpoint original,
              env_options := (if env_options original AND WPAN_ENVELOPE_RX_APS_ENCRYPT \<noteq> 0
                              then ucast WPAN_CLUST_FLAG_ENCRYPT else 0),
              env_payload := None, env_length := 0\<rparr>"

section \<open>Tables\<close>

record ('c, 'w) wpan_cluster_table_entry =
  ct_cluster_id :: u16
  ct_handler :: "(wpan_envelope \<Rightarrow> 'c \<Rightarrow> 'w \<Rightarrow> rc \<times> 'w) option"
  ct_context :: 'c
  ct_flags :: u8

record ('c, 'w) wpan_endpoint_table_entry =
  ep_endpoint :: u8
  ep_profile_id :: u16
  ep_handler :: "(wpan_envelope \<Rightarrow> nat option \<Rightarrow> 'w \<Rightarrow> rc \<times> 'w) option"
  ep_state :: "nat option"
  ep_device_id :: u16
  ep_device_version :: u8
  ep_cluster_table :: "('c, 'w) wpan_cluster_table_entry list option"

type_synonym ('c, 'w) ep_ptr = "('c, 'w) wpan_endpoint_table_entry list"

record ('c, 'w) wpan_dev =
  dev_tick :: "('w \<Rightarrow> rc \<times> 'w) option"
  dev_endpoint_send :: "(wpan_envelope \<Rightarrow> u16 \<Rightarrow> 'w \<Rightarrow> rc \<times> 'w) option"
  dev_endpoint_get_next :: "(('c, 'w) ep_ptr option \<Rightarrow> ('c, 'w) ep_ptr option) option"
  dev_ieee :: addr64
  dev_network :: u16
  dev_payload :: u16
  dev_flags :: u16
  dev_endpoint_table :: "('c, 'w) ep_ptr option"

text \<open>\<open>wpan_cluster_match\<close>; a table without an end marker is read no further than its entries.\<close>

fun cluster_match_loop ::
    "u16 \<Rightarrow> u8 \<Rightarrow> ('c, 'w) wpan_cluster_table_entry list \<Rightarrow> ('c, 'w) wpan_cluster_table_entry option" where
  "cluster_match_loop m flags [] = None"
| "cluster_match_loop m flags (entry # es) =
     (if ct_cluster_id entry \<noteq> WPAN_CLUSTER_END_OF_LIST then
        if ct_cluster_id entry = m \<and> flags AND ct_flags entry \<noteq> 0 then Some entry
        else cluster_match_loop m flags es
      else None)"

definition wpan_cluster_match ::
    "u16 \<Rightarrow> u8 \<Rightarrow> ('c, 'w) wpan_cluster_table_entry list option \<Rightarrow> ('c, 'w) wpan_cluster_table_entry option" where
  "wpan_cluster_match m flags entry =
     (case entry of None \<Rightarrow> None | Some es \<Rightarrow> cluster_match_loop m flags es)"

definition wpan_endpoint_get_next ::
    "('c, 'w) wpan_dev option \<Rightarrow> ('c, 'w) ep_ptr option \<Rightarrow> ('c, 'w) ep_ptr option" where
  "wpan_endpoint_get_next dev ep =
     (case dev of
        None \<Rightarrow> None
      | Some d \<Rightarrow>
          (case dev_endpoint_get_next d of
             Some walk \<Rightarrow> walk ep
           | None \<Rightarrow>
               (case ep of
                  None \<Rightarrow> dev_endpoint_table d
                | Some p \<Rightarrow>
                    (let p = tl p in
                     if p = [] \<or> ep_endpoint (hd p) = WPAN_ENDPOINT_END_OF_LIST then None else Some p))))"

text \<open>The loops \<open>while ((ep = wpan_endpoint_get_next( dev, ep)) != NULL)\<close> that stop at a match.\<close>

partial_function (option) endpoint_search ::
    "(('c, 'w) wpan_endpoint_table_entry \<Rightarrow> bool) \<Rightarrow> ('c, 'w) wpan_dev option \<Rightarrow> ('c, 'w) ep_ptr option
     \<Rightarrow> ('c, 'w) wpan_endpoint_table_entry option option" where
  "endpoint_search P dev ep =
     (case wpan_endpoint_get_next dev ep of
        None \<Rightarrow> Some None
      | Some p \<Rightarrow> if P (hd p) then Some (Some (hd p)) else endpoint_search P dev (Some p))"

definition wpan_endpoint_match ::
    "('c, 'w) wpan_dev option \<Rightarrow> u8 \<Rightarrow> u16 \<Rightarrow> ('c, 'w) wpan_endpoint_table_entry option option" where
  "wpan_endpoint_match dev endpoint profile_id =
     (let matchany = profile_id = WPAN_APS_PROFILE_ANY
      in endpoint_search (\<lambda>ep. endpoint = ep_endpoint ep \<and> (matchany \<or> profile_id = ep_profile_id ep)) dev None)"

definition wpan_endpoint_of_cluster ::
    "('c, 'w) wpan_dev option \<Rightarrow> u16 \<Rightarrow> u16 \<Rightarrow> u8 \<Rightarrow> ('c, 'w) wpan_endpoint_table_entry option option" where
  "wpan_endpoint_of_cluster dev profile_id cluster_id flags =
     (let matchany = profile_id = WPAN_APS_PROFILE_ANY
      in endpoint_search
           (\<lambda>ep. (matchany \<or> profile_id = ep_profile_id ep) \<and>
                 wpan_cluster_match cluster_id flags (ep_cluster_table ep) \<noteq> None) dev None)"

definition wpan_endpoint_of_envelope ::
    "(nat \<Rightarrow> ('c, 'w) wpan_dev) \<Rightarrow> wpan_envelope option \<Rightarrow> ('c, 'w) wpan_endpoint_table_entry option option" where
  "wpan_endpoint_of_envelope devs env =
     (case env of
        None \<Rightarrow> Some None
      | Some e \<Rightarrow> wpan_endpoint_match (map_option devs (env_dev e)) (env_source_endpoint e) (env_profile_id e))"

section \<open>Sending\<close>

definition wpan_envelope_send ::
    "(nat \<Rightarrow> ('c, 'w) wpan_dev) \<Rightarrow> wpan_envelope option \<Rightarrow> 'w \<Rightarrow> rc \<times> 'w" where
  "wpan_envelope_send devs envelope w =
     (case envelope of
        None \<Rightarrow> (Inl EINVAL, w)
      | Some e \<Rightarrow>
          (case env_dev e of
             None \<Rightarrow> (Inl EINVAL, w)
           | Some n \<Rightarrow>
               (case dev_endpoint_send (devs n) of
                  None \<Rightarrow> (Inl EINVAL, w)
                | Some send \<Rightarrow>
                    send e (if env_options e AND ucast WPAN_CLUST_FLAG_ENCRYPT \<noteq> 0 then 1 else 0) w)))"

section \<open>Conversations\<close>

text \<open>
  A handler is the number of a function; what the function does with its conversation and its
  result come from the environment \<open>respond\<close>.
\<close>

record wpan_conversation =
  cv_transaction_id :: u8
  cv_context :: nat
  cv_timeout :: u16
  cv_handler :: "nat option"

definition wpan_conversation_zero :: wpan_conversation where
  "wpan_conversation_zero = \<lparr>cv_transaction_id = 0, cv_context = 0, cv_timeout = 0, cv_handler = None\<rparr>"

abbreviation WPAN_MAX_CONVERSATIONS :: nat where "WPAN_MAX_CONVERSATIONS \<equiv> 3"

record wpan_ep_state =
  es_last_transaction :: u8
  es_conversations :: "wpan_conversation list"

text \<open>The deadline stored for a timeout in seconds, at the time \<open>xbee_seconds_timer\<close> shows.\<close>

definition conversation_deadline :: "u16 \<Rightarrow> u32 \<Rightarrow> u16" where
  "conversation_deadline timeout seconds =
     (if timeout \<noteq> 0 then
        let timeout = timeout + ucast seconds in if timeout = 0 then 1 else timeout
      else timeout)"

text \<open>The search for a free record: the table with the conversation stored, or \<open>None\<close>.\<close>

fun register_loop ::
    "wpan_conversation list \<Rightarrow> wpan_conversation \<Rightarrow> wpan_conversation list option" where
  "register_loop [] new = None"
| "register_loop (c # cs) new =
     (if cv_handler c = None then Some (new # cs) else map_option ((#) c) (register_loop cs new))"

definition wpan_conversation_register ::
    "wpan_ep_state option \<Rightarrow> nat option \<Rightarrow> nat \<Rightarrow> u16 \<Rightarrow> u32 \<Rightarrow> rc \<times> wpan_ep_state option" where
  "wpan_conversation_register state handler context timeout seconds =
     (case state of
        None \<Rightarrow> (Inl EINVAL, None)
      | Some st \<Rightarrow>
          let next = es_last_transaction st + 1 in
          (case handler of
             None \<Rightarrow> (Inr (uint next), Some (st\<lparr>es_last_transaction := next\<rparr>))
           | Some h \<Rightarrow>
               (case register_loop (es_conversations st)
                       \<lparr>cv_transaction_id = next, cv_context = context,
                        cv_timeout = conversation_deadline timeout seconds, cv_handler = Some h\<rparr> of
                  Some table \<Rightarrow> (Inr (uint next), Some \<lparr>es_last_transaction = next, es_conversations = table\<rparr>)
                | None \<Rightarrow> (Inl ENOSPC, Some st))))"

definition wpan_conversation_delete :: "wpan_conversation option \<Rightarrow> wpan_conversation option" where
  "wpan_conversation_delete conversation = map_option (\<lambda>_. wpan_conversation_zero) conversation"

type_synonym 'w respond =
  "nat \<Rightarrow> wpan_conversation \<Rightarrow> wpan_envelope option \<Rightarrow> 'w \<Rightarrow> rc \<times> wpan_conversation \<times> 'w"

definition conversation_expired :: "u16 \<Rightarrow> wpan_conversation \<Rightarrow> bool" where
  "conversation_expired now c \<longleftrightarrow>
     cv_handler c \<noteq> None \<and> cv_timeout c \<noteq> 0 \<and> 0 \<le> sint (now - cv_timeout c)"

fun expire_loop ::
    "'w respond \<Rightarrow> u16 \<Rightarrow> wpan_conversation list \<Rightarrow> 'w \<Rightarrow> wpan_conversation list \<times> 'w" where
  "expire_loop respond now [] w = ([], w)"
| "expire_loop respond now (c # cs) w =
     (if conversation_expired now c then
        let (_, _, w) = respond (the (cv_handler c)) c None w;
            (cs, w) = expire_loop respond now cs w
        in (wpan_conversation_zero # cs, w)
      else
        let (cs, w) = expire_loop respond now cs w in (c # cs, w))"

definition wpan_endpoint_expire_conversations ::
    "'w respond \<Rightarrow> u32 \<Rightarrow> wpan_ep_state option \<Rightarrow> 'w \<Rightarrow> wpan_ep_state option \<times> 'w" where
  "wpan_endpoint_expire_conversations respond seconds state w =
     (case state of
        None \<Rightarrow> (None, w)
      | Some st \<Rightarrow>
          let (cs, w) = expire_loop respond (ucast seconds) (es_conversations st) w
          in (Some (st\<lparr>es_conversations := cs\<rparr>), w))"

fun response_loop ::
    "'w respond \<Rightarrow> u8 \<Rightarrow> wpan_envelope \<Rightarrow> wpan_conversation list \<Rightarrow> 'w \<Rightarrow> rc \<times> wpan_conversation list \<times> 'w" where
  "response_loop respond tid env [] w = (Inl EINVAL, [], w)"
| "response_loop respond tid env (c # cs) w =
     (if cv_transaction_id c = tid \<and> cv_handler c \<noteq> None then
        let (retval, c, w) = respond (the (cv_handler c)) c (Some env) w;
            c = (if retval = Inr 1 then wpan_conversation_zero else c)
        in ((case retval of Inl e \<Rightarrow> Inl e | Inr n \<Rightarrow> Inr (if n < 0 then n else 0)), c # cs, w)
      else
        let (retval, cs, w) = response_loop respond tid env cs w in (retval, c # cs, w))"

text \<open>\<open>wpan_conversation_response\<close> once the endpoint's state is known.\<close>

definition conversation_response ::
    "'w respond \<Rightarrow> wpan_ep_state \<Rightarrow> u8 \<Rightarrow> wpan_envelope \<Rightarrow> 'w \<Rightarrow> rc \<times> wpan_ep_state \<times> 'w" where
  "conversation_response respond st transaction_id envelope w =
     (let (retval, cs, w) = response_loop respond transaction_id envelope (es_conversations st) w
      in (retval, st\<lparr>es_conversations := cs\<rparr>, w))"

text \<open>\<open>wpan_endpoint_next_trans\<close> on the state of an endpoint; without one the result is 0.\<close>

definition wpan_endpoint_next_trans :: "wpan_ep_state option \<Rightarrow> u8 \<times> wpan_ep_state option" where
  "wpan_endpoint_next_trans state =
     (case state of
        None \<Rightarrow> (0, None)
      | Some st \<Rightarrow>
          let next = es_last_transaction st + 1 in (next, Some (st\<lparr>es_last_transaction := next\<rparr>)))"

section \<open>Dispatching\<close>

text \<open>
  \<open>_wpan_endpoint_dispatch\<close>: the result, the envelope (whose options it changes) and the state.
  \<open>invalid_cluster\<close> is \<open>zcl_invalid_cluster\<close> of the ZCL layer.
\<close>

definition wpan_endpoint_dispatch ::
    "(wpan_envelope \<Rightarrow> 'w \<Rightarrow> rc \<times> 'w) \<Rightarrow> wpan_envelope \<Rightarrow> ('c, 'w) wpan_endpoint_table_entry \<Rightarrow> 'w
     \<Rightarrow> rc \<times> wpan_envelope \<times> 'w" where
  "wpan_endpoint_dispatch invalid_cluster envelope ep w =
     (let default_handler = (\<lambda>envelope.
            case ep_handler ep of
              Some h \<Rightarrow> let (r, w) = h envelope (ep_state ep) w in (r, envelope, w)
            | None \<Rightarrow> (Inl ENOENT, envelope, w))
      in case wpan_cluster_match (env_cluster_id envelope) WPAN_CLUST_FLAG_INOUT (ep_cluster_table ep) of
           None \<Rightarrow> default_handler envelope
         | Some clust \<Rightarrow>
             if env_options envelope AND WPAN_ENVELOPE_RX_APS_ENCRYPT = 0
                \<and> ct_flags clust AND WPAN_CLUST_FLAG_NOT_ZCL = 0
                \<and> (ct_flags clust AND WPAN_CLUST_FLAG_ENCRYPT \<noteq> 0
                   \<or> (ct_flags clust AND WPAN_CLUST_FLAG_ENCRYPT_UNICAST \<noteq> 0
                      \<and> env_options envelope AND WPAN_ENVELOPE_BROADCAST_ADDR = 0))
             then let (r, w) = invalid_cluster envelope w in (r, envelope, w)
             else
               let envelope = envelope\<lparr>env_options := env_options envelope OR ucast (ct_flags clust)\<rparr>
               in case ct_handler clust of
                    None \<Rightarrow> default_handler envelope
                  | Some h \<Rightarrow> let (r, w) = h envelope (ct_context clust) w in (r, envelope, w))"

text \<open>The loop over all endpoints of a device for the broadcast endpoint; \<open>retval\<close> is the result so far.\<close>

partial_function (option) dispatch_broadcast ::
    "(wpan_envelope \<Rightarrow> 'w \<Rightarrow> rc \<times> 'w) \<Rightarrow> ('c, 'w) wpan_dev option \<Rightarrow> ('c, 'w) ep_ptr option
     \<Rightarrow> rc \<Rightarrow> wpan_envelope \<Rightarrow> 'w \<Rightarrow> (rc \<times> wpan_envelope \<times> 'w) option" where
  "dispatch_broadcast invalid_cluster dev ep retval envelope w =
     (case wpan_endpoint_get_next dev ep of
        None \<Rightarrow> Some (retval, envelope, w)
      | Some p \<Rightarrow>
          if env_profile_id envelope = ep_profile_id (hd p) then
            let envelope = envelope\<lparr>env_dest_endpoint := ep_endpoint (hd p),
                  env_options := env_options envelope AND NOT WPAN_ENVELOPE_CLUSTER_FLAGS\<rparr>;
                (r, envelope, w) = wpan_endpoint_dispatch invalid_cluster envelope (hd p) w
            in dispatch_broadcast invalid_cluster dev (Some p) (if r = Inr 0 then Inr 0 else retval) envelope w
          else dispatch_broadcast invalid_cluster dev (Some p) retval envelope w)"

definition wpan_envelope_dispatch ::
    "(wpan_envelope \<Rightarrow> 'w \<Rightarrow> rc \<times> 'w) \<Rightarrow> (nat \<Rightarrow> ('c, 'w) wpan_dev) \<Rightarrow> wpan_envelope \<Rightarrow> 'w
     \<Rightarrow> (rc \<times> wpan_envelope \<times> 'w) option" where
  "wpan_envelope_dispatch invalid_cluster devs envelope w =
     (let dev = map_option devs (env_dev envelope);
          match_ep = env_dest_endpoint envelope in
      if match_ep = WPAN_ENDPOINT_BROADCAST then
        dispatch_broadcast invalid_cluster dev None (Inl ENOENT)
          (envelope\<lparr>env_options := env_options envelope OR WPAN_ENVELOPE_BROADCAST_EP\<rparr>) w
      else
        case wpan_endpoint_match dev match_ep (env_profile_id envelope) of
          None \<Rightarrow> None
        | Some None \<Rightarrow> Some (Inl ENOENT, envelope, w)
        | Some (Some ep) \<Rightarrow> Some (wpan_endpoint_dispatch invalid_cluster envelope ep w))"

text \<open>
  \<open>wpan_conversation_response\<close>: the states of the endpoints are a table.  The value \<open>None\<close> is a
  walk that never ends or an endpoint without a state, through whose null pointer the code goes.
\<close>

definition wpan_conversation_response ::
    "'w respond \<Rightarrow> (nat \<Rightarrow> ('c, 'w) wpan_dev) \<Rightarrow> (nat \<Rightarrow> wpan_ep_state) \<Rightarrow> nat option \<Rightarrow> u8
     \<Rightarrow> wpan_envelope option \<Rightarrow> 'w \<Rightarrow> (rc \<times> (nat \<Rightarrow> wpan_ep_state) \<times> 'w) option" where
  "wpan_conversation_response respond devs states state transaction_id envelope w =
     (case envelope of
        None \<Rightarrow> Some (Inl EINVAL, states, w)
      | Some env \<Rightarrow>
          let run = (\<lambda>n. let (r, st, w) = conversation_response respond (states n) transaction_id env w
                         in Some (r, states(n := st), w))
          in case state of
               Some n \<Rightarrow> run n
             | None \<Rightarrow>
                 (case wpan_endpoint_match (map_option devs (env_dev env)) (env_dest_endpoint env) (env_profile_id env) of
                    None \<Rightarrow> None
                  | Some None \<Rightarrow> Some (Inl EINVAL, states, w)
                  | Some (Some ep) \<Rightarrow> (case ep_state ep of None \<Rightarrow> None | Some n \<Rightarrow> run n)))"

text \<open>\<open>wpan_tick\<close>: the device's own tick, then the expiry of every endpoint's conversations.\<close>

partial_function (option) tick_walk ::
    "'w respond \<Rightarrow> u32 \<Rightarrow> ('c, 'w) wpan_dev option \<Rightarrow> ('c, 'w) ep_ptr option
     \<Rightarrow> (nat \<Rightarrow> wpan_ep_state) \<Rightarrow> 'w \<Rightarrow> ((nat \<Rightarrow> wpan_ep_state) \<times> 'w) option" where
  "tick_walk respond seconds dev ep states w =
     (case wpan_endpoint_get_next dev ep of
        None \<Rightarrow> Some (states, w)
      | Some p \<Rightarrow>
          (case ep_state (hd p) of
             None \<Rightarrow> tick_walk respond seconds dev (Some p) states w
           | Some n \<Rightarrow>
               let (st, w) = wpan_endpoint_expire_conversations respond seconds (Some (states n)) w
               in tick_walk respond seconds dev (Some p) (states(n := the st)) w))"

definition wpan_tick ::
    "'w respond \<Rightarrow> u32 \<Rightarrow> ('c, 'w) wpan_dev option \<Rightarrow> (nat \<Rightarrow> wpan_ep_state) \<Rightarrow> 'w
     \<Rightarrow> (rc \<times> (nat \<Rightarrow> wpan_ep_state) \<times> 'w) option" where
  "wpan_tick respond seconds dev states w =
     (case dev of
        None \<Rightarrow> Some (Inl EINVAL, states, w)
      | Some d \<Rightarrow>
          let (retval, w) = (case dev_tick d of None \<Rightarrow> (Inl EINVAL, w) | Some tick \<Rightarrow> tick w)
          in map_option (\<lambda>(states, w). (retval, states, w)) (tick_walk respond seconds dev None states w))"

section \<open>Walking the endpoint table\<close>

text \<open>A device without a walker of its own, and with a table of at least one entry that is marked.\<close>

definition table_device ::
    "('c, 'w) wpan_dev \<Rightarrow> ('c, 'w) wpan_endpoint_table_entry list \<Rightarrow> bool" where
  "table_device d es \<longleftrightarrow> dev_endpoint_get_next d = None \<and> es \<noteq> [] \<and>
     (\<forall>e \<in> set es. ep_endpoint e \<noteq> WPAN_ENDPOINT_END_OF_LIST) \<and>
     (\<exists>m rest. ep_endpoint m = WPAN_ENDPOINT_END_OF_LIST \<and> dev_endpoint_table d = Some (es @ m # rest))"

lemma get_next_inside:
  assumes "table_device d es"
  shows "wpan_endpoint_get_next (Some d) (Some (e # p)) =
    (if p = [] \<or> ep_endpoint (hd p) = WPAN_ENDPOINT_END_OF_LIST then None else Some p)"
  using assms by (simp add: wpan_endpoint_get_next_def table_device_def)

lemma endpoint_search_inside:
  assumes "table_device d es"
  shows "endpoint_search P (Some d) (Some (e # p)) =
    Some (find P (takeWhile (\<lambda>e. ep_endpoint e \<noteq> WPAN_ENDPOINT_END_OF_LIST) p))"
proof (induction p arbitrary: e)
  case Nil
  then show ?case by (subst endpoint_search.simps) (simp add: get_next_inside [OF assms])
next
  case (Cons a p)
  then show ?case by (subst endpoint_search.simps) (simp add: get_next_inside [OF assms])
qed

lemma takeWhile_table:
  assumes "table_device d es"
  obtains e es' p where "es = e # es'" "dev_endpoint_table d = Some (e # p)"
    "takeWhile (\<lambda>e. ep_endpoint e \<noteq> WPAN_ENDPOINT_END_OF_LIST) p = es'"
proof -
  from assms obtain m rest where m: "ep_endpoint m = WPAN_ENDPOINT_END_OF_LIST"
    "dev_endpoint_table d = Some (es @ m # rest)" "es \<noteq> []"
    "\<forall>e \<in> set es. ep_endpoint e \<noteq> WPAN_ENDPOINT_END_OF_LIST"
    by (auto simp: table_device_def)
  then obtain e es' where e: "es = e # es'" by (cases es) auto
  have "takeWhile (\<lambda>e. ep_endpoint e \<noteq> WPAN_ENDPOINT_END_OF_LIST) (es' @ m # rest) = es'"
    using m(1,4) by (subst takeWhile_append2) (auto simp: e)
  then show ?thesis using that [of e es' "es' @ m # rest"] m(2) e by simp
qed

lemma endpoint_search_table:
  assumes "table_device d es"
  shows "endpoint_search P (Some d) None = Some (find P es)"
proof -
  obtain e es' p where t: "es = e # es'" "dev_endpoint_table d = Some (e # p)"
    "takeWhile (\<lambda>e. ep_endpoint e \<noteq> WPAN_ENDPOINT_END_OF_LIST) p = es'"
    using assms by (rule takeWhile_table)
  have "wpan_endpoint_get_next (Some d) None = Some (e # p)"
    using assms t(2) by (simp add: wpan_endpoint_get_next_def table_device_def)
  then show ?thesis
    by (subst endpoint_search.simps) (simp add: endpoint_search_inside [OF assms] t)
qed

text \<open>
  Finding an endpoint.  On a device with an ordinary endpoint table the search always ends and
  yields the first entry before the end marker with the endpoint number and the profile, any
  profile if \<open>WPAN_APS_PROFILE_ANY\<close> is asked for.
\<close>

theorem wpan_endpoint_match_first:
  assumes "table_device d es"
  shows "wpan_endpoint_match (Some d) endpoint profile_id =
    Some (find (\<lambda>e. ep_endpoint e = endpoint \<and>
                 (profile_id = WPAN_APS_PROFILE_ANY \<or> ep_profile_id e = profile_id)) es)"
  using endpoint_search_table [OF assms]
  by (simp add: wpan_endpoint_match_def Let_def eq_commute)

text \<open>A concrete device with two endpoints, for the examples.\<close>

definition sample_endpoint :: "u8 \<Rightarrow> u16 \<Rightarrow> (unit, unit) wpan_endpoint_table_entry" where
  "sample_endpoint n profile = \<lparr>ep_endpoint = n, ep_profile_id = profile, ep_handler = None, ep_state = None,
     ep_device_id = 0, ep_device_version = 0, ep_cluster_table = None\<rparr>"

definition sample_device :: "(unit, unit) wpan_dev" where
  "sample_device = \<lparr>dev_tick = None, dev_endpoint_send = None, dev_endpoint_get_next = None,
     dev_ieee = WPAN_IEEE_ADDR_ALL_ZEROS, dev_network = 0, dev_payload = 0, dev_flags = 0,
     dev_endpoint_table = Some [sample_endpoint 0 0, sample_endpoint 232 0xC105, sample_endpoint 0xFF 0]\<rparr>"

lemma sample_device_table: "table_device sample_device [sample_endpoint 0 0, sample_endpoint 232 0xC105]"
  by (simp add: table_device_def sample_device_def sample_endpoint_def)

theorem wpan_endpoint_match_first_witness:
  "wpan_endpoint_match (Some sample_device) 232 WPAN_APS_PROFILE_ANY = Some (Some (sample_endpoint 232 0xC105))"
  using wpan_endpoint_match_first [OF sample_device_table, of 232 WPAN_APS_PROFILE_ANY]
  by (simp add: sample_endpoint_def)

text \<open>
  An empty endpoint table.  The walker returns the end marker itself as the first entry, so
  that a frame for the broadcast endpoint number 255 finds it.
\<close>

theorem wpan_endpoint_get_next_empty:
  assumes "dev_endpoint_get_next d = None" "dev_endpoint_table d = Some [m]"
  shows "wpan_endpoint_get_next (Some d) None = Some [m] \<and>
    wpan_endpoint_match (Some d) (ep_endpoint m) (ep_profile_id m) = Some (Some m)"
proof
  show first: "wpan_endpoint_get_next (Some d) None = Some [m]"
    by (simp add: wpan_endpoint_get_next_def assms)
  then show "wpan_endpoint_match (Some d) (ep_endpoint m) (ep_profile_id m) = Some (Some m)"
    unfolding wpan_endpoint_match_def Let_def by (subst endpoint_search.simps) simp
qed

theorem wpan_endpoint_get_next_empty_witness:
  "wpan_endpoint_match (Some (sample_device\<lparr>dev_endpoint_table := Some [sample_endpoint 0xFF 0]\<rparr>)) 255 0
     = Some (Some (sample_endpoint 0xFF 0))"
  using wpan_endpoint_get_next_empty
      [of "sample_device\<lparr>dev_endpoint_table := Some [sample_endpoint 0xFF 0]\<rparr>" "sample_endpoint 0xFF 0"]
  by (simp add: sample_device_def sample_endpoint_def)

section \<open>Dispatching\<close>

lemma endpoint_dispatch_profile:
  "wpan_endpoint_dispatch ic env ep w = (r, env', w') \<Longrightarrow> env_profile_id env' = env_profile_id env"
  by (auto simp: wpan_endpoint_dispatch_def Let_def split: option.splits if_splits prod.splits)

text \<open>What the broadcast loop does for one endpoint of the right profile.\<close>

definition dispatch_one ::
    "(wpan_envelope \<Rightarrow> 'w \<Rightarrow> rc \<times> 'w) \<Rightarrow> rc \<times> wpan_envelope \<times> 'w \<Rightarrow> ('c, 'w) wpan_endpoint_table_entry
     \<Rightarrow> rc \<times> wpan_envelope \<times> 'w" where
  "dispatch_one ic = (\<lambda>(retval, env, w) ep.
     let (r, env, w) = wpan_endpoint_dispatch ic
           (env\<lparr>env_dest_endpoint := ep_endpoint ep,
                env_options := env_options env AND NOT WPAN_ENVELOPE_CLUSTER_FLAGS\<rparr>) ep w
     in (if r = Inr 0 then Inr 0 else retval, env, w))"

lemma dispatch_one_profile: "env_profile_id (fst (snd (dispatch_one ic (r, env, w) ep))) = env_profile_id env"
  by (auto simp: dispatch_one_def split: prod.splits dest: endpoint_dispatch_profile)

lemma broadcast_step:
  assumes "wpan_endpoint_get_next dev ep = Some p"
  shows "dispatch_broadcast ic dev ep retval env w =
    (let (retval, env, w) = (if ep_profile_id (hd p) = env_profile_id env
                             then dispatch_one ic (retval, env, w) (hd p) else (retval, env, w))
     in dispatch_broadcast ic dev (Some p) retval env w)"
  by (subst dispatch_broadcast.simps) (auto simp: assms dispatch_one_def Let_def split: prod.splits)

lemma broadcast_inside:
  assumes d: "table_device d es"
  shows "dispatch_broadcast ic (Some d) (Some (e # p)) retval env w =
    Some (foldl (dispatch_one ic) (retval, env, w)
      (filter (\<lambda>e. ep_profile_id e = env_profile_id env)
         (takeWhile (\<lambda>e. ep_endpoint e \<noteq> WPAN_ENDPOINT_END_OF_LIST) p)))"
proof (induction p arbitrary: e retval env w)
  case Nil
  then show ?case by (subst dispatch_broadcast.simps) (simp add: get_next_inside [OF d])
next
  case (Cons a p)
  show ?case
  proof (cases "ep_endpoint a = WPAN_ENDPOINT_END_OF_LIST")
    case True
    then show ?thesis by (subst dispatch_broadcast.simps) (simp add: get_next_inside [OF d])
  next
    case False
    obtain r env' w' where one: "dispatch_one ic (retval, env, w) a = (r, env', w')"
      by (cases "dispatch_one ic (retval, env, w) a")
    then have "env_profile_id env' = env_profile_id env"
      using dispatch_one_profile [of ic retval env w a] by simp
    then show ?thesis
      using False Cons.IH one
      by (subst broadcast_step [where p = "a # p"]) (simp_all add: get_next_inside [OF d])
  qed
qed

text \<open>
  C15: The broadcast endpoint.  A frame for endpoint 255 is dispatched, in table order, exactly once
  to every endpoint with the frame's profile, with the destination endpoint rewritten and the
  cluster flags of the previous dispatch cleared; the walk ends, and the result is success when at
  least one of them succeeded and \<open>-ENOENT\<close> otherwise.
\<close>

theorem wpan_envelope_dispatch_broadcast:
  assumes "env_dest_endpoint env = WPAN_ENDPOINT_BROADCAST" "env_dev env = Some n" "table_device (devs n) es"
  shows "wpan_envelope_dispatch ic devs env w =
    Some (foldl (dispatch_one ic)
      (Inl ENOENT, env\<lparr>env_options := env_options env OR WPAN_ENVELOPE_BROADCAST_EP\<rparr>, w)
      (filter (\<lambda>e. ep_profile_id e = env_profile_id env) es))"
proof -
  let ?env = "env\<lparr>env_options := env_options env OR WPAN_ENVELOPE_BROADCAST_EP\<rparr>"
  obtain e es' p where t: "es = e # es'" "dev_endpoint_table (devs n) = Some (e # p)"
    "takeWhile (\<lambda>e. ep_endpoint e \<noteq> WPAN_ENDPOINT_END_OF_LIST) p = es'"
    using assms(3) by (rule takeWhile_table)
  have first: "wpan_endpoint_get_next (Some (devs n)) None = Some (e # p)"
    using assms(3) t(2) by (simp add: wpan_endpoint_get_next_def table_device_def)
  obtain r env' w' where one: "dispatch_one ic (Inl ENOENT, ?env, w) e = (r, env', w')"
    by (cases "dispatch_one ic (Inl ENOENT, ?env, w) e")
  then have "env_profile_id env' = env_profile_id env"
    using dispatch_one_profile [of ic "Inl ENOENT" ?env w e] by simp
  then show ?thesis
    using one by (simp add: wpan_envelope_dispatch_def assms(1,2) broadcast_step [OF first]
        broadcast_inside [OF assms(3)] t(1,3))
qed

theorem wpan_envelope_dispatch_broadcast_witness:
  "wpan_envelope_dispatch (\<lambda>e w. (Inr 0, w)) (\<lambda>_. sample_device)
     ((wpan_envelope_create (Some 0) WPAN_IEEE_ADDR_ALL_ZEROS 0)\<lparr>env_dest_endpoint := 0xFF\<rparr>) () \<noteq> None"
proof -
  let ?env = "(wpan_envelope_create (Some 0) WPAN_IEEE_ADDR_ALL_ZEROS 0)\<lparr>env_dest_endpoint := 0xFF\<rparr>"
  have "env_dest_endpoint ?env = 0xFF" "env_dev ?env = Some 0" by (simp_all add: wpan_envelope_create_def)
  from wpan_envelope_dispatch_broadcast [OF this, of "\<lambda>_. sample_device", OF sample_device_table]
  show ?thesis by (simp only:) simp
qed

text \<open>The result of a run of dispatches.\<close>

lemma dispatch_fold_result:
  "fst (foldl (dispatch_one ic) (r, env, w) es) = Inr 0 \<or> fst (foldl (dispatch_one ic) (r, env, w) es) = r"
proof (induction es arbitrary: r env w)
  case (Cons e es)
  obtain r' env' w' where one: "dispatch_one ic (r, env, w) e = (r', env', w')"
    by (cases "dispatch_one ic (r, env, w) e")
  then have "r' = Inr 0 \<or> r' = r" by (auto simp: dispatch_one_def split: prod.splits if_splits)
  then show ?case using Cons.IH [of r' env' w'] one by auto
qed simp

section \<open>Conversations\<close>

lemma register_loop_Some:
  "register_loop cs new = Some cs' \<Longrightarrow>
   \<exists>i < length cs. cv_handler (cs ! i) = None \<and> (\<forall>j < i. cv_handler (cs ! j) \<noteq> None) \<and> cs' = cs[i := new]"
proof (induction cs arbitrary: cs')
  case (Cons c cs)
  show ?case
  proof (cases "cv_handler c = None")
    case True
    then show ?thesis using Cons.prems by (intro exI [of _ 0]) auto
  next
    case False
    then obtain t where t: "register_loop cs new = Some t" "cs' = c # t" using Cons.prems by auto
    obtain i where "i < length cs" "cv_handler (cs ! i) = None" "\<forall>j < i. cv_handler (cs ! j) \<noteq> None"
      "t = cs[i := new]"
      using Cons.IH [OF t(1)] by blast
    then show ?thesis
      using False t(2) by (intro exI [of _ "Suc i"]) (auto simp: nth_Cons split: nat.split)
  qed
qed simp

lemma register_loop_None: "register_loop cs new = None \<longleftrightarrow> (\<forall>c \<in> set cs. cv_handler c \<noteq> None)"
  by (induction cs) auto

lemma response_loop_at:
  assumes "i < length cs" "cv_transaction_id (cs ! i) = tid" "cv_handler (cs ! i) = Some h"
    and "\<forall>j < i. cv_transaction_id (cs ! j) \<noteq> tid \<or> cv_handler (cs ! j) = None"
    and "respond h (cs ! i) (Some env) w = (retval, c, w')"
  shows "response_loop respond tid env cs w =
    ((case retval of Inl e \<Rightarrow> Inl e | Inr n \<Rightarrow> Inr (if n < 0 then n else 0)),
     cs[i := (if retval = Inr 1 then wpan_conversation_zero else c)], w')"
  using assms
proof (induction cs arbitrary: i)
  case (Cons a cs)
  show ?case
  proof (cases i)
    case 0
    then show ?thesis using Cons.prems by simp
  next
    case (Suc k)
    have "\<forall>j < k. cv_transaction_id (cs ! j) \<noteq> tid \<or> cv_handler (cs ! j) = None"
      using Cons.prems(4) Suc by (metis Suc_less_eq nth_Cons_Suc)
    moreover have "cv_transaction_id a \<noteq> tid \<or> cv_handler a = None"
      using Cons.prems(4) Suc by force
    ultimately show ?thesis
      using Cons.IH [of k] Cons.prems Suc by auto
  qed
qed simp

lemma response_loop_none:
  "\<forall>c \<in> set cs. cv_transaction_id c \<noteq> tid \<or> cv_handler c = None \<Longrightarrow>
   response_loop respond tid env cs w = (Inl EINVAL, cs, w)"
  by (induction cs) auto

text \<open>The transactions an endpoint waits for.\<close>

definition pending :: "wpan_ep_state \<Rightarrow> u8 \<Rightarrow> bool" where
  "pending st tid \<longleftrightarrow> (\<exists>c \<in> set (es_conversations st). cv_transaction_id c = tid \<and> cv_handler c \<noteq> None)"

lemma register_room:
  fixes ctx h :: nat and timeout :: u16 and seconds :: u32
  assumes "\<exists>c \<in> set (es_conversations st). cv_handler c = None"
  defines "new \<equiv> \<lparr>cv_transaction_id = es_last_transaction st + 1, cv_context = ctx,
    cv_timeout = conversation_deadline timeout seconds, cv_handler = Some h\<rparr>"
  shows "\<exists>i < length (es_conversations st). cv_handler (es_conversations st ! i) = None \<and>
    wpan_conversation_register (Some st) (Some h) ctx timeout seconds =
      (Inr (uint (es_last_transaction st + 1)),
       Some \<lparr>es_last_transaction = es_last_transaction st + 1, es_conversations = (es_conversations st)[i := new]\<rparr>)"
proof -
  have "register_loop (es_conversations st) new \<noteq> None" using assms(1) by (auto simp: register_loop_None)
  then obtain t where t: "register_loop (es_conversations st) new = Some t" by blast
  then obtain i where "i < length (es_conversations st)" "cv_handler (es_conversations st ! i) = None"
    "t = (es_conversations st)[i := new]" using register_loop_Some by blast
  with t show ?thesis by (intro exI [of _ i]) (simp add: wpan_conversation_register_def new_def Let_def)
qed

text \<open>The response to a conversation in an entry, when no other waits for its transaction.\<close>

lemma response_registered:
  assumes "i < length cs" "\<forall>c \<in> set cs. cv_transaction_id c \<noteq> cv_transaction_id new \<or> cv_handler c = None"
    and "cv_handler new = Some h" "respond h new (Some env) w = (retval, new', w')" "es_conversations st = cs[i := new]"
  shows "conversation_response respond st (cv_transaction_id new) env w =
    ((case retval of Inl e \<Rightarrow> Inl e | Inr n \<Rightarrow> Inr (if n < 0 then n else 0)),
     st\<lparr>es_conversations := cs[i := (if retval = Inr 1 then wpan_conversation_zero else new')]\<rparr>, w')"
proof -
  have "\<forall>j < i. cv_transaction_id (cs[i := new] ! j) \<noteq> cv_transaction_id new \<or> cv_handler (cs[i := new] ! j) = None"
    using assms(1,2) by auto
  then have "response_loop respond (cv_transaction_id new) env (cs[i := new]) w =
    ((case retval of Inl e \<Rightarrow> Inl e | Inr n \<Rightarrow> Inr (if n < 0 then n else 0)),
     (cs[i := new])[i := (if retval = Inr 1 then wpan_conversation_zero else new')], w')"
    using assms by (intro response_loop_at) simp_all
  then show ?thesis by (simp add: conversation_response_def assms(5))
qed

text \<open>
  C16: Registering a conversation and its response.  When the table has room,
  \<open>wpan_conversation_register\<close> returns the next transaction number and changes one free record;
  if no other conversation waits for that number, the next response with it calls the handler
  registered, with its context, and the record is cleared exactly when the handler returns
  \<open>WPAN_CONVERSATION_END\<close>.
\<close>

theorem wpan_conversation_roundtrip:
  assumes room: "\<exists>c \<in> set (es_conversations st). cv_handler c = None"
    and fresh: "\<not> pending st (es_last_transaction st + 1)"
    and resp: "\<And>c. respond h c (Some env) w = (retval, c, w')"
  shows "\<exists>st' i. let tid = es_last_transaction st + 1;
      new = \<lparr>cv_transaction_id = tid, cv_context = context,
             cv_timeout = conversation_deadline timeout seconds, cv_handler = Some h\<rparr>
    in wpan_conversation_register (Some st) (Some h) context timeout seconds = (Inr (uint tid), Some st') \<and>
       i < length (es_conversations st) \<and> cv_handler (es_conversations st ! i) = None \<and>
       st' = \<lparr>es_last_transaction = tid, es_conversations = (es_conversations st)[i := new]\<rparr> \<and>
       conversation_response respond st' tid env w =
         ((case retval of Inl e \<Rightarrow> Inl e | Inr n \<Rightarrow> Inr (if n < 0 then n else 0)),
          (if retval = Inr 1 then st'\<lparr>es_conversations := (es_conversations st)[i := wpan_conversation_zero]\<rparr> else st'),
          w')"
proof -
  define tid where "tid = es_last_transaction st + 1"
  define new where "new = \<lparr>cv_transaction_id = tid, cv_context = context,
             cv_timeout = conversation_deadline timeout seconds, cv_handler = Some h\<rparr>"
  let ?cs = "es_conversations st"
  obtain i where i: "i < length ?cs" "cv_handler (?cs ! i) = None"
    "wpan_conversation_register (Some st) (Some h) context timeout seconds =
      (Inr (uint tid), Some \<lparr>es_last_transaction = tid, es_conversations = ?cs[i := new]\<rparr>)"
    using register_room [OF room, of h "context" timeout seconds] by (auto simp: tid_def new_def)
  have "\<forall>c \<in> set ?cs. cv_transaction_id c \<noteq> cv_transaction_id new \<or> cv_handler c = None"
    using fresh by (auto simp: pending_def tid_def new_def)
  from response_registered [OF i(1) this, of h respond env w retval new w'
      "\<lparr>es_last_transaction = tid, es_conversations = ?cs[i := new]\<rparr>"] resp
  show ?thesis
    using i unfolding Let_def tid_def [symmetric] new_def [symmetric]
    by (intro exI [of _ "\<lparr>es_last_transaction = tid, es_conversations = ?cs[i := new]\<rparr>"] exI [of _ i])
      (simp add: new_def)
qed

definition ep_state_idle :: wpan_ep_state where
  "ep_state_idle = \<lparr>es_last_transaction = 41, es_conversations = replicate WPAN_MAX_CONVERSATIONS wpan_conversation_zero\<rparr>"

theorem wpan_conversation_roundtrip_witness:
  "\<exists>st'. wpan_conversation_register (Some ep_state_idle) (Some 7) 0 30 0 = (Inr 42, Some st') \<and>
     conversation_response (\<lambda>h c env w. (Inr 1, c, w + h)) st' 42
       (wpan_envelope_create None WPAN_IEEE_ADDR_ALL_ZEROS 0) (1 :: nat)
     = (Inr 0, ep_state_idle\<lparr>es_last_transaction := 42\<rparr>, 8)"
proof -
  have "\<exists>c \<in> set (es_conversations ep_state_idle). cv_handler c = None"
    "\<not> pending ep_state_idle (es_last_transaction ep_state_idle + 1)"
    by (simp_all add: ep_state_idle_def wpan_conversation_zero_def pending_def)
  from wpan_conversation_roundtrip [OF this, of "\<lambda>h c env w. (Inr 1, c, w + h)" 7
      "wpan_envelope_create None WPAN_IEEE_ADDR_ALL_ZEROS 0" 1 "Inr 1" 8 0 30 0]
  obtain st' i where "wpan_conversation_register (Some ep_state_idle) (Some 7) 0 30 0 = (Inr 42, Some st')"
    "i < 3" "es_last_transaction st' = 42"
    "conversation_response (\<lambda>h c env w. (Inr 1, c, w + h)) st' 42
       (wpan_envelope_create None WPAN_IEEE_ADDR_ALL_ZEROS 0) (1 :: nat)
     = (Inr 0, st'\<lparr>es_conversations := (es_conversations ep_state_idle)[i := wpan_conversation_zero]\<rparr>, 8)"
    by (auto simp: Let_def ep_state_idle_def)
  moreover from this(2) have "(es_conversations ep_state_idle)[i := wpan_conversation_zero] = es_conversations ep_state_idle"
    by (simp add: ep_state_idle_def numeral_eq_Suc less_Suc_eq) auto
  ultimately show ?thesis
    by (intro exI [of _ st']) (simp add: ep_state_idle_def)
qed

text \<open>What a tick does with a table: the expired conversations, in its order, and the rest.\<close>

lemma expire_loop_eq:
  "expire_loop respond now cs w =
    (map (\<lambda>c. if conversation_expired now c then wpan_conversation_zero else c) cs,
     foldl (\<lambda>w c. snd (snd (respond (the (cv_handler c)) c None w))) w (filter (conversation_expired now) cs))"
  by (induction cs arbitrary: w) (auto simp: case_prod_unfold Let_def)

lemma half_clock:
  assumes "- 32768 \<le> x" "x < 32768"
  shows "x mod 65536 < 32768 \<longleftrightarrow> (0::int) \<le> x"
proof (cases "0 \<le> x")
  case False
  then have "x mod 65536 = x + 65536" using assms mod_pos_pos_trivial [of "x + 65536" 65536] by simp
  then show ?thesis using assms False by simp
qed (use assms in \<open>simp add: mod_pos_pos_trivial\<close>)

lemma half_clock_past:
  assumes "- 65536 \<le> x" "x < - 32768"
  shows "x mod 65536 < (32768::int)"
proof -
  have "x mod 65536 = x + 65536" using assms mod_pos_pos_trivial [of "x + 65536" 65536] by simp
  then show ?thesis using assms by simp
qed

lemma signed_u16: "0 \<le> sint (word_of_int x :: u16) \<longleftrightarrow> x mod 65536 < 32768"
proof -
  define y where "y = sint (word_of_int x :: u16)"
  have "y mod 65536 = x mod 65536"
    using uint_sint [of "word_of_int x :: u16"] unfolding y_def by (simp add: uint_word_of_int take_bit_eq_mod)
  moreover have "- 32768 \<le> y" "y < 32768"
    using sint_ge [of "word_of_int x :: u16"] sint_lt [of "word_of_int x :: u16"] by (simp_all add: y_def)
  ultimately show ?thesis using half_clock [of y] unfolding y_def [symmetric] by simp
qed

lemma expired_iff:
  fixes timeout :: u16 and seconds :: u32
  shows "conversation_expired (ucast (seconds + word_of_int e))
      \<lparr>cv_transaction_id = tid, cv_context = context,
       cv_timeout = conversation_deadline timeout seconds, cv_handler = Some h\<rparr>
    \<longleftrightarrow> timeout \<noteq> 0 \<and> (e - (uint timeout + of_bool (timeout + ucast seconds = 0))) mod 65536 < 32768"
proof (cases "timeout = 0")
  case True
  then show ?thesis by (simp add: conversation_expired_def conversation_deadline_def)
next
  case False
  define t where "t = uint timeout + of_bool (timeout + ucast seconds = 0)"
  have d: "conversation_deadline timeout seconds = word_of_int t + ucast seconds"
    using False by (auto simp: conversation_deadline_def t_def Let_def add.commute add.left_commute)
  have nz: "conversation_deadline timeout seconds \<noteq> 0"
    using False by (auto simp: conversation_deadline_def Let_def)
  have "ucast (seconds + word_of_int e) - (word_of_int t + ucast seconds) = (word_of_int (e - t) :: u16)"
    unfolding ucast_add_u16 by simp
  then have "0 \<le> sint (ucast (seconds + word_of_int e) - conversation_deadline timeout seconds) \<longleftrightarrow> (e - t) mod 65536 < 32768"
    unfolding d by (simp only: signed_u16)
  then show ?thesis
    using False nz unfolding t_def [symmetric] by (simp only: conversation_expired_def) simp
qed

text \<open>
  C17: When a conversation expires.  A conversation registered at some time goes into a free
  record, and the tick of its endpoint \<open>e\<close> seconds later, for any \<open>e\<close>, clears that record exactly
  when its timeout is not 0 and the 16-bit clock is less than 32768 seconds past its deadline,
  which is the timeout, or one second more where the deadline would be the reserved value 0; the
  same tick clears every other expired conversation, and the handlers of all of them are called
  without an envelope, each once and in the order of the table.  So a conversation with a timeout
  below 32768 expires exactly from that many seconds on, as long as the clock is asked within
  32768 seconds, and one with a timeout above 32768 is expired by the first tick.
\<close>

theorem conversation_expiry_exact:
  fixes timeout :: u16 and seconds :: u32
  assumes room: "\<exists>c \<in> set (es_conversations st). cv_handler c = None"
  shows "\<exists>st' i. let cs = es_conversations st;
      new = \<lparr>cv_transaction_id = es_last_transaction st + 1, cv_context = ctx,
             cv_timeout = conversation_deadline timeout seconds, cv_handler = Some h\<rparr>;
      now = seconds + word_of_int e;
      d = uint timeout + of_bool (timeout + ucast seconds = 0);
      due = (timeout \<noteq> 0 \<and> (e - d) mod 65536 < 32768);
      expired = conversation_expired (ucast now)
    in wpan_conversation_register (Some st) (Some h) ctx timeout seconds = (Inr (uint (es_last_transaction st + 1)), Some st') \<and>
       i < length cs \<and> cv_handler (cs ! i) = None \<and>
       st' = \<lparr>es_last_transaction = es_last_transaction st + 1, es_conversations = cs[i := new]\<rparr> \<and>
       wpan_endpoint_expire_conversations respond now (Some st') w =
         (Some (st'\<lparr>es_conversations :=
            (map (\<lambda>c. if expired c then wpan_conversation_zero else c) cs)[i := if due then wpan_conversation_zero else new]\<rparr>),
          foldl (\<lambda>w c. snd (snd (respond (the (cv_handler c)) c None w))) w
            (filter expired (take i cs) @ (if due then [new] else []) @ filter expired (drop (Suc i) cs))) \<and>
       (uint timeout < 32768 \<and> 0 \<le> e \<and> e < 32768 \<longrightarrow> (due \<longleftrightarrow> timeout \<noteq> 0 \<and> d \<le> e)) \<and>
       (32768 < uint timeout \<and> e = 0 \<longrightarrow> due)"
proof -
  define new where "new = \<lparr>cv_transaction_id = es_last_transaction st + 1, cv_context = ctx,
    cv_timeout = conversation_deadline timeout seconds, cv_handler = Some h\<rparr>"
  define d where "d = uint timeout + of_bool (timeout + ucast seconds = 0)"
  define due where "due \<longleftrightarrow> timeout \<noteq> 0 \<and> (e - d) mod 65536 < 32768"
  let ?cs = "es_conversations st" and ?now = "seconds + word_of_int e"
  let ?expired = "conversation_expired (ucast ?now)"
  have due: "?expired new \<longleftrightarrow> due" unfolding new_def due_def d_def by (rule expired_iff)
  have d: "0 \<le> d" "d \<le> uint timeout + 1" "uint timeout \<le> d" "uint timeout < 65536"
    using uint_range_size [of timeout] by (simp_all add: d_def of_bool_def word_size)
  have small: "uint timeout < 32768 \<and> 0 \<le> e \<and> e < 32768 \<longrightarrow> (due \<longleftrightarrow> timeout \<noteq> 0 \<and> d \<le> e)"
    using d half_clock [of "e - d"] unfolding due_def by fastforce
  have large: "32768 < uint timeout \<and> e = 0 \<longrightarrow> due"
    using d half_clock_past [of "e - d"] unfolding due_def by fastforce
  obtain i where i: "i < length ?cs" "cv_handler (?cs ! i) = None"
    "wpan_conversation_register (Some st) (Some h) ctx timeout seconds =
      (Inr (uint (es_last_transaction st + 1)),
       Some \<lparr>es_last_transaction = es_last_transaction st + 1, es_conversations = ?cs[i := new]\<rparr>)"
    using register_room [OF room, of h ctx timeout seconds] by (auto simp: new_def)
  have "filter ?expired (?cs[i := new]) =
      filter ?expired (take i ?cs) @ (if due then [new] else []) @ filter ?expired (drop (Suc i) ?cs)"
    using i(1) due by (simp add: upd_conv_take_nth_drop)
  moreover have "map (\<lambda>c. if ?expired c then wpan_conversation_zero else c) (?cs[i := new]) =
      (map (\<lambda>c. if ?expired c then wpan_conversation_zero else c) ?cs)[i := if due then wpan_conversation_zero else new]"
    using due by (simp add: map_update)
  ultimately show ?thesis
    using i small large unfolding Let_def new_def [symmetric] d_def [symmetric] due_def [symmetric]
    by (intro exI [of _ "\<lparr>es_last_transaction = es_last_transaction st + 1, es_conversations = ?cs[i := new]\<rparr>"] exI [of _ i])
      (simp add: wpan_endpoint_expire_conversations_def expire_loop_eq)
qed

theorem conversation_expiry_exact_witness:
  "\<exists>st'. wpan_conversation_register (Some ep_state_idle) (Some 7) 0 30 0xFFF0 = (Inr 42, Some st') \<and>
     wpan_endpoint_expire_conversations (\<lambda>h c env w. (Inr 0, c, w + h)) (0xFFF0 + 30) (Some st') (1 :: nat)
     = (Some (ep_state_idle\<lparr>es_last_transaction := 42\<rparr>), 8)"
proof -
  have "\<exists>c \<in> set (es_conversations ep_state_idle). cv_handler c = None"
    by (simp add: ep_state_idle_def wpan_conversation_zero_def)
  from conversation_expiry_exact [OF this, where respond = "\<lambda>h c env w. (Inr 0, c, w + h)" and h = 7 and w = "1 :: nat"
      and ctx = 0 and timeout = 30 and seconds = "0xFFF0" and e = 30]
  obtain st' i where "wpan_conversation_register (Some ep_state_idle) (Some 7) 0 30 0xFFF0 = (Inr 42, Some st')" "i < 3"
    "st' = \<lparr>es_last_transaction = 42, es_conversations = (es_conversations ep_state_idle)[i :=
        \<lparr>cv_transaction_id = 42, cv_context = 0, cv_timeout = conversation_deadline 30 0xFFF0, cv_handler = Some 7\<rparr>]\<rparr>"
    "wpan_endpoint_expire_conversations (\<lambda>h c env w. (Inr 0, c, w + h)) (0xFFF0 + 30) (Some st') (1 :: nat) =
      (Some (st'\<lparr>es_conversations := (es_conversations ep_state_idle)[i := wpan_conversation_zero]\<rparr>), 8)"
    by (auto simp: Let_def ep_state_idle_def conversation_expired_def wpan_conversation_zero_def)
  moreover from this(2) have "(es_conversations ep_state_idle)[i := wpan_conversation_zero] = es_conversations ep_state_idle"
    by (simp add: ep_state_idle_def numeral_eq_Suc less_Suc_eq) auto
  ultimately show ?thesis
    by (intro exI [of _ st']) (simp add: ep_state_idle_def)
qed

end
