(* ===== verification/Zcl_Types.thy ===== *)
theory Zcl_Types
  imports Byte_Order
begin

text \<open>
  The data types of the ZigBee Cluster Library: the attribute type table of
  \<open>pxbee/pan/zigbee/zcl_types.c\<close>, the size of a type, and its printed name.  Text is a HOL string.
\<close>

section \<open>The code\<close>

abbreviation ZCL_T_INVALID :: u8 where "ZCL_T_INVALID \<equiv> 0x0F"
abbreviation ZCL_T_DISCRETE :: u8 where "ZCL_T_DISCRETE \<equiv> 0x80"
abbreviation ZCL_T_ANALOG :: u8 where "ZCL_T_ANALOG \<equiv> 0x20"
abbreviation ZCL_T_SIGNED :: u8 where "ZCL_T_SIGNED \<equiv> 0x40"
abbreviation ZCL_T_FLOAT :: u8 where "ZCL_T_FLOAT \<equiv> 0x10"
abbreviation ZCL_T_SIZE_MASK :: u8 where "ZCL_T_SIZE_MASK \<equiv> 0x0F"
abbreviation ZCL_T_SIZE_SHORT :: u8 where "ZCL_T_SIZE_SHORT \<equiv> 0x0E"
abbreviation ZCL_T_SIZE_LONG :: u8 where "ZCL_T_SIZE_LONG \<equiv> 0x0D"
abbreviation ZCL_T_SIZE_128BIT :: u8 where "ZCL_T_SIZE_128BIT \<equiv> 0x0C"
abbreviation ZCL_T_SIZE_VARIABLE :: u8 where "ZCL_T_SIZE_VARIABLE \<equiv> 0x0B"

definition zcl_type_info :: "u8 list" where
  "zcl_type_info =
    [0, ZCL_T_INVALID, ZCL_T_INVALID, ZCL_T_INVALID, ZCL_T_INVALID, ZCL_T_INVALID, ZCL_T_INVALID, ZCL_T_INVALID,
     1 OR ZCL_T_DISCRETE, 2 OR ZCL_T_DISCRETE, 3 OR ZCL_T_DISCRETE, 4 OR ZCL_T_DISCRETE, 5 OR ZCL_T_DISCRETE, 6 OR ZCL_T_DISCRETE, 7 OR ZCL_T_DISCRETE, 8 OR ZCL_T_DISCRETE,
     1 OR ZCL_T_DISCRETE, ZCL_T_INVALID, ZCL_T_INVALID, ZCL_T_INVALID, ZCL_T_INVALID, ZCL_T_INVALID, ZCL_T_INVALID, ZCL_T_INVALID,
     1 OR ZCL_T_DISCRETE, 2 OR ZCL_T_DISCRETE, 3 OR ZCL_T_DISCRETE, 4 OR ZCL_T_DISCRETE, 5 OR ZCL_T_DISCRETE, 6 OR ZCL_T_DISCRETE, 7 OR ZCL_T_DISCRETE, 8 OR ZCL_T_DISCRETE,
     1 OR ZCL_T_ANALOG, 2 OR ZCL_T_ANALOG, 3 OR ZCL_T_ANALOG, 4 OR ZCL_T_ANALOG, 5 OR ZCL_T_ANALOG, 6 OR ZCL_T_ANALOG, 7 OR ZCL_T_ANALOG, 8 OR ZCL_T_ANALOG,
     1 OR ZCL_T_ANALOG OR ZCL_T_SIGNED, 2 OR ZCL_T_ANALOG OR ZCL_T_SIGNED, 3 OR ZCL_T_ANALOG OR ZCL_T_SIGNED, 4 OR ZCL_T_ANALOG OR ZCL_T_SIGNED, 5 OR ZCL_T_ANALOG OR ZCL_T_SIGNED, 6 OR ZCL_T_ANALOG OR ZCL_T_SIGNED, 7 OR ZCL_T_ANALOG OR ZCL_T_SIGNED, 8 OR ZCL_T_ANALOG OR ZCL_T_SIGNED,
     1 OR ZCL_T_DISCRETE, 2 OR ZCL_T_DISCRETE, ZCL_T_INVALID, ZCL_T_INVALID, ZCL_T_INVALID, ZCL_T_INVALID, ZCL_T_INVALID, ZCL_T_INVALID,
     2 OR ZCL_T_FLOAT OR ZCL_T_ANALOG OR ZCL_T_SIGNED, 4 OR ZCL_T_FLOAT OR ZCL_T_ANALOG OR ZCL_T_SIGNED, 8 OR ZCL_T_FLOAT OR ZCL_T_ANALOG OR ZCL_T_SIGNED, ZCL_T_INVALID, ZCL_T_INVALID, ZCL_T_INVALID, ZCL_T_INVALID, ZCL_T_INVALID,
     ZCL_T_INVALID, ZCL_T_SIZE_SHORT, ZCL_T_SIZE_SHORT, ZCL_T_SIZE_LONG, ZCL_T_SIZE_LONG, ZCL_T_INVALID, ZCL_T_INVALID, ZCL_T_INVALID,
     ZCL_T_SIZE_VARIABLE, ZCL_T_INVALID, ZCL_T_INVALID, ZCL_T_INVALID, ZCL_T_SIZE_VARIABLE, ZCL_T_INVALID, ZCL_T_INVALID, ZCL_T_INVALID,
     ZCL_T_SIZE_VARIABLE, ZCL_T_SIZE_VARIABLE, ZCL_T_INVALID, ZCL_T_INVALID, ZCL_T_INVALID, ZCL_T_INVALID, ZCL_T_INVALID, ZCL_T_INVALID,
     ZCL_T_INVALID, ZCL_T_INVALID, ZCL_T_INVALID, ZCL_T_INVALID, ZCL_T_INVALID, ZCL_T_INVALID, ZCL_T_INVALID, ZCL_T_INVALID,
     ZCL_T_INVALID, ZCL_T_INVALID, ZCL_T_INVALID, ZCL_T_INVALID, ZCL_T_INVALID, ZCL_T_INVALID, ZCL_T_INVALID, ZCL_T_INVALID,
     ZCL_T_INVALID, ZCL_T_INVALID, ZCL_T_INVALID, ZCL_T_INVALID, ZCL_T_INVALID, ZCL_T_INVALID, ZCL_T_INVALID, ZCL_T_INVALID,
     ZCL_T_INVALID, ZCL_T_INVALID, ZCL_T_INVALID, ZCL_T_INVALID, ZCL_T_INVALID, ZCL_T_INVALID, ZCL_T_INVALID, ZCL_T_INVALID,
     ZCL_T_INVALID, ZCL_T_INVALID, ZCL_T_INVALID, ZCL_T_INVALID, ZCL_T_INVALID, ZCL_T_INVALID, ZCL_T_INVALID, ZCL_T_INVALID,
     ZCL_T_INVALID, ZCL_T_INVALID, ZCL_T_INVALID, ZCL_T_INVALID, ZCL_T_INVALID, ZCL_T_INVALID, ZCL_T_INVALID, ZCL_T_INVALID,
     ZCL_T_INVALID, ZCL_T_INVALID, ZCL_T_INVALID, ZCL_T_INVALID, ZCL_T_INVALID, ZCL_T_INVALID, ZCL_T_INVALID, ZCL_T_INVALID,
     ZCL_T_INVALID, ZCL_T_INVALID, ZCL_T_INVALID, ZCL_T_INVALID, ZCL_T_INVALID, ZCL_T_INVALID, ZCL_T_INVALID, ZCL_T_INVALID,
     ZCL_T_INVALID, ZCL_T_INVALID, ZCL_T_INVALID, ZCL_T_INVALID, ZCL_T_INVALID, ZCL_T_INVALID, ZCL_T_INVALID, ZCL_T_INVALID,
     ZCL_T_INVALID, ZCL_T_INVALID, ZCL_T_INVALID, ZCL_T_INVALID, ZCL_T_INVALID, ZCL_T_INVALID, ZCL_T_INVALID, ZCL_T_INVALID,
     ZCL_T_INVALID, ZCL_T_INVALID, ZCL_T_INVALID, ZCL_T_INVALID, ZCL_T_INVALID, ZCL_T_INVALID, ZCL_T_INVALID, ZCL_T_INVALID,
     ZCL_T_INVALID, ZCL_T_INVALID, ZCL_T_INVALID, ZCL_T_INVALID, ZCL_T_INVALID, ZCL_T_INVALID, ZCL_T_INVALID, ZCL_T_INVALID,
     ZCL_T_INVALID, ZCL_T_INVALID, ZCL_T_INVALID, ZCL_T_INVALID, ZCL_T_INVALID, ZCL_T_INVALID, ZCL_T_INVALID, ZCL_T_INVALID,
     ZCL_T_INVALID, ZCL_T_INVALID, ZCL_T_INVALID, ZCL_T_INVALID, ZCL_T_INVALID, ZCL_T_INVALID, ZCL_T_INVALID, ZCL_T_INVALID,
     ZCL_T_INVALID, ZCL_T_INVALID, ZCL_T_INVALID, ZCL_T_INVALID, ZCL_T_INVALID, ZCL_T_INVALID, ZCL_T_INVALID, ZCL_T_INVALID,
     ZCL_T_INVALID, ZCL_T_INVALID, ZCL_T_INVALID, ZCL_T_INVALID, ZCL_T_INVALID, ZCL_T_INVALID, ZCL_T_INVALID, ZCL_T_INVALID,
     ZCL_T_INVALID, ZCL_T_INVALID, ZCL_T_INVALID, ZCL_T_INVALID, ZCL_T_INVALID, ZCL_T_INVALID, ZCL_T_INVALID, ZCL_T_INVALID,
     4 OR ZCL_T_ANALOG, 4 OR ZCL_T_ANALOG, 4 OR ZCL_T_ANALOG, ZCL_T_INVALID, ZCL_T_INVALID, ZCL_T_INVALID, ZCL_T_INVALID, ZCL_T_INVALID,
     2 OR ZCL_T_DISCRETE, 2 OR ZCL_T_DISCRETE, 4 OR ZCL_T_DISCRETE, ZCL_T_INVALID, ZCL_T_INVALID, ZCL_T_INVALID, ZCL_T_INVALID, ZCL_T_INVALID,
     8 OR ZCL_T_DISCRETE, ZCL_T_SIZE_128BIT OR ZCL_T_DISCRETE, ZCL_T_INVALID, ZCL_T_INVALID, ZCL_T_INVALID, ZCL_T_INVALID, ZCL_T_INVALID, ZCL_T_INVALID,
     ZCL_T_INVALID, ZCL_T_INVALID, ZCL_T_INVALID, ZCL_T_INVALID, ZCL_T_INVALID, ZCL_T_INVALID, ZCL_T_INVALID, 0]"

definition type_info :: "u8 \<Rightarrow> u8" where
  "type_info t = zcl_type_info ! unat t"

definition ZCL_TYPE_IS_INVALID :: "u8 \<Rightarrow> bool" where
  "ZCL_TYPE_IS_INVALID t \<longleftrightarrow> type_info t = ZCL_T_INVALID"

abbreviation ZCL_SIZE_SHORT :: int where "ZCL_SIZE_SHORT \<equiv> - 1"
abbreviation ZCL_SIZE_LONG :: int where "ZCL_SIZE_LONG \<equiv> - 2"
abbreviation ZCL_SIZE_VARIABLE :: int where "ZCL_SIZE_VARIABLE \<equiv> - 3"
abbreviation ZCL_SIZE_INVALID :: int where "ZCL_SIZE_INVALID \<equiv> - 127"

definition zcl_sizeof_type :: "u8 \<Rightarrow> int" where
  "zcl_sizeof_type t =
     (let size = type_info t AND ZCL_T_SIZE_MASK in
      if size = ZCL_T_SIZE_SHORT then ZCL_SIZE_SHORT
      else if size = ZCL_T_SIZE_LONG then ZCL_SIZE_LONG
      else if size = ZCL_T_SIZE_VARIABLE then ZCL_SIZE_VARIABLE
      else if size = ZCL_T_INVALID AND ZCL_T_SIZE_MASK then ZCL_SIZE_INVALID
      else if size = ZCL_T_SIZE_128BIT then 16
      else uint size)"

text \<open>The part of \<open>sprintf\<close> the code uses: \<open>%u\<close>, and \<open>%02X\<close> and \<open>%02x\<close> of a byte.\<close>

fun fmt_u :: "nat \<Rightarrow> string" where
  "fmt_u n = (if n < 10 then [''0123456789'' ! n] else fmt_u (n div 10) @ [''0123456789'' ! (n mod 10)])"

declare fmt_u.simps [simp del]

definition fmt_02X :: "u8 \<Rightarrow> string" where
  "fmt_02X b = [''0123456789ABCDEF'' ! (unat b div 16), ''0123456789ABCDEF'' ! (unat b mod 16)]"

definition fmt_02x :: "u8 \<Rightarrow> string" where
  "fmt_02x b = [''0123456789abcdef'' ! (unat b div 16), ''0123456789abcdef'' ! (unat b mod 16)]"

definition zcl_type_prefix :: "u8 \<Rightarrow> string option" where
  "zcl_type_prefix t =
     (if 0x08 \<le> t \<and> t \<le> 0x0F then Some ''GENERAL''
      else if 0x18 \<le> t \<and> t \<le> 0x1F then Some ''BITMAP''
      else if 0x20 \<le> t \<and> t \<le> 0x27 then Some ''UNSIGNED''
      else if 0x28 \<le> t \<and> t \<le> 0x2F then Some ''SIGNED''
      else if 0x30 \<le> t \<and> t \<le> 0x31 then Some ''ENUM''
      else None)"

definition zcl_type_names :: "(u8 \<times> string) list" where
  "zcl_type_names =
    [(0x00, ''NO_DATA''), (0x10, ''LOGICAL_BOOLEAN''), (0x38, ''FLOAT_SEMI''), (0x39, ''FLOAT_SINGLE''),
     (0x3A, ''FLOAT_DOUBLE''), (0x41, ''STRING_OCTET''), (0x42, ''STRING_CHAR''),
     (0x43, ''STRING_LONG_OCTET''), (0x44, ''STRING_LONG_CHAR''), (0x48, ''ARRAY''), (0x4C, ''STRUCT''),
     (0x50, ''SET''), (0x51, ''BAG''), (0xE0, ''TIME_TIMEOFDAY''), (0xE1, ''TIME_DATE''),
     (0xE2, ''TIME_UTCTIME''), (0xE8, ''ID_CLUSTER''), (0xE9, ''ID_ATTRIB''), (0xEA, ''ID_BACNET_OID''),
     (0xF0, ''IEEE_ADDR''), (0xF1, ''SECURITY_KEY''), (0xFF, ''UNKNOWN'')]"

text \<open>The name, and whether it was formatted in the 15-byte static buffer.\<close>

definition zcl_type_name :: "u8 \<Rightarrow> string \<times> bool" where
  "zcl_type_name t =
     (case zcl_type_prefix t of
        Some prefix \<Rightarrow> (prefix @ ''_'' @ fmt_u ((unat (t AND 0x07) + 1) * 8) @ ''BIT'', True)
      | None \<Rightarrow>
          (case map_of zcl_type_names t of
             Some name \<Rightarrow> (name, False)
           | None \<Rightarrow> (''INVALID_0x'' @ fmt_02X t, True)))"

section \<open>The table\<close>

lemma all_bytes: "(\<forall>t :: u8. P t) \<longleftrightarrow> list_all (\<lambda>n. P (of_nat n)) [0..<256]"
proof
  assume "list_all (\<lambda>n. P (of_nat n)) [0..<256]"
  then show "\<forall>t. P t" by (metis atLeastLessThan_upt atLeast0LessThan lessThan_iff list_all_iff of_nat_unat ucast_id unat_u8_bound)
qed (simp add: list_all_iff)

text \<open>The distinct entries of the table.\<close>

lemma zcl_type_info_set:
  "set zcl_type_info \<subseteq>
    {0x00, 0x0F, 0x81, 0x82, 0x83, 0x84, 0x85, 0x86, 0x87, 0x88, 0x21, 0x22, 0x23, 0x24, 0x25, 0x26, 0x27, 0x28,
     0x61, 0x62, 0x63, 0x64, 0x65, 0x66, 0x67, 0x68, 0x72, 0x74, 0x78, 0x0E, 0x0D, 0x0B, 0x8C}"
  unfolding zcl_type_info_def by simp

lemma length_zcl_type_info: "length zcl_type_info = 256"
  by (simp add: zcl_type_info_def)

lemma type_info_in_set: "type_info t \<in> set zcl_type_info"
  by (simp add: type_info_def length_zcl_type_info)

text \<open>The size as a function of the table entry.\<close>

lemma zcl_sizeof_type_entry:
  "zcl_sizeof_type t =
     (let size = type_info t AND 0x0F in
      if size = 0x0E then - 1 else if size = 0x0D then - 2 else if size = 0x0B then - 3
      else if size = 0x0F then - 127 else if size = 0x0C then 16 else uint size)"
  by (simp add: zcl_sizeof_type_def Let_def)

text \<open>
  The sizes of the types that come in widths: data, bitmaps, unsigned and signed integers of 8 to 64 bits take one
  to eight bytes, and of these exactly the integers are analog and exactly the last group is signed.
\<close>

lemma zcl_type_widths:
  assumes "n < 8"
  shows "zcl_sizeof_type (0x08 + of_nat n) = int n + 1" "zcl_sizeof_type (0x18 + of_nat n) = int n + 1"
    "zcl_sizeof_type (0x20 + of_nat n) = int n + 1" "zcl_sizeof_type (0x28 + of_nat n) = int n + 1"
    "type_info (0x08 + of_nat n) AND ZCL_T_ANALOG = 0" "type_info (0x18 + of_nat n) AND ZCL_T_ANALOG = 0"
    "type_info (0x20 + of_nat n) AND (ZCL_T_ANALOG OR ZCL_T_SIGNED) = ZCL_T_ANALOG"
    "type_info (0x28 + of_nat n) AND (ZCL_T_ANALOG OR ZCL_T_SIGNED) = ZCL_T_ANALOG OR ZCL_T_SIGNED"
proof -
  have "n \<in> {0, 1, 2, 3, 4, 5, 6, 7}" using assms by auto
  then show "zcl_sizeof_type (0x08 + of_nat n) = int n + 1" "zcl_sizeof_type (0x18 + of_nat n) = int n + 1"
    "zcl_sizeof_type (0x20 + of_nat n) = int n + 1" "zcl_sizeof_type (0x28 + of_nat n) = int n + 1"
    "type_info (0x08 + of_nat n) AND ZCL_T_ANALOG = 0" "type_info (0x18 + of_nat n) AND ZCL_T_ANALOG = 0"
    "type_info (0x20 + of_nat n) AND (ZCL_T_ANALOG OR ZCL_T_SIGNED) = ZCL_T_ANALOG"
    "type_info (0x28 + of_nat n) AND (ZCL_T_ANALOG OR ZCL_T_SIGNED) = ZCL_T_ANALOG OR ZCL_T_SIGNED"
    by (elim insertE emptyE; simp add: zcl_sizeof_type_entry type_info_def zcl_type_info_def)+
qed

section \<open>The names\<close>

text \<open>The types of the groups with a number of bits in their name.\<close>

lemma zcl_type_prefix_cases:
  assumes "zcl_type_prefix t = Some p"
  shows "t \<in> {0x08, 0x09, 0x0A, 0x0B, 0x0C, 0x0D, 0x0E, 0x0F, 0x18, 0x19, 0x1A, 0x1B, 0x1C, 0x1D, 0x1E, 0x1F,
    0x20, 0x21, 0x22, 0x23, 0x24, 0x25, 0x26, 0x27, 0x28, 0x29, 0x2A, 0x2B, 0x2C, 0x2D, 0x2E, 0x2F, 0x30, 0x31}"
proof -
  have "(8 \<le> unat t \<and> unat t \<le> 15) \<or> (24 \<le> unat t \<and> unat t \<le> 31) \<or> (32 \<le> unat t \<and> unat t \<le> 39) \<or>
      (40 \<le> unat t \<and> unat t \<le> 47) \<or> (48 \<le> unat t \<and> unat t \<le> 49)"
    using assms by (auto simp: zcl_type_prefix_def word_le_nat_alt split: if_splits)
  then have "unat t \<in> set ([8..<16] @ [24..<50])" by auto
  moreover have "set ([8..<16] @ [24..<50]) = {8, 9, 10, 11, 12, 13, 14, 15, 24, 25, 26, 27, 28, 29, 30, 31,
      32, 33, 34, 35, 36, 37, 38, 39, 40, 41, 42, 43, 44, 45, 46, 47, 48, 49}"
    by (simp add: upt_rec)
  ultimately show ?thesis by (auto simp: word_unat_eq_iff)
qed

text \<open>
  The printed name of a type.  For the types named with a number of bits, that number is eight
  times the size the type table gives.
\<close>

theorem zcl_type_name_bits:
  assumes "zcl_type_prefix t = Some p"
  shows "zcl_type_name t = (p @ ''_'' @ fmt_u (8 * nat (zcl_sizeof_type t)) @ ''BIT'', True)"
proof -
  have size: "int (unat (t AND 0x07) + 1) = zcl_sizeof_type t"
    using zcl_type_prefix_cases [OF assms]
    by (elim insertE emptyE) (simp_all add: zcl_sizeof_type_entry type_info_def zcl_type_info_def)
  have "(unat (t AND 0x07) + 1) * 8 = 8 * nat (zcl_sizeof_type t)" unfolding size [symmetric] by (simp only: nat_int mult.commute)
  then show ?thesis by (simp only: zcl_type_name_def assms option.case)
qed

theorem zcl_type_name_bits_witness: "zcl_type_name 0x2A = (''SIGNED_24BIT'', True)"
proof -
  have p: "zcl_type_prefix 0x2A = Some ''SIGNED''" by (simp add: zcl_type_prefix_def)
  have "type_info 0x2A = 0x63" by (simp add: type_info_def zcl_type_info_def)
  then have "zcl_sizeof_type 0x2A = 3" by (simp add: zcl_sizeof_type_entry)
  moreover have "fmt_u 24 = ''24''" by (simp add: fmt_u.simps)
  ultimately show ?thesis using zcl_type_name_bits [OF p] by simp
qed

end
