(* ===== verification/Zcl_Attr.thy ===== *)
theory Zcl_Attr
  imports Zcl_Types Wpan_Aps
begin

text \<open>
  Attributes of ZCL clusters (\<open>pxbee/pan/zigbee/zigbee_zcl.c\<close>, \<open>headers/zigbee/zcl.h\<close>): attribute
  tables and their search, range checks, decoding of received values into memory and encoding of
  values from memory.  Variables live in a flat memory of 16-bit addresses, 0 being the null
  pointer; received data is a list of bytes that starts where the pointer points.
\<close>

section \<open>Memory\<close>

type_synonym mem = "u16 \<Rightarrow> u8"

fun mem_read :: "mem \<Rightarrow> u16 \<Rightarrow> nat \<Rightarrow> u8 list" where
  "mem_read m a 0 = []"
| "mem_read m a (Suc n) = m a # mem_read m (a + 1) n"

fun mem_write :: "mem \<Rightarrow> u16 \<Rightarrow> u8 list \<Rightarrow> mem" where
  "mem_write m a [] = m"
| "mem_write m a (b # bs) = mem_write (m(a := b)) (a + 1) bs"

definition mem16 :: "mem \<Rightarrow> u16 \<Rightarrow> u16" where
  "mem16 m a = be16 (m a) (m (a + 1))"

section \<open>Attribute tables\<close>

abbreviation ZCL_ATTRIB_FLAG_WRITEONLY :: u8 where "ZCL_ATTRIB_FLAG_WRITEONLY \<equiv> 0x01"
abbreviation ZCL_ATTRIB_FLAG_READONLY :: u8 where "ZCL_ATTRIB_FLAG_READONLY \<equiv> 0x02"
abbreviation ZCL_ATTRIB_FLAG_HAS_MIN :: u8 where "ZCL_ATTRIB_FLAG_HAS_MIN \<equiv> 0x04"
abbreviation ZCL_ATTRIB_FLAG_HAS_MAX :: u8 where "ZCL_ATTRIB_FLAG_HAS_MAX \<equiv> 0x08"
abbreviation ZCL_ATTRIB_FLAG_RAW :: u8 where "ZCL_ATTRIB_FLAG_RAW \<equiv> 0x40"
abbreviation ZCL_ATTRIB_FLAG_FULL :: u8 where "ZCL_ATTRIB_FLAG_FULL \<equiv> 0x80"

abbreviation ZCL_ATTR_WRITE_FLAG_NONE :: u8 where "ZCL_ATTR_WRITE_FLAG_NONE \<equiv> 0x00"
abbreviation ZCL_ATTR_WRITE_FLAG_ASSIGN :: u8 where "ZCL_ATTR_WRITE_FLAG_ASSIGN \<equiv> 0x01"
abbreviation ZCL_ATTR_WRITE_FLAG_READ_RESP :: u8 where "ZCL_ATTR_WRITE_FLAG_READ_RESP \<equiv> 0x02"

abbreviation ZCL_ATTRIBUTE_END_OF_LIST :: u16 where "ZCL_ATTRIBUTE_END_OF_LIST \<equiv> 0xFFFF"

abbreviation ZCL_STATUS_SUCCESS :: u8 where "ZCL_STATUS_SUCCESS \<equiv> 0x00"
abbreviation ZCL_STATUS_FAILURE :: u8 where "ZCL_STATUS_FAILURE \<equiv> 0x01"
abbreviation ZCL_STATUS_MALFORMED_COMMAND :: u8 where "ZCL_STATUS_MALFORMED_COMMAND \<equiv> 0x80"
abbreviation ZCL_STATUS_UNSUP_GENERAL_COMMAND :: u8 where "ZCL_STATUS_UNSUP_GENERAL_COMMAND \<equiv> 0x82"
abbreviation ZCL_STATUS_UNSUP_MANUF_GENERAL_COMMAND :: u8 where "ZCL_STATUS_UNSUP_MANUF_GENERAL_COMMAND \<equiv> 0x84"
abbreviation ZCL_STATUS_UNSUPPORTED_ATTRIBUTE :: u8 where "ZCL_STATUS_UNSUPPORTED_ATTRIBUTE \<equiv> 0x86"
abbreviation ZCL_STATUS_INVALID_VALUE :: u8 where "ZCL_STATUS_INVALID_VALUE \<equiv> 0x87"
abbreviation ZCL_STATUS_READ_ONLY :: u8 where "ZCL_STATUS_READ_ONLY \<equiv> 0x88"
abbreviation ZCL_STATUS_INSUFFICIENT_SPACE :: u8 where "ZCL_STATUS_INSUFFICIENT_SPACE \<equiv> 0x89"
abbreviation ZCL_STATUS_INVALID_DATA_TYPE :: u8 where "ZCL_STATUS_INVALID_DATA_TYPE \<equiv> 0x8D"
abbreviation ZCL_STATUS_WRITE_ONLY :: u8 where "ZCL_STATUS_WRITE_ONLY \<equiv> 0x8F"
abbreviation ZCL_STATUS_DEFINED_OUT_OF_BAND :: u8 where "ZCL_STATUS_DEFINED_OUT_OF_BAND \<equiv> 0x91"
abbreviation ZCL_STATUS_HARDWARE_FAILURE :: u8 where "ZCL_STATUS_HARDWARE_FAILURE \<equiv> 0xC0"
abbreviation ZCL_STATUS_SOFTWARE_FAILURE :: u8 where "ZCL_STATUS_SOFTWARE_FAILURE \<equiv> 0xC1"

abbreviation ZCL_TYPE_NO_DATA :: u8 where "ZCL_TYPE_NO_DATA \<equiv> 0x00"
abbreviation ZCL_TYPE_LOGICAL_BOOLEAN :: u8 where "ZCL_TYPE_LOGICAL_BOOLEAN \<equiv> 0x10"
abbreviation ZCL_TYPE_SIGNED_24BIT :: u8 where "ZCL_TYPE_SIGNED_24BIT \<equiv> 0x2A"
abbreviation ZCL_TYPE_STRING_CHAR :: u8 where "ZCL_TYPE_STRING_CHAR \<equiv> 0x42"
abbreviation ZCL_TYPE_ARRAY :: u8 where "ZCL_TYPE_ARRAY \<equiv> 0x48"
abbreviation ZCL_TYPE_STRUCT :: u8 where "ZCL_TYPE_STRUCT \<equiv> 0x4C"
abbreviation ZCL_TYPE_SET :: u8 where "ZCL_TYPE_SET \<equiv> 0x50"
abbreviation ZCL_TYPE_BAG :: u8 where "ZCL_TYPE_BAG \<equiv> 0x51"
abbreviation ZCL_TYPE_UNKNOWN :: u8 where "ZCL_TYPE_UNKNOWN \<equiv> 0xFF"

text \<open>\<open>ZCL_TYPE_GENERAL_24BIT\<close>, \<open>BITMAP\<close>, \<open>UNSIGNED\<close> and \<open>SIGNED\<close>.\<close>

definition type_24bit :: "u8 \<Rightarrow> bool" where
  "type_24bit t \<longleftrightarrow> t = 0x0A \<or> t = 0x1A \<or> t = 0x22 \<or> t = 0x2A"

text \<open>\<open>zcl_attribute_write_rec_t\<close>.  Signed overflow of the 16-bit \<open>buflen\<close> is undefined and not wrapped.\<close>

record zcl_attribute_write_rec =
  wr_buffer :: "u8 list"
  wr_buflen :: int
  wr_flags :: u8
  wr_status :: u8

text \<open>
  \<open>zcl_attribute_base_t\<close> and \<open>zcl_attribute_full_t\<close>: the last four fields exist when the flag
  \<open>FULL\<close> is set.  The two functions get the attribute they belong to; \<open>'s\<close> is the state they work
  on, of which the memory is a part.  A \<open>write\<close> function returns the number of bytes it consumed, as its
  documentation says, so that the \<open>int\<close> it returns is not negative.
\<close>

record 's zcl_attribute =
  at_id :: u16
  at_flags :: u8
  at_type :: u8
  at_value :: u16
  at_min :: u32
  at_max :: u32
  at_read :: "('s \<Rightarrow> u8 \<times> 's) option"
  at_write :: "(zcl_attribute_write_rec \<Rightarrow> 's \<Rightarrow> nat \<times> zcl_attribute_write_rec \<times> 's) option"

text \<open>A pointer into a table is the rest of the table.\<close>

type_synonym 's attr_ptr = "'s zcl_attribute list"

definition zcl_attribute_get_next :: "'s attr_ptr option \<Rightarrow> 's attr_ptr option" where
  "zcl_attribute_get_next entry =
     (case entry of
        None \<Rightarrow> None
      | Some p \<Rightarrow> if at_id (hd p) = ZCL_ATTRIBUTE_END_OF_LIST then Some p else Some (tl p))"

lemma u16_max: "(x :: u16) \<le> 0xFFFF"
  by (simp add: word_le_nat_alt)

text \<open>The search loop; a table without an end marker is read no further than its entries.\<close>

function find_attribute_loop :: "'s attr_ptr \<Rightarrow> u16 \<Rightarrow> 's attr_ptr option" where
  "find_attribute_loop [] search_id = None"
| "find_attribute_loop (a # as) search_id =
     (if at_id a < search_id then find_attribute_loop (the (zcl_attribute_get_next (Some (a # as)))) search_id
      else if at_id a = search_id then Some (a # as)
      else None)"
  by pat_completeness auto

termination
proof (relation "measure (\<lambda>(p, _). length p)", simp)
  fix a :: "'s zcl_attribute" and as search_id
  assume "at_id a < search_id"
  then have "at_id a \<noteq> ZCL_ATTRIBUTE_END_OF_LIST"
    using u16_max [of search_id] by (auto simp: not_less [symmetric])
  then show "((the (zcl_attribute_get_next (Some (a # as))), search_id), a # as, search_id)
      \<in> measure (\<lambda>(p, _). length p)"
    by (simp add: zcl_attribute_get_next_def)
qed

definition zcl_find_attribute :: "'s attr_ptr option \<Rightarrow> u16 \<Rightarrow> 's zcl_attribute option" where
  "zcl_find_attribute entry search_id =
     (case entry of
        None \<Rightarrow> None
      | Some p \<Rightarrow> map_option hd (find_attribute_loop p search_id))"

section \<open>Range checks\<close>

definition be32_list :: "u8 list \<Rightarrow> u32" where
  "be32_list bs = be32 (bs ! 0) (bs ! 1) (bs ! 2) (bs ! 3)"

text \<open>The value compared: little-endian bytes widened to 32 bits the way the code widens them.\<close>

definition minmax_value :: "int \<Rightarrow> bool \<Rightarrow> u8 list \<Rightarrow> u32" where
  "minmax_value sizeof_type is_signed buffer_le =
     (let value = be32_list (replicate (nat (4 - sizeof_type)) 0 @ rev (take (nat sizeof_type) buffer_le))
      in if is_signed \<and> sizeof_type < 4 \<and> buffer_le ! nat (sizeof_type - 1) AND 0x80 \<noteq> 0
         then value OR push_bit (nat sizeof_type) 0xFFFFFFFF
         else value)"

definition zcl_check_minmax :: "'s zcl_attribute option \<Rightarrow> u8 list option \<Rightarrow> rc" where
  "zcl_check_minmax entry buffer_le =
     (case (entry, buffer_le) of
        (Some full, Some buf) \<Rightarrow>
          if at_flags full AND (ZCL_ATTRIB_FLAG_HAS_MIN OR ZCL_ATTRIB_FLAG_HAS_MAX) \<noteq> 0 then
            let sizeof_type = zcl_sizeof_type (at_type full);
                typeinfo = type_info (at_type full);
                has_min = at_flags full AND ZCL_ATTRIB_FLAG_HAS_MIN \<noteq> 0;
                has_max = at_flags full AND ZCL_ATTRIB_FLAG_HAS_MAX \<noteq> 0 in
            if sizeof_type < 1 \<or> sizeof_type > 4 then Inr 0
            else if typeinfo AND ZCL_T_FLOAT \<noteq> 0 then Inr 0
            else
              let is_signed = typeinfo AND ZCL_T_SIGNED \<noteq> 0;
                  value = minmax_value sizeof_type is_signed buf in
              if is_signed then
                if has_min \<and> sint (at_min full) > sint value then Inr 1
                else if has_max \<and> sint (at_max full) < sint value then Inr 2
                else Inr 0
              else
                if has_min \<and> at_min full > value then Inr 1
                else if has_max \<and> at_max full < value then Inr 2
                else Inr 0
          else Inr 0
      | _ \<Rightarrow> Inl EINVAL)"

section \<open>Decoding\<close>

definition zcl_convert_24bit :: "u8 list option \<Rightarrow> bool \<Rightarrow> u32" where
  "zcl_convert_24bit value_le extend_sign =
     (case value_le of
        None \<Rightarrow> 0
      | Some bytes \<Rightarrow>
          be32 (if bytes ! 2 AND 0x80 \<noteq> 0 \<and> extend_sign then 0xFF else 0)
            (bytes ! 2) (bytes ! 1) (bytes ! 0))"

text \<open>The label \<open>default_assign\<close>: a copy in reversed order, or as it is for a raw attribute.\<close>

definition default_assign :: "'s zcl_attribute \<Rightarrow> u8 list \<Rightarrow> mem \<Rightarrow> mem" where
  "default_assign entry buffer m =
     (let bytes = take (nat (zcl_sizeof_type (at_type entry))) buffer
      in mem_write m (at_value entry)
           (if at_flags entry AND ZCL_ATTRIB_FLAG_RAW = 0 then rev bytes else bytes))"

text \<open>\<open>zcl_decode_attribute\<close> for pointers that are not null: the bytes consumed, the record, the memory.\<close>

definition decode_attribute ::
    "'s zcl_attribute \<Rightarrow> zcl_attribute_write_rec \<Rightarrow> mem \<Rightarrow> nat \<times> zcl_attribute_write_rec \<times> mem" where
  "decode_attribute entry rec m =
     (let buffer = wr_buffer rec;
          assign = wr_flags rec AND ZCL_ATTR_WRITE_FLAG_ASSIGN \<noteq> 0;
          (assign, newstatus) =
            (if assign \<and> at_value entry = 0 then (False, ZCL_STATUS_DEFINED_OUT_OF_BAND)
             else (assign, wr_status rec));
          sizeof_type = zcl_sizeof_type (at_type entry);
          (retval, newstatus, m) =
            (if type_24bit (at_type entry) then
               (3, newstatus,
                if assign then
                  if at_flags entry AND ZCL_ATTRIB_FLAG_RAW \<noteq> 0 then default_assign entry buffer m
                  else mem_write m (at_value entry)
                    (bytes32 (zcl_convert_24bit (Some buffer) (at_type entry = ZCL_TYPE_SIGNED_24BIT)))
                else m)
             else if at_type entry = ZCL_TYPE_STRING_CHAR then
               let len = uint (hd buffer) in
               if len + 1 > wr_buflen rec then (nat (wr_buflen rec), ZCL_STATUS_MALFORMED_COMMAND, m)
               else
                 let maxlength = s16 (sint (at_max entry)) in
                 if at_flags entry AND ZCL_ATTRIB_FLAG_FULL \<noteq> 0 \<and> maxlength \<noteq> 0 \<and> len > maxlength
                 then (nat (len + 1), ZCL_STATUS_INVALID_VALUE, m)
                 else (nat (len + 1), newstatus,
                       if assign then mem_write m (at_value entry) (take (nat len) (tl buffer) @ [0]) else m)
             else if at_type entry = ZCL_TYPE_NO_DATA \<or> at_type entry = ZCL_TYPE_UNKNOWN then
               (0, ZCL_STATUS_INVALID_DATA_TYPE, m)
             else
               let (assign, newstatus) =
                 (if at_type entry = ZCL_TYPE_LOGICAL_BOOLEAN \<and> hd buffer AND 0xFE \<noteq> 0
                  then (False, ZCL_STATUS_INVALID_VALUE) else (assign, newstatus)) in
               if ZCL_TYPE_IS_INVALID (at_type entry) then (0, ZCL_STATUS_UNSUPPORTED_ATTRIBUTE, m)
               else if sizeof_type > 0 then
                 (nat sizeof_type, newstatus, if assign then default_assign entry buffer m else m)
               else (0, newstatus, m))
      in (retval, if wr_status rec = ZCL_STATUS_SUCCESS then rec\<lparr>wr_status := newstatus\<rparr> else rec, m))"

definition zcl_decode_attribute ::
    "'s zcl_attribute option \<Rightarrow> zcl_attribute_write_rec option \<Rightarrow> mem
     \<Rightarrow> rc \<times> zcl_attribute_write_rec option \<times> mem" where
  "zcl_decode_attribute entry rec m =
     (case (entry, rec) of
        (Some e, Some r) \<Rightarrow> (let (n, r, m) = decode_attribute e r m in (Inr (int n), Some r, m))
      | _ \<Rightarrow> (Inl EINVAL, rec, m))"

section \<open>Parsing a record\<close>

text \<open>The checks of \<open>zcl_parse_attribute_record\<close> after the attribute has been looked up: the status.\<close>

definition record_status ::
    "'s zcl_attribute option \<Rightarrow> u8 \<Rightarrow> zcl_attribute_write_rec \<Rightarrow> u8" where
  "record_status entry type rec =
     (let status =
        (case entry of
           None \<Rightarrow> ZCL_STATUS_UNSUPPORTED_ATTRIBUTE
         | Some a \<Rightarrow>
             if at_type a \<noteq> type then
               if ZCL_TYPE_IS_INVALID type then ZCL_STATUS_MALFORMED_COMMAND
               else ZCL_STATUS_INVALID_DATA_TYPE
             else if at_flags a AND ZCL_ATTRIB_FLAG_READONLY \<noteq> 0 then ZCL_STATUS_READ_ONLY
             else if zcl_sizeof_type type \<ge> 0 \<and> wr_buflen rec < zcl_sizeof_type type
             then ZCL_STATUS_MALFORMED_COMMAND
             else wr_status rec)
      in if status = ZCL_STATUS_SUCCESS \<and> zcl_check_minmax entry (Some (wr_buffer rec)) \<noteq> Inr 0
         then ZCL_STATUS_INVALID_VALUE else status)"

definition fake_attribute :: "u16 \<Rightarrow> u8 \<Rightarrow> 's zcl_attribute" where
  "fake_attribute attribute type =
     \<lparr>at_id = attribute, at_flags = 0, at_type = type, at_value = 0,
      at_min = 0, at_max = 0, at_read = None, at_write = None\<rparr>"

text \<open>
  The last part of \<open>zcl_parse_attribute_record\<close>: the attribute's \<open>write\<close> function or the decoder
  consumes the value.
\<close>

definition consume_value ::
    "(mem \<times> 'w) zcl_attribute \<Rightarrow> zcl_attribute_write_rec \<Rightarrow> mem \<times> 'w
     \<Rightarrow> zcl_attribute_write_rec \<times> mem \<times> 'w" where
  "consume_value entry rec s =
     (let (bytes_read, rec, s) =
        (case (if at_flags entry AND ZCL_ATTRIB_FLAG_FULL \<noteq> 0 then at_write entry else None) of
           Some write \<Rightarrow> write rec s
         | None \<Rightarrow> (let (n, r, m) = decode_attribute entry rec (fst s) in (n, r, m, snd s)))
      in (rec\<lparr>wr_buffer := drop bytes_read (wr_buffer rec),
              wr_buflen := wr_buflen rec - int bytes_read\<rparr>, s))"

definition zcl_parse_attribute_record ::
    "(mem \<times> 'w) attr_ptr option \<Rightarrow> zcl_attribute_write_rec option \<Rightarrow> mem \<times> 'w
     \<Rightarrow> rc \<times> zcl_attribute_write_rec option \<times> mem \<times> 'w" where
  "zcl_parse_attribute_record entry write_rec s =
     (case write_rec of
        None \<Rightarrow> (Inl EINVAL, None, s)
      | Some rec \<Rightarrow>
          let buffer = wr_buffer rec;
              attribute = le16toh (be16 (buffer ! 0) (buffer ! 1));
              read_resp = wr_flags rec AND ZCL_ATTR_WRITE_FLAG_READ_RESP \<noteq> 0 in
          if read_resp \<and> buffer ! 2 \<noteq> ZCL_STATUS_SUCCESS
          then (Inr 3, Some (rec\<lparr>wr_buffer := drop 3 buffer\<rparr>), s)
          else
            let value_offset = (if read_resp then 4 else 3);
                start_buflen = wr_buflen rec;
                too_small = start_buflen < int value_offset;
                type = buffer ! (value_offset - 1);
                found = zcl_find_attribute entry attribute;
                rec = (if too_small then rec\<lparr>wr_status := ZCL_STATUS_MALFORMED_COMMAND\<rparr>
                       else
                         let rec = rec\<lparr>wr_buffer := drop value_offset buffer,
                                       wr_buflen := start_buflen - int value_offset\<rparr>
                         in rec\<lparr>wr_status := record_status found type rec\<rparr>) in
            if wr_status rec = ZCL_STATUS_MALFORMED_COMMAND then
              (Inr start_buflen, Some (rec\<lparr>wr_buflen := 0\<rparr>), s)
            else
              let (rec, s) =
                (if wr_status rec \<noteq> ZCL_STATUS_SUCCESS
                 then consume_value (fake_attribute attribute type)
                        (rec\<lparr>wr_flags := wr_flags rec AND NOT ZCL_ATTR_WRITE_FLAG_ASSIGN\<rparr>) s
                 else consume_value (the found) rec s)
              in (Inr (start_buflen - wr_buflen rec), Some rec, s))"

section \<open>Encoding\<close>

text \<open>The negated status, or the bytes written.\<close>

type_synonym encoded = "u8 + u8 list"

text \<open>The copy loop for character strings; \<open>room\<close> is how often \<open>++buffer < end\<close> still holds.\<close>

fun string_copy :: "mem \<Rightarrow> u16 \<Rightarrow> nat \<Rightarrow> u8 list \<times> u16" where
  "string_copy m p 0 = ([], p)"
| "string_copy m p (Suc room) =
     (if m p \<noteq> 0 then let (bs, q) = string_copy m (p + 1) room in (m p # bs, q) else ([], p))"

text \<open>The scalar types, for a value pointer that is not null.\<close>

definition encode_scalar :: "mem \<Rightarrow> u8 \<Rightarrow> u8 \<Rightarrow> u16 \<Rightarrow> int \<Rightarrow> encoded" where
  "encode_scalar m flags type value bufsize =
     (let sizeof_type = zcl_sizeof_type type in
      if sizeof_type \<ge> 0 \<and> bufsize < sizeof_type then Inl ZCL_STATUS_INSUFFICIENT_SPACE
      else if sizeof_type \<ge> 0 \<and> flags AND ZCL_ATTRIB_FLAG_RAW \<noteq> 0 then Inr (mem_read m value (nat sizeof_type))
      else if type = ZCL_TYPE_LOGICAL_BOOLEAN then Inr [if m value \<noteq> 0 then 1 else 0]
      else if type = ZCL_TYPE_STRING_CHAR then
        let (bs, p) = string_copy m value (nat (bufsize - 1)) in
        if m p \<noteq> 0 then Inl ZCL_STATUS_INSUFFICIENT_SPACE else Inr (of_nat (length bs) # bs)
      else if type_24bit type then Inr (rev (mem_read m (value + 1) 3))
      else if ZCL_TYPE_IS_INVALID type then Inl ZCL_STATUS_FAILURE
      else if sizeof_type > 0 then Inr (rev (mem_read m value (nat sizeof_type)))
      else Inr [])"

text \<open>
  \<open>zcl_encode_attribute_value\<close> without the \<open>read\<close> function, \<open>_zcl_encode_array_value\<close> and
  \<open>_zcl_encode_struct_value\<close> with their loops over the elements.  Structures in memory are packed
  and big-endian: \<open>zcl_array_t\<close> is \<open>max_count\<close>, \<open>current_count\<close>, \<open>element_size\<close>, \<open>type\<close>, \<open>value\<close>;
  \<open>zcl_struct_t\<close> is \<open>element_count\<close>, \<open>base_address\<close>, \<open>element\<close>, the elements \<open>zcl_type\<close>, \<open>offset\<close>.
\<close>

function (sequential) encode_value :: "mem \<Rightarrow> u8 \<Rightarrow> u8 \<Rightarrow> u16 \<Rightarrow> int \<Rightarrow> encoded"
  and encode_array :: "mem \<Rightarrow> u8 \<Rightarrow> u16 \<Rightarrow> nat \<Rightarrow> u16 \<Rightarrow> int \<Rightarrow> encoded"
  and encode_struct :: "mem \<Rightarrow> u16 \<Rightarrow> nat \<Rightarrow> u16 \<Rightarrow> int \<Rightarrow> encoded" where
  "encode_value m flags type value bufsize =
     (if zcl_sizeof_type type = 0 then Inr []
      else if value = 0 then Inl ZCL_STATUS_DEFINED_OUT_OF_BAND
      else if type = ZCL_TYPE_ARRAY \<or> type = ZCL_TYPE_SET \<or> type = ZCL_TYPE_BAG then
        if bufsize < 3 then Inl ZCL_STATUS_INSUFFICIENT_SPACE
        else
          let count = mem16 m (value + 2);
              head = m (value + 6) # rev (bytes16 count) in
          map_sum id ((@) head)
            (encode_array m (m (value + 6)) (mem16 m (value + 4)) (unat count) (mem16 m (value + 7)) (bufsize - 3))
      else if type = ZCL_TYPE_STRUCT then
        if bufsize < 2 then Inl ZCL_STATUS_INSUFFICIENT_SPACE
        else
          let count = mem16 m value in
          map_sum id ((@) (rev (bytes16 count)))
            (encode_struct m (mem16 m (value + 2)) (unat count) (mem16 m (value + 4)) (bufsize - 2))
      else encode_scalar m flags type value bufsize)"
| "encode_array m type esize 0 value bufsize = Inr []"
| "encode_array m type esize (Suc n) value bufsize =
     (case encode_value m 0 type value bufsize of
        Inl e \<Rightarrow> Inl e
      | Inr bs \<Rightarrow>
          map_sum id ((@) bs) (encode_array m type esize n (value + esize) (bufsize - int (length bs))))"
| "encode_struct m base 0 elem bufsize = Inr []"
| "encode_struct m base (Suc n) elem bufsize =
     (if bufsize = 0 then Inl ZCL_STATUS_INSUFFICIENT_SPACE
      else case encode_value m 0 (m elem) (base + mem16 m (elem + 1)) (bufsize - 1) of
        Inl e \<Rightarrow> Inl e
      | Inr bs \<Rightarrow>
          map_sum id ((@) (m elem # bs)) (encode_struct m base n (elem + 3) (bufsize - 1 - int (length bs))))"
  by pat_completeness auto

termination
  by (relation "measures
      [\<lambda>x. case x of Inl (_, _, _, _, b) \<Rightarrow> nat b | Inr (Inl (_, _, _, _, _, b)) \<Rightarrow> nat b
        | Inr (Inr (_, _, _, _, b)) \<Rightarrow> nat b,
       \<lambda>x. case x of Inl _ \<Rightarrow> 0 | Inr _ \<Rightarrow> 1,
       \<lambda>x. case x of Inl _ \<Rightarrow> 0 | Inr (Inl (_, _, _, n, _, _)) \<Rightarrow> n | Inr (Inr (_, _, n, _, _)) \<Rightarrow> n]")
    auto

declare encode_value.simps [simp del]

definition zcl_encode_attribute_value ::
    "int \<Rightarrow> (mem \<times> 'w) zcl_attribute option \<Rightarrow> mem \<times> 'w \<Rightarrow> encoded \<times> mem \<times> 'w" where
  "zcl_encode_attribute_value bufsize entry s =
     (case entry of
        None \<Rightarrow> (Inl ZCL_STATUS_SOFTWARE_FAILURE, s)
      | Some a \<Rightarrow>
          if zcl_sizeof_type (at_type a) = 0 then (Inr [], s)
          else if at_value a = 0 then (Inl ZCL_STATUS_DEFINED_OUT_OF_BAND, s)
          else
            let (status, s) =
              (case (if at_flags a AND ZCL_ATTRIB_FLAG_FULL \<noteq> 0 then at_read a else None) of
                 Some read \<Rightarrow> read s
               | None \<Rightarrow> (ZCL_STATUS_SUCCESS, s))
            in if status \<noteq> ZCL_STATUS_SUCCESS then (Inl status, s)
               else (encode_value (fst s) (at_flags a) (at_type a) (at_value a) bufsize, s))"

end
