(* ===== verification/Zcl_Values.thy ===== *)
theory Zcl_Values
  imports Zcl_Attr
begin

text \<open>
  Facts about attribute tables, range checks and the encoding of attribute values: the search in a
  sorted table, what the limits accept, and that a value written to an attribute is read back
  byte for byte.
\<close>

section \<open>Memory\<close>

lemma length_mem_read [simp]: "length (mem_read m a n) = n"
  by (induction m a n rule: mem_read.induct) simp_all

lemma mem_read_nth: "i < n \<Longrightarrow> mem_read m a n ! i = m (a + of_nat i)"
proof (induction n arbitrary: a i)
  case (Suc n)
  then show ?case by (cases i) (simp_all add: algebra_simps)
qed simp

lemma of_nat_u16_inj: "i < 65536 \<Longrightarrow> j < 65536 \<Longrightarrow> (of_nat i :: u16) = of_nat j \<longleftrightarrow> i = j"
  by (metis unat_of_nat_u16)

lemma mem_write_outside: "(\<And>i. i < length bs \<Longrightarrow> x \<noteq> a + of_nat i) \<Longrightarrow> mem_write m a bs x = m x"
proof (induction bs arbitrary: m a)
  case (Cons b bs)
  have "x \<noteq> a" using Cons.prems [of 0] by simp
  moreover have "x \<noteq> a + 1 + of_nat i" if "i < length bs" for i
    using Cons.prems [of "Suc i"] that by (simp add: algebra_simps)
  ultimately show ?case by (simp add: Cons.IH)
qed simp

lemma mem_write_at:
  assumes "i < length bs" "length bs \<le> 65536"
  shows "mem_write m a bs (a + of_nat i) = bs ! i"
  using assms
proof (induction bs arbitrary: m a i)
  case (Cons b bs)
  show ?case
  proof (cases i)
    case 0
    have "a + 0 \<noteq> a + 1 + of_nat j" if "j < length bs" for j
      using that Cons.prems(2) of_nat_u16_inj [of 0 "Suc j"] by (auto simp: algebra_simps)
    then have "mem_write (m(a := b)) (a + 1) bs a = b"
      by (subst mem_write_outside) auto
    then show ?thesis using 0 by simp
  next
    case (Suc j)
    have "mem_write (m(a := b)) (a + 1) bs (a + 1 + of_nat j) = bs ! j"
      using Cons.prems Suc by (intro Cons.IH) simp_all
    moreover have "a + of_nat i = a + 1 + of_nat j" by (simp add: Suc)
    ultimately show ?thesis by (simp only: mem_write.simps Suc nth_Cons_Suc)
  qed
qed simp

lemma mem_read_write:
  assumes "length bs \<le> 65536"
  shows "mem_read (mem_write m a bs) a (length bs) = bs"
  using assms by (intro nth_equalityI) (simp_all add: mem_read_nth mem_write_at)

lemma mem_read_write_n: "n = length bs \<Longrightarrow> length bs \<le> 65536 \<Longrightarrow> mem_read (mem_write m a bs) a n = bs"
  by (simp add: mem_read_write)

section \<open>Searching a table\<close>

text \<open>A table as the sources write it: attributes by ascending identifier, then the end marker.\<close>

definition attr_table :: "'s zcl_attribute list \<Rightarrow> 's zcl_attribute \<Rightarrow> bool" where
  "attr_table as marker \<longleftrightarrow> sorted_wrt (<) (map at_id as) \<and>
     (\<forall>a \<in> set as. at_id a \<noteq> ZCL_ATTRIBUTE_END_OF_LIST) \<and> at_id marker = ZCL_ATTRIBUTE_END_OF_LIST"

lemma attr_table_Cons:
  "attr_table (a # as) marker \<longleftrightarrow>
     at_id a \<noteq> ZCL_ATTRIBUTE_END_OF_LIST \<and> (\<forall>b \<in> set as. at_id a < at_id b) \<and> attr_table as marker"
  by (auto simp: attr_table_def)

lemma find_attribute_loop_table:
  assumes "attr_table as marker"
  shows "map_option hd (find_attribute_loop (as @ marker # rest) i) =
    (if i = ZCL_ATTRIBUTE_END_OF_LIST then Some marker else List.find (\<lambda>a. at_id a = i) as)"
  using assms
proof (induction as)
  case Nil
  then show ?case using u16_max [of i] by (auto simp: attr_table_def)
next
  case (Cons a as)
  note t = Cons.prems [unfolded attr_table_Cons]
  have none: "List.find (\<lambda>a. at_id a = i) as = None" if "i < at_id a"
    using that t by (fastforce simp: find_None_iff)
  show ?case
  proof (cases "at_id a" i rule: linorder_cases)
    case less
    then show ?thesis using Cons.IH t by (auto simp: zcl_attribute_get_next_def)
  next
    case equal
    then show ?thesis using t by simp
  next
    case greater
    then have "i \<noteq> ZCL_ATTRIBUTE_END_OF_LIST" using u16_max [of "at_id a"] by auto
    then show ?thesis using greater none by auto
  qed
qed

text \<open>
  Looking up an attribute.  In a table sorted by identifier and closed by the end marker
  \<open>zcl_find_attribute\<close> finds exactly the attribute with the identifier asked for, and nothing for
  an identifier that is not there, except that a request for 0xFFFF is answered with the end
  marker itself as if it were an attribute.
\<close>

theorem zcl_find_attribute_correct:
  assumes "attr_table as marker"
  shows "zcl_find_attribute (Some (as @ marker # rest)) i =
    (if i = ZCL_ATTRIBUTE_END_OF_LIST then Some marker else List.find (\<lambda>a. at_id a = i) as)"
  using find_attribute_loop_table [OF assms] by (simp add: zcl_find_attribute_def)

definition demo_attr :: "u16 \<Rightarrow> u8 \<Rightarrow> u8 \<Rightarrow> u16 \<Rightarrow> 's zcl_attribute" where
  "demo_attr i flags type value =
     \<lparr>at_id = i, at_flags = flags, at_type = type, at_value = value,
      at_min = 0, at_max = 0, at_read = None, at_write = None\<rparr>"

lemma demo_attr_sel [simp]:
  "at_id (demo_attr i f t v) = i" "at_flags (demo_attr i f t v) = f" "at_type (demo_attr i f t v) = t"
  "at_value (demo_attr i f t v) = v" "at_read (demo_attr i f t v) = None" "at_write (demo_attr i f t v) = None"
  by (simp_all add: demo_attr_def)

theorem zcl_find_attribute_correct_witness:
  "zcl_find_attribute (Some [demo_attr 1 0 0x20 100, demo_attr 4 0 0x21 102, demo_attr 0xFFFF 0 0 0]) 4
     = Some (demo_attr 4 0 0x21 102 :: unit zcl_attribute)"
  using zcl_find_attribute_correct [of "[demo_attr 1 0 0x20 100, demo_attr 4 0 0x21 102]"
      "demo_attr 0xFFFF 0 0 0 :: unit zcl_attribute" "[]" 4]
  by (simp add: attr_table_def)

section \<open>Values written and read back\<close>

lemma zcl_sizes:
  "zcl_sizeof_type ZCL_TYPE_NO_DATA = 0" "zcl_sizeof_type ZCL_TYPE_UNKNOWN = 0"
  "zcl_sizeof_type ZCL_TYPE_LOGICAL_BOOLEAN = 1" "zcl_sizeof_type ZCL_TYPE_STRING_CHAR = - 1"
  "zcl_sizeof_type ZCL_TYPE_ARRAY = - 3" "zcl_sizeof_type ZCL_TYPE_SET = - 3"
  "zcl_sizeof_type ZCL_TYPE_BAG = - 3" "zcl_sizeof_type ZCL_TYPE_STRUCT = - 3"
  "zcl_sizeof_type 0x0A = 3" "zcl_sizeof_type 0x1A = 3" "zcl_sizeof_type 0x22 = 3" "zcl_sizeof_type 0x2A = 3"
  by (simp_all add: zcl_sizeof_type_entry type_info_def zcl_type_info_def)

lemma type_24bit_size: "type_24bit t \<Longrightarrow> zcl_sizeof_type t = 3"
  by (auto simp: type_24bit_def zcl_sizes)

lemma zcl_sizeof_type_le: "zcl_sizeof_type t \<le> 16"
proof -
  have "type_info t \<in> {0x00, 0x0F, 0x81, 0x82, 0x83, 0x84, 0x85, 0x86, 0x87, 0x88, 0x21, 0x22, 0x23, 0x24,
      0x25, 0x26, 0x27, 0x28, 0x61, 0x62, 0x63, 0x64, 0x65, 0x66, 0x67, 0x68, 0x72, 0x74, 0x78, 0x0E, 0x0D, 0x0B, 0x8C}"
    using type_info_in_set [of t] zcl_type_info_set by (rule rev_subsetD)
  then show ?thesis unfolding zcl_sizeof_type_entry by (elim insertE emptyE) simp_all
qed

lemma invalid_size: "ZCL_TYPE_IS_INVALID t \<Longrightarrow> zcl_sizeof_type t < 0"
  by (simp add: ZCL_TYPE_IS_INVALID_def zcl_sizeof_type_entry)

text \<open>Encoding a value that the decoder put into memory.\<close>

lemma string_copy_written:
  assumes "0 \<notin> set cs" "length cs \<le> room" "length cs < 65536"
    and "\<And>i. i \<le> length cs \<Longrightarrow> m (p + of_nat i) = (cs @ [0]) ! i"
  shows "string_copy m p room = (cs, p + of_nat (length cs))"
  using assms
proof (induction cs arbitrary: p room)
  case Nil
  then show ?case using Nil.prems(4) [of 0] by (cases room) simp_all
next
  case (Cons c cs)
  obtain r where r: "room = Suc r" using Cons.prems(2) by (cases room) auto
  have "m p = c" using Cons.prems(4) [of 0] by simp
  moreover have "string_copy m (p + 1) r = (cs, p + 1 + of_nat (length cs))"
  proof (rule Cons.IH)
    show "m (p + 1 + of_nat i) = (cs @ [0]) ! i" if "i \<le> length cs" for i
      using Cons.prems(4) [of "Suc i"] that by (simp add: algebra_simps)
  qed (use Cons.prems r in auto)
  ultimately show ?case using Cons.prems(1) by (simp add: r)
qed

lemma bool_byte: "(b :: u8) AND 0xFE = 0 \<Longrightarrow> b = (if b \<noteq> 0 then 1 else 0)"
  using all_bytes [THEN iffD2, of "\<lambda>b. b AND 0xFE = 0 \<longrightarrow> b = (if b \<noteq> 0 then 1 else 0)"]
  by (auto simp: upt_rec)

text \<open>
  What the decoder stores for a value it accepts: the bytes written at the variable's address.
\<close>

definition stored_bytes :: "'s zcl_attribute \<Rightarrow> u8 list \<Rightarrow> u8 list" where
  "stored_bytes a buffer =
     (let size = nat (zcl_sizeof_type (at_type a)); raw = (at_flags a AND ZCL_ATTRIB_FLAG_RAW \<noteq> 0) in
      if at_type a = ZCL_TYPE_STRING_CHAR then take (unat (hd buffer)) (tl buffer) @ [0]
      else if raw then take size buffer
      else if type_24bit (at_type a)
      then bytes32 (zcl_convert_24bit (Some buffer) (at_type a = ZCL_TYPE_SIGNED_24BIT))
      else rev (take size buffer))"

definition plain_value :: "'s zcl_attribute \<Rightarrow> bool" where
  "plain_value a \<longleftrightarrow> 0 < zcl_sizeof_type (at_type a) \<or> at_type a = ZCL_TYPE_STRING_CHAR"

definition value_width :: "'s zcl_attribute \<Rightarrow> u8 list \<Rightarrow> nat" where
  "value_width a buffer =
     (if at_type a = ZCL_TYPE_STRING_CHAR then unat (hd buffer) + 1 else nat (zcl_sizeof_type (at_type a)))"

lemma decode_attribute_assign:
  assumes "decode_attribute a rec m = (n, rec', m')" and "plain_value a"
    and "wr_status rec = ZCL_STATUS_SUCCESS" "wr_flags rec AND ZCL_ATTR_WRITE_FLAG_ASSIGN \<noteq> 0"
    and "wr_status rec' = ZCL_STATUS_SUCCESS"
  shows "n = value_width a (wr_buffer rec)" and "rec' = rec" and "at_value a \<noteq> 0"
    and "m' = mem_write m (at_value a) (stored_bytes a (wr_buffer rec))"
    and "at_type a = ZCL_TYPE_LOGICAL_BOOLEAN \<longrightarrow> hd (wr_buffer rec) AND 0xFE = 0"
proof -
  note defs = decode_attribute_def Let_def plain_value_def value_width_def stored_bytes_def default_assign_def
  have sz: "nat (uint (hd (wr_buffer rec)) + 1) = unat (hd (wr_buffer rec)) + 1"
    by (simp add: nat_add_distrib flip: nat_uint_eq)
  show "n = value_width a (wr_buffer rec)" "rec' = rec" "at_value a \<noteq> 0"
    "m' = mem_write m (at_value a) (stored_bytes a (wr_buffer rec))"
    "at_type a = ZCL_TYPE_LOGICAL_BOOLEAN \<longrightarrow> hd (wr_buffer rec) AND 0xFE = 0"
    using assms type_24bit_size [of "at_type a"] invalid_size [of "at_type a"] zcl_sizes
    by (auto simp: defs sz type_24bit_def nat_uint_eq split: if_splits prod.splits)
qed

lemma encode_value_scalar:
  assumes "plain_value a" "at_value a \<noteq> 0"
  shows "encode_value m (at_flags a) (at_type a) (at_value a) bufsize =
    encode_scalar m (at_flags a) (at_type a) (at_value a) bufsize"
  using assms zcl_sizes by (subst encode_value.simps) (auto simp: plain_value_def)

lemma length_stored_bytes:
  assumes "value_width a buffer \<le> length buffer"
  shows "length (stored_bytes a buffer) \<le> value_width a buffer + 1" "length (stored_bytes a buffer) \<le> 256"
  using assms type_24bit_size [of "at_type a"] zcl_sizeof_type_le [of "at_type a"] unat_u8_bound [of "hd buffer"]
  by (auto simp: stored_bytes_def value_width_def Let_def less_Suc_eq_le)

lemma encode_stored_string:
  assumes "at_type a = ZCL_TYPE_STRING_CHAR" "value_width a buffer \<le> length buffer"
    and "0 \<notin> set (take (unat (hd buffer)) (tl buffer))" and "int (value_width a buffer) \<le> bufsize"
  shows "encode_scalar (mem_write m (at_value a) (stored_bytes a buffer)) flags (at_type a) (at_value a) bufsize
    = Inr (take (value_width a buffer) buffer)"
proof -
  define cs where "cs = take (unat (hd buffer)) (tl buffer)"
  have len: "length cs = unat (hd buffer)" and st: "stored_bytes a buffer = cs @ [0]"
    using assms(1,2) by (auto simp: cs_def stored_bytes_def value_width_def)
  have vw: "value_width a buffer = length cs + 1" by (simp add: value_width_def assms(1) len)
  have l: "length cs < 65535" using len unat_u8_bound [of "hd buffer"] by linarith
  let ?m = "mem_write m (at_value a) (cs @ [0])"
  have at: "?m (at_value a + of_nat i) = (cs @ [0]) ! i" if "i \<le> length cs" for i
    using that l by (intro mem_write_at) (simp_all add: less_Suc_eq_le)
  have "string_copy ?m (at_value a) (nat (bufsize - 1)) = (cs, at_value a + of_nat (length cs))"
  proof (rule string_copy_written)
    show "length cs \<le> nat (bufsize - 1)"
      using assms(4) unfolding vw by linarith
    show "length cs < 65536" using l by simp
  qed (use assms(3) at in \<open>auto simp: cs_def\<close>)
  moreover have "?m (at_value a + of_nat (length cs)) = 0" using at [of "length cs"] by (simp add: nth_append)
  moreover have "of_nat (length cs) # cs = take (value_width a buffer) buffer"
    using assms(1,2) by (cases buffer) (auto simp: len cs_def value_width_def)
  ultimately show ?thesis
    by (simp add: st assms(1) encode_scalar_def zcl_sizes type_24bit_def)
qed

lemma encode_stored_scalar:
  assumes "0 < zcl_sizeof_type (at_type a)" "value_width a buffer \<le> length buffer"
    and "at_type a = ZCL_TYPE_LOGICAL_BOOLEAN \<longrightarrow> hd buffer AND 0xFE = 0"
    and "int (value_width a buffer) \<le> bufsize"
  shows "encode_scalar (mem_write m (at_value a) (stored_bytes a buffer)) (at_flags a) (at_type a) (at_value a) bufsize
    = Inr (take (value_width a buffer) buffer)"
proof -
  let ?n = "nat (zcl_sizeof_type (at_type a))" and ?m = "mem_write m (at_value a) (stored_bytes a buffer)"
  have ns: "at_type a \<noteq> ZCL_TYPE_STRING_CHAR" "\<not> ZCL_TYPE_IS_INVALID (at_type a)"
    using assms(1) zcl_sizes invalid_size [of "at_type a"] by auto
  then have w: "value_width a buffer = ?n" by (simp add: value_width_def)
  have n: "?n \<le> 16" "int ?n = zcl_sizeof_type (at_type a)"
    using zcl_sizeof_type_le [of "at_type a"] assms(1) by simp_all
  consider (raw) "at_flags a AND ZCL_ATTRIB_FLAG_RAW \<noteq> 0"
    | (b24) "at_flags a AND ZCL_ATTRIB_FLAG_RAW = 0" "type_24bit (at_type a)"
    | (bool) "at_flags a AND ZCL_ATTRIB_FLAG_RAW = 0" "at_type a = ZCL_TYPE_LOGICAL_BOOLEAN"
    | (other) "at_flags a AND ZCL_ATTRIB_FLAG_RAW = 0" "\<not> type_24bit (at_type a)"
        "at_type a \<noteq> ZCL_TYPE_LOGICAL_BOOLEAN"
    by blast
  then show ?thesis
  proof cases
    case raw
    then have st: "stored_bytes a buffer = take ?n buffer" using ns by (simp add: stored_bytes_def Let_def)
    have "mem_read ?m (at_value a) ?n = take ?n buffer"
      unfolding st using assms(2) n w by (intro mem_read_write_n) simp_all
    then show ?thesis using raw assms(1,4) w n by (simp add: encode_scalar_def Let_def)
  next
    case b24
    have three: "?n = 3" using type_24bit_size [OF b24(2)] by simp
    then obtain b0 b1 b2 bs where b: "buffer = b0 # b1 # b2 # bs"
      using assms(2) w by (metis (no_types, opaque_lifting) Suc_le_length_iff numeral_3_eq_3)
    obtain x where "stored_bytes a buffer = [x, b2, b1, b0]"
      using b24 ns by (auto simp: stored_bytes_def Let_def zcl_convert_24bit_def b bytes32_be)
    then have "mem_read ?m (at_value a) 4 = [x, b2, b1, b0]" by (simp only:) (intro mem_read_write_n; simp)
    then have "mem_read ?m (at_value a + 1) 3 = [b2, b1, b0]" by (simp add: numeral_eq_Suc)
    then show ?thesis using b24 assms(4) w three ns
      by (auto simp: encode_scalar_def Let_def b type_24bit_def zcl_sizes)
  next
    case bool
    then have one: "?n = 1" by (simp add: zcl_sizes)
    then obtain b bs where b: "buffer = b # bs" using assms(2) w by (cases buffer) auto
    have "stored_bytes a buffer = [b]"
      using bool by (simp add: stored_bytes_def Let_def zcl_sizes type_24bit_def b)
    then show ?thesis using bool assms(3,4) w one bool_byte [of b]
      by (auto simp: encode_scalar_def Let_def b zcl_sizes)
  next
    case other
    then have st: "stored_bytes a buffer = rev (take ?n buffer)" using ns by (simp add: stored_bytes_def Let_def)
    have "mem_read ?m (at_value a) ?n = rev (take ?n buffer)"
      unfolding st using assms(2) n w by (intro mem_read_write_n) simp_all
    then show ?thesis using other ns assms(1,4) w n by (simp add: encode_scalar_def Let_def)
  qed
qed

text \<open>
  C18: Writing and reading back.  When the decoder accepts a value for an attribute of a
  fixed-size or character string type (a string without NUL), it changes no memory but the
  variable (at most one byte more than was received), and encoding the attribute afterwards
  yields exactly the bytes received: for raw and converted, 24-bit and boolean attributes alike.
\<close>

theorem zcl_write_read_roundtrip:
  assumes "decode_attribute a rec m = (n, rec', m')" and "plain_value a"
    and "wr_status rec = ZCL_STATUS_SUCCESS" "wr_flags rec AND ZCL_ATTR_WRITE_FLAG_ASSIGN \<noteq> 0"
    and "wr_status rec' = ZCL_STATUS_SUCCESS" and "n \<le> length (wr_buffer rec)" and "int n \<le> bufsize"
    and "at_type a = ZCL_TYPE_STRING_CHAR \<longrightarrow> 0 \<notin> set (take n (tl (wr_buffer rec)))"
  shows "encode_value m' (at_flags a) (at_type a) (at_value a) bufsize = Inr (take n (wr_buffer rec)) \<and>
    (\<forall>x. (\<forall>i \<le> n. x \<noteq> at_value a + of_nat i) \<longrightarrow> m' x = m x)"
proof
  note d = decode_attribute_assign [OF assms(1-5)]
  have len: "value_width a (wr_buffer rec) \<le> length (wr_buffer rec)" using assms(6) d(1) by simp
  show "encode_value m' (at_flags a) (at_type a) (at_value a) bufsize = Inr (take n (wr_buffer rec))"
  proof (cases "at_type a = ZCL_TYPE_STRING_CHAR")
    case True
    then have "0 \<notin> set (take (unat (hd (wr_buffer rec))) (tl (wr_buffer rec)))"
      using assms(8) d(1) set_take_subset_set_take [of "unat (hd (wr_buffer rec))" n "tl (wr_buffer rec)"]
      by (auto simp: value_width_def)
    then show ?thesis using assms(7)
      unfolding d(4) d(1) encode_value_scalar [OF assms(2) d(3)] by (intro encode_stored_string [OF True len])
  next
    case False
    then have "0 < zcl_sizeof_type (at_type a)" using assms(2) by (simp add: plain_value_def)
    then show ?thesis using assms(7)
      unfolding d(4) d(1) encode_value_scalar [OF assms(2) d(3)] by (intro encode_stored_scalar [OF _ len d(5)])
  qed
  show "\<forall>x. (\<forall>i \<le> n. x \<noteq> at_value a + of_nat i) \<longrightarrow> m' x = m x"
  proof (intro allI impI)
    fix x assume "\<forall>i \<le> n. x \<noteq> at_value a + of_nat i"
    then show "m' x = m x"
      unfolding d(4) using length_stored_bytes(1) [OF len] by (intro mem_write_outside) (simp add: d(1))
  qed
qed

theorem zcl_write_read_roundtrip_witness:
  "encode_value (snd (snd (decode_attribute (demo_attr 1 0 0x2A 256 :: unit zcl_attribute)
       \<lparr>wr_buffer = [1, 2, 0x83, 9], wr_buflen = 4, wr_flags = 1, wr_status = 0\<rparr> (\<lambda>_. 0)))) 0 0x2A 256 3
     = Inr [1, 2, 0x83]"
proof -
  have dec: "decode_attribute (demo_attr 1 0 0x2A 256 :: unit zcl_attribute)
       \<lparr>wr_buffer = [1, 2, 0x83, 9], wr_buflen = 4, wr_flags = 1, wr_status = 0\<rparr> (\<lambda>_. 0) =
     (3, \<lparr>wr_buffer = [1, 2, 0x83, 9], wr_buflen = 4, wr_flags = 1, wr_status = 0\<rparr>,
      mem_write (\<lambda>_. 0) 256 (bytes32 (zcl_convert_24bit (Some [1, 2, 0x83, 9]) True)))"
    by (simp add: decode_attribute_def type_24bit_def)
  show ?thesis
    using zcl_write_read_roundtrip [OF dec, of 3] by (simp add: dec plain_value_def zcl_sizes)
qed

section \<open>Limits\<close>

fun le_value :: "u8 list \<Rightarrow> nat" where
  "le_value [] = 0"
| "le_value (b # bs) = unat b + 256 * le_value bs"

lemma size_cases:
  assumes "1 \<le> s" "s \<le> (4 :: int)"
  obtains "s = 1" | "s = 2" | "s = 3" | "s = 4"
  using assms by linarith

lemma be32_list_4: "be32_list [w, x, y, z] = be32 w x y z"
  by (simp add: be32_list_def)

lemma list_ge_cases:
  "Suc 0 \<le> length buf \<Longrightarrow> \<exists>a bs. buf = a # bs"
  "2 \<le> length buf \<Longrightarrow> \<exists>a b bs. buf = a # b # bs"
  "3 \<le> length buf \<Longrightarrow> \<exists>a b c bs. buf = a # b # c # bs"
  "4 \<le> length buf \<Longrightarrow> \<exists>a b c d bs. buf = a # b # c # d # bs"
  by (auto simp: eval_nat_numeral Suc_le_length_iff)

lemma minmax_plain_value:
  assumes "1 \<le> s" "s \<le> 4" "nat s \<le> length buf"
  shows "unat (be32_list (replicate (nat (4 - s)) 0 @ rev (take (nat s) buf))) = le_value (take (nat s) buf)"
  using assms(1,2)
proof (cases rule: size_cases)
  case 1
  moreover obtain a bs where "buf = a # bs" using assms(3) list_ge_cases(1) [of buf] 1 by auto
  moreover have "replicate (3 :: nat) (0 :: u8) = [0, 0, 0]" by (simp add: eval_nat_numeral)
  ultimately show ?thesis by (simp add: be32_list_4 unat_be32)
next
  case 2
  moreover obtain a b bs where "buf = a # b # bs" using assms(3) list_ge_cases(2) [of buf] 2 by auto
  moreover have "replicate (2 :: nat) (0 :: u8) = [0, 0]" by (simp add: eval_nat_numeral)
  ultimately show ?thesis by (simp add: be32_list_4 unat_be32)
next
  case 3
  moreover obtain a b c bs where "buf = a # b # c # bs" using assms(3) list_ge_cases(3) [of buf] 3 by auto
  ultimately show ?thesis by (simp add: be32_list_4 unat_be32)
next
  case 4
  moreover obtain a b c d bs where "buf = a # b # c # d # bs" using assms(3) list_ge_cases(4) [of buf] 4 by auto
  ultimately show ?thesis by (simp add: be32_list_4 unat_be32)
qed

lemma minmax_flags:
  "(flags :: u8) AND 0x0C = 0 \<longleftrightarrow> flags AND ZCL_ATTRIB_FLAG_HAS_MIN = 0 \<and> flags AND ZCL_ATTRIB_FLAG_HAS_MAX = 0"
proof -
  have "(0x0C :: u8) = ZCL_ATTRIB_FLAG_HAS_MIN OR ZCL_ATTRIB_FLAG_HAS_MAX" by simp
  then show ?thesis by (simp only: bit.conj_disj_distrib or_eq_0_iff)
qed

text \<open>
  Limits of unsigned attributes.  For an attribute of an unsigned type of one to four bytes,
  \<open>zcl_check_minmax\<close> accepts a received little-endian value exactly when it respects the minimum
  and the maximum the attribute has.
\<close>

theorem zcl_check_minmax_unsigned:
  assumes "1 \<le> zcl_sizeof_type (at_type a)" "zcl_sizeof_type (at_type a) \<le> 4"
    and "type_info (at_type a) AND ZCL_T_SIGNED = 0" "type_info (at_type a) AND ZCL_T_FLOAT = 0"
    and "nat (zcl_sizeof_type (at_type a)) \<le> length buf"
  shows "zcl_check_minmax (Some a) (Some buf) = Inr 0 \<longleftrightarrow>
    (at_flags a AND ZCL_ATTRIB_FLAG_HAS_MIN \<noteq> 0 \<longrightarrow>
      unat (at_min a) \<le> le_value (take (nat (zcl_sizeof_type (at_type a))) buf)) \<and>
    (at_flags a AND ZCL_ATTRIB_FLAG_HAS_MAX \<noteq> 0 \<longrightarrow>
      le_value (take (nat (zcl_sizeof_type (at_type a))) buf) \<le> unat (at_max a))"
proof -
  show ?thesis
    using assms minmax_plain_value [OF assms(1,2,5)]
    unfolding zcl_check_minmax_def
    by (auto simp: minmax_flags minmax_value_def Let_def word_less_nat_alt not_less del: of_nat_numeral)
qed

theorem zcl_check_minmax_unsigned_witness:
  "zcl_check_minmax (Some (demo_attr 1 0x0C 0x21 256\<lparr>at_min := 10, at_max := 0x1000\<rparr> :: unit zcl_attribute))
     (Some [0x34, 0x12]) \<noteq> Inr 0"
proof -
  have "type_info 0x21 = 0x22" by (simp add: type_info_def zcl_type_info_def)
  then have "zcl_sizeof_type 0x21 = 2" "type_info 0x21 AND ZCL_T_SIGNED = 0" "type_info 0x21 AND ZCL_T_FLOAT = 0"
    by (simp_all add: zcl_sizeof_type_entry)
  then show ?thesis
    by (subst zcl_check_minmax_unsigned) simp_all
qed

text \<open>
  The sign extension shifts by the size in bytes where it should shift by the size in bits.
\<close>

lemma sint_or_ones:
  fixes v :: u32
  assumes "n < 31"
  shows "- (2 ^ n) \<le> sint (v OR push_bit n (- 1)) \<and> sint (v OR push_bit n (- 1)) < 0"
proof -
  define x where "x = take_bit n (NOT v)"
  have "v OR push_bit n (- 1) = NOT x"
    unfolding x_def by (rule bit_word_eqI) (auto simp: bit_simps)
  moreover define k where "k = uint x"
  ultimately have w: "v OR push_bit n (- 1) = word_of_int (- 1 - k)"
    by (simp add: not_eq_complement)
  have k: "0 \<le> k" "k < 2 ^ n" "(2 :: int) ^ n \<le> 2 ^ 30"
    using assms power_increasing [of n 30 "2 :: int"] by (simp_all add: k_def x_def unsigned_take_bit_eq)
  then have "sint (word_of_int (- 1 - k) :: u32) = - 1 - k"
    by (simp only: signed_of_int of_int_eq_id id_apply) (intro signed_take_bit_int_eq_self; simp)
  then show ?thesis unfolding w using k by simp
qed

text \<open>
  Limits of signed attributes, a defect.  For a signed attribute of one to three bytes every
  negative value is compared as a number of at least -8: the sign extension shifts by the size in
  bytes instead of bits.  A minimum of -8 or less therefore never rejects anything, whatever the value
  received.
\<close>

theorem zcl_check_minmax_negative_passes:
  assumes "1 \<le> zcl_sizeof_type (at_type a)" "zcl_sizeof_type (at_type a) \<le> 3"
    and "type_info (at_type a) AND ZCL_T_SIGNED \<noteq> 0"
    and "buf ! nat (zcl_sizeof_type (at_type a) - 1) AND 0x80 \<noteq> 0"
    and "sint (at_min a) \<le> - 8" and "at_flags a AND ZCL_ATTRIB_FLAG_HAS_MAX \<noteq> 0 \<longrightarrow> 0 \<le> sint (at_max a)"
  shows "zcl_check_minmax (Some a) (Some buf) = Inr 0"
proof -
  define v where "v = minmax_value (zcl_sizeof_type (at_type a)) True buf"
  let ?n = "nat (zcl_sizeof_type (at_type a))"
  have ones: "(0xFFFFFFFF :: u32) = - 1" by simp
  have n: "?n \<le> 3" using assms(2) by simp
  have "sint v < 0 \<and> - (2 ^ ?n) \<le> sint v"
    using assms(2,4) sint_or_ones [of ?n] n
    by (simp add: v_def minmax_value_def Let_def ones del: word_of_int_neg_1)
  moreover have "(2 :: int) ^ ?n \<le> 2 ^ 3" using n by (intro power_increasing) simp_all
  ultimately have bounds: "- 8 \<le> sint v" "sint v < 0" by simp_all
  show ?thesis
    using assms bounds unfolding zcl_check_minmax_def
    by (auto simp: Let_def v_def [symmetric])
qed

theorem zcl_check_minmax_negative_passes_witness:
  "zcl_check_minmax (Some (demo_attr 1 0x04 0x28 256\<lparr>at_min := - 100\<rparr> :: unit zcl_attribute)) (Some [0x80]) = Inr 0"
proof -
  have "type_info 0x28 = 0x61" by (simp add: type_info_def zcl_type_info_def)
  then have "zcl_sizeof_type 0x28 = 1" "type_info 0x28 AND ZCL_T_SIGNED \<noteq> 0"
    by (simp_all add: zcl_sizeof_type_entry)
  then show ?thesis
    by (intro zcl_check_minmax_negative_passes) simp_all
qed

end
