(* ===== verification/Zcl_Command.thy ===== *)
theory Zcl_Command
  imports Zcl_Values
begin

text \<open>
  ZCL commands (\<open>pxbee/pan/zigbee/zigbee_zcl.c\<close>): parsing the header of a received frame, building
  response headers, default responses, and the general commands that read, write and discover
  attributes.  The state is the memory together with the rest of the system.
\<close>

section \<open>Commands and responses\<close>

abbreviation ZCL_FRAME_TYPE_MASK :: u8 where "ZCL_FRAME_TYPE_MASK \<equiv> 0x03"
abbreviation ZCL_FRAME_TYPE_PROFILE :: u8 where "ZCL_FRAME_TYPE_PROFILE \<equiv> 0x00"
abbreviation ZCL_FRAME_TYPE_CLUSTER :: u8 where "ZCL_FRAME_TYPE_CLUSTER \<equiv> 0x01"
abbreviation ZCL_FRAME_MFG_SPECIFIC :: u8 where "ZCL_FRAME_MFG_SPECIFIC \<equiv> 0x04"
abbreviation ZCL_FRAME_DIRECTION :: u8 where "ZCL_FRAME_DIRECTION \<equiv> 0x08"
abbreviation ZCL_FRAME_CLIENT_TO_SERVER :: u8 where "ZCL_FRAME_CLIENT_TO_SERVER \<equiv> 0x00"
abbreviation ZCL_FRAME_DISABLE_DEF_RESP :: u8 where "ZCL_FRAME_DISABLE_DEF_RESP \<equiv> 0x10"

abbreviation ZCL_CMD_READ_ATTRIB :: u8 where "ZCL_CMD_READ_ATTRIB \<equiv> 0x00"
abbreviation ZCL_CMD_READ_ATTRIB_RESP :: u8 where "ZCL_CMD_READ_ATTRIB_RESP \<equiv> 0x01"
abbreviation ZCL_CMD_WRITE_ATTRIB :: u8 where "ZCL_CMD_WRITE_ATTRIB \<equiv> 0x02"
abbreviation ZCL_CMD_WRITE_ATTRIB_UNDIV :: u8 where "ZCL_CMD_WRITE_ATTRIB_UNDIV \<equiv> 0x03"
abbreviation ZCL_CMD_WRITE_ATTRIB_RESP :: u8 where "ZCL_CMD_WRITE_ATTRIB_RESP \<equiv> 0x04"
abbreviation ZCL_CMD_WRITE_ATTRIB_NORESP :: u8 where "ZCL_CMD_WRITE_ATTRIB_NORESP \<equiv> 0x05"
abbreviation ZCL_CMD_DEFAULT_RESP :: u8 where "ZCL_CMD_DEFAULT_RESP \<equiv> 0x0B"
abbreviation ZCL_CMD_DISCOVER_ATTRIB :: u8 where "ZCL_CMD_DISCOVER_ATTRIB \<equiv> 0x0C"
abbreviation ZCL_CMD_DISCOVER_ATTRIB_RESP :: u8 where "ZCL_CMD_DISCOVER_ATTRIB_RESP \<equiv> 0x0D"
abbreviation ZCL_CMD_WRITE_STRUCT_ATTRIB_RESP :: u8 where "ZCL_CMD_WRITE_STRUCT_ATTRIB_RESP \<equiv> 0x10"

abbreviation ZCL_MFG_NONE :: u16 where "ZCL_MFG_NONE \<equiv> 0x0000"

record 's zcl_attribute_tree =
  tr_manufacturer_id :: u16
  tr_server :: "'s attr_ptr option"
  tr_client :: "'s attr_ptr option"

text \<open>\<open>zcl_command_t\<close>; the payload pointer is the bytes from there on.\<close>

record 's zcl_command =
  cmd_envelope :: wpan_envelope
  cmd_frame_control :: u8
  cmd_mfg_code :: u16
  cmd_sequence :: u8
  cmd_command :: u8
  cmd_attributes :: "'s attr_ptr option"
  cmd_zcl_payload :: "u8 list"
  cmd_length :: int

definition zcl_send_response ::
    "(nat \<Rightarrow> ('c, 's) wpan_dev) \<Rightarrow> 's zcl_command option \<Rightarrow> u8 list \<Rightarrow> 's \<Rightarrow> rc \<times> 's" where
  "zcl_send_response devs request response s =
     (case request of
        None \<Rightarrow> (Inl EINVAL, s)
      | Some r \<Rightarrow>
          wpan_envelope_send devs
            (Some ((wpan_envelope_reply (cmd_envelope r))
               \<lparr>env_payload := Some response, env_length := of_nat (length response)\<rparr>)) s)"

text \<open>
  \<open>zcl_build_header\<close>: the five bytes of \<open>zcl_header_response_t\<close>, a union in which the frame
  control is byte 0 for manufacturer-specific commands and byte 2 otherwise.
\<close>

definition zcl_build_header :: "u8 list option \<Rightarrow> 's zcl_command option \<Rightarrow> rc \<times> u8 list option" where
  "zcl_build_header rsp cmd =
     (case (rsp, cmd) of
        (Some h, Some c) \<Rightarrow>
          let frame_control = (ZCL_FRAME_DISABLE_DEF_RESP OR ZCL_FRAME_DIRECTION) XOR
                (cmd_frame_control c AND (ZCL_FRAME_DIRECTION OR ZCL_FRAME_TYPE_MASK));
              h = h[3 := cmd_sequence c] in
          if cmd_frame_control c AND ZCL_FRAME_MFG_SPECIFIC \<noteq> 0 then
            let mfg = bytes16 (htole16 (cmd_mfg_code c)) in
            (Inr 0, Some (h[1 := mfg ! 0, 2 := mfg ! 1, 0 := frame_control OR ZCL_FRAME_MFG_SPECIFIC]))
          else (Inr 2, Some (h[2 := frame_control]))
      | _ \<Rightarrow> (Inl EINVAL, rsp))"

text \<open>
  What every response starts with: the header in a local structure, from \<open>start_response\<close> on.
\<close>

definition response_start :: "'s zcl_command \<Rightarrow> u8 \<Rightarrow> u8 list" where
  "response_start cmd command =
     (case zcl_build_header (Some (replicate 4 0 @ [command])) (Some cmd) of
        (Inr offset, Some h) \<Rightarrow> drop (nat offset) h
      | _ \<Rightarrow> [])"

definition zcl_default_response ::
    "(nat \<Rightarrow> ('c, 's) wpan_dev) \<Rightarrow> 's zcl_command option \<Rightarrow> u8 \<Rightarrow> 's \<Rightarrow> rc \<times> 's" where
  "zcl_default_response devs request status s =
     (case request of
        None \<Rightarrow> (Inl EINVAL, s)
      | Some r \<Rightarrow>
          if status = ZCL_STATUS_SUCCESS \<and> cmd_frame_control r AND ZCL_FRAME_DISABLE_DEF_RESP \<noteq> 0
          then (Inr 0, s)
          else if env_options (cmd_envelope r) AND (WPAN_ENVELOPE_BROADCAST_ADDR OR WPAN_ENVELOPE_BROADCAST_EP) \<noteq> 0
          then (Inr 0, s)
          else if cmd_frame_control r AND ZCL_FRAME_TYPE_MASK = ZCL_FRAME_TYPE_PROFILE
            \<and> cmd_command r = ZCL_CMD_DEFAULT_RESP
          then (Inr 0, s)
          else
            let start = response_start r ZCL_CMD_DEFAULT_RESP in
            zcl_send_response devs request
              ((hd start AND NOT ZCL_FRAME_TYPE_MASK) # tl start @ [cmd_command r, status]) s)"

text \<open>\<open>zcl_command_build\<close>: the walk through the attribute tree, and the parsed command.\<close>

fun tree_attributes :: "'s zcl_attribute_tree list \<Rightarrow> u16 \<Rightarrow> u8 \<Rightarrow> 's attr_ptr option" where
  "tree_attributes [] mfg_code frame_control = None"
| "tree_attributes (t # ts) mfg_code frame_control =
     (if tr_manufacturer_id t = mfg_code then
        if frame_control AND ZCL_FRAME_DIRECTION = ZCL_FRAME_CLIENT_TO_SERVER then tr_server t
        else tr_client t
      else if tr_manufacturer_id t = ZCL_MFG_NONE then None
      else tree_attributes ts mfg_code frame_control)"

definition zcl_command_build ::
    "wpan_envelope option \<Rightarrow> 's zcl_attribute_tree list option \<Rightarrow> errno + 's zcl_command" where
  "zcl_command_build envelope tree =
     (case envelope of
        None \<Rightarrow> Inl EINVAL
      | Some e \<Rightarrow>
          let header = (case env_payload e of Some p \<Rightarrow> p | None \<Rightarrow> []);
              frame_control = header ! 0;
              mfg = (frame_control AND ZCL_FRAME_MFG_SPECIFIC \<noteq> 0);
              mfg_code = (if mfg then le16toh (be16 (header ! 1) (header ! 2)) else ZCL_MFG_NONE);
              common = (if mfg then 3 else 1);
              len = s16 (sint (env_length e) - (if mfg then 5 else 3)) in
          if len < 0 then Inl EBADMSG
          else
            Inr \<lparr>cmd_envelope = e, cmd_frame_control = frame_control, cmd_mfg_code = mfg_code,
                 cmd_sequence = header ! common, cmd_command = header ! (common + 1),
                 cmd_attributes = (case tree of None \<Rightarrow> None | Some ts \<Rightarrow> tree_attributes ts mfg_code frame_control),
                 cmd_zcl_payload = drop (common + 2) header, cmd_length = len\<rparr>)"

section \<open>Write Attributes\<close>

text \<open>
  The loop over the records: \<open>recs\<close> is the status records so far (status and identifier).  Their
  array has 25 entries in the code; the list goes on where the code writes past the array.
  \<open>None\<close> is a loop that does not end, which only a \<open>write\<close> function can bring about.
\<close>

partial_function (option) write_records ::
    "(mem \<times> 'w) attr_ptr option \<Rightarrow> bool \<Rightarrow> zcl_attribute_write_rec \<Rightarrow> u8 list list \<Rightarrow> mem \<times> 'w
     \<Rightarrow> (u8 list list \<times> mem \<times> 'w) option" where
  "write_records attributes pass rec recs s =
     (if wr_buflen rec > 0 then
        let id_le = [wr_buffer rec ! 0, wr_buffer rec ! 1];
            rec = rec\<lparr>wr_flags := (if pass then ZCL_ATTR_WRITE_FLAG_ASSIGN else ZCL_ATTR_WRITE_FLAG_NONE),
                      wr_status := ZCL_STATUS_SUCCESS\<rparr>;
            (r, rec', s) = zcl_parse_attribute_record attributes (Some rec) s;
            rec = the rec'
        in write_records attributes pass rec
             (if wr_status rec \<noteq> ZCL_STATUS_SUCCESS then recs @ [wr_status rec # id_le] else recs) s
      else Some (recs, s))"

definition write_pass :: "(mem \<times> 'w) zcl_command \<Rightarrow> bool \<Rightarrow> mem \<times> 'w \<Rightarrow> (u8 list list \<times> mem \<times> 'w) option" where
  "write_pass cmd pass s =
     write_records (cmd_attributes cmd) pass
       \<lparr>wr_buffer = cmd_zcl_payload cmd, wr_buflen = cmd_length cmd, wr_flags = 0, wr_status = 0\<rparr> [] s"

definition zcl_write_attributes ::
    "(nat \<Rightarrow> ('c, mem \<times> 'w) wpan_dev) \<Rightarrow> (mem \<times> 'w) zcl_command \<Rightarrow> mem \<times> 'w \<Rightarrow> (rc \<times> mem \<times> 'w) option" where
  "zcl_write_attributes devs cmd s =
     (let start = response_start cmd ZCL_CMD_WRITE_ATTRIB_RESP;
          passes =
            (if cmd_command cmd = ZCL_CMD_WRITE_ATTRIB_UNDIV then
               (case write_pass cmd False s of
                  None \<Rightarrow> None
                | Some (recs, s) \<Rightarrow> if recs = [] then write_pass cmd True s else Some (recs, s))
             else write_pass cmd True s)
      in case passes of
           None \<Rightarrow> None
         | Some (recs, s) \<Rightarrow>
             if cmd_command cmd = ZCL_CMD_WRITE_ATTRIB_NORESP then Some (Inr 0, s)
             else if recs = [] then Some (zcl_send_response devs (Some cmd) (start @ [ZCL_STATUS_SUCCESS]) s)
             else Some (zcl_send_response devs (Some cmd) (start @ concat recs) s))"

section \<open>Read Attributes\<close>

text \<open>
  The loop over the requested identifiers; \<open>out\<close> is what the 80-byte buffer of the response holds
  so far.  What the encoder writes past the buffer is in the list as well.
\<close>

fun read_records ::
    "(mem \<times> 'w) attr_ptr option \<Rightarrow> nat \<Rightarrow> u8 list \<Rightarrow> u8 list \<Rightarrow> mem \<times> 'w \<Rightarrow> u8 list \<times> mem \<times> 'w" where
  "read_records attributes 0 id_le out s = (out, s)"
| "read_records attributes (Suc requests) id_le out s =
     (if 80 - int (length out) < 3 then (out, s)
      else
        let attribute = le16toh (be16 (id_le ! 0) (id_le ! 1));
            out = out @ [id_le ! 0, id_le ! 1];
            bytesleft = 80 - int (length out) in
        case zcl_find_attribute attributes attribute of
          None \<Rightarrow> read_records attributes requests (drop 2 id_le) (out @ [ZCL_STATUS_UNSUPPORTED_ATTRIBUTE]) s
        | Some entry \<Rightarrow>
            if at_flags entry AND ZCL_ATTRIB_FLAG_WRITEONLY \<noteq> 0
            then read_records attributes requests (drop 2 id_le) (out @ [ZCL_STATUS_WRITE_ONLY]) s
            else
              (case zcl_encode_attribute_value (bytesleft - 2) (Some entry) s of
                 (Inl status, s) \<Rightarrow> (out @ [status], s)
               | (Inr bytes, s) \<Rightarrow>
                   read_records attributes requests (drop 2 id_le)
                     (out @ [ZCL_STATUS_SUCCESS, at_type entry] @ bytes) s))"

definition zcl_read_attributes ::
    "(nat \<Rightarrow> ('c, mem \<times> 'w) wpan_dev) \<Rightarrow> (mem \<times> 'w) zcl_command option \<Rightarrow> mem \<times> 'w \<Rightarrow> rc \<times> mem \<times> 'w" where
  "zcl_read_attributes devs cmd s =
     (case cmd of
        None \<Rightarrow> (Inl EINVAL, s)
      | Some c \<Rightarrow>
          let payload_length = word_of_int (cmd_length c) :: u16 in
          if payload_length AND 0x0001 \<noteq> 0 then zcl_default_response devs cmd ZCL_STATUS_MALFORMED_COMMAND s
          else
            let (out, s) = read_records (cmd_attributes c) (unat (drop_bit 1 payload_length)) (cmd_zcl_payload c) [] s
            in zcl_send_response devs cmd (response_start c ZCL_CMD_READ_ATTRIB_RESP @ out) s)"

section \<open>Discover Attributes\<close>

abbreviation ZCL_DISCOVER_ATTRIB_MAX :: u8 where "ZCL_DISCOVER_ATTRIB_MAX \<equiv> 20"

text \<open>
  The first loop, up to the start identifier.  Both loops stop at the end marker of the table; a
  table without one is read past its end, which is \<open>None\<close>.
\<close>

function discover_skip :: "'s attr_ptr \<Rightarrow> u16 \<Rightarrow> 's attr_ptr option" where
  "discover_skip [] start = None"
| "discover_skip (a # as) start =
     (if at_id a < start then discover_skip (the (zcl_attribute_get_next (Some (a # as)))) start
      else Some (a # as))"
  by pat_completeness auto

termination
proof (relation "measure (\<lambda>(p, _). length p)", simp)
  fix a :: "'s zcl_attribute" and as start
  assume "at_id a < start"
  then have "at_id a \<noteq> ZCL_ATTRIBUTE_END_OF_LIST"
    using u16_max [of start] by (auto simp: not_less [symmetric])
  then show "((the (zcl_attribute_get_next (Some (a # as))), start), a # as, start)
      \<in> measure (\<lambda>(p, _). length p)"
    by (simp add: zcl_attribute_get_next_def)
qed

text \<open>The second loop: the \<open>complete\<close> field and the records, for at most \<open>remaining\<close> attributes.\<close>

fun discover_records :: "'s attr_ptr \<Rightarrow> nat \<Rightarrow> (u8 \<times> u8 list) option" where
  "discover_records [] remaining = None"
| "discover_records (a # as) 0 = Some (if at_id a = ZCL_ATTRIBUTE_END_OF_LIST then 1 else 0, [])"
| "discover_records (a # as) (Suc remaining) =
     (if at_id a = ZCL_ATTRIBUTE_END_OF_LIST then Some (1, [])
      else
        map_option (\<lambda>(complete, recs). (complete, bytes16 (htole16 (at_id a)) @ [at_type a] @ recs))
          (discover_records (the (zcl_attribute_get_next (Some (a # as)))) remaining))"

definition zcl_discover_attributes ::
    "(nat \<Rightarrow> ('c, 's) wpan_dev) \<Rightarrow> 's zcl_command option \<Rightarrow> 's \<Rightarrow> (rc \<times> 's) option" where
  "zcl_discover_attributes devs cmd s =
     (case cmd of
        None \<Rightarrow> Some (Inl EINVAL, s)
      | Some c \<Rightarrow>
          let discover = cmd_zcl_payload c;
              found =
                (case cmd_attributes c of
                   None \<Rightarrow> Some (1, [])
                 | Some attribute \<Rightarrow>
                     let start_attrib_id = le16toh (be16 (discover ! 0) (discover ! 1));
                         max_return_count = discover ! 2;
                         remaining = (if max_return_count > ZCL_DISCOVER_ATTRIB_MAX
                                      then ZCL_DISCOVER_ATTRIB_MAX else max_return_count)
                     in case discover_skip attribute start_attrib_id of
                          None \<Rightarrow> None
                        | Some attribute \<Rightarrow> discover_records attribute (unat remaining))
          in case found of
               None \<Rightarrow> None
             | Some (complete, recs) \<Rightarrow>
                 Some (zcl_send_response devs cmd (response_start c ZCL_CMD_DISCOVER_ATTRIB_RESP @ [complete] @ recs) s))"

section \<open>Dispatching commands\<close>

definition zcl_invalid_cluster ::
    "(nat \<Rightarrow> ('c, 's) wpan_dev) \<Rightarrow> wpan_envelope option \<Rightarrow> 's \<Rightarrow> rc \<times> 's" where
  "zcl_invalid_cluster devs envelope s =
     (case zcl_command_build envelope None of
        Inl e \<Rightarrow> (Inl e, s)
      | Inr zcl \<Rightarrow> zcl_default_response devs (Some zcl) ZCL_STATUS_FAILURE s)"

definition zcl_invalid_command ::
    "(nat \<Rightarrow> ('c, 's) wpan_dev) \<Rightarrow> wpan_envelope option \<Rightarrow> 's \<Rightarrow> rc \<times> 's" where
  "zcl_invalid_command devs envelope s =
     (case zcl_command_build envelope None of
        Inl e \<Rightarrow> (Inl e, s)
      | Inr zcl \<Rightarrow>
          let status = (if cmd_frame_control zcl AND ZCL_FRAME_MFG_SPECIFIC \<noteq> 0
                        then ZCL_STATUS_UNSUP_MANUF_GENERAL_COMMAND else ZCL_STATUS_UNSUP_GENERAL_COMMAND);
              status = (if cmd_frame_control zcl AND ZCL_FRAME_TYPE_MASK = ZCL_FRAME_TYPE_CLUSTER
                        then status - 1 else status)
          in zcl_default_response devs (Some zcl) status s)"

text \<open>
  \<open>zcl_general_command\<close>: besides the result the conversations of the endpoints and the state.
  \<open>None\<close> is what the loops above and \<open>wpan_conversation_response\<close> return it for.
\<close>

definition zcl_general_command ::
    "(mem \<times> 'w) respond \<Rightarrow> (nat \<Rightarrow> ('c, mem \<times> 'w) wpan_dev) \<Rightarrow> (nat \<Rightarrow> wpan_ep_state) \<Rightarrow> wpan_envelope option
     \<Rightarrow> (mem \<times> 'w) zcl_attribute_tree list option \<Rightarrow> mem \<times> 'w
     \<Rightarrow> (rc \<times> (nat \<Rightarrow> wpan_ep_state) \<times> mem \<times> 'w) option" where
  "zcl_general_command respond devs states envelope context s =
     (let keep = (\<lambda>(r, s). (r, states, s));
          invalid = (\<lambda>states s. let (r, s) = zcl_invalid_command devs envelope s in Some (r, states, s)) in
      case zcl_command_build envelope context of
        Inl e \<Rightarrow> Some (Inl e, states, s)
      | Inr zcl \<Rightarrow>
          if cmd_frame_control zcl AND ZCL_FRAME_TYPE_MASK \<noteq> ZCL_FRAME_TYPE_PROFILE then invalid states s
          else if cmd_command zcl = ZCL_CMD_DISCOVER_ATTRIB
          then map_option keep (zcl_discover_attributes devs (Some zcl) s)
          else if cmd_command zcl = ZCL_CMD_READ_ATTRIB
          then Some (keep (zcl_read_attributes devs (Some zcl) s))
          else if cmd_command zcl \<in> {ZCL_CMD_WRITE_ATTRIB, ZCL_CMD_WRITE_ATTRIB_UNDIV, ZCL_CMD_WRITE_ATTRIB_NORESP}
          then map_option keep (zcl_write_attributes devs zcl s)
          else if cmd_command zcl \<in> {ZCL_CMD_DEFAULT_RESP, ZCL_CMD_READ_ATTRIB_RESP, ZCL_CMD_WRITE_ATTRIB_RESP,
                    ZCL_CMD_DISCOVER_ATTRIB_RESP, ZCL_CMD_WRITE_STRUCT_ATTRIB_RESP}
          then (case wpan_conversation_response respond devs states None (cmd_sequence zcl) envelope s of
                  None \<Rightarrow> None
                | Some (conversation, states, s) \<Rightarrow>
                    (case conversation of
                       Inr r \<Rightarrow> if r \<ge> 0 then Some (Inr r, states, s) else invalid states s
                     | Inl e \<Rightarrow> invalid states s))
          else invalid states s)"

text \<open>\<open>zcl_status_text\<close>.\<close>

definition zcl_status_texts :: "(u8 \<times> string) list" where
  "zcl_status_texts =
     [(0x00, ''Success''), (0x01, ''Failure''), (0x7E, ''Not Authorized''), (0x7F, ''Rerserved Field Not Zero''),
      (0x80, ''Malformed Command''), (0x81, ''Unsupported Cluster Command''),
      (0x82, ''Unsupported General Command''), (0x83, ''Unsup. Mfg Cluster Command''),
      (0x84, ''Unsup. Mfg General Command''), (0x85, ''Invalid Field''), (0x86, ''Unsupported Attribute''),
      (0x87, ''Invalid Value''), (0x88, ''Read-only''), (0x89, ''Insufficient Space''), (0x8A, ''Duplicate Exists''),
      (0x8B, ''Not Found''), (0x8C, ''Unreportable Attribute''), (0x8D, ''Invalid Data Type''),
      (0x8E, ''Invalid Selector''), (0x8F, ''Write-only''), (0x90, ''Inconsistent Startup State''),
      (0x91, ''Defined Out Of Band''), (0xC0, ''Hardware Failure''), (0xC1, ''Software Failure''),
      (0xC2, ''Calibration Error'')]"

definition zcl_status_text :: "u8 \<Rightarrow> string" where
  "zcl_status_text status =
     (case map_of zcl_status_texts status of
        Some text \<Rightarrow> text
      | None \<Rightarrow> ''Unknown (0x'' @ fmt_02x status @ '')'')"

end
