(* ===== verification/Zcl_Replies.thy ===== *)
theory Zcl_Replies
  imports Zcl_Command
begin

text \<open>
  What the ZCL layer answers: the header of a response as the requester parses it, and the frames that
  get no default response.
\<close>

section \<open>Response headers\<close>

text \<open>The frame control of a response.\<close>

definition reply_control :: "u8 \<Rightarrow> u8" where
  "reply_control fc = (0x18 XOR (fc AND 0x0B)) OR (fc AND ZCL_FRAME_MFG_SPECIFIC)"

lemma u8_and_bits:
  "(fc :: u8) AND 4 = 0 \<longleftrightarrow> \<not> bit fc 2" "fc AND 8 = 0 \<longleftrightarrow> \<not> bit fc 3" "fc AND 0x10 = 0 \<longleftrightarrow> \<not> bit fc 4"
  using and_exp_eq_0_iff_not_bit [of fc 2] and_exp_eq_0_iff_not_bit [of fc 3] and_exp_eq_0_iff_not_bit [of fc 4]
  by simp_all

lemma reply_control_bits:
  "reply_control fc AND ZCL_FRAME_MFG_SPECIFIC = fc AND ZCL_FRAME_MFG_SPECIFIC"
  "reply_control fc AND ZCL_FRAME_TYPE_MASK = fc AND ZCL_FRAME_TYPE_MASK"
  "reply_control fc AND ZCL_FRAME_DIRECTION = 0 \<longleftrightarrow> fc AND ZCL_FRAME_DIRECTION \<noteq> 0"
  "reply_control fc AND ZCL_FRAME_DISABLE_DEF_RESP \<noteq> 0"
proof -
  show "reply_control fc AND ZCL_FRAME_MFG_SPECIFIC = fc AND ZCL_FRAME_MFG_SPECIFIC"
    "reply_control fc AND ZCL_FRAME_TYPE_MASK = fc AND ZCL_FRAME_TYPE_MASK"
    by (rule u8_bits_eqI; auto simp: reply_control_def bit_simps)+
qed (auto simp: u8_and_bits reply_control_def bit_simps)

lemma reply_control_mfg:
  "fc AND ZCL_FRAME_MFG_SPECIFIC \<noteq> 0 \<Longrightarrow> reply_control fc = (0x18 XOR (fc AND 0x0B)) OR ZCL_FRAME_MFG_SPECIFIC"
  "fc AND ZCL_FRAME_MFG_SPECIFIC = 0 \<Longrightarrow> reply_control fc = 0x18 XOR (fc AND 0x0B)"
  unfolding u8_and_bits
  by (rule u8_bits_eqI; auto simp: reply_control_def bit_simps)+

lemma response_start_eq:
  "response_start cmd command =
     reply_control (cmd_frame_control cmd) #
     (if cmd_frame_control cmd AND ZCL_FRAME_MFG_SPECIFIC \<noteq> 0 then bytes16 (htole16 (cmd_mfg_code cmd)) else []) @
     [cmd_sequence cmd, command]"
  by (auto simp: response_start_def zcl_build_header_def Let_def reply_control_mfg numeral_eq_Suc bytes16_def)

lemma sint_of_nat_u16: "n < 32768 \<Longrightarrow> sint (of_nat n :: u16) = int n"
  by (simp only: signed_of_nat of_int_eq_id id_apply) (intro signed_take_bit_int_eq_self; simp)

text \<open>
  The header of a response.  When the frame that starts with the header built for a command is
  received by the requester, \<open>zcl_command_build\<close> finds the same transaction sequence number, the
  same manufacturer code, the same frame type, the opposite direction, default responses
  disabled, the response command, and the rest as payload.
\<close>

theorem zcl_response_header_roundtrip:
  assumes "env_payload e = Some (response_start cmd command @ rest)"
    and "env_length e = of_nat (length (response_start cmd command @ rest))" "length rest < 32000"
    and "cmd_frame_control cmd AND ZCL_FRAME_MFG_SPECIFIC = 0 \<longrightarrow> cmd_mfg_code cmd = ZCL_MFG_NONE"
  shows "\<exists>c. zcl_command_build (Some e) None = Inr (c :: 's zcl_command) \<and>
    cmd_sequence c = cmd_sequence cmd \<and> cmd_mfg_code c = cmd_mfg_code cmd \<and> cmd_command c = command \<and>
    cmd_zcl_payload c = rest \<and> cmd_length c = int (length rest) \<and>
    cmd_frame_control c AND ZCL_FRAME_TYPE_MASK = cmd_frame_control cmd AND ZCL_FRAME_TYPE_MASK \<and>
    (cmd_frame_control c AND ZCL_FRAME_DIRECTION = 0 \<longleftrightarrow> cmd_frame_control cmd AND ZCL_FRAME_DIRECTION \<noteq> 0) \<and>
    cmd_frame_control c AND ZCL_FRAME_DISABLE_DEF_RESP \<noteq> 0"
proof -
  obtain lo hi where mfg: "bytes16 (htole16 (cmd_mfg_code cmd)) = [lo, hi]" "be16 lo hi = htole16 (cmd_mfg_code cmd)"
    by (simp add: bytes16_def be16_bytes)
  show ?thesis
  proof (cases "cmd_frame_control cmd AND ZCL_FRAME_MFG_SPECIFIC = 0")
    case True
    then show ?thesis
      using assms(1-3) assms(4) [rule_format, OF True]
      by (simp add: zcl_command_build_def Let_def response_start_eq reply_control_bits sint_of_nat_u16
          del: of_nat_add of_nat_Suc)
  next
    case False
    then show ?thesis
      using assms(1-3)
      by (simp add: zcl_command_build_def Let_def mfg response_start_eq reply_control_bits sint_of_nat_u16
          del: of_nat_add of_nat_Suc)
  qed
qed

section \<open>Default responses\<close>

text \<open>The frame of a default response.\<close>

definition default_frame :: "'s zcl_command \<Rightarrow> u8 \<Rightarrow> u8 list" where
  "default_frame r status =
     (let start = response_start r ZCL_CMD_DEFAULT_RESP
      in (hd start AND NOT ZCL_FRAME_TYPE_MASK) # tl start @ [cmd_command r, status])"

definition is_broadcast :: "wpan_envelope \<Rightarrow> bool" where
  "is_broadcast e \<longleftrightarrow> env_options e AND (WPAN_ENVELOPE_BROADCAST_ADDR OR WPAN_ENVELOPE_BROADCAST_EP) \<noteq> 0"

definition is_default_response :: "'s zcl_command \<Rightarrow> bool" where
  "is_default_response c \<longleftrightarrow> cmd_frame_control c AND ZCL_FRAME_TYPE_MASK = ZCL_FRAME_TYPE_PROFILE
     \<and> cmd_command c = ZCL_CMD_DEFAULT_RESP"

lemma default_response_cases:
  "zcl_default_response devs (Some r) status s =
     (if (status = ZCL_STATUS_SUCCESS \<and> cmd_frame_control r AND ZCL_FRAME_DISABLE_DEF_RESP \<noteq> 0)
         \<or> is_broadcast (cmd_envelope r) \<or> is_default_response r
      then (Inr 0, s) else zcl_send_response devs (Some r) (default_frame r status) s)"
  by (auto simp: zcl_default_response_def is_broadcast_def is_default_response_def default_frame_def Let_def)

lemma command_build_envelope:
  "zcl_command_build (Some e) tree = Inr c \<Longrightarrow> cmd_envelope c = e"
  by (auto simp: zcl_command_build_def Let_def split: if_splits)

lemma command_build_tree:
  "zcl_command_build (Some e) tree = Inr c \<Longrightarrow>
     zcl_command_build (Some e) tree' = Inr (c\<lparr>cmd_attributes :=
       (case tree' of None \<Rightarrow> None | Some ts \<Rightarrow> tree_attributes ts (cmd_mfg_code c) (cmd_frame_control c))\<rparr>)"
  by (auto simp: zcl_command_build_def Let_def split: if_splits option.splits)

lemma is_default_response_update [simp]: "is_default_response (c\<lparr>cmd_attributes := x\<rparr>) = is_default_response c"
  by (simp add: is_default_response_def)

lemma invalid_command_silent:
  assumes "zcl_command_build (Some e) tree = Inr (c :: 's zcl_command)" and "is_broadcast e \<or> is_default_response c"
  shows "zcl_invalid_command devs (Some e) s = (Inr 0, s :: 's)"
  using command_build_tree [OF assms(1), of None] assms(2) command_build_envelope [OF assms(1)]
  by (simp add: zcl_invalid_command_def default_response_cases Let_def)

text \<open>
  No answers to answers.  A default response that belongs to no conversation is never answered:
  the general command handler returns 0 and changes nothing, so two nodes cannot keep answering each
  other.  The same holds for any unsupported cluster command that was broadcast.
\<close>

theorem zcl_default_response_not_answered:
  assumes "zcl_command_build (Some e) tree = Inr (c :: (mem \<times> 'w) zcl_command)"
    and "is_default_response c \<and>
           wpan_conversation_response respond devs states None (cmd_sequence c) (Some e) s = Some (Inl err, states, s) \<or>
         is_broadcast e \<and> cmd_frame_control c AND ZCL_FRAME_TYPE_MASK \<noteq> ZCL_FRAME_TYPE_PROFILE"
  shows "zcl_general_command respond devs states (Some e) tree s = Some (Inr 0, states, s)"
  using assms(2)
proof (elim disjE conjE)
  assume d: "is_default_response c"
    and r: "wpan_conversation_response respond devs states None (cmd_sequence c) (Some e) s = Some (Inl err, states, s)"
  show ?thesis
    using d invalid_command_silent [OF assms(1) disjI2 [OF d], of devs s]
    by (simp add: zcl_general_command_def assms(1) is_default_response_def r)
next
  assume "is_broadcast e" "cmd_frame_control c AND ZCL_FRAME_TYPE_MASK \<noteq> ZCL_FRAME_TYPE_PROFILE"
  then show ?thesis
    using invalid_command_silent [OF assms(1) disjI1, of devs s]
    by (simp add: zcl_general_command_def assms(1))
qed

text \<open>A device whose \<open>endpoint_send\<close> records the frames, for examples.\<close>

definition frame_log_dev :: "(unit, mem \<times> u8 list list) wpan_dev" where
  "frame_log_dev =
     \<lparr>dev_tick = None,
      dev_endpoint_send = Some (\<lambda>e f (m, sent). (Inr 0, m, sent @ [the (env_payload e)])),
      dev_endpoint_get_next = None, dev_ieee = [], dev_network = 0, dev_payload = 84, dev_flags = 0,
      dev_endpoint_table = None\<rparr>"

definition sample_envelope :: "u16 \<Rightarrow> u8 list \<Rightarrow> wpan_envelope" where
  "sample_envelope options payload =
     \<lparr>env_dev = Some 0, env_ieee_address = replicate 8 0, env_network_address = 0, env_profile_id = 0x104,
      env_cluster_id = 6, env_source_endpoint = 1, env_dest_endpoint = 2, env_options = options,
      env_payload = Some payload, env_length = of_nat (length payload)\<rparr>"

lemma sample_envelope_sel [simp]:
  "env_payload (sample_envelope opts p) = Some p" "env_length (sample_envelope opts p) = of_nat (length p)"
  "env_options (sample_envelope opts p) = opts" "env_cluster_id (sample_envelope opts p) = 6"
  by (simp_all add: sample_envelope_def)

definition sample_command :: "'s zcl_command" where
  "sample_command =
     \<lparr>cmd_envelope = sample_envelope 0 [], cmd_frame_control = 0x05, cmd_mfg_code = 0x1234, cmd_sequence = 7,
      cmd_command = 3, cmd_attributes = None, cmd_zcl_payload = [], cmd_length = 0\<rparr>"

theorem zcl_response_header_roundtrip_witness:
  "\<exists>c. zcl_command_build (Some (sample_envelope 0 (response_start (sample_command :: unit zcl_command) 4 @ [9, 8]))) None
      = Inr (c :: unit zcl_command) \<and>
    cmd_sequence c = 7 \<and> cmd_mfg_code c = 0x1234 \<and> cmd_zcl_payload c = [9, 8]"
  using zcl_response_header_roundtrip
      [of "sample_envelope 0 (response_start (sample_command :: unit zcl_command) 4 @ [9, 8])"
        "sample_command :: unit zcl_command" 4 "[9, 8]"]
  by (auto simp: sample_command_def)

theorem zcl_default_response_not_answered_witness:
  "zcl_general_command (\<lambda>_ c _ s. (Inr 0, c, s)) (\<lambda>_. frame_log_dev) (\<lambda>_. ep_state_idle)
      (Some (sample_envelope WPAN_ENVELOPE_BROADCAST_ADDR [0x01, 5, 0x77])) None (\<lambda>_. 0, [])
    = Some (Inr 0, \<lambda>_. ep_state_idle, \<lambda>_. 0, [])"
  by (rule zcl_default_response_not_answered
        [where c = "\<lparr>cmd_envelope = sample_envelope WPAN_ENVELOPE_BROADCAST_ADDR [0x01, 5, 0x77],
          cmd_frame_control = 0x01, cmd_mfg_code = 0, cmd_sequence = 5, cmd_command = 0x77,
          cmd_attributes = None, cmd_zcl_payload = [], cmd_length = 0\<rparr>"])
    (simp_all add: zcl_command_build_def is_broadcast_def)

end
