(* ===== verification/Zcl_General.thy ===== *)
theory Zcl_General
  imports Zcl_Replies
begin

text \<open>
  The commands that write, read and discover attributes: they return, an undivided write happens
  completely or not at all (with the exception shown), and the sizes and contents of the
  responses.
\<close>

section \<open>Writing\<close>

lemma decode_attribute_buflen:
  "decode_attribute a rec m = (n, rec', m') \<Longrightarrow>
     wr_buflen rec' = wr_buflen rec \<and> wr_buffer rec' = wr_buffer rec \<and> wr_flags rec' = wr_flags rec"
  by (auto simp: decode_attribute_def Let_def split_beta)

lemma decode_attribute_buflen_fst [simp]:
  "wr_buflen (fst (snd (decode_attribute a rec m))) = wr_buflen rec"
  using decode_attribute_buflen [of a rec m] by (cases "decode_attribute a rec m") auto

text \<open>The contract of \<open>write\<close> functions: they report what they consumed and leave the count to the caller.\<close>

definition write_contract :: "'s attr_ptr option \<Rightarrow> bool" where
  "write_contract attrs \<longleftrightarrow>
     (\<forall>as a f. attrs = Some as \<longrightarrow> a \<in> set as \<longrightarrow> at_write a = Some f \<longrightarrow>
       (\<forall>rec s. wr_buflen (fst (snd (f rec s))) \<le> wr_buflen rec))"

lemma find_attribute_loop_set:
  "find_attribute_loop as i = Some p \<Longrightarrow> p \<noteq> [] \<and> set p \<subseteq> set as \<and> at_id (hd p) = i"
proof (induction as i rule: find_attribute_loop.induct)
  case (2 a as i)
  show ?case
  proof (cases "at_id a < i")
    case True
    then have "at_id a \<noteq> ZCL_ATTRIBUTE_END_OF_LIST" using u16_max [of i] by (auto simp: not_less [symmetric])
    then show ?thesis using 2 True by (auto simp: zcl_attribute_get_next_def)
  next
    case False
    then show ?thesis using "2.prems" by (auto split: if_splits)
  qed
qed simp

lemma zcl_find_attribute_mem:
  "zcl_find_attribute attrs i = Some a \<Longrightarrow> \<exists>as. attrs = Some as \<and> a \<in> set as \<and> at_id a = i"
  by (auto simp: zcl_find_attribute_def split: option.splits dest!: find_attribute_loop_set)

lemma consume_value_buflen:
  assumes "\<And>f rec s. at_write a = Some f \<Longrightarrow> wr_buflen (fst (snd (f rec s))) \<le> wr_buflen rec"
  shows "wr_buflen (fst (consume_value a rec s)) \<le> wr_buflen rec"
proof (cases "if at_flags a AND ZCL_ATTRIB_FLAG_FULL \<noteq> 0 then at_write a else None")
  case None
  then show ?thesis
    by (simp add: consume_value_def Let_def split_beta)
next
  case (Some f)
  then have "wr_buflen (fst (snd (f rec s))) \<le> wr_buflen rec" by (intro assms) (simp split: if_splits)
  then show ?thesis using Some by (auto simp: consume_value_def Let_def split_beta)
qed

lemma consume_fake_buflen: "wr_buflen (fst (consume_value (fake_attribute i t) rec s)) \<le> wr_buflen rec"
  by (rule consume_value_buflen) (simp add: fake_attribute_def)

text \<open>Parsing a record of a write request.\<close>

lemma parse_write_request:
  assumes "wr_flags rec AND ZCL_ATTR_WRITE_FLAG_READ_RESP = 0"
  shows "snd (zcl_parse_attribute_record attrs (Some rec) s) =
    (let found = zcl_find_attribute attrs (le16toh (be16 (wr_buffer rec ! 0) (wr_buffer rec ! 1)));
         type = wr_buffer rec ! 2;
         rec1 = rec\<lparr>wr_buffer := drop 3 (wr_buffer rec), wr_buflen := wr_buflen rec - 3\<rparr>;
         status = record_status found type rec1
     in if wr_buflen rec < 3 then (Some (rec\<lparr>wr_status := ZCL_STATUS_MALFORMED_COMMAND, wr_buflen := 0\<rparr>), s)
        else if status = ZCL_STATUS_MALFORMED_COMMAND then (Some (rec1\<lparr>wr_status := status, wr_buflen := 0\<rparr>), s)
        else apfst Some
          (if status \<noteq> ZCL_STATUS_SUCCESS
           then consume_value (fake_attribute (le16toh (be16 (wr_buffer rec ! 0) (wr_buffer rec ! 1))) type)
             (rec1\<lparr>wr_status := status, wr_flags := wr_flags rec AND NOT ZCL_ATTR_WRITE_FLAG_ASSIGN\<rparr>) s
           else consume_value (the found) (rec1\<lparr>wr_status := status\<rparr>) s))"
  using assms by (auto simp: zcl_parse_attribute_record_def Let_def split_beta apfst_def map_prod_def)

lemma record_status_found:
  "record_status found type rec = ZCL_STATUS_SUCCESS \<Longrightarrow> \<exists>a. found = Some a \<and> at_type a = type"
  by (auto simp: record_status_def Let_def split: option.splits if_splits)

text \<open>A parsed record consumes at least its header.\<close>

lemma parse_attribute_record_decreases:
  assumes "write_contract attrs" "0 < wr_buflen rec" "wr_flags rec AND ZCL_ATTR_WRITE_FLAG_READ_RESP = 0"
  shows "\<exists>rec' s'. snd (zcl_parse_attribute_record attrs (Some rec) s) = (Some rec', s') \<and>
    wr_buflen rec' < wr_buflen rec"
proof -
  let ?i = "le16toh (be16 (wr_buffer rec ! 0) (wr_buffer rec ! 1))" and ?t = "wr_buffer rec ! 2"
  let ?found = "zcl_find_attribute attrs ?i"
  let ?rec1 = "rec\<lparr>wr_buffer := drop 3 (wr_buffer rec), wr_buflen := wr_buflen rec - 3\<rparr>"
  let ?st = "record_status ?found ?t ?rec1"
  have found: "wr_buflen (fst (consume_value (the ?found) (?rec1\<lparr>wr_status := ?st\<rparr>) s)) \<le> wr_buflen rec - 3"
    if st: "?st = ZCL_STATUS_SUCCESS"
  proof -
    obtain a where a: "?found = Some a" using record_status_found [OF st] by blast
    then have "wr_buflen (fst (consume_value a (?rec1\<lparr>wr_status := ?st\<rparr>) s)) \<le> wr_buflen (?rec1\<lparr>wr_status := ?st\<rparr>)"
      using assms(1) zcl_find_attribute_mem [OF a] by (intro consume_value_buflen) (auto simp: write_contract_def)
    then show ?thesis by (simp add: a del: One_nat_def)
  qed
  have fake: "wr_buflen (fst (consume_value (fake_attribute ?i ?t)
      (?rec1\<lparr>wr_status := ?st, wr_flags := wr_flags rec AND NOT ZCL_ATTR_WRITE_FLAG_ASSIGN\<rparr>) s)) \<le> wr_buflen rec - 3"
    using consume_fake_buflen [of ?i ?t
        "?rec1\<lparr>wr_status := ?st, wr_flags := wr_flags rec AND NOT ZCL_ATTR_WRITE_FLAG_ASSIGN\<rparr>" s] by simp
  show ?thesis
    unfolding parse_write_request [OF assms(3)] Let_def
    using assms(2) found fake
    by (cases "consume_value (the ?found) (?rec1\<lparr>wr_status := ?st\<rparr>) s";
        cases "consume_value (fake_attribute ?i ?t)
          (?rec1\<lparr>wr_status := ?st, wr_flags := wr_flags rec AND NOT ZCL_ATTR_WRITE_FLAG_ASSIGN\<rparr>) s") auto
qed

lemma write_records_returns:
  assumes "write_contract attrs"
  shows "\<exists>res. write_records attrs pass rec recs s = Some res"
proof (induction "nat (wr_buflen rec)" arbitrary: rec recs s rule: less_induct)
  case less
  show ?case
  proof (cases "wr_buflen rec > 0")
    case False
    then show ?thesis by (simp add: write_records.simps)
  next
    case True
    let ?rec = "rec\<lparr>wr_flags := (if pass then ZCL_ATTR_WRITE_FLAG_ASSIGN else ZCL_ATTR_WRITE_FLAG_NONE),
                      wr_status := ZCL_STATUS_SUCCESS\<rparr>"
    obtain r rec' s' where p: "zcl_parse_attribute_record attrs (Some ?rec) s = (r, Some rec', s')"
      and d: "wr_buflen rec' < wr_buflen rec"
      using parse_attribute_record_decreases [OF assms, of ?rec s] True by (cases pass) (auto simp: prod_eq_iff)
    have "nat (wr_buflen rec') < nat (wr_buflen rec)" using d True by simp
    from less [OF this] show ?thesis
      using True p by (subst write_records.simps) (simp add: Let_def)
  qed
qed


subsection \<open>Undivided writes\<close>

definition same_progress :: "zcl_attribute_write_rec \<Rightarrow> zcl_attribute_write_rec \<Rightarrow> bool" where
  "same_progress r1 r2 \<longleftrightarrow> wr_buffer r1 = wr_buffer r2 \<and> wr_buflen r1 = wr_buflen r2 \<and> wr_status r1 = wr_status r2"

text \<open>
  What an undivided write needs of the attributes' \<open>write\<close> functions: asked to check, a function
  changes nothing, and it accepts the same values when it is asked to assign.
\<close>

definition two_pass_contract :: "'s attr_ptr option \<Rightarrow> bool" where
  "two_pass_contract attrs \<longleftrightarrow>
     (\<forall>as a f. attrs = Some as \<longrightarrow> a \<in> set as \<longrightarrow> at_write a = Some f \<longrightarrow>
       (\<forall>r1 r2 s s'. same_progress r1 r2 \<longrightarrow> wr_flags r1 AND ZCL_ATTR_WRITE_FLAG_ASSIGN = 0 \<longrightarrow>
          snd (snd (f r1 s)) = s \<and> fst (f r1 s) = fst (f r2 s') \<and>
          same_progress (fst (snd (f r1 s))) (fst (snd (f r2 s')))))"

text \<open>
  A ghost attribute has neither a variable nor a \<open>write\<close> function.  The two passes agree on how far
  they get, and a value that the check accepts is only refused later when it is one of a ghost.
\<close>

definition ghost :: "'s zcl_attribute \<Rightarrow> bool" where
  "ghost a \<longleftrightarrow> at_value a = 0 \<and> (at_flags a AND ZCL_ATTRIB_FLAG_FULL = 0 \<or> at_write a = None)"

definition passes_agree :: "bool \<Rightarrow> zcl_attribute_write_rec \<Rightarrow> zcl_attribute_write_rec \<Rightarrow> bool" where
  "passes_agree g r1 r2 \<longleftrightarrow> wr_buffer r1 = wr_buffer r2 \<and> wr_buflen r1 = wr_buflen r2 \<and>
     (wr_status r2 = wr_status r1 \<or>
      g \<and> wr_status r1 = ZCL_STATUS_SUCCESS \<and> wr_status r2 = ZCL_STATUS_DEFINED_OUT_OF_BAND)"

lemma same_progress_agree: "same_progress r1 r2 \<Longrightarrow> passes_agree g r1 r2"
  by (simp add: same_progress_def passes_agree_def)

lemma decode_attribute_agree:
  assumes "same_progress r1 r2" "wr_flags r1 AND ZCL_ATTR_WRITE_FLAG_ASSIGN = 0"
  shows "fst (decode_attribute a r1 m) = fst (decode_attribute a r2 m')"
    and "passes_agree (at_value a = 0) (fst (snd (decode_attribute a r1 m))) (fst (snd (decode_attribute a r2 m')))"
  using assms by (auto simp: decode_attribute_def Let_def split_beta type_24bit_def same_progress_def passes_agree_def)

lemma decode_attribute_check:
  "wr_flags rec AND ZCL_ATTR_WRITE_FLAG_ASSIGN = 0 \<Longrightarrow> snd (snd (decode_attribute a rec m)) = m"
  by (simp add: decode_attribute_def Let_def split_beta)

lemma consume_value_agree:
  assumes "two_pass_contract (Some as)" "a \<in> set as" "same_progress r1 r2" "wr_flags r1 AND ZCL_ATTR_WRITE_FLAG_ASSIGN = 0"
  shows "passes_agree (ghost a) (fst (consume_value a r1 s)) (fst (consume_value a r2 s'))"
    and "snd (consume_value a r1 s) = s"
proof -
  have "passes_agree (ghost a) (fst (consume_value a r1 s)) (fst (consume_value a r2 s')) \<and> snd (consume_value a r1 s) = s"
  proof (cases "if at_flags a AND ZCL_ATTRIB_FLAG_FULL \<noteq> 0 then at_write a else None")
    case None
    then have "ghost a \<longleftrightarrow> at_value a = 0" by (auto simp: ghost_def split: if_splits)
    then show ?thesis
      using decode_attribute_agree [OF assms(3,4), of a "fst s" "fst s'"] decode_attribute_check [OF assms(4), of a "fst s"] None
      by (simp add: consume_value_def Let_def split_beta passes_agree_def)
  next
    case (Some f)
    then have "at_write a = Some f" by (simp split: if_splits)
    then have "snd (snd (f r1 s)) = s \<and> fst (f r1 s) = fst (f r2 s') \<and>
        same_progress (fst (snd (f r1 s))) (fst (snd (f r2 s')))"
      using assms unfolding two_pass_contract_def by blast
    then show ?thesis using Some by (simp add: consume_value_def Let_def split_beta passes_agree_def same_progress_def)
  qed
  then show "passes_agree (ghost a) (fst (consume_value a r1 s)) (fst (consume_value a r2 s'))"
    "snd (consume_value a r1 s) = s" by simp_all
qed

lemma decode_fake_progress:
  assumes "same_progress r1 r2" "wr_flags r1 AND ZCL_ATTR_WRITE_FLAG_ASSIGN = 0" "wr_flags r2 AND ZCL_ATTR_WRITE_FLAG_ASSIGN = 0"
  shows "fst (decode_attribute a r1 m) = fst (decode_attribute a r2 m')"
    and "same_progress (fst (snd (decode_attribute a r1 m))) (fst (snd (decode_attribute a r2 m')))"
  using assms by (auto simp: decode_attribute_def Let_def split_beta type_24bit_def same_progress_def)

lemma fake_attribute_write [simp]: "at_write (fake_attribute i t) = None" "at_flags (fake_attribute i t) = 0"
  by (simp_all add: fake_attribute_def)

lemma consume_fake_progress:
  fixes s s' :: "mem \<times> 'w"
  assumes "same_progress r1 r2" "wr_flags r1 AND ZCL_ATTR_WRITE_FLAG_ASSIGN = 0" "wr_flags r2 AND ZCL_ATTR_WRITE_FLAG_ASSIGN = 0"
  shows "same_progress (fst (consume_value (fake_attribute i t) r1 s)) (fst (consume_value (fake_attribute i t) r2 s'))"
  using decode_fake_progress [OF assms, of "fake_attribute i t :: (mem \<times> 'w) zcl_attribute" "fst s" "fst s'"]
  by (simp add: consume_value_def Let_def split_beta same_progress_def)

lemma consume_fake_check:
  "wr_flags rec AND ZCL_ATTR_WRITE_FLAG_ASSIGN = 0 \<Longrightarrow> snd (consume_value (fake_attribute i t) rec s) = s"
  using decode_attribute_check [of rec "fake_attribute i t" "fst s"] by (cases s) (simp add: consume_value_def Let_def split_beta)

lemma record_status_progress: "same_progress r1 r2 \<Longrightarrow> record_status found t r1 = record_status found t r2"
  unfolding record_status_def same_progress_def by (elim conjE) (simp only:)

lemma mask_assign [simp]: "(x AND - 2) AND 1 = (0 :: u8)"
proof -
  have "(x AND NOT 1) AND 1 = (0 :: u8)" by (rule u8_bits_eqI) (auto simp: bit_simps)
  then show ?thesis by simp
qed

text \<open>The status record that an assigning pass makes for a ghost attribute.\<close>

definition names_ghost :: "'s attr_ptr option \<Rightarrow> u8 \<Rightarrow> u8 \<Rightarrow> bool" where
  "names_ghost attrs b0 b1 \<longleftrightarrow> (\<exists>a. zcl_find_attribute attrs (le16toh (be16 b0 b1)) = Some a \<and> ghost a)"

definition ghost_status :: "'s attr_ptr option \<Rightarrow> u8 list \<Rightarrow> bool" where
  "ghost_status attrs r \<longleftrightarrow> (\<exists>b0 b1. r = [ZCL_STATUS_DEFINED_OUT_OF_BAND, b0, b1] \<and> names_ghost attrs b0 b1)"

text \<open>Parsing a record without assignment changes nothing and finds what parsing with assignment finds.\<close>

lemma parse_passes:
  assumes "two_pass_contract attrs" "same_progress r1 r2" "wr_flags r1 = 0" "wr_flags r2 = ZCL_ATTR_WRITE_FLAG_ASSIGN"
  shows "\<exists>q1 q2 s2.
    snd (zcl_parse_attribute_record attrs (Some r1) s) = (Some q1, s) \<and>
    snd (zcl_parse_attribute_record attrs (Some r2) s') = (Some q2, s2) \<and>
    passes_agree (names_ghost attrs (wr_buffer r1 ! 0) (wr_buffer r1 ! 1)) q1 q2"
proof -
  let ?i = "le16toh (be16 (wr_buffer r1 ! 0) (wr_buffer r1 ! 1))" and ?t = "wr_buffer r1 ! 2"
  let ?found = "zcl_find_attribute attrs ?i"
  define nxt where "nxt r = r\<lparr>wr_buffer := drop 3 (wr_buffer r), wr_buflen := wr_buflen r - 3\<rparr>"
    for r :: zcl_attribute_write_rec
  define st where "st = record_status ?found ?t (nxt r1)"
  define bad where "bad r = (nxt r)\<lparr>wr_status := st, wr_flags := wr_flags r AND NOT ZCL_ATTR_WRITE_FLAG_ASSIGN\<rparr>" for r
  define good where "good r = (nxt r)\<lparr>wr_status := st\<rparr>" for r
  have same: "wr_buffer r2 = wr_buffer r1" "wr_buflen r2 = wr_buflen r1" "wr_status r2 = wr_status r1"
    using assms(2) by (simp_all add: same_progress_def)
  have "same_progress (nxt r1) (nxt r2)" by (simp add: nxt_def same_progress_def same)
  then have st2: "record_status ?found ?t (nxt r2) = st" unfolding st_def by (rule record_status_progress [symmetric])
  have flags: "wr_flags (bad r1) AND ZCL_ATTR_WRITE_FLAG_ASSIGN = 0" "wr_flags (bad r2) AND ZCL_ATTR_WRITE_FLAG_ASSIGN = 0"
    "wr_flags (good r1) AND ZCL_ATTR_WRITE_FLAG_ASSIGN = 0"
    by (simp_all add: bad_def good_def nxt_def assms(3))
  have parse: "snd (zcl_parse_attribute_record attrs (Some r) s) =
      (if wr_buflen r1 < 3 then (Some (r\<lparr>wr_status := ZCL_STATUS_MALFORMED_COMMAND, wr_buflen := 0\<rparr>), s)
       else if st = ZCL_STATUS_MALFORMED_COMMAND then (Some ((nxt r)\<lparr>wr_status := st, wr_buflen := 0\<rparr>), s)
       else apfst Some (if st \<noteq> ZCL_STATUS_SUCCESS then consume_value (fake_attribute ?i ?t) (bad r) s
                        else consume_value (the ?found) (good r) s))" if "r = r1 \<or> r = r2" for r s
  proof -
    have f: "wr_flags r AND ZCL_ATTR_WRITE_FLAG_READ_RESP = 0" using that assms(3,4) by auto
    have b: "wr_buffer r = wr_buffer r1" "wr_buflen r = wr_buflen r1" using that same by auto
    have n: "r\<lparr>wr_buffer := drop 3 (wr_buffer r1), wr_buflen := wr_buflen r1 - 3\<rparr> = nxt r"
      by (simp add: nxt_def b)
    have rs: "record_status ?found ?t (nxt r) = st" using that st2 st_def by auto
    show ?thesis
      unfolding parse_write_request [OF f] Let_def b n rs bad_def good_def by (rule refl)
  qed
  show ?thesis
  proof (cases "wr_buflen r1 < 3 \<or> st = ZCL_STATUS_MALFORMED_COMMAND")
    case True
    then show ?thesis unfolding parse [OF disjI1 [OF refl]] parse [OF disjI2 [OF refl]]
      by (auto simp: passes_agree_def nxt_def same)
  next
    case ok: False
    show ?thesis
    proof (cases "st = ZCL_STATUS_SUCCESS")
      case True
      then obtain a where a: "?found = Some a" using record_status_found [of ?found ?t "nxt r1"] st_def by auto
      then obtain as where as: "attrs = Some as" "a \<in> set as" using zcl_find_attribute_mem [OF a] by blast
      have "same_progress (good r1) (good r2)" by (simp add: good_def nxt_def same_progress_def same)
      note agree = consume_value_agree [OF assms(1) [unfolded as(1)] as(2) this flags(3)]
      have "ghost a \<Longrightarrow> names_ghost attrs (wr_buffer r1 ! 0) (wr_buffer r1 ! 1)" using a by (auto simp: names_ghost_def)
      then have "passes_agree (names_ghost attrs (wr_buffer r1 ! 0) (wr_buffer r1 ! 1))
          (fst (consume_value a (good r1) s)) (fst (consume_value a (good r2) s'))"
        using agree(1) [of s s'] by (auto simp: passes_agree_def)
      then show ?thesis unfolding parse [OF disjI1 [OF refl]] parse [OF disjI2 [OF refl]]
        using ok True a agree(2) [of s]
        by (cases "consume_value a (good r1) s"; cases "consume_value a (good r2) s'") simp
    next
      case False
      have "same_progress (bad r1) (bad r2)" by (simp add: bad_def nxt_def same_progress_def same)
      then have "same_progress (fst (consume_value (fake_attribute ?i ?t) (bad r1) s)) (fst (consume_value (fake_attribute ?i ?t) (bad r2) s'))"
        using flags by (intro consume_fake_progress)
      note agree = same_progress_agree [OF this]
      have "snd (consume_value (fake_attribute ?i ?t) (bad r1) s) = s" using flags(1) by (rule consume_fake_check)
      then show ?thesis unfolding parse [OF disjI1 [OF refl]] parse [OF disjI2 [OF refl]]
        using ok False agree
        by (cases "consume_value (fake_attribute ?i ?t) (bad r1) s"; cases "consume_value (fake_attribute ?i ?t) (bad r2) s'") simp
    qed
  qed
qed

lemma write_records_passes:
  assumes "write_contract attrs" "two_pass_contract attrs" "wr_buffer r1 = wr_buffer r2" "wr_buflen r1 = wr_buflen r2"
  shows "\<exists>out1 out2 s2. write_records attrs False r1 recs1 s = Some (recs1 @ out1, s) \<and>
    write_records attrs True r2 recs2 s' = Some (recs2 @ out2, s2) \<and>
    (out1 = [] \<longrightarrow> (\<forall>r \<in> set out2. ghost_status attrs r))"
  using assms(3,4)
proof (induction "nat (wr_buflen r1)" arbitrary: r1 r2 recs1 recs2 s' rule: less_induct)
  case less
  show ?case
  proof (cases "wr_buflen r1 > 0")
    case False
    then show ?thesis using less.prems by (simp add: write_records.simps)
  next
    case True
    let ?r1 = "r1\<lparr>wr_flags := ZCL_ATTR_WRITE_FLAG_NONE, wr_status := ZCL_STATUS_SUCCESS\<rparr>"
    let ?r2 = "r2\<lparr>wr_flags := ZCL_ATTR_WRITE_FLAG_ASSIGN, wr_status := ZCL_STATUS_SUCCESS\<rparr>"
    let ?id = "[wr_buffer r1 ! 0, wr_buffer r1 ! 1]"
    have "same_progress ?r1 ?r2" using less.prems by (simp add: same_progress_def)
    then obtain q1 q2 s2 where
      q1: "snd (zcl_parse_attribute_record attrs (Some ?r1) s) = (Some q1, s)" and
      q2: "snd (zcl_parse_attribute_record attrs (Some ?r2) s') = (Some q2, s2)" and
      q: "passes_agree (names_ghost attrs (wr_buffer r1 ! 0) (wr_buffer r1 ! 1)) q1 q2"
      using parse_passes [OF assms(2), of ?r1 ?r2 s s'] by auto
    have "wr_buflen q1 < wr_buflen r1"
      using parse_attribute_record_decreases [OF assms(1), of ?r1 s] True q1 by auto
    then have smaller: "nat (wr_buflen q1) < nat (wr_buflen r1)" using True by simp
    define o1 where "o1 = (if wr_status q1 \<noteq> ZCL_STATUS_SUCCESS then [wr_status q1 # ?id] else [])"
    define o2 where "o2 = (if wr_status q2 \<noteq> ZCL_STATUS_SUCCESS then [wr_status q2 # ?id] else [])"
    have o: "o1 = [] \<longrightarrow> (\<forall>r \<in> set o2. ghost_status attrs r)"
      using q by (auto simp: o1_def o2_def passes_agree_def ghost_status_def)
    obtain out1 out2 s3 where rest: "write_records attrs False q1 (recs1 @ o1) s = Some ((recs1 @ o1) @ out1, s)"
      "write_records attrs True q2 (recs2 @ o2) s2 = Some ((recs2 @ o2) @ out2, s3)"
      "out1 = [] \<longrightarrow> (\<forall>r \<in> set out2. ghost_status attrs r)"
      using less.hyps [OF smaller, of q2 "recs1 @ o1" "recs2 @ o2" s2] q by (auto simp: passes_agree_def)
    have "write_records attrs False r1 recs1 s = write_records attrs False q1 (recs1 @ o1) s"
      using True q1 by (subst write_records.simps) (simp add: Let_def split_beta o1_def)
    moreover have "write_records attrs True r2 recs2 s' = write_records attrs True q2 (recs2 @ o2) s2"
      using True q2 less.prems by (subst write_records.simps) (simp add: Let_def split_beta o2_def)
    ultimately show ?thesis
      using rest o by (intro exI [of _ "o1 @ out1"] exI [of _ "o2 @ out2"] exI [of _ s3]) auto
  qed
qed


text \<open>Two examples: an 8-bit attribute at address 256 and a ghost attribute without a variable.\<close>

definition demo_table :: "(mem \<times> 'w) attr_ptr" where
  "demo_table = [demo_attr 1 0 0x20 256, demo_attr 2 0 0x20 0, demo_attr 0xFFFF 0 0 0]"

definition demo_write :: "(mem \<times> 'w) zcl_command" where
  "demo_write =
     \<lparr>cmd_envelope = sample_envelope 0 [], cmd_frame_control = 0, cmd_mfg_code = 0, cmd_sequence = 1,
      cmd_command = ZCL_CMD_WRITE_ATTRIB_UNDIV, cmd_attributes = Some demo_table,
      cmd_zcl_payload = [1, 0, 0x20, 77, 2, 0, 0x20, 88], cmd_length = 8\<rparr>"

lemma demo_write_command [simp]: "cmd_command demo_write = ZCL_CMD_WRITE_ATTRIB_UNDIV"
  by (simp add: demo_write_def)

lemma demo_write_attributes: "cmd_attributes demo_write = Some demo_table"
  by (simp add: demo_write_def)

lemma unsigned8: "type_info 0x20 = 0x21" "zcl_sizeof_type 0x20 = 1" "\<not> ZCL_TYPE_IS_INVALID 0x20"
  by (simp_all add: zcl_sizeof_type_entry ZCL_TYPE_IS_INVALID_def type_info_def zcl_type_info_def)

lemma demo_find:
  "zcl_find_attribute (Some demo_table) 1 = Some (demo_attr 1 0 0x20 256)"
  "zcl_find_attribute (Some demo_table) 2 = Some (demo_attr 2 0 0x20 0)"
  by (simp_all add: zcl_find_attribute_def demo_table_def zcl_attribute_get_next_def)

lemma demo_decode:
  "decode_attribute (demo_attr i 0 0x20 a) \<lparr>wr_buffer = v # bs, wr_buflen = n, wr_flags = f, wr_status = 0\<rparr> m =
     (1, \<lparr>wr_buffer = v # bs, wr_buflen = n, wr_flags = f, wr_status = (if f AND 1 \<noteq> 0 \<and> a = 0 then 0x91 else 0)\<rparr>,
      if f AND 1 \<noteq> 0 \<and> a \<noteq> 0 then m(a := v) else m)"
  by (simp add: decode_attribute_def type_24bit_def unsigned8 default_assign_def)

lemma demo_id: "le16toh (be16 b 0) = ucast b"
  by (simp add: le16toh_def swap16_be16) (simp add: be16_def word_cat_eq)

lemma demo_status:
  "1 \<le> n \<Longrightarrow> record_status (Some (demo_attr i 0 0x20 a)) 0x20
     \<lparr>wr_buffer = bs, wr_buflen = n, wr_flags = f, wr_status = 0\<rparr> = 0"
  by (simp add: record_status_def unsigned8 zcl_check_minmax_def)

lemma demo_parse:
  assumes "f AND 2 = 0" "1 \<le> n" "zcl_find_attribute attrs (ucast b) = Some (demo_attr i 0 0x20 a)"
  shows "snd (zcl_parse_attribute_record attrs
     (Some \<lparr>wr_buffer = b # 0 # 0x20 # v # bs, wr_buflen = 3 + n, wr_flags = f, wr_status = 0\<rparr>) (m, w)) =
   (Some \<lparr>wr_buffer = bs, wr_buflen = n - 1, wr_flags = f, wr_status = (if f AND 1 \<noteq> 0 \<and> a = 0 then 0x91 else 0)\<rparr>,
    if f AND 1 \<noteq> 0 \<and> a \<noteq> 0 then m(a := v) else m, w)"
  using assms
  by (subst parse_write_request)
    (simp_all add: Let_def demo_id demo_status consume_value_def demo_decode)

lemma demo_pass:
  "write_pass demo_write False (m, w) = Some ([], m, w)"
  "write_pass demo_write True (m, w) = Some ([[0x91, 2, 0]], m(256 := 77), w)"
proof -
  note p1 = demo_parse [of _ 5 "Some demo_table" 1 1 256 77 "[2, 0, 0x20, 88]", simplified, OF _ demo_find(1)]
  note p2 = demo_parse [of _ 1 "Some demo_table" 2 2 0 88 "[]", simplified, OF _ demo_find(2)]
  show "write_pass demo_write False (m, w) = Some ([], m, w)"
    unfolding write_pass_def demo_write_def
    by (subst write_records.simps; simp add: Let_def split_beta p1)
      (subst write_records.simps; simp add: Let_def split_beta p2 write_records.simps)
  show "write_pass demo_write True (m, w) = Some ([[0x91, 2, 0]], m(256 := 77), w)"
    unfolding write_pass_def demo_write_def
    by (subst write_records.simps; simp add: Let_def split_beta p1)
      (subst write_records.simps; simp add: Let_def split_beta p2 write_records.simps)
qed

text \<open>
  Undivided writes, the exception.  The check pass does not see that an attribute has no
  variable (a ghost attribute is only refused when the value is assigned): writing an 8-bit
  attribute and a ghost attribute undivided changes the first and reports the second as failed.
\<close>

theorem zcl_write_undivided_ghost:
  "zcl_write_attributes devs demo_write (m, w) =
     Some (zcl_send_response devs (Some demo_write)
       (response_start (demo_write :: (mem \<times> 'w) zcl_command) ZCL_CMD_WRITE_ATTRIB_RESP @
        [ZCL_STATUS_DEFINED_OUT_OF_BAND, 2, 0]) (m(256 := 77), w :: 'w))"
  by (simp add: zcl_write_attributes_def demo_pass Let_def)



subsection \<open>The status records\<close>

lemma decode_fake_no_data:
  "wr_status r \<noteq> 0 \<Longrightarrow> decode_attribute (fake_attribute i 0) r m = (0, r, m)"
  by (simp add: decode_attribute_def type_24bit_def fake_attribute_def split_beta)

lemma parse_unsupported:
  assumes "zcl_find_attribute attrs 5 = None" "wr_flags rec AND ZCL_ATTR_WRITE_FLAG_READ_RESP = 0"
    and "wr_buffer rec = 5 # 0 # 0 # bs" "3 \<le> wr_buflen rec"
  shows "\<exists>rec'. snd (zcl_parse_attribute_record attrs (Some rec) s) = (Some rec', s) \<and> wr_buffer rec' = bs \<and>
    wr_buflen rec' = wr_buflen rec - 3 \<and> wr_status rec' = ZCL_STATUS_UNSUPPORTED_ATTRIBUTE"
proof -
  have i: "le16toh (be16 5 0) = 5" by (simp add: demo_id)
  have st: "record_status None 0 r = ZCL_STATUS_UNSUPPORTED_ATTRIBUTE" for r :: zcl_attribute_write_rec
    by (simp add: record_status_def)
  show ?thesis
    unfolding parse_write_request [OF assms(2)] Let_def assms(3)
    by (simp add: i st assms(1) assms(4) [THEN leD] consume_value_def decode_fake_no_data)
qed

text \<open>
  The status records of a write response are not counted.  A request with \<open>k\<close> records for an
  unknown attribute yields \<open>k\<close> status records, whatever \<open>k\<close> is: 26 records, which fit in a frame
  of 81 bytes, are one more than the array of 25 records in which the code collects them.
\<close>

theorem zcl_write_status_records:
  assumes "zcl_find_attribute attrs 5 = None"
  shows "write_records attrs pass
      \<lparr>wr_buffer = concat (replicate k [5, 0, 0]), wr_buflen = 3 * int k, wr_flags = f, wr_status = 0\<rparr> recs s
    = Some (recs @ replicate k [ZCL_STATUS_UNSUPPORTED_ATTRIBUTE, 5, 0], s)"
proof -
  have "write_records attrs pass rec recs s = Some (recs @ replicate k [ZCL_STATUS_UNSUPPORTED_ATTRIBUTE, 5, 0], s)"
    if "wr_buffer rec = concat (replicate k [5, 0, 0])" "wr_buflen rec = 3 * int k" for rec
    using that
  proof (induction k arbitrary: rec recs)
    case 0
    then show ?case by (simp add: write_records.simps)
  next
    case (Suc k)
    let ?rec = "rec\<lparr>wr_flags := (if pass then ZCL_ATTR_WRITE_FLAG_ASSIGN else ZCL_ATTR_WRITE_FLAG_NONE),
                      wr_status := ZCL_STATUS_SUCCESS\<rparr>"
    let ?bs = "concat (replicate k [5, 0, 0])"
    have f: "wr_flags ?rec AND ZCL_ATTR_WRITE_FLAG_READ_RESP = 0" by simp
    have b: "wr_buffer ?rec = 5 # 0 # 0 # ?bs" and l: "wr_buflen ?rec = 3 * int k + 3" using Suc.prems by simp_all
    obtain rec' where
      p: "snd (zcl_parse_attribute_record attrs (Some ?rec) s) = (Some rec', s)"
      and r: "wr_buffer rec' = ?bs" "wr_buflen rec' = 3 * int k" "wr_status rec' = ZCL_STATUS_UNSUPPORTED_ATTRIBUTE"
      using parse_unsupported [OF assms f b, of s] l by auto
    show ?case
      using Suc.prems Suc.IH [OF r(1,2), of "recs @ [[ZCL_STATUS_UNSUPPORTED_ATTRIBUTE, 5, 0]]"] p r(3)
      by (subst write_records.simps) (simp add: Let_def split_beta)
  qed
  then show ?thesis by simp
qed

theorem zcl_write_status_records_witness:
  "write_records None True \<lparr>wr_buffer = concat (replicate 26 [5, 0, 0]), wr_buflen = 78, wr_flags = 0, wr_status = 0\<rparr> []
     (\<lambda>_. 0, ()) = Some (replicate 26 [0x86, 5, 0], \<lambda>_. 0, ())"
  using zcl_write_status_records [of None True 26 0 "[]" "(\<lambda>_. 0, ())"] by (simp add: zcl_find_attribute_def)

section \<open>Reading\<close>

definition collection_type :: "u8 \<Rightarrow> bool" where
  "collection_type t \<longleftrightarrow> t = ZCL_TYPE_ARRAY \<or> t = ZCL_TYPE_SET \<or> t = ZCL_TYPE_BAG \<or> t = ZCL_TYPE_STRUCT"

lemma length_string_copy: "length (fst (string_copy m p n)) \<le> n"
  by (induction m p n rule: string_copy.induct) (auto split: prod.splits simp: split_beta)

lemma encode_scalar_length:
  assumes "encode_scalar m flags t v bufsize = Inr bs"
  shows "int (length bs) \<le> max bufsize 1"
  using assms length_string_copy [of m v "nat (bufsize - 1)"] type_24bit_size [of t] zcl_sizes
  by (auto simp: encode_scalar_def Let_def split_beta split: if_splits)

lemma encode_value_length:
  assumes "encode_value m flags t v bufsize = Inr bs" "\<not> collection_type t"
  shows "int (length bs) \<le> max bufsize 1"
  using assms encode_scalar_length [of m flags t v bufsize bs]
  by (subst (asm) encode_value.simps) (auto simp: collection_type_def split: if_splits)

lemma read_records_length:
  assumes "\<And>as a. attrs = Some as \<Longrightarrow> a \<in> set as \<Longrightarrow> \<not> collection_type (at_type a)" "length out \<le> 82"
  shows "length (fst (read_records attrs n ids out s)) \<le> 82"
  using assms(2)
proof (induction n arbitrary: ids out s)
  case (Suc n)
  let ?i = "le16toh (be16 (ids ! 0) (ids ! 1))"
  show ?case
  proof (cases "length out \<le> 77")
    case False
    then show ?thesis using Suc.prems by simp
  next
    case True
    show ?thesis
    proof (cases "zcl_find_attribute attrs ?i")
      case None
      then show ?thesis using True Suc.IH by simp
    next
      case (Some a)
      then have "\<not> collection_type (at_type a)" using zcl_find_attribute_mem [OF Some] assms(1) by blast
      note enc = encode_value_length [OF _ this]
      define b where "b = 80 - int (length out + 2) - 2"
      have b: "b \<le> 76 - int (length out)" "80 - int (length (out @ [ids ! 0, ids ! 1])) - 2 = b" by (simp_all add: b_def)
      obtain res s' where e: "zcl_encode_attribute_value b (Some a) s = (res, s')" by (rule prod.exhaust)
      show ?thesis
      proof (cases res)
        case (Inl status)
        then show ?thesis using Some True e Suc.IH by (simp add: Let_def b(2) [simplified])
      next
        case (Inr bs)
        have "int (length bs) \<le> max b 1"
          using e Inr enc [of "fst s'" "at_flags a" "at_value a" b bs]
          by (auto simp: zcl_encode_attribute_value_def Let_def split: if_splits prod.splits)
        then have "length (out @ [ids ! 0, ids ! 1] @ [ZCL_STATUS_SUCCESS, at_type a] @ bs) \<le> 82"
          using True b(1) by simp
        then show ?thesis using Some True e Inr Suc.IH by (simp add: Let_def b(2) [simplified])
      qed
    qed
  qed
qed simp

lemma odd_length: "(word_of_int n :: u16) AND 1 \<noteq> 0 \<longleftrightarrow> odd n"
proof -
  have "odd (word_of_int n :: u16) \<longleftrightarrow> odd n" unfolding bit_0 [symmetric] by (simp only: bit_word_of_int_iff) simp
  then show ?thesis unfolding and_one_eq mod_2_eq_odd by simp
qed

text \<open>
  C21: The size of a read response, for attribute tables without arrays, sets, bags and structures.
  A Read Attributes command with a payload of odd length is answered with the status malformed;
  any other is answered with a response whose records take at most 82 bytes, two more than the
  buffer they are built in, however many attributes were requested and whatever their values and
  their \<open>read\<close> functions are.
\<close>

theorem zcl_read_response_bound:
  assumes "\<forall>as a. cmd_attributes c = Some as \<longrightarrow> a \<in> set as \<longrightarrow> \<not> collection_type (at_type a)"
  shows "\<exists>recs s'. length recs \<le> 82 \<and> zcl_read_attributes devs (Some c) s =
    (if odd (cmd_length c) then zcl_default_response devs (Some c) ZCL_STATUS_MALFORMED_COMMAND s
     else zcl_send_response devs (Some c) (response_start c ZCL_CMD_READ_ATTRIB_RESP @ recs) s')"
proof -
  let ?n = "unat (drop_bit 1 (word_of_int (cmd_length c) :: u16))"
  obtain recs s' where r: "read_records (cmd_attributes c) ?n (cmd_zcl_payload c) [] s = (recs, s')" by (rule prod.exhaust)
  have "length recs \<le> 82"
    using read_records_length [of "cmd_attributes c" "[]" ?n "cmd_zcl_payload c" s] assms r by auto
  moreover have "zcl_read_attributes devs (Some c) s =
    (if odd (cmd_length c) then zcl_default_response devs (Some c) ZCL_STATUS_MALFORMED_COMMAND s
     else zcl_send_response devs (Some c) (response_start c ZCL_CMD_READ_ATTRIB_RESP @ recs) s')"
    unfolding zcl_read_attributes_def option.case Let_def odd_length r by simp
  ultimately show ?thesis by blast
qed

lemma read_unsupported:
  assumes "zcl_find_attribute attrs 5 = None" "length out + 3 * k \<le> 80"
  shows "read_records attrs (k + n) (concat (replicate k [5, 0]) @ ids) out s =
    read_records attrs n ids (out @ concat (replicate k [5, 0, ZCL_STATUS_UNSUPPORTED_ATTRIBUTE])) s"
  using assms(2)
proof (induction k arbitrary: out)
  case (Suc k)
  have "le16toh (be16 5 0) = 5" by (simp add: demo_id)
  then have "read_records attrs (Suc (k + n)) (5 # 0 # concat (replicate k [5, 0]) @ ids) out s =
    read_records attrs (k + n) (concat (replicate k [5, 0]) @ ids) (out @ [5, 0, ZCL_STATUS_UNSUPPORTED_ATTRIBUTE]) s"
    using assms(1) Suc.prems by (simp add: Let_def)
  also have "\<dots> = read_records attrs n ids ((out @ [5, 0, ZCL_STATUS_UNSUPPORTED_ATTRIBUTE]) @
      concat (replicate k [5, 0, ZCL_STATUS_UNSUPPORTED_ATTRIBUTE])) s"
    using Suc.prems by (intro Suc.IH) simp
  finally show ?case by simp
qed simp

text \<open>
  The read response does overflow.  A request for 24 unknown attributes, an 8-bit attribute and
  an empty string, 52 bytes of payload, makes the code write 82 bytes into its buffer of 80.
\<close>

theorem zcl_read_response_overflow:
  "length (fst (read_records (Some [demo_attr 1 0 0x20 256, demo_attr 2 0 0x42 300, demo_attr 0xFFFF 0 0 0]) 26
     (concat (replicate 24 [5, 0]) @ [1, 0, 2, 0]) [] (\<lambda>_. 0, w))) = 82"
proof -
  let ?t = "Some [demo_attr 1 0 0x20 256, demo_attr 2 0 0x42 300, demo_attr 0xFFFF 0 0 0] :: (mem \<times> 'a) attr_ptr option"
  have find: "zcl_find_attribute ?t 5 = None" "zcl_find_attribute ?t 1 = Some (demo_attr 1 0 0x20 256)"
    "zcl_find_attribute ?t 2 = Some (demo_attr 2 0 0x42 300)"
    by (simp_all add: zcl_find_attribute_def zcl_attribute_get_next_def)
  define out :: "u8 list" where "out = concat (replicate 24 [5, 0, ZCL_STATUS_UNSUPPORTED_ATTRIBUTE])"
  have len: "length out = 72" by (simp add: out_def length_concat sum_list_replicate)
  have ids: "le16toh (be16 1 0) = 1" "le16toh (be16 2 0) = 2" by (simp_all add: demo_id)
  have u8: "encode_value (\<lambda>_. 0) 0 0x20 256 b = Inr [0]" if "1 \<le> b" for b
    using that by (subst encode_value.simps) (simp add: encode_scalar_def unsigned8 type_24bit_def)
  have str: "encode_value (\<lambda>_. 0) 0 0x42 300 (- 1) = Inr [0]"
    by (subst encode_value.simps) (simp add: encode_scalar_def zcl_sizes)
  have "(26 :: nat) = 24 + Suc (Suc 0)" by simp
  then have "read_records ?t 26 (concat (replicate 24 [5, 0]) @ [1, 0, 2, 0]) [] (\<lambda>_. 0, w) =
      read_records ?t (Suc (Suc 0)) [1, 0, 2, 0] out (\<lambda>_. 0, w)"
    using read_unsupported [OF find(1), of "[]" 24 "Suc (Suc 0)"] by (simp only: out_def) simp
  also have "\<dots> = (out @ [1, 0, 0, 0x20, 0, 2, 0, 0, 0x42, 0], \<lambda>_. 0, w)"
    by (simp add: Let_def len ids find zcl_encode_attribute_value_def unsigned8 zcl_sizes u8 str)
  finally show ?thesis by (simp add: len)
qed

theorem zcl_read_response_bound_witness:
  "\<exists>recs s'. length recs \<le> 82 \<and>
    zcl_read_attributes (\<lambda>_. frame_log_dev) (Some (demo_write\<lparr>cmd_zcl_payload := concat (replicate 40 [1, 0]), cmd_length := 80\<rparr>)) (\<lambda>_. 0, [])
    = zcl_send_response (\<lambda>_. frame_log_dev) (Some (demo_write\<lparr>cmd_zcl_payload := concat (replicate 40 [1, 0]), cmd_length := 80\<rparr>))
        ([0x18, 1, 1] @ recs) s'"
proof -
  let ?c = "demo_write\<lparr>cmd_zcl_payload := concat (replicate 40 [1, 0]), cmd_length := 80\<rparr> :: (mem \<times> u8 list list) zcl_command"
  have "\<forall>as a. cmd_attributes ?c = Some as \<longrightarrow> a \<in> set as \<longrightarrow> \<not> collection_type (at_type a)"
    by (auto simp: demo_write_def demo_table_def collection_type_def)
  from zcl_read_response_bound [OF this, of "\<lambda>_. frame_log_dev" "(\<lambda>_. 0, [])"]
  moreover have "response_start ?c ZCL_CMD_READ_ATTRIB_RESP = [0x18, 1, 1]"
    by (simp add: response_start_eq demo_write_def reply_control_def)
  ultimately show ?thesis by simp
qed

section \<open>Discovering\<close>

definition attr_report :: "'s zcl_attribute \<Rightarrow> u8 list" where
  "attr_report a = bytes16 (htole16 (at_id a)) @ [at_type a]"

lemma discover_skip_table:
  assumes "attr_table as marker"
  shows "discover_skip (as @ marker # rest) start = Some (filter (\<lambda>a. start \<le> at_id a) as @ marker # rest)"
  using assms
proof (induction as)
  case Nil
  then show ?case using u16_max [of start] by (auto simp: attr_table_def not_less)
next
  case (Cons a as)
  note t = Cons.prems [unfolded attr_table_Cons]
  show ?case
  proof (cases "at_id a < start")
    case True
    then show ?thesis using Cons.IH t by (simp add: zcl_attribute_get_next_def not_le)
  next
    case False
    then have f: "filter (\<lambda>a. start \<le> at_id a) as = as" using t by (intro filter_True) (auto simp: not_less)
    have ge: "start \<le> at_id a" using False by simp
    show ?thesis unfolding append_Cons discover_skip.simps if_not_P [OF False] filter.simps if_P [OF ge] f ..
  qed
qed

lemma discover_records_table:
  assumes "\<forall>a \<in> set as. at_id a \<noteq> ZCL_ATTRIBUTE_END_OF_LIST" "at_id marker = ZCL_ATTRIBUTE_END_OF_LIST"
  shows "discover_records (as @ marker # rest) n =
    Some (if length as \<le> n then 1 else 0, concat (map attr_report (take n as)))"
  using assms(1)
proof (induction as arbitrary: n)
  case Nil
  then show ?case by (cases n) (simp_all add: assms(2))
next
  case (Cons a as)
  then show ?case by (cases n) (simp_all add: zcl_attribute_get_next_def attr_report_def)
qed

text \<open>
  C22: Discovering attributes.  For a table sorted by identifier the response lists, in order, the
  identifiers and types of the attributes from the requested identifier on, at most as many as
  requested and at most 20, and says that the discovery is complete exactly when none is left.
\<close>

theorem zcl_discover_attributes_correct:
  assumes "attr_table as marker" "cmd_attributes c = Some (as @ marker # rest)"
    and "cmd_zcl_payload c = bytes16 (htole16 start) @ [max_return] @ trailing"
    and "ats = filter (\<lambda>a. start \<le> at_id a) as" "n = min (unat max_return) 20"
  shows "zcl_discover_attributes devs (Some c) s =
    Some (zcl_send_response devs (Some c)
      (response_start c ZCL_CMD_DISCOVER_ATTRIB_RESP @
        [if length ats \<le> n then 1 else 0] @ concat (map attr_report (take n ats))) s)"
proof -
  have pay: "le16toh (be16 (cmd_zcl_payload c ! 0) (cmd_zcl_payload c ! 1)) = start" "cmd_zcl_payload c ! 2 = max_return"
    using be16_bytes_nth [of "htole16 start"] by (simp_all add: assms(3) bytes16_def)
  have n: "unat (if max_return > 20 then 20 else max_return) = n"
    by (simp add: assms(5) word_less_nat_alt min_def)
  have "\<forall>a \<in> set ats. at_id a \<noteq> ZCL_ATTRIBUTE_END_OF_LIST" "at_id marker = ZCL_ATTRIBUTE_END_OF_LIST"
    using assms(1,4) by (auto simp: attr_table_def)
  note recs = discover_records_table [OF this]
  show ?thesis
    unfolding zcl_discover_attributes_def Let_def option.case assms(2) pay n
      discover_skip_table [OF assms(1)] assms(4) [symmetric] recs prod.case by simp
qed

theorem zcl_discover_attributes_correct_witness:
  "zcl_discover_attributes (\<lambda>_. frame_log_dev)
     (Some (demo_write\<lparr>cmd_attributes := Some [demo_attr 2 0 0x20 256, demo_attr 7 0 0x21 258, demo_attr 9 0 0x20 260,
        demo_attr 0xFFFF 0 0 0], cmd_zcl_payload := [3, 0, 1]\<rparr>)) (\<lambda>_. 0, [])
   = Some (Inr 0, \<lambda>_. 0, [[0x18, 1, 0x0D, 0, 7, 0, 0x21]])"
proof -
  let ?c = "demo_write\<lparr>cmd_attributes := Some [demo_attr 2 0 0x20 256, demo_attr 7 0 0x21 258, demo_attr 9 0 0x20 260,
        demo_attr 0xFFFF 0 0 0], cmd_zcl_payload := [3, 0, 1]\<rparr> :: (mem \<times> u8 list list) zcl_command"
  have "zcl_discover_attributes (\<lambda>_. frame_log_dev) (Some ?c) (\<lambda>_. 0, []) =
    Some (zcl_send_response (\<lambda>_. frame_log_dev) (Some ?c)
      (response_start ?c ZCL_CMD_DISCOVER_ATTRIB_RESP @ [0] @ concat (map attr_report [demo_attr 7 0 0x21 258 :: (mem \<times> u8 list list) zcl_attribute]))
      (\<lambda>_. 0, []))"
    by (subst zcl_discover_attributes_correct
        [where as = "[demo_attr 2 0 0x20 256, demo_attr 7 0 0x21 258, demo_attr 9 0 0x20 260]"
          and marker = "demo_attr 0xFFFF 0 0 0" and rest = "[]" and start = 3 and max_return = 1 and trailing = "[]"])
      (auto simp: attr_table_def bytes16_htole16)
  then show ?thesis
    by (simp add: response_start_eq zcl_send_response_def wpan_envelope_send_def frame_log_dev_def attr_report_def
        bytes16_htole16 sample_envelope_def wpan_envelope_reply_def demo_write_def reply_control_def)
qed

end
