(* ===== verification/Xbee_Serial.thy ===== *)
theory Xbee_Serial
  imports Xbee_Cbuf
begin

text \<open>
  The serial driver of the HCS08 (\<open>pxbee/pan/hal/xbee_serial_hcs08.c\<close>): blocking transmission,
  reception by interrupt into an XBee circular buffer, and the RTS line, which tells the peer to
  stop when fewer than eight bytes are free.  The second part follows the receiving side of the
  radio's port through interrupts and reads: a peer that stops in time loses no byte.
\<close>

section \<open>The hardware and the port\<close>

abbreviation SERIAL_PORT_SCI1 :: u8 where "SERIAL_PORT_SCI1 \<equiv> 1"
abbreviation SERIAL_PORT_SCI2 :: u8 where "SERIAL_PORT_SCI2 \<equiv> 2"
abbreviation RTS_ASSERT_BYTES :: u8 where "RTS_ASSERT_BYTES \<equiv> 8"

definition FLAG_FLOW :: "u8 \<Rightarrow> u8" where
  "FLAG_FLOW x = x"

definition FLAG_RTS :: "u8 \<Rightarrow> u8" where
  "FLAG_RTS x = push_bit 2 x"

text \<open>\<open>xbee_serial_t\<close>; \<open>rxbuf\<close> is the address of a circular buffer.\<close>

record xbee_serial =
  sp_baudrate :: u32
  sp_port :: u8
  sp_rxbuf :: nat

text \<open>
  The receiving side: \<open>_flags\<close>, the circular buffers, and for each port the level of the RTS pin
  and whether it is an output.
\<close>

record serial_rx =
  rx_flags :: u8
  rx_bufs :: "nat \<Rightarrow> xbee_cbuf"
  rx_rts_pin :: "u8 \<Rightarrow> bool"
  rx_rts_out :: "u8 \<Rightarrow> bool"

text \<open>
  The sending side: for each port the bytes written to the data register, the level of the CTS
  pin, the baud rate register and the control registers C1, C3, S2 and C2.  The loops that wait
  for the transmitter (and for CTS, on the radio's port) take no step of the model.
\<close>

record serial_tx =
  tx_sent :: "u8 \<Rightarrow> u8 list"
  tx_cts_pin :: "u8 \<Rightarrow> bool"
  tx_baud :: "u8 \<Rightarrow> u16"
  tx_control :: "u8 \<Rightarrow> u8 list"

section \<open>The driver\<close>

definition xbee_ser_invalid :: "xbee_serial option \<Rightarrow> bool" where
  "xbee_ser_invalid serial =
     (case serial of
        Some s \<Rightarrow> sp_port s \<noteq> SERIAL_PORT_SCI1 \<and> sp_port s \<noteq> SERIAL_PORT_SCI2
      | None \<Rightarrow> True)"

definition xbee_ser_portname :: "xbee_serial option \<Rightarrow> string" where
  "xbee_ser_portname serial =
     (case serial of
        Some s \<Rightarrow>
          if sp_port s = SERIAL_PORT_SCI1 then ''SCI1''
          else if sp_port s = SERIAL_PORT_SCI2 then ''SCI2''
          else ''(invalid)''
      | None \<Rightarrow> ''(invalid)'')"

definition xbee_ser_write :: "xbee_serial \<Rightarrow> u8 list \<Rightarrow> int \<Rightarrow> serial_tx \<Rightarrow> (errno + int) \<times> serial_tx" where
  "xbee_ser_write serial buffer len tx =
     (if len < 0 then (Inl EINVAL, tx)
      else if sp_port serial = SERIAL_PORT_SCI1 \<or> sp_port serial = SERIAL_PORT_SCI2
      then (Inr len, tx\<lparr>tx_sent := (tx_sent tx)
              (sp_port serial := tx_sent tx (sp_port serial) @ take (nat len) buffer)\<rparr>)
      else (Inl EINVAL, tx))"

definition xbee_ser_set_rts :: "xbee_serial \<Rightarrow> bool \<Rightarrow> serial_rx \<Rightarrow> (errno + int) \<times> serial_rx" where
  "xbee_ser_set_rts serial asserted rx =
     (let p = sp_port serial in
      if p = SERIAL_PORT_SCI1 \<or> p = SERIAL_PORT_SCI2 then
        (Inr 0, rx\<lparr>rx_rts_out := (rx_rts_out rx)(p := True), rx_rts_pin := (rx_rts_pin rx)(p := \<not> asserted),
                   rx_flags := (if asserted then rx_flags rx OR FLAG_RTS p
                                else rx_flags rx AND NOT (FLAG_RTS p))\<rparr>)
      else (Inl EINVAL, rx))"

definition XBEE_SER_CHECK_RTS :: "xbee_serial \<Rightarrow> serial_rx \<Rightarrow> bool" where
  "XBEE_SER_CHECK_RTS serial rx \<longleftrightarrow>
     drop_bit (unat (sp_port serial - 1)) (rx_flags rx) AND (FLAG_FLOW 1 OR FLAG_RTS 1) = FLAG_FLOW 1"

definition set_rxbuf :: "xbee_serial \<Rightarrow> xbee_cbuf \<Rightarrow> serial_rx \<Rightarrow> serial_rx" where
  "set_rxbuf serial cb rx = rx\<lparr>rx_bufs := (rx_bufs rx)(sp_rxbuf serial := cb)\<rparr>"

text \<open>The bytes stored through the buffer pointer are the second component.\<close>

definition xbee_ser_read :: "xbee_serial \<Rightarrow> int \<Rightarrow> serial_rx \<Rightarrow> (errno + int) \<times> u8 list \<times> serial_rx" where
  "xbee_ser_read serial bufsize rx =
     (if bufsize = 0 then (Inr 0, [], rx)
      else if bufsize < 0 then (Inl EINVAL, [], rx)
      else
        let (retval, bytes, cb) =
              xbee_cbuf_get (rx_bufs rx (sp_rxbuf serial)) (if bufsize > 255 then 255 else word_of_int bufsize);
            rx = set_rxbuf serial cb rx;
            rx = (if XBEE_SER_CHECK_RTS serial rx
                     \<and> (retval \<ge> RTS_ASSERT_BYTES \<or> xbee_cbuf_free cb \<ge> RTS_ASSERT_BYTES)
                  then snd (xbee_ser_set_rts serial True rx) else rx)
        in (Inr (uint retval), bytes, rx))"

definition xbee_ser_putchar :: "xbee_serial \<Rightarrow> u8 \<Rightarrow> serial_tx \<Rightarrow> (errno + int) \<times> serial_tx" where
  "xbee_ser_putchar serial ch tx =
     (case xbee_ser_write serial [ch] 1 tx of
        (Inr retval, tx) \<Rightarrow>
          (if retval = 1 then Inr 0 else if retval = 0 then Inl ENOSPC else Inr retval, tx)
      | (Inl e, tx) \<Rightarrow> (Inl e, tx))"

definition xbee_ser_getchar :: "xbee_serial \<Rightarrow> serial_rx \<Rightarrow> (errno + int) \<times> serial_rx" where
  "xbee_ser_getchar serial rx =
     (let (retval, cb) = xbee_cbuf_getch (rx_bufs rx (sp_rxbuf serial));
          rx = set_rxbuf serial cb rx
      in if retval < 0 then (Inl ENODATA, rx)
         else if XBEE_SER_CHECK_RTS serial rx \<and> xbee_cbuf_free cb \<ge> RTS_ASSERT_BYTES
         then (Inr retval, snd (xbee_ser_set_rts serial True rx))
         else (Inr retval, rx))"

definition xbee_ser_tx_free :: "xbee_serial \<Rightarrow> int" where
  "xbee_ser_tx_free serial = 32767"

definition xbee_ser_tx_used :: "xbee_serial \<Rightarrow> int" where
  "xbee_ser_tx_used serial = 0"

definition xbee_ser_rx_free :: "xbee_serial \<Rightarrow> serial_rx \<Rightarrow> int" where
  "xbee_ser_rx_free serial rx = uint (xbee_cbuf_free (rx_bufs rx (sp_rxbuf serial)))"

definition xbee_ser_rx_used :: "xbee_serial \<Rightarrow> serial_rx \<Rightarrow> int" where
  "xbee_ser_rx_used serial rx = uint (xbee_cbuf_used (rx_bufs rx (sp_rxbuf serial)))"

definition xbee_ser_rx_flush :: "xbee_serial \<Rightarrow> serial_rx \<Rightarrow> serial_rx" where
  "xbee_ser_rx_flush serial rx = set_rxbuf serial (xbee_cbuf_flush (rx_bufs rx (sp_rxbuf serial))) rx"

text \<open>
  The divisors are those of \<open>headers/uart.h\<close> at the bus clock of this project (24 MHz); only the
  lower 16 bits of the baud rate are compared.
\<close>

definition uart_baud :: "nat \<Rightarrow> u16" where
  "uart_baud baudrate = of_nat ((24000000 div 16 + baudrate div 2) div baudrate)"

definition xbee_ser_baudrate ::
    "xbee_serial \<Rightarrow> u32 \<Rightarrow> serial_tx \<Rightarrow> (errno + int) \<times> xbee_serial \<times> serial_tx" where
  "xbee_ser_baudrate serial baudrate tx =
     (let low = (ucast baudrate :: u16);
          set = (\<lambda>baud_value.
            if sp_port serial = SERIAL_PORT_SCI1 \<or> sp_port serial = SERIAL_PORT_SCI2
            then (Inr 0, serial\<lparr>sp_baudrate := baudrate\<rparr>,
                  tx\<lparr>tx_baud := (tx_baud tx)(sp_port serial := baud_value)\<rparr>)
            else (Inl EINVAL, serial, tx))
      in if low = 9600 then set (uart_baud 9600)
         else if low = 19200 then set (uart_baud 19200)
         else if low = 38400 then set (uart_baud 38400)
         else if low = ucast (115200 AND 0xFFFF :: u32) then set (uart_baud 115200)
         else (Inl EIO, serial, tx))"

text \<open>C1: stop during wait; C3 and S2: all off; C2: receiver, transmitter and receive interrupt.\<close>

definition xbee_ser_open ::
    "xbee_serial \<Rightarrow> u32 \<Rightarrow> serial_tx \<Rightarrow> (errno + int) \<times> xbee_serial \<times> serial_tx" where
  "xbee_ser_open serial baudrate tx =
     (if sp_port serial = SERIAL_PORT_SCI1 \<or> sp_port serial = SERIAL_PORT_SCI2
      then xbee_ser_baudrate serial baudrate
             (tx\<lparr>tx_control := (tx_control tx)(sp_port serial := [64, 0, 0, 4 OR 8 OR 32])\<rparr>)
      else (Inl EINVAL, serial, tx))"

definition xbee_ser_flowcontrol :: "xbee_serial \<Rightarrow> bool \<Rightarrow> serial_rx \<Rightarrow> (errno + int) \<times> serial_rx" where
  "xbee_ser_flowcontrol serial enabled rx =
     (if enabled then
        let rx = rx\<lparr>rx_flags := rx_flags rx OR FLAG_FLOW (sp_port serial)\<rparr>
        in (Inr 0, snd (xbee_ser_set_rts serial
              (xbee_cbuf_free (rx_bufs rx (sp_rxbuf serial)) \<ge> RTS_ASSERT_BYTES) rx))
      else
        let rx = rx\<lparr>rx_flags := rx_flags rx AND NOT (FLAG_FLOW (sp_port serial))\<rparr>
        in (Inr 0, snd (xbee_ser_set_rts serial True rx)))"

definition xbee_ser_get_cts :: "xbee_serial \<Rightarrow> serial_tx \<Rightarrow> errno + int" where
  "xbee_ser_get_cts serial tx =
     (if sp_port serial = SERIAL_PORT_SCI1 \<or> sp_port serial = SERIAL_PORT_SCI2
      then Inr (if tx_cts_pin tx (sp_port serial) then 0 else 1)
      else Inl EINVAL)"

text \<open>
  The interrupt routine of the radio's port, \<open>radio_uart_isr\<close>; \<open>EMBER_SERIAL_PORT\<close> is its
  argument and \<open>data\<close> the content of the data register.
\<close>

definition radio_uart_isr :: "xbee_serial \<Rightarrow> u8 \<Rightarrow> serial_rx \<Rightarrow> serial_rx" where
  "radio_uart_isr ember data rx =
     (let cb = snd (xbee_cbuf_putch (rx_bufs rx (sp_rxbuf ember)) data);
          rx = set_rxbuf ember cb rx
      in if rx_flags rx AND (FLAG_FLOW 2 OR FLAG_RTS 2) = FLAG_FLOW 2 OR FLAG_RTS 2
            \<and> xbee_cbuf_free cb < RTS_ASSERT_BYTES
         then rx\<lparr>rx_flags := rx_flags rx AND NOT (FLAG_RTS 2), rx_rts_pin := (rx_rts_pin rx)(2 := True)\<rparr>
         else rx)"

section \<open>Flow control of the radio's port\<close>

definition flow_on :: "serial_rx \<Rightarrow> bool" where
  "flow_on rx \<longleftrightarrow> bit (rx_flags rx) 1"

definition rts_on :: "serial_rx \<Rightarrow> bool" where
  "rts_on rx \<longleftrightarrow> bit (rx_flags rx) 3"

lemma u8_and_10: "(x :: u8) AND 10 = 10 \<longleftrightarrow> bit x 1 \<and> bit x 3"
proof
  assume e: "x AND 10 = 10"
  have "bit (x AND 10) 1 = bit (10 :: u8) 1" "bit (x AND 10) 3 = bit (10 :: u8) 3"
    by (simp_all only: e)
  then show "bit x 1 \<and> bit x 3" by (simp add: bit_simps)
qed (auto intro!: u8_bits_eqI simp: bit_simps)

lemma u8_shift_and_5: "drop_bit 1 (x :: u8) AND 5 = 1 \<longleftrightarrow> bit x 1 \<and> \<not> bit x 3"
proof
  assume e: "drop_bit 1 x AND 5 = 1"
  have "bit (drop_bit 1 x AND 5) 0 = bit (1 :: u8) 0" "bit (drop_bit 1 x AND 5) 2 = bit (1 :: u8) 2"
    by (simp_all only: e)
  then show "bit x 1 \<and> \<not> bit x 3" by (simp add: bit_simps numeral_eq_Suc)
qed (auto intro!: u8_bits_eqI simp: bit_simps numeral_eq_Suc)

text \<open>The port the radio is connected to, and what the four operations do to its buffer and its flags.\<close>

definition radio_port :: "xbee_serial \<Rightarrow> bool" where
  "radio_port serial \<longleftrightarrow> sp_port serial = SERIAL_PORT_SCI2"

abbreviation rxbuf :: "xbee_serial \<Rightarrow> serial_rx \<Rightarrow> xbee_cbuf" where
  "rxbuf serial rx \<equiv> rx_bufs rx (sp_rxbuf serial)"

definition rts_level :: "serial_rx \<Rightarrow> bool" where
  "rts_level rx \<longleftrightarrow> \<not> rx_rts_pin rx SERIAL_PORT_SCI2"

text \<open>
  The state of the receiving side when flow control is on: the flag agrees with the pin, and while
  RTS is asserted at least eight bytes are free.
\<close>

definition link_ok :: "xbee_serial \<Rightarrow> serial_rx \<Rightarrow> bool" where
  "link_ok serial rx \<longleftrightarrow> xcb_wf (rxbuf serial rx) \<and> flow_on rx \<and> rts_on rx = rts_level rx \<and>
     (rts_level rx \<longrightarrow> 8 \<le> unat (xbee_cbuf_free (rxbuf serial rx)))"

lemma check_rts_radio: "radio_port serial \<Longrightarrow> XBEE_SER_CHECK_RTS serial rx \<longleftrightarrow> flow_on rx \<and> \<not> rts_on rx"
  using u8_shift_and_5 [of "rx_flags rx"]
  by (simp add: XBEE_SER_CHECK_RTS_def radio_port_def FLAG_FLOW_def FLAG_RTS_def flow_on_def rts_on_def)

lemma set_rts_radio:
  assumes "radio_port serial"
  shows "fst (xbee_ser_set_rts serial asserted rx) = Inr 0"
    and "rx_bufs (snd (xbee_ser_set_rts serial asserted rx)) = rx_bufs rx"
    and "flow_on (snd (xbee_ser_set_rts serial asserted rx)) = flow_on rx"
    and "rts_on (snd (xbee_ser_set_rts serial asserted rx)) = asserted"
    and "rts_level (snd (xbee_ser_set_rts serial asserted rx)) = asserted"
  using assms
  by (simp_all add: xbee_ser_set_rts_def radio_port_def Let_def flow_on_def rts_on_def rts_level_def
      FLAG_RTS_def bit_simps numeral_eq_Suc)

lemma set_rxbuf_facts [simp]:
  "rxbuf serial (set_rxbuf serial cb rx) = cb"
  "flow_on (set_rxbuf serial cb rx) = flow_on rx"
  "rts_on (set_rxbuf serial cb rx) = rts_on rx"
  "rts_level (set_rxbuf serial cb rx) = rts_level rx"
  by (simp_all add: set_rxbuf_def flow_on_def rts_on_def rts_level_def)

lemma free_count: "xcb_wf cb \<Longrightarrow> unat (xbee_cbuf_free cb) = xcb_capacity cb - xcb_count cb"
  using xbee_cbuf_free_used [of cb] unat_xbee_cbuf_used [of cb] by simp

lemma free_ge_8: "xbee_cbuf_free cb \<ge> RTS_ASSERT_BYTES \<longleftrightarrow> 8 \<le> unat (xbee_cbuf_free cb)"
  by (simp add: word_le_nat_alt)

text \<open>A byte arrives: it is stored when there is room, and RTS is released below eight free bytes.\<close>

lemma radio_uart_isr_facts:
  assumes "radio_port serial" "link_ok serial rx"
  shows "link_ok serial (radio_uart_isr serial b rx)"
    and "xcb_contents (rxbuf serial (radio_uart_isr serial b rx)) = xcb_contents (rxbuf serial rx) @
      (if 0 < unat (xbee_cbuf_free (rxbuf serial rx)) then [b] else [])"
    and "unat (xbee_cbuf_free (rxbuf serial (radio_uart_isr serial b rx)))
      = unat (xbee_cbuf_free (rxbuf serial rx)) - 1"
    and "rts_level (radio_uart_isr serial b rx) \<longleftrightarrow>
      rts_level rx \<and> 9 \<le> unat (xbee_cbuf_free (rxbuf serial rx))"
proof -
  let ?cb = "rxbuf serial rx" and ?cb' = "xcb_push (rxbuf serial rx) b"
    and ?rx = "set_rxbuf serial (xcb_push (rxbuf serial rx) b) rx"
  have wf: "xcb_wf ?cb" using assms(2) by (simp add: link_ok_def)
  note push = xcb_push_facts [OF wf, of b]
  have cont: "xcb_contents ?cb' = xcb_contents ?cb @ (if 0 < unat (xbee_cbuf_free ?cb) then [b] else [])"
    using push(3) by (auto simp: free_count wf)
  have "xcb_count ?cb' = xcb_count ?cb + (if 0 < unat (xbee_cbuf_free ?cb) then 1 else 0)"
    using arg_cong [OF cont, of length] by auto
  then have free: "unat (xbee_cbuf_free ?cb') = unat (xbee_cbuf_free ?cb) - 1"
    using push(1,2) by (auto simp: free_count wf)
  have isr: "radio_uart_isr serial b rx =
    (if flow_on rx \<and> rts_on rx \<and> unat (xbee_cbuf_free ?cb') < 8
     then ?rx\<lparr>rx_flags := rx_flags ?rx AND NOT (FLAG_RTS 2), rx_rts_pin := (rx_rts_pin ?rx)(2 := True)\<rparr>
     else ?rx)"
    using u8_and_10 [of "rx_flags rx"]
    by (simp add: radio_uart_isr_def Let_def xcb_push_def FLAG_FLOW_def FLAG_RTS_def flow_on_def rts_on_def
        set_rxbuf_def word_less_nat_alt)
  have ok: "flow_on rx" "rts_on rx = rts_level rx" using assms(2) by (simp_all add: link_ok_def)
  show "xcb_contents (rxbuf serial (radio_uart_isr serial b rx)) = xcb_contents ?cb @
      (if 0 < unat (xbee_cbuf_free ?cb) then [b] else [])"
    unfolding isr using cont by simp
  show "unat (xbee_cbuf_free (rxbuf serial (radio_uart_isr serial b rx))) = unat (xbee_cbuf_free ?cb) - 1"
    unfolding isr using free by simp
  show lev: "rts_level (radio_uart_isr serial b rx) \<longleftrightarrow> rts_level rx \<and> 9 \<le> unat (xbee_cbuf_free ?cb)"
    unfolding isr using ok free by (auto simp: rts_level_def set_rxbuf_def)
  have "flow_on (radio_uart_isr serial b rx)" "xcb_wf (rxbuf serial (radio_uart_isr serial b rx))"
    "rts_on (radio_uart_isr serial b rx) = rts_level (radio_uart_isr serial b rx)"
    unfolding isr using ok push(1)
    by (auto simp: flow_on_def rts_on_def rts_level_def set_rxbuf_def FLAG_RTS_def bit_simps numeral_eq_Suc)
  then show "link_ok serial (radio_uart_isr serial b rx)"
    using lev \<open>unat (xbee_cbuf_free (rxbuf serial (radio_uart_isr serial b rx))) = unat (xbee_cbuf_free ?cb) - 1\<close>
    by (auto simp: link_ok_def)
qed

text \<open>
  After bytes have been taken from the buffer: RTS is asserted again as soon as eight are free.
\<close>

lemma link_ok_after_take:
  assumes "radio_port serial" "link_ok serial rx" "xcb_wf cb"
    and free: "unat (xbee_cbuf_free (rxbuf serial rx)) \<le> unat (xbee_cbuf_free cb)"
    and enough: "enough \<longrightarrow> 8 \<le> unat (xbee_cbuf_free cb)"
    and rx': "rx' = (if XBEE_SER_CHECK_RTS serial (set_rxbuf serial cb rx) \<and> enough
      then snd (xbee_ser_set_rts serial True (set_rxbuf serial cb rx)) else set_rxbuf serial cb rx)"
  shows "link_ok serial rx' \<and> rxbuf serial rx' = cb \<and> (rts_level rx' \<longleftrightarrow> rts_level rx \<or> enough)"
proof -
  let ?rx = "set_rxbuf serial cb rx"
  have ok: "flow_on ?rx" "rts_on ?rx = rts_level ?rx" "rts_level ?rx = rts_level rx"
    "rts_level rx \<longrightarrow> 8 \<le> unat (xbee_cbuf_free cb)"
    using assms(2) free by (auto simp: link_ok_def)
  show ?thesis
  proof (cases "\<not> rts_on ?rx \<and> enough")
    case True
    then have "rx' = snd (xbee_ser_set_rts serial True ?rx)"
      using rx' ok by (simp add: check_rts_radio assms(1))
    then show ?thesis
      using True enough ok set_rts_radio [OF assms(1), of True ?rx] assms(3) by (simp add: link_ok_def)
  next
    case False
    then have "rx' = ?rx" using rx' ok by (auto simp: check_rts_radio assms(1))
    then show ?thesis using False ok assms(3) by (auto simp: link_ok_def)
  qed
qed

lemma get_free:
  assumes "xcb_wf cb" "xbee_cbuf_get cb len = (n, out, cb')" "xcb_capacity cb' = xcb_capacity cb"
  shows "unat (xbee_cbuf_free cb') = unat (xbee_cbuf_free cb) + unat n"
proof -
  note get = xbee_cbuf_get_facts [OF assms(1,2)]
  have "xcb_count cb' = xcb_count cb - unat n"
    using arg_cong [OF get(3), of length] by simp
  moreover have "unat n \<le> xcb_count cb" "xcb_count cb \<le> xcb_capacity cb"
    using get(1) unat_xbee_cbuf_used [OF assms(1)] xcb_count_less [OF assms(1)]
    by (simp_all add: xcb_size_def xcb_capacity_def)
  ultimately show ?thesis using assms(1,3) get(4) by (simp add: free_count)
qed

lemma get_loop_mask: "xbee_cbuf_get_loop cb n = (r, out, cb') \<Longrightarrow> xc_mask cb' = xc_mask cb"
  by (induction cb n arbitrary: r out rule: xbee_cbuf_get_loop.induct) (auto split: if_splits prod.splits)

lemma get_capacity: "xbee_cbuf_get cb len = (n, out, cb') \<Longrightarrow> xcb_capacity cb' = xcb_capacity cb"
  by (auto simp: xbee_cbuf_get_def xcb_capacity_def dest: get_loop_mask split: prod.splits)

lemma unat_of_int_u8: "0 \<le> k \<Longrightarrow> k < 256 \<Longrightarrow> unat (word_of_int k :: u8) = nat k"
  using uint_of_int_u8 [of k] by (simp only: unsigned_of_int take_bit_int_eq_self flip: nat_uint_eq)

text \<open>What a read does to the buffer, for any port: it takes the oldest bytes.\<close>

lemma set_rts_bufs [simp]: "rx_bufs (snd (xbee_ser_set_rts serial asserted rx)) = rx_bufs rx"
  by (simp add: xbee_ser_set_rts_def Let_def)

lemma xbee_ser_read_queue:
  assumes "xcb_wf (rxbuf serial rx)" "xbee_ser_read serial n rx = (r, bytes, rx')" "0 \<le> n"
  shows "xcb_wf (rxbuf serial rx') \<and> bytes = take (nat (min n 255)) (xcb_contents (rxbuf serial rx)) \<and>
    r = Inr (int (length bytes)) \<and>
    xcb_contents (rxbuf serial rx') = drop (length bytes) (xcb_contents (rxbuf serial rx))"
proof (cases "n = 0")
  case True
  then show ?thesis using assms by (auto simp: xbee_ser_read_def)
next
  case False
  let ?cb = "rxbuf serial rx" and ?len = "if n > 255 then 255 else word_of_int n :: u8"
  obtain k out cb where get: "xbee_cbuf_get ?cb ?len = (k, out, cb)" by (metis prod_cases3)
  note facts = xbee_cbuf_get_facts [OF assms(1) get]
  have "unat ?len = nat (min n 255)"
    using assms(3) False by (auto simp: unat_of_int_u8 min_def)
  then have out: "out = take (nat (min n 255)) (xcb_contents ?cb)" "length out = unat k"
    using facts(1,2) unat_xbee_cbuf_used [OF assms(1)] by (auto simp: min_def)
  have "r = Inr (uint k)" "bytes = out" "rxbuf serial rx' = cb"
    using assms(2,3) False get by (auto simp: xbee_ser_read_def Let_def)
  then show ?thesis using out facts(3,4) by simp
qed

lemma xbee_ser_read_facts:
  assumes "radio_port serial" "link_ok serial rx" "xbee_ser_read serial n rx = (r, bytes, rx')" "0 \<le> n"
  shows "link_ok serial rx'"
    and "unat (xbee_cbuf_free (rxbuf serial rx')) = unat (xbee_cbuf_free (rxbuf serial rx)) + length bytes"
    and "rts_level rx \<Longrightarrow> rts_level rx'"
proof -
  let ?cb = "rxbuf serial rx" and ?len = "if n > 255 then 255 else word_of_int n :: u8"
  have wf: "xcb_wf ?cb" using assms(2) by (simp add: link_ok_def)
  have "link_ok serial rx' \<and> (rts_level rx \<longrightarrow> rts_level rx')
    \<and> unat (xbee_cbuf_free (rxbuf serial rx')) = unat (xbee_cbuf_free ?cb) + length bytes"
  proof (cases "n = 0")
    case True
    then show ?thesis using assms by (auto simp: xbee_ser_read_def)
  next
    case False
    obtain k out cb where get: "xbee_cbuf_get ?cb ?len = (k, out, cb)" by (metis prod_cases3)
    note facts = xbee_cbuf_get_facts [OF wf get]
    have free: "unat (xbee_cbuf_free cb) = unat (xbee_cbuf_free ?cb) + unat k"
      using get_free [OF wf get get_capacity [OF get]] .
    have r: "length bytes = unat k" and rx': "rx' = (if XBEE_SER_CHECK_RTS serial (set_rxbuf serial cb rx)
        \<and> (k \<ge> RTS_ASSERT_BYTES \<or> xbee_cbuf_free cb \<ge> RTS_ASSERT_BYTES)
      then snd (xbee_ser_set_rts serial True (set_rxbuf serial cb rx)) else set_rxbuf serial cb rx)"
      using assms(3,4) False get facts(1,2) unat_xbee_cbuf_used [OF wf] by (auto simp: xbee_ser_read_def Let_def)
    have "link_ok serial rx' \<and> rxbuf serial rx' = cb \<and> (rts_level rx' \<longleftrightarrow> rts_level rx \<or>
        (k \<ge> RTS_ASSERT_BYTES \<or> xbee_cbuf_free cb \<ge> RTS_ASSERT_BYTES))"
      using free by (intro link_ok_after_take [OF assms(1,2) facts(4) _ _ rx']) (auto simp: word_le_nat_alt)
    then show ?thesis using r free by auto
  qed
  then show "link_ok serial rx'" "rts_level rx \<Longrightarrow> rts_level rx'"
    "unat (xbee_cbuf_free (rxbuf serial rx')) = unat (xbee_cbuf_free ?cb) + length bytes" by blast+
qed

lemma xbee_ser_getchar_facts:
  assumes "radio_port serial" "link_ok serial rx" "xbee_ser_getchar serial rx = (r, rx')"
  shows "link_ok serial rx'"
    and "r = (case xcb_contents (rxbuf serial rx) of [] \<Rightarrow> Inl ENODATA | b # _ \<Rightarrow> Inr (uint b))"
    and "xcb_contents (rxbuf serial rx') = tl (xcb_contents (rxbuf serial rx))"
    and "unat (xbee_cbuf_free (rxbuf serial rx)) \<le> unat (xbee_cbuf_free (rxbuf serial rx'))"
    and "rts_level rx \<Longrightarrow> rts_level rx'"
proof -
  let ?cb = "rxbuf serial rx"
  have wf: "xcb_wf ?cb" using assms(2) by (simp add: link_ok_def)
  obtain v cb where get: "xbee_cbuf_getch ?cb = (v, cb)" by fastforce
  then have pop: "xcb_pop ?cb = (if v < 0 then None else Some (word_of_int v), cb)"
    by (simp add: xcb_pop_def)
  have v: "if v < 0 then xcb_contents ?cb = [] else \<exists>b bs. xcb_contents ?cb = b # bs \<and> v = uint b"
    using xcq.get_result [OF wf] get pop
    by (auto simp: xbee_cbuf_getch_def Let_def split: if_splits list.splits)
  have cb: "xcb_wf cb" "xcb_contents cb = tl (xcb_contents ?cb)" "xcb_capacity cb = xcb_capacity ?cb"
    using xcq.get_inv [OF wf] xcq.get_contents [OF wf] xcq.get_capacity [OF wf] pop by simp_all
  have "xcb_count cb \<le> xcb_count ?cb"
    using arg_cong [OF cb(2), of length] by simp
  then have free: "unat (xbee_cbuf_free ?cb) \<le> unat (xbee_cbuf_free cb)"
    using cb wf by (simp add: free_count)
  have rx': "rx' = (if XBEE_SER_CHECK_RTS serial (set_rxbuf serial cb rx)
        \<and> (\<not> v < 0 \<and> xbee_cbuf_free cb \<ge> RTS_ASSERT_BYTES)
      then snd (xbee_ser_set_rts serial True (set_rxbuf serial cb rx)) else set_rxbuf serial cb rx)"
    and r: "r = (if v < 0 then Inl ENODATA else Inr v)"
    using assms(3) get by (auto simp: xbee_ser_getchar_def Let_def split: if_splits)
  have "link_ok serial rx' \<and> rxbuf serial rx' = cb \<and> (rts_level rx' \<longleftrightarrow> rts_level rx \<or>
      (\<not> v < 0 \<and> xbee_cbuf_free cb \<ge> RTS_ASSERT_BYTES))"
    by (intro link_ok_after_take [OF assms(1,2) cb(1) free _ rx']) (simp add: word_le_nat_alt)
  then show "link_ok serial rx'"
    "r = (case xcb_contents ?cb of [] \<Rightarrow> Inl ENODATA | b # _ \<Rightarrow> Inr (uint b))"
    "xcb_contents (rxbuf serial rx') = tl (xcb_contents ?cb)"
    "unat (xbee_cbuf_free ?cb) \<le> unat (xbee_cbuf_free (rxbuf serial rx'))"
    "rts_level rx \<Longrightarrow> rts_level rx'"
    using r v cb free by (auto split: if_splits)
qed

lemma xbee_ser_rx_flush_facts:
  assumes "link_ok serial rx"
  shows "link_ok serial (xbee_ser_rx_flush serial rx)"
    and "xcb_contents (rxbuf serial (xbee_ser_rx_flush serial rx)) = []"
    and "unat (xbee_cbuf_free (rxbuf serial rx)) \<le> unat (xbee_cbuf_free (rxbuf serial (xbee_ser_rx_flush serial rx)))"
    and "rts_level (xbee_ser_rx_flush serial rx) = rts_level rx"
proof -
  let ?cb = "rxbuf serial rx" and ?cb' = "xbee_cbuf_flush (rxbuf serial rx)"
  have wf: "xcb_wf ?cb" "xcb_wf ?cb'"
    using assms xcb_wf_update(4) by (simp_all add: link_ok_def xbee_cbuf_flush_def)
  have "xcb_count ?cb' = 0" using xcb_empty_iff [OF wf(2)] by (simp add: xbee_cbuf_flush_def)
  moreover have "xcb_capacity ?cb' = xcb_capacity ?cb" by (simp add: xbee_cbuf_flush_def xcb_capacity_def)
  ultimately show c: "xcb_contents (rxbuf serial (xbee_ser_rx_flush serial rx)) = []"
    and f: "unat (xbee_cbuf_free ?cb) \<le> unat (xbee_cbuf_free (rxbuf serial (xbee_ser_rx_flush serial rx)))"
    and "rts_level (xbee_ser_rx_flush serial rx) = rts_level rx"
    using wf by (simp_all add: xbee_ser_rx_flush_def free_count xcb_contents_def)
  then show "link_ok serial (xbee_ser_rx_flush serial rx)"
    using assms wf by (auto simp: link_ok_def xbee_ser_rx_flush_def)
qed

section \<open>The link to the radio\<close>

text \<open>
  The history of the port: the bytes that arrived, the bytes that were read (or thrown away by a
  flush), and how many bytes arrived since RTS was released.  The radio may send while RTS is
  asserted and up to seven bytes after it was released.
\<close>

record radio_link =
  ln_rx :: serial_rx
  ln_late :: nat
  ln_received :: "u8 list"
  ln_taken :: "u8 list"

inductive link_step :: "xbee_serial \<Rightarrow> radio_link \<Rightarrow> radio_link \<Rightarrow> bool" for serial where
  arrive: "rts_level (ln_rx l) \<or> ln_late l < 7 \<Longrightarrow>
     link_step serial l (l\<lparr>ln_rx := radio_uart_isr serial b (ln_rx l),
       ln_late := (if rts_level (ln_rx l) then 0 else Suc (ln_late l)),
       ln_received := ln_received l @ [b]\<rparr>)"
| read: "0 \<le> n \<Longrightarrow> xbee_ser_read serial n (ln_rx l) = (r, bytes, rx) \<Longrightarrow>
     link_step serial l (l\<lparr>ln_rx := rx, ln_taken := ln_taken l @ bytes\<rparr>)"
| getchar: "xbee_ser_getchar serial (ln_rx l) = (r, rx) \<Longrightarrow>
     link_step serial l (l\<lparr>ln_rx := rx,
       ln_taken := ln_taken l @ (case r of Inr c \<Rightarrow> [word_of_int c] | Inl _ \<Rightarrow> [])\<rparr>)"
| flush: "link_step serial l (l\<lparr>ln_rx := xbee_ser_rx_flush serial (ln_rx l),
       ln_taken := ln_taken l @ xcb_contents (rxbuf serial (ln_rx l))\<rparr>)"

text \<open>Flow control is switched on for an empty buffer with room for at least eight bytes.\<close>

inductive link_reach :: "xbee_serial \<Rightarrow> radio_link \<Rightarrow> bool" for serial where
  start: "xcb_wf (rxbuf serial rx) \<Longrightarrow> xcb_contents (rxbuf serial rx) = [] \<Longrightarrow>
     8 \<le> xcb_capacity (rxbuf serial rx) \<Longrightarrow> xbee_ser_flowcontrol serial True rx = (r, rx') \<Longrightarrow>
     link_reach serial \<lparr>ln_rx = rx', ln_late = 0, ln_received = [], ln_taken = []\<rparr>"
| step: "link_reach serial l \<Longrightarrow> link_step serial l l' \<Longrightarrow> link_reach serial l'"

definition link_inv :: "xbee_serial \<Rightarrow> radio_link \<Rightarrow> bool" where
  "link_inv serial l \<longleftrightarrow> link_ok serial (ln_rx l) \<and>
     ln_received l = ln_taken l @ xcb_contents (rxbuf serial (ln_rx l)) \<and>
     (\<not> rts_level (ln_rx l) \<longrightarrow> 7 \<le> unat (xbee_cbuf_free (rxbuf serial (ln_rx l))) + ln_late l)"

lemma link_inv_start:
  assumes "radio_port serial" "xcb_wf (rxbuf serial rx)" "xcb_contents (rxbuf serial rx) = []"
    "8 \<le> xcb_capacity (rxbuf serial rx)" "xbee_ser_flowcontrol serial True rx = (r, rx')"
  shows "link_inv serial \<lparr>ln_rx = rx', ln_late = 0, ln_received = [], ln_taken = []\<rparr>"
proof -
  let ?rx = "rx\<lparr>rx_flags := rx_flags rx OR FLAG_FLOW (sp_port serial)\<rparr>"
  have flow: "flow_on ?rx"
    using assms(1) by (simp add: flow_on_def FLAG_FLOW_def radio_port_def bit_simps numeral_eq_Suc)
  have "xcb_count (rxbuf serial rx) = 0" using assms(3) by (metis length_xcb_contents list.size(3))
  then have "8 \<le> unat (xbee_cbuf_free (rxbuf serial rx))" using assms(2,4) by (simp add: free_count)
  then have "rx' = snd (xbee_ser_set_rts serial True ?rx)"
    using assms(5) by (simp add: xbee_ser_flowcontrol_def Let_def word_le_nat_alt)
  then show ?thesis
    using set_rts_radio [OF assms(1), of True ?rx] flow assms(2,3) \<open>8 \<le> unat _\<close>
    by (simp add: link_inv_def link_ok_def)
qed

lemma take_drop_length: "take m xs @ drop (length (take m xs)) xs = xs"
  by (simp add: min_def)

lemma link_inv_step:
  assumes "link_step serial l l'" "radio_port serial" "link_inv serial l"
  shows "link_inv serial l'"
  using assms(1)
proof cases
  case (arrive b)
  then show ?thesis
    using radio_uart_isr_facts [OF assms(2), of "ln_rx l" b] assms(3)
    by (auto simp: link_inv_def link_ok_def)
next
  case (read n r bytes rx)
  have ok: "link_ok serial (ln_rx l)" using assms(3) by (simp add: link_inv_def)
  note facts = xbee_ser_read_facts [OF assms(2) ok read(3,2)]
  have "bytes @ xcb_contents (rxbuf serial rx) = xcb_contents (rxbuf serial (ln_rx l))"
    using xbee_ser_read_queue [OF _ read(3,2)] ok take_drop_length [of "nat (min n 255)"]
    by (auto simp: link_ok_def simp del: length_take)
  then show ?thesis using facts assms(3) read(1) by (auto simp: link_inv_def)
next
  case (getchar r rx)
  have ok: "link_ok serial (ln_rx l)" using assms(3) by (simp add: link_inv_def)
  note facts = xbee_ser_getchar_facts [OF assms(2) ok getchar(2)]
  show ?thesis
    using facts assms(3) getchar(1)
    by (cases "xcb_contents (rxbuf serial (ln_rx l))") (auto simp: link_inv_def)
next
  case flush
  then show ?thesis
    using xbee_ser_rx_flush_facts [of serial "ln_rx l"] assms(3) by (auto simp: link_inv_def)
qed

lemma link_inv_reach: "link_reach serial l \<Longrightarrow> radio_port serial \<Longrightarrow> link_inv serial l"
  by (induction rule: link_reach.induct) (auto intro: link_inv_start link_inv_step)

text \<open>
  C24: The link to the radio loses nothing.  Once flow control is on, for every sequence of receive
  interrupts, reads, single-character reads and flushes in which the radio sends at most seven
  bytes after RTS was released, the bytes that arrived are the bytes taken followed by the bytes
  still in the buffer, in order; and RTS is asserted only while at least eight bytes are free.
\<close>

theorem radio_link_lossless:
  assumes "link_reach serial l" and "radio_port serial"
  shows "ln_received l = ln_taken l @ xcb_contents (rxbuf serial (ln_rx l)) \<and>
    (rts_level (ln_rx l) \<longrightarrow> 8 \<le> unat (xbee_cbuf_free (rxbuf serial (ln_rx l))))"
  using link_inv_reach [OF assms] by (simp add: link_inv_def link_ok_def)

definition demo_port :: xbee_serial where
  "demo_port = \<lparr>sp_baudrate = 115200, sp_port = SERIAL_PORT_SCI2, sp_rxbuf = 0\<rparr>"

definition demo_rx :: serial_rx where
  "demo_rx = \<lparr>rx_flags = 0, rx_bufs = (\<lambda>_. \<lparr>xc_lock = 0, xc_head = 0, xc_tail = 0, xc_mask = 15, xc_data = replicate 16 0\<rparr>),
     rx_rts_pin = (\<lambda>_. True), rx_rts_out = (\<lambda>_. False)\<rparr>"

lemma radio_port_demo: "radio_port demo_port"
  by (simp add: radio_port_def demo_port_def)

lemma demo_link_start: "link_reach demo_port
  \<lparr>ln_rx = snd (xbee_ser_flowcontrol demo_port True demo_rx), ln_late = 0, ln_received = [], ln_taken = []\<rparr>"
  by (rule link_reach.start [where rx = demo_rx and r = "fst (xbee_ser_flowcontrol demo_port True demo_rx)"])
    (simp_all add: demo_rx_def demo_port_def xcb_wf_def xcb_size_def xcb_contents_def xcb_count_def xcb_capacity_def)

theorem radio_link_lossless_witness:
  "\<exists>l. link_reach demo_port l \<and> ln_received l = [7] \<and> [7] = ln_taken l @ xcb_contents (rxbuf demo_port (ln_rx l))"
proof -
  let ?l = "\<lparr>ln_rx = snd (xbee_ser_flowcontrol demo_port True demo_rx), ln_late = 0, ln_received = [], ln_taken = []\<rparr>"
  have "rts_level (ln_rx ?l) \<or> ln_late ?l < 7" by simp
  from link_reach.step [OF demo_link_start link_step.arrive [OF this, of demo_port 7]]
    radio_link_lossless [OF _ radio_port_demo]
  show ?thesis by fastforce
qed

end
