(* ===== verification/Xbee_Device.thy ===== *)
theory Xbee_Device
  imports Xbee_Serial Byte_Order
begin

text \<open>
  The frame layer (\<open>pxbee/pan/xbee/xbee_device.c\<close>, \<open>headers/xbee/device.h\<close>): sending a frame with
  its length and checksum, the receiver that finds frames in the stream of bytes, and the dispatch
  of frames to the handlers of the application's table.
\<close>

section \<open>The device\<close>

abbreviation XBEE_MAX_FRAME_LEN :: u16 where "XBEE_MAX_FRAME_LEN \<equiv> 146"
abbreviation XBEE_DEV_MAX_DISPATCH_PER_TICK :: nat where "XBEE_DEV_MAX_DISPATCH_PER_TICK \<equiv> 5"

abbreviation XBEE_DEV_FLAG_IN_TICK :: u16 where "XBEE_DEV_FLAG_IN_TICK \<equiv> 0x0080"
abbreviation XBEE_DEV_FLAG_USE_FLOWCONTROL :: u16 where "XBEE_DEV_FLAG_USE_FLOWCONTROL \<equiv> 0x8000"

abbreviation WPAN_FLAG_JOINED :: u16 where "WPAN_FLAG_JOINED \<equiv> 0x0001"
abbreviation WPAN_FLAG_AUTHENTICATED :: u16 where "WPAN_FLAG_AUTHENTICATED \<equiv> 0x0002"
abbreviation WPAN_NET_ADDR_COORDINATOR :: u16 where "WPAN_NET_ADDR_COORDINATOR \<equiv> 0x0000"
abbreviation WPAN_NET_ADDR_UNDEFINED :: u16 where "WPAN_NET_ADDR_UNDEFINED \<equiv> 0xFFFE"

abbreviation XBEE_FRAME_MODEM_STATUS :: u8 where "XBEE_FRAME_MODEM_STATUS \<equiv> 0x8A"

abbreviation XBEE_MODEM_STATUS_HW_RESET :: u8 where "XBEE_MODEM_STATUS_HW_RESET \<equiv> 0x00"
abbreviation XBEE_MODEM_STATUS_WATCHDOG :: u8 where "XBEE_MODEM_STATUS_WATCHDOG \<equiv> 0x01"
abbreviation XBEE_MODEM_STATUS_JOINED :: u8 where "XBEE_MODEM_STATUS_JOINED \<equiv> 0x02"
abbreviation XBEE_MODEM_STATUS_DISASSOC :: u8 where "XBEE_MODEM_STATUS_DISASSOC \<equiv> 0x03"
abbreviation XBEE_MODEM_STATUS_COORD_START :: u8 where "XBEE_MODEM_STATUS_COORD_START \<equiv> 0x06"
abbreviation XBEE_MODEM_STATUS_KEY_ESTABLISHED :: u8 where "XBEE_MODEM_STATUS_KEY_ESTABLISHED \<equiv> 0x10"

datatype xbee_dev_rx_state =
    XBEE_RX_STATE_WAITSTART | XBEE_RX_STATE_LENGTH_MSB | XBEE_RX_STATE_LENGTH_LSB | XBEE_RX_STATE_RXFRAME

text \<open>The field \<open>rx\<close> of \<open>xbee_dev_t\<close>; \<open>frame_data\<close> has 147 bytes.\<close>

record xbee_rx =
  rx_state :: xbee_dev_rx_state
  rx_bytes_in_frame :: u16
  rx_bytes_read :: u16
  rx_frame_data :: "u8 list"

text \<open>
  \<open>xbee_dev_t\<close>, with the flags, addresses and payload size of its \<open>wpan_dev\<close>, the two sides of the
  serial hardware and, in \<open>world\<close>, the state of the rest of the system, which includes the pins
  the functions \<open>reset\<close> and \<open>is_awake\<close> work on.
\<close>

record 'w xbee_dev =
  xd_wpan_flags :: u16
  xd_network :: u16
  xd_ieee :: "u8 list"
  xd_payload :: u16
  xd_serport :: xbee_serial
  xd_reset :: "(bool \<Rightarrow> 'w \<Rightarrow> 'w) option"
  xd_is_awake :: "('w \<Rightarrow> int) option"
  xd_hardware_version :: u16
  xd_firmware_version :: u32
  xd_flags :: u16
  xd_rx :: xbee_rx
  xd_frame_id :: u8
  xd_srx :: serial_rx
  xd_stx :: serial_tx
  xd_world :: 'w

text \<open>A frame handler gets the bytes of the frame and their number; its context is part of it.\<close>

record 'w xbee_dispatch_table_entry =
  de_frame_type :: u8
  de_frame_id :: u8
  de_handler :: "'w xbee_dev \<Rightarrow> u8 list \<Rightarrow> u16 \<Rightarrow> int \<times> 'w xbee_dev"

section \<open>Operations of the device\<close>

definition xbee_next_frame_id :: "'w xbee_dev option \<Rightarrow> u8 \<times> 'w xbee_dev option" where
  "xbee_next_frame_id xbee =
     (case xbee of
        None \<Rightarrow> (0, None)
      | Some d \<Rightarrow>
          let next = xd_frame_id d + 1;
              next = (if next = 0 then 1 else next)
          in (next, Some (d\<lparr>xd_frame_id := next\<rparr>)))"

text \<open>The error of \<open>xbee_dev_init\<close> is returned after all fields have been set.\<close>

definition xbee_dev_init ::
    "'w xbee_dev option \<Rightarrow> xbee_serial \<Rightarrow> ('w \<Rightarrow> int) option \<Rightarrow> (bool \<Rightarrow> 'w \<Rightarrow> 'w) option
     \<Rightarrow> (errno + int) \<times> 'w xbee_dev option" where
  "xbee_dev_init xbee serport is_awake reset =
     (case xbee of
        None \<Rightarrow> (Inl EINVAL, None)
      | Some d \<Rightarrow>
          let (error, port, stx) = xbee_ser_open serport (sp_baudrate serport) (xd_stx d);
              (error, srx) = (if error = Inr 0 then xbee_ser_flowcontrol port True (xd_srx d) else (error, xd_srx d))
          in (error, Some
               \<lparr>xd_wpan_flags = 0, xd_network = 0, xd_ieee = replicate 8 0, xd_payload = 0, xd_serport = port, xd_reset = reset, xd_is_awake = is_awake,
                xd_hardware_version = 0, xd_firmware_version = 0,
                xd_flags = XBEE_DEV_FLAG_USE_FLOWCONTROL,
                xd_rx = \<lparr>rx_state = XBEE_RX_STATE_WAITSTART, rx_bytes_in_frame = 0, rx_bytes_read = 0,
                         rx_frame_data = replicate 147 0\<rparr>,
                xd_frame_id = 0, xd_srx = srx, xd_stx = stx,
                xd_world = (case reset of Some f \<Rightarrow> f False (xd_world d) | None \<Rightarrow> xd_world d)\<rparr>))"

definition xbee_dev_flowcontrol :: "'w xbee_dev option \<Rightarrow> bool \<Rightarrow> 'w xbee_dev option" where
  "xbee_dev_flowcontrol xbee enabled =
     map_option (\<lambda>d. d\<lparr>xd_flags := (if enabled then xd_flags d OR XBEE_DEV_FLAG_USE_FLOWCONTROL
                                     else xd_flags d AND NOT XBEE_DEV_FLAG_USE_FLOWCONTROL)\<rparr>) xbee"

text \<open>The wait between the two calls of \<open>reset\<close> takes no step of the model.\<close>

definition xbee_dev_reset :: "'w xbee_dev option \<Rightarrow> (errno + int) \<times> 'w xbee_dev option" where
  "xbee_dev_reset xbee =
     (case xbee of
        None \<Rightarrow> (Inl EINVAL, None)
      | Some d \<Rightarrow>
          (case xd_reset d of
             None \<Rightarrow> (Inl EIO, Some d)
           | Some reset \<Rightarrow> (Inr 0, Some (d\<lparr>xd_world := reset False (reset True (xd_world d))\<rparr>))))"

text \<open>\<open>_xbee_checksum\<close>; its length is 8 bits wide.\<close>

fun checksum_loop :: "u8 list \<Rightarrow> nat \<Rightarrow> u8 \<Rightarrow> u8" where
  "checksum_loop bytes 0 checksum = checksum"
| "checksum_loop bytes (Suc i) checksum = checksum_loop (tl bytes) i (checksum - hd bytes)"

definition xbee_checksum :: "u8 list \<Rightarrow> u8 \<Rightarrow> u8 \<Rightarrow> u8" where
  "xbee_checksum bytes len initial = checksum_loop bytes (unat len) initial"

section \<open>Sending a frame\<close>

text \<open>
  \<open>None\<close> is the null pointer.  The sum \<open>headerlen + datalen + 3 + 1\<close> is unsigned and converted to
  a signed 16-bit \<open>int\<close>.
\<close>

definition xbee_frame_write ::
    "'w xbee_dev option \<Rightarrow> u8 list option \<Rightarrow> u16 \<Rightarrow> u8 list option \<Rightarrow> u16 \<Rightarrow> u16
     \<Rightarrow> (errno + int) \<times> 'w xbee_dev option" where
  "xbee_frame_write xbee header headerlen data datalen flags =
     (case xbee of
        None \<Rightarrow> (Inl EINVAL, None)
      | Some d \<Rightarrow>
          if xbee_ser_invalid (Some (xd_serport d)) then (Inl EINVAL, xbee)
          else
            let cts = (if xd_flags d AND XBEE_DEV_FLAG_USE_FLOWCONTROL \<noteq> 0
                       then xbee_ser_get_cts (xd_serport d) (xd_stx d) else Inr 1);
                headerlen = (if header = None then 0 else headerlen);
                datalen = (if data = None then 0 else datalen) in
            if cts = Inl EINVAL then (Inl EINVAL, xbee)
            else if headerlen = 0 \<and> datalen = 0 then (Inl ENODATA, xbee)
            else
              let tx_free = xbee_ser_tx_free (xd_serport d);
                  used = xbee_ser_tx_used (xd_serport d);
                  framesize = sint (headerlen + datalen + 3 + 1) in
              if cts = Inr 0 \<or> tx_free < framesize
              then (Inl (if s16 (framesize - tx_free) > used then EMSGSIZE else EBUSY), xbee)
              else
                let send = (\<lambda>bytes n tx. snd (xbee_ser_write (xd_serport d) bytes n tx));
                    tx = send (0x7E # bytes16 (headerlen + datalen)) 3 (xd_stx d);
                    (tx, checksum) =
                      (if headerlen \<noteq> 0
                       then (send (the header) (sint headerlen) tx, xbee_checksum (the header) (ucast headerlen) 0xFF)
                       else (tx, 0xFF));
                    (tx, checksum) =
                      (if datalen \<noteq> 0
                       then (send (the data) (sint datalen) tx, xbee_checksum (the data) (ucast datalen) checksum)
                       else (tx, checksum));
                    tx = send [checksum] 1 tx
                in (Inr 0, Some (d\<lparr>xd_stx := tx\<rparr>)))"

section \<open>Dispatching a frame\<close>

definition xbee_dev_modem_status :: "'w xbee_dev \<Rightarrow> u8 \<Rightarrow> 'w xbee_dev" where
  "xbee_dev_modem_status d status =
     (let flags = xd_wpan_flags d in
      if status = XBEE_MODEM_STATUS_COORD_START then
        d\<lparr>xd_network := WPAN_NET_ADDR_COORDINATOR,
          xd_wpan_flags := flags OR (WPAN_FLAG_JOINED OR WPAN_FLAG_AUTHENTICATED)\<rparr>
      else if status = XBEE_MODEM_STATUS_KEY_ESTABLISHED then
        d\<lparr>xd_wpan_flags := flags OR WPAN_FLAG_AUTHENTICATED OR WPAN_FLAG_JOINED\<rparr>
      else if status = XBEE_MODEM_STATUS_JOINED then
        d\<lparr>xd_wpan_flags := flags OR WPAN_FLAG_JOINED\<rparr>
      else if status \<in> {XBEE_MODEM_STATUS_HW_RESET, XBEE_MODEM_STATUS_WATCHDOG, XBEE_MODEM_STATUS_DISASSOC} then
        d\<lparr>xd_network := WPAN_NET_ADDR_UNDEFINED,
          xd_wpan_flags := flags AND NOT (WPAN_FLAG_JOINED OR WPAN_FLAG_AUTHENTICATED)\<rparr>
      else d)"

text \<open>
  The loop over \<open>xbee_frame_handlers\<close>, which ends at the entry of type \<open>0xFF\<close>; the number of
  handlers called is 8 bits wide.
\<close>

fun dispatch_loop ::
    "'w xbee_dispatch_table_entry list \<Rightarrow> u8 \<Rightarrow> u8 \<Rightarrow> u8 list \<Rightarrow> u16 \<Rightarrow> u8 \<Rightarrow> 'w xbee_dev \<Rightarrow> u8 \<times> 'w xbee_dev" where
  "dispatch_loop [] frametype frameid frame len dispatched d = (dispatched, d)"
| "dispatch_loop (entry # es) frametype frameid frame len dispatched d =
     (if de_frame_type entry = 0xFF then (dispatched, d)
      else if de_frame_type entry = frametype \<and> (de_frame_id entry = 0 \<or> de_frame_id entry = frameid)
      then dispatch_loop es frametype frameid frame len (dispatched + 1) (snd (de_handler entry d frame len))
      else dispatch_loop es frametype frameid frame len dispatched d)"

definition xbee_frame_dispatch ::
    "'w xbee_dispatch_table_entry list \<Rightarrow> 'w xbee_dev option \<Rightarrow> u8 list option \<Rightarrow> u16
     \<Rightarrow> (errno + int) \<times> 'w xbee_dev option" where
  "xbee_frame_dispatch handlers xbee frame len =
     (case (xbee, frame) of
        (Some d, Some f) \<Rightarrow>
          if len = 0 then (Inl EINVAL, xbee)
          else
            let frametype = f ! 0;
                frameid = f ! 1;
                d = (if frametype = XBEE_FRAME_MODEM_STATUS then xbee_dev_modem_status d frameid else d);
                (dispatched, d) = dispatch_loop handlers frametype frameid f len 0 d
            in (Inr (uint dispatched), Some d)
      | _ \<Rightarrow> (Inl EINVAL, xbee))"

section \<open>Receiving frames\<close>

text \<open>One character: \<open>xbee_ser_read\<close> with a size of 1 returns 0 or 1.\<close>

definition read_char :: "'w xbee_dev \<Rightarrow> u8 option \<times> 'w xbee_dev" where
  "read_char d =
     (let (retval, bytes, srx) = xbee_ser_read (xd_serport d) 1 (xd_srx d)
      in (if retval = Inr 1 then Some (hd bytes) else None, d\<lparr>xd_srx := srx\<rparr>))"

definition set_rx_state :: "xbee_dev_rx_state \<Rightarrow> 'w xbee_dev \<Rightarrow> 'w xbee_dev" where
  "set_rx_state st d = d\<lparr>xd_rx := (xd_rx d)\<lparr>rx_state := st\<rparr>\<rparr>"

text \<open>The loop that looks for the start of a frame: whether it was found.\<close>

partial_function (option) wait_start :: "'w xbee_dev \<Rightarrow> (bool \<times> 'w xbee_dev) option" where
  "wait_start d =
     (case read_char d of
        (None, d) \<Rightarrow> Some (False, d)
      | (Some ch, d) \<Rightarrow> if ch = 0x7E then Some (True, d) else wait_start d)"

text \<open>
  The cases of the switch.  The result is whether the function returns, the number of frames
  dispatched and the device; a case that falls through calls the next one.
\<close>

definition load_rxframe ::
    "'w xbee_dispatch_table_entry list \<Rightarrow> nat \<Rightarrow> 'w xbee_dev \<Rightarrow> bool \<times> nat \<times> 'w xbee_dev" where
  "load_rxframe handlers dispatched d =
     (let rx = xd_rx d;
          bytes_left = sint (rx_bytes_in_frame rx - rx_bytes_read rx + 1);
          (n, bytes, srx) = xbee_ser_read (xd_serport d) bytes_left (xd_srx d);
          at = unat (rx_bytes_read rx);
          frame = take at (rx_frame_data rx) @ bytes @ drop (at + length bytes) (rx_frame_data rx);
          rx = rx\<lparr>rx_frame_data := frame\<rparr>;
          d = d\<lparr>xd_srx := srx\<rparr> in
      if n \<noteq> Inr bytes_left then
        (True, dispatched,
         d\<lparr>xd_rx := (case n of
             Inr k \<Rightarrow> if k > 0 then rx\<lparr>rx_bytes_read := rx_bytes_read rx + word_of_int k\<rparr> else rx
           | Inl _ \<Rightarrow> rx)\<rparr>)
      else
        let d = d\<lparr>xd_rx := rx\<lparr>rx_state := XBEE_RX_STATE_WAITSTART\<rparr>\<rparr> in
        if xbee_checksum frame (ucast (rx_bytes_in_frame rx + 1)) 0xFF \<noteq> 0 then (False, dispatched, d)
        else
          let d = the (snd (xbee_frame_dispatch handlers (Some d)
                    (Some (take (unat (rx_bytes_in_frame rx)) frame)) (rx_bytes_in_frame rx)))
          in (dispatched + 1 = XBEE_DEV_MAX_DISPATCH_PER_TICK, dispatched + 1, d))"

definition load_length_lsb ::
    "'w xbee_dispatch_table_entry list \<Rightarrow> nat \<Rightarrow> 'w xbee_dev \<Rightarrow> bool \<times> nat \<times> 'w xbee_dev" where
  "load_length_lsb handlers dispatched d =
     (case read_char d of
        (None, d) \<Rightarrow> (True, dispatched, d)
      | (Some ch, d) \<Rightarrow>
          let len = rx_bytes_in_frame (xd_rx d) + ucast ch;
              d = d\<lparr>xd_rx := (xd_rx d)\<lparr>rx_bytes_in_frame := len\<rparr>\<rparr> in
          if len > XBEE_MAX_FRAME_LEN \<or> len < 2 then
            (False, dispatched,
             set_rx_state (if ch = 0x7E then XBEE_RX_STATE_LENGTH_MSB else XBEE_RX_STATE_WAITSTART) d)
          else
            load_rxframe handlers dispatched
              (d\<lparr>xd_rx := (xd_rx d)\<lparr>rx_state := XBEE_RX_STATE_RXFRAME, rx_bytes_read := 0\<rparr>\<rparr>))"

definition load_length_msb ::
    "'w xbee_dispatch_table_entry list \<Rightarrow> nat \<Rightarrow> 'w xbee_dev \<Rightarrow> bool \<times> nat \<times> 'w xbee_dev" where
  "load_length_msb handlers dispatched d =
     (case read_char d of
        (None, d) \<Rightarrow> (True, dispatched, d)
      | (Some ch, d) \<Rightarrow>
          if ch = 0x7E then (False, dispatched, d)
          else
            load_length_lsb handlers dispatched
              (d\<lparr>xd_rx := (xd_rx d)\<lparr>rx_bytes_in_frame := push_bit 8 (ucast ch),
                                       rx_state := XBEE_RX_STATE_LENGTH_LSB\<rparr>\<rparr>))"

definition load_iteration ::
    "'w xbee_dispatch_table_entry list \<Rightarrow> nat \<Rightarrow> 'w xbee_dev \<Rightarrow> (bool \<times> nat \<times> 'w xbee_dev) option" where
  "load_iteration handlers dispatched d =
     (case rx_state (xd_rx d) of
        XBEE_RX_STATE_WAITSTART \<Rightarrow>
          (case wait_start d of
             None \<Rightarrow> None
           | Some (found, d) \<Rightarrow>
               if found then Some (load_length_msb handlers dispatched (set_rx_state XBEE_RX_STATE_LENGTH_MSB d))
               else Some (True, dispatched, d))
      | XBEE_RX_STATE_LENGTH_MSB \<Rightarrow> Some (load_length_msb handlers dispatched d)
      | XBEE_RX_STATE_LENGTH_LSB \<Rightarrow> Some (load_length_lsb handlers dispatched d)
      | XBEE_RX_STATE_RXFRAME \<Rightarrow> Some (load_rxframe handlers dispatched d))"

partial_function (option) load_loop ::
    "'w xbee_dispatch_table_entry list \<Rightarrow> nat \<Rightarrow> 'w xbee_dev \<Rightarrow> (nat \<times> 'w xbee_dev) option" where
  "load_loop handlers dispatched d =
     (case load_iteration handlers dispatched d of
        None \<Rightarrow> None
      | Some (return, dispatched, d) \<Rightarrow> if return then Some (dispatched, d) else load_loop handlers dispatched d)"

definition xbee_frame_load ::
    "'w xbee_dispatch_table_entry list \<Rightarrow> 'w xbee_dev option \<Rightarrow> ((errno + int) \<times> 'w xbee_dev option) option" where
  "xbee_frame_load handlers xbee =
     (case xbee of
        None \<Rightarrow> Some (Inl EINVAL, None)
      | Some d \<Rightarrow>
          if xbee_ser_invalid (Some (xd_serport d)) then Some (Inl EINVAL, xbee)
          else map_option (\<lambda>(n, d). (Inr (int n), Some d)) (load_loop handlers 0 d))"

definition xbee_dev_tick ::
    "'w xbee_dispatch_table_entry list \<Rightarrow> 'w xbee_dev option \<Rightarrow> ((errno + int) \<times> 'w xbee_dev option) option" where
  "xbee_dev_tick handlers xbee =
     (case xbee of
        None \<Rightarrow> Some (Inl EINVAL, None)
      | Some d \<Rightarrow>
          if xd_flags d AND XBEE_DEV_FLAG_IN_TICK \<noteq> 0 then Some (Inl EBUSY, xbee)
          else
            map_option (\<lambda>(frames, x).
                (frames, map_option (\<lambda>d. d\<lparr>xd_flags := xd_flags d AND NOT XBEE_DEV_FLAG_IN_TICK\<rparr>) x))
              (xbee_frame_load handlers (Some (d\<lparr>xd_flags := xd_flags d OR XBEE_DEV_FLAG_IN_TICK\<rparr>))))"

end
