(* ===== verification/Xbee_Frames.thy ===== *)
theory Xbee_Frames
  imports Xbee_Device
begin

text \<open>
  What the frame layer promises.  The receiver is described by a parser that takes one byte at a
  time; \<open>_xbee_frame_load\<close> implements it, whatever the number of bytes it finds in the buffer, and
  a frame that was sent is parsed back.
\<close>

section \<open>The frame parser\<close>

datatype parser = Hunting | GotStart | GotMsb u16 | Receiving nat "u8 list"

fun parse_byte :: "parser \<Rightarrow> u8 \<Rightarrow> parser \<times> u8 list option" where
  "parse_byte Hunting b = (if b = 0x7E then GotStart else Hunting, None)"
| "parse_byte GotStart b = (if b = 0x7E then GotStart else GotMsb (push_bit 8 (ucast b)), None)"
| "parse_byte (GotMsb msb) b =
     (let n = msb + ucast b in
      if n > XBEE_MAX_FRAME_LEN \<or> n < 2 then (if b = 0x7E then GotStart else Hunting, None)
      else (Receiving (unat n) [], None))"
| "parse_byte (Receiving n bs) b =
     (if length bs < n then (Receiving n (bs @ [b]), None)
      else (Hunting, if sum_list bs + b = 0xFF then Some bs else None))"

text \<open>All bytes of a stream: the frames found.\<close>

fun parse_all :: "parser \<Rightarrow> u8 list \<Rightarrow> parser \<times> u8 list list" where
  "parse_all p [] = (p, [])"
| "parse_all p (b # bs) =
     (case parse_byte p b of (p', f) \<Rightarrow>
        case parse_all p' bs of (q, fs) \<Rightarrow> (q, case f of None \<Rightarrow> fs | Some x \<Rightarrow> x # fs))"

text \<open>The same up to a number of frames; the bytes left over are the last component.\<close>

fun parse_some :: "nat \<Rightarrow> parser \<Rightarrow> u8 list \<Rightarrow> parser \<times> u8 list list \<times> u8 list" where
  "parse_some 0 p bs = (p, [], bs)"
| "parse_some (Suc k) p [] = (p, [], [])"
| "parse_some (Suc k) p (b # bs) =
     (case parse_byte p b of
        (p', None) \<Rightarrow> parse_some (Suc k) p' bs
      | (p', Some x) \<Rightarrow> (case parse_some k p' bs of (q, fs, rest) \<Rightarrow> (q, x # fs, rest)))"

lemma parse_all_append:
  "parse_all p (xs @ ys) =
     (case parse_all p xs of (q, fs) \<Rightarrow> case parse_all q ys of (r, gs) \<Rightarrow> (r, fs @ gs))"
  by (induction p xs rule: parse_all.induct) (auto split: prod.splits option.splits)

lemma parse_some_all:
  "parse_some k p bs = (q, fs, rest) \<Longrightarrow>
     parse_all p (bs @ ys) = (case parse_all q (rest @ ys) of (r, gs) \<Rightarrow> (r, fs @ gs))"
  by (induction k p bs arbitrary: q fs rest rule: parse_some.induct)
    (fastforce split: prod.splits option.splits)+

lemma parse_some_skip:
  "parse_all p xs = (q, []) \<Longrightarrow> parse_some (Suc k) p (xs @ ys) = parse_some (Suc k) q ys"
  by (induction p xs rule: parse_all.induct) (auto split: prod.splits option.splits)

lemma parse_some_frame:
  assumes "parse_all p xs = (q, [])" "parse_byte q b = (r, Some f)"
  shows "parse_some (Suc k) p (xs @ b # ys) = (case parse_some k r ys of (s, fs, rest) \<Rightarrow> (s, f # fs, rest))"
  using parse_some_skip [OF assms(1), of k "b # ys"] assms(2) by simp

lemma parse_receiving:
  "length bs + length xs \<le> n \<Longrightarrow> parse_all (Receiving n bs) xs = (Receiving n (bs @ xs), [])"
  by (induction xs arbitrary: bs) simp_all

lemma parse_hunting: "0x7E \<notin> set xs \<Longrightarrow> parse_all Hunting xs = (Hunting, [])"
  by (induction xs) auto

lemma parse_some_length: "parse_some k p bs = (q, fs, rest) \<Longrightarrow> length fs \<le> k \<and> (length fs < k \<longrightarrow> rest = [])"
  by (induction k p bs arbitrary: q fs rest rule: parse_some.induct)
    (fastforce split: prod.splits option.splits)+

section \<open>Checksums\<close>

lemma checksum_loop_eq: "n \<le> length bs \<Longrightarrow> checksum_loop bs n c = c - sum_list (take n bs)"
proof (induction bs n c rule: checksum_loop.induct)
  case (2 bytes i c)
  then show ?case by (cases bytes) (simp_all add: algebra_simps)
qed simp

lemma xbee_checksum_eq: "unat n \<le> length bs \<Longrightarrow> xbee_checksum bs n c = c - sum_list (take (unat n) bs)"
  by (simp add: xbee_checksum_def checksum_loop_eq)

section \<open>The receiver as a parser\<close>

definition rx_abs :: "xbee_rx \<Rightarrow> parser" where
  "rx_abs rx =
     (case rx_state rx of
        XBEE_RX_STATE_WAITSTART \<Rightarrow> Hunting
      | XBEE_RX_STATE_LENGTH_MSB \<Rightarrow> GotStart
      | XBEE_RX_STATE_LENGTH_LSB \<Rightarrow> GotMsb (rx_bytes_in_frame rx)
      | XBEE_RX_STATE_RXFRAME \<Rightarrow>
          Receiving (unat (rx_bytes_in_frame rx)) (take (unat (rx_bytes_read rx)) (rx_frame_data rx)))"

definition queue :: "'w xbee_dev \<Rightarrow> u8 list" where
  "queue d = xcb_contents (rxbuf (xd_serport d) (xd_srx d))"

definition rx_wf :: "xbee_rx \<Rightarrow> bool" where
  "rx_wf rx \<longleftrightarrow> length (rx_frame_data rx) = 147 \<and>
     (rx_state rx = XBEE_RX_STATE_RXFRAME \<longrightarrow>
        unat (rx_bytes_in_frame rx) \<in> {2..146} \<and> unat (rx_bytes_read rx) \<le> unat (rx_bytes_in_frame rx))"

definition dev_wf :: "'w xbee_dev \<Rightarrow> bool" where
  "dev_wf d \<longleftrightarrow> \<not> xbee_ser_invalid (Some (xd_serport d)) \<and> xcb_wf (rxbuf (xd_serport d) (xd_srx d)) \<and> rx_wf (xd_rx d)"

text \<open>Two devices that differ in the receiver at most.\<close>

definition same_rest :: "'w xbee_dev \<Rightarrow> 'w xbee_dev \<Rightarrow> bool" where
  "same_rest d d' \<longleftrightarrow> d' = d\<lparr>xd_rx := xd_rx d', xd_srx := xd_srx d'\<rparr>"

text \<open>Handlers that neither use nor change the receiver, and keep the port.\<close>

definition rx_neutral :: "'w xbee_dispatch_table_entry list \<Rightarrow> bool" where
  "rx_neutral handlers \<longleftrightarrow> (\<forall>e\<in>set handlers. \<forall>d f n.
     xd_serport (snd (de_handler e d f n)) = xd_serport d \<and>
     (\<forall>r s. snd (de_handler e (d\<lparr>xd_rx := r, xd_srx := s\<rparr>) f n)
        = (snd (de_handler e d f n))\<lparr>xd_rx := r, xd_srx := s\<rparr>))"

definition dispatch_frame :: "'w xbee_dispatch_table_entry list \<Rightarrow> u8 list \<Rightarrow> 'w xbee_dev \<Rightarrow> 'w xbee_dev" where
  "dispatch_frame handlers f d = the (snd (xbee_frame_dispatch handlers (Some d) (Some f) (of_nat (length f))))"

lemma dispatch_loop_neutral:
  assumes "rx_neutral handlers"
  shows "xd_serport (snd (dispatch_loop handlers t i f n k d)) = xd_serport d \<and>
    snd (dispatch_loop handlers t i f n k (d\<lparr>xd_rx := r, xd_srx := s\<rparr>))
      = (snd (dispatch_loop handlers t i f n k d))\<lparr>xd_rx := r, xd_srx := s\<rparr>"
  using assms
proof (induction handlers arbitrary: k d)
  case (Cons e es)
  then have e: "xd_serport (snd (de_handler e d f n)) = xd_serport d"
    "snd (de_handler e (d\<lparr>xd_rx := r, xd_srx := s\<rparr>) f n) = (snd (de_handler e d f n))\<lparr>xd_rx := r, xd_srx := s\<rparr>"
    and es: "rx_neutral es" by (simp_all add: rx_neutral_def)
  show ?case using Cons.IH [OF es] e by (cases "de_frame_id e = 0 \<or> de_frame_id e = i") auto
qed simp

lemma modem_status_neutral:
  "xd_serport (xbee_dev_modem_status d b) = xd_serport d"
  "xbee_dev_modem_status (d\<lparr>xd_rx := r, xd_srx := s\<rparr>) b = (xbee_dev_modem_status d b)\<lparr>xd_rx := r, xd_srx := s\<rparr>"
  by (simp_all add: xbee_dev_modem_status_def Let_def)

lemma dispatch_frame_eq:
  assumes "0 < length f" "length f < 65536"
  shows "dispatch_frame handlers f d = snd (dispatch_loop handlers (f ! 0) (f ! 1) f (of_nat (length f)) 0
    (if f ! 0 = XBEE_FRAME_MODEM_STATUS then xbee_dev_modem_status d (f ! 1) else d))"
proof -
  have "(of_nat (length f) :: u16) \<noteq> 0"
    using assms by (simp add: word_unat_eq_iff unat_of_nat_u16)
  then show ?thesis by (simp add: dispatch_frame_def xbee_frame_dispatch_def Let_def split: prod.splits)
qed

lemma dispatch_frame_neutral:
  assumes "rx_neutral handlers" "0 < length f" "length f < 65536"
  shows "xd_serport (dispatch_frame handlers f d) = xd_serport d"
    and "dispatch_frame handlers f (d\<lparr>xd_rx := r, xd_srx := s\<rparr>) = (dispatch_frame handlers f d)\<lparr>xd_rx := r, xd_srx := s\<rparr>"
proof -
  note l = dispatch_loop_neutral [OF assms(1)] and eq = dispatch_frame_eq [OF assms(2,3)]
  show "xd_serport (dispatch_frame handlers f d) = xd_serport d"
    unfolding eq by (simp add: l [THEN conjunct1] modem_status_neutral)
  show "dispatch_frame handlers f (d\<lparr>xd_rx := r, xd_srx := s\<rparr>) = (dispatch_frame handlers f d)\<lparr>xd_rx := r, xd_srx := s\<rparr>"
    unfolding eq using l [THEN conjunct2] by (simp add: modem_status_neutral)
qed

lemma dispatch_frame_keeps:
  assumes "rx_neutral handlers" "0 < length f" "length f < 65536"
  shows "xd_rx (dispatch_frame handlers f d) = xd_rx d \<and> xd_srx (dispatch_frame handlers f d) = xd_srx d"
proof -
  have "dispatch_frame handlers f d = (dispatch_frame handlers f d)\<lparr>xd_rx := xd_rx d, xd_srx := xd_srx d\<rparr>"
    using dispatch_frame_neutral(2) [OF assms, where d = d and r = "xd_rx d" and s = "xd_srx d"] by simp
  from arg_cong [OF this, of xd_rx] arg_cong [OF this, of xd_srx] show ?thesis by simp
qed

lemma same_rest_trans: "same_rest d d' \<Longrightarrow> same_rest d' d'' \<Longrightarrow> same_rest d d''"
  by (cases d; cases d'; cases d'') (simp add: same_rest_def)

lemma same_rest_refl: "same_rest d d"
  by (simp add: same_rest_def)

lemma same_rest_serport: "same_rest d d' \<Longrightarrow> xd_serport d' = xd_serport d"
  by (cases d; cases d') (simp add: same_rest_def)

lemma same_rest_update: "same_rest d (d\<lparr>xd_rx := r\<rparr>)" "same_rest d (d\<lparr>xd_srx := s\<rparr>)" "same_rest d (d\<lparr>xd_rx := r, xd_srx := s\<rparr>)"
  by (simp_all add: same_rest_def)

text \<open>One character.\<close>

lemma read_char_facts:
  assumes "dev_wf d" "read_char d = (c, d')"
  shows "dev_wf d' \<and> same_rest d d' \<and> xd_rx d' = xd_rx d \<and>
    (case c of None \<Rightarrow> queue d = [] \<and> queue d' = [] | Some b \<Rightarrow> queue d = b # queue d')"
proof -
  obtain r bytes srx where read: "xbee_ser_read (xd_serport d) 1 (xd_srx d) = (r, bytes, srx)"
    by (metis prod_cases3)
  have wf: "xcb_wf (rxbuf (xd_serport d) (xd_srx d))" using assms(1) by (simp add: dev_wf_def)
  have facts: "xcb_wf (rxbuf (xd_serport d) srx)" "bytes = take 1 (queue d)" "r = Inr (int (length bytes))"
    "xcb_contents (rxbuf (xd_serport d) srx) = drop (length bytes) (queue d)"
    using xbee_ser_read_queue [OF wf read] by (simp_all add: queue_def)
  have d': "d' = d\<lparr>xd_srx := srx\<rparr>" and c: "c = (if r = Inr 1 then Some (hd bytes) else None)"
    using assms(2) read by (simp_all add: read_char_def)
  have "dev_wf d'" "same_rest d d'" "xd_rx d' = xd_rx d" "queue d' = drop (length bytes) (queue d)"
    unfolding d' using facts assms(1) by (simp_all add: dev_wf_def same_rest_update queue_def)
  then show ?thesis
    unfolding c using facts(2,3) by (cases "queue d") simp_all
qed

text \<open>
  What one pass through the loop may do: consume bytes that complete no frame, or bytes of which
  the last completes a frame, which is dispatched.
\<close>

definition no_frame :: "'w xbee_dev \<Rightarrow> 'w xbee_dev \<Rightarrow> bool \<Rightarrow> bool" where
  "no_frame d d' return \<longleftrightarrow> (\<exists>xs. queue d = xs @ queue d' \<and> parse_all (rx_abs (xd_rx d)) xs = (rx_abs (xd_rx d'), []) \<and>
     dev_wf d' \<and> same_rest d d' \<and> (if return then queue d' = [] else xs \<noteq> []))"

definition one_frame :: "'w xbee_dispatch_table_entry list \<Rightarrow> 'w xbee_dev \<Rightarrow> 'w xbee_dev \<Rightarrow> bool" where
  "one_frame handlers d d' \<longleftrightarrow> (\<exists>xs b f p. queue d = xs @ b # queue d' \<and>
     parse_all (rx_abs (xd_rx d)) xs = (p, []) \<and> parse_byte p b = (rx_abs (xd_rx d'), Some f) \<and>
     0 < length f \<and> length f < 65536 \<and> dev_wf d' \<and> same_rest (dispatch_frame handlers f d) d')"

definition iteration_ok ::
    "'w xbee_dispatch_table_entry list \<Rightarrow> nat \<Rightarrow> 'w xbee_dev \<Rightarrow> bool \<times> nat \<times> 'w xbee_dev \<Rightarrow> bool" where
  "iteration_ok handlers k d out \<longleftrightarrow>
     (case out of (return, n, d') \<Rightarrow>
        n = k \<and> no_frame d d' return \<or>
        n = Suc k \<and> one_frame handlers d d' \<and> return = (n = XBEE_DEV_MAX_DISPATCH_PER_TICK))"

text \<open>A pass may start with bytes that complete no frame.\<close>

lemma no_frame_after:
  assumes "no_frame d d' False" "no_frame d' e return"
  shows "no_frame d e return"
proof -
  obtain xs where "queue d = xs @ queue d'" "parse_all (rx_abs (xd_rx d)) xs = (rx_abs (xd_rx d'), [])" "same_rest d d'"
    using assms(1) by (auto simp: no_frame_def)
  moreover obtain ys where "queue d' = ys @ queue e" "parse_all (rx_abs (xd_rx d')) ys = (rx_abs (xd_rx e), [])"
    "dev_wf e" "same_rest d' e" "if return then queue e = [] else ys \<noteq> []"
    using assms(2) by (auto simp: no_frame_def)
  ultimately show ?thesis
    unfolding no_frame_def by (intro exI [of _ "xs @ ys"]) (auto simp: parse_all_append intro: same_rest_trans)
qed

lemma iteration_ok_after:
  assumes "no_frame d d' False" "iteration_ok handlers k d' out" "rx_neutral handlers"
  shows "iteration_ok handlers k d out"
proof -
  obtain xs where xs: "queue d = xs @ queue d'" "parse_all (rx_abs (xd_rx d)) xs = (rx_abs (xd_rx d'), [])"
    "same_rest d d'" using assms(1) by (auto simp: no_frame_def)
  obtain return n e where out: "out = (return, n, e)" by (metis prod_cases3)
  show ?thesis
  proof (cases "n = k")
    case True
    then have "no_frame d' e return" using assms(2) out by (auto simp: iteration_ok_def)
    then have "no_frame d e return" by (rule no_frame_after [OF assms(1)])
    then show ?thesis using out True by (simp add: iteration_ok_def)
  next
    case False
    then obtain ys b f p where ys: "queue d' = ys @ b # queue e" "parse_all (rx_abs (xd_rx d')) ys = (p, [])"
      "parse_byte p b = (rx_abs (xd_rx e), Some f)" "0 < length f" "length f < 65536" "dev_wf e"
      "same_rest (dispatch_frame handlers f d') e"
      using assms(2) out by (auto simp: iteration_ok_def one_frame_def)
    have "dispatch_frame handlers f d' = (dispatch_frame handlers f d)\<lparr>xd_rx := xd_rx d', xd_srx := xd_srx d'\<rparr>"
      using dispatch_frame_neutral(2) [OF assms(3) ys(4,5), where d = d] xs(3) unfolding same_rest_def by metis
    then have "same_rest (dispatch_frame handlers f d) e"
      using ys(7) same_rest_trans same_rest_update(3) by metis
    then have "one_frame handlers d e"
      unfolding one_frame_def using xs ys
      by (intro exI [of _ "xs @ ys"] exI [of _ b] exI [of _ f] exI [of _ p]) (auto simp: parse_all_append)
    then show ?thesis using assms(2) out False by (auto simp: iteration_ok_def)
  qed
qed

text \<open>The bytes of a frame and its checksum.\<close>

lemma nat_min_255: "m \<le> 254 \<Longrightarrow> nat (min (int (Suc m)) 255) = Suc m"
  by simp

lemma load_rxframe_eq:
  assumes "xbee_ser_read (xd_serport d) (sint (rx_bytes_in_frame (xd_rx d) - rx_bytes_read (xd_rx d) + 1)) (xd_srx d)
      = (r, bytes, srx)"
    and "fd = take (unat (rx_bytes_read (xd_rx d))) (rx_frame_data (xd_rx d)) @ bytes @
      drop (unat (rx_bytes_read (xd_rx d)) + length bytes) (rx_frame_data (xd_rx d))"
    and "r = Inr (sint (rx_bytes_in_frame (xd_rx d) - rx_bytes_read (xd_rx d) + 1))"
  shows "load_rxframe handlers k d =
    (let e = d\<lparr>xd_srx := srx, xd_rx := (xd_rx d)\<lparr>rx_frame_data := fd, rx_state := XBEE_RX_STATE_WAITSTART\<rparr>\<rparr> in
     if xbee_checksum fd (ucast (rx_bytes_in_frame (xd_rx d) + 1)) 0xFF \<noteq> 0 then (False, k, e)
     else (k + 1 = XBEE_DEV_MAX_DISPATCH_PER_TICK, k + 1,
           the (snd (xbee_frame_dispatch handlers (Some e)
             (Some (take (unat (rx_bytes_in_frame (xd_rx d))) fd)) (rx_bytes_in_frame (xd_rx d))))))"
  unfolding load_rxframe_def Let_def assms(1,3) assms(2) [symmetric] prod.case by simp

text \<open>What the read of the rest of a frame returns.\<close>

lemma rxframe_left:
  assumes "dev_wf d" "rx_state (xd_rx d) = XBEE_RX_STATE_RXFRAME"
  shows "sint (rx_bytes_in_frame (xd_rx d) - rx_bytes_read (xd_rx d) + 1)
    = int (Suc (unat (rx_bytes_in_frame (xd_rx d)) - unat (rx_bytes_read (xd_rx d))))"
proof -
  let ?n = "unat (rx_bytes_in_frame (xd_rx d))" and ?at = "unat (rx_bytes_read (xd_rx d))"
  have rx: "?n \<le> 146" "?at \<le> ?n" using assms by (simp_all add: dev_wf_def rx_wf_def)
  then have "unat (rx_bytes_in_frame (xd_rx d) - rx_bytes_read (xd_rx d)) = ?n - ?at"
    by (simp add: unat_sub word_le_nat_alt)
  then have "unat (rx_bytes_in_frame (xd_rx d) - rx_bytes_read (xd_rx d) + 1) = Suc (?n - ?at)"
    using rx by (simp add: unat_word_ariths)
  then show ?thesis using rx by (simp add: sint_small_u16)
qed

lemma rxframe_read:
  assumes "dev_wf d" "rx_state (xd_rx d) = XBEE_RX_STATE_RXFRAME"
    and "xbee_ser_read (xd_serport d) (sint (rx_bytes_in_frame (xd_rx d) - rx_bytes_read (xd_rx d) + 1)) (xd_srx d)
      = (r, bytes, srx)"
  shows "xcb_wf (rxbuf (xd_serport d) srx)"
    and "bytes = take (Suc (unat (rx_bytes_in_frame (xd_rx d)) - unat (rx_bytes_read (xd_rx d)))) (queue d)"
    and "r = Inr (int (length bytes))"
    and "xcb_contents (rxbuf (xd_serport d) srx) = drop (length bytes) (queue d)"
proof -
  let ?left = "sint (rx_bytes_in_frame (xd_rx d) - rx_bytes_read (xd_rx d) + 1)"
  have wf: "xcb_wf (rxbuf (xd_serport d) (xd_srx d))" "unat (rx_bytes_in_frame (xd_rx d)) \<le> 146"
    using assms(1,2) by (simp_all add: dev_wf_def rx_wf_def)
  note left = rxframe_left [OF assms(1,2)]
  have size: "nat (min ?left 255) = Suc (unat (rx_bytes_in_frame (xd_rx d)) - unat (rx_bytes_read (xd_rx d)))"
    unfolding left using wf(2) by (intro nat_min_255) linarith
  have "0 \<le> ?left" by (simp only: left of_nat_0_le_iff)
  then show "xcb_wf (rxbuf (xd_serport d) srx)"
    "bytes = take (Suc (unat (rx_bytes_in_frame (xd_rx d)) - unat (rx_bytes_read (xd_rx d)))) (queue d)"
    "r = Inr (int (length bytes))"
    "xcb_contents (rxbuf (xd_serport d) srx) = drop (length bytes) (queue d)"
    using xbee_ser_read_queue [OF wf(1) assms(3)] unfolding size queue_def by blast+
qed

text \<open>The frame is not complete.\<close>

lemma load_rxframe_short:
  assumes "dev_wf d" "rx_state (xd_rx d) = XBEE_RX_STATE_RXFRAME"
    and read: "xbee_ser_read (xd_serport d) (sint (rx_bytes_in_frame (xd_rx d) - rx_bytes_read (xd_rx d) + 1)) (xd_srx d)
      = (r, bytes, srx)"
    and short: "length bytes \<le> unat (rx_bytes_in_frame (xd_rx d)) - unat (rx_bytes_read (xd_rx d))"
  shows "iteration_ok handlers k d (load_rxframe handlers k d)"
proof -
  let ?rx = "xd_rx d"
  let ?n = "unat (rx_bytes_in_frame ?rx)" and ?at = "unat (rx_bytes_read ?rx)"
  have rx: "length (rx_frame_data ?rx) = 147" "2 \<le> ?n" "?n \<le> 146" "?at \<le> ?n"
    using assms(1,2) by (simp_all add: dev_wf_def rx_wf_def)
  note facts = rxframe_read [OF assms(1,2) read] and left = rxframe_left [OF assms(1,2)]
  have all: "queue d = bytes" using facts(2) short by auto
  define fd where "fd = take ?at (rx_frame_data ?rx) @ bytes @ drop (?at + length bytes) (rx_frame_data ?rx)"
  define e where "e = d\<lparr>xd_srx := srx, xd_rx := ?rx\<lparr>rx_frame_data := fd,
    rx_bytes_read := rx_bytes_read ?rx + of_nat (length bytes)\<rparr>\<rparr>"
  have load: "load_rxframe handlers k d = (True, k, e)"
    using short read facts(3) left by (auto simp: load_rxframe_def Let_def e_def fd_def)
  have un: "unat (rx_bytes_read ?rx + of_nat (length bytes)) = ?at + length bytes"
    using short rx by (simp add: unat_word_ariths unat_of_nat_u16)
  have "queue e = []" using facts(4) all by (simp add: e_def queue_def)
  moreover have "dev_wf e"
    using assms(1,2) rx un short facts(1) by (simp add: dev_wf_def rx_wf_def e_def fd_def)
  moreover have "parse_all (rx_abs ?rx) bytes = (rx_abs (xd_rx e), [])"
    using parse_receiving [of "take ?at (rx_frame_data ?rx)" bytes ?n] rx short assms(2) un
    by (simp add: rx_abs_def e_def fd_def)
  moreover have "same_rest d e" by (simp add: same_rest_def e_def)
  ultimately have "no_frame d e True"
    unfolding no_frame_def using all by auto
  then show ?thesis using load by (simp add: iteration_ok_def)
qed

text \<open>The frame is complete; it is dispatched when its checksum is right.\<close>

lemma rxframe_checksum:
  assumes "length fd = 147" "n = unat w" "n \<le> 146" "take (Suc n) fd = f @ [b]"
  shows "xbee_checksum fd (ucast (w + 1 :: u16)) 0xFF = 0 \<longleftrightarrow> sum_list f + b = 0xFF"
proof -
  have "unat (ucast (w + 1) :: u8) = Suc n"
    using assms by (simp add: unsigned_ucast_eq unat_word_ariths take_bit_nat_def)
  then show ?thesis
    using assms by (simp add: xbee_checksum_eq eq_iff_diff_eq_0 [symmetric] algebra_simps)
qed

lemma dispatch_complete:
  assumes "rx_neutral handlers" "same_rest d e" "dev_wf e" "0 < length f" "length f < 65536"
  shows "same_rest (dispatch_frame handlers f d) (dispatch_frame handlers f e)"
    and "xd_rx (dispatch_frame handlers f e) = xd_rx e" "dev_wf (dispatch_frame handlers f e)"
    and "queue (dispatch_frame handlers f e) = queue e"
proof -
  let ?e' = "dispatch_frame handlers f e"
  have keep: "xd_rx ?e' = xd_rx e" "xd_srx ?e' = xd_srx e" "xd_serport ?e' = xd_serport e"
    using dispatch_frame_keeps [OF assms(1,4,5), of e] dispatch_frame_neutral(1) [OF assms(1,4,5), of e] by simp_all
  have "?e' = (dispatch_frame handlers f d)\<lparr>xd_rx := xd_rx e, xd_srx := xd_srx e\<rparr>"
    using dispatch_frame_neutral(2) [OF assms(1,4,5), where d = d] assms(2) unfolding same_rest_def by metis
  then show "same_rest (dispatch_frame handlers f d) ?e'" using same_rest_update(3) by metis
  show "xd_rx ?e' = xd_rx e" "dev_wf ?e'" "queue ?e' = queue e"
    using assms(3) keep by (simp_all add: dev_wf_def queue_def)
qed

lemma load_rxframe_full:
  assumes "dev_wf d" "rx_state (xd_rx d) = XBEE_RX_STATE_RXFRAME" "rx_neutral handlers"
    and read: "xbee_ser_read (xd_serport d) (sint (rx_bytes_in_frame (xd_rx d) - rx_bytes_read (xd_rx d) + 1)) (xd_srx d)
      = (r, bytes, srx)"
    and full: "length bytes = Suc (unat (rx_bytes_in_frame (xd_rx d)) - unat (rx_bytes_read (xd_rx d)))"
  shows "iteration_ok handlers k d (load_rxframe handlers k d)"
proof -
  let ?rx = "xd_rx d"
  let ?n = "unat (rx_bytes_in_frame ?rx)" and ?at = "unat (rx_bytes_read ?rx)"
  have rx: "length (rx_frame_data ?rx) = 147" "2 \<le> ?n" "?n \<le> 146" "?at \<le> ?n"
    using assms(1,2) by (simp_all add: dev_wf_def rx_wf_def)
  note facts = rxframe_read [OF assms(1,2) read]
  define fd where "fd = take ?at (rx_frame_data ?rx) @ bytes @ drop (?at + length bytes) (rx_frame_data ?rx)"
  have "r = Inr (sint (rx_bytes_in_frame ?rx - rx_bytes_read ?rx + 1))"
    using facts(3) full rxframe_left [OF assms(1,2)] by (simp only:)
  note load = load_rxframe_eq [OF read fd_def this, of handlers k]
  obtain xs b where bytes: "bytes = xs @ [b]" using full by (cases bytes rule: rev_cases) auto
  let ?f = "take ?at (rx_frame_data ?rx) @ xs"
  have f: "length fd = 147" "length ?f = ?n" "take ?n fd = ?f" "take (Suc ?n) fd = ?f @ [b]"
    using full bytes rx by (simp_all add: fd_def)
  note sum = rxframe_checksum [OF f(1) refl rx(3) f(4)]
  define e where "e = d\<lparr>xd_srx := srx, xd_rx := ?rx\<lparr>rx_frame_data := fd, rx_state := XBEE_RX_STATE_WAITSTART\<rparr>\<rparr>"
  have qe: "queue e = drop (length bytes) (queue d)" using facts(4) by (simp only: e_def queue_def) simp
  have "bytes @ queue e = queue d" unfolding qe by (simp only: facts(2) take_drop_length)
  then have q: "queue d = xs @ b # queue e" using bytes by simp
  have e: "dev_wf e" "same_rest d e" "rx_abs (xd_rx e) = Hunting"
    using assms(1) f(1) facts(1) by (simp_all add: e_def same_rest_def rx_abs_def dev_wf_def rx_wf_def)
  have xs: "parse_all (rx_abs ?rx) xs = (Receiving ?n ?f, [])"
    using parse_receiving [of "take ?at (rx_frame_data ?rx)" xs ?n] full bytes rx assms(2) by (simp add: rx_abs_def)
  show ?thesis
  proof (cases "sum_list ?f + b = 0xFF")
    case False
    then have "load_rxframe handlers k d = (False, k, e)"
      unfolding load Let_def using sum by (simp add: e_def)
    moreover have "parse_all (rx_abs ?rx) (xs @ [b]) = (rx_abs (xd_rx e), [])"
      using xs False f(2) e(3) by (simp add: parse_all_append)
    then have "no_frame d e False" unfolding no_frame_def using q e by (intro exI [of _ "xs @ [b]"]) simp
    ultimately show ?thesis by (simp add: iteration_ok_def)
  next
    case True
    have "(of_nat (length ?f) :: u16) = rx_bytes_in_frame ?rx" using f(2) by simp
    then have "load_rxframe handlers k d =
        (Suc k = XBEE_DEV_MAX_DISPATCH_PER_TICK, Suc k, dispatch_frame handlers ?f e)"
      unfolding load Let_def using sum True f(3) by (simp add: e_def dispatch_frame_def)
    moreover have fb: "0 < length ?f" "length ?f < 65536" using f(2) rx by simp_all
    have "parse_byte (Receiving ?n ?f) b = (rx_abs (xd_rx (dispatch_frame handlers ?f e)), Some ?f)"
      using f(2) True e(3) dispatch_complete(2) [OF assms(3) e(2,1) fb] by simp
    then have "one_frame handlers d (dispatch_frame handlers ?f e)"
      unfolding one_frame_def using q xs fb dispatch_complete [OF assms(3) e(2,1) fb] by metis
    ultimately show ?thesis by (simp add: iteration_ok_def)
  qed
qed

lemma load_rxframe_ok:
  assumes "dev_wf d" "rx_state (xd_rx d) = XBEE_RX_STATE_RXFRAME" "rx_neutral handlers"
  shows "iteration_ok handlers k d (load_rxframe handlers k d)"
proof -
  obtain r bytes srx where read:
    "xbee_ser_read (xd_serport d) (sint (rx_bytes_in_frame (xd_rx d) - rx_bytes_read (xd_rx d) + 1)) (xd_srx d)
      = (r, bytes, srx)" by (metis prod_cases3)
  let ?m = "unat (rx_bytes_in_frame (xd_rx d)) - unat (rx_bytes_read (xd_rx d))"
  have "length bytes \<le> Suc ?m" using rxframe_read(2) [OF assms(1,2) read] by simp
  then consider "length bytes \<le> ?m" | "length bytes = Suc ?m" by linarith
  then show ?thesis
    using load_rxframe_short [OF assms(1,2) read] load_rxframe_full [OF assms read] by cases
qed

text \<open>The length bytes.\<close>

lemma load_length_lsb_ok:
  assumes "dev_wf d" "rx_state (xd_rx d) = XBEE_RX_STATE_LENGTH_LSB" "rx_neutral handlers"
  shows "iteration_ok handlers k d (load_length_lsb handlers k d)"
proof -
  obtain c d' where read: "read_char d = (c, d')" by fastforce
  note facts = read_char_facts [OF assms(1) read]
  show ?thesis
  proof (cases c)
    case None
    then show ?thesis using facts read by (auto simp: load_length_lsb_def iteration_ok_def no_frame_def)
  next
    case (Some b)
    let ?n = "rx_bytes_in_frame (xd_rx d) + ucast b"
    have q: "queue d = [b] @ queue d'" and rx: "xd_rx d' = xd_rx d" and wf: "dev_wf d'" and same: "same_rest d d'"
      using facts Some by simp_all
    have abs: "rx_abs (xd_rx d) = GotMsb (rx_bytes_in_frame (xd_rx d))" using assms(2) by (simp add: rx_abs_def)
    let ?bad = "?n > XBEE_MAX_FRAME_LEN \<or> ?n < 2"
    define e where "e = (if ?bad
      then set_rx_state (if b = 0x7E then XBEE_RX_STATE_LENGTH_MSB else XBEE_RX_STATE_WAITSTART)
        (d'\<lparr>xd_rx := (xd_rx d')\<lparr>rx_bytes_in_frame := ?n\<rparr>\<rparr>)
      else d'\<lparr>xd_rx := (xd_rx d')\<lparr>rx_bytes_in_frame := ?n, rx_state := XBEE_RX_STATE_RXFRAME, rx_bytes_read := 0\<rparr>\<rparr>)"
    have "queue e = queue d'" "same_rest d' e" by (simp_all add: e_def queue_def same_rest_def set_rx_state_def)
    moreover have "dev_wf e" using wf by (auto simp: e_def dev_wf_def rx_wf_def set_rx_state_def word_le_nat_alt not_less)
    moreover have "parse_all (rx_abs (xd_rx d)) [b] = (rx_abs (xd_rx e), [])"
      unfolding abs by (simp add: e_def rx_abs_def set_rx_state_def Let_def rx)
    ultimately have first: "no_frame d e False"
      unfolding no_frame_def using q same_rest_trans [OF same] by (intro exI [of _ "[b]"]) simp
    show ?thesis
    proof (cases ?bad)
      case True
      then have "load_length_lsb handlers k d = (False, k, e)"
        unfolding load_length_lsb_def read using Some rx by (simp add: e_def Let_def)
      then show ?thesis using first by (simp add: iteration_ok_def)
    next
      case False
      then have "load_length_lsb handlers k d = load_rxframe handlers k e"
        unfolding load_length_lsb_def read using Some rx by (simp add: e_def Let_def)
      moreover have "rx_state (xd_rx e) = XBEE_RX_STATE_RXFRAME" using False by (simp add: e_def)
      ultimately show ?thesis
        using iteration_ok_after [OF first load_rxframe_ok assms(3)] \<open>dev_wf e\<close> assms(3) by simp
    qed
  qed
qed

lemma load_length_msb_ok:
  assumes "dev_wf d" "rx_state (xd_rx d) = XBEE_RX_STATE_LENGTH_MSB" "rx_neutral handlers"
  shows "iteration_ok handlers k d (load_length_msb handlers k d)"
proof -
  obtain c d' where read: "read_char d = (c, d')" by fastforce
  note facts = read_char_facts [OF assms(1) read]
  have abs: "rx_abs (xd_rx d) = GotStart" using assms(2) by (simp add: rx_abs_def)
  consider "c = None" | "c = Some 0x7E" | b where "c = Some b" "b \<noteq> 0x7E" by (cases c) auto
  then show ?thesis
  proof cases
    case 1
    then show ?thesis using facts read by (auto simp: load_length_msb_def iteration_ok_def no_frame_def)
  next
    case 2
    have "no_frame d d' False"
      unfolding no_frame_def using facts 2 abs by (intro exI [of _ "[0x7E]"]) simp
    then show ?thesis using 2 read by (simp add: load_length_msb_def iteration_ok_def)
  next
    case 3
    define e where "e = d'\<lparr>xd_rx := (xd_rx d')\<lparr>rx_bytes_in_frame := push_bit 8 (ucast b),
      rx_state := XBEE_RX_STATE_LENGTH_LSB\<rparr>\<rparr>"
    have e: "queue e = queue d'" "same_rest d' e" "rx_state (xd_rx e) = XBEE_RX_STATE_LENGTH_LSB" "dev_wf e"
      using facts by (auto simp: e_def queue_def same_rest_update dev_wf_def rx_wf_def)
    have "parse_all (rx_abs (xd_rx d)) [b] = (rx_abs (xd_rx e), [])"
      unfolding abs using 3 by (simp add: e_def rx_abs_def)
    then have first: "no_frame d e False"
      unfolding no_frame_def using facts 3 e same_rest_trans [of d d' e] by (intro exI [of _ "[b]"]) simp
    have "load_length_msb handlers k d = load_length_lsb handlers k e"
      using 3 read by (simp add: load_length_msb_def e_def)
    then show ?thesis using iteration_ok_after [OF first load_length_lsb_ok [OF e(4,3) assms(3)] assms(3)] by simp
  qed
qed

text \<open>The search for the start of a frame ends.\<close>

lemma wait_start_ok:
  assumes "dev_wf d" "rx_state (xd_rx d) = XBEE_RX_STATE_WAITSTART"
  shows "\<exists>found d'. wait_start d = Some (found, d') \<and> no_frame d (if found then set_rx_state XBEE_RX_STATE_LENGTH_MSB d' else d') (\<not> found)"
  using assms
proof (induction "length (queue d)" arbitrary: d rule: less_induct)
  case less
  obtain c d' where read: "read_char d = (c, d')" by fastforce
  note facts = read_char_facts [OF less.prems(1) read]
  have abs: "rx_abs (xd_rx d) = Hunting" using less.prems(2) by (simp add: rx_abs_def)
  consider "c = None" | "c = Some 0x7E" | b where "c = Some b" "b \<noteq> 0x7E" by (cases c) auto
  then show ?case
  proof cases
    case 1
    then have "no_frame d d' True" using facts by (auto simp: no_frame_def)
    moreover have "wait_start d = Some (False, d')" using read 1 by (subst wait_start.simps) simp
    ultimately show ?thesis by (intro exI [of _ False] exI [of _ d']) simp
  next
    case 2
    let ?e = "set_rx_state XBEE_RX_STATE_LENGTH_MSB d'"
    have "queue ?e = queue d'" "same_rest d' ?e" "rx_abs (xd_rx ?e) = GotStart" "dev_wf ?e"
      using facts by (auto simp: set_rx_state_def queue_def same_rest_update rx_abs_def dev_wf_def rx_wf_def)
    then have "no_frame d ?e False"
      unfolding no_frame_def using facts 2 abs same_rest_trans [of d d' ?e] by (intro exI [of _ "[0x7E]"]) simp
    moreover have "wait_start d = Some (True, d')" using read 2 by (subst wait_start.simps) simp
    ultimately show ?thesis by (intro exI [of _ True] exI [of _ d']) simp
  next
    case 3
    have "length (queue d') < length (queue d)" "rx_state (xd_rx d') = XBEE_RX_STATE_WAITSTART"
      using facts 3 less.prems(2) by simp_all
    then obtain found e where e: "wait_start d' = Some (found, e)"
      "no_frame d' (if found then set_rx_state XBEE_RX_STATE_LENGTH_MSB e else e) (\<not> found)"
      using less.hyps [of d'] facts by blast
    have "no_frame d d' False"
      unfolding no_frame_def using facts abs 3 by (intro exI [of _ "[b]"]) simp
    then have "no_frame d (if found then set_rx_state XBEE_RX_STATE_LENGTH_MSB e else e) (\<not> found)"
      using e(2) by (rule no_frame_after)
    moreover have "wait_start d = Some (found, e)" using read 3 e(1) by (subst wait_start.simps) simp
    ultimately show ?thesis by blast
  qed
qed

lemma load_iteration_ok:
  assumes "dev_wf d" "rx_neutral handlers"
  shows "\<exists>out. load_iteration handlers k d = Some out \<and> iteration_ok handlers k d out"
proof (cases "rx_state (xd_rx d)")
  case XBEE_RX_STATE_WAITSTART
  then obtain found d' where start: "wait_start d = Some (found, d')"
    "no_frame d (if found then set_rx_state XBEE_RX_STATE_LENGTH_MSB d' else d') (\<not> found)"
    using wait_start_ok [OF assms(1)] by blast
  show ?thesis
  proof (cases found)
    case True
    let ?e = "set_rx_state XBEE_RX_STATE_LENGTH_MSB d'"
    have first: "no_frame d ?e False" using start(2) True by simp
    then have "dev_wf ?e" by (auto simp: no_frame_def)
    then have "iteration_ok handlers k ?e (load_length_msb handlers k ?e)"
      using assms(2) by (intro load_length_msb_ok) (simp_all add: set_rx_state_def)
    then have "iteration_ok handlers k d (load_length_msb handlers k ?e)"
      using iteration_ok_after [OF first] assms(2) by blast
    then show ?thesis using start(1) True XBEE_RX_STATE_WAITSTART by (simp add: load_iteration_def)
  next
    case False
    then show ?thesis using start XBEE_RX_STATE_WAITSTART by (simp add: load_iteration_def iteration_ok_def)
  qed
qed (simp_all add: load_iteration_def load_length_msb_ok load_length_lsb_ok load_rxframe_ok assms)

lemma dispatch_all_neutral:
  assumes "rx_neutral handlers" "\<forall>f\<in>set fs. 0 < length f \<and> length f < 65536" "same_rest d e"
  shows "same_rest (fold (dispatch_frame handlers) fs d) (fold (dispatch_frame handlers) fs e)"
  using assms(2,3)
proof (induction fs arbitrary: d e)
  case (Cons f fs)
  have "dispatch_frame handlers f e = (dispatch_frame handlers f d)\<lparr>xd_rx := xd_rx e, xd_srx := xd_srx e\<rparr>"
    using dispatch_frame_neutral(2) [OF assms(1), where f = f and d = d and r = "xd_rx e" and s = "xd_srx e"] Cons.prems
    unfolding same_rest_def by auto
  then have "same_rest (dispatch_frame handlers f d) (dispatch_frame handlers f e)"
    using same_rest_update(3) by metis
  then show ?case using Cons by simp
qed simp

lemma load_loop_ok:
  assumes "dev_wf d" "rx_neutral handlers" "k < XBEE_DEV_MAX_DISPATCH_PER_TICK"
  shows "\<exists>fs d'. load_loop handlers k d = Some (k + length fs, d') \<and>
    parse_some (XBEE_DEV_MAX_DISPATCH_PER_TICK - k) (rx_abs (xd_rx d)) (queue d) = (rx_abs (xd_rx d'), fs, queue d') \<and>
    same_rest (fold (dispatch_frame handlers) fs d) d' \<and> dev_wf d' \<and> (\<forall>f\<in>set fs. 0 < length f \<and> length f < 65536)"
  using assms(1,3)
proof (induction "length (queue d)" arbitrary: d k rule: less_induct)
  case less
  obtain m where m: "XBEE_DEV_MAX_DISPATCH_PER_TICK - k = Suc m" using less.prems(2) by (metis Suc_diff_Suc)
  obtain return n d' where it: "load_iteration handlers k d = Some (return, n, d')"
    and ok: "iteration_ok handlers k d (return, n, d')"
    using load_iteration_ok [OF less.prems(1) assms(2), of k] by (metis prod_cases3)
  have loop: "load_loop handlers k d = (if return then Some (n, d') else load_loop handlers n d')"
    by (subst load_loop.simps) (simp add: it)
  from ok consider (no) "n = k" "no_frame d d' return"
    | (one) "n = Suc k" "one_frame handlers d d'" "return = (n = XBEE_DEV_MAX_DISPATCH_PER_TICK)"
    by (auto simp: iteration_ok_def)
  then show ?case
  proof cases
    case no
    then obtain xs where xs: "queue d = xs @ queue d'" "parse_all (rx_abs (xd_rx d)) xs = (rx_abs (xd_rx d'), [])"
      "dev_wf d'" "same_rest d d'" "if return then queue d' = [] else xs \<noteq> []" by (auto simp: no_frame_def)
    note skip = parse_some_skip [OF xs(2), of m "queue d'", folded m, folded xs(1)]
    show ?thesis
    proof (cases return)
      case True
      then show ?thesis using loop no xs skip m by (intro exI [of _ "[]"] exI [of _ d']) simp
    next
      case False
      then have "length (queue d') < length (queue d)" using xs by simp
      from less.hyps [OF this xs(3) less.prems(2)] obtain fs e where
        e: "load_loop handlers k d' = Some (k + length fs, e)"
        "parse_some (XBEE_DEV_MAX_DISPATCH_PER_TICK - k) (rx_abs (xd_rx d')) (queue d') = (rx_abs (xd_rx e), fs, queue e)"
        "same_rest (fold (dispatch_frame handlers) fs d') e" "dev_wf e" "\<forall>f\<in>set fs. 0 < length f \<and> length f < 65536"
        by blast
      then have "same_rest (fold (dispatch_frame handlers) fs d) e"
        using dispatch_all_neutral [OF assms(2) e(5) xs(4)] same_rest_trans by blast
      then show ?thesis using loop False no e skip by (intro exI [of _ fs] exI [of _ e]) simp
    qed
  next
    case one
    then obtain xs b f p where xs: "queue d = xs @ b # queue d'" "parse_all (rx_abs (xd_rx d)) xs = (p, [])"
      "parse_byte p b = (rx_abs (xd_rx d'), Some f)" "0 < length f" "length f < 65536" "dev_wf d'"
      "same_rest (dispatch_frame handlers f d) d'" by (auto simp: one_frame_def)
    note frame = parse_some_frame [OF xs(2,3), of m "queue d'", folded m, folded xs(1)]
    show ?thesis
    proof (cases return)
      case True
      then have "m = 0" using one m by simp
      then show ?thesis using loop True one xs frame by (intro exI [of _ "[f]"] exI [of _ d']) simp
    next
      case False
      then have k: "Suc k < XBEE_DEV_MAX_DISPATCH_PER_TICK" "XBEE_DEV_MAX_DISPATCH_PER_TICK - Suc k = m"
        using one m less.prems(2) by simp_all
      have "length (queue d') < length (queue d)" using xs by simp
      from less.hyps [OF this xs(6) k(1)] obtain fs e where
        e: "load_loop handlers (Suc k) d' = Some (Suc k + length fs, e)"
        "parse_some m (rx_abs (xd_rx d')) (queue d') = (rx_abs (xd_rx e), fs, queue e)"
        "same_rest (fold (dispatch_frame handlers) fs d') e" "dev_wf e" "\<forall>f\<in>set fs. 0 < length f \<and> length f < 65536"
        unfolding k(2) by blast
      then have "same_rest (fold (dispatch_frame handlers) (f # fs) d) e"
        using dispatch_all_neutral [OF assms(2) e(5) xs(7)] same_rest_trans by simp blast
      then show ?thesis using loop False one e frame xs by (intro exI [of _ "f # fs"] exI [of _ e]) simp
    qed
  qed
qed

text \<open>
  C6: Receiving.  With handlers that leave the receiver alone, one call of \<open>_xbee_frame_load\<close>
  returns; it dispatches, in order, the frames the byte-wise parser finds in the bytes waiting, at
  most five of them, returns their number, leaves the parser's state in the receiver and the bytes
  after the fifth frame in the buffer.
\<close>

theorem xbee_frame_load_correct:
  assumes "dev_wf d" "rx_neutral handlers"
  shows "\<exists>fs d'. xbee_frame_load handlers (Some d) = Some (Inr (int (length fs)), Some d') \<and>
    parse_some XBEE_DEV_MAX_DISPATCH_PER_TICK (rx_abs (xd_rx d)) (queue d) = (rx_abs (xd_rx d'), fs, queue d') \<and>
    same_rest (fold (dispatch_frame handlers) fs d) d' \<and> dev_wf d'"
proof -
  obtain fs d' where "load_loop handlers 0 d = Some (length fs, d')"
    "parse_some XBEE_DEV_MAX_DISPATCH_PER_TICK (rx_abs (xd_rx d)) (queue d) = (rx_abs (xd_rx d'), fs, queue d')"
    "same_rest (fold (dispatch_frame handlers) fs d) d'" "dev_wf d'"
    using load_loop_ok [OF assms, of 0] by auto
  then show ?thesis
    using assms(1) by (intro exI [of _ fs] exI [of _ d']) (simp add: xbee_frame_load_def dev_wf_def)
qed

section \<open>Frames on the wire\<close>

definition frame_bytes :: "u8 list \<Rightarrow> u8 list" where
  "frame_bytes p = 0x7E # bytes16 (of_nat (length p)) @ p @ [0xFF - sum_list p]"

text \<open>A header or payload as passed to \<open>xbee_frame_write\<close>: its pointer and length.\<close>

definition part :: "u8 list option \<Rightarrow> u16 \<Rightarrow> u8 list" where
  "part p n = (case p of None \<Rightarrow> [] | Some bs \<Rightarrow> take (unat n) bs)"

definition part_ok :: "u8 list option \<Rightarrow> u16 \<Rightarrow> bool" where
  "part_ok p n \<longleftrightarrow> (case p of None \<Rightarrow> True | Some bs \<Rightarrow> unat n \<le> length bs \<and> unat n \<le> 255)"

lemma part_length: "part_ok p n \<Longrightarrow> length (part p n) = unat (if p = None then 0 else n) \<and> length (part p n) \<le> 255"
  by (auto simp: part_def part_ok_def split: option.splits)

lemma part_sum:
  assumes "part_ok p n" "(if p = None then 0 else n) \<noteq> 0"
  shows "xbee_checksum (the p) (ucast n) c = c - sum_list (part p n)" "take (nat (sint n)) (the p) = part p n"
    "\<not> sint n < 0"
proof -
  obtain bs where p: "p = Some bs" "unat n \<le> length bs" "unat n \<le> 255"
    using assms by (auto simp: part_ok_def split: if_splits option.splits)
  have "unat (ucast n :: u8) = unat n" using p(3) by (simp add: unsigned_ucast_eq take_bit_nat_eq_self)
  moreover have "sint n = int (unat n)" using p(3) by (intro sint_small_u16) simp
  ultimately show "xbee_checksum (the p) (ucast n) c = c - sum_list (part p n)"
    "take (nat (sint n)) (the p) = part p n" "\<not> sint n < 0"
    using p by (simp_all add: xbee_checksum_eq part_def)
qed

lemma part_empty: "(if p = None then 0 else n) = 0 \<Longrightarrow> part p n = []"
  by (auto simp: part_def split: option.splits if_splits)

text \<open>What \<open>xbee_frame_write\<close> sends when it succeeds.\<close>

lemma xbee_frame_write_sends:
  assumes "xbee_frame_write (Some d) header headerlen data datalen flags = (Inr r, d')"
    and "part_ok header headerlen" "part_ok data datalen"
  shows "r = 0 \<and> (\<exists>tx. d' = Some (d\<lparr>xd_stx := tx\<rparr>) \<and>
    tx_sent tx (sp_port (xd_serport d)) = tx_sent (xd_stx d) (sp_port (xd_serport d)) @
      frame_bytes (part header headerlen @ part data datalen))"
proof -
  let ?hl = "if header = None then 0 else headerlen" and ?dl = "if data = None then 0 else datalen"
  let ?h = "part header headerlen" and ?d = "part data datalen" and ?port = "sp_port (xd_serport d)"
  define send where "send bytes n tx = snd (xbee_ser_write (xd_serport d) bytes n tx)" for bytes n tx
  have valid: "\<not> xbee_ser_invalid (Some (xd_serport d))"
    using assms(1) by (auto simp: xbee_frame_write_def)
  then have send: "\<not> n < 0 \<Longrightarrow> tx_sent (send bytes n tx) ?port = tx_sent tx ?port @ take (nat n) bytes" for bytes n tx
    by (auto simp: send_def xbee_ser_write_def xbee_ser_invalid_def)
  let ?t1 = "send (0x7E # bytes16 (?hl + ?dl)) 3 (xd_stx d)"
  let ?t2 = "if ?hl \<noteq> 0 then send (the header) (sint ?hl) ?t1 else ?t1"
  let ?c2 = "if ?hl \<noteq> 0 then xbee_checksum (the header) (ucast ?hl) 0xFF else 0xFF"
  let ?t3 = "if ?dl \<noteq> 0 then send (the data) (sint ?dl) ?t2 else ?t2"
  let ?c3 = "if ?dl \<noteq> 0 then xbee_checksum (the data) (ucast ?dl) ?c2 else ?c2"
  have d': "r = 0" "d' = Some (d\<lparr>xd_stx := send [?c3] 1 ?t3\<rparr>)"
    using assms(1) valid by (auto simp: xbee_frame_write_def Let_def send_def split: if_splits)
  have "?hl + ?dl = of_nat (length (?h @ ?d))"
    using part_length [OF assms(2)] part_length [OF assms(3)] by simp
  then have t1: "tx_sent ?t1 ?port = tx_sent (xd_stx d) ?port @ 0x7E # bytes16 (of_nat (length (?h @ ?d)))"
    by (subst send) (simp_all add: bytes16_def)
  have t2: "tx_sent ?t2 ?port = tx_sent ?t1 ?port @ ?h" and c2: "?c2 = 0xFF - sum_list ?h"
    using part_sum [OF assms(2)] part_empty [of header headerlen] by (auto simp: send)
  have t3: "tx_sent ?t3 ?port = tx_sent ?t2 ?port @ ?d" and c3: "?c3 = ?c2 - sum_list ?d"
    using part_sum [OF assms(3)] part_empty [of data datalen] by (auto simp: send)
  have c3': "?c3 = 0xFF - sum_list ?h - sum_list ?d" by (rule trans [OF c3]) (simp only: c2)
  have "tx_sent (send [?c3] 1 ?t3) ?port = tx_sent ?t3 ?port @ [?c3]"
    by (subst send) simp_all
  also have "\<dots> = tx_sent (xd_stx d) ?port @ frame_bytes (?h @ ?d)"
    unfolding c3' t3 t2 t1 by (simp add: frame_bytes_def algebra_simps)
  finally show ?thesis using d' by blast
qed

text \<open>The parser on the bytes of a frame.\<close>

lemma parse_frame_head:
  assumes "2 \<le> n" "n \<le> 146"
  shows "parse_all Hunting (0x7E # bytes16 (of_nat n)) = (Receiving n [], [])"
proof -
  define w where "w = (of_nat n :: u16)"
  have un: "unat w = n" using assms by (simp add: w_def unat_of_nat_u16)
  have hi: "(ucast (drop_bit 8 w) :: u8) = 0"
    using assms un by (simp add: word_unat_eq_iff unsigned_ucast_eq drop_bit_eq_div unat_div)
  have "take_bit 8 (unat w) = n" using assms un by (simp add: take_bit_nat_eq_self)
  then have "unat (ucast (ucast w :: u8) :: u16) = n"
    by (simp add: unsigned_ucast_eq unsigned_take_bit_eq)
  then have lo: "ucast (ucast w :: u8) = w" using un by (simp add: word_unat_eq_iff)
  show ?thesis
    unfolding w_def [symmetric] bytes16_def
    using assms un by (simp add: hi lo word_le_nat_alt word_less_nat_alt not_less)
qed

lemma parse_body:
  assumes "length p = n"
  shows "parse_some (Suc k) (Receiving n []) (p @ b # rest) =
    (if sum_list p + b = 0xFF
     then (case parse_some k Hunting rest of (q, fs, left) \<Rightarrow> (q, p # fs, left))
     else parse_some (Suc k) Hunting rest)"
proof -
  have body: "parse_all (Receiving n []) p = (Receiving n p, [])"
    using parse_receiving [of "[]" p n] assms by simp
  show ?thesis
    using parse_some_skip [OF body, of k "b # rest"] assms by simp
qed

lemma frame_load_parse:
  assumes "dev_wf d" "rx_neutral handlers"
    "parse_some XBEE_DEV_MAX_DISPATCH_PER_TICK (rx_abs (xd_rx d)) (queue d) = (q, fs, rest)"
  obtains d' where "xbee_frame_load handlers (Some d) = Some (Inr (int (length fs)), Some d')"
    "rx_abs (xd_rx d') = q" "queue d' = rest" "same_rest (fold (dispatch_frame handlers) fs d) d'" "dev_wf d'"
proof -
  obtain n d' where "load_loop handlers 0 d = Some (n, d')" "n = length fs"
    "rx_abs (xd_rx d') = q" "queue d' = rest" "same_rest (fold (dispatch_frame handlers) fs d) d'" "dev_wf d'"
    using load_loop_ok [OF assms(1,2), of 0] assms(3) by auto
  then show ?thesis
    using that assms(1) by (simp add: xbee_frame_load_def dev_wf_def)
qed

lemma numeral_5_Suc: "(5 :: nat) = Suc 4"
  by simp

lemma parse_frame:
  assumes "2 \<le> length p" "length p \<le> 146" "0x7E \<notin> set junk"
  shows "parse_some 5 Hunting (junk @ 0x7E # bytes16 (of_nat (length p)) @ p @ [b]) =
    (Hunting, if sum_list p + b = 0xFF then [p] else [], [])"
proof -
  have head: "parse_all Hunting (junk @ 0x7E # bytes16 (of_nat (length p))) = (Receiving (length p) [], [])"
    using parse_hunting [OF assms(3)] parse_frame_head [OF assms(1,2)] by (simp add: parse_all_append del: parse_all.simps)
  have "parse_some 5 Hunting ((junk @ 0x7E # bytes16 (of_nat (length p))) @ p @ [b])
      = parse_some 5 (Receiving (length p) []) (p @ [b])"
    unfolding numeral_5_Suc by (rule parse_some_skip [OF head])
  also have "\<dots> = (Hunting, if sum_list p + b = 0xFF then [p] else [], [])"
    unfolding numeral_5_Suc using parse_body [of p "length p" 4 b "[]"] by (simp add: eval_nat_numeral)
  finally show ?thesis by simp
qed

text \<open>
  C8: Sending and receiving.  When \<open>xbee_frame_write\<close> succeeds for a header and data of 2 to 146
  bytes together, and the bytes it sent are what waits in another device's buffer, after bytes of
  noise that contain no start marker, one call of \<open>_xbee_frame_load\<close> there dispatches exactly one
  frame, the header followed by the data, and leaves nothing.
\<close>

theorem xbee_frame_roundtrip:
  assumes "xbee_frame_write (Some d) header headerlen data datalen flags = (Inr r, Some d')"
    and "part_ok header headerlen" "part_ok data datalen"
    and frame: "p = part header headerlen @ part data datalen" "2 \<le> length p" "length p \<le> 146"
    and wire: "tx_sent (xd_stx d') (sp_port (xd_serport d)) = tx_sent (xd_stx d) (sp_port (xd_serport d)) @ sent"
    and "dev_wf e" "rx_state (xd_rx e) = XBEE_RX_STATE_WAITSTART" "queue e = junk @ sent" "0x7E \<notin> set junk"
    and "rx_neutral handlers"
  shows "\<exists>e'. xbee_frame_load handlers (Some e) = Some (Inr 1, Some e') \<and>
    same_rest (dispatch_frame handlers p e) e' \<and> queue e' = []"
proof -
  have "sent = frame_bytes p"
    using xbee_frame_write_sends [OF assms(1-3)] wire frame(1) by auto
  then have "parse_some 5 (rx_abs (xd_rx e)) (queue e) = (Hunting, [p], [])"
    using parse_frame [OF frame(2,3) assms(11), of "0xFF - sum_list p"] assms(9,10)
    by (simp add: rx_abs_def frame_bytes_def)
  from frame_load_parse [OF assms(8,12) this] show ?thesis by fastforce
qed

text \<open>
  Damaged frames.  When one byte of a frame's content or its checksum arrives altered, no
  handler is called: \<open>_xbee_frame_load\<close> returns 0 and the device is as before but for the receiver,
  which waits for the next frame.
\<close>

theorem damaged_frame_dropped:
  assumes "2 \<le> length p" "length p \<le> 146"
    and "i \<le> length p" "x \<noteq> (p @ [0xFF - sum_list p]) ! i"
    and "dev_wf d" "rx_state (xd_rx d) = XBEE_RX_STATE_WAITSTART" "rx_neutral handlers"
    and "queue d = 0x7E # bytes16 (of_nat (length p)) @ (p @ [0xFF - sum_list p])[i := x]"
  shows "\<exists>d'. xbee_frame_load handlers (Some d) = Some (Inr 0, Some d') \<and> same_rest d d' \<and>
    rx_state (xd_rx d') = XBEE_RX_STATE_WAITSTART \<and> queue d' = []"
proof -
  let ?body = "p @ [0xFF - sum_list p]"
  obtain q b where qb: "?body[i := x] = q @ [b]" by (cases "?body[i := x]" rule: rev_cases) auto
  have len: "length q = length p" using arg_cong [OF qb, of length] by simp
  have upd: "sum_list (xs[i := x]) = sum_list xs - xs ! i + x" if "i < length xs" for xs :: "u8 list"
    using that by (induction xs arbitrary: i) (auto split: nat.splits simp: algebra_simps)
  have "sum_list q + b = sum_list (?body[i := x])" unfolding qb by simp
  also have "\<dots> = sum_list ?body - ?body ! i + x" using assms(3) by (intro upd) simp
  also have "\<dots> = 0xFF + (x - ?body ! i)" by simp
  finally have eq: "sum_list q + b = 0xFF + (x - ?body ! i)" .
  have "sum_list q + b \<noteq> 0xFF" unfolding eq using assms(4) by (simp only: add_cancel_left_right eq_iff_diff_eq_0 [symmetric]) simp
  then have "parse_some 5 (rx_abs (xd_rx d)) (queue d) = (Hunting, [], [])"
    using parse_frame [of q "[]" b] assms(1,2,6,8) len unfolding qb by (simp add: rx_abs_def)
  from frame_load_parse [OF assms(5,7) this] obtain d' where
    "xbee_frame_load handlers (Some d) = Some (Inr 0, Some d')" "rx_abs (xd_rx d') = Hunting" "queue d' = []"
    "same_rest d d'" by auto
  moreover have "rx_state (xd_rx d') = XBEE_RX_STATE_WAITSTART"
    using \<open>rx_abs (xd_rx d') = Hunting\<close> by (simp add: rx_abs_def split: xbee_dev_rx_state.splits)
  ultimately show ?thesis by blast
qed

section \<open>An example\<close>

text \<open>A device with an empty buffer, a handler that records the frames, and the bytes of a frame received.\<close>

definition demo_dev :: "u8 list list xbee_dev" where
  "demo_dev =
     \<lparr>xd_wpan_flags = 0, xd_network = 0, xd_ieee = replicate 8 0, xd_payload = 0, xd_serport = demo_port, xd_reset = None, xd_is_awake = None,
      xd_hardware_version = 0, xd_firmware_version = 0, xd_flags = 0,
      xd_rx = \<lparr>rx_state = XBEE_RX_STATE_WAITSTART, rx_bytes_in_frame = 0, rx_bytes_read = 0,
               rx_frame_data = replicate 147 0\<rparr>,
      xd_frame_id = 0, xd_srx = demo_rx,
      xd_stx = \<lparr>tx_sent = (\<lambda>_. []), tx_cts_pin = (\<lambda>_. False), tx_baud = (\<lambda>_. 0), tx_control = (\<lambda>_. [])\<rparr>,
      xd_world = []\<rparr>"

definition demo_receive :: "u8 list \<Rightarrow> u8 list list xbee_dev" where
  "demo_receive bs = demo_dev\<lparr>xd_srx := demo_rx\<lparr>rx_bufs := (\<lambda>_.
     \<lparr>xc_lock = 0, xc_head = 0, xc_tail = of_nat (length bs), xc_mask = 15, xc_data = bs @ replicate (16 - length bs) 0\<rparr>)\<rparr>\<rparr>"

definition log_frames :: "u8 list list xbee_dispatch_table_entry list" where
  "log_frames = [\<lparr>de_frame_type = 0x11, de_frame_id = 0,
     de_handler = (\<lambda>d f n. (0, d\<lparr>xd_world := xd_world d @ [f]\<rparr>))\<rparr>]"

lemma log_frames_neutral: "rx_neutral log_frames"
  by (simp add: rx_neutral_def log_frames_def)

definition demo_stream :: "u8 list" where
  "demo_stream = [0x7E, 0x00, 0x03, 0x11, 0x01, 0x02, 0xEB]"

lemma demo_words:
  "bytes16 (3 :: u16) = [0, 3]" "xbee_checksum [0x11, 0x01] 2 0xFF = 0xED" "xbee_checksum [0x02] 1 0xED = 0xEB"
  by code_simp+

lemma demo_write:
  "xbee_frame_write (Some demo_dev) (Some [0x11, 0x01]) 2 (Some [0x02]) 1 0 =
     (Inr 0, Some (demo_dev\<lparr>xd_stx := (xd_stx demo_dev)\<lparr>tx_sent := (\<lambda>_. [])(2 := demo_stream)\<rparr>\<rparr>))"
  by (simp add: xbee_frame_write_def demo_dev_def demo_port_def Let_def xbee_ser_invalid_def xbee_ser_tx_free_def
      xbee_ser_tx_used_def xbee_ser_write_def demo_stream_def demo_words fun_eq_iff)

lemma demo_receive_ok:
  assumes "length bs = 7"
  shows "queue (demo_receive bs) = bs" "dev_wf (demo_receive bs)"
proof -
  have n: "unat (of_nat (length bs) :: u8) = 7" using assms by simp
  have "map (\<lambda>i. (bs @ replicate 9 0) ! (i mod 16)) [0..<7] = bs"
    using assms by (intro nth_equalityI) (simp_all add: nth_append)
  then show "queue (demo_receive bs) = bs"
    using n assms by (simp add: queue_def demo_receive_def demo_dev_def demo_rx_def xcb_contents_def xcb_count_def
        xcb_size_def ring_list_def)
  show "dev_wf (demo_receive bs)"
    using n assms by (simp add: dev_wf_def demo_receive_def demo_dev_def demo_rx_def xcb_wf_def xcb_size_def rx_wf_def
        xbee_ser_invalid_def demo_port_def)
qed

theorem xbee_frame_load_correct_witness:
  "\<exists>d'. xbee_frame_load log_frames (Some (demo_receive demo_stream)) = Some (Inr 1, Some d') \<and> queue d' = []"
proof -
  have "parse_some 5 Hunting demo_stream = (Hunting, [[0x11, 0x01, 0x02]], [])" by code_simp
  moreover have "rx_abs (xd_rx (demo_receive demo_stream)) = Hunting"
    by (simp add: rx_abs_def demo_receive_def demo_dev_def)
  ultimately show ?thesis
    using xbee_frame_load_correct [OF demo_receive_ok(2) log_frames_neutral, of demo_stream]
      demo_receive_ok(1) [of demo_stream] by (auto simp: demo_stream_def)
qed

theorem xbee_frame_roundtrip_witness:
  "\<exists>e'. xbee_frame_load log_frames (Some (demo_receive demo_stream)) = Some (Inr 1, Some e') \<and>
    same_rest (dispatch_frame log_frames [0x11, 0x01, 0x02] (demo_receive demo_stream)) e' \<and> queue e' = []"
  using demo_receive_ok [of demo_stream]
  by (intro xbee_frame_roundtrip [OF demo_write, where junk = "[]" and sent = demo_stream])
    (simp_all add: part_ok_def part_def demo_dev_def demo_port_def demo_receive_def log_frames_neutral demo_stream_def)

theorem damaged_frame_dropped_witness:
  "\<exists>d'. xbee_frame_load log_frames (Some (demo_receive (demo_stream[4 := 0x41]))) = Some (Inr 0, Some d') \<and> queue d' = []"
proof -
  let ?d = "demo_receive (demo_stream[4 := 0x41])" and ?p = "[0x11, 0x01, 0x02] :: u8 list"
  have "queue ?d = 0x7E # bytes16 (of_nat (length ?p)) @ (?p @ [0xFF - sum_list ?p])[1 := 0x41]"
    using demo_receive_ok(1) [of "demo_stream[4 := 0x41]"] by (simp add: demo_stream_def demo_words eval_nat_numeral)
  from damaged_frame_dropped [OF _ _ _ _ _ _ log_frames_neutral this] demo_receive_ok(2) [of "demo_stream[4 := 0x41]"]
  show ?thesis by (auto simp: demo_stream_def demo_receive_def demo_dev_def)
qed

section \<open>Frame identifiers\<close>

fun frame_ids :: "nat \<Rightarrow> 'w xbee_dev \<Rightarrow> u8 list" where
  "frame_ids 0 d = []"
| "frame_ids (Suc n) d = (case xbee_next_frame_id (Some d) of (i, d') \<Rightarrow> i # frame_ids n (the d'))"

lemma suc_mod_256: "a < 256 \<Longrightarrow> Suc a mod 256 = 0 \<longleftrightarrow> a = 255"
  by presburger

lemma next_frame_id_nat:
  "unat (fst (xbee_next_frame_id (Some d))) = (unat (xd_frame_id d)) mod 255 + 1"
  "xd_frame_id (the (snd (xbee_next_frame_id (Some d)))) = fst (xbee_next_frame_id (Some d))"
proof -
  have "xd_frame_id d + 1 = 0 \<longleftrightarrow> unat (xd_frame_id d) = 255"
    using suc_mod_256 [OF unat_u8_bound [of "xd_frame_id d"]] by (simp add: word_unat_eq_iff unat_word_ariths)
  moreover have "unat (xd_frame_id d) < 255 \<Longrightarrow> unat (xd_frame_id d + 1) = Suc (unat (xd_frame_id d))"
    by (simp add: unat_word_ariths)
  ultimately show "unat (fst (xbee_next_frame_id (Some d))) = (unat (xd_frame_id d)) mod 255 + 1"
    using unat_u8_le [of "xd_frame_id d"] by (auto simp: xbee_next_frame_id_def Let_def le_less)
qed (simp add: xbee_next_frame_id_def Let_def)

lemma frame_ids_nth:
  "i < n \<Longrightarrow> unat (frame_ids n d ! i) = (unat (xd_frame_id d) + i) mod 255 + 1"
proof (induction n d arbitrary: i rule: frame_ids.induct)
  case (2 n d)
  obtain x d' where next_id: "xbee_next_frame_id (Some d) = (x, d')" by fastforce
  show ?case
  proof (cases i)
    case 0
    then show ?thesis using next_frame_id_nat(1) [of d] next_id by simp
  next
    case (Suc j)
    from next_id have "unat (xd_frame_id (the d')) = unat (xd_frame_id d) mod 255 + 1"
      using next_frame_id_nat [of d] by simp
    then have "(unat (xd_frame_id (the d')) + j) mod 255 = (unat (xd_frame_id d) + i) mod 255"
      unfolding Suc by (simp only: add.assoc mod_add_left_eq) simp
    then show ?thesis using 2 next_id Suc by simp
  qed
qed simp

lemma length_frame_ids [simp]: "length (frame_ids n d) = n"
  by (induction n d rule: frame_ids.induct) (simp_all split: prod.splits)

text \<open>
  Frame identifiers.  \<open>xbee_next_frame_id\<close> never returns 0, which asks for no response, and any
  255 successive identifiers are different.
\<close>

theorem xbee_frame_ids_distinct:
  assumes "n \<le> 255"
  shows "distinct (frame_ids n d) \<and> 0 \<notin> set (frame_ids n d)"
proof
  have "frame_ids n d ! i \<noteq> frame_ids n d ! j" if "i < j" "j < n" for i j
  proof
    assume "frame_ids n d ! i = frame_ids n d ! j"
    then have "(unat (xd_frame_id d) + i) mod 255 = (unat (xd_frame_id d) + j) mod 255"
      using frame_ids_nth [of i n d] frame_ids_nth [of j n d] that by simp
    then have "255 dvd j - i"
      using that by (metis add_diff_cancel_left less_imp_le_nat mod_eq_dvd_iff_nat nat_add_left_cancel_le)
    then show False using that assms by (auto dest: dvd_imp_le)
  qed
  then show "distinct (frame_ids n d)"
    unfolding distinct_conv_nth by (metis length_frame_ids linorder_neqE_nat)
  show "0 \<notin> set (frame_ids n d)"
    using frame_ids_nth [of _ n d] by (force simp: in_set_conv_nth)
qed

theorem xbee_frame_ids_distinct_witness:
  "(3 :: nat) \<le> 255 \<and> distinct (frame_ids 3 demo_dev)"
  using xbee_frame_ids_distinct [of 3 demo_dev] by simp

end
