(* ===== verification/Xbee_Atcmd.thy ===== *)
theory Xbee_Atcmd
  imports Xbee_Frames Wpan_Types
begin

text \<open>
  AT commands (\<open>pxbee/pan/xbee/xbee_atcmd.c\<close>, \<open>headers/xbee/atcmd.h\<close>): the table of outstanding
  requests and its handles, sending a request, matching responses, expiry, lists of commands and
  the list that queries a device at start-up.

  Callbacks are numbers; what a callback of the application does is a function of the environment.
  The callback of command lists has number 0.  The functions that create requests call each other:
  \<open>xbee_cmd_create\<close> expires requests when the table is full, and callbacks of expired requests may
  create requests.  Each function gets as its argument \<open>create\<close> the function it creates requests
  with; \<open>xbee_cmd_create\<close> ties the knot for a number of nested calls.
\<close>

section \<open>Requests and responses\<close>

abbreviation XBEE_CMD_REQUEST_TABLESIZE :: nat where "XBEE_CMD_REQUEST_TABLESIZE \<equiv> 2"
abbreviation XBEE_CMD_MAX_PARAM_LENGTH :: nat where "XBEE_CMD_MAX_PARAM_LENGTH \<equiv> 48"
abbreviation XBEE_CMD_REMOTE_TIMEOUT :: u16 where "XBEE_CMD_REMOTE_TIMEOUT \<equiv> 180"
abbreviation XBEE_CMD_LOCAL_TIMEOUT :: u16 where "XBEE_CMD_LOCAL_TIMEOUT \<equiv> 2"

abbreviation XBEE_CMD_FLAG_REMOTE :: u16 where "XBEE_CMD_FLAG_REMOTE \<equiv> 0x0001"
abbreviation XBEE_CMD_FLAG_QUEUE_CHANGE :: u16 where "XBEE_CMD_FLAG_QUEUE_CHANGE \<equiv> 0x0002"
abbreviation XBEE_CMD_FLAG_REUSE_HANDLE :: u16 where "XBEE_CMD_FLAG_REUSE_HANDLE \<equiv> 0x0004"
abbreviation XBEE_CMD_FLAG_USER_MASK :: u16 where "XBEE_CMD_FLAG_USER_MASK \<equiv> 0x0006"

abbreviation XBEE_CMD_RESP_MASK_STATUS :: u16 where "XBEE_CMD_RESP_MASK_STATUS \<equiv> 0x000F"
abbreviation XBEE_CMD_RESP_FLAG_TIMEOUT :: u16 where "XBEE_CMD_RESP_FLAG_TIMEOUT \<equiv> 0x8000"
abbreviation XBEE_AT_RESP_SUCCESS :: u16 where "XBEE_AT_RESP_SUCCESS \<equiv> 0"

abbreviation XBEE_ATCMD_DONE :: int where "XBEE_ATCMD_DONE \<equiv> 0"
abbreviation XBEE_ATCMD_REUSE :: int where "XBEE_ATCMD_REUSE \<equiv> 1"

abbreviation XBEE_FRAME_LOCAL_AT_CMD :: u8 where "XBEE_FRAME_LOCAL_AT_CMD \<equiv> 0x08"
abbreviation XBEE_FRAME_LOCAL_AT_CMD_Q :: u8 where "XBEE_FRAME_LOCAL_AT_CMD_Q \<equiv> 0x09"
abbreviation XBEE_FRAME_REMOTE_AT_CMD :: u8 where "XBEE_FRAME_REMOTE_AT_CMD \<equiv> 0x17"
abbreviation XBEE_FRAME_LOCAL_AT_RESPONSE :: u8 where "XBEE_FRAME_LOCAL_AT_RESPONSE \<equiv> 0x88"
abbreviation XBEE_FRAME_REMOTE_AT_RESPONSE :: u8 where "XBEE_FRAME_REMOTE_AT_RESPONSE \<equiv> 0x97"

abbreviation XBEE_DEV_FLAG_CMD_INIT :: u16 where "XBEE_DEV_FLAG_CMD_INIT \<equiv> 0x0001"
abbreviation XBEE_DEV_FLAG_QUERY_BEGIN :: u16 where "XBEE_DEV_FLAG_QUERY_BEGIN \<equiv> 0x0002"
abbreviation XBEE_DEV_FLAG_QUERY_DONE :: u16 where "XBEE_DEV_FLAG_QUERY_DONE \<equiv> 0x0004"
abbreviation XBEE_DEV_FLAG_QUERY_ERROR :: u16 where "XBEE_DEV_FLAG_QUERY_ERROR \<equiv> 0x0008"
abbreviation XBEE_DEV_FLAG_QUERY_REFRESH :: u16 where "XBEE_DEV_FLAG_QUERY_REFRESH \<equiv> 0x0010"
abbreviation XBEE_DEV_FLAG_QUERY_INPROGRESS :: u16 where "XBEE_DEV_FLAG_QUERY_INPROGRESS \<equiv> 0x0020"
abbreviation WPAN_FLAG_AUTHENTICATION_ENABLED :: u16 where "WPAN_FLAG_AUTHENTICATION_ENABLED \<equiv> 0x0004"
abbreviation XBEE_CMD_ATEO_USE_AUTHENTICATION :: u32 where "XBEE_CMD_ATEO_USE_AUTHENTICATION \<equiv> 0x0008"

text \<open>A command is two characters read as a 16-bit word.\<close>

definition at_cmd :: "char \<Rightarrow> char \<Rightarrow> u16" where
  "at_cmd c1 c2 = be16 (of_char c1) (of_char c2)"

record xbee_cmd_request =
  rq_sequence :: u8
  rq_device :: "nat option"
  rq_timeout :: u16
  rq_flags :: u16
  rq_param :: "u8 list"
  rq_param_length :: u8
  rq_callback :: "nat option"
  rq_context :: nat
  rq_frame_id :: u8
  rq_ieee :: addr64
  rq_network :: u16
  rq_command :: u16

definition request_zero :: xbee_cmd_request where
  "request_zero =
     \<lparr>rq_sequence = 0, rq_device = None, rq_timeout = 0, rq_flags = 0, rq_param = replicate 48 0,
      rq_param_length = 0, rq_callback = None, rq_context = 0, rq_frame_id = 0,
      rq_ieee = replicate 8 0, rq_network = 0, rq_command = 0\<rparr>"

record xbee_cmd_response =
  re_device :: nat
  re_context :: nat
  re_handle :: int
  re_command :: u16
  re_flags :: u16
  re_value_length :: u8
  re_value_bytes :: "u8 list"
  re_value :: u32
  re_source :: "(addr64 \<times> u16) option"

section \<open>The state\<close>

text \<open>The enumerations of command lists; the status values are \<open>-EBUSY\<close>, 0, \<open>-ETIMEDOUT\<close> and \<open>-EIO\<close>.\<close>

datatype xbee_command_list_status =
    XBEE_COMMAND_LIST_RUNNING | XBEE_COMMAND_LIST_DONE | XBEE_COMMAND_LIST_TIMEOUT | XBEE_COMMAND_LIST_ERROR

datatype xbee_command_list_type =
    XBEE_CLT_NONE | XBEE_CLT_COPY | XBEE_CLT_COPY_BE | XBEE_CLT_SET | XBEE_CLT_SET_STR | XBEE_CLT_SET_BE
  | XBEE_CLT_SET_8 | XBEE_CLT_LAST

text \<open>
  \<open>xbee_command_list_context_t\<close>: the list is the number of a constant table and the entry the
  list starts at, \<open>base\<close> the number of an object.
\<close>

record xbee_command_list_context =
  lc_list :: nat
  lc_first :: nat
  lc_base :: nat
  lc_status :: xbee_command_list_status
  lc_index :: u16

text \<open>
  The devices, the request table, the static variables \<open>initialized\<close> and \<open>last_time\<close> and \<open>last_id\<close>,
  the list contexts (number 0 is \<open>_xbee_atcmd_query_regs_head\<close>), the seconds timer, and the rest.
\<close>

record ('p, 'w) at_state =
  as_dev :: "nat \<Rightarrow> 'p xbee_dev"
  as_table :: "xbee_cmd_request list"
  as_initialized :: u8
  as_last_time :: u8
  as_last_id :: u8
  as_lists :: "nat \<Rightarrow> xbee_command_list_context"
  as_seconds :: u32
  as_world :: 'w

text \<open>
  \<open>xbee_atcmd_reg_t\<close>.  The offset into the object at \<open>base\<close> is given by what it is used for: the
  bytes from there on, and storing bytes there.  A callback gets the response, whether the pointer
  to the entry is not null, and the base.
\<close>

record ('p, 'w) xbee_atcmd_reg =
  ar_command :: u16
  ar_flags :: u8
  ar_type :: xbee_command_list_type
  ar_callback :: "(xbee_cmd_response \<Rightarrow> bool \<Rightarrow> nat \<Rightarrow> ('p, 'w) at_state \<Rightarrow> ('p, 'w) at_state option) option"
  ar_bytes :: u8
  ar_get :: "nat \<Rightarrow> ('p, 'w) at_state \<Rightarrow> u8 list"
  ar_put :: "nat \<Rightarrow> u8 list \<Rightarrow> ('p, 'w) at_state \<Rightarrow> ('p, 'w) at_state"

text \<open>The application: its callbacks and its constant command lists.\<close>

record ('p, 'w) at_env =
  ae_callback :: "nat \<Rightarrow> xbee_cmd_response \<Rightarrow> ('p, 'w) at_state \<Rightarrow> int \<times> ('p, 'w) at_state"
  ae_list :: "nat \<Rightarrow> ('p, 'w) xbee_atcmd_reg list"

type_synonym ('p, 'w) at_create =
  "nat option \<Rightarrow> u16 option \<Rightarrow> ('p, 'w) at_state \<Rightarrow> ((errno + int) \<times> ('p, 'w) at_state) option"

definition XBEE_SET_TIMEOUT_SEC :: "u16 \<Rightarrow> ('p, 'w) at_state \<Rightarrow> u16" where
  "XBEE_SET_TIMEOUT_SEC delay s = ucast (as_seconds s) + delay"

definition XBEE_CHECK_TIMEOUT_SEC :: "u16 \<Rightarrow> ('p, 'w) at_state \<Rightarrow> bool" where
  "XBEE_CHECK_TIMEOUT_SEC timer s \<longleftrightarrow> sint (ucast (as_seconds s) - timer) \<ge> 0"

definition update_request ::
    "nat \<Rightarrow> (xbee_cmd_request \<Rightarrow> xbee_cmd_request) \<Rightarrow> ('p, 'w) at_state \<Rightarrow> ('p, 'w) at_state" where
  "update_request i f s = s\<lparr>as_table := (as_table s)[i := f (as_table s ! i)]\<rparr>"

definition update_dev :: "nat \<Rightarrow> ('p xbee_dev \<Rightarrow> 'p xbee_dev) \<Rightarrow> ('p, 'w) at_state \<Rightarrow> ('p, 'w) at_state" where
  "update_dev d f s = s\<lparr>as_dev := (as_dev s)(d := f (as_dev s d))\<rparr>"

definition update_list ::
    "nat \<Rightarrow> (xbee_command_list_context \<Rightarrow> xbee_command_list_context) \<Rightarrow> ('p, 'w) at_state \<Rightarrow> ('p, 'w) at_state" where
  "update_list c f s = s\<lparr>as_lists := (as_lists s)(c := f (as_lists s c))\<rparr>"

section \<open>Handles\<close>

definition request_handle :: "nat \<Rightarrow> ('p, 'w) at_state \<Rightarrow> int" where
  "request_handle i s = 256 * int i + uint (rq_sequence (as_table s ! i))"

definition xbee_cmd_handle_to_address :: "int \<Rightarrow> ('p, 'w) at_state \<Rightarrow> nat option" where
  "xbee_cmd_handle_to_address handle s =
     (if handle < 0 \<or> handle \<ge> int XBEE_CMD_REQUEST_TABLESIZE * 256 then None
      else
        let i = nat (handle div 256) in
        if uint (rq_sequence (as_table s ! i)) \<noteq> handle mod 256 then None else Some i)"

definition xbee_cmd_release_request :: "nat option \<Rightarrow> ('p, 'w) at_state \<Rightarrow> (errno + int) \<times> ('p, 'w) at_state" where
  "xbee_cmd_release_request request s =
     (case request of
        None \<Rightarrow> (Inl EINVAL, s)
      | Some i \<Rightarrow> (Inr 0, update_request i (\<lambda>r. r\<lparr>rq_device := None, rq_sequence := rq_sequence r + 1\<rparr>) s))"

definition xbee_cmd_release_handle :: "int \<Rightarrow> ('p, 'w) at_state \<Rightarrow> (errno + int) \<times> ('p, 'w) at_state" where
  "xbee_cmd_release_handle handle s = xbee_cmd_release_request (xbee_cmd_handle_to_address handle s) s"

text \<open>The functions that change one field of a request start with the check of the handle.\<close>

definition on_request ::
    "int \<Rightarrow> (xbee_cmd_request \<Rightarrow> xbee_cmd_request) \<Rightarrow> ('p, 'w) at_state \<Rightarrow> (errno + int) \<times> ('p, 'w) at_state" where
  "on_request handle f s =
     (case xbee_cmd_handle_to_address handle s of
        None \<Rightarrow> (Inl EINVAL, s)
      | Some i \<Rightarrow> (Inr 0, update_request i f s))"

definition xbee_cmd_set_command :: "int \<Rightarrow> u16 \<Rightarrow> ('p, 'w) at_state \<Rightarrow> (errno + int) \<times> ('p, 'w) at_state" where
  "xbee_cmd_set_command handle command = on_request handle (\<lambda>r. r\<lparr>rq_command := command\<rparr>)"

definition xbee_cmd_set_callback ::
    "int \<Rightarrow> nat option \<Rightarrow> nat \<Rightarrow> ('p, 'w) at_state \<Rightarrow> (errno + int) \<times> ('p, 'w) at_state" where
  "xbee_cmd_set_callback handle callback ctxt =
     on_request handle (\<lambda>r. r\<lparr>rq_callback := callback, rq_context := ctxt\<rparr>)"

definition xbee_cmd_set_target ::
    "int \<Rightarrow> addr64 option \<Rightarrow> u16 \<Rightarrow> ('p, 'w) at_state \<Rightarrow> (errno + int) \<times> ('p, 'w) at_state" where
  "xbee_cmd_set_target handle ieee network =
     on_request handle (\<lambda>r. case ieee of
         None \<Rightarrow> r\<lparr>rq_ieee := replicate 8 0, rq_network := 0, rq_flags := rq_flags r AND NOT XBEE_CMD_FLAG_REMOTE\<rparr>
       | Some a \<Rightarrow> r\<lparr>rq_ieee := a, rq_network := network, rq_flags := rq_flags r OR XBEE_CMD_FLAG_REMOTE\<rparr>)"

definition xbee_cmd_set_flags :: "int \<Rightarrow> u16 \<Rightarrow> ('p, 'w) at_state \<Rightarrow> (errno + int) \<times> ('p, 'w) at_state" where
  "xbee_cmd_set_flags handle flags =
     on_request handle (\<lambda>r. r\<lparr>rq_flags := rq_flags r OR (flags AND XBEE_CMD_FLAG_USER_MASK)\<rparr>)"

definition xbee_cmd_clear_flags :: "int \<Rightarrow> u16 \<Rightarrow> ('p, 'w) at_state \<Rightarrow> (errno + int) \<times> ('p, 'w) at_state" where
  "xbee_cmd_clear_flags handle flags =
     on_request handle (\<lambda>r. r\<lparr>rq_flags := rq_flags r AND NOT (flags AND XBEE_CMD_FLAG_USER_MASK)\<rparr>)"

text \<open>\<open>_xbee_cmd_encode_param\<close>: the bytes stored; their number is the result.\<close>

definition xbee_cmd_encode_param :: "u32 \<Rightarrow> u8 list" where
  "xbee_cmd_encode_param value =
     (if value AND 0xFFFF0000 \<noteq> 0 then bytes32 value
      else if (ucast value :: u16) AND 0xFF00 \<noteq> 0 then bytes16 (ucast value)
      else [ucast value])"

definition store_param :: "u8 list \<Rightarrow> xbee_cmd_request \<Rightarrow> xbee_cmd_request" where
  "store_param bytes r = r\<lparr>rq_param := bytes @ drop (length bytes) (rq_param r), rq_param_length := of_nat (length bytes)\<rparr>"

definition xbee_cmd_set_param :: "int \<Rightarrow> u32 \<Rightarrow> ('p, 'w) at_state \<Rightarrow> (errno + int) \<times> ('p, 'w) at_state" where
  "xbee_cmd_set_param handle value = on_request handle (store_param (xbee_cmd_encode_param value))"

definition xbee_cmd_set_param_bytes ::
    "int \<Rightarrow> u8 list \<Rightarrow> u8 \<Rightarrow> ('p, 'w) at_state \<Rightarrow> (errno + int) \<times> ('p, 'w) at_state" where
  "xbee_cmd_set_param_bytes handle data len s =
     (if unat len > XBEE_CMD_MAX_PARAM_LENGTH then (Inl EMSGSIZE, s)
      else on_request handle (store_param (take (unat len) data)) s)"

text \<open>The characters of the string, without its terminator.\<close>

definition xbee_cmd_set_param_str ::
    "int \<Rightarrow> u8 list \<Rightarrow> ('p, 'w) at_state \<Rightarrow> (errno + int) \<times> ('p, 'w) at_state" where
  "xbee_cmd_set_param_str handle str s =
     (if length str > XBEE_CMD_MAX_PARAM_LENGTH then (Inl EMSGSIZE, s)
      else xbee_cmd_set_param_bytes handle str (of_nat (length str)) s)"

section \<open>Sending a request\<close>

text \<open>\<open>xbee_next_frame_id\<close> and \<open>xbee_frame_write\<close> for the device a pointer names.\<close>

definition dev_next_frame_id :: "nat option \<Rightarrow> ('p, 'w) at_state \<Rightarrow> u8 \<times> ('p, 'w) at_state" where
  "dev_next_frame_id device s =
     (case device of
        None \<Rightarrow> (fst (xbee_next_frame_id (None :: 'p xbee_dev option)), s)
      | Some d \<Rightarrow>
          (case xbee_next_frame_id (Some (as_dev s d)) of (i, x) \<Rightarrow> (i, update_dev d (\<lambda>_. the x) s)))"

definition dev_frame_write ::
    "nat option \<Rightarrow> u8 list \<Rightarrow> u8 list option \<Rightarrow> u16 \<Rightarrow> ('p, 'w) at_state \<Rightarrow> (errno + int) \<times> ('p, 'w) at_state" where
  "dev_frame_write device header data datalen s =
     (case device of
        None \<Rightarrow> (fst (xbee_frame_write (None :: 'p xbee_dev option) (Some header) (of_nat (length header)) data datalen 0), s)
      | Some d \<Rightarrow>
          (case xbee_frame_write (Some (as_dev s d)) (Some header) (of_nat (length header)) data datalen 0 of
             (r, x) \<Rightarrow> (r, update_dev d (\<lambda>_. the x) s)))"

text \<open>The packed headers \<open>xbee_header_local_at_req_t\<close> and \<open>xbee_header_remote_at_req_t\<close>.\<close>

definition at_request_header :: "xbee_cmd_request \<Rightarrow> u8 list" where
  "at_request_header r =
     (if rq_flags r AND XBEE_CMD_FLAG_REMOTE \<noteq> 0 then
        [XBEE_FRAME_REMOTE_AT_CMD, rq_frame_id r] @ rq_ieee r @ bytes16 (rq_network r) @
        [if rq_flags r AND XBEE_CMD_FLAG_QUEUE_CHANGE \<noteq> 0 then 0x00 else 0x02] @ bytes16 (rq_command r)
      else
        [if rq_flags r AND XBEE_CMD_FLAG_QUEUE_CHANGE \<noteq> 0 then XBEE_FRAME_LOCAL_AT_CMD_Q else XBEE_FRAME_LOCAL_AT_CMD,
         rq_frame_id r] @ bytes16 (rq_command r))"

text \<open>The choice of the frame identifier, the frame, and what follows.\<close>

definition send_id :: "nat \<Rightarrow> ('p, 'w) at_state \<Rightarrow> ('p, 'w) at_state" where
  "send_id i s =
     (let (frame_id, s') = (if rq_callback (as_table s ! i) = None then (0, s)
                            else dev_next_frame_id (rq_device (as_table s ! i)) s)
      in update_request i (\<lambda>r. r\<lparr>rq_frame_id := frame_id\<rparr>) s')"

definition send_frame :: "nat \<Rightarrow> ('p, 'w) at_state \<Rightarrow> (errno + int) \<times> ('p, 'w) at_state" where
  "send_frame i s =
     (let r = as_table s ! i in
      dev_frame_write (rq_device r) (at_request_header r) (Some (rq_param r)) (ucast (rq_param_length r)) s)"

definition send_done :: "nat \<Rightarrow> ('p, 'w) at_state \<Rightarrow> ('p, 'w) at_state" where
  "send_done i s =
     (let r = as_table s ! i in
      if rq_frame_id r \<noteq> 0 then
        update_request i (\<lambda>r. r\<lparr>rq_timeout := XBEE_SET_TIMEOUT_SEC
          (if rq_flags r AND XBEE_CMD_FLAG_REMOTE \<noteq> 0 then XBEE_CMD_REMOTE_TIMEOUT
           else XBEE_CMD_LOCAL_TIMEOUT) s\<rparr>) s
      else if rq_flags r AND XBEE_CMD_FLAG_REUSE_HANDLE = 0 then snd (xbee_cmd_release_request (Some i) s)
      else s)"

definition xbee_cmd_send :: "int \<Rightarrow> ('p, 'w) at_state \<Rightarrow> (errno + int) \<times> ('p, 'w) at_state" where
  "xbee_cmd_send handle s =
     (case xbee_cmd_handle_to_address handle s of
        None \<Rightarrow> (Inl EINVAL, s)
      | Some i \<Rightarrow>
          let (error, s) = send_frame i (send_id i s)
          in (error, if error = Inr 0 then send_done i s else s))"

end
