(* ===== verification/Xbee_Atcmd_Lists.thy ===== *)
theory Xbee_Atcmd_Lists
  imports Xbee_Atcmd
begin

text \<open>
  AT commands, continued: lists of commands whose responses are stored in an object, the list that
  queries a device, the expiry of requests, the allocation of requests and the handlers of
  responses and modem status frames.

  A result \<open>None\<close> stands for no defined outcome: the nested calls of \<open>xbee_cmd_create\<close> exceed the
  given number, a null pointer is read, or a buffer overflows.
\<close>

section \<open>Command lists\<close>

text \<open>
  The end of a list is an entry with the command 0; \<open>reg_at\<close> is the entry a pointer
  \<open>clc->list + i\<close> names.
\<close>

definition reg_at :: "(nat \<Rightarrow> ('p, 'w) xbee_atcmd_reg list) \<Rightarrow> xbee_command_list_context \<Rightarrow> nat \<Rightarrow> ('p, 'w) xbee_atcmd_reg" where
  "reg_at regs lc i = regs (lc_list lc) ! (lc_first lc + i)"

definition find_end :: "(nat \<Rightarrow> ('p, 'w) xbee_atcmd_reg list) \<Rightarrow> xbee_command_list_context \<Rightarrow> ('p, 'w) xbee_atcmd_reg option" where
  "find_end regs lc = find (\<lambda>reg. ar_command reg = 0) (drop (lc_first lc) (regs (lc_list lc)))"

text \<open>The parameter of the next command.\<close>

definition set_list_param :: "int \<Rightarrow> ('p, 'w) xbee_atcmd_reg \<Rightarrow> nat \<Rightarrow> ('p, 'w) at_state \<Rightarrow> ('p, 'w) at_state" where
  "set_list_param request reg base s =
     (let data = ar_get reg base s in
      case ar_type reg of
        XBEE_CLT_SET_8 \<Rightarrow> snd (xbee_cmd_set_param request (ucast (ar_bytes reg)) s)
      | XBEE_CLT_SET \<Rightarrow> snd (xbee_cmd_set_param_bytes request data (ar_bytes reg) s)
      | XBEE_CLT_SET_STR \<Rightarrow> snd (xbee_cmd_set_param_str request (takeWhile (\<lambda>c. c \<noteq> 0) data) s)
      | XBEE_CLT_SET_BE \<Rightarrow>
          let param = (if ar_bytes reg = 2 then ucast (be16 (data ! 0) (data ! 1))
                       else if ar_bytes reg = 4 then be32 (data ! 0) (data ! 1) (data ! 2) (data ! 3)
                       else ucast (data ! 0)) in
          snd (xbee_cmd_set_param request param s)
      | _ \<Rightarrow> snd (xbee_cmd_set_param_bytes request [] 0 s))"

text \<open>\<open>_xbee_cmd_issue_list\<close>; the response is given by its handle.\<close>

definition xbee_cmd_issue_list ::
    "('p, 'w) at_create \<Rightarrow> (nat \<Rightarrow> ('p, 'w) xbee_atcmd_reg list) \<Rightarrow> nat option \<Rightarrow> nat \<Rightarrow> int option
     \<Rightarrow> ('p, 'w) at_state \<Rightarrow> ((errno + int) \<times> ('p, 'w) at_state) option" where
  "xbee_cmd_issue_list create regs xbee c response s =
     (let reg = reg_at regs (as_lists s c) (unat (lc_index (as_lists s c)));
          issue = (\<lambda>request s.
            let s = snd (xbee_cmd_set_command request (ar_command reg) s)
            in (Inr request, set_list_param request reg (lc_base (as_lists s c)) s)) in
      case response of
        Some handle \<Rightarrow> Some (issue handle s)
      | None \<Rightarrow>
          (case create xbee (Some (ar_command (reg_at regs (as_lists s c) 0))) s of
             None \<Rightarrow> None
           | Some (Inl e, s) \<Rightarrow> Some (Inl e, s)
           | Some (Inr request, s) \<Rightarrow> Some (issue request s)))"

definition xbee_cmd_list_execute ::
    "('p, 'w) at_create \<Rightarrow> (nat \<Rightarrow> ('p, 'w) xbee_atcmd_reg list) \<Rightarrow> nat option \<Rightarrow> nat \<Rightarrow> nat \<Rightarrow> nat \<Rightarrow> nat
     \<Rightarrow> (addr64 \<times> u16) option \<Rightarrow> ('p, 'w) at_state \<Rightarrow> ((errno + int) \<times> ('p, 'w) at_state) option" where
  "xbee_cmd_list_execute create regs xbee c list first base address s =
     (let s = update_list c (\<lambda>_. \<lparr>lc_list = list, lc_first = first, lc_base = base,
                lc_status = XBEE_COMMAND_LIST_RUNNING, lc_index = 0\<rparr>) s in
      case xbee_cmd_issue_list create regs xbee c None s of
        None \<Rightarrow> None
      | Some (Inl e, s) \<Rightarrow> Some (Inl e, s)
      | Some (Inr request, s) \<Rightarrow>
          let s = (case address of
                     Some (ieee, network) \<Rightarrow> snd (xbee_cmd_set_target request (Some ieee) network s)
                   | None \<Rightarrow> s);
              (error, s) = xbee_cmd_set_callback request (Some 0) c s
          in Some (if error \<noteq> Inr 0 then (error, s) else xbee_cmd_send request s))"

definition call_reg ::
    "('p, 'w) xbee_atcmd_reg \<Rightarrow> xbee_cmd_response \<Rightarrow> bool \<Rightarrow> nat \<Rightarrow> ('p, 'w) at_state \<Rightarrow> ('p, 'w) at_state option" where
  "call_reg reg response has_reg base s =
     (case ar_callback reg of None \<Rightarrow> Some s | Some f \<Rightarrow> f response has_reg base s)"

text \<open>The value of a successful response, stored as the entry says.\<close>

definition store_response ::
    "('p, 'w) xbee_atcmd_reg \<Rightarrow> xbee_cmd_response \<Rightarrow> nat \<Rightarrow> ('p, 'w) at_state \<Rightarrow> ('p, 'w) at_state" where
  "store_response reg response base s =
     (case ar_type reg of
        XBEE_CLT_COPY \<Rightarrow>
          let n = min (unat (re_value_length response)) (unat (ar_bytes reg))
          in ar_put reg base (take n (re_value_bytes response) @ replicate (unat (ar_bytes reg) - n) 0) s
      | XBEE_CLT_COPY_BE \<Rightarrow>
          if ar_bytes reg = 1 then ar_put reg base [ucast (re_value response)] s
          else if ar_bytes reg = 2 then ar_put reg base (bytes16 (ucast (re_value response))) s
          else if ar_bytes reg = 4 then ar_put reg base (bytes32 (re_value response)) s
          else s
      | _ \<Rightarrow> s)"

text \<open>\<open>_xbee_cmd_list_callback\<close>, whose context is the number of the list context.\<close>

definition xbee_cmd_list_callback ::
    "('p, 'w) at_create \<Rightarrow> (nat \<Rightarrow> ('p, 'w) xbee_atcmd_reg list) \<Rightarrow> xbee_cmd_response
     \<Rightarrow> ('p, 'w) at_state \<Rightarrow> (int \<times> ('p, 'w) at_state) option" where
  "xbee_cmd_list_callback create regs response s =
     (let c = re_context response;
          base = lc_base (as_lists s c);
          set_status = (\<lambda>st. update_list c (\<lambda>lc. lc\<lparr>lc_status := st\<rparr>));
          return = (\<lambda>v. map_option (Pair v)) in
      if re_flags response AND XBEE_CMD_RESP_FLAG_TIMEOUT \<noteq> 0 then
        let s = set_status XBEE_COMMAND_LIST_TIMEOUT s in
        return XBEE_ATCMD_DONE
          (case find_end regs (as_lists s c) of Some reg \<Rightarrow> call_reg reg response True base s | None \<Rightarrow> Some s)
      else
        let reg = reg_at regs (as_lists s c) (unat (lc_index (as_lists s c))) in
        if re_command response = ar_command reg then
          let s = (if re_flags response AND XBEE_CMD_RESP_MASK_STATUS = XBEE_AT_RESP_SUCCESS
                   then store_response reg response base s else s) in
          case call_reg reg response True base s of
            None \<Rightarrow> None
          | Some s \<Rightarrow>
              let s = update_list c (\<lambda>lc. lc\<lparr>lc_index := lc_index lc + 1\<rparr>) s;
                  reg = reg_at regs (as_lists s c) (unat (lc_index (as_lists s c)));
                  finish = (\<lambda>s. return XBEE_ATCMD_DONE
                    (call_reg reg response True base (set_status XBEE_COMMAND_LIST_DONE s))) in
              if ar_command reg \<noteq> 0 then
                (case xbee_cmd_issue_list create regs (Some (re_device response)) c (Some (re_handle response)) s of
                   None \<Rightarrow> None
                 | Some (_, s) \<Rightarrow>
                     let s = snd (xbee_cmd_send (re_handle response) s) in
                     if ar_type reg = XBEE_CLT_LAST
                     then finish (snd (xbee_cmd_release_handle (re_handle response) s))
                     else Some (XBEE_ATCMD_REUSE, s))
              else finish s
        else
          return XBEE_ATCMD_DONE (call_reg reg response False base (set_status XBEE_COMMAND_LIST_ERROR s)))"

section \<open>Querying a device\<close>

definition response_ok :: "xbee_cmd_response \<Rightarrow> bool" where
  "response_ok response \<longleftrightarrow> re_flags response AND XBEE_CMD_RESP_MASK_STATUS = XBEE_AT_RESP_SUCCESS"

definition xbee_cmd_query_handle_eo :: "xbee_cmd_response \<Rightarrow> nat \<Rightarrow> ('p, 'w) at_state \<Rightarrow> ('p, 'w) at_state" where
  "xbee_cmd_query_handle_eo response base s =
     (if response_ok response then
        update_dev base (\<lambda>d. d\<lparr>xd_wpan_flags :=
          (if re_value response AND XBEE_CMD_ATEO_USE_AUTHENTICATION \<noteq> 0
           then xd_wpan_flags d OR WPAN_FLAG_AUTHENTICATION_ENABLED
           else xd_wpan_flags d AND NOT WPAN_FLAG_AUTHENTICATION_ENABLED)\<rparr>) s
      else s)"

definition xbee_cmd_query_handle_ai :: "xbee_cmd_response \<Rightarrow> nat \<Rightarrow> ('p, 'w) at_state \<Rightarrow> ('p, 'w) at_state" where
  "xbee_cmd_query_handle_ai response base s =
     (if response_ok response \<and> re_value response = 0 then
        update_dev base (\<lambda>d.
          let flags = xd_wpan_flags d OR WPAN_FLAG_JOINED
          in d\<lparr>xd_wpan_flags := (if flags AND WPAN_FLAG_AUTHENTICATION_ENABLED \<noteq> 0
                then flags OR WPAN_FLAG_AUTHENTICATED else flags)\<rparr>) s
      else s)"

definition set_dev_flags :: "nat \<Rightarrow> u16 \<Rightarrow> ('p, 'w) at_state \<Rightarrow> ('p, 'w) at_state" where
  "set_dev_flags d flags = update_dev d (\<lambda>x. x\<lparr>xd_flags := xd_flags x OR flags\<rparr>)"

definition clear_dev_flags :: "nat \<Rightarrow> u16 \<Rightarrow> ('p, 'w) at_state \<Rightarrow> ('p, 'w) at_state" where
  "clear_dev_flags d flags = update_dev d (\<lambda>x. x\<lparr>xd_flags := xd_flags x AND NOT flags\<rparr>)"

abbreviation dev_flag :: "nat \<Rightarrow> u16 \<Rightarrow> ('p, 'w) at_state \<Rightarrow> bool" where
  "dev_flag d flag s \<equiv> xd_flags (as_dev s d) AND flag \<noteq> 0"

abbreviation XBEE_ATCMD_REG_REFRESH_IDX :: nat where "XBEE_ATCMD_REG_REFRESH_IDX \<equiv> 6"

text \<open>\<open>xbee_cmd_query_device\<close>; list 0 is \<open>_xbee_atcmd_query_regs\<close>.\<close>

definition xbee_cmd_query_device ::
    "('p, 'w) at_create \<Rightarrow> (nat \<Rightarrow> ('p, 'w) xbee_atcmd_reg list) \<Rightarrow> nat option \<Rightarrow> bool
     \<Rightarrow> ('p, 'w) at_state \<Rightarrow> ((errno + int) \<times> ('p, 'w) at_state) option" where
  "xbee_cmd_query_device create regs xbee refresh s =
     (case xbee of
        None \<Rightarrow> Some (Inl EINVAL, s)
      | Some d \<Rightarrow>
          let s = (if refresh then set_dev_flags d XBEE_DEV_FLAG_QUERY_REFRESH s else s) in
          if dev_flag d XBEE_DEV_FLAG_QUERY_INPROGRESS s then Some (Inr 0, s)
          else
            (case xbee_cmd_list_execute create regs xbee 0 0
                    (if refresh then XBEE_ATCMD_REG_REFRESH_IDX else 0) d None s of
               None \<Rightarrow> None
             | Some (error, s) \<Rightarrow>
                 Some (error,
                   if error = Inr 0 then
                     clear_dev_flags d (XBEE_DEV_FLAG_QUERY_ERROR OR XBEE_DEV_FLAG_QUERY_DONE OR XBEE_DEV_FLAG_QUERY_REFRESH)
                       (set_dev_flags d (XBEE_DEV_FLAG_QUERY_BEGIN OR XBEE_DEV_FLAG_QUERY_INPROGRESS) s)
                   else s)))"

text \<open>
  \<open>_xbee_cmd_query_handle_end\<close>.  It queries the device again with the same lists.
\<close>

definition xbee_cmd_query_handle_end ::
    "('p, 'w) at_create \<Rightarrow> (nat \<Rightarrow> ('p, 'w) xbee_atcmd_reg list) \<Rightarrow> xbee_cmd_response \<Rightarrow> bool \<Rightarrow> nat
     \<Rightarrow> ('p, 'w) at_state \<Rightarrow> ('p, 'w) at_state option" where
  "xbee_cmd_query_handle_end create regs response has_reg d s =
     (let s = clear_dev_flags d XBEE_DEV_FLAG_QUERY_INPROGRESS s;
          s = set_dev_flags d
                (if \<not> has_reg then XBEE_DEV_FLAG_QUERY_ERROR
                 else if re_flags response AND XBEE_CMD_RESP_FLAG_TIMEOUT \<noteq> 0 then XBEE_DEV_FLAG_QUERY_ERROR
                 else XBEE_DEV_FLAG_QUERY_DONE) s;
          s = (if dev_flag d XBEE_DEV_FLAG_QUERY_ERROR s
                  \<and> xd_wpan_flags (as_dev s d) AND WPAN_FLAG_JOINED \<noteq> 0
                  \<and> xd_network (as_dev s d) = WPAN_NET_ADDR_UNDEFINED
               then set_dev_flags d XBEE_DEV_FLAG_QUERY_REFRESH s else s)
      in if dev_flag d XBEE_DEV_FLAG_QUERY_REFRESH s
         then map_option snd (xbee_cmd_query_device create regs (Some d) True s)
         else Some s)"

text \<open>
  \<open>_xbee_atcmd_query_regs\<close>, whose object is the device; \<open>fin\<close> is the callback at its end.  The
  callback at the end reads the commands of the list only.
\<close>

definition reg_copy ::
    "char \<Rightarrow> char \<Rightarrow> xbee_command_list_type \<Rightarrow> u8 \<Rightarrow> (u8 list \<Rightarrow> 'p xbee_dev \<Rightarrow> 'p xbee_dev) \<Rightarrow> ('p, 'w) xbee_atcmd_reg" where
  "reg_copy c1 c2 type bytes put =
     \<lparr>ar_command = at_cmd c1 c2, ar_flags = 0, ar_type = type, ar_callback = None, ar_bytes = bytes,
      ar_get = (\<lambda>_ _. []), ar_put = (\<lambda>base data. update_dev base (put data))\<rparr>"

definition reg_cb ::
    "u16 \<Rightarrow> (xbee_cmd_response \<Rightarrow> bool \<Rightarrow> nat \<Rightarrow> ('p, 'w) at_state \<Rightarrow> ('p, 'w) at_state option) \<Rightarrow> ('p, 'w) xbee_atcmd_reg" where
  "reg_cb command f =
     \<lparr>ar_command = command, ar_flags = 0, ar_type = XBEE_CLT_NONE, ar_callback = Some f, ar_bytes = 0,
      ar_get = (\<lambda>_ _. []), ar_put = (\<lambda>_ _ s. s)\<rparr>"

definition word_of_bytes16 :: "u8 list \<Rightarrow> u16" where
  "word_of_bytes16 data = be16 (data ! 0) (data ! 1)"

definition word_of_bytes32 :: "u8 list \<Rightarrow> u32" where
  "word_of_bytes32 data = be32 (data ! 0) (data ! 1) (data ! 2) (data ! 3)"

definition query_regs_with ::
    "(xbee_cmd_response \<Rightarrow> bool \<Rightarrow> nat \<Rightarrow> ('p, 'w) at_state \<Rightarrow> ('p, 'w) at_state option) \<Rightarrow> ('p, 'w) xbee_atcmd_reg list" where
  "query_regs_with fin =
     [reg_copy CHR ''H'' CHR ''V'' XBEE_CLT_COPY_BE 2 (\<lambda>data x. x\<lparr>xd_hardware_version := word_of_bytes16 data\<rparr>),
      reg_copy CHR ''V'' CHR ''R'' XBEE_CLT_COPY_BE 4 (\<lambda>data x. x\<lparr>xd_firmware_version := word_of_bytes32 data\<rparr>),
      reg_copy CHR ''S'' CHR ''H'' XBEE_CLT_COPY 4 (\<lambda>data x. x\<lparr>xd_ieee := take 4 data @ drop 4 (xd_ieee x)\<rparr>),
      reg_copy CHR ''S'' CHR ''L'' XBEE_CLT_COPY 4 (\<lambda>data x. x\<lparr>xd_ieee := take 4 (xd_ieee x) @ take 4 data\<rparr>),
      reg_cb (at_cmd CHR ''E'' CHR ''O'') (\<lambda>response _ base s. Some (xbee_cmd_query_handle_eo response base s)),
      reg_cb (at_cmd CHR ''A'' CHR ''I'') (\<lambda>response _ base s. Some (xbee_cmd_query_handle_ai response base s)),
      reg_copy CHR ''N'' CHR ''P'' XBEE_CLT_COPY_BE 2 (\<lambda>data x. x\<lparr>xd_payload := word_of_bytes16 data\<rparr>),
      reg_copy CHR ''M'' CHR ''Y'' XBEE_CLT_COPY_BE 2 (\<lambda>data x. x\<lparr>xd_network := word_of_bytes16 data\<rparr>),
      reg_cb 0 fin]"

definition command_regs :: "('p, 'w) at_env \<Rightarrow> nat \<Rightarrow> ('p, 'w) xbee_atcmd_reg list" where
  "command_regs env n = (if n = 0 then query_regs_with (\<lambda>_ _ _. Some) else ae_list env n)"

definition xbee_atcmd_query_regs :: "('p, 'w) at_env \<Rightarrow> ('p, 'w) at_create \<Rightarrow> ('p, 'w) xbee_atcmd_reg list" where
  "xbee_atcmd_query_regs env create = query_regs_with (xbee_cmd_query_handle_end create (command_regs env))"

definition at_regs :: "('p, 'w) at_env \<Rightarrow> ('p, 'w) at_create \<Rightarrow> nat \<Rightarrow> ('p, 'w) xbee_atcmd_reg list" where
  "at_regs env create n = (if n = 0 then xbee_atcmd_query_regs env create else ae_list env n)"

definition xbee_cmd_init_device ::
    "('p, 'w) at_env \<Rightarrow> ('p, 'w) at_create \<Rightarrow> nat option \<Rightarrow> ('p, 'w) at_state
     \<Rightarrow> ((errno + int) \<times> ('p, 'w) at_state) option" where
  "xbee_cmd_init_device env create xbee s =
     (case xbee of
        None \<Rightarrow> Some (Inl EINVAL, s)
      | Some d \<Rightarrow>
          if dev_flag d XBEE_DEV_FLAG_CMD_INIT s then Some (Inr 0, s)
          else
            let s = set_dev_flags d XBEE_DEV_FLAG_CMD_INIT s in
            if \<not> dev_flag d XBEE_DEV_FLAG_QUERY_BEGIN s
            then xbee_cmd_query_device create (at_regs env create) xbee False s
            else Some (Inr 0, s))"

section \<open>Expiry\<close>

definition call_callback ::
    "('p, 'w) at_env \<Rightarrow> ('p, 'w) at_create \<Rightarrow> nat \<Rightarrow> xbee_cmd_response \<Rightarrow> ('p, 'w) at_state
     \<Rightarrow> (int \<times> ('p, 'w) at_state) option" where
  "call_callback env create f response s =
     (if f = 0 then xbee_cmd_list_callback create (at_regs env create) response s
      else Some (ae_callback env f response s))"

definition expired_response :: "nat \<Rightarrow> nat \<Rightarrow> ('p, 'w) at_state \<Rightarrow> xbee_cmd_response" where
  "expired_response d i s =
     \<lparr>re_device = d, re_context = rq_context (as_table s ! i), re_handle = request_handle i s,
      re_command = rq_command (as_table s ! i),
      re_flags = XBEE_CMD_RESP_FLAG_TIMEOUT OR XBEE_CMD_RESP_MASK_STATUS,
      re_value_length = 0, re_value_bytes = [], re_value = 0, re_source = None\<rparr>"

text \<open>One request of the table; the number counts the expired requests.\<close>

definition tick_request ::
    "('p, 'w) at_env \<Rightarrow> ('p, 'w) at_create \<Rightarrow> nat \<Rightarrow> nat \<times> ('p, 'w) at_state \<Rightarrow> (nat \<times> ('p, 'w) at_state) option" where
  "tick_request env create i = (\<lambda>(count, s).
     (let r = as_table s ! i in
      case rq_device r of
        None \<Rightarrow> Some (count, s)
      | Some d \<Rightarrow>
          if XBEE_CHECK_TIMEOUT_SEC (rq_timeout r) s then
            (case (case rq_callback r of
                     None \<Rightarrow> Some (XBEE_ATCMD_DONE, s)
                   | Some f \<Rightarrow> call_callback env create f (expired_response d i s) s) of
               None \<Rightarrow> None
             | Some (reuse, s) \<Rightarrow>
                 if reuse \<noteq> XBEE_ATCMD_REUSE then
                   (case rq_device (as_table s ! i) of
                      None \<Rightarrow> None
                    | Some device \<Rightarrow>
                        let s = snd (xbee_cmd_release_request (Some i) s) in
                        if dev_flag device XBEE_DEV_FLAG_QUERY_REFRESH s
                        then map_option (\<lambda>(_, s). (count + 1, s))
                               (xbee_cmd_query_device create (at_regs env create) (Some device) True s)
                        else Some (count + 1, s))
                 else Some (count + 1, s))
          else Some (count, s)))"

definition xbee_cmd_tick ::
    "('p, 'w) at_env \<Rightarrow> ('p, 'w) at_create \<Rightarrow> ('p, 'w) at_state \<Rightarrow> (nat \<times> ('p, 'w) at_state) option" where
  "xbee_cmd_tick env create s =
     (let now = ucast (as_seconds s) in
      if as_last_time s = now then Some (0, s)
      else Option.bind (tick_request env create 0 (0, s\<lparr>as_last_time := now\<rparr>)) (tick_request env create 1))"

definition xbee_cmd_query_status ::
    "('p, 'w) at_env \<Rightarrow> ('p, 'w) at_create \<Rightarrow> nat option \<Rightarrow> ('p, 'w) at_state
     \<Rightarrow> ((errno + xbee_command_list_status) \<times> ('p, 'w) at_state) option" where
  "xbee_cmd_query_status env create xbee s =
     (case xbee of
        None \<Rightarrow> Some (Inl EINVAL, s)
      | Some d \<Rightarrow> map_option (\<lambda>(_, s). (Inr (lc_status (as_lists s 0)), s)) (xbee_cmd_tick env create s))"

section \<open>Allocating a request\<close>

definition free_slot :: "xbee_cmd_request list \<Rightarrow> nat option" where
  "free_slot table = find (\<lambda>i. rq_device (table ! i) = None) [0..<XBEE_CMD_REQUEST_TABLESIZE]"

definition create_step ::
    "('p, 'w) at_env \<Rightarrow> ('p, 'w) at_create \<Rightarrow> ('p, 'w) at_create" where
  "create_step env create xbee command s =
     (case (xbee, command) of
        (Some d, Some cmd) \<Rightarrow>
          let s = (if as_initialized s = 0
                   then s\<lparr>as_initialized := 1, as_table := replicate XBEE_CMD_REQUEST_TABLESIZE request_zero\<rparr> else s) in
          (case (if \<not> dev_flag d XBEE_DEV_FLAG_CMD_INIT s
                 then map_option snd (xbee_cmd_init_device env create xbee s) else Some s) of
             None \<Rightarrow> None
           | Some s \<Rightarrow>
               (case free_slot (as_table s) of
                  Some i \<Rightarrow>
                    Some (Inr (request_handle i s),
                      update_request i (\<lambda>r. request_zero\<lparr>rq_sequence := rq_sequence r, rq_device := Some d,
                        rq_timeout := XBEE_SET_TIMEOUT_SEC 2 s, rq_command := cmd\<rparr>) s)
                | None \<Rightarrow>
                    if as_initialized s \<noteq> 2 then
                      (case xbee_cmd_tick env create (s\<lparr>as_initialized := 2\<rparr>) of
                         None \<Rightarrow> None
                       | Some (_, s) \<Rightarrow>
                           map_option (\<lambda>(handle, s). (handle, s\<lparr>as_initialized := 1\<rparr>)) (create xbee command s))
                    else Some (Inl ENOSPC, s)))
      | _ \<Rightarrow> Some (Inl EINVAL, s))"

text \<open>\<open>xbee_cmd_create\<close> with at most \<open>n\<close> nested calls.\<close>

primrec xbee_cmd_create :: "('p, 'w) at_env \<Rightarrow> nat \<Rightarrow> ('p, 'w) at_create" where
  "xbee_cmd_create env 0 = (\<lambda>_ _ _. None)"
| "xbee_cmd_create env (Suc n) = create_step env (xbee_cmd_create env n)"

declare xbee_cmd_create.simps(2) [simp del]
lemmas create_Suc = xbee_cmd_create.simps(2)

section \<open>Responses\<close>

text \<open>
  A frame is given by the bytes from its start on; the value of a response starts at byte 5 of a
  local and byte 15 of a remote response, and its length is 8 bits wide.
\<close>

definition response_value :: "u8 list \<Rightarrow> u8 \<Rightarrow> u32" where
  "response_value bytes n =
     (if n = 0 then 0
      else if n = 1 then ucast (bytes ! 0)
      else if n = 2 then ucast (be16 (bytes ! 0) (bytes ! 1))
      else if n = 4 then be32 (bytes ! 0) (bytes ! 1) (bytes ! 2) (bytes ! 3)
      else 0xFFFFFFFF)"

text \<open>
  What the handler writes into \<open>buffer[100]\<close> for a response that matches no request, without the
  terminating zero.
\<close>

definition hex_digit :: "u8 \<Rightarrow> char" where
  "hex_digit n = ''0123456789abcdef'' ! unat n"

definition response_dump :: "u8 list \<Rightarrow> u8 \<Rightarrow> string" where
  "response_dump bytes n =
     '' = 0x'' @ concat (map (\<lambda>i. [hex_digit (drop_bit 4 (bytes ! i)), hex_digit (bytes ! i AND 0x0F)]) [0..<unat n])"

record at_response_frame =
  af_local :: bool
  af_id :: u8
  af_command :: u16
  af_status :: u8
  af_value :: "u8 list"
  af_length :: u8
  af_source :: "(addr64 \<times> u16) option"

definition at_response_fields :: "u8 list \<Rightarrow> u16 \<Rightarrow> at_response_frame option" where
  "at_response_fields frame n =
     (if frame ! 0 = XBEE_FRAME_LOCAL_AT_RESPONSE then
        Some \<lparr>af_local = True, af_id = frame ! 1, af_command = be16 (frame ! 2) (frame ! 3), af_status = frame ! 4,
              af_value = drop 5 frame, af_length = ucast (n - 5), af_source = None\<rparr>
      else if frame ! 0 = XBEE_FRAME_REMOTE_AT_RESPONSE then
        Some \<lparr>af_local = False, af_id = frame ! 1, af_command = be16 (frame ! 12) (frame ! 13), af_status = frame ! 14,
              af_value = drop 15 frame, af_length = ucast (n - 15),
              af_source = Some (take 8 (drop 2 frame), be16 (frame ! 10) (frame ! 11))\<rparr>
      else None)"

definition matches_request :: "nat \<Rightarrow> at_response_frame \<Rightarrow> xbee_cmd_request \<Rightarrow> bool" where
  "matches_request d f r \<longleftrightarrow>
     rq_device r = Some d \<and> rq_frame_id r = af_id f \<and>
     af_local f = (rq_flags r AND XBEE_CMD_FLAG_REMOTE = 0) \<and> rq_command r = af_command f"

definition find_request :: "nat \<Rightarrow> at_response_frame \<Rightarrow> xbee_cmd_request list \<Rightarrow> nat option" where
  "find_request d f table = find (\<lambda>i. matches_request d f (table ! i)) [0..<XBEE_CMD_REQUEST_TABLESIZE]"

definition build_response :: "nat \<Rightarrow> at_response_frame \<Rightarrow> nat \<Rightarrow> ('p, 'w) at_state \<Rightarrow> xbee_cmd_response" where
  "build_response d f i s =
     \<lparr>re_device = d, re_context = rq_context (as_table s ! i), re_handle = request_handle i s,
      re_command = rq_command (as_table s ! i), re_flags = ucast (af_status f),
      re_value_length = af_length f, re_value_bytes = af_value f,
      re_value = response_value (af_value f) (af_length f), re_source = af_source f\<rparr>"

text \<open>\<open>_xbee_cmd_handle_response\<close>; its result is 0 or \<open>EINVAL\<close>.\<close>

definition xbee_cmd_handle_response ::
    "('p, 'w) at_env \<Rightarrow> ('p, 'w) at_create \<Rightarrow> nat \<Rightarrow> u8 list option \<Rightarrow> u16 \<Rightarrow> ('p, 'w) at_state
     \<Rightarrow> ((errno + int) \<times> ('p, 'w) at_state) option" where
  "xbee_cmd_handle_response env create xbee frame n s =
     (case Option.bind frame (\<lambda>f. at_response_fields f n) of
        None \<Rightarrow> Some (Inl EINVAL, s)
      | Some f \<Rightarrow>
          (case find_request xbee f (as_table s) of
             None \<Rightarrow>
               if af_length f = 0 \<or> length (response_dump (af_value f) (af_length f)) < 100
               then Some (Inr 0, s) else None
           | Some i \<Rightarrow>
               (case rq_callback (as_table s ! i) of
                  None \<Rightarrow> Some (Inr 0, snd (xbee_cmd_release_request (Some i) s))
                | Some cb \<Rightarrow>
                    map_option (\<lambda>(reuse, s).
                      (Inr 0,
                       if reuse = XBEE_ATCMD_REUSE
                       then update_request i (\<lambda>r. r\<lparr>rq_timeout := XBEE_SET_TIMEOUT_SEC 5 s\<rparr>) s
                       else snd (xbee_cmd_release_request (Some i) s)))
                    (call_callback env create cb (build_response xbee f i s) s))))"

text \<open>\<open>_xbee_cmd_modem_status\<close>: the status is the byte after the frame type.\<close>

definition xbee_cmd_modem_status ::
    "('p, 'w) at_env \<Rightarrow> ('p, 'w) at_create \<Rightarrow> nat \<Rightarrow> u8 list option \<Rightarrow> ('p, 'w) at_state
     \<Rightarrow> ((errno + int) \<times> ('p, 'w) at_state) option" where
  "xbee_cmd_modem_status env create xbee payload s =
     (case payload of
        None \<Rightarrow> Some (Inl EINVAL, s)
      | Some frame \<Rightarrow>
          let status = frame ! 1 in
          if status = XBEE_MODEM_STATUS_KEY_ESTABLISHED \<or> status = XBEE_MODEM_STATUS_JOINED
             \<or> status = XBEE_MODEM_STATUS_COORD_START
          then map_option (\<lambda>(_, s). (Inr 0, s)) (xbee_cmd_query_device create (at_regs env create) (Some xbee) True s)
          else Some (Inr 0, s))"

section \<open>Commands without a request\<close>

definition xbee_cmd_simple ::
    "nat option \<Rightarrow> u16 \<Rightarrow> u32 \<Rightarrow> ('p, 'w) at_state \<Rightarrow> (errno + int) \<times> ('p, 'w) at_state" where
  "xbee_cmd_simple xbee command value =
     dev_frame_write xbee ([XBEE_FRAME_LOCAL_AT_CMD, 0] @ bytes16 command @ xbee_cmd_encode_param value) None 0"

definition xbee_cmd_execute ::
    "nat option \<Rightarrow> u16 \<Rightarrow> u8 list option \<Rightarrow> u8 \<Rightarrow> ('p, 'w) at_state \<Rightarrow> (errno + int) \<times> ('p, 'w) at_state" where
  "xbee_cmd_execute xbee command data len s =
     (let (frame_id, s) = dev_next_frame_id xbee s in
      dev_frame_write xbee ([XBEE_FRAME_LOCAL_AT_CMD, frame_id] @ bytes16 command) data (ucast len) s)"

definition xbee_identify :: "nat option \<Rightarrow> u8 \<Rightarrow> ('p, 'w) at_state \<Rightarrow> ('p, 'w) at_state" where
  "xbee_identify xbee identify s =
     (if identify \<noteq> as_last_id s
      then snd (xbee_cmd_simple xbee (at_cmd CHR ''L'' CHR ''T'') (if identify \<noteq> 0 then 10 else 0) (s\<lparr>as_last_id := identify\<rparr>))
      else s)"

end
