(* ===== verification/Xbee_Atcmd_Calls.thy ===== *)
theory Xbee_Atcmd_Calls
  imports Xbee_Atcmd_Lists
begin

text \<open>
  The functions on the table of requests call each other through callbacks.  What each of them keeps
  of the table, and that they return: the contract of \<open>xbee_cmd_create\<close> is the locale \<open>at_creates\<close>,
  what they rely on from the application the locale \<open>at_application\<close>.
\<close>

lemma encode_param_length: "length (xbee_cmd_encode_param v) \<in> {1, 2, 4}"
  by (simp add: xbee_cmd_encode_param_def)

section \<open>What the operations keep\<close>

text \<open>
  The table has its two entries, each with a parameter buffer of 48 bytes of which at most 48 are
  used, and no request is outstanding before the first call of \<open>xbee_cmd_create\<close>.
\<close>

definition busy :: "nat \<Rightarrow> ('p, 'w) at_state \<Rightarrow> bool" where
  "busy i s \<longleftrightarrow> rq_device (as_table s ! i) \<noteq> None"

definition request_wf :: "xbee_cmd_request \<Rightarrow> bool" where
  "request_wf r \<longleftrightarrow> length (rq_param r) = 48 \<and> unat (rq_param_length r) \<le> 48"

definition at_wf :: "('p, 'w) at_state \<Rightarrow> bool" where
  "at_wf s \<longleftrightarrow> length (as_table s) = 2 \<and> request_wf (as_table s ! 0) \<and> request_wf (as_table s ! 1) \<and>
     (as_initialized s = 0 \<longrightarrow> \<not> busy 0 s \<and> \<not> busy 1 s)"

definition all_init :: "('p, 'w) at_state \<Rightarrow> bool" where
  "all_init s \<longleftrightarrow> (\<forall>d. dev_flag d XBEE_DEV_FLAG_CMD_INIT s)"

text \<open>
  A step keeps well-formedness, the registered devices, the mark of nested calls, and the time of
  the last expiry within one second.
\<close>

definition at_step :: "('p, 'w) at_state \<Rightarrow> ('p, 'w) at_state \<Rightarrow> bool" where
  "at_step s s' \<longleftrightarrow> (at_wf s \<longrightarrow> at_wf s' \<and>
     (\<forall>d. dev_flag d XBEE_DEV_FLAG_CMD_INIT s \<longrightarrow> dev_flag d XBEE_DEV_FLAG_CMD_INIT s') \<and>
     (as_initialized s' = 2 \<longleftrightarrow> as_initialized s = 2) \<and> (as_initialized s \<noteq> 0 \<longrightarrow> as_initialized s' \<noteq> 0) \<and>
     as_seconds s' = as_seconds s \<and>
     (as_last_time s = ucast (as_seconds s) \<longrightarrow> as_last_time s' = ucast (as_seconds s)))"

text \<open>A step that releases no request: the sequence numbers stay too.\<close>

definition same_sequences :: "('p, 'w) at_state \<Rightarrow> ('p, 'w) at_state \<Rightarrow> bool" where
  "same_sequences s s' \<longleftrightarrow> rq_sequence (as_table s' ! 0) = rq_sequence (as_table s ! 0) \<and>
     rq_sequence (as_table s' ! 1) = rq_sequence (as_table s ! 1)"


definition at_keep :: "('p, 'w) at_state \<Rightarrow> ('p, 'w) at_state \<Rightarrow> bool" where
  "at_keep s s' \<longleftrightarrow> at_step s s' \<and> (at_wf s \<longrightarrow> (busy 0 s \<longrightarrow> busy 0 s') \<and> (busy 1 s \<longrightarrow> busy 1 s') \<and>
     (as_initialized s \<noteq> 0 \<longrightarrow> same_sequences s s'))"

definition nested :: "('p, 'w) at_state \<Rightarrow> bool" where
  "nested s \<longleftrightarrow> at_wf s \<and> all_init s \<and> (as_initialized s = 2 \<or> as_last_time s = ucast (as_seconds s))"

lemma at_step_refl: "at_step s s"
  by (simp add: at_step_def)

lemma at_step_trans [trans]: "at_step s t \<Longrightarrow> at_step t u \<Longrightarrow> at_step s u"
  by (auto simp: at_step_def)

lemma at_keep_refl: "at_keep s s"
  by (simp add: at_keep_def at_step_refl same_sequences_def)

lemma at_keep_trans [trans]: "at_keep s t \<Longrightarrow> at_keep t u \<Longrightarrow> at_keep s u"
  unfolding at_keep_def using at_step_trans [of s t u] by (auto simp: at_step_def same_sequences_def)

lemma at_keep_step: "at_keep s s' \<Longrightarrow> at_step s s'"
  by (simp add: at_keep_def)

lemma at_step_wf: "at_wf s \<Longrightarrow> at_step s s' \<Longrightarrow> at_wf s'"
  by (simp add: at_step_def)

lemma at_step_all_init: "at_wf s \<Longrightarrow> all_init s \<Longrightarrow> at_step s s' \<Longrightarrow> all_init s'"
  by (simp add: at_step_def all_init_def)

lemma nested_step: "nested s \<Longrightarrow> at_step s s' \<Longrightarrow> nested s'"
  unfolding nested_def using at_step_wf at_step_all_init by (auto simp: at_step_def)

subsection \<open>The elementary updates\<close>

lemma less_two_cases: "i < 2 \<Longrightarrow> i = 0 \<or> i = (1 :: nat)"
  by linarith

lemma update_request_nth:
  "length (as_table s) = 2 \<Longrightarrow> i < 2 \<Longrightarrow> as_table (update_request i f s) ! j = (if j = i then f (as_table s ! i) else as_table s ! j)"
  by (simp add: update_request_def nth_list_update)

lemma update_request_step:
  assumes "request_wf (as_table s ! i) \<Longrightarrow> request_wf (f (as_table s ! i))" "i < 2"
    "rq_device (f (as_table s ! i)) = None \<or> busy i s \<or> as_initialized s \<noteq> 0"
  shows "at_step s (update_request i f s)"
  using assms less_two_cases [OF assms(2)]
  by (auto simp: at_step_def at_wf_def busy_def same_sequences_def update_request_def nth_list_update)

lemma update_request_keep:
  assumes "request_wf (as_table s ! i) \<Longrightarrow> request_wf (f (as_table s ! i))" "i < 2"
    "rq_device (f (as_table s ! i)) = rq_device (as_table s ! i)" "rq_sequence (f (as_table s ! i)) = rq_sequence (as_table s ! i)"
  shows "at_keep s (update_request i f s)"
  using assms less_two_cases [OF assms(2)]
  by (auto simp: at_keep_def at_step_def at_wf_def busy_def same_sequences_def update_request_def nth_list_update)

lemma update_dev_keep:
  assumes "\<And>x. xd_flags x AND XBEE_DEV_FLAG_CMD_INIT \<noteq> 0 \<Longrightarrow> xd_flags (f x) AND XBEE_DEV_FLAG_CMD_INIT \<noteq> 0"
  shows "at_keep s (update_dev d f s)"
  using assms by (auto simp: at_keep_def at_step_def at_wf_def busy_def same_sequences_def update_dev_def)

lemma update_list_keep: "at_keep s (update_list c f s)"
  by (simp add: at_keep_def at_step_def at_wf_def busy_def same_sequences_def update_list_def)

lemma flag_bit_0: "(w :: u16) AND 0x0001 \<noteq> 0 \<longleftrightarrow> bit w 0"
  by (simp add: and_one_eq bit_0 odd_iff_mod_2_eq_one)

lemma set_dev_flags_keep: "at_keep s (set_dev_flags d flags s)"
  unfolding set_dev_flags_def
proof (rule update_dev_keep)
  fix x :: "'a xbee_dev"
  show "xd_flags x AND XBEE_DEV_FLAG_CMD_INIT \<noteq> 0 \<Longrightarrow>
    xd_flags (x\<lparr>xd_flags := xd_flags x OR flags\<rparr>) AND XBEE_DEV_FLAG_CMD_INIT \<noteq> 0"
    unfolding flag_bit_0 by (simp add: bit_simps)
qed

lemma clear_dev_flags_keep: "flags AND XBEE_DEV_FLAG_CMD_INIT = 0 \<Longrightarrow> at_keep s (clear_dev_flags d flags s)"
  unfolding clear_dev_flags_def
proof (rule update_dev_keep)
  fix x :: "'a xbee_dev"
  assume "flags AND XBEE_DEV_FLAG_CMD_INIT = 0"
  then have "\<not> bit flags 0" using flag_bit_0 by blast
  then show "xd_flags x AND XBEE_DEV_FLAG_CMD_INIT \<noteq> 0 \<Longrightarrow>
    xd_flags (x\<lparr>xd_flags := xd_flags x AND NOT flags\<rparr>) AND XBEE_DEV_FLAG_CMD_INIT \<noteq> 0"
    unfolding flag_bit_0 by (simp add: bit_simps)
qed

subsection \<open>The operations on a request\<close>

lemma handle_to_address_less: "xbee_cmd_handle_to_address h s = Some i \<Longrightarrow> i < 2"
  by (auto simp: xbee_cmd_handle_to_address_def Let_def split: if_splits)

lemma on_request_keep:
  assumes "\<And>r. request_wf r \<Longrightarrow> request_wf (f r)" "\<And>r. rq_device (f r) = rq_device r" "\<And>r. rq_sequence (f r) = rq_sequence r"
  shows "at_keep s (snd (on_request h f s))"
  using assms handle_to_address_less [of h s]
  by (auto simp: on_request_def at_keep_refl intro!: update_request_keep split: option.splits)

lemma store_param_wf: "length bytes \<le> 48 \<Longrightarrow> request_wf r \<Longrightarrow> request_wf (store_param bytes r)"
  by (simp add: request_wf_def store_param_def unat_of_nat)

lemma store_param_device [simp]: "rq_device (store_param bytes r) = rq_device r" "rq_sequence (store_param bytes r) = rq_sequence r"
  by (simp_all add: store_param_def)

lemma setter_keeps:
  "at_keep s (snd (xbee_cmd_set_command h command s))"
  "at_keep s (snd (xbee_cmd_set_callback h cb ctxt s))"
  "at_keep s (snd (xbee_cmd_set_target h ieee network s))"
  "at_keep s (snd (xbee_cmd_set_flags h flags s))"
  "at_keep s (snd (xbee_cmd_clear_flags h flags s))"
  unfolding xbee_cmd_set_command_def xbee_cmd_set_callback_def xbee_cmd_set_target_def xbee_cmd_set_flags_def
    xbee_cmd_clear_flags_def
  by (rule on_request_keep; simp add: request_wf_def split: option.splits)+

lemma param_keeps:
  "at_keep s (snd (xbee_cmd_set_param h v s))"
  "at_keep s (snd (xbee_cmd_set_param_bytes h data len s))"
  "at_keep s (snd (xbee_cmd_set_param_str h str s))"
proof -
  show "at_keep s (snd (xbee_cmd_set_param h v s))"
    unfolding xbee_cmd_set_param_def using encode_param_length [of v]
    by (intro on_request_keep store_param_wf) auto
  have bytes: "at_keep s (snd (xbee_cmd_set_param_bytes h data len s))" for data len
    unfolding xbee_cmd_set_param_bytes_def
    by (auto simp: at_keep_refl intro!: on_request_keep store_param_wf)
  then show "at_keep s (snd (xbee_cmd_set_param_bytes h data len s))" .
  show "at_keep s (snd (xbee_cmd_set_param_str h str s))"
    unfolding xbee_cmd_set_param_str_def by (simp add: at_keep_refl bytes)
qed

lemma set_list_param_keep: "at_keep s (snd (f, set_list_param h reg base s))"
  by (auto simp: set_list_param_def Let_def param_keeps split: xbee_command_list_type.splits)

lemma release_step: "i < 2 \<Longrightarrow> at_step s (snd (xbee_cmd_release_request (Some i) s))"
  by (auto simp: xbee_cmd_release_request_def request_wf_def intro!: update_request_step)

lemma release_handle_step: "at_step s (snd (xbee_cmd_release_handle h s))"
  unfolding xbee_cmd_release_handle_def
  by (cases "xbee_cmd_handle_to_address h s")
    (simp_all add: xbee_cmd_release_request_def [of None] at_step_refl release_step handle_to_address_less)

subsection \<open>Sending\<close>

lemma ex_snd_if: "(c \<Longrightarrow> \<exists>x. snd a = f x) \<Longrightarrow> (\<not> c \<Longrightarrow> \<exists>x. snd b = f x) \<Longrightarrow> \<exists>x. snd (if c then a else b) = f x"
  by simp

lemma frame_write_stx: "\<exists>tx. snd (xbee_frame_write (Some d) header hl data dl flags) = Some (d\<lparr>xd_stx := tx\<rparr>)"
proof -
  have "Some d = Some (d\<lparr>xd_stx := xd_stx d\<rparr>)" by simp
  then have same: "\<exists>tx. snd (x, Some d) = Some (d\<lparr>xd_stx := tx\<rparr>)" for x :: "errno + int"
    unfolding snd_conv by blast
  show ?thesis
    unfolding xbee_frame_write_def Let_def option.case case_prod_unfold
    by (intro ex_snd_if same) (unfold snd_conv, blast)
qed

lemma dev_frame_write_keep: "at_keep s (snd (dev_frame_write device header data dl s))"
proof (cases device)
  case (Some d)
  obtain tx where "snd (xbee_frame_write (Some (as_dev s d)) (Some header) (of_nat (length header)) data dl 0)
      = Some ((as_dev s d)\<lparr>xd_stx := tx\<rparr>)"
    using frame_write_stx by blast
  then have eq: "snd (dev_frame_write device header data dl s) = update_dev d (\<lambda>_. (as_dev s d)\<lparr>xd_stx := tx\<rparr>) s"
    using Some by (simp add: dev_frame_write_def case_prod_unfold)
  have "update_dev d (\<lambda>_. (as_dev s d)\<lparr>xd_stx := tx\<rparr>) s = update_dev d (\<lambda>x. x\<lparr>xd_stx := tx\<rparr>) s"
    by (simp add: update_dev_def)
  then show ?thesis unfolding eq by (simp add: update_dev_keep)
qed (simp add: dev_frame_write_def at_keep_refl)

lemma dev_next_frame_id_some:
  "dev_next_frame_id (Some d) s =
     (let next = xd_frame_id (as_dev s d) + 1; next = (if next = 0 then 1 else next)
      in (next, update_dev d (\<lambda>x. x\<lparr>xd_frame_id := next\<rparr>) s))"
  by (simp add: dev_next_frame_id_def xbee_next_frame_id_def Let_def update_dev_def)

lemma dev_next_frame_id_keep: "at_keep s (snd (dev_next_frame_id device s))"
  by (cases device) (simp_all add: dev_next_frame_id_some Let_def update_dev_keep,
      simp add: dev_next_frame_id_def at_keep_refl)

lemma send_id_keep: "i < 2 \<Longrightarrow> at_keep s (send_id i s)"
  unfolding send_id_def Let_def case_prod_unfold
  by (rule at_keep_trans [OF _ update_request_keep])
    (simp_all add: at_keep_refl dev_next_frame_id_keep request_wf_def)

lemma send_frame_keep: "at_keep s (snd (send_frame i s))"
  by (simp add: send_frame_def Let_def dev_frame_write_keep)

lemma send_done_step: "i < 2 \<Longrightarrow> at_step s (send_done i s)"
  by (auto simp: send_done_def Let_def at_step_refl release_step request_wf_def
      intro!: at_keep_step [OF update_request_keep])

lemma xbee_cmd_send_step: "at_step s (snd (xbee_cmd_send h s))"
proof (cases "xbee_cmd_handle_to_address h s")
  case (Some i)
  have i: "i < 2" using Some by (rule handle_to_address_less)
  have "at_step s (snd (send_frame i (send_id i s)))"
    using at_keep_trans [OF send_id_keep [OF i] send_frame_keep] by (rule at_keep_step)
  then show ?thesis
    using Some at_step_trans [OF _ send_done_step [OF i]]
    by (simp add: xbee_cmd_send_def case_prod_unfold Let_def) blast
qed (simp add: xbee_cmd_send_def at_step_refl)

lemma dev_frame_write_table [simp]: "as_table (snd (dev_frame_write device header data dl s)) = as_table s"
  by (simp add: dev_frame_write_def update_dev_def case_prod_unfold split: option.splits)

lemma dev_next_frame_id_table [simp]: "as_table (snd (dev_next_frame_id device s)) = as_table s"
  by (simp add: dev_next_frame_id_def update_dev_def case_prod_unfold split: option.splits)

lemma send_frame_table [simp]: "as_table (snd (send_frame i s)) = as_table s"
  by (simp add: send_frame_def Let_def)

lemma dev_next_frame_id_nonzero: "device \<noteq> None \<Longrightarrow> fst (dev_next_frame_id device s) \<noteq> 0"
  by (auto simp: dev_next_frame_id_some Let_def split: if_splits)

lemma send_id_request:
  assumes "length (as_table s) = 2" "i < 2"
  shows "\<exists>n. as_table (send_id i s) = (as_table s)[i := (as_table s ! i)\<lparr>rq_frame_id := n\<rparr>] \<and>
    (rq_callback (as_table s ! i) \<noteq> None \<and> rq_device (as_table s ! i) \<noteq> None \<longrightarrow> n \<noteq> 0)"
  using assms dev_next_frame_id_nonzero [of "rq_device (as_table s ! i)" s]
  by (intro exI [of _ "if rq_callback (as_table s ! i) = None then 0 else fst (dev_next_frame_id (rq_device (as_table s ! i)) s)"])
    (auto simp: send_id_def Let_def case_prod_unfold update_request_def)

lemma send_frame_device: "fst (send_frame i s) = Inr r \<Longrightarrow> rq_device (as_table s ! i) \<noteq> None"
  by (rule ccontr) (simp add: send_frame_def dev_frame_write_def xbee_frame_write_def Let_def)

text \<open>A request with a callback is not released by sending it.\<close>

lemma xbee_cmd_send_keep:
  assumes "\<And>i. xbee_cmd_handle_to_address h s = Some i \<Longrightarrow> rq_callback (as_table s ! i) \<noteq> None"
  shows "at_keep s (snd (xbee_cmd_send h s))"
proof (cases "xbee_cmd_handle_to_address h s \<noteq> None \<and> at_wf s")
  case True
  then obtain i where h: "xbee_cmd_handle_to_address h s = Some i" and wf: "at_wf s" by auto
  have i: "i < 2" using h by (rule handle_to_address_less)
  obtain n where tab: "as_table (send_id i s) = (as_table s)[i := (as_table s ! i)\<lparr>rq_frame_id := n\<rparr>]"
    and n: "rq_device (as_table s ! i) \<noteq> None \<Longrightarrow> n \<noteq> 0"
    using send_id_request [of s i] wf i assms [OF h] by (auto simp: at_wf_def)
  let ?t = "send_frame i (send_id i s)"
  have keep: "at_keep s (snd ?t)"
    by (rule at_keep_trans [OF send_id_keep [OF i] send_frame_keep])
  have "at_keep (snd ?t) (send_done i (snd ?t))" if "fst ?t = Inr 0"
  proof -
    have "rq_device (as_table s ! i) \<noteq> None"
      using send_frame_device [OF that] wf i tab by (simp add: at_wf_def)
    then have "rq_frame_id (as_table (snd ?t) ! i) \<noteq> 0" using n wf i tab by (simp add: at_wf_def)
    then show ?thesis
      using i by (auto simp: send_done_def Let_def request_wf_def intro!: update_request_keep)
  qed
  then show ?thesis
    using h keep at_keep_trans [OF keep] by (simp add: xbee_cmd_send_def case_prod_unfold Let_def) 
next
  case False
  then show ?thesis
    by (auto simp: xbee_cmd_send_def at_keep_refl) (simp add: at_keep_def at_step_def)
qed

lemma not_wf_keep: "\<not> at_wf s \<Longrightarrow> at_keep s s'"
  by (simp add: at_keep_def at_step_def)

lemma handle_same_sequences:
  "(\<And>i. i < 2 \<Longrightarrow> rq_sequence (as_table s' ! i) = rq_sequence (as_table s ! i)) \<Longrightarrow>
   xbee_cmd_handle_to_address h s' = xbee_cmd_handle_to_address h s"
  by (auto simp: xbee_cmd_handle_to_address_def Let_def)

lemma on_request_handle:
  assumes "\<And>r. rq_sequence (f r) = rq_sequence r"
  shows "xbee_cmd_handle_to_address h' (snd (on_request h f s)) = xbee_cmd_handle_to_address h' s"
proof (rule handle_same_sequences)
  fix i
  have "rq_sequence ((as_table s)[k := f (as_table s ! k)] ! i) = rq_sequence (as_table s ! i)" for k
    using assms by (cases "k < length (as_table s)") (auto simp: nth_list_update list_update_beyond)
  then show "rq_sequence (as_table (snd (on_request h f s)) ! i) = rq_sequence (as_table s ! i)"
    by (simp add: on_request_def update_request_def split: option.splits)
qed

lemma send_after_callback:
  "at_keep (snd (xbee_cmd_set_callback h (Some f) c s)) (snd (xbee_cmd_send h (snd (xbee_cmd_set_callback h (Some f) c s))))"
    (is "at_keep ?s _")
proof (cases "at_wf ?s")
  case True
  show ?thesis
  proof (rule xbee_cmd_send_keep)
    fix i assume h: "xbee_cmd_handle_to_address h ?s = Some i"
    then have "xbee_cmd_handle_to_address h s = Some i"
      by (simp add: xbee_cmd_set_callback_def on_request_handle)
    then show "rq_callback (as_table ?s ! i) \<noteq> None"
      using True handle_to_address_less [OF h]
      by (simp add: xbee_cmd_set_callback_def on_request_def update_request_def at_wf_def)
  qed
qed (rule not_wf_keep)

section \<open>Functions that create requests\<close>

text \<open>
  A function has an outcome from \<open>s\<close> in a relation: total validity of the relation.
\<close>

definition runs :: "('s \<Rightarrow> 's \<Rightarrow> bool) \<Rightarrow> ('r \<times> 's) option \<Rightarrow> 's \<Rightarrow> bool" where
  "runs R m s \<longleftrightarrow> (\<exists>r s'. m = Some (r, s') \<and> R s s')"

lemma runs_Some: "R s (snd x) \<Longrightarrow> runs R (Some x) s"
  by (cases x) (simp add: runs_def)

text \<open>
  What the functions that create requests need from \<open>xbee_cmd_create\<close>: from every state they call
  it in it returns, and it relates the state to one it may be called in again.
\<close>

locale at_creates =
  fixes P :: "('p, 'w) at_state \<Rightarrow> bool"
    and R :: "('p, 'w) at_state \<Rightarrow> ('p, 'w) at_state \<Rightarrow> bool"
    and create :: "('p, 'w) at_create"
  assumes keep_R: "at_keep s s' \<Longrightarrow> R s s'"
    and R_trans: "R s t \<Longrightarrow> R t u \<Longrightarrow> R s u"
    and P_R: "P s \<Longrightarrow> R s s' \<Longrightarrow> P s'"
    and create_runs: "P s \<Longrightarrow> runs R (create xbee command s) s"
begin

lemma keeps: "at_keep t u \<Longrightarrow> R s t \<Longrightarrow> R s u"
  using keep_R R_trans by blast

lemma issue_list_runs:
  assumes "P s"
  shows "runs R (xbee_cmd_issue_list create regs xbee c None s) s"
proof -
  obtain r s' where "create xbee (Some (ar_command (reg_at regs (as_lists s c) 0))) s = Some (r, s')" "R s s'"
    using create_runs [OF assms] unfolding runs_def by blast
  then show ?thesis
    by (cases r) (auto simp: runs_def xbee_cmd_issue_list_def Let_def
        intro!: keeps [OF set_list_param_keep [unfolded snd_conv]] keeps [OF setter_keeps(1)])
qed

lemma list_execute_runs:
  assumes "P s"
  shows "runs R (xbee_cmd_list_execute create regs xbee c list first base address s) s"
proof -
  define u where "u = update_list c (\<lambda>_. \<lparr>lc_list = list, lc_first = first, lc_base = base,
    lc_status = XBEE_COMMAND_LIST_RUNNING, lc_index = 0\<rparr>) s"
  have u: "R s u" using update_list_keep unfolding u_def by (rule keep_R)
  obtain r t where t: "xbee_cmd_issue_list create regs xbee c None u = Some (r, t)" "R u t"
    using issue_list_runs [OF P_R [OF assms u]] unfolding runs_def by blast
  have st: "R s t" using u t(2) by (rule R_trans)
  show ?thesis
  proof (cases r)
    case (Inr request)
    define v where "v = (case address of Some (ieee, network) \<Rightarrow> snd (xbee_cmd_set_target request (Some ieee) network t) | None \<Rightarrow> t)"
    have sv: "R s v" using st by (auto simp: v_def intro: keeps [OF setter_keeps(3)] split: option.splits)
    have sw: "R s (snd (xbee_cmd_set_callback request (Some 0) c v))"
      by (rule keeps [OF setter_keeps(2) sv])
    have "R s (snd (xbee_cmd_send request (snd (xbee_cmd_set_callback request (Some 0) c v))))"
      by (rule keeps [OF send_after_callback sw])
    moreover have "xbee_cmd_list_execute create regs xbee c list first base address s =
      Some (if fst (xbee_cmd_set_callback request (Some 0) c v) \<noteq> Inr 0 then xbee_cmd_set_callback request (Some 0) c v
            else xbee_cmd_send request (snd (xbee_cmd_set_callback request (Some 0) c v)))"
      using t Inr
      by (cases address) (simp_all add: xbee_cmd_list_execute_def u_def [symmetric] v_def Let_def case_prod_unfold)
    ultimately show ?thesis using sw by (simp add: runs_Some)
  qed (use t st in \<open>simp add: runs_def xbee_cmd_list_execute_def u_def [symmetric]\<close>)
qed

lemma query_device_runs:
  assumes "P s"
  shows "runs R (xbee_cmd_query_device create regs xbee refresh s) s"
proof (cases xbee)
  case None
  then show ?thesis by (simp add: runs_def xbee_cmd_query_device_def keep_R at_keep_refl)
next
  case (Some d)
  define u where "u = (if refresh then set_dev_flags d XBEE_DEV_FLAG_QUERY_REFRESH s else s)"
  have u: "R s u" unfolding u_def using keep_R [OF set_dev_flags_keep] keep_R [OF at_keep_refl] by simp
  let ?run = "xbee_cmd_list_execute create regs (Some d) 0 0 (if refresh then XBEE_ATCMD_REG_REFRESH_IDX else 0) d None u"
  obtain r t where t: "?run = Some (r, t)" "R u t"
    using list_execute_runs [OF P_R [OF assms u]] unfolding runs_def by blast
  have st: "R s t" using u t(2) by (rule R_trans)
  have "R s (clear_dev_flags d (XBEE_DEV_FLAG_QUERY_ERROR OR XBEE_DEV_FLAG_QUERY_DONE OR XBEE_DEV_FLAG_QUERY_REFRESH)
    (set_dev_flags d (XBEE_DEV_FLAG_QUERY_BEGIN OR XBEE_DEV_FLAG_QUERY_INPROGRESS) t))"
    by (intro keeps [OF clear_dev_flags_keep] keeps [OF set_dev_flags_keep] st) simp
  then show ?thesis
    using t u st Some by (simp add: runs_def xbee_cmd_query_device_def u_def [symmetric])
qed

lemma query_handle_end_runs:
  assumes "P s"
  shows "\<exists>s'. xbee_cmd_query_handle_end create regs response has_reg d s = Some s' \<and> R s s'"
proof -
  define u where "u = clear_dev_flags d XBEE_DEV_FLAG_QUERY_INPROGRESS s"
  define v where "v = set_dev_flags d
                (if \<not> has_reg then XBEE_DEV_FLAG_QUERY_ERROR
                 else if re_flags response AND XBEE_CMD_RESP_FLAG_TIMEOUT \<noteq> 0 then XBEE_DEV_FLAG_QUERY_ERROR
                 else XBEE_DEV_FLAG_QUERY_DONE) u"
  define w where "w = (if dev_flag d XBEE_DEV_FLAG_QUERY_ERROR v
                  \<and> xd_wpan_flags (as_dev v d) AND WPAN_FLAG_JOINED \<noteq> 0
                  \<and> xd_network (as_dev v d) = WPAN_NET_ADDR_UNDEFINED
               then set_dev_flags d XBEE_DEV_FLAG_QUERY_REFRESH v else v)"
  have u: "R s u" unfolding u_def by (intro keep_R clear_dev_flags_keep) simp
  have v: "R s v" unfolding v_def by (rule keeps [OF set_dev_flags_keep u])
  have w: "R s w" unfolding w_def using v keeps [OF set_dev_flags_keep v] by simp
  obtain r t where t: "xbee_cmd_query_device create regs (Some d) True w = Some (r, t)" "R w t"
    using query_device_runs [OF P_R [OF assms w]] unfolding runs_def by blast
  have "xbee_cmd_query_handle_end create regs response has_reg d s =
    (if dev_flag d XBEE_DEV_FLAG_QUERY_REFRESH w
     then map_option snd (xbee_cmd_query_device create regs (Some d) True w) else Some w)"
    unfolding xbee_cmd_query_handle_end_def Let_def w_def v_def u_def ..
  then show ?thesis using t w R_trans [OF w t(2)] by simp
qed

lemma init_device_runs:
  assumes "P s"
  shows "runs R (xbee_cmd_init_device env create xbee s) s"
proof -
  have set: "R s (set_dev_flags d f s)" for d f by (rule keep_R [OF set_dev_flags_keep])
  have refl: "R s s" by (rule keep_R [OF at_keep_refl])
  have "runs R (xbee_cmd_query_device create (at_regs env create) (Some d) False (set_dev_flags d f s)) s" for d f
    using query_device_runs [OF P_R [OF assms set]] R_trans [OF set] unfolding runs_def by blast
  then show ?thesis
    by (auto simp: xbee_cmd_init_device_def Let_def runs_def set refl split: option.splits)
qed

end

subsection \<open>The allocation of a request\<close>

lemma allocate_keep:
  assumes "i < 2" "as_initialized s \<noteq> 0" "request_wf (f (as_table s ! i))" "rq_device (f (as_table s ! i)) \<noteq> None"
    "rq_sequence (f (as_table s ! i)) = rq_sequence (as_table s ! i)"
  shows "at_keep s (update_request i f s)"
  using assms less_two_cases [OF assms(1)]
  by (auto simp: at_keep_def at_step_def at_wf_def busy_def same_sequences_def update_request_def nth_list_update)

lemma request_zero_wf: "request_wf request_zero" "rq_device request_zero = None"
  by (simp_all add: request_wf_def request_zero_def)

definition table_init :: "('p, 'w) at_state \<Rightarrow> ('p, 'w) at_state" where
  "table_init s =
     (if as_initialized s = 0
      then s\<lparr>as_initialized := 1, as_table := replicate XBEE_CMD_REQUEST_TABLESIZE request_zero\<rparr> else s)"

lemma table_init_keep: "at_keep s (table_init s)"
  by (auto simp: table_init_def at_keep_def at_step_def at_wf_def busy_def same_sequences_def request_zero_wf nth_replicate)

lemma table_init_initialized: "as_initialized (table_init s) \<noteq> 0" "as_initialized (table_init s) = 2 \<longleftrightarrow> as_initialized s = 2"
  by (simp_all add: table_init_def)

lemma table_init_dev [simp]: "as_dev (table_init s) = as_dev s"
  by (simp add: table_init_def)

lemma free_slot_less: "free_slot table = Some i \<Longrightarrow> i < 2 \<and> rq_device (table ! i) = None"
  by (auto simp: free_slot_def find_Some_iff)

definition allocate :: "nat \<Rightarrow> u16 \<Rightarrow> nat \<Rightarrow> ('p, 'w) at_state \<Rightarrow> ('p, 'w) at_state" where
  "allocate d cmd i s =
     update_request i (\<lambda>r. request_zero\<lparr>rq_sequence := rq_sequence r, rq_device := Some d,
       rq_timeout := XBEE_SET_TIMEOUT_SEC 2 s, rq_command := cmd\<rparr>) s"

lemma allocate_keeps: "i < 2 \<Longrightarrow> as_initialized s \<noteq> 0 \<Longrightarrow> at_keep s (allocate d cmd i s)"
  unfolding allocate_def by (rule allocate_keep) (simp_all add: request_wf_def request_zero_def)

text \<open>The end of \<open>xbee_cmd_create\<close>, once the device is registered.\<close>

definition create_rest ::
    "('p, 'w) at_env \<Rightarrow> ('p, 'w) at_create \<Rightarrow> nat \<Rightarrow> u16 \<Rightarrow> ('p, 'w) at_state
     \<Rightarrow> ((errno + int) \<times> ('p, 'w) at_state) option" where
  "create_rest env create d cmd s =
     (case free_slot (as_table s) of
        Some i \<Rightarrow> Some (Inr (request_handle i s), allocate d cmd i s)
      | None \<Rightarrow>
          if as_initialized s \<noteq> 2 then
            (case xbee_cmd_tick env create (s\<lparr>as_initialized := 2\<rparr>) of
               None \<Rightarrow> None
             | Some (_, s) \<Rightarrow>
                 map_option (\<lambda>(handle, s). (handle, s\<lparr>as_initialized := 1\<rparr>)) (create (Some d) (Some cmd) s))
          else Some (Inl ENOSPC, s))"

lemma create_step_eq:
  "create_step env create (Some d) (Some cmd) s =
     (if dev_flag d XBEE_DEV_FLAG_CMD_INIT s then create_rest env create d cmd (table_init s)
      else Option.bind (xbee_cmd_init_device env create (Some d) (table_init s)) (\<lambda>(_, s). create_rest env create d cmd s))"
  by (simp add: create_step_def create_rest_def allocate_def table_init_def [symmetric] Let_def case_prod_unfold
      bind_eq_Some_conv split: option.splits)

lemma create_step_invalid:
  "xbee = None \<or> command = None \<Longrightarrow> create_step env create xbee command s = Some (Inl EINVAL, s)"
  by (auto simp: create_step_def split: option.splits)

text \<open>What the caller gets: no entry, or a handle to a new request.\<close>

definition created :: "nat \<Rightarrow> u16 \<Rightarrow> errno + int \<Rightarrow> ('p, 'w) at_state \<Rightarrow> bool" where
  "created d cmd r s \<longleftrightarrow>
     (case r of
        Inl e \<Rightarrow> e = ENOSPC
      | Inr h \<Rightarrow> \<exists>i. xbee_cmd_handle_to_address h s = Some i \<and>
          as_table s ! i = request_zero\<lparr>rq_sequence := rq_sequence (as_table s ! i), rq_device := Some d,
            rq_timeout := XBEE_SET_TIMEOUT_SEC 2 s, rq_command := cmd\<rparr>)"

lemma handle_of_slot:
  assumes "i < 2"
  shows "xbee_cmd_handle_to_address (request_handle i s) s' =
    (if rq_sequence (as_table s' ! i) = rq_sequence (as_table s ! i) then Some i else None)"
proof -
  define q where "q = uint (rq_sequence (as_table s ! i))"
  have q: "0 \<le> q" "q < 256" by (simp_all add: q_def)
  then have "\<not> 256 * int i + q < 0" "\<not> 512 \<le> 256 * int i + q" "(256 * int i + q) div 256 = int i"
    using assms by linarith+
  moreover have "(256 * int i + q) mod 256 = q" using q by simp
  ultimately show ?thesis
    unfolding xbee_cmd_handle_to_address_def request_handle_def q_def [symmetric]
    by (simp add: Let_def) (simp add: q_def word_uint_eq_iff)
qed

lemma request_handle_address: "i < 2 \<Longrightarrow> xbee_cmd_handle_to_address (request_handle i s) s = Some i"
  by (simp add: handle_of_slot)

lemma allocate_created:
  assumes "i < 2" "at_wf s"
  shows "created d cmd (Inr (request_handle i s)) (allocate d cmd i s)"
proof -
  have "as_table (allocate d cmd i s) ! i = request_zero\<lparr>rq_sequence := rq_sequence (as_table s ! i), rq_device := Some d,
      rq_timeout := XBEE_SET_TIMEOUT_SEC 2 s, rq_command := cmd\<rparr>"
    using assms by (simp add: allocate_def update_request_nth at_wf_def)
  moreover have "request_handle i (allocate d cmd i s) = request_handle i s"
    using assms by (simp add: request_handle_def allocate_def update_request_nth at_wf_def)
  ultimately show ?thesis
    using request_handle_address [OF assms(1), of "allocate d cmd i s"]
    by (auto simp: created_def allocate_def update_request_def XBEE_SET_TIMEOUT_SEC_def)
qed

lemma create_rest_result_nested:
  assumes "as_initialized s = 2" "at_wf s"
  shows "\<exists>r s'. create_rest env create d cmd s = Some (r, s') \<and> at_keep s s' \<and> created d cmd r s'"
proof (cases "free_slot (as_table s)")
  case None
  then show ?thesis using assms by (simp add: create_rest_def at_keep_refl created_def)
next
  case (Some i)
  then show ?thesis
    using assms free_slot_less [OF Some] by (simp add: create_rest_def allocate_keeps allocate_created)
qed

lemma create_rest_nested: "as_initialized s = 2 \<Longrightarrow> runs at_keep (create_rest env create d cmd s) s"
  using free_slot_less
  by (auto simp: create_rest_def at_keep_refl intro!: runs_Some allocate_keeps split: option.splits)

lemma create_nested_2:
  assumes "nested s" "as_initialized s = 2"
  shows "runs at_keep (xbee_cmd_create env (Suc n) xbee command s) s"
proof (cases "xbee = None \<or> command = None")
  case True
  then show ?thesis by (simp add: create_Suc create_step_invalid runs_Some at_keep_refl)
next
  case False
  then obtain d cmd where "xbee = Some d" "command = Some cmd" by auto
  moreover have "table_init s = s" using assms(2) by (simp add: table_init_def)
  ultimately show ?thesis
    using assms create_rest_nested by (simp add: create_Suc create_step_eq nested_def all_init_def)
qed

lemma recursion_mark:
  assumes "as_initialized s \<noteq> 0" "as_initialized s \<noteq> 2"
  shows "at_step (s\<lparr>as_initialized := 2\<rparr>) t \<Longrightarrow> at_step s (t\<lparr>as_initialized := 1\<rparr>)"
    "at_keep (s\<lparr>as_initialized := 2\<rparr>) t \<Longrightarrow> at_keep s (t\<lparr>as_initialized := 1\<rparr>)"
  using assms by (auto simp: at_keep_def at_step_def at_wf_def busy_def same_sequences_def)

lemma nested_mark: "at_wf s \<Longrightarrow> all_init s \<Longrightarrow> nested (s\<lparr>as_initialized := 2\<rparr>)"
  by (simp add: nested_def at_wf_def all_init_def busy_def)

lemma create_nested:
  assumes "nested s"
  shows "runs at_keep (xbee_cmd_create env (Suc (Suc n)) xbee command s) s"
proof (cases "xbee = None \<or> command = None \<or> as_initialized s = 2")
  case True
  then show ?thesis
    using create_nested_2 [OF assms, of env "Suc n" xbee command]
    by (auto simp: create_Suc [of env "Suc n"] create_step_invalid runs_Some at_keep_refl)
next
  case False
  then obtain d cmd where args: "xbee = Some d" "command = Some cmd" by auto
  define t where "t = table_init s"
  have st: "at_keep s t" unfolding t_def by (rule table_init_keep)
  have t: "nested t" using nested_step [OF assms at_keep_step [OF st]] .
  have init: "as_initialized t \<noteq> 0" "as_initialized t \<noteq> 2" using False by (simp_all add: t_def table_init_initialized)
  have eq: "xbee_cmd_create env (Suc (Suc n)) xbee command s = create_rest env (xbee_cmd_create env (Suc n)) d cmd t"
    using assms args unfolding create_Suc [of env "Suc n"]
    by (simp only: args create_step_eq t_def nested_def all_init_def) simp
  have "runs at_keep (create_rest env (xbee_cmd_create env (Suc n)) d cmd t) s"
  proof (cases "free_slot (as_table t)")
    case (Some i)
    then show ?thesis
      using free_slot_less [OF Some] at_keep_trans [OF st allocate_keeps] init
      by (simp add: create_rest_def runs_Some)
  next
    case None
    let ?t = "t\<lparr>as_initialized := 2\<rparr>"
    have tick: "xbee_cmd_tick env (xbee_cmd_create env (Suc n)) ?t = Some (0, ?t)"
      using t init by (simp add: xbee_cmd_tick_def nested_def)
    have "nested ?t" using t by (intro nested_mark) (simp_all add: nested_def)
    then obtain r u where u: "xbee_cmd_create env (Suc n) xbee command ?t = Some (r, u)" "at_keep ?t u"
      using create_nested_2 [of ?t env n xbee command] by (auto simp: runs_def)
    have "at_keep s (u\<lparr>as_initialized := 1\<rparr>)"
      using st recursion_mark(2) [OF init u(2)] by (rule at_keep_trans)
    then show ?thesis
      using None init tick u(1) args by (simp add: create_rest_def runs_Some)
  qed
  then show ?thesis unfolding eq .
qed

interpretation nested_calls: at_creates nested at_keep "xbee_cmd_create env (Suc (Suc n))" for env n
  by unfold_locales (auto intro: at_keep_trans nested_step at_keep_step create_nested)

section \<open>The application\<close>

lemma query_cmds_nonzero:
  "at_cmd CHR ''H'' CHR ''V'' \<noteq> 0" "at_cmd CHR ''V'' CHR ''R'' \<noteq> 0" "at_cmd CHR ''S'' CHR ''H'' \<noteq> 0"
  "at_cmd CHR ''S'' CHR ''L'' \<noteq> 0" "at_cmd CHR ''E'' CHR ''O'' \<noteq> 0" "at_cmd CHR ''A'' CHR ''I'' \<noteq> 0"
  "at_cmd CHR ''N'' CHR ''P'' \<noteq> 0" "at_cmd CHR ''M'' CHR ''Y'' \<noteq> 0"
  by code_simp+

text \<open>An outstanding request whose time is over.\<close>

definition due :: "nat \<Rightarrow> ('p, 'w) at_state \<Rightarrow> bool" where
  "due i s \<longleftrightarrow> busy i s \<and> XBEE_CHECK_TIMEOUT_SEC (rq_timeout (as_table s ! i)) s"


lemma find_SomeD: "find Q xs = Some x \<Longrightarrow> x \<in> set xs \<and> Q x"
  by (auto simp: find_Some_iff)

text \<open>
  What the expiry of requests relies on: the callbacks of the application, called for a time-out,
  and the callbacks at the end of its command lists return, and release no request.
\<close>

locale at_application =
  fixes env :: "('p, 'w) at_env"
  assumes callback_keep: "nested s \<Longrightarrow> re_flags response AND XBEE_CMD_RESP_FLAG_TIMEOUT \<noteq> 0
      \<Longrightarrow> at_keep s (snd (ae_callback env f response s))"
    and end_callback_keep: "reg \<in> set (ae_list env l) \<Longrightarrow> ar_command reg = 0 \<Longrightarrow> nested s
      \<Longrightarrow> \<exists>s'. call_reg reg response True base s = Some s' \<and> at_keep s s'"
begin

abbreviation "C n \<equiv> xbee_cmd_create env (Suc (Suc n))"

lemma query_regs_end:
  assumes "reg \<in> set (query_regs_with fin)" "ar_command reg = 0"
  shows "reg = reg_cb 0 fin"
  using assms query_cmds_nonzero by (auto simp: query_regs_with_def reg_copy_def reg_cb_def)

lemma end_reg_runs:
  assumes "nested s" "find_end (at_regs env (C n)) lc = Some reg"
  shows "\<exists>s'. call_reg reg response True base s = Some s' \<and> at_keep s s'"
proof -
  have reg: "reg \<in> set (at_regs env (C n) (lc_list lc))" "ar_command reg = 0"
    using find_SomeD [OF assms(2) [unfolded find_end_def]] by (auto dest: in_set_dropD)
  show ?thesis
  proof (cases "lc_list lc = 0")
    case True
    then have "reg = reg_cb 0 (xbee_cmd_query_handle_end (C n) (command_regs env))"
      using reg by (intro query_regs_end) (simp_all add: at_regs_def xbee_atcmd_query_regs_def)
    then show ?thesis
      using nested_calls.query_handle_end_runs [OF assms(1)] by (simp add: call_reg_def reg_cb_def)
  next
    case False
    then show ?thesis using reg end_callback_keep [OF _ _ assms(1)] by (simp add: at_regs_def)
  qed
qed

lemma list_timeout_runs:
  assumes "nested s" "re_flags response AND XBEE_CMD_RESP_FLAG_TIMEOUT \<noteq> 0"
  shows "runs at_keep (xbee_cmd_list_callback (C n) (at_regs env (C n)) response s) s"
proof -
  define t where "t = update_list (re_context response) (\<lambda>lc. lc\<lparr>lc_status := XBEE_COMMAND_LIST_TIMEOUT\<rparr>) s"
  have st: "at_keep s t" unfolding t_def by (rule update_list_keep)
  have "nested t" using nested_step [OF assms(1) at_keep_step [OF st]] .
  then show ?thesis
    using assms(2) st end_reg_runs [of t n] at_keep_trans [OF st]
    unfolding xbee_cmd_list_callback_def Let_def t_def [symmetric]
    by (cases "find_end (at_regs env (C n)) (as_lists t (re_context response))") (fastforce simp: runs_def)+
qed

lemma call_callback_runs:
  assumes "nested s" "re_flags response AND XBEE_CMD_RESP_FLAG_TIMEOUT \<noteq> 0"
  shows "runs at_keep (call_callback env (C n) f response s) s"
  using list_timeout_runs [OF assms] callback_keep [OF assms] by (simp add: call_callback_def runs_Some)

text \<open>
  One second's expiry.  An outstanding request whose time is over is released unless its callback
  asks to keep it; the callback of command lists never does so for a time-out.
\<close>

lemma list_timeout_done:
  "re_flags response AND XBEE_CMD_RESP_FLAG_TIMEOUT \<noteq> 0 \<Longrightarrow>
   xbee_cmd_list_callback create regs response s = Some (reuse, t) \<Longrightarrow> reuse = XBEE_ATCMD_DONE"
  by (auto simp: xbee_cmd_list_callback_def Let_def split: option.splits)

lemma expired_flags: "re_flags (expired_response d i s) AND XBEE_CMD_RESP_FLAG_TIMEOUT \<noteq> 0"
  by (simp add: expired_response_def)

definition never_reuses :: "nat option \<Rightarrow> bool" where
  "never_reuses cb \<longleftrightarrow> (\<forall>f response s. cb = Some f \<longrightarrow> f \<noteq> 0 \<longrightarrow> re_flags response AND XBEE_CMD_RESP_FLAG_TIMEOUT \<noteq> 0
     \<longrightarrow> fst (ae_callback env f response s) \<noteq> XBEE_ATCMD_REUSE)"

text \<open>The sequence numbers after one request of the table has been looked at.\<close>

definition expiry_step :: "nat \<Rightarrow> ('p, 'w) at_state \<Rightarrow> ('p, 'w) at_state \<Rightarrow> bool" where
  "expiry_step i s t \<longleftrightarrow> at_step s t \<and>
     (as_initialized s \<noteq> 0 \<longrightarrow>
        rq_sequence (as_table t ! (1 - i)) = rq_sequence (as_table s ! (1 - i)) \<and>
        (due i s \<and> never_reuses (rq_callback (as_table s ! i)) \<longrightarrow>
           rq_sequence (as_table t ! i) = rq_sequence (as_table s ! i) + 1))"

lemma expiry_keep: "at_wf s \<Longrightarrow> i < 2 \<Longrightarrow> at_keep s t \<Longrightarrow> \<not> due i s \<or> \<not> never_reuses (rq_callback (as_table s ! i)) \<Longrightarrow> expiry_step i s t"
  using less_two_cases [of i] by (auto simp: expiry_step_def at_keep_def same_sequences_def)

lemma release_sequences:
  assumes "at_wf s" "i < 2"
  shows "rq_sequence (as_table (snd (xbee_cmd_release_request (Some i) s)) ! j) =
    (if j = i then rq_sequence (as_table s ! i) + 1 else rq_sequence (as_table s ! j))"
  using assms by (simp add: xbee_cmd_release_request_def update_request_nth at_wf_def)

lemma expiry_release:
  assumes "at_wf s" "i < 2" "at_keep s t" "at_keep (snd (xbee_cmd_release_request (Some i) t)) u"
  shows "expiry_step i s u"
proof -
  let ?r = "snd (xbee_cmd_release_request (Some i) t)"
  have t: "at_step s t" "at_wf t" using at_keep_step [OF assms(3)] at_step_wf [OF assms(1)] by blast+
  have r: "at_step t ?r" "at_wf ?r" using release_step [OF assms(2)] at_step_wf [OF t(2)] by blast+
  have u: "at_step s u" using t(1) r(1) at_keep_step [OF assms(4)] by (blast intro: at_step_trans)
  have init: "as_initialized s \<noteq> 0 \<Longrightarrow> as_initialized t \<noteq> 0 \<and> as_initialized ?r \<noteq> 0"
    using t r assms(1) by (auto simp: at_step_def)
  have seq: "same_sequences s t" "same_sequences ?r u" if "as_initialized s \<noteq> 0"
    using that init assms(1,3,4) r(2) by (auto simp: at_keep_def)
  show ?thesis
    using u seq release_sequences [OF t(2) assms(2)] less_two_cases [OF assms(2)]
    by (auto simp: expiry_step_def same_sequences_def)
qed

lemma tick_request_runs:
  assumes "nested s" "i < 2"
  shows "runs (expiry_step i) (tick_request env (C n) i (count, s)) s"
proof (cases "due i s")
  case False
  have "tick_request env (C n) i (count, s) = Some (count, s)"
    using False by (auto simp: tick_request_def Let_def due_def busy_def split: option.splits)
  then show ?thesis
    using assms False expiry_keep [OF _ assms(2) at_keep_refl] by (simp add: runs_def nested_def)
next
  case True
  have wf: "at_wf s" using assms(1) by (simp add: nested_def)
  let ?r = "as_table s ! i"
  obtain d where d: "rq_device ?r = Some d" using True by (auto simp: due_def busy_def)
  define call where "call = (case rq_callback ?r of None \<Rightarrow> Some (XBEE_ATCMD_DONE, s)
    | Some f \<Rightarrow> call_callback env (C n) f (expired_response d i s) s)"
  have "runs at_keep call s"
    unfolding call_def using call_callback_runs [OF assms(1) expired_flags]
    by (auto simp: runs_Some at_keep_refl split: option.splits)
  then obtain reuse t where t: "call = Some (reuse, t)" "at_keep s t" by (auto simp: runs_def)
  have nt: "nested t" using nested_step [OF assms(1) at_keep_step [OF t(2)]] .
  have "busy i t"
    using wf t(2) d less_two_cases [OF assms(2)] by (auto simp: at_keep_def busy_def)
  then obtain device where device: "rq_device (as_table t ! i) = Some device" by (auto simp: busy_def)
  define u where "u = snd (xbee_cmd_release_request (Some i) t)"
  have nu: "nested u" unfolding u_def using nt release_step [OF assms(2)] by (rule nested_step)
  obtain q v where v: "xbee_cmd_query_device (C n) (at_regs env (C n)) (Some device) True u = Some (q, v)" "at_keep u v"
    using nested_calls.query_device_runs [OF nu] unfolding runs_def by blast
  have steps: "expiry_step i s u" "expiry_step i s v"
    using expiry_release [OF wf assms(2) t(2)] v(2) at_keep_refl unfolding u_def by blast+
  have reuse: "expiry_step i s t" if "reuse = XBEE_ATCMD_REUSE"
  proof (rule expiry_keep [OF wf assms(2) t(2)])
    have "\<not> never_reuses (rq_callback ?r)"
    proof (cases "rq_callback ?r")
      case None
      then show ?thesis using t(1) that by (simp add: call_def)
    next
      case (Some f)
      have f: "call_callback env (C n) f (expired_response d i s) s = Some (XBEE_ATCMD_REUSE, t)"
        using t(1) that Some by (simp add: call_def)
      have "f \<noteq> 0" using f list_timeout_done [OF expired_flags] by (fastforce simp: call_callback_def)
      moreover have "fst (ae_callback env f (expired_response d i s) s) = XBEE_ATCMD_REUSE"
        using f \<open>f \<noteq> 0\<close> by (simp add: call_callback_def)
      ultimately show ?thesis using Some expired_flags [of d i s] unfolding never_reuses_def by blast
    qed
    then show "\<not> due i s \<or> \<not> never_reuses (rq_callback ?r)" ..
  qed
  have due: "XBEE_CHECK_TIMEOUT_SEC (rq_timeout ?r) s" using True by (simp add: due_def)
  show ?thesis
    unfolding tick_request_def
    using t(1) [unfolded call_def] d device v(1) steps reuse due
    by (simp add: Let_def u_def [symmetric] runs_def)
qed

lemma tick_steps:
  assumes "at_wf s" "all_init s" "as_last_time s \<noteq> ucast (as_seconds s)"
  obtains k t l u where "xbee_cmd_tick env (C n) s = Some (l, u)"
    "tick_request env (C n) 0 (0, s\<lparr>as_last_time := ucast (as_seconds s)\<rparr>) = Some (k, t)" "nested t"
    "expiry_step 0 (s\<lparr>as_last_time := ucast (as_seconds s)\<rparr>) t" "expiry_step 1 t u"
proof -
  define r where "r = s\<lparr>as_last_time := ucast (as_seconds s)\<rparr>"
  have nr: "nested r" using assms by (simp add: nested_def r_def at_wf_def busy_def all_init_def)
  obtain k t where t: "tick_request env (C n) 0 (0, r) = Some (k, t)" "expiry_step 0 r t"
    using tick_request_runs [OF nr, of 0 n 0] by (auto simp: runs_def)
  have nt: "nested t" using nr t(2) by (auto simp: expiry_step_def intro: nested_step)
  obtain l u where u: "tick_request env (C n) 1 (k, t) = Some (l, u)" "expiry_step 1 t u"
    using tick_request_runs [OF nt, of 1 n k] by (auto simp: runs_def)
  have "xbee_cmd_tick env (C n) s = Some (l, u)"
    using assms(3) t(1) u(1) by (simp add: xbee_cmd_tick_def Let_def r_def)
  then show ?thesis using that t u nt unfolding r_def by blast
qed

lemma mark_time_step: "as_last_time s \<noteq> ucast (as_seconds s) \<Longrightarrow> at_step s (s\<lparr>as_last_time := ucast (as_seconds s)\<rparr>)"
  by (simp add: at_step_def at_wf_def busy_def)

lemma tick_runs:
  assumes "at_wf s" "all_init s"
  shows "runs at_step (xbee_cmd_tick env (C n) s) s"
proof (cases "as_last_time s = ucast (as_seconds s)")
  case True
  then show ?thesis by (simp add: xbee_cmd_tick_def runs_def at_step_refl)
next
  case False
  obtain k t l u where tick: "xbee_cmd_tick env (C n) s = Some (l, u)"
    and "tick_request env (C n) 0 (0, s\<lparr>as_last_time := ucast (as_seconds s)\<rparr>) = Some (k, t)" "nested t"
    and steps: "expiry_step 0 (s\<lparr>as_last_time := ucast (as_seconds s)\<rparr>) t" "expiry_step 1 t u"
    by (rule tick_steps [OF assms False])
  have "at_step s t" using mark_time_step [OF False] steps(1) unfolding expiry_step_def by (blast intro: at_step_trans)
  then have "at_step s u" using steps(2) unfolding expiry_step_def by (blast intro: at_step_trans)
  then show ?thesis using tick by (simp add: runs_def)
qed

lemma tick_expires:
  assumes "at_wf s" "all_init s" "as_last_time s \<noteq> ucast (as_seconds s)" "as_initialized s \<noteq> 0"
    and "i < 2" "due i s" "\<not> due (1 - i) s" "never_reuses (rq_callback (as_table s ! i))"
  shows "\<exists>n' s'. xbee_cmd_tick env (C n) s = Some (n', s') \<and> xbee_cmd_handle_to_address (request_handle i s) s' = None"
proof -
  let ?r = "s\<lparr>as_last_time := ucast (as_seconds s)\<rparr>"
  obtain k t l u where run: "xbee_cmd_tick env (C n) s = Some (l, u)"
    and t: "tick_request env (C n) 0 (0, ?r) = Some (k, t)" "nested t" "expiry_step 0 ?r t" and u: "expiry_step 1 t u"
    by (rule tick_steps [OF assms(1-3)])
  have same: "due j ?r = due j s" for j by (simp add: due_def busy_def XBEE_CHECK_TIMEOUT_SEC_def)
  have wf: "at_wf ?r" using assms(1) by (simp add: at_wf_def busy_def)
  have init: "as_initialized t \<noteq> 0" using t(3) wf assms(4) by (auto simp: expiry_step_def at_step_def)
  have "rq_sequence (as_table u ! i) = rq_sequence (as_table s ! i) + 1"
  proof (cases "i = 0")
    case True
    then show ?thesis using t(3) u init assms same by (simp add: expiry_step_def)
  next
    case False
    then have i: "i = 1" using assms(5) by simp
    then have "t = ?r" using t(1) assms(7) same [of 0]
      by (auto simp: tick_request_def Let_def due_def busy_def split: option.splits if_splits)
    then show ?thesis using u init assms same i by (simp add: expiry_step_def)
  qed
  then show ?thesis using run assms(5) by (simp add: handle_of_slot)
qed

lemma create_rest_result:
  assumes "at_wf s" "all_init s" "as_initialized s \<noteq> 0"
  shows "\<exists>r s'. create_rest env (C n) d cmd s = Some (r, s') \<and> at_step s s' \<and> created d cmd r s'"
proof (cases "as_initialized s = 2")
  case True
  then show ?thesis using create_rest_result_nested [OF True assms(1)] at_keep_step by blast
next
  case init: False
  show ?thesis
  proof (cases "free_slot (as_table s)")
    case (Some i)
    then show ?thesis
      using assms free_slot_less [OF Some] by (simp add: create_rest_def allocate_created at_keep_step [OF allocate_keeps])
  next
    case none: None
  let ?t = "s\<lparr>as_initialized := 2\<rparr>"
  have t: "nested ?t" using assms by (intro nested_mark)
  then obtain k u where u: "xbee_cmd_tick env (C n) ?t = Some (k, u)" "at_step ?t u"
    using tick_runs [of ?t n] by (auto simp: nested_def runs_def)
  have nu: "nested u" "as_initialized u = 2" using nested_step [OF t u(2)] u(2) t by (auto simp: at_step_def nested_def)
  have "C n (Some d) (Some cmd) u = create_rest env (xbee_cmd_create env (Suc n)) d cmd u"
    using nu unfolding create_Suc [of env "Suc n"] by (simp add: create_step_eq nested_def all_init_def table_init_def)
  then obtain r v where v: "C n (Some d) (Some cmd) u = Some (r, v)" "at_keep u v" "created d cmd r v"
    using create_rest_result_nested [OF nu(2)] nu(1) by (metis nested_def)
  have "at_step s (v\<lparr>as_initialized := 1\<rparr>)"
    by (rule recursion_mark(1) [OF assms(3) init at_step_trans [OF u(2) at_keep_step [OF v(2)]]])
  moreover have "created d cmd r (v\<lparr>as_initialized := 1\<rparr>)"
    using v(3) handle_same_sequences [of "v\<lparr>as_initialized := 1\<rparr>" v]
    by (simp add: created_def XBEE_SET_TIMEOUT_SEC_def split: sum.splits)
  ultimately show ?thesis using none init u(1) v(1) by (simp add: create_rest_def)
  qed
qed

text \<open>The device is registered first when it has to be; one more nested call is needed then.\<close>

lemma create_total:
  assumes "at_wf s" "all_init s"
  shows "\<exists>r s'. C (Suc n) (Some d) (Some cmd) s = Some (r, s') \<and> at_step s s' \<and> created d cmd r s'"
proof -
  have t: "at_step s (table_init s)" by (rule at_keep_step [OF table_init_keep])
  have "C (Suc n) (Some d) (Some cmd) s = create_rest env (C n) d cmd (table_init s)"
    using assms unfolding create_Suc [of env "Suc (Suc n)"] by (simp add: create_step_eq all_init_def)
  then show ?thesis
    using create_rest_result [OF at_step_wf [OF assms(1) t] at_step_all_init [OF assms t] table_init_initialized(1)]
      at_step_trans [OF t] by metis
qed

lemma create_total_runs:
  assumes "at_wf s" "all_init s"
  shows "runs at_step (C (Suc n) xbee command s) s"
proof (cases "xbee = None \<or> command = None")
  case True
  then show ?thesis by (simp add: create_Suc [of env "Suc (Suc n)"] create_step_invalid runs_Some at_step_refl)
next
  case False
  then obtain d cmd where "xbee = Some d" "command = Some cmd" by auto
  then show ?thesis using create_total [OF assms] by (force simp: runs_def)
qed

end

sublocale at_application \<subseteq> started: at_creates "\<lambda>s. at_wf s \<and> all_init s" at_step "xbee_cmd_create env (Suc (Suc (Suc n)))" for n
  by unfold_locales
    (auto intro: at_keep_step at_step_trans at_step_wf at_step_all_init create_total_runs)

context at_application begin

lemma started_calls: "at_creates (\<lambda>s. at_wf s \<and> all_init s) at_step (xbee_cmd_create env (Suc (Suc (Suc n))))"
  by (rule started.at_creates_axioms)

end

end
