(* ===== verification/App_Callback.thy ===== *)
theory App_Callback
  imports Xbee_Atcmd_Calls
begin

text \<open>
  The application's callback for AT commands (\<open>src/lib/xbee_cmd_callback.c\<close>).  It prints the
  response; what is printed is a list of items, one for each \<open>printf\<close> or \<open>puts\<close> of the code with the
  values printed.
\<close>

datatype console_item =
    PrintCommand u16
  | PrintTimedOut
  | PrintError string
  | PrintSuccess
  | PrintText "u8 list"
  | PrintHex nat u32
  | PrintBytes "u8 list"
  | PrintLine string
  | PrintNumber string int

record console_state =
  cs_out :: "console_item list"

definition print :: "console_item \<Rightarrow> ('p, 'w console_state_scheme) at_state \<Rightarrow> ('p, 'w console_state_scheme) at_state" where
  "print item s = s\<lparr>as_world := (as_world s)\<lparr>cs_out := cs_out (as_world s) @ [item]\<rparr>\<rparr>"

abbreviation XBEE_AT_RESP_ERROR :: u8 where "XBEE_AT_RESP_ERROR \<equiv> 1"
abbreviation XBEE_AT_RESP_BAD_COMMAND :: u8 where "XBEE_AT_RESP_BAD_COMMAND \<equiv> 2"
abbreviation XBEE_AT_RESP_BAD_PARAMETER :: u8 where "XBEE_AT_RESP_BAD_PARAMETER \<equiv> 3"
abbreviation XBEE_AT_RESP_TX_FAIL :: u8 where "XBEE_AT_RESP_TX_FAIL \<equiv> 4"

definition c_isprint :: "u8 \<Rightarrow> bool" where
  "c_isprint c \<longleftrightarrow> 32 \<le> c \<and> c < 127"

definition error_text :: "u8 \<Rightarrow> string" where
  "error_text status =
     (if status = XBEE_AT_RESP_ERROR then ''general''
      else if status = XBEE_AT_RESP_BAD_COMMAND then ''bad command''
      else if status = XBEE_AT_RESP_BAD_PARAMETER then ''bad parameter''
      else if status = XBEE_AT_RESP_TX_FAIL then ''Tx failure''
      else ''unknown error'')"

definition xbee_cmd_callback ::
    "xbee_cmd_response \<Rightarrow> ('p, 'w console_state_scheme) at_state \<Rightarrow> int \<times> ('p, 'w console_state_scheme) at_state" where
  "xbee_cmd_callback response s =
     (let s = print (PrintCommand (re_command response)) s;
          status = (ucast (re_flags response AND XBEE_CMD_RESP_MASK_STATUS) :: u8);
          len = re_value_length response;
          bytes = map ((!) (re_value_bytes response)) [0..<unat len] in
      if re_flags response AND XBEE_CMD_RESP_FLAG_TIMEOUT \<noteq> 0 then (XBEE_ATCMD_DONE, print PrintTimedOut s)
      else if status \<noteq> 0 then (XBEE_ATCMD_DONE, print (PrintError (error_text status)) s)
      else if len = 0 then (XBEE_ATCMD_DONE, print PrintSuccess s)
      else
        let s = (if list_all c_isprint bytes then print (PrintText bytes) s else s) in
        (XBEE_ATCMD_DONE,
         if len \<le> 4 then print (PrintHex (2 * unat len) (re_value response)) s else print (PrintBytes bytes) s))"

text \<open>The application has this one callback and no command list.\<close>

definition app_env :: "('p, 'w console_state_scheme) at_env" where
  "app_env = \<lparr>ae_callback = (\<lambda>_. xbee_cmd_callback), ae_list = (\<lambda>_. [])\<rparr>"

lemma print_keep: "at_keep s (print item s)"
  by (simp add: print_def at_keep_def at_step_def at_wf_def busy_def same_sequences_def)

lemma xbee_cmd_callback_done: "fst (xbee_cmd_callback response s) = XBEE_ATCMD_DONE"
  by (simp add: xbee_cmd_callback_def Let_def)

lemma xbee_cmd_callback_keep: "at_keep s (snd (xbee_cmd_callback response s))"
  by (auto simp: xbee_cmd_callback_def Let_def intro!: at_keep_trans [OF _ print_keep] print_keep)

lemma xbee_cmd_callback_table: "as_table (snd (xbee_cmd_callback response s)) = as_table s"
  by (simp add: xbee_cmd_callback_def print_def Let_def)

interpretation app: at_application app_env
  by unfold_locales (simp_all add: app_env_def xbee_cmd_callback_keep)

end
