(* ===== verification/Xbee_Atcmd_Correct.thy ===== *)
theory Xbee_Atcmd_Correct
  imports App_Callback
begin

text \<open>
  Properties of the AT commands: parameters and values, time-outs, handles, what a request sends
  and which callback gets its response, expiry, and the query of a device.
\<close>

section \<open>Parameters and values\<close>

lemma word_cat_halves32: "word_cat (ucast (drop_bit 16 x) :: u16) (ucast x :: u16) = (x :: u32)"
  by (rule bit_word_eqI) (auto simp: bit_simps)

lemma bytes32_nth: "bytes32 x = [b3, b2, b1, b0] \<Longrightarrow> be32 b3 b2 b1 b0 = x"
  by (auto simp: bytes32_def be32_def bytes16_def be16_bytes word_cat_halves32)

lemma bytes16_nth: "bytes16 x = [b1, b0] \<Longrightarrow> be16 b1 b0 = x"
  by (auto simp: bytes16_def be16_bytes)

lemma high_bits_zero:
  fixes v :: "'a :: len word"
  assumes "n + m = LENGTH('a)"
  shows "v AND push_bit n (mask m) = 0 \<longleftrightarrow> unat v < 2 ^ n"
proof -
  have "push_bit n (mask m) = (NOT (mask n) :: 'a word)"
    using assms by (intro bit_word_eqI) (auto simp: bit_simps)
  moreover have "unat v < 2 ^ n \<longleftrightarrow> take_bit n v = v"
    using take_bit_nat_eq_self_iff [of n "unat v"] by (metis unsigned_take_bit_eq word_unat_eq_iff)
  moreover have "v AND NOT (mask n) = 0 \<longleftrightarrow> take_bit n v = v"
    by (auto simp: bit_eq_iff bit_simps)
  ultimately show ?thesis by simp
qed

lemma mask_literals: "0xFFFF0000 = push_bit 16 (mask 16 :: u32)" "0xFF00 = push_bit 8 (mask 8 :: u16)"
  by (code_simp, code_simp)

lemma small_u32: "v AND 0xFFFF0000 = 0 \<longleftrightarrow> unat (v :: u32) < 65536"
  using high_bits_zero [of 16 16 v] by (simp add: mask_literals(1))

lemma small_u16: "w AND 0xFF00 = 0 \<longleftrightarrow> unat (w :: u16) < 256"
  using high_bits_zero [of 8 8 w] by (simp add: mask_literals(2))

text \<open>
  a parameter given as a number is sent in the least of 1, 2 and 4 bytes that hold it, and a
  value of these bytes in a response is read back as the same number.
\<close>

theorem at_param_value_roundtrip:
  "response_value (xbee_cmd_encode_param v) (of_nat (length (xbee_cmd_encode_param v))) = v \<and>
   length (xbee_cmd_encode_param v) = (if unat v < 256 then 1 else if unat v < 65536 then 2 else 4)"
proof -
  have low: "unat (ucast v :: u16) = unat v" if "unat v < 65536"
    using that by (simp add: unsigned_ucast_eq unsigned_take_bit_eq take_bit_nat_eq_self)
  show ?thesis
  proof (cases "unat v < 65536")
    case False
    then show ?thesis using bytes32_nth [of v] 
      by (simp add: xbee_cmd_encode_param_def small_u32 response_value_def bytes32_def bytes16_def)
  next
    case True
    show ?thesis
    proof (cases "unat v < 256")
      case small: True
      then have "ucast (ucast v :: u8) = v"
        by (intro word_unat_eq_iff [THEN iffD2]) (simp add: unsigned_ucast_eq unsigned_take_bit_eq take_bit_nat_eq_self)
      then show ?thesis using True small low
        by (simp add: xbee_cmd_encode_param_def small_u32 small_u16 response_value_def)
    next
      case large: False
      have "ucast (ucast v :: u16) = v" using True
        by (intro word_unat_eq_iff [THEN iffD2]) (simp add: unsigned_ucast_eq unsigned_take_bit_eq take_bit_nat_eq_self)
      then show ?thesis using True large low bytes16_nth [of "ucast v"]
        by (simp add: xbee_cmd_encode_param_def small_u32 small_u16 response_value_def bytes16_def)
    qed
  qed
qed

section \<open>Time-outs\<close>

text \<open>
  the check of a time-out set \<open>delay\<close> seconds ahead holds from the second it is due on, for
  32768 seconds, in spite of the 16-bit arithmetic and of the wrap of the 32-bit seconds counter.
\<close>

theorem at_timeout_exact:
  assumes "unat delay < 32768" "e < 32768 + unat delay"
  shows "XBEE_CHECK_TIMEOUT_SEC (XBEE_SET_TIMEOUT_SEC delay s) (s\<lparr>as_seconds := as_seconds s + of_nat e\<rparr>)
    \<longleftrightarrow> unat delay \<le> e"
proof -
  let ?t = "int e - int (unat delay)"
  have "ucast (as_seconds s + of_nat e) = (ucast (as_seconds s) + word_of_int (int e) :: u16)"
    using ucast_add_u16 [of "as_seconds s" "int e"] by simp
  then have eq: "ucast (as_seconds s + of_nat e) - (ucast (as_seconds s) + delay) = (word_of_int ?t :: u16)"
    by (simp only:) simp
  have "sint (word_of_int ?t :: u16) = ?t" using assms s16_id [of ?t] unfolding s16_def by linarith
  moreover have now: "as_seconds (s\<lparr>as_seconds := as_seconds s + of_nat e\<rparr>) = as_seconds s + of_nat e" by simp
  ultimately show ?thesis
    unfolding XBEE_CHECK_TIMEOUT_SEC_def XBEE_SET_TIMEOUT_SEC_def now eq by linarith
qed

section \<open>Allocation, release and expiry\<close>

text \<open>
  C9: \<open>xbee_cmd_create\<close> returns: with a table in order, an application whose callbacks release no
  request, and at most the given device unregistered, four nested calls are enough, and the result
  is \<open>ENOSPC\<close> or a handle that names a new request for the device and the command.
\<close>

theorem xbee_cmd_create_returns:
  assumes "at_application env" "at_wf s" "\<forall>e. e \<noteq> d \<longrightarrow> dev_flag e XBEE_DEV_FLAG_CMD_INIT s" "4 \<le> n"
  shows "\<exists>r s'. xbee_cmd_create env n (Some d) (Some cmd) s = Some (r, s') \<and> at_wf s' \<and> all_init s' \<and> created d cmd r s'"
proof -
  obtain m where "n = 4 + m" using assms(4) le_Suc_ex by blast
  then have n: "n = Suc (Suc (Suc (Suc m)))" by simp
  let ?C = "xbee_cmd_create env (Suc (Suc (Suc m)))"
  show ?thesis
  proof (cases "dev_flag d XBEE_DEV_FLAG_CMD_INIT s")
    case True
    then have "all_init s" using assms(3) by (auto simp: all_init_def)
    then show ?thesis
      using at_application.create_total [OF assms(1,2), of "Suc m" d cmd] at_step_wf [OF assms(2)] at_step_all_init [OF assms(2)]
      unfolding n by blast
  next
    case False
    define t where "t = table_init s"
    have t: "at_wf t" "as_initialized t \<noteq> 0" "as_dev t = as_dev s"
      using at_step_wf [OF assms(2) at_keep_step [OF table_init_keep]] by (simp_all add: t_def table_init_initialized)
    define u where "u = set_dev_flags d XBEE_DEV_FLAG_CMD_INIT t"
    have tu: "at_step t u" unfolding u_def by (rule at_keep_step [OF set_dev_flags_keep])
    have u: "at_wf u" "as_initialized u \<noteq> 0" using at_step_wf [OF t(1) tu] tu t(1,2) by (auto simp: at_step_def)
    have "bit (xd_flags (as_dev t d) OR XBEE_DEV_FLAG_CMD_INIT) 0" by (simp add: bit_simps)
    then have ui: "all_init u"
      using assms(3) t(3) unfolding flag_bit_0 [symmetric] by (auto simp: all_init_def u_def set_dev_flags_def update_dev_def)
    obtain r v where v: "xbee_cmd_init_device env ?C (Some d) t = Some (r, v)" "at_step u v"
    proof (cases "dev_flag d XBEE_DEV_FLAG_QUERY_BEGIN u")
      case True
      then show ?thesis using that False t(3) at_step_refl [of u]
        by (simp add: xbee_cmd_init_device_def u_def [symmetric] Let_def)
    next
      case no_query: False
      obtain r v where "xbee_cmd_query_device ?C (at_regs env ?C) (Some d) False u = Some (r, v)" "at_step u v"
        using at_creates.query_device_runs [OF at_application.started_calls [OF assms(1)], of u] u ui
        unfolding runs_def by blast
      then show ?thesis using that False no_query t(3)
        by (simp add: xbee_cmd_init_device_def u_def [symmetric] Let_def)
    qed
    have "at_wf v" "all_init v" "as_initialized v \<noteq> 0"
      using at_step_wf [OF u(1) v(2)] at_step_all_init [OF u(1) ui v(2)] v(2) u by (auto simp: at_step_def)
    then obtain q w where w: "create_rest env ?C d cmd v = Some (q, w)" "at_step v w" "created d cmd q w"
      using at_application.create_rest_result [OF assms(1), of v "Suc m" d cmd] by blast
    have "xbee_cmd_create env n (Some d) (Some cmd) s = Some (q, w)"
      unfolding n create_Suc [of env "Suc (Suc (Suc m))"]
      using False v(1) w(1) by (simp add: create_step_eq t_def [symmetric])
    then show ?thesis
      using w at_step_wf [OF \<open>at_wf v\<close>] at_step_all_init [OF \<open>at_wf v\<close> \<open>all_init v\<close>] by blast
  qed
qed

section \<open>Requests and responses\<close>

text \<open>What a successful call of \<open>xbee_cmd_send\<close> does to a request with a callback.\<close>

definition wire :: "nat \<Rightarrow> ('p, 'w) at_state \<Rightarrow> u8 list" where
  "wire d s = tx_sent (xd_stx (as_dev s d)) (sp_port (xd_serport (as_dev s d)))"

definition sent_request :: "nat \<Rightarrow> nat \<Rightarrow> ('p, 'w) at_state \<Rightarrow> xbee_cmd_request" where
  "sent_request d i s = (as_table s ! i)\<lparr>rq_frame_id := fst (dev_next_frame_id (Some d) s)\<rparr>"

lemma length_at_request_header: "length (rq_ieee r) = 8 \<Longrightarrow> length (at_request_header r) \<le> 15"
  by (simp add: at_request_header_def)

lemma dev_frame_write_sends:
  assumes "dev_frame_write (Some d) header (Some data) n s = (Inr r, s')"
    and "length header \<le> 255" "unat n \<le> length data" "unat n \<le> 255"
  shows "r = 0 \<and> wire d s' = wire d s @ frame_bytes (header @ take (unat n) data)"
proof -
  obtain x where x: "xbee_frame_write (Some (as_dev s d)) (Some header) (of_nat (length header)) (Some data) n 0 = (Inr r, Some x)"
    and s': "s' = update_dev d (\<lambda>_. x) s"
    using assms(1) frame_write_stx [of "as_dev s d" "Some header" "of_nat (length header)" "Some data" n 0]
    by (cases "xbee_frame_write (Some (as_dev s d)) (Some header) (of_nat (length header)) (Some data) n 0")
      (auto simp: dev_frame_write_def)
  have "unat (of_nat (length header) :: u16) = length header" using assms(2) by (simp add: unat_of_nat)
  then have "part_ok (Some header) (of_nat (length header))" "part (Some header) (of_nat (length header)) = header"
    using assms(2) by (simp_all add: part_ok_def part_def)
  moreover have "part_ok (Some data) n" "part (Some data) n = take (unat n) data"
    using assms(3,4) by (simp_all add: part_ok_def part_def)
  ultimately obtain tx where "r = 0" "x = (as_dev s d)\<lparr>xd_stx := tx\<rparr>"
    "tx_sent tx (sp_port (xd_serport (as_dev s d))) = wire d s @ frame_bytes (header @ take (unat n) data)"
    using xbee_frame_write_sends [OF x] by (auto simp: wire_def)
  then show ?thesis by (simp add: s' wire_def update_dev_def)
qed

lemma xbee_cmd_send_success:
  assumes "xbee_cmd_send h s = (Inr 0, s')" "xbee_cmd_handle_to_address h s = Some i" "at_wf s"
    and "rq_device (as_table s ! i) = Some d" "rq_callback (as_table s ! i) \<noteq> None" "length (rq_ieee (as_table s ! i)) = 8"
  defines "r \<equiv> sent_request d i s"
  shows "rq_frame_id r \<noteq> 0"
    "wire d s' = wire d s @ frame_bytes (at_request_header r @ take (unat (rq_param_length r)) (rq_param r))"
    "as_table s' = (as_table s)[i := r\<lparr>rq_timeout := XBEE_SET_TIMEOUT_SEC
       (if rq_flags r AND XBEE_CMD_FLAG_REMOTE \<noteq> 0 then XBEE_CMD_REMOTE_TIMEOUT else XBEE_CMD_LOCAL_TIMEOUT) s\<rparr>]"
proof -
  have i: "i < length (as_table s)" using assms(2,3) handle_to_address_less by (auto simp: at_wf_def)
  let ?id = "fst (dev_next_frame_id (Some d) s)"
  have r: "r = (as_table s ! i)\<lparr>rq_frame_id := ?id\<rparr>" by (simp add: r_def sent_request_def)
  show nz: "rq_frame_id r \<noteq> 0" using dev_next_frame_id_nonzero [of "Some d" s] by (simp add: r)
  define t where "t = send_id i s"
  have t: "as_table t = (as_table s)[i := r]" "as_seconds t = as_seconds s" "wire d t = wire d s"
    using assms(4,5) r unfolding t_def
    by (auto simp: send_id_def Let_def case_prod_unfold update_request_def wire_def dev_next_frame_id_some update_dev_def)
  obtain u where u: "send_frame i t = (Inr 0, u)" "s' = send_done i u"
    using assms(1,2) by (auto simp: xbee_cmd_send_def t_def [symmetric] Let_def case_prod_unfold prod_eq_iff split: if_splits)
  have tab: "as_table u = (as_table s)[i := r]" using u(1) send_frame_table [of i t] t(1) by simp
  have wf: "request_wf r" "rq_device r = Some d" "length (rq_ieee r) = 8"
    using assms(2-4,6) less_two_cases [OF handle_to_address_less [OF assms(2)]] by (auto simp: r at_wf_def request_wf_def)
  have sec: "as_seconds u = as_seconds s"
    using u(1) t(2) by (auto simp: send_frame_def dev_frame_write_def update_dev_def Let_def case_prod_unfold split: option.splits)
  have "dev_frame_write (Some d) (at_request_header r) (Some (rq_param r)) (ucast (rq_param_length r)) t = (Inr 0, u)"
    using u(1) t(1) i wf(2) by (simp add: send_frame_def)
  moreover have "unat (ucast (rq_param_length r) :: u16) = unat (rq_param_length r)"
    using less_trans [OF unat_u8_bound [of "rq_param_length r"], of 65536]
    by (simp add: unsigned_ucast_eq take_bit_nat_eq_self)
  ultimately have "wire d u = wire d s @ frame_bytes (at_request_header r @ take (unat (rq_param_length r)) (rq_param r))"
    using dev_frame_write_sends [of d "at_request_header r" "rq_param r" "ucast (rq_param_length r)" t 0 u]
      length_at_request_header [OF wf(3)] wf(1) t(3) by (simp add: request_wf_def)
  moreover have s': "s' = update_request i (\<lambda>r. r\<lparr>rq_timeout := XBEE_SET_TIMEOUT_SEC
       (if rq_flags r AND XBEE_CMD_FLAG_REMOTE \<noteq> 0 then XBEE_CMD_REMOTE_TIMEOUT else XBEE_CMD_LOCAL_TIMEOUT) u\<rparr>) u"
    using u(2) tab i nz by (simp add: send_done_def)
  ultimately show "wire d s' = wire d s @ frame_bytes (at_request_header r @ take (unat (rq_param_length r)) (rq_param r))"
    by (simp add: wire_def update_request_def)
  show "as_table s' = (as_table s)[i := r\<lparr>rq_timeout := XBEE_SET_TIMEOUT_SEC
       (if rq_flags r AND XBEE_CMD_FLAG_REMOTE \<noteq> 0 then XBEE_CMD_REMOTE_TIMEOUT else XBEE_CMD_LOCAL_TIMEOUT) s\<rparr>]"
    using s' tab i sec by (simp add: update_request_def XBEE_SET_TIMEOUT_SEC_def)
qed

text \<open>The frame in which a module answers a request, with its status and the bytes of a value.\<close>

definition at_reply :: "xbee_cmd_request \<Rightarrow> u8 \<Rightarrow> u8 list \<Rightarrow> u8 list" where
  "at_reply r status bytes =
     (if rq_flags r AND XBEE_CMD_FLAG_REMOTE = 0
      then [XBEE_FRAME_LOCAL_AT_RESPONSE, rq_frame_id r] @ bytes16 (rq_command r) @ [status] @ bytes
      else [XBEE_FRAME_REMOTE_AT_RESPONSE, rq_frame_id r] @ rq_ieee r @ bytes16 (rq_network r) @
           bytes16 (rq_command r) @ [status] @ bytes)"

lemma at_reply_fields:
  assumes "length (rq_ieee r) = 8" "length bytes < 256"
  shows "at_response_fields (at_reply r status bytes) (of_nat (length (at_reply r status bytes))) = Some
    \<lparr>af_local = (rq_flags r AND XBEE_CMD_FLAG_REMOTE = 0), af_id = rq_frame_id r, af_command = rq_command r,
     af_status = status, af_value = bytes, af_length = of_nat (length bytes),
     af_source = (if rq_flags r AND XBEE_CMD_FLAG_REMOTE = 0 then None else Some (rq_ieee r, rq_network r))\<rparr>"
proof -
  obtain a0 a1 a2 a3 a4 a5 a6 a7 where ieee: "rq_ieee r = [a0, a1, a2, a3, a4, a5, a6, a7]"
    using assms(1) by (auto simp: length_Suc_conv numeral_eq_Suc)
  have n: "(ucast (of_nat (length bytes) :: u16) :: u8) = of_nat (length bytes)"
    using assms(2) by (simp add: word_unat_eq_iff unsigned_ucast_eq unat_of_nat take_bit_nat_eq_self)
  obtain c1 c0 where c: "bytes16 (rq_command r) = [c1, c0]" by (simp add: bytes16_def)
  obtain n1 n0 where net: "bytes16 (rq_network r) = [n1, n0]" by (simp add: bytes16_def)
  show ?thesis
    using n by (simp add: at_response_fields_def at_reply_def ieee c net bytes16_nth [OF c] bytes16_nth [OF net])
qed

text \<open>
  C7: request and response belong together.  When \<open>xbee_cmd_send\<close> has sent a request that has a
  callback, the bytes on the line are the frame with the command, a fresh nonzero frame identifier
  and the parameter; the module's answer, received in that state, calls that callback once, with
  the request's handle, context and command and the status and value of the answer, and frees the
  entry unless the callback asks to keep it.
\<close>

theorem at_request_answered:
  assumes "xbee_cmd_send h s = (Inr 0, s')" "xbee_cmd_handle_to_address h s = Some i" "at_wf s"
    and "rq_device (as_table s ! i) = Some d" "rq_callback (as_table s ! i) = Some f" "f \<noteq> 0"
    and "length (rq_ieee (as_table s ! i)) = 8" "length bytes < 256"
    and "rq_device (as_table s ! (1 - i)) = Some d \<longrightarrow> rq_frame_id (as_table s ! (1 - i)) \<noteq> rq_frame_id (sent_request d i s)"
  shows "wire d s' = wire d s @ frame_bytes (at_request_header (sent_request d i s) @
      take (unat (rq_param_length (as_table s ! i))) (rq_param (as_table s ! i))) \<and>
    (\<exists>response. re_handle response = h \<and> re_context response = rq_context (as_table s ! i) \<and>
      re_command response = rq_command (as_table s ! i) \<and> re_flags response = ucast status \<and>
      re_value_bytes response = bytes \<and> re_value response = response_value bytes (of_nat (length bytes)) \<and>
      xbee_cmd_handle_response env create d (Some (at_reply (sent_request d i s) status bytes))
          (of_nat (length (at_reply (sent_request d i s) status bytes))) s' =
        (let (reuse, t) = ae_callback env f response s' in
         Some (Inr 0, if reuse = XBEE_ATCMD_REUSE
           then update_request i (\<lambda>r. r\<lparr>rq_timeout := XBEE_SET_TIMEOUT_SEC 5 t\<rparr>) t
           else snd (xbee_cmd_release_request (Some i) t))))"
proof -
  define r where "r = sent_request d i s"
  note sent = xbee_cmd_send_success [OF assms(1-4) _ assms(7), folded r_def]
  have i: "i < 2" "length (as_table s) = 2" using assms(2,3) handle_to_address_less by (auto simp: at_wf_def)
  have r: "rq_device r = Some d" "rq_callback r = Some f" "length (rq_ieee r) = 8"
    "rq_context r = rq_context (as_table s ! i)" "rq_command r = rq_command (as_table s ! i)"
    "rq_param r = rq_param (as_table s ! i)" "rq_param_length r = rq_param_length (as_table s ! i)"
    "rq_sequence r = rq_sequence (as_table s ! i)"
    using assms(4,5,7) by (simp_all add: r_def sent_request_def)
  let ?t = "XBEE_SET_TIMEOUT_SEC (if rq_flags r AND XBEE_CMD_FLAG_REMOTE \<noteq> 0 then XBEE_CMD_REMOTE_TIMEOUT else XBEE_CMD_LOCAL_TIMEOUT) s"
  have tab: "as_table s' = (as_table s)[i := r\<lparr>rq_timeout := ?t\<rparr>]" using sent(3) assms(5) by simp
  define af where "af = \<lparr>af_local = (rq_flags r AND XBEE_CMD_FLAG_REMOTE = 0), af_id = rq_frame_id r, af_command = rq_command r,
     af_status = status, af_value = bytes, af_length = of_nat (length bytes),
     af_source = (if rq_flags r AND XBEE_CMD_FLAG_REMOTE = 0 then None else Some (rq_ieee r, rq_network r))\<rparr>"
  have fields: "at_response_fields (at_reply r status bytes) (of_nat (length (at_reply r status bytes))) = Some af"
    unfolding af_def by (rule at_reply_fields [OF r(3) assms(8)])
  have match: "matches_request d af (as_table s' ! i)"
    using i r by (simp add: tab matches_request_def af_def)
  have other: "\<not> matches_request d af (as_table s' ! (1 - i))"
    using i assms(9) less_two_cases [OF i(1)] by (auto simp: tab matches_request_def af_def r_def)
  have find: "find_request d af (as_table s') = Some i"
    using match other less_two_cases [OF i(1)] by (auto simp: find_request_def upt_rec)
  have handle: "request_handle i s' = h"
  proof -
    have "request_handle i s' = request_handle i s" using i r(8) by (simp add: request_handle_def tab)
    also have "\<dots> = h"
      using assms(2) by (auto simp: request_handle_def xbee_cmd_handle_to_address_def Let_def split: if_splits)
    finally show ?thesis .
  qed
  define response where "response = build_response d af i s'"
  have resp: "re_handle response = h" "re_context response = rq_context (as_table s ! i)"
    "re_command response = rq_command (as_table s ! i)" "re_flags response = ucast status"
    "re_value_bytes response = bytes" "re_value response = response_value bytes (of_nat (length bytes))"
    using i r handle by (simp_all add: response_def build_response_def af_def tab)
  have "xbee_cmd_handle_response env create d (Some (at_reply r status bytes)) (of_nat (length (at_reply r status bytes))) s' =
    (let (reuse, t) = ae_callback env f response s' in
     Some (Inr 0, if reuse = XBEE_ATCMD_REUSE
       then update_request i (\<lambda>r. r\<lparr>rq_timeout := XBEE_SET_TIMEOUT_SEC 5 t\<rparr>) t
       else snd (xbee_cmd_release_request (Some i) t)))"
    using fields find r(2) i assms(6) by (simp add: xbee_cmd_handle_response_def tab call_callback_def response_def Let_def case_prod_unfold)
  then show ?thesis
    using resp sent(2) assms(5) r unfolding r_def [symmetric] by auto
qed

lemma length_response_dump: "length (response_dump bytes n) = 5 + 2 * unat n"
  by (simp add: response_dump_def length_concat comp_def sum_list_triv)

text \<open>
  a response that matches no request is dropped when its value has at most 47 bytes; a longer one
  is printed in hexadecimal into a buffer of 100 characters that it does not fit in, and so is the
  response with a frame too short for its fixed fields, whose length wraps.
\<close>

theorem at_unmatched_response_overflow:
  assumes "at_response_fields frame n = Some f" "find_request d f (as_table s) = None"
  shows "xbee_cmd_handle_response env create d (Some frame) n s = (if unat (af_length f) \<le> 47 then Some (Inr 0, s) else None) \<and>
    (unat n < 5 \<longrightarrow> 47 < unat (af_length f))"
proof
  show "xbee_cmd_handle_response env create d (Some frame) n s = (if unat (af_length f) \<le> 47 then Some (Inr 0, s) else None)"
    using assms by (simp add: xbee_cmd_handle_response_def length_response_dump)
  show "unat n < 5 \<longrightarrow> 47 < unat (af_length f)"
  proof
    assume "unat n < 5"
    then have "unat n \<in> {0, 1, 2, 3, 4}" by auto
    then have "n \<in> {0, 1, 2, 3, 4}" by (simp add: word_unat_eq_iff)
    then have "47 < unat (ucast (n - 5) :: u8) \<and> 47 < unat (ucast (n - 15) :: u8)"
      by (elim insertE emptyE; hypsubst; code_simp)
    then show "47 < unat (af_length f)"
      using assms(1) by (auto simp: at_response_fields_def split: if_splits)
  qed
qed

section \<open>Querying a device\<close>

definition dev_info :: "'w xbee_dev \<Rightarrow> u16 \<times> u32 \<times> u8 list \<times> u16 \<times> u16 \<times> u16 \<times> u16" where
  "dev_info x = (xd_hardware_version x, xd_firmware_version x, xd_ieee x, xd_payload x, xd_network x, xd_wpan_flags x, xd_flags x)"

definition query_context :: "nat \<Rightarrow> nat \<Rightarrow> xbee_command_list_context" where
  "query_context d k = \<lparr>lc_list = 0, lc_first = 0, lc_base = d, lc_status = XBEE_COMMAND_LIST_RUNNING, lc_index = of_nat k\<rparr>"

definition query_reply :: "nat \<Rightarrow> int \<Rightarrow> u16 \<Rightarrow> u8 list \<Rightarrow> xbee_cmd_response" where
  "query_reply d h cmd bytes =
     \<lparr>re_device = d, re_context = 0, re_handle = h, re_command = cmd, re_flags = 0,
      re_value_length = of_nat (length bytes), re_value_bytes = bytes,
      re_value = response_value bytes (of_nat (length bytes)), re_source = None\<rparr>"

lemma dev_frame_write_dev:
  "dev_info (as_dev (snd (dev_frame_write device header data n s)) d) = dev_info (as_dev s d)"
  "as_lists (snd (dev_frame_write device header data n s)) = as_lists s"
proof -
  show "as_lists (snd (dev_frame_write device header data n s)) = as_lists s"
    by (simp add: dev_frame_write_def update_dev_def case_prod_unfold split: option.splits)
  show "dev_info (as_dev (snd (dev_frame_write device header data n s)) d) = dev_info (as_dev s d)"
    using frame_write_stx [of "as_dev s (the device)" "Some header" "of_nat (length header)" data n 0]
    by (cases device) (auto simp: dev_frame_write_def update_dev_def case_prod_unfold dev_info_def)
qed

lemma on_request_dev: "as_dev (snd (on_request h f s)) = as_dev s" "as_lists (snd (on_request h f s)) = as_lists s"
  by (simp_all add: on_request_def update_request_def split: option.splits)

lemma release_dev: "as_dev (snd (xbee_cmd_release_request r s)) = as_dev s" "as_lists (snd (xbee_cmd_release_request r s)) = as_lists s"
  by (simp_all add: xbee_cmd_release_request_def update_request_def split: option.splits)

lemma xbee_cmd_send_dev:
  "dev_info (as_dev (snd (xbee_cmd_send h s)) d) = dev_info (as_dev s d)"
  "as_lists (snd (xbee_cmd_send h s)) = as_lists s"
proof -
  have id: "dev_info (as_dev (send_id i s) d) = dev_info (as_dev s d)" "as_lists (send_id i s) = as_lists s" for i
    by (auto simp: send_id_def Let_def case_prod_unfold update_request_def dev_next_frame_id_def xbee_next_frame_id_def
        update_dev_def dev_info_def split: option.splits)
  have frame: "dev_info (as_dev (snd (send_frame i s)) d) = dev_info (as_dev s d)" "as_lists (snd (send_frame i s)) = as_lists s" for i s
    by (simp_all add: send_frame_def Let_def dev_frame_write_dev)
  have last: "as_dev (send_done i s) = as_dev s" "as_lists (send_done i s) = as_lists s" for i s
    by (simp_all add: send_done_def Let_def update_request_def release_dev)
  show "dev_info (as_dev (snd (xbee_cmd_send h s)) d) = dev_info (as_dev s d)" "as_lists (snd (xbee_cmd_send h s)) = as_lists s"
    by (simp_all add: xbee_cmd_send_def Let_def case_prod_unfold id frame last split: option.splits)
qed

text \<open>What each entry of the list does to the device.\<close>

definition query_entry :: "nat \<Rightarrow> xbee_cmd_response \<Rightarrow> nat \<Rightarrow> ('p, 'w) at_state \<Rightarrow> ('p, 'w) at_state" where
  "query_entry k response d s =
     (let reg = query_regs_with (\<lambda>_ _ _. Some) ! k in
      if k = 4 then xbee_cmd_query_handle_eo response d s
      else if k = 5 then xbee_cmd_query_handle_ai response d s
      else store_response reg response d s)"

lemma nat_less_8_cases: "k < 8 \<Longrightarrow> k \<in> {0, 1, 2, 3, 4, 5, 6, 7 :: nat}"
  by auto

lemma update_dev_lists [simp]: "as_lists (update_dev d f s) = as_lists s"
  by (simp add: update_dev_def)

lemma query_entry_lists [simp]: "k < 8 \<Longrightarrow> as_lists (query_entry k response d s) = as_lists s"
  using nat_less_8_cases [of k]
  by (auto simp: query_entry_def Let_def query_regs_with_def reg_copy_def store_response_def
      xbee_cmd_query_handle_eo_def xbee_cmd_query_handle_ai_def)

lemma set_param_bytes_dev:
  "as_dev (snd (xbee_cmd_set_param_bytes h bytes n s)) = as_dev s" "as_lists (snd (xbee_cmd_set_param_bytes h bytes n s)) = as_lists s"
  by (simp_all add: xbee_cmd_set_param_bytes_def on_request_dev)

text \<open>The commands of the query list, and what its entries have in common.\<close>

definition query_commands :: "u16 list" where
  "query_commands =
     [at_cmd CHR ''H'' CHR ''V'', at_cmd CHR ''V'' CHR ''R'', at_cmd CHR ''S'' CHR ''H'', at_cmd CHR ''S'' CHR ''L'',
      at_cmd CHR ''E'' CHR ''O'', at_cmd CHR ''A'' CHR ''I'', at_cmd CHR ''N'' CHR ''P'', at_cmd CHR ''M'' CHR ''Y'']"

lemma query_reg_facts:
  assumes "k < 8"
  shows "ar_command (query_regs_with fin ! k) = query_commands ! k"
    "ar_command (query_regs_with fin ! k) \<noteq> 0"
    "ar_type (query_regs_with fin ! k) \<in> {XBEE_CLT_NONE, XBEE_CLT_COPY, XBEE_CLT_COPY_BE}"
    "store_response (query_regs_with fin ! k) = store_response (query_regs_with fin' ! k)"
    "ar_callback (query_regs_with fin ! k) =
      (if k = 4 then Some (\<lambda>response _ base s. Some (xbee_cmd_query_handle_eo response base s))
       else if k = 5 then Some (\<lambda>response _ base s. Some (xbee_cmd_query_handle_ai response base s)) else None)"
    "k \<in> {4, 5} \<longrightarrow> store_response (query_regs_with fin ! k) = (\<lambda>_ _ s. s)"
proof -
  note simps = query_regs_with_def query_commands_def reg_copy_def reg_cb_def
  have k: "k \<in> {0, 1, 2, 3, 4, 5, 6, 7}" using assms by auto
  show "ar_command (query_regs_with fin ! k) = query_commands ! k"
    "ar_command (query_regs_with fin ! k) \<noteq> 0"
    "ar_type (query_regs_with fin ! k) \<in> {XBEE_CLT_NONE, XBEE_CLT_COPY, XBEE_CLT_COPY_BE}"
    "store_response (query_regs_with fin ! k) = store_response (query_regs_with fin' ! k)"
    using k query_cmds_nonzero by (auto simp: simps)
  show "ar_callback (query_regs_with fin ! k) =
      (if k = 4 then Some (\<lambda>response _ base s. Some (xbee_cmd_query_handle_eo response base s))
       else if k = 5 then Some (\<lambda>response _ base s. Some (xbee_cmd_query_handle_ai response base s)) else None)"
    using k by (auto simp: simps)
  show "k \<in> {4, 5} \<longrightarrow> store_response (query_regs_with fin ! k) = (\<lambda>_ _ s. s)"
    by (auto simp: simps store_response_def fun_eq_iff)
qed


lemma query_step:
  assumes "as_lists s 0 = query_context d k" "k < 7"
    and "re_command response = query_commands ! k" "re_flags response = 0" "re_context response = 0"
  shows "\<exists>t. xbee_cmd_list_callback C (at_regs env C) response s = Some (XBEE_ATCMD_REUSE, t) \<and>
    as_lists t 0 = query_context d (Suc k) \<and> dev_info (as_dev t d) = dev_info (as_dev (query_entry k response d s) d)"
proof -
  let ?regs = "at_regs env C" and ?fin = "xbee_cmd_query_handle_end C (command_regs env)"
  have reg: "reg_at ?regs (query_context d j) j = query_regs_with ?fin ! j" for j
    by (simp add: reg_at_def at_regs_def xbee_atcmd_query_regs_def query_context_def)
  have k: "k < 8" "unat (of_nat k :: u16) = k" "Suc k < 8" "unat (of_nat k + 1 :: u16) = Suc k"
    using assms(2) by (simp_all add: unat_of_nat unat_word_ariths)
  define u where "u = query_entry k response d s"
  have u: "call_reg (query_regs_with ?fin ! k) response True d (store_response (query_regs_with ?fin ! k) response d s) = Some u"
    using query_reg_facts(5,6) [OF k(1), of ?fin] query_reg_facts(4) [OF k(1), of ?fin "\<lambda>_ _ _. Some"]
    by (auto simp: u_def query_entry_def call_reg_def Let_def)
  define v where "v = update_list 0 (\<lambda>lc. lc\<lparr>lc_index := lc_index lc + 1\<rparr>) u"
  have v: "as_lists v 0 = query_context d (Suc k)" "as_dev v = as_dev u"
    using assms(1) k by (simp_all add: v_def update_list_def u_def query_context_def add.commute)
  obtain w where w: "xbee_cmd_issue_list C ?regs (Some (re_device response)) 0 (Some (re_handle response)) v = Some (Inr (re_handle response), w)"
    "as_lists w = as_lists v" "as_dev w = as_dev v"
    using v(1) reg [of "Suc k"] query_reg_facts(3) [OF k(3), of ?fin] k(4)
    by (fastforce simp: xbee_cmd_issue_list_def query_context_def add.commute set_list_param_def xbee_cmd_set_command_def
        on_request_dev set_param_bytes_dev Let_def)
  have ok: "re_flags response AND XBEE_CMD_RESP_FLAG_TIMEOUT = 0" "re_flags response AND XBEE_CMD_RESP_MASK_STATUS = XBEE_AT_RESP_SUCCESS"
    using assms(4) by simp_all
  have idx: "unat (lc_index (query_context d j)) = j" if "j < 9" for j
    using that by (simp add: query_context_def unat_of_nat)
  have "xbee_cmd_list_callback C ?regs response s = Some (XBEE_ATCMD_REUSE, snd (xbee_cmd_send (re_handle response) w))"
  proof -
    have base: "lc_base (query_context d k) = d" by (simp add: query_context_def)
    have cmd: "re_command response = ar_command (query_regs_with ?fin ! k)"
      using assms(3) query_reg_facts(1) [OF k(1), of ?fin] by simp
    have nz: "ar_command (query_regs_with ?fin ! Suc k) \<noteq> 0" "ar_type (query_regs_with ?fin ! Suc k) \<noteq> XBEE_CLT_LAST"
      using query_reg_facts(2,3) [OF k(3), of ?fin] by auto
    have i: "unat (lc_index (query_context d k)) = k" "unat (lc_index (query_context d (Suc k))) = Suc k"
      using assms(2) by (simp_all add: idx)
    show ?thesis
      unfolding xbee_cmd_list_callback_def Let_def assms(5) assms(1) base i reg
      by (simp add: ok cmd [symmetric] u v_def [symmetric] v(1) i reg nz w(1) Let_def del: update_list_def)
  qed
  then show ?thesis
    using w v xbee_cmd_send_dev [where h = "re_handle response" and s = w] by (simp add: u_def [symmetric])
qed

text \<open>The last response, after which the callback at the end of the list runs.\<close>

lemma query_end_flags:
  fixes f :: u16
  shows "f AND XBEE_DEV_FLAG_QUERY_ERROR = 0 \<Longrightarrow>
      (f AND NOT XBEE_DEV_FLAG_QUERY_INPROGRESS OR XBEE_DEV_FLAG_QUERY_DONE) AND XBEE_DEV_FLAG_QUERY_ERROR = 0"
    "f AND XBEE_DEV_FLAG_QUERY_REFRESH = 0 \<Longrightarrow>
      (f AND NOT XBEE_DEV_FLAG_QUERY_INPROGRESS OR XBEE_DEV_FLAG_QUERY_DONE) AND XBEE_DEV_FLAG_QUERY_REFRESH = 0"
proof -
  have bits: "w AND 8 = 0 \<longleftrightarrow> \<not> bit w 3" "w AND 16 = 0 \<longleftrightarrow> \<not> bit w 4" for w :: u16
    using and_exp_eq_0_iff_not_bit [of w 3] and_exp_eq_0_iff_not_bit [of w 4] by simp_all
  have num: "\<not> bit (4 :: u16) 3" "\<not> bit (4 :: u16) 4" by code_simp+
  show "f AND XBEE_DEV_FLAG_QUERY_ERROR = 0 \<Longrightarrow>
      (f AND NOT XBEE_DEV_FLAG_QUERY_INPROGRESS OR XBEE_DEV_FLAG_QUERY_DONE) AND XBEE_DEV_FLAG_QUERY_ERROR = 0"
    "f AND XBEE_DEV_FLAG_QUERY_REFRESH = 0 \<Longrightarrow>
      (f AND NOT XBEE_DEV_FLAG_QUERY_INPROGRESS OR XBEE_DEV_FLAG_QUERY_DONE) AND XBEE_DEV_FLAG_QUERY_REFRESH = 0"
    unfolding bits using num by (auto simp only: bit_or_iff bit_and_iff)
qed

lemma query_last:
  assumes "as_lists s 0 = query_context d 7" "xd_flags (as_dev s d) AND XBEE_DEV_FLAG_QUERY_ERROR = 0"
    "xd_flags (as_dev s d) AND XBEE_DEV_FLAG_QUERY_REFRESH = 0"
    and "re_command response = query_commands ! 7" "re_flags response = 0" "re_context response = 0"
  shows "\<exists>t. xbee_cmd_list_callback C (at_regs env C) response s = Some (XBEE_ATCMD_DONE, t) \<and>
    lc_status (as_lists t 0) = XBEE_COMMAND_LIST_DONE \<and>
    dev_info (as_dev t d) = dev_info ((as_dev (query_entry 7 response d s) d)\<lparr>
      xd_flags := xd_flags (as_dev s d) AND NOT XBEE_DEV_FLAG_QUERY_INPROGRESS OR XBEE_DEV_FLAG_QUERY_DONE\<rparr>)"
proof -
  let ?regs = "at_regs env C" and ?fin = "xbee_cmd_query_handle_end C (command_regs env)"
  have reg: "reg_at ?regs lc j = query_regs_with ?fin ! j" if "lc_list lc = 0" "lc_first lc = 0" for j lc
    using that by (simp add: reg_at_def at_regs_def xbee_atcmd_query_regs_def)
  have reg7: "ar_command (query_regs_with ?fin ! 7) = query_commands ! 7" "ar_callback (query_regs_with ?fin ! 7) = None"
    using query_reg_facts(1,5) [of 7 ?fin] by simp_all
  have reg8: "query_regs_with ?fin ! 8 = reg_cb 0 ?fin" by (simp add: query_regs_with_def)
  define u where "u = query_entry 7 response d s"
  have store: "store_response (query_regs_with ?fin ! 7) response d s = u"
    using query_reg_facts(4) [of 7 ?fin "\<lambda>_ _ _. Some"] by (simp add: u_def query_entry_def)
  have ud: "xd_flags (as_dev u d) = xd_flags (as_dev s d)" "as_lists u = as_lists s"
    by (simp_all add: u_def query_entry_def query_regs_with_def reg_copy_def store_response_def update_dev_def)
  define v where "v = update_list 0 (\<lambda>lc. lc\<lparr>lc_status := XBEE_COMMAND_LIST_DONE\<rparr>)
    (update_list 0 (\<lambda>lc. lc\<lparr>lc_index := lc_index lc + 1\<rparr>) u)"
  have v: "as_dev v = as_dev u" "lc_status (as_lists v 0) = XBEE_COMMAND_LIST_DONE"
    by (simp_all add: v_def update_list_def)
  have fin: "?fin response True d v = Some (set_dev_flags d XBEE_DEV_FLAG_QUERY_DONE (clear_dev_flags d XBEE_DEV_FLAG_QUERY_INPROGRESS v))"
    (is "_ = Some ?t")
  proof -
    have "xd_flags (as_dev ?t d) = xd_flags (as_dev s d) AND NOT XBEE_DEV_FLAG_QUERY_INPROGRESS OR XBEE_DEV_FLAG_QUERY_DONE"
      using v ud by (simp add: set_dev_flags_def clear_dev_flags_def update_dev_def)
    then have "\<not> dev_flag d XBEE_DEV_FLAG_QUERY_ERROR ?t" "\<not> dev_flag d XBEE_DEV_FLAG_QUERY_REFRESH ?t"
      using query_end_flags [of "xd_flags (as_dev s d)"] assms(2,3) by presburger+
    moreover have "re_flags response AND XBEE_CMD_RESP_FLAG_TIMEOUT = 0" using assms(5) by simp
    ultimately show ?thesis
      unfolding xbee_cmd_query_handle_end_def Let_def by presburger
  qed
  have "xbee_cmd_list_callback C ?regs response s =
    Some (XBEE_ATCMD_DONE, set_dev_flags d XBEE_DEV_FLAG_QUERY_DONE (clear_dev_flags d XBEE_DEV_FLAG_QUERY_INPROGRESS v))"
  proof -
    have ctx: "lc_base (query_context d 7) = d" "lc_list (query_context d 7) = 0" "lc_first (query_context d 7) = 0"
      "unat (lc_index (query_context d 7)) = 7" by (simp_all add: query_context_def)
    have idx: "unat (lc_index (as_lists (update_list 0 (\<lambda>lc. lc\<lparr>lc_index := lc_index lc + 1\<rparr>) u) 0)) = 8"
      "lc_list (as_lists (update_list 0 (\<lambda>lc. lc\<lparr>lc_index := lc_index lc + 1\<rparr>) u) 0) = 0"
      "lc_first (as_lists (update_list 0 (\<lambda>lc. lc\<lparr>lc_index := lc_index lc + 1\<rparr>) u) 0) = 0"
      using assms(1) ud(2) by (simp_all add: update_list_def query_context_def)
    have ok: "re_flags response AND XBEE_CMD_RESP_FLAG_TIMEOUT = 0" "re_flags response AND XBEE_CMD_RESP_MASK_STATUS = XBEE_AT_RESP_SUCCESS"
      using assms(5) by simp_all
    have cb: "call_reg (reg_cb 0 ?fin) response True d v =
      Some (set_dev_flags d XBEE_DEV_FLAG_QUERY_DONE (clear_dev_flags d XBEE_DEV_FLAG_QUERY_INPROGRESS v))"
      using fin by (simp add: call_reg_def reg_cb_def)
    have cmd: "re_command response = ar_command (query_regs_with ?fin ! 7)" using assms(4) reg7(1) by simp
    have no: "call_reg (query_regs_with ?fin ! 7) response True d x = Some x" for x
      using reg7(2) by (simp add: call_reg_def)
    show ?thesis
      unfolding xbee_cmd_list_callback_def Let_def assms(6) assms(1) ctx reg [OF ctx(2,3)]
      by (simp add: ok cmd [symmetric] store no idx reg [OF idx(2,3)] reg8 v_def [symmetric] cb)
        (simp add: reg_cb_def)
  qed
  then show ?thesis
    using v ud by (simp add: set_dev_flags_def clear_dev_flags_def update_dev_def dev_info_def u_def)
qed

fun answer_query ::
    "('p, 'w) at_env \<Rightarrow> ('p, 'w) at_create \<Rightarrow> xbee_cmd_response list \<Rightarrow> ('p, 'w) at_state \<Rightarrow> (int \<times> ('p, 'w) at_state) option" where
  "answer_query env C [] s = Some (XBEE_ATCMD_REUSE, s)"
| "answer_query env C (r # rs) s =
     (case xbee_cmd_list_callback C (at_regs env C) r s of
        Some (reuse, s) \<Rightarrow> if reuse = XBEE_ATCMD_REUSE then answer_query env C rs s else Some (reuse, s)
      | None \<Rightarrow> None)"

text \<open>The fields of the device that the entries of the list set, as a function of the responses.\<close>

definition wpan_auth :: "u32 \<Rightarrow> u16 \<Rightarrow> u16" where
  "wpan_auth eo wpan = (if eo AND XBEE_CMD_ATEO_USE_AUTHENTICATION \<noteq> 0 then wpan OR WPAN_FLAG_AUTHENTICATION_ENABLED
                        else wpan AND NOT WPAN_FLAG_AUTHENTICATION_ENABLED)"

definition wpan_join :: "u32 \<Rightarrow> u16 \<Rightarrow> u16" where
  "wpan_join ai wpan =
     (if ai = 0 then
        let flags = wpan OR WPAN_FLAG_JOINED
        in if flags AND WPAN_FLAG_AUTHENTICATION_ENABLED \<noteq> 0 then flags OR WPAN_FLAG_AUTHENTICATED else flags
      else wpan)"

fun info_entry ::
    "nat \<Rightarrow> xbee_cmd_response \<Rightarrow> u16 \<times> u32 \<times> u8 list \<times> u16 \<times> u16 \<times> u16 \<times> u16
     \<Rightarrow> u16 \<times> u32 \<times> u8 list \<times> u16 \<times> u16 \<times> u16 \<times> u16" where
  "info_entry k r (hw, fw, ieee, payload, network, wpan, flags) =
     (let copy = take 4 (re_value_bytes r) in
      if k = 0 then (ucast (re_value r), fw, ieee, payload, network, wpan, flags)
      else if k = 1 then (hw, re_value r, ieee, payload, network, wpan, flags)
      else if k = 2 then (hw, fw, copy @ drop 4 ieee, payload, network, wpan, flags)
      else if k = 3 then (hw, fw, take 4 ieee @ copy, payload, network, wpan, flags)
      else if k = 4 then (hw, fw, ieee, payload, network, wpan_auth (re_value r) wpan, flags)
      else if k = 5 then (hw, fw, ieee, payload, network, wpan_join (re_value r) wpan, flags)
      else if k = 6 then (hw, fw, ieee, ucast (re_value r), network, wpan, flags)
      else (hw, fw, ieee, payload, ucast (re_value r), wpan, flags))"

lemma ucast_u32_u16: "ucast (ucast w :: u32) = (w :: u16)"
  by (rule bit_word_eqI) (simp add: bit_simps)

lemma bytes16_word: "word_of_bytes16 (bytes16 w) = w"
  using bytes16_nth [of w] by (simp add: word_of_bytes16_def bytes16_def)

lemma bytes32_word: "word_of_bytes32 (bytes32 w) = w"
  using bytes32_nth [of w] by (simp add: word_of_bytes32_def bytes32_def bytes16_def)

lemma query_entry_info:
  assumes "k < 8" "re_flags r = 0" "k \<in> {2, 3} \<Longrightarrow> re_value_length r = 4 \<and> length (re_value_bytes r) = 4"
  shows "dev_info (as_dev (query_entry k r d s) d) = info_entry k r (dev_info (as_dev s d))"
proof -
  have k: "k \<in> {0, 1, 2, 3, 4, 5, 6, 7}" using assms(1) by auto
  then show ?thesis
    using assms(2,3)
    by (elim insertE emptyE; hypsubst)
      (simp_all add: query_entry_def query_regs_with_def reg_copy_def store_response_def update_dev_def dev_info_def
        bytes16_word bytes32_word xbee_cmd_query_handle_eo_def xbee_cmd_query_handle_ai_def response_ok_def wpan_auth_def
        wpan_join_def Let_def)
qed

fun info_run where
  "info_run k [] info = info"
| "info_run k (r # rs) info = info_run (Suc k) rs (info_entry k r info)"

definition reply_ok :: "nat \<Rightarrow> xbee_cmd_response \<Rightarrow> bool" where
  "reply_ok k r \<longleftrightarrow> re_command r = query_commands ! k \<and> re_flags r = 0 \<and> re_context r = 0 \<and>
     (k \<in> {2, 3} \<longrightarrow> re_value_length r = 4 \<and> length (re_value_bytes r) = 4)"

fun replies_ok :: "nat \<Rightarrow> xbee_cmd_response list \<Rightarrow> bool" where
  "replies_ok k [] \<longleftrightarrow> True"
| "replies_ok k (r # rs) \<longleftrightarrow> reply_ok k r \<and> replies_ok (Suc k) rs"

lemma query_run:
  assumes "as_lists s 0 = query_context d k" "k + length rs \<le> 7" "replies_ok k rs"
  shows "\<exists>t. answer_query env C (rs @ rest) s = answer_query env C rest t \<and>
    as_lists t 0 = query_context d (k + length rs) \<and> dev_info (as_dev t d) = info_run k rs (dev_info (as_dev s d))"
  using assms
proof (induction rs arbitrary: k s)
  case Nil
  then show ?case by auto
next
  case (Cons r rs)
  have ok: "reply_ok k r" "replies_ok (Suc k) rs" "k < 7" using Cons.prems by simp_all
  obtain u where u: "xbee_cmd_list_callback C (at_regs env C) r s = Some (XBEE_ATCMD_REUSE, u)"
    "as_lists u 0 = query_context d (Suc k)" "dev_info (as_dev u d) = dev_info (as_dev (query_entry k r d s) d)"
    using query_step [OF Cons.prems(1) ok(3)] ok(1) unfolding reply_ok_def by blast
  have info: "dev_info (as_dev u d) = info_entry k r (dev_info (as_dev s d))"
    unfolding u(3) using ok by (intro query_entry_info) (auto simp: reply_ok_def)
  obtain t where "answer_query env C (rs @ rest) u = answer_query env C rest t"
    "as_lists t 0 = query_context d (Suc k + length rs)" "dev_info (as_dev t d) = info_run (Suc k) rs (dev_info (as_dev u d))"
    using Cons.IH [OF u(2) _ ok(2)] Cons.prems(2) by auto
  then show ?case using u(1) info by auto
qed

definition query_replies :: "nat \<Rightarrow> int \<Rightarrow> u8 list list \<Rightarrow> xbee_cmd_response list" where
  "query_replies d h answers = map2 (query_reply d h) query_commands answers"

text \<open>
  C25: querying a device.  From the start of the query list, when the module answers each command with
  success, the callback of the list stores hardware and firmware version, the two halves of the
  serial number, payload size and network address, derives the join and authentication flags,
  sends the next command after each answer but the last, and ends with the device marked as queried.
\<close>

theorem at_query_learns_device:
  assumes "as_lists s 0 = query_context d 0"
    and "xd_flags (as_dev s d) AND XBEE_DEV_FLAG_QUERY_ERROR = 0" "xd_flags (as_dev s d) AND XBEE_DEV_FLAG_QUERY_REFRESH = 0"
    and "length sh = 4" "length sl = 4" "length (xd_ieee (as_dev s d)) = 8"
  shows "\<exists>t. answer_query env C (query_replies d h [bytes16 hv, bytes32 vr, sh, sl, [eo], [ai], bytes16 np, bytes16 my]) s
        = Some (XBEE_ATCMD_DONE, t) \<and>
      lc_status (as_lists t 0) = XBEE_COMMAND_LIST_DONE \<and>
      dev_info (as_dev t d) = (hv, vr, sh @ sl, np, my,
        wpan_join (ucast ai) (wpan_auth (ucast eo) (xd_wpan_flags (as_dev s d))),
        xd_flags (as_dev s d) AND NOT XBEE_DEV_FLAG_QUERY_INPROGRESS OR XBEE_DEV_FLAG_QUERY_DONE)"
proof -
  let ?replies = "query_replies d h [bytes16 hv, bytes32 vr, sh, sl, [eo], [ai], bytes16 np, bytes16 my]"
  define rs where "rs = take 7 ?replies"
  define last where "last = query_reply d h (query_commands ! 7) (bytes16 my)"
  have split: "?replies = rs @ [last]"
    by (simp add: rs_def last_def query_replies_def query_commands_def)
  have rs: "length rs = 7" "replies_ok 0 rs"
    using assms(4,5) by (simp_all add: rs_def query_replies_def query_commands_def reply_ok_def query_reply_def numeral_nat)
  obtain t where t: "answer_query env C (rs @ [last]) s = answer_query env C [last] t"
    "as_lists t 0 = query_context d 7" "dev_info (as_dev t d) = info_run 0 rs (dev_info (as_dev s d))"
    using query_run [OF assms(1) _ rs(2), of env C "[last]"] rs(1) by auto
  have val: "response_value (bytes16 w) 2 = ucast w" "response_value (bytes32 x) 4 = x" "response_value [b] 1 = ucast b" for w x b
    using bytes16_nth [of w] bytes32_nth [of x] by (simp_all add: response_value_def bytes16_def bytes32_def)
  have info: "info_run 0 rs (dev_info (as_dev s d)) = (hv, vr, sh @ sl, np, xd_network (as_dev s d),
        wpan_join (ucast ai) (wpan_auth (ucast eo) (xd_wpan_flags (as_dev s d))), xd_flags (as_dev s d))"
    using assms(4,5)
    by (simp add: rs_def query_replies_def query_commands_def query_reply_def dev_info_def Let_def val ucast_u32_u16)
  have flags: "xd_flags (as_dev t d) = xd_flags (as_dev s d)"
    using t(3) unfolding info by (simp add: dev_info_def)
  have last: "re_command last = query_commands ! 7" "re_flags last = 0" "re_context last = 0"
    by (simp_all add: last_def query_reply_def)
  obtain u where u: "xbee_cmd_list_callback C (at_regs env C) last t = Some (XBEE_ATCMD_DONE, u)"
    "lc_status (as_lists u 0) = XBEE_COMMAND_LIST_DONE"
    "dev_info (as_dev u d) = dev_info ((as_dev (query_entry 7 last d t) d)\<lparr>
      xd_flags := xd_flags (as_dev t d) AND NOT XBEE_DEV_FLAG_QUERY_INPROGRESS OR XBEE_DEV_FLAG_QUERY_DONE\<rparr>)"
    using query_last [OF t(2) _ _ last, of C env] assms(2,3) unfolding flags by blast
  have "dev_info (as_dev (query_entry 7 last d t) d) = info_entry 7 last (dev_info (as_dev t d))"
    by (rule query_entry_info) (simp_all add: last(2))
  then have "dev_info (as_dev u d) = (hv, vr, sh @ sl, np, my,
        wpan_join (ucast ai) (wpan_auth (ucast eo) (xd_wpan_flags (as_dev s d))),
        xd_flags (as_dev s d) AND NOT XBEE_DEV_FLAG_QUERY_INPROGRESS OR XBEE_DEV_FLAG_QUERY_DONE)"
    unfolding u(3) t(3) info flags [symmetric]
    by (simp add: dev_info_def last_def query_reply_def val Let_def ucast_u32_u16)
  then show ?thesis using t(1) u(1,2) unfolding split by simp
qed

section \<open>An example state\<close>

text \<open>
  A registered device with an idle line, a request for the firmware version whose time is over, and
  the query list at its start.
\<close>

definition demo_at :: "(u8 list list, console_state) at_state" where
  "demo_at =
     \<lparr>as_dev = (\<lambda>_. demo_dev\<lparr>xd_flags := XBEE_DEV_FLAG_CMD_INIT\<rparr>),
      as_table = [request_zero\<lparr>rq_device := Some 0, rq_callback := Some 1, rq_command := at_cmd CHR ''V'' CHR ''R''\<rparr>, request_zero],
      as_initialized = 1, as_last_time = 0, as_last_id = 0, as_lists = (\<lambda>_. query_context 0 0), as_seconds = 3,
      as_world = \<lparr>cs_out = []\<rparr>\<rparr>"

lemma demo_at_facts:
  "at_wf demo_at" "all_init demo_at" "as_initialized demo_at \<noteq> 0" "as_last_time demo_at \<noteq> ucast (as_seconds demo_at)"
  "due 0 demo_at" "\<not> due 1 demo_at" "length (as_table demo_at) = 2"
proof -
  show "at_wf demo_at" by (simp add: at_wf_def demo_at_def request_wf_def request_zero_def busy_def)
  show "all_init demo_at" by (simp add: all_init_def demo_at_def)
  show "as_initialized demo_at \<noteq> 0" "length (as_table demo_at) = 2" by (simp_all add: demo_at_def)
  show "as_last_time demo_at \<noteq> ucast (as_seconds demo_at)" unfolding demo_at_def by code_simp
  show "due 0 demo_at" "\<not> due 1 demo_at"
    by (simp_all add: due_def busy_def XBEE_CHECK_TIMEOUT_SEC_def demo_at_def request_zero_def)
qed

theorem at_timeout_exact_witness:
  "XBEE_CHECK_TIMEOUT_SEC (XBEE_SET_TIMEOUT_SEC 2 demo_at) (demo_at\<lparr>as_seconds := as_seconds demo_at + of_nat 5\<rparr>)"
  using at_timeout_exact [of 2 5 demo_at] by simp

theorem xbee_cmd_create_returns_witness:
  "\<exists>r s'. xbee_cmd_create app_env 4 (Some 0) (Some (at_cmd CHR ''O'' CHR ''P'')) demo_at = Some (r, s') \<and>
     at_wf s' \<and> all_init s' \<and> created 0 (at_cmd CHR ''O'' CHR ''P'') r s'"
  by (rule xbee_cmd_create_returns [OF app.at_application_axioms demo_at_facts(1)])
    (use demo_at_facts(2) in \<open>simp_all add: all_init_def\<close>)

theorem at_unmatched_response_overflow_witness:
  "xbee_cmd_handle_response app_env (xbee_cmd_create app_env 2) 0 (Some ([0x88, 9, 0x56, 0x52, 0] @ replicate 60 0)) 65 demo_at = None"
proof -
  let ?frame = "[0x88, 9, 0x56, 0x52, 0] @ replicate 60 0 :: u8 list"
  obtain f where f: "at_response_fields ?frame 65 = Some f" "af_id f = 9" "af_length f = 60"
    by (simp add: at_response_fields_def)
  moreover have "find_request 0 f (as_table demo_at) = None"
    using f(2) by (simp add: find_request_def matches_request_def demo_at_def request_zero_def upt_rec)
  ultimately show ?thesis
    using at_unmatched_response_overflow [of ?frame 65 f 0 demo_at app_env "xbee_cmd_create app_env 2"] by simp
qed

theorem at_query_learns_device_witness:
  "\<exists>t. answer_query app_env (xbee_cmd_create app_env 2)
      (query_replies 0 0 [bytes16 0x1E41, bytes32 0x4060, [0, 0x13, 0xA2, 0], [0x40, 1, 2, 3], [0], [0], bytes16 84, bytes16 0x1234]) demo_at
      = Some (XBEE_ATCMD_DONE, t) \<and> xd_network (as_dev t 0) = 0x1234"
proof -
  have "as_lists demo_at 0 = query_context 0 0" "xd_flags (as_dev demo_at 0) AND XBEE_DEV_FLAG_QUERY_ERROR = 0"
    "xd_flags (as_dev demo_at 0) AND XBEE_DEV_FLAG_QUERY_REFRESH = 0" "length (xd_ieee (as_dev demo_at 0)) = 8"
    by (simp_all add: demo_at_def demo_dev_def)
  from at_query_learns_device [OF this(1-3) _ _ this(4), of "[0, 0x13, 0xA2, 0]" "[0x40, 1, 2, 3]"]
  show ?thesis by (force simp: dev_info_def)
qed

lemma demo_send: "fst (xbee_cmd_send 0 demo_at) = Inr 0"
  by code_simp

theorem at_request_answered_witness:
  "\<exists>response. re_handle response = 0 \<and> re_value response = 0x4060 \<and>
     xbee_cmd_handle_response app_env (xbee_cmd_create app_env 2) 0 (Some [0x88, 1, 0x56, 0x52, 0, 0x40, 0x60]) 7
       (snd (xbee_cmd_send 0 demo_at)) =
     Some (Inr 0, snd (xbee_cmd_release_request (Some 0) (snd (xbee_cmd_callback response (snd (xbee_cmd_send 0 demo_at))))))"
proof -
  have send: "xbee_cmd_send 0 demo_at = (Inr 0, snd (xbee_cmd_send 0 demo_at))"
    using demo_send by (cases "xbee_cmd_send 0 demo_at") simp
  have h: "xbee_cmd_handle_to_address 0 demo_at = Some 0"
    by (simp add: xbee_cmd_handle_to_address_def demo_at_def request_zero_def)
  have reply: "at_reply (sent_request 0 0 demo_at) 0 [0x40, 0x60] = [0x88, 1, 0x56, 0x52, 0, 0x40, 0x60]" by code_simp
  have val: "response_value [0x40, 0x60] 2 = 0x4060" by code_simp
  have fin: "fst (xbee_cmd_callback r t) \<noteq> XBEE_ATCMD_REUSE" for r and t :: "(u8 list list, console_state) at_state"
    by (simp add: xbee_cmd_callback_done)
  have tab: "rq_device (as_table demo_at ! 0) = Some 0" "rq_callback (as_table demo_at ! 0) = Some 1"
    "length (rq_ieee (as_table demo_at ! 0)) = 8" "rq_device (as_table demo_at ! (1 - 0)) = None"
    by (simp_all add: demo_at_def request_zero_def)
  obtain response where "re_handle response = 0" "re_value response = 0x4060"
    "xbee_cmd_handle_response app_env (xbee_cmd_create app_env 2) 0 (Some [0x88, 1, 0x56, 0x52, 0, 0x40, 0x60]) 7 (snd (xbee_cmd_send 0 demo_at)) =
      (let (reuse, t) = ae_callback app_env 1 response (snd (xbee_cmd_send 0 demo_at)) in
       Some (Inr 0, if reuse = XBEE_ATCMD_REUSE
         then update_request 0 (\<lambda>r. r\<lparr>rq_timeout := XBEE_SET_TIMEOUT_SEC 5 t\<rparr>) t
         else snd (xbee_cmd_release_request (Some 0) t)))"
    using at_request_answered [OF send h demo_at_facts(1) tab(1,2) _ tab(3), of "[0x40, 0x60]" 0 app_env "xbee_cmd_create app_env 2"]
      tab(4) unfolding reply by (auto simp: val)
  then show ?thesis using fin by (auto simp: app_env_def case_prod_unfold Let_def)
qed

end
