(* ===== verification/Xbee_Atcmd_Expiry.thy ===== *)
theory Xbee_Atcmd_Expiry
  imports Xbee_Atcmd_Correct
begin

text \<open>
  The expiry of AT requests by \<open>xbee_cmd_tick\<close> (\<open>pxbee/pan/xbee/xbee_atcmd.c\<close>), for both entries of the
  table at once: what expiring one request starts, a callback, a new query of the device, leaves the
  other outstanding request as it is.
\<close>

section \<open>What leaves an outstanding request alone\<close>

definition ready :: "nat \<Rightarrow> ('p, 'w) at_state \<Rightarrow> bool" where
  "ready j s \<longleftrightarrow> j < 2 \<and> nested s \<and> as_initialized s \<noteq> 0 \<and> busy j s"

definition spares :: "nat \<Rightarrow> ('p, 'w) at_state \<Rightarrow> ('p, 'w) at_state \<Rightarrow> bool" where
  "spares j s t \<longleftrightarrow> at_keep s t \<and> as_table t ! j = as_table s ! j"

lemma spares_trans [trans]: "spares j s t \<Longrightarrow> spares j t u \<Longrightarrow> spares j s u"
  using at_keep_trans [of s t u] by (simp add: spares_def)

lemma spares_refl: "spares j s s"
  by (simp add: spares_def at_keep_refl)

lemma ready_spares: "ready j s \<Longrightarrow> spares j s t \<Longrightarrow> ready j t"
  using nested_step [of s t] at_keep_step [of s t]
  by (auto simp: ready_def spares_def busy_def at_step_def nested_def)

lemma spares_handle:
  assumes "ready j s" "spares j s t"
  shows "xbee_cmd_handle_to_address h t = xbee_cmd_handle_to_address h s"
proof (rule handle_same_sequences)
  fix i :: nat assume "i < 2"
  then show "rq_sequence (as_table t ! i) = rq_sequence (as_table s ! i)"
    using assms less_two_cases [of i] by (auto simp: ready_def spares_def nested_def at_keep_def same_sequences_def)
qed

lemma other_device_spares: "at_keep s t \<Longrightarrow> as_table t = as_table s \<Longrightarrow> spares j s t"
  by (simp add: spares_def)

lemma on_request_spares:
  "xbee_cmd_handle_to_address h s \<noteq> Some j \<Longrightarrow> as_table (snd (on_request h f s)) ! j = as_table s ! j"
  by (auto simp: on_request_def update_request_def split: option.splits)

lemma setters_spare:
  assumes "xbee_cmd_handle_to_address h s \<noteq> Some j"
  shows "spares j s (snd (xbee_cmd_set_command h c s))" "spares j s (snd (xbee_cmd_set_callback h f x s))"
    "spares j s (snd (xbee_cmd_set_target h a n s))" "spares j s (snd (set_list_param_result, set_list_param h reg base s))"
  using assms setter_keeps [of s h] set_list_param_keep [of s _ h reg base]
  by (auto simp: spares_def xbee_cmd_set_command_def xbee_cmd_set_callback_def xbee_cmd_set_target_def on_request_spares
      set_list_param_def xbee_cmd_set_param_def xbee_cmd_set_param_bytes_def xbee_cmd_set_param_str_def Let_def
      split: xbee_command_list_type.splits)

lemma send_spares_table:
  assumes "xbee_cmd_handle_to_address h s \<noteq> Some j"
  shows "as_table (snd (xbee_cmd_send h s)) ! j = as_table s ! j"
  using assms
  by (auto simp: xbee_cmd_send_def send_done_def send_id_def update_request_def xbee_cmd_release_request_def Let_def case_prod_unfold
      split: option.splits)

lemma send_spares:
  assumes "ready j s" "xbee_cmd_handle_to_address h s \<noteq> Some j"
  shows "spares j s (snd (xbee_cmd_send h (snd (xbee_cmd_set_callback h (Some f) c s))))"
proof -
  have set: "spares j s (snd (xbee_cmd_set_callback h (Some f) c s))" by (rule setters_spare(2) [OF assms(2)])
  moreover have "spares j (snd (xbee_cmd_set_callback h (Some f) c s)) (snd (xbee_cmd_send h (snd (xbee_cmd_set_callback h (Some f) c s))))"
    unfolding spares_def using send_after_callback send_spares_table assms(2) spares_handle [OF assms(1) set] by metis
  ultimately show ?thesis by (rule spares_trans)
qed

section \<open>New requests\<close>

text \<open>A new request takes a free entry.\<close>

lemma create_rest_spares:
  assumes "ready j s" "as_initialized s = 2 \<or> free_slot (as_table s) \<noteq> None" "create_rest env create d cmd s = Some (r, s')"
  shows "spares j s s' \<and> (\<forall>h. r = Inr h \<longrightarrow> xbee_cmd_handle_to_address h s' \<noteq> Some j)"
proof (cases "free_slot (as_table s)")
  case None
  then show ?thesis using assms(2,3) by (auto simp: create_rest_def spares_refl)
next
  case (Some i)
  note i = free_slot_less [OF Some]
  have "i \<noteq> j" using i assms(1) by (auto simp: ready_def busy_def)
  moreover have "r = Inr (request_handle i s)" "s' = allocate d cmd i s"
    using assms(3) Some by (simp_all add: create_rest_def)
  moreover have "at_keep s (allocate d cmd i s)" using i assms(1) by (intro allocate_keeps) (auto simp: ready_def)
  ultimately show ?thesis
    using i handle_of_slot [of i s "allocate d cmd i s"] by (auto simp: spares_def allocate_def update_request_def)
qed

lemma create_spares:
  assumes "ready j s" "xbee_cmd_create env (Suc (Suc n)) xbee command s = Some (r, s')"
  shows "spares j s s' \<and> (\<forall>h. r = Inr h \<longrightarrow> xbee_cmd_handle_to_address h s' \<noteq> Some j)"
proof (cases "xbee = None \<or> command = None")
  case True
  then show ?thesis using assms(2) by (auto simp: create_Suc [of env "Suc n"] create_step_invalid spares_refl)
next
  case False
  then obtain d cmd where args: "xbee = Some d" "command = Some cmd" by auto
  have nested: "nested s" "as_initialized s \<noteq> 0" using assms(1) by (simp_all add: ready_def)
  then have init: "table_init s = s" "\<And>d. dev_flag d XBEE_DEV_FLAG_CMD_INIT s"
    by (simp_all add: table_init_def nested_def all_init_def)
  have rest: "create_rest env (xbee_cmd_create env (Suc n)) d cmd s = Some (r, s')"
    using assms(2) init unfolding args create_Suc [of env "Suc n"] by (simp add: create_step_eq)
  show ?thesis
  proof (cases "as_initialized s = 2 \<or> free_slot (as_table s) \<noteq> None")
    case True
    then show ?thesis using create_rest_spares [OF assms(1) _ rest] by simp
  next
    case none: False
    let ?t = "s\<lparr>as_initialized := 2\<rparr>"
    have "xbee_cmd_tick env (xbee_cmd_create env (Suc n)) ?t = Some (0, ?t)"
      using nested none by (simp add: xbee_cmd_tick_def nested_def)
    moreover have "xbee_cmd_create env (Suc n) (Some d) (Some cmd) ?t = Some (Inl ENOSPC, ?t)"
      using none init unfolding create_Suc [of env n] by (simp add: create_step_eq table_init_def create_rest_def)
    ultimately have "r = Inl ENOSPC" "s' = s\<lparr>as_initialized := 1\<rparr>" using rest none by (auto simp: create_rest_def)
    moreover have "at_keep s (s\<lparr>as_initialized := 1\<rparr>)"
      using none nested recursion_mark(2) [of s ?t] at_keep_refl [of ?t] by simp
    ultimately show ?thesis by (simp add: spares_def)
  qed
qed

lemma issue_list_spares:
  assumes "ready j s" "xbee_cmd_issue_list (xbee_cmd_create env (Suc (Suc n))) regs xbee c None s = Some (r, s')"
  shows "spares j s s' \<and> (\<forall>h. r = Inr h \<longrightarrow> xbee_cmd_handle_to_address h s' \<noteq> Some j)"
proof -
  let ?cmd = "Some (ar_command (reg_at regs (as_lists s c) 0))"
  obtain q t where t: "xbee_cmd_create env (Suc (Suc n)) xbee ?cmd s = Some (q, t)"
    using assms(2) by (auto simp: xbee_cmd_issue_list_def Let_def split: option.splits)
  note create = create_spares [OF assms(1) t]
  show ?thesis
  proof (cases q)
    case (Inl e)
    then show ?thesis using assms(2) t create by (simp add: xbee_cmd_issue_list_def Let_def)
  next
    case (Inr h)
    let ?reg = "reg_at regs (as_lists s c) (unat (lc_index (as_lists s c)))"
    define u where "u = snd (xbee_cmd_set_command h (ar_command ?reg) t)"
    have s': "r = Inr h" "s' = set_list_param h ?reg (lc_base (as_lists u c)) u"
      using assms(2) t Inr by (auto simp: xbee_cmd_issue_list_def Let_def u_def)
    have rt: "ready j t" using ready_spares [OF assms(1)] create by blast
    have tu: "spares j t u" unfolding u_def using create Inr by (intro setters_spare(1)) simp
    have hu: "xbee_cmd_handle_to_address h u \<noteq> Some j" using spares_handle [OF rt tu] create Inr by simp
    have us: "spares j u s'" unfolding s'(2) using setters_spare(4) [OF hu] by simp
    have "xbee_cmd_handle_to_address h s' \<noteq> Some j" using spares_handle [OF ready_spares [OF rt tu] us] hu by simp
    moreover have "spares j s s'" using create tu us by (blast intro: spares_trans)
    ultimately show ?thesis using s'(1) by simp
  qed
qed

lemma list_execute_spares:
  assumes "ready j s" "xbee_cmd_list_execute (xbee_cmd_create env (Suc (Suc n))) regs xbee c list first base None s = Some (r, s')"
  shows "spares j s s'"
proof -
  define u where "u = update_list c (\<lambda>_. \<lparr>lc_list = list, lc_first = first, lc_base = base,
    lc_status = XBEE_COMMAND_LIST_RUNNING, lc_index = 0\<rparr>) s"
  have su: "spares j s u" unfolding u_def using update_list_keep by (intro other_device_spares) (simp_all add: update_list_def)
  obtain q t where t: "xbee_cmd_issue_list (xbee_cmd_create env (Suc (Suc n))) regs xbee c None u = Some (q, t)"
    using assms(2) by (auto simp: xbee_cmd_list_execute_def u_def [symmetric] Let_def split: option.splits)
  note issue = issue_list_spares [OF ready_spares [OF assms(1) su] t]
  then have st: "spares j s t" using su by (blast intro: spares_trans)
  show ?thesis
  proof (cases q)
    case (Inl e)
    then show ?thesis using assms(2) t st by (simp add: xbee_cmd_list_execute_def u_def [symmetric])
  next
    case (Inr h)
    then have h: "xbee_cmd_handle_to_address h t \<noteq> Some j" using issue by simp
    note send = send_spares [OF ready_spares [OF assms(1) st] h, of 0 c] and set = setters_spare(2) [OF h, of "Some 0" c]
    have "s' = snd (xbee_cmd_set_callback h (Some 0) c t) \<or> s' = snd (xbee_cmd_send h (snd (xbee_cmd_set_callback h (Some 0) c t)))"
      using assms(2) t Inr by (auto simp: xbee_cmd_list_execute_def u_def [symmetric] Let_def case_prod_unfold split: if_splits)
    then show ?thesis using spares_trans [OF st] send set by auto
  qed
qed

lemma set_dev_flags_spares: "spares j s (set_dev_flags d f s)"
  using set_dev_flags_keep by (intro other_device_spares) (simp_all add: set_dev_flags_def update_dev_def)

lemma clear_dev_flags_spares: "f AND XBEE_DEV_FLAG_CMD_INIT = 0 \<Longrightarrow> spares j s (clear_dev_flags d f s)"
  using clear_dev_flags_keep by (intro other_device_spares) (simp_all add: clear_dev_flags_def update_dev_def)

lemma query_device_spares:
  assumes "ready j s" "xbee_cmd_query_device (xbee_cmd_create env (Suc (Suc n))) regs (Some d) refresh s = Some (r, s')"
  shows "spares j s s'"
proof -
  define u where "u = (if refresh then set_dev_flags d XBEE_DEV_FLAG_QUERY_REFRESH s else s)"
  have su: "spares j s u" by (simp add: u_def set_dev_flags_spares spares_refl)
  show ?thesis
  proof (cases "dev_flag d XBEE_DEV_FLAG_QUERY_INPROGRESS u")
    case True
    then show ?thesis using assms(2) su by (simp add: xbee_cmd_query_device_def u_def [symmetric])
  next
    case False
    let ?first = "if refresh then XBEE_ATCMD_REG_REFRESH_IDX else 0"
    obtain q t where t: "xbee_cmd_list_execute (xbee_cmd_create env (Suc (Suc n))) regs (Some d) 0 0 ?first d None u = Some (q, t)"
      using assms(2) False by (auto simp: xbee_cmd_query_device_def u_def [symmetric] split: option.splits)
    have st: "spares j s t" using su list_execute_spares [OF ready_spares [OF assms(1) su] t] by (rule spares_trans)
    let ?v = "clear_dev_flags d (XBEE_DEV_FLAG_QUERY_ERROR OR XBEE_DEV_FLAG_QUERY_DONE OR XBEE_DEV_FLAG_QUERY_REFRESH)
      (set_dev_flags d (XBEE_DEV_FLAG_QUERY_BEGIN OR XBEE_DEV_FLAG_QUERY_INPROGRESS) t)"
    have "spares j s ?v"
      using spares_trans [OF spares_trans [OF st set_dev_flags_spares] clear_dev_flags_spares] by simp
    moreover have "s' = ?v \<or> s' = t"
      using assms(2) False t by (auto simp: xbee_cmd_query_device_def u_def [symmetric] split: if_splits)
    ultimately show ?thesis using st by auto
  qed
qed

section \<open>Time-outs\<close>

lemma query_handle_end_spares:
  assumes "ready j s" "xbee_cmd_query_handle_end (xbee_cmd_create env (Suc (Suc n))) regs response has_reg d s = Some s'"
  shows "spares j s s'"
proof -
  define u where "u = clear_dev_flags d XBEE_DEV_FLAG_QUERY_INPROGRESS s"
  define v where "v = set_dev_flags d
                (if \<not> has_reg then XBEE_DEV_FLAG_QUERY_ERROR
                 else if re_flags response AND XBEE_CMD_RESP_FLAG_TIMEOUT \<noteq> 0 then XBEE_DEV_FLAG_QUERY_ERROR
                 else XBEE_DEV_FLAG_QUERY_DONE) u"
  define w where "w = (if dev_flag d XBEE_DEV_FLAG_QUERY_ERROR v
                  \<and> xd_wpan_flags (as_dev v d) AND WPAN_FLAG_JOINED \<noteq> 0
                  \<and> xd_network (as_dev v d) = WPAN_NET_ADDR_UNDEFINED
               then set_dev_flags d XBEE_DEV_FLAG_QUERY_REFRESH v else v)"
  have "spares j s u" unfolding u_def by (rule clear_dev_flags_spares) simp
  then have sv: "spares j s v" unfolding v_def using set_dev_flags_spares by (rule spares_trans)
  then have sw: "spares j s w" using spares_trans [OF sv set_dev_flags_spares] by (simp add: w_def)
  have "xbee_cmd_query_handle_end (xbee_cmd_create env (Suc (Suc n))) regs response has_reg d s =
    (if dev_flag d XBEE_DEV_FLAG_QUERY_REFRESH w
     then map_option snd (xbee_cmd_query_device (xbee_cmd_create env (Suc (Suc n))) regs (Some d) True w) else Some w)"
    unfolding xbee_cmd_query_handle_end_def Let_def w_def v_def u_def ..
  then have "s' = w \<or> (\<exists>q. xbee_cmd_query_device (xbee_cmd_create env (Suc (Suc n))) regs (Some d) True w = Some (q, s'))"
    using assms(2)
    by (cases "xbee_cmd_query_device (xbee_cmd_create env (Suc (Suc n))) regs (Some d) True w") (auto split: if_splits)
  then show ?thesis using sw spares_trans [OF sw query_device_spares [OF ready_spares [OF assms(1) sw]]] by blast
qed

text \<open>
  An application of which a callback for a time-out leaves the outstanding requests alone and does
  not ask to keep the request, and without command lists of its own that would have an end.
\<close>

locale at_quiet_application = at_application env for env :: "('p, 'w) at_env" +
  assumes callback_table: "as_table (snd (ae_callback env f response s)) = as_table s"
    and callback_done: "fst (ae_callback env f response s) \<noteq> XBEE_ATCMD_REUSE"
    and no_end: "reg \<in> set (ae_list env l) \<Longrightarrow> ar_command reg \<noteq> 0"
begin

lemma find_end_query:
  assumes "find_end (at_regs env (C n)) lc = Some reg"
  shows "reg = reg_cb 0 (xbee_cmd_query_handle_end (C n) (command_regs env))"
proof -
  have reg: "reg \<in> set (at_regs env (C n) (lc_list lc))" "ar_command reg = 0"
    using find_SomeD [OF assms [unfolded find_end_def]] by (auto dest: in_set_dropD)
  then have "lc_list lc = 0" using no_end by (auto simp: at_regs_def split: if_splits)
  then show ?thesis using reg by (intro query_regs_end) (simp_all add: at_regs_def xbee_atcmd_query_regs_def)
qed

lemma call_callback_spares:
  assumes "ready j s" "re_flags response AND XBEE_CMD_RESP_FLAG_TIMEOUT \<noteq> 0"
    and "call_callback env (C n) f response s = Some (reuse, t)"
  shows "spares j s t \<and> reuse \<noteq> XBEE_ATCMD_REUSE"
proof (cases "f = 0")
  case False
  then have "t = snd (ae_callback env f response s)" "reuse = fst (ae_callback env f response s)"
    using assms(3) by (auto simp: call_callback_def)
  then show ?thesis
    using callback_keep [OF _ assms(2), of s f] callback_table callback_done assms(1)
    by (simp add: spares_def ready_def)
next
  case True
  let ?c = "re_context response"
  define u where "u = update_list ?c (\<lambda>lc. lc\<lparr>lc_status := XBEE_COMMAND_LIST_TIMEOUT\<rparr>) s"
  have su: "spares j s u" unfolding u_def using update_list_keep by (intro other_device_spares) (simp_all add: update_list_def)
  have list: "xbee_cmd_list_callback (C n) (at_regs env (C n)) response s = Some (reuse, t)"
    using assms(3) True by (simp add: call_callback_def)
  have "spares j s t"
  proof (cases "find_end (at_regs env (C n)) (as_lists u ?c)")
    case None
    then show ?thesis using list assms(2) su by (simp add: xbee_cmd_list_callback_def u_def [symmetric] Let_def)
  next
    case (Some reg)
    then have "xbee_cmd_query_handle_end (C n) (command_regs env) response True (lc_base (as_lists s ?c)) u = Some t"
      using list assms(2) find_end_query [OF Some]
      by (simp add: xbee_cmd_list_callback_def u_def [symmetric] Let_def call_reg_def reg_cb_def)
    from query_handle_end_spares [OF ready_spares [OF assms(1) su] this] show ?thesis by (rule spares_trans [OF su])
  qed
  then show ?thesis using list_timeout_done [OF assms(2) list] by simp
qed

lemma tick_request_spares:
  assumes "ready j s" "i \<noteq> j" "i < 2" "tick_request env (C n) i (count, s) = Some (k, t)"
  shows "as_table t ! j = as_table s ! j"
proof (cases "due i s")
  case False
  then show ?thesis
    using assms(4) by (auto simp: tick_request_def Let_def due_def busy_def split: option.splits)
next
  case True
  let ?r = "as_table s ! i"
  obtain d where d: "rq_device ?r = Some d" using True by (auto simp: due_def busy_def)
  define call where "call = (case rq_callback ?r of None \<Rightarrow> Some (XBEE_ATCMD_DONE, s)
    | Some f \<Rightarrow> call_callback env (C n) f (expired_response d i s) s)"
  have due: "XBEE_CHECK_TIMEOUT_SEC (rq_timeout ?r) s" using True by (simp add: due_def)
  have run: "tick_request env (C n) i (count, s) =
    (case call of None \<Rightarrow> None
     | Some (reuse, s) \<Rightarrow>
         if reuse \<noteq> XBEE_ATCMD_REUSE then
           (case rq_device (as_table s ! i) of
              None \<Rightarrow> None
            | Some device \<Rightarrow>
                let s = snd (xbee_cmd_release_request (Some i) s) in
                if dev_flag device XBEE_DEV_FLAG_QUERY_REFRESH s
                then map_option (\<lambda>(_, s). (count + 1, s)) (xbee_cmd_query_device (C n) (at_regs env (C n)) (Some device) True s)
                else Some (count + 1, s))
         else Some (count + 1, s))"
    unfolding tick_request_def call_def using d due by (simp add: Let_def)
  obtain reuse u where u: "call = Some (reuse, u)" using run assms(4) by (cases call) auto
  have su: "spares j s u \<and> reuse \<noteq> XBEE_ATCMD_REUSE"
  proof (cases "rq_callback ?r")
    case None
    then show ?thesis using u by (simp add: call_def spares_refl)
  next
    case (Some f)
    then have "call_callback env (C n) f (expired_response d i s) s = Some (reuse, u)" using u by (simp add: call_def)
    from call_callback_spares [OF assms(1) expired_flags this] show ?thesis .
  qed
  have ru: "ready j u" using ready_spares [OF assms(1)] su by blast
  define v where "v = snd (xbee_cmd_release_request (Some i) u)"
  have uv: "as_table v ! j = as_table u ! j"
    using assms(2) by (simp add: v_def xbee_cmd_release_request_def update_request_def)
  have rv: "ready j v"
    using ru nested_step [of u v] release_step [OF assms(3), of u] uv
    by (auto simp: ready_def v_def busy_def at_step_def nested_def)
  obtain device where device: "rq_device (as_table u ! i) = Some device"
    using run assms(4) u su by (cases "rq_device (as_table u ! i)") auto
  have "t = v \<or> (\<exists>q. xbee_cmd_query_device (C n) (at_regs env (C n)) (Some device) True v = Some (q, t))"
    using run assms(4) u su device
    by (cases "xbee_cmd_query_device (C n) (at_regs env (C n)) (Some device) True v")
      (auto simp: v_def [symmetric] Let_def split: if_splits)
  then have "as_table t ! j = as_table v ! j"
    using query_device_spares [OF rv] by (auto simp: spares_def)
  then show ?thesis using uv su by (simp add: spares_def)
qed

lemma due_marked: "due j (s\<lparr>as_last_time := x\<rparr>) = due j s"
  by (simp add: due_def busy_def XBEE_CHECK_TIMEOUT_SEC_def)

lemma tick_request_idle: "\<not> due i s \<Longrightarrow> tick_request env create i (count, s) = Some (k, t) \<Longrightarrow> t = s"
  by (auto simp: tick_request_def Let_def due_def busy_def split: option.splits)

lemma quiet_reuse: "never_reuses cb"
  using callback_done by (simp add: never_reuses_def)

lemma tick_all:
  assumes "at_wf s" "all_init s" "as_initialized s \<noteq> 0" "as_last_time s \<noteq> ucast (as_seconds s)"
  shows "\<exists>k s'. xbee_cmd_tick env (C n) s = Some (k, s') \<and>
    (\<forall>i < 2. busy i s \<longrightarrow>
      (if due i s then xbee_cmd_handle_to_address (request_handle i s) s' = None
       else as_table s' ! i = as_table s ! i))"
proof -
  let ?r = "s\<lparr>as_last_time := ucast (as_seconds s)\<rparr>"
  obtain k t l u where run: "xbee_cmd_tick env (C n) s = Some (l, u)"
    and t: "tick_request env (C n) 0 (0, ?r) = Some (k, t)" "nested t" "expiry_step 0 ?r t" and u: "expiry_step 1 t u"
    by (rule tick_steps [OF assms(1,2,4)])
  have tu: "tick_request env (C n) 1 (k, t) = Some (l, u)" using run t(1) assms(4) by (simp add: xbee_cmd_tick_def Let_def)
  have wf: "at_wf ?r" "at_wf t" using assms(1) t(2) by (simp_all add: at_wf_def busy_def nested_def)
  have init: "as_initialized ?r \<noteq> 0" "as_initialized t \<noteq> 0" and secs: "as_seconds t = as_seconds s"
    using assms(3) t(3) wf(1) by (auto simp: expiry_step_def at_step_def)
  have nested: "nested ?r" using assms(1,2) by (simp add: nested_def at_wf_def busy_def all_init_def)
  have busy: "busy j ?r = busy j s" for j by (simp add: busy_def)
  have seq: "rq_sequence (as_table t ! 1) = rq_sequence (as_table s ! 1)" "rq_sequence (as_table u ! 0) = rq_sequence (as_table t ! 0)"
    using t(3) u init by (auto simp: expiry_step_def)
  have first: "if due 0 s then xbee_cmd_handle_to_address (request_handle 0 s) u = None else as_table u ! 0 = as_table s ! 0"
    if "busy 0 s"
  proof (cases "due 0 s")
    case True
    then have "rq_sequence (as_table t ! 0) = rq_sequence (as_table s ! 0) + 1"
      using t(3) init quiet_reuse by (simp add: expiry_step_def due_marked)
    then show ?thesis using True seq(2) by (simp add: handle_of_slot)
  next
    case False
    then have "t = ?r" using t(1) by (intro tick_request_idle) (simp_all add: due_marked)
    moreover have "ready 0 ?r" using that nested init(1) by (simp add: ready_def busy)
    ultimately have "as_table u ! 0 = as_table ?r ! 0" using tu by (intro tick_request_spares [of 0 ?r 1]) simp_all
    then show ?thesis using False by simp
  qed
  have second: "if due 1 s then xbee_cmd_handle_to_address (request_handle 1 s) u = None else as_table u ! 1 = as_table s ! 1"
    if "busy 1 s"
  proof -
    have "ready 1 ?r" using that nested init(1) by (simp add: ready_def busy)
    then have same: "as_table t ! 1 = as_table s ! 1" using t(1) tick_request_spares [of 1 ?r 0] by simp
    then have due: "due 1 t = due 1 s" using secs by (simp add: due_def busy_def XBEE_CHECK_TIMEOUT_SEC_def)
    show ?thesis
    proof (cases "due 1 s")
      case True
      then have "rq_sequence (as_table u ! 1) = rq_sequence (as_table t ! 1) + 1"
        using u init quiet_reuse due by (simp add: expiry_step_def)
      then show ?thesis using True same by (simp add: handle_of_slot)
    next
      case False
      then show ?thesis using tick_request_idle [OF _ tu] due same by simp
    qed
  qed
  show ?thesis using run first second less_two_cases by (intro exI [of _ l] exI [of _ u]) blast
qed

end

interpretation app: at_quiet_application app_env
  by unfold_locales (simp_all add: app_env_def xbee_cmd_callback_done xbee_cmd_callback_table)

text \<open>
  C26: The expiry of the requests of this application, with whatever is outstanding in the two
  entries of the table.  A call of \<open>xbee_cmd_tick\<close> in a new second returns; every request whose time is
  over is gone, so that its handle names no request any more, whatever new requests the expiry of
  one of them starts; and every other outstanding request is as it was.
\<close>

theorem at_request_expires:
  fixes s :: "('p, 'w console_state_scheme) at_state"
  assumes "at_wf s" "all_init s" "as_initialized s \<noteq> 0" "as_last_time s \<noteq> ucast (as_seconds s)" "2 \<le> n"
  shows "\<exists>k s'. xbee_cmd_tick app_env (xbee_cmd_create app_env n) s = Some (k, s') \<and>
    (\<forall>i < 2. busy i s \<longrightarrow>
      (if due i s then xbee_cmd_handle_to_address (request_handle i s) s' = None
       else as_table s' ! i = as_table s ! i \<and> xbee_cmd_handle_to_address (request_handle i s) s' = Some i))"
proof -
  obtain m where n: "n = Suc (Suc m)" using assms(5) le_Suc_ex [of 2 n] by auto
  obtain k s' where "xbee_cmd_tick app_env (xbee_cmd_create app_env n) s = Some (k, s')"
    "\<forall>i < 2. busy i s \<longrightarrow> (if due i s then xbee_cmd_handle_to_address (request_handle i s) s' = None
       else as_table s' ! i = as_table s ! i)"
    unfolding n using app.tick_all [OF assms(1-4)] by blast
  moreover then have "xbee_cmd_handle_to_address (request_handle i s) s' = Some i" if "i < 2" "busy i s" "\<not> due i s" for i
    using that by (simp add: handle_of_slot)
  ultimately show ?thesis by (intro exI [of _ k] exI [of _ s']) simp
qed

theorem at_request_expires_witness:
  "\<exists>k s'. xbee_cmd_tick app_env (xbee_cmd_create app_env 2) demo_at = Some (k, s') \<and>
     xbee_cmd_handle_to_address (request_handle 0 demo_at) s' = None"
  using at_request_expires [OF demo_at_facts(1-4), of 2] demo_at_facts(5) by (force simp: due_def)

end
