(* ===== verification/Xbee_Atcmd_Handles.thy ===== *)
theory Xbee_Atcmd_Handles
  imports Xbee_Atcmd_Correct
begin

text \<open>
  Handles over the life of a table entry (\<open>pxbee/pan/xbee/xbee_atcmd.c\<close>): which handles name an entry
  after any sequence of operations on the requests, and what the functions that take a handle do with
  one that does not.
\<close>

section \<open>Histories\<close>

text \<open>A request that sending it releases: nobody waits for its response.\<close>

definition spent :: "int \<Rightarrow> nat \<Rightarrow> ('p, 'w) at_state \<Rightarrow> bool" where
  "spent h i t \<longleftrightarrow> xbee_cmd_handle_to_address h t = Some i \<and> fst (xbee_cmd_send h t) = Inr 0 \<and>
     rq_callback (as_table t ! i) = None \<and> rq_flags (as_table t ! i) AND XBEE_CMD_FLAG_REUSE_HANDLE = 0"

text \<open>
  \<open>later i s k t\<close>: the state \<open>t\<close> is reached from \<open>s\<close> by any operations on requests, by any handles,
  in the course of which entry \<open>i\<close> is released \<open>k\<close> times.  The entries are released by their
  handle, by sending, and by the responses and the expiry of the library itself; they are given away
  by \<open>allocate\<close>, the assignment in \<open>xbee_cmd_create\<close>.
\<close>

inductive later :: "nat \<Rightarrow> ('p, 'w) at_state \<Rightarrow> nat \<Rightarrow> ('p, 'w) at_state \<Rightarrow> bool" for i s where
  start: "later i s 0 s"
| set_command: "later i s k t \<Longrightarrow> later i s k (snd (xbee_cmd_set_command h c t))"
| set_callback: "later i s k t \<Longrightarrow> later i s k (snd (xbee_cmd_set_callback h f x t))"
| set_target: "later i s k t \<Longrightarrow> later i s k (snd (xbee_cmd_set_target h a n t))"
| set_flags: "later i s k t \<Longrightarrow> later i s k (snd (xbee_cmd_set_flags h fl t))"
| clear_flags: "later i s k t \<Longrightarrow> later i s k (snd (xbee_cmd_clear_flags h fl t))"
| set_param: "later i s k t \<Longrightarrow> later i s k (snd (xbee_cmd_set_param h v t))"
| set_param_bytes: "later i s k t \<Longrightarrow> later i s k (snd (xbee_cmd_set_param_bytes h bs len t))"
| set_param_str: "later i s k t \<Longrightarrow> later i s k (snd (xbee_cmd_set_param_str h str t))"
| send: "later i s k t \<Longrightarrow> later i s (if spent h i t then Suc k else k) (snd (xbee_cmd_send h t))"
| release_handle: "later i s k t \<Longrightarrow>
    later i s (if xbee_cmd_handle_to_address h t = Some i then Suc k else k) (snd (xbee_cmd_release_handle h t))"
| release_request: "later i s k t \<Longrightarrow> j < 2 \<Longrightarrow>
    later i s (if j = i then Suc k else k) (snd (xbee_cmd_release_request (Some j) t))"
| allocate: "later i s k t \<Longrightarrow> j < 2 \<Longrightarrow> later i s k (allocate d cmd j t)"
| elsewhere: "later i s k t \<Longrightarrow> as_table t' = as_table t \<Longrightarrow> later i s k t'"

text \<open>Each release adds one to the sequence number of the entry, modulo 256, and nothing else changes it.\<close>

definition sequence_at :: "nat \<Rightarrow> ('p, 'w) at_state \<Rightarrow> u8" where
  "sequence_at i s = rq_sequence (as_table s ! i)"

lemma update_request_sequence:
  assumes "length (as_table s) = 2" "j < 2" "i < 2" "j \<noteq> i \<or> rq_sequence (f (as_table s ! j)) = rq_sequence (as_table s ! j)"
  shows "length (as_table (update_request j f s)) = 2" "sequence_at i (update_request j f s) = sequence_at i s"
  using assms by (simp_all add: sequence_at_def update_request_def nth_list_update)

lemma on_request_sequence:
  assumes "length (as_table s) = 2" "i < 2" "\<And>r. rq_sequence (f r) = rq_sequence r"
  shows "length (as_table (snd (on_request h f s))) = 2" "sequence_at i (snd (on_request h f s)) = sequence_at i s"
  using assms handle_to_address_less [of h s] update_request_sequence [of s _ i f]
  by (auto simp: on_request_def split: option.split)

lemma release_sequence:
  assumes "length (as_table s) = 2" "j < 2" "i < 2"
  shows "length (as_table (snd (xbee_cmd_release_request (Some j) s))) = 2"
    "sequence_at i (snd (xbee_cmd_release_request (Some j) s)) = sequence_at i s + (if j = i then 1 else 0)"
  using assms by (auto simp: xbee_cmd_release_request_def update_request_nth sequence_at_def) (simp add: update_request_def)

lemma send_sequence:
  assumes "length (as_table s) = 2" "i < 2"
  shows "length (as_table (snd (xbee_cmd_send h s))) = 2 \<and>
    sequence_at i (snd (xbee_cmd_send h s)) = sequence_at i s + (if spent h i s then 1 else 0)"
proof (cases "xbee_cmd_handle_to_address h s")
  case None
  then show ?thesis using assms by (simp add: xbee_cmd_send_def spent_def)
next
  case (Some j)
  then have j: "j < 2" by (rule handle_to_address_less)
  define n where "n = (if rq_callback (as_table s ! j) = None then 0 else fst (dev_next_frame_id (rq_device (as_table s ! j)) s))"
  define s1 where "s1 = send_id j s"
  define s2 where "s2 = snd (send_frame j s1)"
  define e where "e = fst (send_frame j s1)"
  have t1: "as_table s1 = (as_table s)[j := (as_table s ! j)\<lparr>rq_frame_id := n\<rparr>]"
    by (simp add: s1_def send_id_def Let_def case_prod_unfold update_request_def n_def)
  then have t2: "as_table s2 = (as_table s)[j := (as_table s ! j)\<lparr>rq_frame_id := n\<rparr>]" by (simp add: s2_def)
  then have l2: "length (as_table s2) = 2" "sequence_at i s2 = sequence_at i s"
    and r2: "as_table s2 ! j = (as_table s ! j)\<lparr>rq_frame_id := n\<rparr>"
    using assms j by (simp_all add: sequence_at_def nth_list_update)
  have send: "xbee_cmd_send h s = (e, if e = Inr 0 then send_done j s2 else s2)"
    by (simp add: xbee_cmd_send_def Some case_prod_unfold Let_def s1_def s2_def e_def)
  show ?thesis
  proof (cases "e = Inr 0")
    case False
    then show ?thesis using l2 by (simp add: send spent_def)
  next
    case True
    then have "rq_device (as_table s ! j) \<noteq> None"
      using send_frame_device [of j s1 0] t1 j assms(1) by (simp add: e_def)
    then have zero: "n = 0 \<longleftrightarrow> rq_callback (as_table s ! j) = None"
      using dev_next_frame_id_nonzero [of "rq_device (as_table s ! j)" s] by (simp add: n_def)
    have spent: "spent h i s \<longleftrightarrow> j = i \<and> n = 0 \<and> rq_flags (as_table s ! j) AND XBEE_CMD_FLAG_REUSE_HANDLE = 0"
      using Some True zero by (auto simp: spent_def send)
    show ?thesis
      using l2 release_sequence [OF l2(1) j assms(2)] update_request_sequence [OF l2(1) j assms(2)] True
      by (simp add: send send_done_def Let_def r2 spent) auto
  qed
qed

lemma later_sequence:
  assumes "later i s k t" "length (as_table s) = 2" "i < 2"
  shows "length (as_table t) = 2 \<and> sequence_at i t = sequence_at i s + of_nat k"
  using assms(1)
proof (induction rule: later.induct)
  case (send k t h)
  then show ?case using send_sequence [of t i h] assms(3) by simp
next
  case (release_handle k t h)
  then show ?case
    using release_sequence [of t _ i] assms(3) handle_to_address_less [of h t]
    by (cases "xbee_cmd_handle_to_address h t")
      (auto simp: xbee_cmd_release_handle_def, simp_all add: xbee_cmd_release_request_def [of None])
next
  case (release_request k t j)
  then show ?case using release_sequence [of t j i] assms(3) by simp
next
  case (allocate k t j d cmd)
  then show ?case using update_request_sequence [of t j i] assms(3) by (simp add: allocate_def request_zero_def)
next
  case (elsewhere k t t')
  then show ?case by (simp add: sequence_at_def)
next
  case (set_param_bytes k t h bs len)
  then show ?case
    using on_request_sequence [of t i "store_param (take (unat len) bs)" h] assms(3)
    by (simp add: xbee_cmd_set_param_bytes_def store_param_def)
next
  case (set_param_str k t h str)
  then show ?case
    using on_request_sequence [of t i "store_param (take (unat (of_nat (length str) :: u8)) str)" h] assms(3)
    by (simp add: xbee_cmd_set_param_str_def xbee_cmd_set_param_bytes_def store_param_def)
qed (use assms(2,3) in
  \<open>simp_all add: xbee_cmd_set_command_def xbee_cmd_set_callback_def xbee_cmd_set_target_def xbee_cmd_set_flags_def
    xbee_cmd_clear_flags_def xbee_cmd_set_param_def store_param_def on_request_sequence split: option.split\<close>)

section \<open>Released handles\<close>

lemma of_nat_zero_u8: "(of_nat k :: u8) = 0 \<longleftrightarrow> k mod 256 = 0"
  by (simp add: word_of_nat_eq_0_iff dvd_eq_mod_eq_0)

text \<open>
  C27: A handle after any history of the requests, with any number of releases and new requests in
  between.  It names its entry exactly when the number of releases of that entry is a multiple of
  256, the range of the sequence number in the handle.  Otherwise each of the ten functions that take
  a handle refuses it with \<open>EINVAL\<close>, or \<open>EMSGSIZE\<close> for a parameter that is too long, and changes
  nothing.
\<close>

theorem released_handle_refused:
  assumes "length (as_table s) = 2" "i < 2" "later i s k t"
  defines "h \<equiv> request_handle i s"
  shows "xbee_cmd_handle_to_address h t = (if k mod 256 = 0 then Some i else None) \<and>
    (k mod 256 \<noteq> 0 \<longrightarrow>
       xbee_cmd_send h t = (Inl EINVAL, t) \<and> xbee_cmd_release_handle h t = (Inl EINVAL, t) \<and>
       xbee_cmd_set_command h c t = (Inl EINVAL, t) \<and> xbee_cmd_set_callback h f x t = (Inl EINVAL, t) \<and>
       xbee_cmd_set_target h a n t = (Inl EINVAL, t) \<and> xbee_cmd_set_flags h fl t = (Inl EINVAL, t) \<and>
       xbee_cmd_clear_flags h fl t = (Inl EINVAL, t) \<and> xbee_cmd_set_param h v t = (Inl EINVAL, t) \<and>
       xbee_cmd_set_param_bytes h bs len t = (Inl (if 48 < unat len then EMSGSIZE else EINVAL), t) \<and>
       xbee_cmd_set_param_str h str t = (Inl (if 48 < length str then EMSGSIZE else EINVAL), t))"
proof -
  have "sequence_at i t = sequence_at i s + of_nat k" using later_sequence [OF assms(3,1,2)] by simp
  then have "sequence_at i t = sequence_at i s \<longleftrightarrow> k mod 256 = 0" using of_nat_zero_u8 [of k] by simp
  moreover obtain q where q: "uint (sequence_at i s) = q" "0 \<le> q" "q < 256" using uint_lt2p [of "sequence_at i s"] by simp
  moreover have "h = 256 * int i + q" using q(1) by (simp add: h_def request_handle_def sequence_at_def)
  then have "h div 256 = int i" "h mod 256 = uint (sequence_at i s)" "0 \<le> h" "h < 512"
    unfolding q(1) using q(2,3) less_two_cases [OF assms(2)] by auto
  ultimately have addr: "xbee_cmd_handle_to_address h t = (if k mod 256 = 0 then Some i else None)"
    by (auto simp: xbee_cmd_handle_to_address_def Let_def sequence_at_def word_uint_eq_iff)
  have short: "length str \<le> 48 \<Longrightarrow> unat (of_nat (length str) :: u8) = length str" by (intro unat_of_nat_u8) simp
  show ?thesis
    using addr short
    by (simp add: xbee_cmd_send_def xbee_cmd_release_handle_def xbee_cmd_release_request_def xbee_cmd_set_command_def
        xbee_cmd_set_callback_def xbee_cmd_set_param_def xbee_cmd_set_target_def xbee_cmd_set_flags_def
        xbee_cmd_clear_flags_def xbee_cmd_set_param_bytes_def xbee_cmd_set_param_str_def on_request_def)
qed

theorem released_handle_refused_witness:
  "xbee_cmd_send 0 (allocate 0 5 0 (snd (xbee_cmd_release_handle 0 demo_at))) =
     (Inl EINVAL, allocate 0 5 0 (snd (xbee_cmd_release_handle 0 demo_at)))"
proof -
  have h: "request_handle 0 demo_at = 0" by (simp add: request_handle_def demo_at_def request_zero_def)
  have "xbee_cmd_handle_to_address 0 demo_at = Some 0"
    by (simp add: xbee_cmd_handle_to_address_def demo_at_def request_zero_def)
  then have "later 0 demo_at (Suc 0) (allocate 0 5 0 (snd (xbee_cmd_release_handle 0 demo_at)))"
    using later.allocate [OF later.release_handle [OF later.start, of 0 demo_at 0], of 0 0 5] by simp
  from released_handle_refused [OF demo_at_facts(7) _ this] show ?thesis unfolding h by simp
qed

end
