(* ===== verification/Xbee_Wpan.thy ===== *)
theory Xbee_Wpan
  imports Xbee_Frames Wpan_Aps
begin

text \<open>
  The binding of the application support layer to the radio module
  (\<open>pxbee/pan/xbee/xbee_wpan.c\<close>, \<open>headers/xbee/wpan.h\<close>): explicit frames that arrive become
  envelopes for the dispatcher, envelopes to send become explicit transmit frames.  The state the
  handlers of the support layer work on is the device itself, whose \<open>xd_world\<close> is the rest of the
  system.
\<close>

section \<open>Frames\<close>

abbreviation XBEE_FRAME_TRANSMIT_EXPLICIT :: u8 where "XBEE_FRAME_TRANSMIT_EXPLICIT \<equiv> 0x11"
abbreviation XBEE_FRAME_RECEIVE_EXPLICIT :: u8 where "XBEE_FRAME_RECEIVE_EXPLICIT \<equiv> 0x91"
abbreviation XBEE_RX_OPT_BROADCAST :: u8 where "XBEE_RX_OPT_BROADCAST \<equiv> 0x02"
abbreviation XBEE_RX_OPT_APS_ENCRYPT :: u8 where "XBEE_RX_OPT_APS_ENCRYPT \<equiv> 0x20"
abbreviation XBEE_TX_OPT_APS_ENCRYPT :: u8 where "XBEE_TX_OPT_APS_ENCRYPT \<equiv> 0x20"
abbreviation WPAN_SEND_FLAG_ENCRYPTED :: u16 where "WPAN_SEND_FLAG_ENCRYPTED \<equiv> 0x0001"

text \<open>
  \<open>xbee_frame_receive_explicit_t\<close>: the type, the sender's 64-bit and 16-bit addresses, the source
  and destination endpoints, the cluster, the profile and the options, 18 bytes before the payload.
\<close>

abbreviation receive_explicit_payload :: nat where "receive_explicit_payload \<equiv> 18"

definition receive_explicit_envelope :: "nat \<Rightarrow> u8 list \<Rightarrow> u16 \<Rightarrow> wpan_envelope" where
  "receive_explicit_envelope dev frame len =
     (let options = frame ! 17 in
      \<lparr>env_dev = Some dev,
       env_ieee_address = take 8 (drop 1 frame),
       env_network_address = be16 (frame ! 9) (frame ! 10),
       env_profile_id = be16 (frame ! 15) (frame ! 16),
       env_cluster_id = be16 (frame ! 13) (frame ! 14),
       env_source_endpoint = frame ! 11,
       env_dest_endpoint = frame ! 12,
       env_options = (if options AND XBEE_RX_OPT_BROADCAST \<noteq> 0 then WPAN_ENVELOPE_BROADCAST_ADDR else 0)
         OR (if options AND XBEE_RX_OPT_APS_ENCRYPT \<noteq> 0 then WPAN_ENVELOPE_RX_APS_ENCRYPT else 0),
       env_payload = Some (drop receive_explicit_payload frame),
       env_length = len - of_nat receive_explicit_payload\<rparr>)"

text \<open>
  \<open>_xbee_handle_receive_explicit\<close>.  \<open>None\<close> is a dispatch that never ends, which an endpoint walker
  of the application could bring about.
\<close>

definition xbee_handle_receive_explicit ::
    "(wpan_envelope \<Rightarrow> 'w xbee_dev \<Rightarrow> rc \<times> 'w xbee_dev) \<Rightarrow> (nat \<Rightarrow> ('c, 'w xbee_dev) wpan_dev) \<Rightarrow> nat
     \<Rightarrow> 'w xbee_dev \<Rightarrow> u8 list option \<Rightarrow> u16 \<Rightarrow> (rc \<times> 'w xbee_dev) option" where
  "xbee_handle_receive_explicit invalid_cluster devs dev xbee raw len =
     (case raw of
        None \<Rightarrow> Some (Inl EINVAL, xbee)
      | Some frame \<Rightarrow>
          if len < of_nat receive_explicit_payload then Some (Inl EBADMSG, xbee)
          else
            map_option (\<lambda>(retval, _, xbee). (retval, xbee))
              (wpan_envelope_dispatch invalid_cluster devs (receive_explicit_envelope dev frame len) xbee))"

text \<open>\<open>xbee_header_transmit_explicit_t\<close>, 20 bytes.\<close>

definition transmit_explicit_header :: "u8 \<Rightarrow> wpan_envelope \<Rightarrow> u16 \<Rightarrow> u8 list" where
  "transmit_explicit_header frame_id envelope flags =
     [XBEE_FRAME_TRANSMIT_EXPLICIT, frame_id] @ env_ieee_address envelope @
     bytes16 (env_network_address envelope) @
     [env_source_endpoint envelope, env_dest_endpoint envelope] @
     bytes16 (env_cluster_id envelope) @ bytes16 (env_profile_id envelope) @
     [0, if flags AND WPAN_SEND_FLAG_ENCRYPTED \<noteq> 0 then XBEE_TX_OPT_APS_ENCRYPT else 0]"

definition xbee_endpoint_send :: "wpan_envelope \<Rightarrow> u16 \<Rightarrow> 'w xbee_dev \<Rightarrow> rc \<times> 'w xbee_dev" where
  "xbee_endpoint_send envelope flags xbee =
     (let (frame_id, xbee) = xbee_next_frame_id (Some xbee);
          (error, xbee) = xbee_frame_write xbee (Some (transmit_explicit_header frame_id envelope flags)) 20
            (env_payload envelope) (env_length envelope) 0
      in (error, the xbee))"

section \<open>The device\<close>

text \<open>
  \<open>_xbee_wpan_tick\<close>.  The tick of the module's driver returns for every device whose handlers keep
  the receiver (\<open>xbee_frame_load\<close>); the device is never a null pointer here.
\<close>

definition xbee_wpan_tick ::
    "'w xbee_dispatch_table_entry list \<Rightarrow> 'w xbee_dev \<Rightarrow> rc \<times> 'w xbee_dev" where
  "xbee_wpan_tick handlers dev = (case the (xbee_dev_tick handlers (Some dev)) of (r, d) \<Rightarrow> (r, the d))"

definition xbee_wpan_init ::
    "'w xbee_dispatch_table_entry list \<Rightarrow> ('c, 'w xbee_dev) wpan_dev option \<Rightarrow> ('c, 'w xbee_dev) ep_ptr option
     \<Rightarrow> rc \<times> ('c, 'w xbee_dev) wpan_dev option" where
  "xbee_wpan_init handlers xbee ep_table =
     (case (xbee, ep_table) of
        (Some d, Some table) \<Rightarrow>
          (Inr 0, Some (d\<lparr>dev_tick := Some (xbee_wpan_tick handlers), dev_endpoint_send := Some xbee_endpoint_send,
                          dev_endpoint_table := Some table\<rparr>))
      | _ \<Rightarrow> (Inl EINVAL, xbee))"

text \<open>A transmit status frame is not looked at.\<close>

definition xbee_handle_transmit_status :: "'w xbee_dev \<Rightarrow> u8 list \<Rightarrow> u16 \<Rightarrow> rc \<times> 'w xbee_dev" where
  "xbee_handle_transmit_status xbee payload len = (Inr 0, xbee)"

section \<open>What arrives\<close>

text \<open>The frame a module sends its host for a packet.\<close>

definition receive_explicit_frame :: "wpan_envelope \<Rightarrow> u8 \<Rightarrow> u8 list \<Rightarrow> u8 list" where
  "receive_explicit_frame e options payload =
     XBEE_FRAME_RECEIVE_EXPLICIT # env_ieee_address e @ bytes16 (env_network_address e) @
     [env_source_endpoint e, env_dest_endpoint e] @ bytes16 (env_cluster_id e) @ bytes16 (env_profile_id e) @
     [options] @ payload"

lemma be16_bytes16 [simp]: "be16 (ucast (drop_bit 8 w)) (ucast w) = w"
  unfolding be16_def by (rule bit_word_eqI) (auto simp: bit_simps)

lemma receive_explicit_frame_length:
  "length (env_ieee_address e) = 8 \<Longrightarrow> length (receive_explicit_frame e options payload) = 18 + length payload"
  by (simp add: receive_explicit_frame_def bytes16_def)

lemma receive_explicit_envelope_frame:
  assumes "length (env_ieee_address e) = 8"
  shows "receive_explicit_envelope dev (receive_explicit_frame e options payload) (of_nat (18 + length payload)) =
    e\<lparr>env_dev := Some dev,
      env_options := (if options AND XBEE_RX_OPT_BROADCAST \<noteq> 0 then WPAN_ENVELOPE_BROADCAST_ADDR else 0)
        OR (if options AND XBEE_RX_OPT_APS_ENCRYPT \<noteq> 0 then WPAN_ENVELOPE_RX_APS_ENCRYPT else 0),
      env_payload := Some payload, env_length := of_nat (length payload)\<rparr>"
proof -
  obtain a0 a1 a2 a3 a4 a5 a6 a7 where a: "env_ieee_address e = [a0, a1, a2, a3, a4, a5, a6, a7]"
    using assms by (rule addr64_cases)
  show ?thesis
    by (cases e) (use a in \<open>simp add: receive_explicit_envelope_def receive_explicit_frame_def bytes16_def Let_def\<close>)
qed

lemma of_nat_less_18: "k < 65518 \<Longrightarrow> \<not> (of_nat (18 + k) :: u16) < 18"
  using unat_of_nat_u16 [of "18 + k"] by (simp add: word_less_nat_alt del: of_nat_add)

definition demo_envelope :: wpan_envelope where
  "demo_envelope = (wpan_envelope_create (Some 0) WPAN_IEEE_ADDR_ALL_ZEROS 0xFFFE)
     \<lparr>env_source_endpoint := 0xEA, env_dest_endpoint := 1, env_profile_id := 0x0104, env_cluster_id := 6,
      env_payload := Some [0, 0, 0, 16, 1], env_length := 5\<rparr>"

text \<open>
  C11: Reception.  A packet for the device, in the explicit frame the module passes on, is
  dispatched as exactly the envelope it describes, with its sender, endpoints, cluster, profile
  and payload, marked as a broadcast or as encrypted when the module says so; a frame that is too
  short for its header is refused with \<open>-EBADMSG\<close> and reaches no endpoint.
\<close>

theorem receive_explicit_dispatches:
  assumes "length (env_ieee_address e) = 8" "length payload < 65518"
  shows "xbee_handle_receive_explicit ic devs dev xbee
      (Some (receive_explicit_frame e options payload)) (of_nat (18 + length payload)) =
    map_option (\<lambda>(retval, _, xbee). (retval, xbee)) (wpan_envelope_dispatch ic devs
      (e\<lparr>env_dev := Some dev,
         env_options := (if options AND XBEE_RX_OPT_BROADCAST \<noteq> 0 then WPAN_ENVELOPE_BROADCAST_ADDR else 0)
           OR (if options AND XBEE_RX_OPT_APS_ENCRYPT \<noteq> 0 then WPAN_ENVELOPE_RX_APS_ENCRYPT else 0),
         env_payload := Some payload, env_length := of_nat (length payload)\<rparr>) xbee) \<and>
    (len < 18 \<longrightarrow> xbee_handle_receive_explicit ic devs dev xbee (Some short) len = Some (Inl EBADMSG, xbee))"
  using of_nat_less_18 [OF assms(2)] receive_explicit_envelope_frame [OF assms(1), of dev options payload]
  by (simp add: xbee_handle_receive_explicit_def)

definition bare_wpan_dev :: "('c, 'w) wpan_dev" where
  "bare_wpan_dev = \<lparr>dev_tick = None, dev_endpoint_send = None, dev_endpoint_get_next = None, dev_ieee = replicate 8 0,
     dev_network = 0, dev_payload = 0, dev_flags = 0, dev_endpoint_table = None\<rparr>"

theorem receive_explicit_dispatches_witness:
  "xbee_handle_receive_explicit (\<lambda>_ x. (Inr 0, x)) (\<lambda>_. bare_wpan_dev :: (unit, u8 list list xbee_dev) wpan_dev) 0 demo_dev
     (Some (receive_explicit_frame demo_envelope 0 [1, 2])) 20 = Some (Inl ENOENT, demo_dev)"
proof -
  have "length (env_ieee_address demo_envelope) = 8" "length [1, 2 :: u8] < 65518"
    by (simp_all add: demo_envelope_def wpan_envelope_create_def WPAN_IEEE_ADDR_ALL_ZEROS_def)
  note dispatched = receive_explicit_dispatches [OF this, of "\<lambda>_ x. (Inr 0, x)"
    "\<lambda>_. bare_wpan_dev :: (unit, u8 list list xbee_dev) wpan_dev" 0 demo_dev 0 0 "[]", THEN conjunct1]
  have "endpoint_search P (Some (bare_wpan_dev :: (unit, u8 list list xbee_dev) wpan_dev)) None = Some None" for P
    by (subst endpoint_search.simps) (simp add: wpan_endpoint_get_next_def bare_wpan_dev_def)
  moreover have "env_dest_endpoint demo_envelope = 1" by (simp add: demo_envelope_def)
  ultimately show ?thesis
    using dispatched by (simp add: wpan_envelope_dispatch_def wpan_endpoint_match_def)
qed

section \<open>What is sent\<close>

lemma length_transmit_explicit_header:
  "length (env_ieee_address e) = 8 \<Longrightarrow> length (transmit_explicit_header i e flags) = 20"
  by (simp add: transmit_explicit_header_def bytes16_def)

lemma next_frame_id:
  "\<exists>d'. xbee_next_frame_id (Some d) = (i, Some d') \<and> d' = d\<lparr>xd_frame_id := i\<rparr> \<and> i \<noteq> 0"
  if "i = fst (xbee_next_frame_id (Some d))"
  using that by (auto simp: xbee_next_frame_id_def Let_def)

definition device_wire :: "'w xbee_dev \<Rightarrow> u8 list" where
  "device_wire d = tx_sent (xd_stx d) (sp_port (xd_serport d))"

lemma xbee_endpoint_send_sends:
  assumes "xbee_endpoint_send e flags d = (Inr r, d')"
    and "length (env_ieee_address e) = 8" "env_payload e = Some payload"
    and "unat (env_length e) \<le> length payload" "unat (env_length e) \<le> 255"
  shows "r = 0 \<and> device_wire d' = device_wire d @
      frame_bytes (transmit_explicit_header (xd_frame_id d') e flags @ take (unat (env_length e)) payload) \<and>
    (\<exists>tx. d' = d\<lparr>xd_frame_id := fst (xbee_next_frame_id (Some d)), xd_stx := tx\<rparr>)"
proof -
  let ?i = "fst (xbee_next_frame_id (Some d))"
  let ?h = "transmit_explicit_header ?i e flags"
  obtain d1 where d1: "xbee_next_frame_id (Some d) = (?i, Some d1)" "d1 = d\<lparr>xd_frame_id := ?i\<rparr>"
    using next_frame_id [OF refl, of d] by auto
  obtain x where x: "xbee_frame_write (Some d1) (Some ?h) 20 (Some payload) (env_length e) 0 = (Inr r, x)" "d' = the x"
    using assms(1,3) d1(1) by (auto simp: xbee_endpoint_send_def split: prod.splits)
  have "part_ok (Some ?h) 20" "part (Some ?h) 20 = ?h"
    using length_transmit_explicit_header [OF assms(2), of ?i flags] by (simp_all add: part_ok_def part_def)
  moreover have "part_ok (Some payload) (env_length e)"
    "part (Some payload) (env_length e) = take (unat (env_length e)) payload"
    using assms(4,5) by (simp_all add: part_ok_def part_def)
  ultimately obtain tx where tx: "r = 0" "x = Some (d1\<lparr>xd_stx := tx\<rparr>)"
    "tx_sent tx (sp_port (xd_serport d1)) = tx_sent (xd_stx d1) (sp_port (xd_serport d1)) @
      frame_bytes (?h @ take (unat (env_length e)) payload)"
    using xbee_frame_write_sends [OF x(1)] by auto
  then show ?thesis using x(2) d1(2) by (auto simp: device_wire_def)
qed

text \<open>
  C10: An envelope through the radio.  When \<open>_xbee_endpoint_send\<close> succeeds, the bytes written to the
  module are one transmit frame for the envelope's destination; and a receive frame that carries
  that frame's endpoints, cluster, profile and data is turned back into an envelope with the same
  endpoints, cluster, profile, payload and length.
\<close>

theorem explicit_roundtrip:
  assumes "xbee_endpoint_send e flags d = (Inr r, d')"
    and "length (env_ieee_address e) = 8" "env_payload e = Some payload"
    and "env_length e = of_nat (length payload)" "length payload \<le> 235"
  shows "\<exists>f. device_wire d' = device_wire d @ frame_bytes f \<and>
    take 12 f = [XBEE_FRAME_TRANSMIT_EXPLICIT, xd_frame_id d'] @ env_ieee_address e @ bytes16 (env_network_address e) \<and>
    xd_frame_id d' \<noteq> 0 \<and>
    (\<forall>g dev. take 6 (drop 11 g) = take 6 (drop 12 f) \<and> drop 18 g = drop 20 f \<and> length g \<ge> 18 \<longrightarrow>
      (let a = receive_explicit_envelope dev g (of_nat (length g)) in
       env_source_endpoint a = env_source_endpoint e \<and> env_dest_endpoint a = env_dest_endpoint e \<and>
       env_cluster_id a = env_cluster_id e \<and> env_profile_id a = env_profile_id e \<and>
       env_payload a = Some payload \<and> env_length a = env_length e))"
proof -
  have len: "unat (env_length e) = length payload" using assms(4,5) by (simp add: unat_of_nat_u16)
  note sent = xbee_endpoint_send_sends [OF assms(1-3)]
  define f where "f = transmit_explicit_header (xd_frame_id d') e flags @ payload"
  have w: "device_wire d' = device_wire d @ frame_bytes f"
    using sent len assms(5) by (simp add: f_def)
  have id: "xd_frame_id d' \<noteq> 0"
    using sent len assms(5) next_frame_id [OF refl, of d] by auto
  obtain a0 a1 a2 a3 a4 a5 a6 a7 where a: "env_ieee_address e = [a0, a1, a2, a3, a4, a5, a6, a7]"
    using assms(2) by (rule addr64_cases)
  have head: "take 12 f = [XBEE_FRAME_TRANSMIT_EXPLICIT, xd_frame_id d'] @ env_ieee_address e @ bytes16 (env_network_address e)"
    by (simp add: f_def transmit_explicit_header_def a bytes16_def)
  have mid: "take 6 (drop 12 f) = [env_source_endpoint e, env_dest_endpoint e] @ bytes16 (env_cluster_id e) @ bytes16 (env_profile_id e)"
    and tail: "drop 20 f = payload"
    by (simp_all add: f_def transmit_explicit_header_def a bytes16_def)
  have again: "let a = receive_explicit_envelope dev g (of_nat (length g)) in
       env_source_endpoint a = env_source_endpoint e \<and> env_dest_endpoint a = env_dest_endpoint e \<and>
       env_cluster_id a = env_cluster_id e \<and> env_profile_id a = env_profile_id e \<and>
       env_payload a = Some payload \<and> env_length a = env_length e"
    if g: "take 6 (drop 11 g) = take 6 (drop 12 f)" "drop 18 g = drop 20 f" "length g \<ge> 18" for g dev
  proof -
    have nth: "g ! (11 + i) = (take 6 (drop 12 f)) ! i" if "i < 6" for i
      using that g(3) unfolding g(1) [symmetric] by simp
    have "g ! 11 = env_source_endpoint e" "g ! 12 = env_dest_endpoint e"
      "g ! 13 = ucast (drop_bit 8 (env_cluster_id e))" "g ! 14 = ucast (env_cluster_id e)"
      "g ! 15 = ucast (drop_bit 8 (env_profile_id e))" "g ! 16 = ucast (env_profile_id e)"
      using nth [of 0] nth [of 1] nth [of 2] nth [of 3] nth [of 4] nth [of 5]
      unfolding mid by (simp_all add: bytes16_def numeral_eq_Suc)
    moreover have "length payload = length g - 18" using g(2) tail by (metis length_drop)
    then have "of_nat (length g) - 18 = (of_nat (length payload) :: u16)"
      using g(3) by (simp add: of_nat_diff)
    ultimately show ?thesis
      using g(2) tail assms(4) by (simp add: receive_explicit_envelope_def Let_def)
  qed
  show ?thesis
    by (rule exI [of _ f]) (use w head id again in blast)
qed

lemma demo_endpoint_send: "fst (xbee_endpoint_send demo_envelope 0 demo_dev) = Inr 0"
  by (simp add: xbee_endpoint_send_def xbee_next_frame_id_def xbee_frame_write_def demo_dev_def demo_port_def Let_def
      xbee_ser_invalid_def xbee_ser_tx_free_def xbee_ser_tx_used_def demo_envelope_def wpan_envelope_create_def)

theorem explicit_roundtrip_witness:
  "\<exists>f. device_wire (snd (xbee_endpoint_send demo_envelope 0 demo_dev)) = device_wire demo_dev @ frame_bytes f \<and>
    take 12 f = [0x11, 1, 0, 0, 0, 0, 0, 0, 0, 0, 0xFF, 0xFE]"
proof -
  let ?d = "snd (xbee_endpoint_send demo_envelope 0 demo_dev)"
  have send: "xbee_endpoint_send demo_envelope 0 demo_dev = (Inr 0, ?d)"
    using demo_endpoint_send by (simp add: prod_eq_iff)
  have env: "length (env_ieee_address demo_envelope) = 8" "env_payload demo_envelope = Some [0, 0, 0, 16, 1]"
    "env_length demo_envelope = of_nat (length [0, 0, 0, 16, 1 :: u8])" "length [0, 0, 0, 16, 1 :: u8] \<le> 235"
    "bytes16 (env_network_address demo_envelope) = [0xFF, 0xFE]" "env_ieee_address demo_envelope = WPAN_IEEE_ADDR_ALL_ZEROS"
    by (simp_all add: demo_envelope_def wpan_envelope_create_def WPAN_IEEE_ADDR_ALL_ZEROS_def) code_simp
  have "xd_frame_id ?d = 1"
    using xbee_endpoint_send_sends [OF send env(1,2)] env(3)
    by (auto simp: xbee_next_frame_id_def demo_dev_def demo_envelope_def)
  with explicit_roundtrip [OF send env(1-4)] env(5,6) show ?thesis
    by (auto simp: WPAN_IEEE_ADDR_ALL_ZEROS_def)
qed

end
