(* ===== verification/Zdo.thy ===== *)
theory Zdo
  imports Zcl_Attr
begin

text \<open>
  ZigBee Device Objects (\<open>pxbee/pan/zigbee/zigbee_zdo.c\<close>, \<open>headers/zigbee/zdo.h\<close>): the answers to
  requests about the endpoints of a device, the requests it sends itself, and the handler of the
  ZDO endpoint.  All numbers on the wire are little-endian.  Requests and their conversations use
  the states of the endpoints, which is a table; a walk over an endpoint table that never ends is
  \<open>None\<close>, as in the support layer.  The texts printed under \<open>ZIGBEE_ZDO_VERBOSE\<close> are left out.
\<close>

abbreviation WPAN_ENDPOINT_ZDO :: u8 where "WPAN_ENDPOINT_ZDO \<equiv> 0"
abbreviation WPAN_PROFILE_ZDO :: u16 where "WPAN_PROFILE_ZDO \<equiv> 0"
abbreviation ZDO_WPAN_NET_ADDR_UNDEFINED :: u16 where "ZDO_WPAN_NET_ADDR_UNDEFINED \<equiv> 0xFFFE"
abbreviation ZDO_CONVERSATION_TIMEOUT :: u16 where "ZDO_CONVERSATION_TIMEOUT \<equiv> 15"
abbreviation ZDO_CLUST_RESPONSE_MASK :: u16 where "ZDO_CLUST_RESPONSE_MASK \<equiv> 0x8000"

abbreviation ZDO_STATUS_SUCCESS :: u8 where "ZDO_STATUS_SUCCESS \<equiv> 0x00"
abbreviation ZDO_STATUS_INVALID_EP :: u8 where "ZDO_STATUS_INVALID_EP \<equiv> 0x82"
abbreviation ZDO_STATUS_NOT_ACTIVE :: u8 where "ZDO_STATUS_NOT_ACTIVE \<equiv> 0x83"
abbreviation ZDO_STATUS_NOT_SUPPORTED :: u8 where "ZDO_STATUS_NOT_SUPPORTED \<equiv> 0x84"
abbreviation ZDO_STATUS_INSUFFICIENT_SPACE :: u8 where "ZDO_STATUS_INSUFFICIENT_SPACE \<equiv> 0x8A"

abbreviation ZDO_NWK_ADDR_REQ :: u16 where "ZDO_NWK_ADDR_REQ \<equiv> 0x0000"
abbreviation ZDO_IEEE_ADDR_REQ :: u16 where "ZDO_IEEE_ADDR_REQ \<equiv> 0x0001"
abbreviation ZDO_SIMPLE_DESC_REQ :: u16 where "ZDO_SIMPLE_DESC_REQ \<equiv> 0x0004"
abbreviation ZDO_ACTIVE_EP_REQ :: u16 where "ZDO_ACTIVE_EP_REQ \<equiv> 0x0005"
abbreviation ZDO_MATCH_DESC_REQ :: u16 where "ZDO_MATCH_DESC_REQ \<equiv> 0x0006"
abbreviation ZDO_DEVICE_ANNCE :: u16 where "ZDO_DEVICE_ANNCE \<equiv> 0x0013"
abbreviation ZDO_BIND_REQ :: u16 where "ZDO_BIND_REQ \<equiv> 0x0021"
abbreviation ZDO_UNBIND_REQ :: u16 where "ZDO_UNBIND_REQ \<equiv> 0x0022"
abbreviation ZDO_MGMT_LEAVE_REQ :: u16 where "ZDO_MGMT_LEAVE_REQ \<equiv> 0x0034"
abbreviation ZDO_MGMT_LEAVE_REQ_ENCRYPTED :: u16 where "ZDO_MGMT_LEAVE_REQ_ENCRYPTED \<equiv> 0x0100"

definition WPAN_IEEE_ADDR_UNDEFINED :: addr64 where
  "WPAN_IEEE_ADDR_UNDEFINED = [0xFF, 0xFF, 0xFF, 0xFF, 0xFF, 0xFF, 0xFF, 0xFF]"

definition WPAN_IEEE_ADDR_BROADCAST :: addr64 where
  "WPAN_IEEE_ADDR_BROADCAST = [0, 0, 0, 0, 0, 0, 0xFF, 0xFF]"

text \<open>A 16-bit number in little-endian order.\<close>

definition bytes16_le :: "u16 \<Rightarrow> u8 list" where
  "bytes16_le w = bytes16 (htole16 w)"

definition read16_le :: "u8 list \<Rightarrow> u16" where
  "read16_le p = le16toh (be16 (p ! 0) (p ! 1))"

section \<open>The ZDO endpoint of a device\<close>

definition zdo_endpoint_of :: "('c, 'w) wpan_dev option \<Rightarrow> ('c, 'w) wpan_endpoint_table_entry option option" where
  "zdo_endpoint_of dev = wpan_endpoint_match dev WPAN_ENDPOINT_ZDO WPAN_PROFILE_ZDO"

definition zdo_endpoint_state :: "('c, 'w) wpan_dev option \<Rightarrow> nat option option" where
  "zdo_endpoint_state dev = map_option (\<lambda>ep. Option.bind ep ep_state) (zdo_endpoint_of dev)"

text \<open>The address in the request and the envelope, for a device that is not null.\<close>

definition zdo_envelope_create ::
    "(nat \<Rightarrow> ('c, 'w) wpan_dev) \<Rightarrow> nat \<Rightarrow> addr64 option \<Rightarrow> addr64 \<times> wpan_envelope" where
  "zdo_envelope_create devs dev address =
     (case address of
        Some a \<Rightarrow> (a, wpan_envelope_create (Some dev) a ZDO_WPAN_NET_ADDR_UNDEFINED)
      | None \<Rightarrow> (WPAN_IEEE_ADDR_ALL_ZEROS,
                 wpan_envelope_create (Some dev) (dev_ieee (devs dev)) (dev_network (devs dev))))"

section \<open>Answering requests\<close>

definition zdo_send_response ::
    "(nat \<Rightarrow> ('c, 's) wpan_dev) \<Rightarrow> wpan_envelope option \<Rightarrow> u8 list \<Rightarrow> 's \<Rightarrow> rc \<times> 's" where
  "zdo_send_response devs request response s =
     (case request of
        None \<Rightarrow> (Inl EINVAL, s)
      | Some r \<Rightarrow>
          let reply = wpan_envelope_reply r in
          wpan_envelope_send devs
            (Some (reply\<lparr>env_payload := Some response, env_length := of_nat (length response),
                         env_cluster_id := env_cluster_id reply OR ZDO_CLUST_RESPONSE_MASK\<rparr>)) s)"

text \<open>A walk over the endpoint table that collects, from a pointer on.\<close>

partial_function (option) endpoint_fold ::
    "(('c, 'w) wpan_endpoint_table_entry \<Rightarrow> 'b \<Rightarrow> 'b) \<Rightarrow> ('c, 'w) wpan_dev option \<Rightarrow> ('c, 'w) ep_ptr option
     \<Rightarrow> 'b \<Rightarrow> 'b option" where
  "endpoint_fold f dev ep acc =
     (case wpan_endpoint_get_next dev ep of
        None \<Rightarrow> Some acc
      | Some p \<Rightarrow> endpoint_fold f dev (Some p) (f (hd p) acc))"

subsection \<open>Match descriptor\<close>

text \<open>
  The search through one list of a request: whether a cluster matched, and the pointer after the
  clusters looked at.  The counts are those of the request; the code does not compare them with
  its length.
\<close>

fun match_clusters ::
    "('c, 'w) wpan_cluster_table_entry list option \<Rightarrow> u8 \<Rightarrow> nat \<Rightarrow> u8 list \<Rightarrow> bool \<times> u8 list" where
  "match_clusters table m 0 p = (False, p)"
| "match_clusters table m (Suc count) p =
     (if wpan_cluster_match (read16_le p) m table \<noteq> None then (True, drop 2 p)
      else match_clusters table m count (drop 2 p))"

definition endpoint_matches :: "u8 list \<Rightarrow> ('c, 'w) wpan_endpoint_table_entry \<Rightarrow> bool" where
  "endpoint_matches num_in ep =
     (let (found, p) = match_clusters (ep_cluster_table ep) WPAN_CLUST_FLAG_INPUT (unat (num_in ! 0)) (drop 1 num_in)
      in found \<or> fst (match_clusters (ep_cluster_table ep) WPAN_CLUST_FLAG_OUTPUT (unat (p ! 0)) (drop 1 p)))"

text \<open>
  The array for the endpoints of a response has 20 entries and the code writes to it without a
  check, so the twenty-first entry is outside of it and nothing is promised: the result is \<open>None\<close>.
\<close>

definition ZDO_MAX_ENDPOINTS :: nat where
  "ZDO_MAX_ENDPOINTS = 20"

definition zdo_match_desc_respond ::
    "(nat \<Rightarrow> ('c, 's) wpan_dev) \<Rightarrow> wpan_envelope option \<Rightarrow> 's \<Rightarrow> (rc \<times> 's) option" where
  "zdo_match_desc_respond devs envelope s =
     (case envelope of
        None \<Rightarrow> Some (Inl EINVAL, s)
      | Some env \<Rightarrow>
          let dev = devs (the (env_dev env)); req = the (env_payload env) in
          if dev_network dev = ZDO_WPAN_NET_ADDR_UNDEFINED then Some (Inl ENODATA, s)
          else
            let profile_id = read16_le (drop 3 req) in
            (case endpoint_fold (\<lambda>ep match_list.
                 if ep_endpoint ep \<noteq> WPAN_ENDPOINT_ZDO \<and> ep_profile_id ep = profile_id
                    \<and> endpoint_matches (drop 5 req) ep
                 then match_list @ [ep_endpoint ep] else match_list) (Some dev) None [] of
               None \<Rightarrow> None
             | Some match_list \<Rightarrow>
                 if ZDO_MAX_ENDPOINTS < length match_list then None
                 else
                 let match_length = of_nat (length match_list) :: u8 in
                 if match_length \<noteq> 0
                 then Some (zdo_send_response devs envelope
                   ([req ! 0, ZDO_STATUS_SUCCESS] @ bytes16_le (dev_network dev) @ [match_length] @ match_list) s)
                 else Some (Inr 0, s)))"

subsection \<open>Simple descriptor\<close>

text \<open>The clusters with a flag of the mask, as a list for a response, or \<open>-ENOSPC\<close>.\<close>

fun simple_desc_loop ::
    "int \<Rightarrow> u8 \<Rightarrow> ('c, 'w) wpan_cluster_table_entry list \<Rightarrow> int \<Rightarrow> u8 list \<Rightarrow> errno + int \<times> u8 list" where
  "simple_desc_loop max_count m [] count clusters = Inr (count, clusters)"
| "simple_desc_loop max_count m (entry # es) count clusters =
     (if ct_cluster_id entry = WPAN_CLUSTER_END_OF_LIST then Inr (count, clusters)
      else if ct_flags entry AND m \<noteq> 0 then
        if count + 1 > max_count then Inl ENOSPC
        else simple_desc_loop max_count m es (count + 1) (clusters @ bytes16_le (ct_cluster_id entry))
      else simple_desc_loop max_count m es count clusters)"

definition simple_desc_cluster_list ::
    "int \<Rightarrow> u8 \<Rightarrow> ('c, 'w) wpan_cluster_table_entry list option \<Rightarrow> errno + int \<times> u8 list" where
  "simple_desc_cluster_list max_count m entry =
     (case (case entry of None \<Rightarrow> Inr (0, []) | Some es \<Rightarrow> simple_desc_loop max_count m es 0 []) of
        Inl e \<Rightarrow> Inl e
      | Inr (count, clusters) \<Rightarrow> Inr (count, word_of_int count # clusters))"

definition simple_desc_clusters :: "('c, 'w) wpan_endpoint_table_entry \<Rightarrow> errno + u8 list" where
  "simple_desc_clusters ep =
     (case simple_desc_cluster_list 39 WPAN_CLUST_FLAG_INPUT (ep_cluster_table ep) of
        Inl e \<Rightarrow> Inl e
      | Inr (n, inputs) \<Rightarrow>
          (case simple_desc_cluster_list (39 - n) WPAN_CLUST_FLAG_OUTPUT (ep_cluster_table ep) of
             Inl e \<Rightarrow> Inl e
           | Inr (_, outputs) \<Rightarrow> Inr (inputs @ outputs)))"

definition zdo_simple_desc_respond ::
    "(nat \<Rightarrow> ('c, 's) wpan_dev) \<Rightarrow> wpan_envelope option \<Rightarrow> 's \<Rightarrow> (rc \<times> 's) option" where
  "zdo_simple_desc_respond devs envelope s =
     (case envelope of
        None \<Rightarrow> Some (Inl EINVAL, s)
      | Some env \<Rightarrow>
          let dev = devs (the (env_dev env)); req = the (env_payload env) in
          if dev_network dev = ZDO_WPAN_NET_ADDR_UNDEFINED then Some (Inl ENODATA, s)
          else
            let endpoint = req ! 3;
                start = (\<lambda>status len. [req ! 0, status] @ bytes16_le (dev_network dev) @ [len]);
                error = (\<lambda>status. Some (zdo_send_response devs envelope (start status 0) s)) in
            if endpoint = 0 \<or> endpoint = 255 then error ZDO_STATUS_INVALID_EP
            else
              (case wpan_endpoint_match (Some dev) endpoint WPAN_APS_PROFILE_ANY of
                 None \<Rightarrow> None
               | Some None \<Rightarrow> error ZDO_STATUS_NOT_ACTIVE
               | Some (Some ep) \<Rightarrow>
                   let descriptor = [endpoint] @ bytes16_le (ep_profile_id ep) @ bytes16_le (ep_device_id ep)
                         @ [ep_device_version ep] in
                   (case simple_desc_clusters ep of
                      Inl _ \<Rightarrow> error ZDO_STATUS_INSUFFICIENT_SPACE
                    | Inr clusters \<Rightarrow>
                        Some (zdo_send_response devs envelope
                          (start ZDO_STATUS_SUCCESS (of_nat (length (descriptor @ clusters))) @ descriptor @ clusters) s))))"

subsection \<open>Active endpoints\<close>

definition zdo_active_ep_respond ::
    "(nat \<Rightarrow> ('c, 's) wpan_dev) \<Rightarrow> wpan_envelope option \<Rightarrow> 's \<Rightarrow> (rc \<times> 's) option" where
  "zdo_active_ep_respond devs envelope s =
     (case envelope of
        None \<Rightarrow> Some (Inl EINVAL, s)
      | Some env \<Rightarrow>
          let dev = devs (the (env_dev env)); req = the (env_payload env) in
          if dev_network dev = ZDO_WPAN_NET_ADDR_UNDEFINED then Some (Inl ENODATA, s)
          else
            (case endpoint_fold (\<lambda>ep active_list.
                 if ep_endpoint ep \<noteq> WPAN_ENDPOINT_ZDO then active_list @ [ep_endpoint ep] else active_list)
                 (Some dev) None [] of
               None \<Rightarrow> None
             | Some active_list \<Rightarrow>
                 if ZDO_MAX_ENDPOINTS < length active_list then None
                 else Some (zdo_send_response devs envelope
                   ([req ! 0, ZDO_STATUS_SUCCESS] @ bytes16_le (dev_network dev) @ [of_nat (length active_list)]
                    @ active_list) s)))"

subsection \<open>The handler\<close>

definition zdo_handler ::
    "'s respond \<Rightarrow> (nat \<Rightarrow> ('c, 's) wpan_dev) \<Rightarrow> (nat \<Rightarrow> wpan_ep_state) \<Rightarrow> wpan_envelope option
     \<Rightarrow> nat option \<Rightarrow> 's \<Rightarrow> (rc \<times> (nat \<Rightarrow> wpan_ep_state) \<times> 's) option" where
  "zdo_handler respond devs states envelope state s =
     (case envelope of
        None \<Rightarrow> Some (Inl EINVAL, states, s)
      | Some env \<Rightarrow>
          let transaction_id = the (env_payload env) ! 0;
              cluster = env_cluster_id env;
              keep = map_option (\<lambda>(r, s). (r, states, s)) in
          if cluster = ZDO_SIMPLE_DESC_REQ then keep (zdo_simple_desc_respond devs envelope s)
          else if cluster = ZDO_ACTIVE_EP_REQ then keep (zdo_active_ep_respond devs envelope s)
          else if cluster = ZDO_MATCH_DESC_REQ then keep (zdo_match_desc_respond devs envelope s)
          else if cluster = ZDO_DEVICE_ANNCE then Some (Inr 0, states, s)
          else if cluster AND ZDO_CLUST_RESPONSE_MASK \<noteq> 0 then
            (case wpan_conversation_response respond devs states state transaction_id envelope s of
               None \<Rightarrow> None
             | Some (retval, states, s) \<Rightarrow>
                 if retval \<noteq> Inl EINVAL then Some (retval, states, s) else Some (Inr 0, states, s))
          else if env_options env AND WPAN_ENVELOPE_BROADCAST_ADDR \<noteq> 0 then Some (Inr 0, states, s)
          else keep (Some (zdo_send_response devs envelope [transaction_id, ZDO_STATUS_NOT_SUPPORTED] s)))"

section \<open>Sending requests\<close>

text \<open>
  \<open>_match_desc_cluster_list\<close>: a count and the clusters of a list before its end marker, or
  \<open>-ENOSPC\<close>.  The count is 8 bits wide.
\<close>

fun match_desc_loop :: "int \<Rightarrow> u16 list \<Rightarrow> u8 \<Rightarrow> u8 list \<Rightarrow> errno + u8 \<times> u8 list" where
  "match_desc_loop max_count [] written clusters = Inr (written, clusters)"
| "match_desc_loop max_count (c # cs) written clusters =
     (if c = WPAN_CLUSTER_END_OF_LIST then Inr (written, clusters)
      else if uint (written + 1) > max_count then Inl ENOSPC
      else match_desc_loop max_count cs (written + 1) (clusters @ bytes16_le c))"

definition match_desc_cluster_list :: "u16 list option \<Rightarrow> int \<Rightarrow> errno + u8 \<times> u8 list" where
  "match_desc_cluster_list clust_read max_count =
     (case (case clust_read of None \<Rightarrow> Inr (0, []) | Some cs \<Rightarrow> match_desc_loop max_count cs 0 []) of
        Inl e \<Rightarrow> Inl e
      | Inr (written, clusters) \<Rightarrow> Inr (written, written # clusters))"

text \<open>
  \<open>zdo_match_desc_request\<close> writes from the second byte of the buffer on; the first is the caller's
  transaction.  The result is the bytes written.  The length of the buffer is compared as an unsigned number.
\<close>

definition zdo_match_desc_request ::
    "u8 list option \<Rightarrow> int \<Rightarrow> u16 \<Rightarrow> u16 \<Rightarrow> u16 list option \<Rightarrow> u16 list option \<Rightarrow> errno + u8 list" where
  "zdo_match_desc_request buffer buflen addr_of_interest profile_id in_clust out_clust =
     (let n = word_of_int buflen :: u16 in
      if buffer = None then Inl EINVAL
      else if n < 9 then Inl ENOSPC
      else
        let max_count = sint ((n - 7) div 2) in
        (case match_desc_cluster_list in_clust max_count of
           Inl e \<Rightarrow> Inl e
         | Inr (k, inputs) \<Rightarrow>
             (case match_desc_cluster_list out_clust (s16 (max_count - uint k)) of
                Inl e \<Rightarrow> Inl e
              | Inr (_, outputs) \<Rightarrow>
                  Inr (bytes16_le addr_of_interest @ bytes16_le profile_id @ inputs @ outputs))))"

text \<open>Registering a conversation with the state of the ZDO endpoint of a device.\<close>

definition zdo_register ::
    "(nat \<Rightarrow> ('c, 's) wpan_dev) \<Rightarrow> (nat \<Rightarrow> wpan_ep_state) \<Rightarrow> nat option \<Rightarrow> nat option \<Rightarrow> nat \<Rightarrow> u32
     \<Rightarrow> (rc \<times> (nat \<Rightarrow> wpan_ep_state)) option" where
  "zdo_register devs states dev callback context seconds =
     (case zdo_endpoint_state (map_option devs dev) of
        None \<Rightarrow> None
      | Some None \<Rightarrow> Some (fst (wpan_conversation_register None callback context ZDO_CONVERSATION_TIMEOUT seconds), states)
      | Some (Some n) \<Rightarrow>
          let (r, st) = wpan_conversation_register (Some (states n)) callback context ZDO_CONVERSATION_TIMEOUT seconds
          in Some (r, states(n := the st)))"

text \<open>
  What the request functions share: the registration, and the envelope sent with the transaction
  in front of the rest of the request, or the error of the registration.
\<close>

definition zdo_request ::
    "(nat \<Rightarrow> ('c, 's) wpan_dev) \<Rightarrow> (nat \<Rightarrow> wpan_ep_state) \<Rightarrow> nat option \<Rightarrow> nat option \<Rightarrow> nat \<Rightarrow> u32
     \<Rightarrow> wpan_envelope \<Rightarrow> u8 list \<Rightarrow> 's \<Rightarrow> (rc \<times> (nat \<Rightarrow> wpan_ep_state) \<times> 's) option" where
  "zdo_request devs states dev callback context seconds envelope body s =
     (case zdo_register devs states dev callback context seconds of
        None \<Rightarrow> None
      | Some (Inl e, states) \<Rightarrow> Some (Inl e, states, s)
      | Some (Inr tid, states) \<Rightarrow>
          if tid < 0 then Some (Inr tid, states, s)
          else
            let payload = word_of_int tid # body;
                (r, s) = wpan_envelope_send devs
                  (Some (envelope\<lparr>env_payload := Some payload, env_length := of_nat (length payload)\<rparr>)) s
            in Some (r, states, s))"

text \<open>
  \<open>zdo_simple_desc_request\<close> and \<open>zdo_send_descriptor_req\<close> change the caller's envelope: the last
  component.  An error of the registration leaves it alone; the envelope is given back without its
  payload otherwise.
\<close>

definition zdo_request_envelope ::
    "(nat \<Rightarrow> ('c, 's) wpan_dev) \<Rightarrow> (nat \<Rightarrow> wpan_ep_state) \<Rightarrow> wpan_envelope \<Rightarrow> u16 \<Rightarrow> u8 list
     \<Rightarrow> nat option \<Rightarrow> nat \<Rightarrow> u32 \<Rightarrow> 's \<Rightarrow> (rc \<times> (nat \<Rightarrow> wpan_ep_state) \<times> 's \<times> wpan_envelope) option" where
  "zdo_request_envelope devs states env cluster body callback context seconds s =
     (case zdo_register devs states (env_dev env) callback context seconds of
        None \<Rightarrow> None
      | Some (Inl e, states) \<Rightarrow> Some (Inl e, states, s, env)
      | Some (Inr tid, states) \<Rightarrow>
          if tid < 0 then Some (Inr tid, states, s, env)
          else
            let payload = word_of_int tid # body;
                env = env\<lparr>env_cluster_id := cluster\<rparr>;
                (r, s) = wpan_envelope_send devs
                  (Some (env\<lparr>env_payload := Some payload, env_length := of_nat (length payload)\<rparr>)) s
            in Some (r, states, s, env\<lparr>env_payload := None, env_length := 0\<rparr>))"

definition zdo_simple_desc_request ::
    "(nat \<Rightarrow> ('c, 's) wpan_dev) \<Rightarrow> (nat \<Rightarrow> wpan_ep_state) \<Rightarrow> wpan_envelope option \<Rightarrow> u16 \<Rightarrow> u8
     \<Rightarrow> nat option \<Rightarrow> nat \<Rightarrow> u32 \<Rightarrow> 's \<Rightarrow> (rc \<times> (nat \<Rightarrow> wpan_ep_state) \<times> 's \<times> wpan_envelope option) option" where
  "zdo_simple_desc_request devs states envelope addr_of_interest endpoint callback context seconds s =
     (case envelope of
        None \<Rightarrow> Some (Inl EINVAL, states, s, None)
      | Some env \<Rightarrow>
          if endpoint = 0 \<or> endpoint = 255 then Some (Inl EINVAL, states, s, envelope)
          else
            map_option (\<lambda>(r, states, s, env). (r, states, s, Some env))
              (zdo_request_envelope devs states env ZDO_SIMPLE_DESC_REQ (bytes16_le addr_of_interest @ [endpoint])
                callback context seconds s))"

definition zdo_send_descriptor_req ::
    "(nat \<Rightarrow> ('c, 's) wpan_dev) \<Rightarrow> (nat \<Rightarrow> wpan_ep_state) \<Rightarrow> wpan_envelope option \<Rightarrow> u16 \<Rightarrow> u16
     \<Rightarrow> nat option \<Rightarrow> nat \<Rightarrow> u32 \<Rightarrow> 's \<Rightarrow> (rc \<times> (nat \<Rightarrow> wpan_ep_state) \<times> 's \<times> wpan_envelope option) option" where
  "zdo_send_descriptor_req devs states envelope cluster addr_of_interest callback context seconds s =
     (case envelope of
        None \<Rightarrow> Some (Inl EINVAL, states, s, None)
      | Some env \<Rightarrow>
          map_option (\<lambda>(r, states, s, env). (r, states, s, Some env))
            (zdo_request_envelope devs states env cluster (bytes16_le addr_of_interest) callback context seconds s))"

text \<open>The addresses in a bind request are byte-swapped into little-endian order.\<close>

definition zdo_send_bind_req ::
    "(nat \<Rightarrow> ('c, 's) wpan_dev) \<Rightarrow> (nat \<Rightarrow> wpan_ep_state) \<Rightarrow> wpan_envelope option \<Rightarrow> u16
     \<Rightarrow> nat option \<Rightarrow> nat \<Rightarrow> u32 \<Rightarrow> 's \<Rightarrow> (rc \<times> (nat \<Rightarrow> wpan_ep_state) \<times> 's) option" where
  "zdo_send_bind_req devs states envelope type callback context seconds s =
     (case envelope of
        None \<Rightarrow> Some (Inl EINVAL, states, s)
      | Some env \<Rightarrow>
          if type \<noteq> ZDO_BIND_REQ \<and> type \<noteq> ZDO_UNBIND_REQ then Some (Inl EINVAL, states, s)
          else
            let dev = the (env_dev env);
                (_, bind_env) = zdo_envelope_create devs dev (Some (env_ieee_address env));
                bind_env = bind_env\<lparr>env_network_address := env_network_address env, env_cluster_id := type\<rparr> in
            zdo_request devs states (Some dev) callback context seconds bind_env
              (swapcpy (env_ieee_address env) 8 @ [env_dest_endpoint env] @ bytes16_le (env_cluster_id env) @ [0x03]
               @ swapcpy (dev_ieee (devs dev)) 8 @ [env_source_endpoint env]) s)"

text \<open>
  \<open>zdo_mgmt_leave_req\<close> copies the address as it is, most significant byte first, and registers no
  conversation.  A ZDO endpoint without a state makes \<open>wpan_endpoint_next_trans\<close> return 0.
\<close>

definition zdo_mgmt_leave_req ::
    "(nat \<Rightarrow> ('c, 's) wpan_dev) \<Rightarrow> (nat \<Rightarrow> wpan_ep_state) \<Rightarrow> nat option \<Rightarrow> addr64 option \<Rightarrow> u16 \<Rightarrow> 's
     \<Rightarrow> (rc \<times> (nat \<Rightarrow> wpan_ep_state) \<times> 's) option" where
  "zdo_mgmt_leave_req devs states dev address flags s =
     (case dev of
        None \<Rightarrow> Some (Inl EINVAL, states, s)
      | Some d \<Rightarrow>
          let (addr, envelope) = zdo_envelope_create devs d address;
              envelope = envelope\<lparr>env_cluster_id := ZDO_MGMT_LEAVE_REQ,
                env_options := (if flags AND ZDO_MGMT_LEAVE_REQ_ENCRYPTED \<noteq> 0
                                then env_options envelope OR ucast WPAN_CLUST_FLAG_ENCRYPT else env_options envelope)\<rparr> in
          (case zdo_endpoint_state (Some (devs d)) of
             None \<Rightarrow> None
           | Some n \<Rightarrow>
               let (tid, st) = wpan_endpoint_next_trans (map_option states n);
                   states = (case n of None \<Rightarrow> states | Some k \<Rightarrow> states(k := the st));
                   payload = [tid] @ addr @ [ucast flags];
                   (r, s) = wpan_envelope_send devs
                     (Some (envelope\<lparr>env_payload := Some payload, env_length := of_nat (length payload)\<rparr>)) s
               in Some (r, states, s)))"

subsection \<open>Looking up addresses\<close>

abbreviation ZDO_NET_ADDR_PENDING :: u16 where "ZDO_NET_ADDR_PENDING \<equiv> 0xFFFE"
abbreviation ZDO_NET_ADDR_TIMEOUT :: u16 where "ZDO_NET_ADDR_TIMEOUT \<equiv> 0xFFFF"
abbreviation ZDO_NET_ADDR_ERROR :: u16 where "ZDO_NET_ADDR_ERROR \<equiv> 0xFFFD"

text \<open>
  The answer is stored at an address of the memory, which is the context of the conversation.
  The response has the transaction, a status, the 64-bit and the 16-bit address.
\<close>

definition zdo_process_nwk_addr_resp ::
    "wpan_conversation \<Rightarrow> wpan_envelope option \<Rightarrow> mem \<times> 'w \<Rightarrow> rc \<times> wpan_conversation \<times> mem \<times> 'w" where
  "zdo_process_nwk_addr_resp conversation envelope = (\<lambda>(m, w).
     let net = (case envelope of
           None \<Rightarrow> ZDO_NET_ADDR_TIMEOUT
         | Some env \<Rightarrow>
             let response = the (env_payload env) in
             if response ! 1 = ZDO_STATUS_SUCCESS then read16_le (drop 10 response) else ZDO_NET_ADDR_ERROR)
     in (Inr 1, conversation, mem_write m (of_nat (cv_context conversation)) (bytes16 net), w))"

definition zdo_process_ieee_addr_resp ::
    "wpan_conversation \<Rightarrow> wpan_envelope option \<Rightarrow> mem \<times> 'w \<Rightarrow> rc \<times> wpan_conversation \<times> mem \<times> 'w" where
  "zdo_process_ieee_addr_resp conversation envelope = (\<lambda>(m, w).
     let ieee = (case envelope of
           None \<Rightarrow> WPAN_IEEE_ADDR_BROADCAST
         | Some env \<Rightarrow>
             let response = the (env_payload env) in
             if response ! 1 = ZDO_STATUS_SUCCESS then swapcpy (drop 2 response) 8 else WPAN_IEEE_ADDR_ALL_ZEROS)
     in (Inr 1, conversation, mem_write m (of_nat (cv_context conversation)) ieee, w))"

text \<open>The two functions as handlers of conversations, with their numbers.\<close>

abbreviation (input) ZDO_NWK_ADDR_HANDLER :: nat where "ZDO_NWK_ADDR_HANDLER \<equiv> 1"
abbreviation (input) ZDO_IEEE_ADDR_HANDLER :: nat where "ZDO_IEEE_ADDR_HANDLER \<equiv> 2"

definition zdo_respond :: "(mem \<times> 'w) respond \<Rightarrow> (mem \<times> 'w) respond" where
  "zdo_respond others h conversation envelope s =
     (if h = ZDO_NWK_ADDR_HANDLER then zdo_process_nwk_addr_resp conversation envelope s
      else if h = ZDO_IEEE_ADDR_HANDLER then zdo_process_ieee_addr_resp conversation envelope s
      else others h conversation envelope s)"

text \<open>The target variable is set to pending after the registration and before the request is sent.\<close>

definition zdo_send_nwk_addr_req ::
    "(nat \<Rightarrow> ('c, mem \<times> 'w) wpan_dev) \<Rightarrow> (nat \<Rightarrow> wpan_ep_state) \<Rightarrow> nat option \<Rightarrow> addr64 option \<Rightarrow> u16 \<Rightarrow> u32
     \<Rightarrow> mem \<times> 'w \<Rightarrow> (rc \<times> (nat \<Rightarrow> wpan_ep_state) \<times> mem \<times> 'w) option" where
  "zdo_send_nwk_addr_req devs states dev ieee_be net seconds = (\<lambda>(m, w).
     case (dev, ieee_be) of
       (Some d, Some ieee) \<Rightarrow>
         if net = 0 then Some (Inl EINVAL, states, m, w)
         else
           let (_, envelope) = zdo_envelope_create devs d (Some ieee) in
           (case zdo_register devs states (Some d) (Some ZDO_NWK_ADDR_HANDLER) (unat net) seconds of
              None \<Rightarrow> None
            | Some (Inl e, states) \<Rightarrow> Some (Inl e, states, m, w)
            | Some (Inr tid, states) \<Rightarrow>
                if tid < 0 then Some (Inr tid, states, m, w)
                else
                  let payload = word_of_int tid # swapcpy ieee 8 @ [0, 0];
                      (r, s) = wpan_envelope_send devs
                        (Some (envelope\<lparr>env_cluster_id := ZDO_NWK_ADDR_REQ, env_payload := Some payload,
                                        env_length := of_nat (length payload)\<rparr>))
                        (mem_write m net (bytes16 ZDO_NET_ADDR_PENDING), w)
                  in Some (r, states, s))
     | _ \<Rightarrow> Some (Inl EINVAL, states, m, w))"

definition zdo_send_ieee_addr_req ::
    "(nat \<Rightarrow> ('c, mem \<times> 'w) wpan_dev) \<Rightarrow> (nat \<Rightarrow> wpan_ep_state) \<Rightarrow> nat option \<Rightarrow> u16 \<Rightarrow> u16 \<Rightarrow> u32
     \<Rightarrow> mem \<times> 'w \<Rightarrow> (rc \<times> (nat \<Rightarrow> wpan_ep_state) \<times> mem \<times> 'w) option" where
  "zdo_send_ieee_addr_req devs states dev net_addr ieee_be seconds = (\<lambda>(m, w).
     case dev of
       None \<Rightarrow> Some (Inl EINVAL, states, m, w)
     | Some d \<Rightarrow>
         if ieee_be = 0 then Some (Inl EINVAL, states, m, w)
         else
           let envelope = wpan_envelope_create (Some d) WPAN_IEEE_ADDR_UNDEFINED net_addr in
           (case zdo_register devs states (Some d) (Some ZDO_IEEE_ADDR_HANDLER) (unat ieee_be) seconds of
              None \<Rightarrow> None
            | Some (Inl e, states) \<Rightarrow> Some (Inl e, states, m, w)
            | Some (Inr tid, states) \<Rightarrow>
                if tid < 0 then Some (Inr tid, states, m, w)
                else
                  let payload = word_of_int tid # bytes16_le net_addr @ [0, 0];
                      (r, s) = wpan_envelope_send devs
                        (Some (envelope\<lparr>env_cluster_id := ZDO_IEEE_ADDR_REQ, env_payload := Some payload,
                                        env_length := of_nat (length payload)\<rparr>))
                        (mem_write m ieee_be WPAN_IEEE_ADDR_UNDEFINED, w)
                  in Some (r, states, s)))"

end
