(* ===== verification/Zdo_Correct.thy ===== *)
theory Zdo_Correct
  imports Zdo
begin

text \<open>
  What a device tells others about its endpoints, and what it learns of their addresses:
  the properties of \<open>Zdo\<close>.
\<close>

section \<open>Little-endian numbers\<close>

lemma read16_le_bytes [simp]: "read16_le (bytes16_le w @ p) = w"
  by (simp add: read16_le_def bytes16_le_def bytes16_def le16toh_def htole16_def swap16_eq be16_def)
    (rule bit_word_eqI, auto simp: bit_simps)

lemma length_bytes16_le [simp]: "length (bytes16_le w) = 2"
  by (simp add: bytes16_le_def)

lemma drop_bytes16_le [simp]: "drop 2 (bytes16_le w @ p) = p"
  by simp

section \<open>Walking the table\<close>

lemma endpoint_fold_inside:
  assumes "table_device d es"
  shows "endpoint_fold f (Some d) (Some (e # p)) acc =
    Some (fold f (takeWhile (\<lambda>e. ep_endpoint e \<noteq> WPAN_ENDPOINT_END_OF_LIST) p) acc)"
proof (induction p arbitrary: e acc)
  case Nil
  then show ?case by (subst endpoint_fold.simps) (simp add: get_next_inside [OF assms])
next
  case (Cons a p)
  then show ?case by (subst endpoint_fold.simps) (simp add: get_next_inside [OF assms])
qed

lemma endpoint_fold_table:
  assumes "table_device d es"
  shows "endpoint_fold f (Some d) None acc = Some (fold f es acc)"
proof -
  obtain e es' p where t: "es = e # es'" "dev_endpoint_table d = Some (e # p)"
    "takeWhile (\<lambda>e. ep_endpoint e \<noteq> WPAN_ENDPOINT_END_OF_LIST) p = es'"
    using assms by (rule takeWhile_table)
  have "wpan_endpoint_get_next (Some d) None = Some (e # p)"
    using assms t(2) by (simp add: wpan_endpoint_get_next_def table_device_def)
  then show ?thesis
    by (subst endpoint_fold.simps) (simp add: endpoint_fold_inside [OF assms] t)
qed

lemma fold_collect: "fold (\<lambda>e acc. if P e then acc @ [f e] else acc) es acc = acc @ map f (filter P es)"
  by (induction es arbitrary: acc) simp_all

text \<open>A device with a ZDO endpoint and one that serves the DIGI serial data cluster, for the examples.\<close>

definition demo_clusters :: "(unit, 's) wpan_cluster_table_entry list" where
  "demo_clusters =
     [\<lparr>ct_cluster_id = 0x0011, ct_handler = None, ct_context = (), ct_flags = WPAN_CLUST_FLAG_INPUT\<rparr>,
      \<lparr>ct_cluster_id = WPAN_CLUSTER_END_OF_LIST, ct_handler = None, ct_context = (), ct_flags = 0\<rparr>]"

definition demo_endpoint :: "u8 \<Rightarrow> u16 \<Rightarrow> (unit, 's) wpan_endpoint_table_entry" where
  "demo_endpoint n profile = \<lparr>ep_endpoint = n, ep_profile_id = profile, ep_handler = None, ep_state = Some 0,
     ep_device_id = 1, ep_device_version = 2, ep_cluster_table = Some demo_clusters\<rparr>"

definition demo_device :: "(unit, 's) wpan_dev" where
  "demo_device = \<lparr>dev_tick = None, dev_endpoint_send = Some (\<lambda>e flags s. (Inr 0, s)), dev_endpoint_get_next = None,
     dev_ieee = [0, 0x13, 0xA2, 0, 1, 2, 3, 4], dev_network = 0x1234, dev_payload = 84, dev_flags = 0,
     dev_endpoint_table = Some [demo_endpoint 0 0, demo_endpoint 232 0xC105, demo_endpoint 0xFF 0]\<rparr>"

lemma demo_device_table: "table_device demo_device [demo_endpoint 0 0, demo_endpoint 232 0xC105]"
  by (simp add: table_device_def demo_device_def demo_endpoint_def)

lemma demo_numbers: "bytes16_le 0x1234 = [0x34, 0x12]" "bytes16_le 0xC105 = [0x05, 0xC1]"
  "bytes16_le 0x0011 = [0x11, 0]" "bytes16_le 1 = [1, 0]"
  by (simp_all add: bytes16_le_def bytes16_htole16)

lemma demo_fields [simp]: "dev_network demo_device = 0x1234" "ep_endpoint (demo_endpoint n p) = n"
  "ep_profile_id (demo_endpoint n p) = p" "ep_state (demo_endpoint n p) = Some 0"
  "ep_device_id (demo_endpoint n p) = 1" "ep_device_version (demo_endpoint n p) = 2"
  "ep_cluster_table (demo_endpoint n p) = Some demo_clusters"
  by (simp_all add: demo_device_def demo_endpoint_def)

definition demo_request :: "u8 list \<Rightarrow> wpan_envelope" where
  "demo_request p = (wpan_envelope_create (Some 0) WPAN_IEEE_ADDR_ALL_ZEROS 0)\<lparr>env_payload := Some p\<rparr>"

section \<open>Active endpoints\<close>

text \<open>What a device answers starts with the request's transaction, a status and its own address.\<close>

definition zdo_reply :: "u8 \<Rightarrow> u8 \<Rightarrow> ('c, 'w) wpan_dev \<Rightarrow> u8 list \<Rightarrow> u8 list" where
  "zdo_reply tid status dev rest = [tid, status] @ bytes16_le (dev_network dev) @ rest"

text \<open>
  The answer to an active endpoint request lists the endpoints of the device's table, in its
  order and without the ZDO endpoint itself, after their number, when there are at most 20; with
  more, the code writes behind its response and nothing is promised.
\<close>

theorem zdo_active_ep_correct:
  assumes "table_device (devs n) es" "env_dev env = Some n" "env_payload env = Some (tid # rest)"
    and "dev_network (devs n) \<noteq> ZDO_WPAN_NET_ADDR_UNDEFINED"
  defines "eps \<equiv> filter (\<lambda>e. e \<noteq> 0) (map ep_endpoint es)"
  defines "reply \<equiv> zdo_reply tid 0 (devs n) (of_nat (length eps) # eps)"
  shows "zdo_active_ep_respond devs (Some env) s =
    (if length eps \<le> ZDO_MAX_ENDPOINTS then Some (zdo_send_response devs (Some env) reply s) else None)"
proof -
  have "filter (\<lambda>e. e \<noteq> 0) (map ep_endpoint es) = map ep_endpoint (filter (\<lambda>e. ep_endpoint e \<noteq> 0) es)"
    by (simp add: filter_map comp_def)
  then show ?thesis
    using assms(2-4)
    by (simp add: zdo_active_ep_respond_def endpoint_fold_table [OF assms(1)] fold_collect eps_def reply_def zdo_reply_def
        ZDO_MAX_ENDPOINTS_def)
qed

theorem zdo_active_ep_correct_witness:
  "zdo_active_ep_respond (\<lambda>_. demo_device) (Some (demo_request [7, 0x34, 0x12])) (0 :: nat) =
    Some (zdo_send_response (\<lambda>_. demo_device) (Some (demo_request [7, 0x34, 0x12])) [7, 0, 0x34, 0x12, 1, 232] (0 :: nat))"
  using zdo_active_ep_correct [of "\<lambda>_. demo_device" 0, OF demo_device_table,
      where env = "demo_request [7, 0x34, 0x12]" and tid = 7 and rest = "[0x34, 0x12]" and s = "0 :: nat"]
  by (simp add: demo_request_def wpan_envelope_create_def zdo_reply_def demo_numbers ZDO_MAX_ENDPOINTS_def)

section \<open>Simple descriptors\<close>

definition flagged :: "u8 \<Rightarrow> ('c, 'w) wpan_endpoint_table_entry \<Rightarrow> u16 list" where
  "flagged m ep = (case ep_cluster_table ep of None \<Rightarrow> []
     | Some es \<Rightarrow> map ct_cluster_id (filter (\<lambda>c. ct_flags c AND m \<noteq> 0)
         (takeWhile (\<lambda>c. ct_cluster_id c \<noteq> WPAN_CLUSTER_END_OF_LIST) es)))"

definition cluster_list :: "u16 list \<Rightarrow> u8 list" where
  "cluster_list cs = of_nat (length cs) # concat (map bytes16_le cs)"

lemma simple_desc_loop_eq:
  fixes es :: "('c, 'w) wpan_cluster_table_entry list" and m :: u8
  assumes "0 \<le> count" "count \<le> max_count"
  defines "cs \<equiv> map ct_cluster_id (filter (\<lambda>c. ct_flags c AND m \<noteq> 0)
         (takeWhile (\<lambda>c. ct_cluster_id c \<noteq> WPAN_CLUSTER_END_OF_LIST) es))"
  shows "simple_desc_loop max_count m es count acc =
    (if count + int (length cs) > max_count then Inl ENOSPC
     else Inr (count + int (length cs), acc @ concat (map bytes16_le cs)))"
  using assms(1,2) unfolding cs_def
  by (induction es arbitrary: count acc) auto

lemma simple_desc_cluster_list_eq:
  assumes "0 \<le> max_count"
  shows "simple_desc_cluster_list max_count m (ep_cluster_table ep) =
    (if int (length (flagged m ep)) > max_count then Inl ENOSPC
     else Inr (int (length (flagged m ep)), cluster_list (flagged m ep)))"
proof (cases "ep_cluster_table ep")
  case (Some es)
  have "simple_desc_loop max_count m es 0 [] =
    (if int (length (flagged m ep)) > max_count then Inl ENOSPC
     else Inr (int (length (flagged m ep)), concat (map bytes16_le (flagged m ep))))"
    using assms by (subst simple_desc_loop_eq) (simp_all add: flagged_def Some)
  then show ?thesis by (simp add: simple_desc_cluster_list_def Some cluster_list_def)
qed (use assms in \<open>simp add: simple_desc_cluster_list_def flagged_def cluster_list_def\<close>)

lemma simple_desc_clusters_eq:
  "simple_desc_clusters ep =
    (let ins = flagged WPAN_CLUST_FLAG_INPUT ep; outs = flagged WPAN_CLUST_FLAG_OUTPUT ep in
     if length ins + length outs > 39 then Inl ENOSPC else Inr (cluster_list ins @ cluster_list outs))"
  by (auto simp: simple_desc_clusters_def simple_desc_cluster_list_eq Let_def)

lemma length_cluster_list: "length (cluster_list cs) = 1 + 2 * length cs"
  by (induction cs) (simp_all add: cluster_list_def)

text \<open>
  C13: The answer to a simple descriptor request is always sent, and its status is exactly what
  the ZigBee specification asks for: \<open>INVALID_EP\<close> for the endpoints 0 and 255, \<open>NOT_ACTIVE\<close> when the
  device's table has no such endpoint, \<open>INSUFFICIENT_SPACE\<close> when the endpoint has more than 39
  clusters, and otherwise success with a descriptor of the first such entry of the table: its
  profile, device, version, and the lists of its input and output clusters.
\<close>

theorem zdo_simple_desc_correct:
  assumes "table_device (devs n) es" "env_dev env = Some n" "env_payload env = Some (tid # a # b # endpoint # rest)"
    and "dev_network (devs n) \<noteq> ZDO_WPAN_NET_ADDR_UNDEFINED"
  shows "zdo_simple_desc_respond devs (Some env) s =
    Some (zdo_send_response devs (Some env)
      (if endpoint \<in> {0, 255} then zdo_reply tid ZDO_STATUS_INVALID_EP (devs n) [0]
       else case find (\<lambda>e. ep_endpoint e = endpoint) es of
          None \<Rightarrow> zdo_reply tid ZDO_STATUS_NOT_ACTIVE (devs n) [0]
        | Some ep \<Rightarrow>
            let ins = flagged WPAN_CLUST_FLAG_INPUT ep; outs = flagged WPAN_CLUST_FLAG_OUTPUT ep in
            if length ins + length outs > 39 then zdo_reply tid ZDO_STATUS_INSUFFICIENT_SPACE (devs n) [0]
            else zdo_reply tid ZDO_STATUS_SUCCESS (devs n)
              (of_nat (8 + 2 * (length ins + length outs)) # endpoint # bytes16_le (ep_profile_id ep) @
               bytes16_le (ep_device_id ep) @ [ep_device_version ep] @ cluster_list ins @ cluster_list outs)) s)"
proof -
  have match: "wpan_endpoint_match (Some (devs n)) endpoint WPAN_APS_PROFILE_ANY =
      Some (find (\<lambda>e. ep_endpoint e = endpoint) es)"
    using endpoint_search_table [OF assms(1), of "\<lambda>ep. endpoint = ep_endpoint ep"]
    by (simp add: wpan_endpoint_match_def eq_commute)
  show ?thesis
    using assms(2-4)
    by (auto simp: zdo_simple_desc_respond_def match simple_desc_clusters_eq zdo_reply_def Let_def
        length_cluster_list algebra_simps split: option.splits)
qed

theorem zdo_simple_desc_correct_witness:
  "zdo_simple_desc_respond (\<lambda>_. demo_device) (Some (demo_request [7, 0x34, 0x12, 232])) (0 :: nat) =
    Some (zdo_send_response (\<lambda>_. demo_device) (Some (demo_request [7, 0x34, 0x12, 232]))
      [7, 0, 0x34, 0x12, 10, 232, 0x05, 0xC1, 1, 0, 2, 1, 0x11, 0, 0] (0 :: nat))"
  using zdo_simple_desc_correct [of "\<lambda>_. demo_device" 0, OF demo_device_table,
      where env = "demo_request [7, 0x34, 0x12, 232]" and tid = 7 and a = "0x34" and b = "0x12" and endpoint = 232
        and rest = "[]" and s = "0 :: nat"]
  by (simp add: demo_request_def wpan_envelope_create_def zdo_reply_def demo_numbers flagged_def cluster_list_def demo_clusters_def)

section \<open>Matching descriptors\<close>

definition before_end :: "u16 list \<Rightarrow> u16 list" where
  "before_end cs = takeWhile (\<lambda>c. c \<noteq> WPAN_CLUSTER_END_OF_LIST) cs"

lemma match_desc_loop_eq:
  assumes "uint written \<le> max_count" "max_count < 255"
  shows "match_desc_loop max_count cs written acc =
    (if uint written + int (length (before_end cs)) > max_count then Inl ENOSPC
     else Inr (written + of_nat (length (before_end cs)), acc @ concat (map bytes16_le (before_end cs))))"
  using assms(1)
proof (induction cs arbitrary: written acc)
  case (Cons c cs)
  have inc: "uint (written + 1) = uint written + 1"
    using Cons.prems assms(2) by (simp add: uint_plus_if')
  show ?case
    using Cons.prems Cons.IH [of "written + 1"] inc
    by (auto simp: before_end_def add.assoc)
qed (simp add: before_end_def)

lemma match_desc_cluster_list_eq:
  assumes "0 \<le> max_count" "max_count < 255"
  shows "match_desc_cluster_list (Some cs) max_count =
    (if int (length (before_end cs)) > max_count then Inl ENOSPC
     else Inr (of_nat (length (before_end cs)), cluster_list (before_end cs)))"
  using match_desc_loop_eq [of 0 max_count cs "[]"] assms
  by (simp add: match_desc_cluster_list_def cluster_list_def)

lemma match_desc_request_eq:
  assumes "zdo_match_desc_request (Some buffer) buflen addr profile (Some ins) (Some outs) = Inr body" "9 \<le> buflen" "buflen \<le> 300"
  shows "body = bytes16_le addr @ bytes16_le profile @ cluster_list (before_end ins) @ cluster_list (before_end outs)"
    and "7 + 2 * int (length (before_end ins) + length (before_end outs)) \<le> buflen"
proof -
  let ?n = "word_of_int buflen :: u16"
  let ?max = "(buflen - 7) div 2"
  have "uint ?n = buflen" using assms(2,3) by (intro uint_of_int_u16) auto
  then have un: "unat ?n = nat buflen" by (simp only: unat_eq_nat_uint)
  have n9: "\<not> ?n < 9" using assms(2) un by (simp add: word_less_nat_alt)
  have "unat (?n - 7) = nat buflen - 7" using assms(2) un by (simp add: unat_sub word_le_nat_alt)
  then have "unat ((?n - 7) div 2) = (nat buflen - 7) div 2" by (simp add: unat_div)
  moreover have "(nat buflen - 7) div 2 < 255" using assms(3) by linarith
  ultimately have "sint ((?n - 7) div 2) = int ((nat buflen - 7) div 2)"
    by (subst sint_small_u16) simp_all
  also have "\<dots> = ?max" using assms(2) by (simp add: of_nat_diff zdiv_int)
  finally have max: "sint ((?n - 7) div 2) = ?max" .
  have small: "0 \<le> ?max" "?max < 255" using assms(2,3) by auto
  let ?ni = "int (length (before_end ins))" and ?no = "int (length (before_end outs))"
  have ni: "?ni \<le> ?max"
    using assms(1) n9 by (auto simp: zdo_match_desc_request_def Let_def max match_desc_cluster_list_eq [OF small] split: if_splits)
  then have "unat (of_nat (length (before_end ins)) :: u8) = length (before_end ins)"
    using small(2) by (intro unat_of_nat_u8) linarith
  then have uni: "uint (of_nat (length (before_end ins)) :: u8) = ?ni" by (simp only: uint_nat)
  have rest: "0 \<le> ?max - ?ni" "?max - ?ni < 255" "s16 (?max - ?ni) = ?max - ?ni" using ni small by auto
  have "?no \<le> ?max - ?ni \<and> body = bytes16_le addr @ bytes16_le profile @ cluster_list (before_end ins) @ cluster_list (before_end outs)"
    using assms(1) n9 ni
    by (auto simp: zdo_match_desc_request_def Let_def max match_desc_cluster_list_eq [OF small] uni rest(3)
        match_desc_cluster_list_eq [OF rest(1,2)] split: if_splits)
  then show "body = bytes16_le addr @ bytes16_le profile @ cluster_list (before_end ins) @ cluster_list (before_end outs)"
    "7 + 2 * int (length (before_end ins) + length (before_end outs)) \<le> buflen"
    using assms(2) by auto
qed

lemma match_clusters_found:
  "\<exists>c \<in> set cs. wpan_cluster_match c m table \<noteq> None \<Longrightarrow>
   fst (match_clusters table m (length cs) (concat (map bytes16_le cs) @ p))"
  by (induction cs) auto

lemma match_clusters_none:
  "\<forall>c \<in> set cs. wpan_cluster_match c m table = None \<Longrightarrow>
   match_clusters table m (length cs) (concat (map bytes16_le cs) @ p) = (False, p)"
  by (induction cs) auto

text \<open>An endpoint that serves one of the input clusters or uses one of the output clusters.\<close>

definition serves :: "u16 list \<Rightarrow> u16 list \<Rightarrow> ('c, 'w) wpan_endpoint_table_entry \<Rightarrow> bool" where
  "serves ins outs ep \<longleftrightarrow>
     (\<exists>c \<in> set ins. wpan_cluster_match c WPAN_CLUST_FLAG_INPUT (ep_cluster_table ep) \<noteq> None) \<or>
     (\<exists>c \<in> set outs. wpan_cluster_match c WPAN_CLUST_FLAG_OUTPUT (ep_cluster_table ep) \<noteq> None)"

lemma endpoint_matches_eq:
  assumes "length ins < 256" "length outs < 256"
  shows "endpoint_matches (cluster_list ins @ cluster_list outs) ep = serves ins outs ep"
proof -
  let ?t = "ep_cluster_table ep"
  have n: "unat (of_nat (length ins) :: u8) = length ins" "unat (of_nat (length outs) :: u8) = length outs"
    using assms by (simp_all add: unat_of_nat_u8)
  have outs: "fst (match_clusters ?t WPAN_CLUST_FLAG_OUTPUT (length outs) (concat (map bytes16_le outs))) =
      (\<exists>c \<in> set outs. wpan_cluster_match c WPAN_CLUST_FLAG_OUTPUT ?t \<noteq> None)"
    using match_clusters_found [of outs WPAN_CLUST_FLAG_OUTPUT ?t "[]"]
      match_clusters_none [of outs WPAN_CLUST_FLAG_OUTPUT ?t "[]"] by fastforce
  have start: "(cluster_list ins @ cluster_list outs) ! 0 = of_nat (length ins)"
    "drop 1 (cluster_list ins @ cluster_list outs) = concat (map bytes16_le ins) @ cluster_list outs"
    "cluster_list outs ! 0 = of_nat (length outs)" "drop 1 (cluster_list outs) = concat (map bytes16_le outs)"
    by (simp_all add: cluster_list_def)
  show ?thesis
  proof (cases "\<exists>c \<in> set ins. wpan_cluster_match c WPAN_CLUST_FLAG_INPUT ?t \<noteq> None")
    case True
    then show ?thesis
      using match_clusters_found [OF True, of "cluster_list outs"]
      unfolding endpoint_matches_def start(1,2) n serves_def case_prod_unfold Let_def by simp
  next
    case False
    then have "match_clusters ?t WPAN_CLUST_FLAG_INPUT (length ins) (concat (map bytes16_le ins) @ cluster_list outs)
        = (False, cluster_list outs)" by (intro match_clusters_none) simp
    then show ?thesis
      using False outs unfolding endpoint_matches_def start(1,2) n serves_def by (simp add: start(3) start(4) [simplified] n)
  qed
qed

text \<open>
  C12: A match descriptor request from one node to another.  The body \<open>zdo_match_desc_request\<close>
  builds stays within its buffer, and a node that receives it answers with exactly those of its
  endpoints, in the order of its table and without the ZDO endpoint, that have the profile and
  serve one of the input clusters or use one of the output clusters of the request, when there are
  at most 20 of them; without such an endpoint it does not answer at all, and with more than 20 the
  code writes behind its response, so that nothing is promised.
\<close>

theorem zdo_match_desc_roundtrip:
  assumes "zdo_match_desc_request (Some buffer) buflen addr profile (Some ins) (Some outs) = Inr body" "9 \<le> buflen" "buflen \<le> 300"
    and "table_device (devs n) es" "env_dev env = Some n" "env_payload env = Some (tid # body)"
    and "dev_network (devs n) \<noteq> ZDO_WPAN_NET_ADDR_UNDEFINED"
  shows "int (length (tid # body)) \<le> buflen \<and>
    zdo_match_desc_respond devs (Some env) s =
      (let eps = map ep_endpoint (filter (\<lambda>e. ep_endpoint e \<noteq> 0 \<and> ep_profile_id e = profile \<and>
             serves (before_end ins) (before_end outs) e) es) in
       if eps = [] then Some (Inr 0, s)
       else if length eps \<le> 20
       then Some (zdo_send_response devs (Some env) (zdo_reply tid 0 (devs n) (of_nat (length eps) # eps)) s)
       else None)"
proof -
  note body = match_desc_request_eq [OF assms(1-3)]
  let ?P = "\<lambda>e. ep_endpoint e \<noteq> 0 \<and> ep_profile_id e = profile \<and> serves (before_end ins) (before_end outs) e"
  have len: "length (before_end ins) < 256" "length (before_end outs) < 256" using body(2) assms(3) by simp_all
  have parts: "drop 3 (tid # body) = bytes16_le profile @ cluster_list (before_end ins) @ cluster_list (before_end outs)"
    "drop 5 (tid # body) = cluster_list (before_end ins) @ cluster_list (before_end outs)"
    by (simp_all add: body(1) numeral_eq_Suc)
  have fold: "endpoint_fold (\<lambda>ep match_list.
      if ep_endpoint ep \<noteq> WPAN_ENDPOINT_ZDO \<and> ep_profile_id ep = read16_le (drop 3 (tid # body))
         \<and> endpoint_matches (drop 5 (tid # body)) ep
      then match_list @ [ep_endpoint ep] else match_list) (Some (devs n)) None [] = Some (map ep_endpoint (filter ?P es))"
    unfolding parts read16_le_bytes endpoint_matches_eq [OF len]
    by (simp add: endpoint_fold_table [OF assms(4)] fold_collect)
  have "(of_nat (length (map ep_endpoint (filter ?P es))) :: u8) \<noteq> 0 \<longleftrightarrow> map ep_endpoint (filter ?P es) \<noteq> []"
    if "length (filter ?P es) \<le> 20"
    using that unat_of_nat_u8 [of "length (filter ?P es)"]
    by (cases "filter ?P es = []") (auto simp: unat_eq_0 [symmetric] simp del: of_nat_Suc)
  moreover have "int (length (tid # body)) \<le> buflen" using body by (simp add: length_cluster_list)
  ultimately show ?thesis
    using assms(5-7) fold by (auto simp: zdo_match_desc_respond_def zdo_reply_def Let_def ZDO_MAX_ENDPOINTS_def)
qed

theorem zdo_match_desc_roundtrip_witness:
  "zdo_match_desc_respond (\<lambda>_. demo_device) (Some (demo_request [7, 0x34, 0x12, 0x05, 0xC1, 1, 0x11, 0, 0])) (0 :: nat) =
    Some (zdo_send_response (\<lambda>_. demo_device) (Some (demo_request [7, 0x34, 0x12, 0x05, 0xC1, 1, 0x11, 0, 0]))
      [7, 0, 0x34, 0x12, 1, 232] (0 :: nat))"
proof -
  have body: "zdo_match_desc_request (Some []) 40 0x1234 0xC105 (Some [0x0011, 0xFFFF]) (Some [0xFFFF]) =
      Inr [0x34, 0x12, 0x05, 0xC1, 1, 0x11, 0, 0]"
    by (simp add: zdo_match_desc_request_def match_desc_cluster_list_def demo_numbers)
  show ?thesis
    using zdo_match_desc_roundtrip [where devs = "\<lambda>_. demo_device" and n = 0, OF body _ _ demo_device_table, simplified,
        where env = "demo_request [7, 0x34, 0x12, 0x05, 0xC1, 1, 0x11, 0, 0]" and tid = 7 and s = "0 :: nat"]
    by (simp add: demo_request_def wpan_envelope_create_def zdo_reply_def demo_numbers before_end_def serves_def
        wpan_cluster_match_def demo_clusters_def)
qed

section \<open>Learning an address\<close>

text \<open>The answer to a request for the 16-bit address of a device.\<close>

definition nwk_addr_answer :: "u8 \<Rightarrow> addr64 \<Rightarrow> u16 \<Rightarrow> u8 list \<Rightarrow> u8 list" where
  "nwk_addr_answer tid ieee net tail = [tid, ZDO_STATUS_SUCCESS] @ rev ieee @ bytes16_le net @ tail"

lemma nwk_addr_answer_fields:
  assumes "length ieee = 8"
  shows "nwk_addr_answer tid ieee net m ! 0 = tid" "nwk_addr_answer tid ieee net m ! 1 = 0"
    "read16_le (drop 10 (nwk_addr_answer tid ieee net m)) = net"
proof -
  have "drop 10 (nwk_addr_answer tid ieee net m) = bytes16_le net @ m"
    using assms by (simp add: nwk_addr_answer_def)
  then show "read16_le (drop 10 (nwk_addr_answer tid ieee net m)) = net" by simp
qed (simp_all add: nwk_addr_answer_def)

text \<open>
  C14: Asking for an address.  When the device has a ZDO endpoint with room for a conversation,
  \<open>zdo_send_nwk_addr_req\<close> marks the caller's variable as pending before it sends the request, under
  the next transaction; the answer with that transaction, whenever it comes, makes the ZDO handler
  store the address it reports into the variable and nothing else, and ends the conversation; and
  so does the expiry of the conversation, with the value that means a time-out.
\<close>

theorem zdo_nwk_addr_lookup:
  assumes "table_device (devs d) es" "find (\<lambda>e. ep_endpoint e = 0 \<and> ep_profile_id e = 0) es = Some ep" "ep_state ep = Some n"
    and "\<exists>c \<in> set (es_conversations (states n)). cv_handler c = None"
    and "\<not> pending (states n) (es_last_transaction (states n) + 1)"
    and "net \<noteq> 0" "length ieee = 8"
  shows "\<exists>r states' s' e.
    let tid = es_last_transaction (states n) + 1 in
    zdo_send_nwk_addr_req devs states (Some d) (Some ieee) net seconds (m, w) = Some (r, states', s') \<and>
    wpan_envelope_send devs (Some e) (mem_write m net (bytes16 ZDO_NET_ADDR_PENDING), w) = (r, s') \<and>
    env_payload e = Some (tid # rev ieee @ [0, 0]) \<and> env_ieee_address e = ieee \<and> env_cluster_id e = ZDO_NWK_ADDR_REQ \<and>
    (\<forall>env m' w'. env_cluster_id env = 0x8000 \<and> env_payload env = Some (nwk_addr_answer tid ieee addr rest) \<longrightarrow>
      (\<exists>states''. zdo_handler (zdo_respond others) devs states' (Some env) (Some n) (m', w') =
          Some (Inr 0, states'', mem_write m' net (bytes16 addr), w') \<and> \<not> pending (states'' n) tid)) \<and>
    (\<forall>m' w'. \<exists>c. c \<in> set (es_conversations (states' n)) \<and> cv_transaction_id c = tid \<and>
      zdo_respond others (the (cv_handler c)) c None (m', w') = (Inr 1, c, mem_write m' net (bytes16 ZDO_NET_ADDR_TIMEOUT), w'))"
proof -
  define tid where "tid = es_last_transaction (states n) + 1"
  define cs where "cs = es_conversations (states n)"
  define new where "new = \<lparr>cv_transaction_id = tid, cv_context = unat net,
    cv_timeout = conversation_deadline ZDO_CONVERSATION_TIMEOUT seconds, cv_handler = Some 1\<rparr>"
  obtain i where i: "i < length cs" "wpan_conversation_register (Some (states n)) (Some 1) (unat net) ZDO_CONVERSATION_TIMEOUT seconds =
      (Inr (uint tid), Some \<lparr>es_last_transaction = tid, es_conversations = cs[i := new]\<rparr>)"
    using register_room [OF assms(4), of 1 "unat net" ZDO_CONVERSATION_TIMEOUT seconds]
    by (auto simp: tid_def new_def cs_def)
  let ?st = "\<lparr>es_last_transaction = tid, es_conversations = cs[i := new]\<rparr>"
  have fresh: "\<forall>c \<in> set cs. cv_transaction_id c \<noteq> cv_transaction_id new \<or> cv_handler c = None"
    using assms(5) by (auto simp: pending_def tid_def new_def cs_def)
  have "zdo_endpoint_state (Some (devs d)) = Some (Some n)"
    using wpan_endpoint_match_first [OF assms(1), of 0 0] assms(2,3)
    by (simp add: zdo_endpoint_state_def zdo_endpoint_of_def)
  then have reg: "zdo_register devs states (Some d) (Some 1) (unat net) seconds = Some (Inr (uint tid), states(n := ?st))"
    using i(2) by (simp add: zdo_register_def)
  define e where "e = (wpan_envelope_create (Some d) ieee ZDO_WPAN_NET_ADDR_UNDEFINED)
    \<lparr>env_cluster_id := ZDO_NWK_ADDR_REQ, env_payload := Some (tid # rev ieee @ [0, 0]), env_length := of_nat (length (tid # rev ieee @ [0, 0]))\<rparr>"
  obtain r s' where send: "wpan_envelope_send devs (Some e) (mem_write m net (bytes16 ZDO_NET_ADDR_PENDING), w) = (r, s')"
    by (rule prod.exhaust)
  have swap: "swapcpy ieee 8 = rev ieee" using assms(7) by (simp add: swapcpy_rev)
  have tid': "word_of_int (uint tid) = tid" by simp
  have req: "zdo_send_nwk_addr_req devs states (Some d) (Some ieee) net seconds (m, w) = Some (r, states(n := ?st), s')"
    using send assms(6)
    by (simp add: zdo_send_nwk_addr_req_def zdo_envelope_create_def reg swap Let_def e_def del: One_nat_def)
  have handled: "\<exists>states''. zdo_handler (zdo_respond others) devs (states(n := ?st)) (Some env) (Some n) (m', w') =
          Some (Inr 0, states'', mem_write m' net (bytes16 addr), w') \<and> \<not> pending (states'' n) tid"
    if env: "env_cluster_id env = 0x8000" "env_payload env = Some (nwk_addr_answer tid ieee addr rest)" for env m' w'
  proof -
    have answer: "zdo_respond others 1 new (Some env) (m', w') = (Inr 1, new, mem_write m' net (bytes16 addr), w')"
      using nwk_addr_answer_fields [OF assms(7)] env(2)
      by (simp add: zdo_respond_def zdo_process_nwk_addr_resp_def new_def)
    have resp: "conversation_response (zdo_respond others) ?st tid env (m', w') =
      (Inr 0, ?st\<lparr>es_conversations := cs[i := wpan_conversation_zero]\<rparr>, mem_write m' net (bytes16 addr), w')"
      using response_registered [where h = 1 and new = new and st = ?st and respond = "zdo_respond others", OF i(1) fresh _ answer]
      by (simp add: new_def)
    have "\<not> pending (?st\<lparr>es_conversations := cs[i := wpan_conversation_zero]\<rparr>) tid"
      using fresh set_update_subset_insert [of cs i wpan_conversation_zero]
      by (auto simp: pending_def new_def wpan_conversation_zero_def)
    then show ?thesis
      using resp env nwk_addr_answer_fields(1) [OF assms(7)]
      by (simp add: zdo_handler_def wpan_conversation_response_def Let_def)
  qed
  have expire: "\<exists>c. c \<in> set (es_conversations ((states(n := ?st)) n)) \<and> cv_transaction_id c = tid \<and>
      zdo_respond others (the (cv_handler c)) c None (m', w') = (Inr 1, c, mem_write m' net (bytes16 ZDO_NET_ADDR_TIMEOUT), w')" for m' w'
    using i(1) by (intro exI [of _ new])
      (simp add: set_update_memI zdo_respond_def zdo_process_nwk_addr_resp_def new_def)
  show ?thesis
    unfolding tid_def [symmetric] Let_def
    by (intro exI [of _ r] exI [of _ "states(n := ?st)"] exI [of _ s'] exI [of _ e])
      (use req send handled expire in \<open>auto simp: e_def wpan_envelope_create_def\<close>)
qed

theorem zdo_nwk_addr_lookup_witness:
  "\<exists>r states' s'. zdo_send_nwk_addr_req (\<lambda>_. demo_device)
     (\<lambda>_. \<lparr>es_last_transaction = 7, es_conversations = [wpan_conversation_zero]\<rparr>)
     (Some 0) (Some [0, 0x13, 0xA2, 0, 1, 2, 3, 9]) 0x80 100 (\<lambda>_. 0, ()) = Some (r, states', s')"
  using zdo_nwk_addr_lookup [where devs = "\<lambda>_. demo_device" and d = 0, OF demo_device_table, where ep = "demo_endpoint 0 0" and n = 0
      and states = "\<lambda>_. \<lparr>es_last_transaction = 7, es_conversations = [wpan_conversation_zero]\<rparr>"
      and net = "0x80" and ieee = "[0, 0x13, 0xA2, 0, 1, 2, 3, 9]" and seconds = 100 and m = "\<lambda>_. 0" and w = "()"]
  by (simp add: pending_def wpan_conversation_zero_def Let_def) blast

end
