(* ===== verification/Wpan_Related.thy ===== *)
theory Wpan_Related
  imports Zdo_Correct Zcl_Replies
begin

text \<open>
  Relations that the support layer, ZCL and ZDO respect.  The code of these layers changes the state of
  the system only by sending through the device and by calling the handlers it is given.  So whatever
  relation between states sending and the handlers respect, everything built from them respects: an
  invariant (the relation of a state with itself), or the part of the state that nobody looks at (two
  states that differ in it).
\<close>

section \<open>The interface\<close>

text \<open>What the layers need of the device and of the handlers of conversations.\<close>

locale wpan_related =
  fixes R :: "'s \<Rightarrow> 's \<Rightarrow> bool" and devs :: "nat \<Rightarrow> ('c, 's) wpan_dev" and respond :: "'s respond"
  assumes send: "R s t \<Longrightarrow> dev_endpoint_send (devs n) = Some f \<Longrightarrow> rel_prod (=) R (f e flags s) (f e flags t)"
    and respond: "R s t \<Longrightarrow> rel_prod (=) (rel_prod (=) R) (respond h c env s) (respond h c env t)"
begin

section \<open>Sending\<close>

lemma envelope_send: "R s t \<Longrightarrow> rel_prod (=) R (wpan_envelope_send devs e s) (wpan_envelope_send devs e t)"
  by (auto simp: wpan_envelope_send_def intro!: send split: option.splits)

lemma zcl_send: "R s t \<Longrightarrow> rel_prod (=) R (zcl_send_response devs r bytes s) (zcl_send_response devs r bytes t)"
  by (auto simp: zcl_send_response_def intro!: envelope_send split: option.splits)

lemma default_response: "R s t \<Longrightarrow> rel_prod (=) R (zcl_default_response devs r st s) (zcl_default_response devs r st t)"
  by (auto simp: zcl_default_response_def Let_def intro!: zcl_send split: option.splits)

lemma invalid_cluster: "R s t \<Longrightarrow> rel_prod (=) R (zcl_invalid_cluster devs e s) (zcl_invalid_cluster devs e t)"
  by (auto simp: zcl_invalid_cluster_def intro!: default_response split: sum.splits)

section \<open>Conversations\<close>

lemma response_loop:
  "R s t \<Longrightarrow> rel_prod (=) (rel_prod (=) R) (response_loop respond tid env cs s) (response_loop respond tid env cs t)"
proof (induction cs)
  case (Cons c cs)
  show ?case
  proof (cases "cv_transaction_id c = tid \<and> cv_handler c \<noteq> None")
    case True
    then show ?thesis
      using respond [OF Cons.prems, of "the (cv_handler c)" c "Some env"] by (auto simp: rel_prod_sel split: prod.splits)
  next
    case False
    then show ?thesis using Cons.IH [OF Cons.prems] by (auto simp: rel_prod_sel split: prod.splits)
  qed
qed simp

lemma conversation_response:
  "R s t \<Longrightarrow> rel_prod (=) (rel_prod (=) R) (conversation_response respond st tid env s) (conversation_response respond st tid env t)"
  using response_loop [of s t tid env "es_conversations st"]
  by (auto simp: conversation_response_def rel_prod_sel split: prod.splits)

lemma wpan_response:
  assumes "R s t"
  shows "rel_option (rel_prod (=) (rel_prod (=) R))
    (wpan_conversation_response respond devs states state tid env s) (wpan_conversation_response respond devs states state tid env t)"
  using assms conversation_response [OF assms]
  by (simp add: wpan_conversation_response_def Let_def rel_prod_sel case_prod_unfold split: option.split)

lemma expire:
  "R s t \<Longrightarrow> rel_prod (=) R (expire_loop respond now cs s) (expire_loop respond now cs t)"
proof (induction cs arbitrary: s t)
  case (Cons c cs)
  show ?case
    using Cons.IH [OF Cons.prems] respond [OF Cons.prems, of "the (cv_handler c)" c None]
      Cons.IH [of "snd (snd (respond (the (cv_handler c)) c None s))" "snd (snd (respond (the (cv_handler c)) c None t))"]
    by (simp add: rel_prod_sel Let_def case_prod_unfold)
qed simp

section \<open>ZDO\<close>

lemma zdo_send: "R s t \<Longrightarrow> rel_prod (=) R (zdo_send_response devs r bytes s) (zdo_send_response devs r bytes t)"
  by (auto simp: zdo_send_response_def Let_def intro!: envelope_send split: option.splits)

lemma zdo_answers:
  assumes "R s t"
  shows "rel_option (rel_prod (=) R) (zdo_simple_desc_respond devs e s) (zdo_simple_desc_respond devs e t)"
    "rel_option (rel_prod (=) R) (zdo_active_ep_respond devs e s) (zdo_active_ep_respond devs e t)"
    "rel_option (rel_prod (=) R) (zdo_match_desc_respond devs e s) (zdo_match_desc_respond devs e t)"
  unfolding zdo_simple_desc_respond_def zdo_active_ep_respond_def zdo_match_desc_respond_def Let_def
  by (auto simp: assms intro!: zdo_send split: option.splits sum.splits)

lemma zdo_handler:
  assumes "R s t"
  shows "rel_option (rel_prod (=) (rel_prod (=) R))
    (zdo_handler respond devs states e state s) (zdo_handler respond devs states e state t)"
proof (cases e)
  case (Some env)
  have keep: "rel_option (rel_prod (=) (rel_prod (=) R)) (map_option (\<lambda>(r, s). (r, states, s)) x) (map_option (\<lambda>(r, s). (r, states, s)) y)"
    if "rel_option (rel_prod (=) R) x y" for x y
    using that by (cases x; cases y) (auto simp: rel_prod_sel split: prod.splits)
  show ?thesis
    using assms keep [OF zdo_answers(1) [OF assms]] keep [OF zdo_answers(2) [OF assms]] keep [OF zdo_answers(3) [OF assms]]
      keep [of "Some (zdo_send_response devs e [the (env_payload env) ! 0, ZDO_STATUS_NOT_SUPPORTED] s)"
        "Some (zdo_send_response devs e [the (env_payload env) ! 0, ZDO_STATUS_NOT_SUPPORTED] t)"] zdo_send [OF assms]
      wpan_response [OF assms, of states state "the (env_payload env) ! 0" e]
    by (auto simp: zdo_handler_def Let_def Some rel_prod_sel split: option.splits)
qed (use assms in \<open>simp add: zdo_handler_def\<close>)

section \<open>The walk of a tick\<close>

lemma expire_state:
  assumes "R s t"
  shows "rel_prod (=) R (wpan_endpoint_expire_conversations respond seconds st s) (wpan_endpoint_expire_conversations respond seconds st t)"
proof (cases st)
  case (Some x)
  then show ?thesis
    using expire [OF assms, of "ucast seconds" "es_conversations x"]
    by (simp add: wpan_endpoint_expire_conversations_def rel_prod_sel case_prod_unfold Let_def)
qed (use assms in \<open>simp add: wpan_endpoint_expire_conversations_def\<close>)

lemma tick_walk_step:
  assumes step: "wpan_endpoint_get_next (Some d) ep = Some p" and "R s t"
    and rest: "\<And>states s t. R s t \<Longrightarrow> rel_option (rel_prod (=) R)
      (tick_walk respond seconds (Some d) (Some p) states s) (tick_walk respond seconds (Some d) (Some p) states t)"
  shows "rel_option (rel_prod (=) R)
    (tick_walk respond seconds (Some d) ep states s) (tick_walk respond seconds (Some d) ep states t)"
proof (cases "ep_state (hd p)")
  case None
  then show ?thesis using rest [OF assms(2)] by (simp add: tick_walk.simps [of _ _ _ ep] step)
next
  case (Some n)
  then show ?thesis
    using rest expire_state [OF assms(2), of seconds "Some (states n)"]
    by (simp add: tick_walk.simps [of _ _ _ ep] step rel_prod_sel case_prod_unfold Let_def)
qed

lemma tick_walk_inside:
  assumes "table_device d es" "R s t"
  shows "rel_option (rel_prod (=) R)
    (tick_walk respond seconds (Some d) (Some (e # p)) states s) (tick_walk respond seconds (Some d) (Some (e # p)) states t)"
  using assms(2)
proof (induction p arbitrary: e states s t)
  case Nil
  then show ?case
    by (simp add: tick_walk.simps [of _ _ _ "Some [e]"] get_next_inside [OF assms(1)])
next
  case (Cons a p)
  show ?case
  proof (cases "ep_endpoint a = WPAN_ENDPOINT_END_OF_LIST")
    case True
    then show ?thesis
      using Cons.prems by (simp add: tick_walk.simps [of _ _ _ "Some (e # a # p)"] get_next_inside [OF assms(1)])
  next
    case False
    then show ?thesis
      by (intro tick_walk_step [of d "Some (e # a # p)" "a # p"] Cons.prems Cons.IH) (simp_all add: get_next_inside [OF assms(1)])
  qed
qed

lemma tick_walk:
  assumes "table_device d es" "R s t"
  shows "rel_option (rel_prod (=) R)
    (tick_walk respond seconds (Some d) None states s) (tick_walk respond seconds (Some d) None states t)"
proof -
  obtain e es' p where "es = e # es'" "dev_endpoint_table d = Some (e # p)"
    using assms(1) by (rule takeWhile_table)
  then have "wpan_endpoint_get_next (Some d) None = Some (e # p)"
    using assms(1) by (simp add: wpan_endpoint_get_next_def table_device_def)
  then show ?thesis
    by (rule tick_walk_step [OF _ assms(2)]) (rule tick_walk_inside [OF assms(1)])
qed

end

section \<open>Dispatching\<close>

text \<open>
  While a message is dispatched, its destination endpoint and its options change.  The handlers of an
  endpoint that a message can reach, and the endpoints it is addressed to.
\<close>

definition same_message :: "wpan_envelope \<Rightarrow> wpan_envelope \<Rightarrow> bool" where
  "same_message env env' \<longleftrightarrow> env' = env\<lparr>env_dest_endpoint := env_dest_endpoint env', env_options := env_options env'\<rparr>"

definition entry_respects :: "('s \<Rightarrow> 's \<Rightarrow> bool) \<Rightarrow> wpan_envelope \<Rightarrow> ('c, 's) wpan_endpoint_table_entry \<Rightarrow> bool" where
  "entry_respects R env0 ep \<longleftrightarrow>
     (\<forall>h env s t. ep_handler ep = Some h \<longrightarrow> same_message env0 env \<longrightarrow> R s t \<longrightarrow>
        rel_prod (=) R (h env (ep_state ep) s) (h env (ep_state ep) t)) \<and>
     (\<forall>cs c h env s t. ep_cluster_table ep = Some cs \<longrightarrow> c \<in> set cs \<longrightarrow> ct_cluster_id c = env_cluster_id env0 \<longrightarrow>
        ct_handler c = Some h \<longrightarrow> same_message env0 env \<longrightarrow> R s t \<longrightarrow> rel_prod (=) R (h env (ct_context c) s) (h env (ct_context c) t))"

definition addressed :: "wpan_envelope \<Rightarrow> ('c, 's) wpan_endpoint_table_entry \<Rightarrow> bool" where
  "addressed env ep \<longleftrightarrow>
     (if env_dest_endpoint env = WPAN_ENDPOINT_BROADCAST then ep_profile_id ep = env_profile_id env
      else ep_endpoint ep = env_dest_endpoint env \<and>
        (env_profile_id env = WPAN_APS_PROFILE_ANY \<or> ep_profile_id ep = env_profile_id env))"

lemma same_message_simps [simp]:
  "same_message env env" "same_message env (env\<lparr>env_options := opts\<rparr>)" "same_message env (env\<lparr>env_dest_endpoint := n, env_options := opts\<rparr>)"
  by (simp_all add: same_message_def)

lemma same_message_trans: "same_message a b \<Longrightarrow> same_message b c \<Longrightarrow> same_message a c"
  by (cases a; cases b; cases c) (simp add: same_message_def)

lemma same_message_fields:
  assumes "same_message env0 env"
  shows "env_cluster_id env = env_cluster_id env0" "env_profile_id env = env_profile_id env0" "env_payload env = env_payload env0"
    "env_length env = env_length env0" "env_dev env = env_dev env0" "env_ieee_address env = env_ieee_address env0"
  using assms by (cases env0; cases env; simp add: same_message_def)+

lemma cluster_match_loop_found: "cluster_match_loop cl m cs = Some c \<Longrightarrow> c \<in> set cs \<and> ct_cluster_id c = cl"
  by (induction cs) (auto split: if_splits)

lemma cluster_match_found:
  "wpan_cluster_match cl m table = Some c \<Longrightarrow> \<exists>cs. table = Some cs \<and> c \<in> set cs \<and> ct_cluster_id c = cl"
  by (auto simp: wpan_cluster_match_def dest: cluster_match_loop_found split: option.splits)

text \<open>An answer to a message for a cluster that requires encryption.\<close>

definition invalid_respects :: "('s \<Rightarrow> 's \<Rightarrow> bool) \<Rightarrow> (wpan_envelope \<Rightarrow> 's \<Rightarrow> rc \<times> 's) \<Rightarrow> bool" where
  "invalid_respects R ic \<longleftrightarrow> (\<forall>env s t. R s t \<longrightarrow> rel_prod (=) R (ic env s) (ic env t))"

lemma endpoint_dispatch_related:
  assumes "entry_respects R env0 ep" "same_message env0 env" "invalid_respects R ic" "R s t"
  shows "rel_prod (=) (rel_prod (=) R) (wpan_endpoint_dispatch ic env ep s) (wpan_endpoint_dispatch ic env ep t)"
    "same_message env0 (fst (snd (wpan_endpoint_dispatch ic env ep s)))"
proof -
  note same = same_message_trans [OF assms(2) same_message_simps(2)]
  have default: "rel_prod (=) R (h e (ep_state ep) s) (h e (ep_state ep) t)" if "ep_handler ep = Some h" "same_message env0 e" for h e
    using assms(1,4) that by (simp add: entry_respects_def)
  have cluster: "rel_prod (=) R (h e (ct_context c) s) (h e (ct_context c) t)"
    if "wpan_cluster_match (env_cluster_id env) WPAN_CLUST_FLAG_INOUT (ep_cluster_table ep) = Some c" "ct_handler c = Some h"
      "same_message env0 e" for c h e
    using cluster_match_found [OF that(1)] assms(1,4) that(2,3) same_message_fields [OF assms(2)]
    by (auto simp: entry_respects_def)
  have invalid: "rel_prod (=) R (ic e s) (ic e t)" for e using assms(3,4) by (simp add: invalid_respects_def)
  show "rel_prod (=) (rel_prod (=) R) (wpan_endpoint_dispatch ic env ep s) (wpan_endpoint_dispatch ic env ep t)"
    using default cluster invalid assms(2,4) same
    by (auto simp: wpan_endpoint_dispatch_def Let_def rel_prod_sel case_prod_unfold split: option.split)
  show "same_message env0 (fst (snd (wpan_endpoint_dispatch ic env ep s)))"
    using assms(2) same by (simp add: wpan_endpoint_dispatch_def Let_def case_prod_unfold split: option.split)
qed

lemma dispatch_one_related:
  assumes "entry_respects R env0 ep" "same_message env0 env" "invalid_respects R ic" "R s t"
  shows "rel_prod (=) (rel_prod (=) R) (dispatch_one ic (r, env, s) ep) (dispatch_one ic (r, env, t) ep)"
    "same_message env0 (fst (snd (dispatch_one ic (r, env, s) ep)))"
  using endpoint_dispatch_related [OF assms(1) same_message_trans [OF assms(2) same_message_simps(3)] assms(3,4)]
  by (simp_all add: dispatch_one_def rel_prod_sel case_prod_unfold)

lemma dispatch_fold_related:
  assumes "\<forall>ep \<in> set es. entry_respects R env0 ep" "invalid_respects R ic" "same_message env0 env" "R s t"
  shows "rel_prod (=) (rel_prod (=) R) (foldl (dispatch_one ic) (r, env, s) es) (foldl (dispatch_one ic) (r, env, t) es)"
  using assms(1,3,4)
proof (induction es arbitrary: r env s t)
  case (Cons ep es)
  obtain r1 env1 s1 t1 where one: "dispatch_one ic (r, env, s) ep = (r1, env1, s1)" "dispatch_one ic (r, env, t) ep = (r1, env1, t1)"
    "R s1 t1" "same_message env0 env1"
    using dispatch_one_related [of R env0 ep env ic s t r] Cons.prems assms(2)
    by (cases "dispatch_one ic (r, env, s) ep"; cases "dispatch_one ic (r, env, t) ep") auto
  then show ?case using Cons.IH [of env1 s1 t1 r1] Cons.prems by simp
qed simp

lemma dispatch_to_all:
  assumes "table_device (devs n) es" "env_dev env = Some n" "env_dest_endpoint env = WPAN_ENDPOINT_BROADCAST"
  shows "wpan_envelope_dispatch ic devs env w = Some (foldl (dispatch_one ic)
    (Inl ENOENT, env\<lparr>env_options := env_options env OR WPAN_ENVELOPE_BROADCAST_EP\<rparr>, w) (filter (addressed env) es))"
proof -
  obtain e es' p where p: "es = e # es'" "dev_endpoint_table (devs n) = Some (e # p)"
    "takeWhile (\<lambda>e. ep_endpoint e \<noteq> WPAN_ENDPOINT_END_OF_LIST) p = es'"
    using assms(1) by (rule takeWhile_table)
  have "wpan_endpoint_get_next (Some (devs n)) None = Some (e # p)"
    using assms(1) p(2) by (simp add: wpan_endpoint_get_next_def table_device_def)
  then have "dispatch_broadcast ic (Some (devs n)) None r env' w =
      Some (foldl (dispatch_one ic) (r, env', w) (filter (\<lambda>e. ep_profile_id e = env_profile_id env') es))" for r env' w
    using dispatch_one_profile [of ic r env' w e] p
    by (subst broadcast_step [where p = "e # p"])
      (auto simp: broadcast_inside [OF assms(1)] split: prod.splits)
  then show ?thesis using assms(2,3) by (simp add: wpan_envelope_dispatch_def addressed_def [abs_def])
qed

lemma dispatch_to_one:
  assumes "table_device (devs n) es" "env_dev env = Some n" "env_dest_endpoint env \<noteq> WPAN_ENDPOINT_BROADCAST"
  shows "wpan_envelope_dispatch ic devs env w =
    (case find (addressed env) es of None \<Rightarrow> Some (Inl ENOENT, env, w) | Some ep \<Rightarrow> Some (wpan_endpoint_dispatch ic env ep w))"
  using assms wpan_endpoint_match_first [OF assms(1)]
  by (simp add: wpan_envelope_dispatch_def addressed_def [abs_def] split: option.split)

lemma envelope_dispatch_related:
  assumes "table_device (devs n) es" "env_dev env = Some n"
    and "\<forall>ep \<in> set es. addressed env ep \<longrightarrow> entry_respects R env ep" "invalid_respects R ic" "R s t"
  shows "rel_option (rel_prod (=) (rel_prod (=) R)) (wpan_envelope_dispatch ic devs env s) (wpan_envelope_dispatch ic devs env t)"
proof (cases "env_dest_endpoint env = WPAN_ENDPOINT_BROADCAST")
  case True
  then show ?thesis
    using dispatch_fold_related [of "filter (addressed env) es" R env ic] assms(3-5)
    by (simp add: dispatch_to_all [of devs n es, OF assms(1,2)])
next
  case False
  have "rel_prod (=) (rel_prod (=) R) (wpan_endpoint_dispatch ic env ep s) (wpan_endpoint_dispatch ic env ep t)"
    if "find (addressed env) es = Some ep" for ep
  proof (rule endpoint_dispatch_related(1) [OF _ _ assms(4,5)])
    show "entry_respects R env ep" using that assms(3) by (auto simp: find_Some_iff)
  qed simp
  then show ?thesis
    using assms(5) by (simp add: dispatch_to_one [of devs n es, OF assms(1,2) False] split: option.split)
qed

end
