(* ===== verification/Wpan_Protected.thy ===== *)
theory Wpan_Protected
  imports Wpan_Related
begin

text \<open>
  Clusters that require encryption (\<open>pxbee/pan/wpan/wpan_aps.c\<close>): a frame that arrives without it
  does not reach the handlers of an endpoint whose cluster requires it, stated by exchanging these
  handlers for any other functions; and the clusters for which the flag has no effect.
\<close>

section \<open>Frames that an endpoint must not get\<close>

text \<open>The frame is not encrypted, and its cluster is a ZCL cluster that requires it.\<close>

definition refuses :: "wpan_envelope \<Rightarrow> ('c, 's) wpan_endpoint_table_entry \<Rightarrow> bool" where
  "refuses env ep \<longleftrightarrow>
     env_options env AND WPAN_ENVELOPE_RX_APS_ENCRYPT = 0 \<and>
     (\<exists>c. wpan_cluster_match (env_cluster_id env) WPAN_CLUST_FLAG_INOUT (ep_cluster_table ep) = Some c \<and>
        ct_flags c AND WPAN_CLUST_FLAG_NOT_ZCL = 0 \<and>
        (ct_flags c AND WPAN_CLUST_FLAG_ENCRYPT \<noteq> 0 \<or>
         ct_flags c AND WPAN_CLUST_FLAG_ENCRYPT_UNICAST \<noteq> 0 \<and> env_options env AND WPAN_ENVELOPE_BROADCAST_ADDR = 0))"

text \<open>The same device with other functions as the handlers of every endpoint that refuses the frame.\<close>

type_synonym ('c, 's) handlers =
  "(wpan_envelope \<Rightarrow> nat option \<Rightarrow> 's \<Rightarrow> rc \<times> 's) option \<times>
   (('c, 's) wpan_cluster_table_entry \<Rightarrow> (wpan_envelope \<Rightarrow> 'c \<Rightarrow> 's \<Rightarrow> rc \<times> 's) option)"

definition other_handlers ::
    "wpan_envelope \<Rightarrow> ('c, 's) handlers \<Rightarrow> ('c, 's) wpan_endpoint_table_entry \<Rightarrow> ('c, 's) wpan_endpoint_table_entry" where
  "other_handlers env h ep =
     (if refuses env ep
      then ep\<lparr>ep_handler := fst h,
              ep_cluster_table := map_option (map (\<lambda>c. c\<lparr>ct_handler := snd h c\<rparr>)) (ep_cluster_table ep)\<rparr>
      else ep)"

definition other_device :: "wpan_envelope \<Rightarrow> ('c, 's) handlers \<Rightarrow> ('c, 's) wpan_dev \<Rightarrow> ('c, 's) wpan_dev" where
  "other_device env h d = d\<lparr>dev_endpoint_table := map_option (map (other_handlers env h)) (dev_endpoint_table d)\<rparr>"

lemma other_handlers_simps [simp]:
  "ep_endpoint (other_handlers env h ep) = ep_endpoint ep" "ep_profile_id (other_handlers env h ep) = ep_profile_id ep"
  by (simp_all add: other_handlers_def)

lemma addressed_other [simp]: "addressed env (other_handlers env' h ep) = addressed env ep"
  by (simp add: addressed_def)

lemma table_device_other:
  assumes "table_device d es"
  shows "table_device (other_device env h d) (map (other_handlers env h) es)"
proof -
  obtain m rest where m: "ep_endpoint m = WPAN_ENDPOINT_END_OF_LIST" "dev_endpoint_table d = Some (es @ m # rest)"
    using assms by (auto simp: table_device_def)
  have "dev_endpoint_table (other_device env h d) =
      Some (map (other_handlers env h) es @ other_handlers env h m # map (other_handlers env h) rest)"
    by (simp add: other_device_def m(2))
  moreover have "ep_endpoint (other_handlers env h m) = WPAN_ENDPOINT_END_OF_LIST" by (simp add: m(1))
  ultimately show ?thesis using assms unfolding table_device_def by (auto simp: other_device_def)
qed

lemma cluster_match_loop_map:
  "cluster_match_loop cl m (map (\<lambda>c. c\<lparr>ct_handler := g c\<rparr>) cs) = map_option (\<lambda>c. c\<lparr>ct_handler := g c\<rparr>) (cluster_match_loop cl m cs)"
  by (induction cs) auto

lemma cluster_match_map:
  "wpan_cluster_match cl m (map_option (map (\<lambda>c. c\<lparr>ct_handler := g c\<rparr>)) table) =
    map_option (\<lambda>c. c\<lparr>ct_handler := g c\<rparr>) (wpan_cluster_match cl m table)"
  by (cases table) (simp_all add: wpan_cluster_match_def cluster_match_loop_map)

section \<open>One dispatch and the run over all endpoints\<close>

text \<open>What the dispatcher looks at in a frame to decide whether it is refused.\<close>

definition same_guard :: "wpan_envelope \<Rightarrow> wpan_envelope \<Rightarrow> bool" where
  "same_guard env env' \<longleftrightarrow> env_cluster_id env' = env_cluster_id env \<and>
     env_options env' AND 0x0500 = env_options env AND 0x0500"

lemma guard_bits:
  assumes "x AND 0x0500 = (y :: u16) AND 0x0500"
  shows "x AND 0x0400 = y AND 0x0400" "x AND 0x0100 = y AND 0x0100"
proof -
  have "(x AND 0x0500) AND 0x0400 = (y AND 0x0500) AND 0x0400" "(x AND 0x0500) AND 0x0100 = (y AND 0x0500) AND 0x0100"
    by (simp_all only: assms)
  then show "x AND 0x0400 = y AND 0x0400" "x AND 0x0100 = y AND 0x0100" by (simp_all add: and.assoc)
qed

lemma u16_bits_eqI:
  fixes x y :: u16
  assumes "\<And>n. n \<in> {0, 1, 2, 3, 4, 5, 6, 7, 8, 9, 10, 11, 12, 13, 14, 15} \<Longrightarrow> bit x n = bit y n"
  shows "x = y"
proof (rule bit_word_eqI)
  fix n assume "n < LENGTH(16)"
  then have "n \<in> {0, 1, 2, 3, 4, 5, 6, 7, 8, 9, 10, 11, 12, 13, 14, 15}" by (simp add: numeral_eq_Suc less_Suc_eq)
  then show "bit x n = bit y n" by (rule assms)
qed

lemma guard_keeps:
  "(x OR ucast (f :: u8)) AND 0x0500 = (x :: u16) AND 0x0500"
  "(x AND NOT WPAN_ENVELOPE_CLUSTER_FLAGS) AND 0x0500 = x AND 0x0500"
  "(x OR WPAN_ENVELOPE_BROADCAST_EP) AND 0x0500 = x AND 0x0500"
  by (rule u16_bits_eqI; auto simp: bit_simps dest: bit_imp_le_length)+

lemma refuses_same: "same_guard env env' \<Longrightarrow> refuses env' ep = refuses env ep"
  using guard_bits [of "env_options env'" "env_options env"] unfolding refuses_def same_guard_def by simp

lemma dispatch_refused:
  assumes "refuses env ep"
  shows "wpan_endpoint_dispatch ic env ep w = (let (r, w) = ic env w in (r, env, w))"
  using assms by (auto simp: refuses_def wpan_endpoint_dispatch_def Let_def)

lemma refuses_other: "refuses env ep \<Longrightarrow> refuses env (other_handlers env' h ep)"
  by (auto simp: refuses_def other_handlers_def cluster_match_map)

lemma dispatch_other:
  assumes "same_guard env env'"
  shows "wpan_endpoint_dispatch ic env' (other_handlers env h ep) w = wpan_endpoint_dispatch ic env' ep w"
proof (cases "refuses env ep")
  case True
  then have "refuses env' ep" by (simp add: refuses_same [OF assms])
  then show ?thesis by (simp add: dispatch_refused refuses_other)
qed (simp add: other_handlers_def)

lemma dispatch_same_guard: "same_guard env (fst (snd (wpan_endpoint_dispatch ic env ep w)))"
  by (auto simp: wpan_endpoint_dispatch_def same_guard_def Let_def guard_keeps split: option.splits prod.splits)

lemma same_guard_trans: "same_guard a b \<Longrightarrow> same_guard b c \<Longrightarrow> same_guard a c"
  by (simp add: same_guard_def)

lemma dispatch_one_other:
  assumes "same_guard env env'"
  shows "dispatch_one ic (r, env', w) (other_handlers env h ep) = dispatch_one ic (r, env', w) ep"
    and "same_guard env (fst (snd (dispatch_one ic (r, env', w) ep)))"
proof -
  let ?e = "env'\<lparr>env_dest_endpoint := ep_endpoint ep, env_options := env_options env' AND NOT WPAN_ENVELOPE_CLUSTER_FLAGS\<rparr>"
  have "same_guard env' ?e" using guard_keeps(2) [of "env_options env'"] by (simp add: same_guard_def)
  then have e: "same_guard env ?e" by (rule same_guard_trans [OF assms])
  show "dispatch_one ic (r, env', w) (other_handlers env h ep) = dispatch_one ic (r, env', w) ep"
    unfolding dispatch_one_def case_prod_conv other_handlers_simps dispatch_other [OF e] by (rule refl)
  show "same_guard env (fst (snd (dispatch_one ic (r, env', w) ep)))"
    using same_guard_trans [OF e dispatch_same_guard] by (simp add: dispatch_one_def case_prod_unfold Let_def)
qed

lemma dispatch_fold_other:
  assumes "same_guard env env'"
  shows "foldl (dispatch_one ic) (r, env', w) (map (other_handlers env h) es) = foldl (dispatch_one ic) (r, env', w) es"
  using assms
proof (induction es arbitrary: r env' w)
  case (Cons ep es)
  obtain r1 env1 w1 where one: "dispatch_one ic (r, env', w) ep = (r1, env1, w1)" by (rule prod_cases3)
  then have "same_guard env env1" using dispatch_one_other(2) [OF Cons.prems, of ic r w ep] by simp
  then show ?case using Cons.IH one by (simp add: dispatch_one_other(1) [OF Cons.prems])
qed simp

lemma filter_other: "filter (addressed e) (map (other_handlers env h) es) = map (other_handlers env h) (filter (addressed e) es)"
  by (simp add: filter_map comp_def)

lemma find_other: "find (addressed e) (map (other_handlers env h) es) = map_option (other_handlers env h) (find (addressed e) es)"
  by (induction es) simp_all

text \<open>
  C23: Clusters that require encryption.  When a frame arrives without encryption, whether for one
  endpoint or for all of them, the handlers of an endpoint whose ZCL cluster requires encryption,
  for every frame or for unicast frames, play no part: the outcome is the same with any other
  functions in their place, those of its other clusters and of the endpoint included.  A frame for
  such an endpoint alone is answered with the failure of \<open>zcl_invalid_cluster\<close>.  But for a cluster
  with the flag \<open>NOT_ZCL\<close> the requirement has no effect, and its handler gets the unencrypted frame,
  although \<open>wpan/aps.h\<close> describes the flags together.
\<close>

theorem encrypted_cluster_protected:
  assumes "table_device (devs n) es" "env_dev env = Some n"
  shows "wpan_envelope_dispatch ic (devs(n := other_device env h (devs n))) env w = wpan_envelope_dispatch ic devs env w \<and>
    (env_dest_endpoint env \<noteq> WPAN_ENDPOINT_BROADCAST \<longrightarrow> find (addressed env) es = Some ep \<longrightarrow> refuses env ep \<longrightarrow>
       wpan_envelope_dispatch ic devs env w = Some (let (r, w') = ic env w in (r, env, w'))) \<and>
    (env_dest_endpoint env \<noteq> WPAN_ENDPOINT_BROADCAST \<longrightarrow> find (addressed env) es = Some ep \<longrightarrow>
     wpan_cluster_match (env_cluster_id env) WPAN_CLUST_FLAG_INOUT (ep_cluster_table ep) = Some c \<longrightarrow>
     ct_flags c AND WPAN_CLUST_FLAG_NOT_ZCL \<noteq> 0 \<longrightarrow> ct_handler c = Some f \<longrightarrow>
       wpan_envelope_dispatch ic devs env w =
         (let env' = env\<lparr>env_options := env_options env OR ucast (ct_flags c)\<rparr>; (r, w') = f env' (ct_context c) w
          in Some (r, env', w')))"
proof (intro conjI impI)
  let ?devs = "devs(n := other_device env h (devs n))"
  have table: "table_device (?devs n) (map (other_handlers env h) es)" using table_device_other [OF assms(1)] by simp
  show "wpan_envelope_dispatch ic ?devs env w = wpan_envelope_dispatch ic devs env w"
  proof (cases "env_dest_endpoint env = WPAN_ENDPOINT_BROADCAST")
    case True
    have "same_guard env (env\<lparr>env_options := env_options env OR WPAN_ENVELOPE_BROADCAST_EP\<rparr>)"
      using guard_keeps(3) [of "env_options env"] by (simp add: same_guard_def)
    then show ?thesis
      unfolding dispatch_to_all [of ?devs n "map (other_handlers env h) es", OF table assms(2) True] dispatch_to_all [of devs n es, OF assms True] filter_other
      by (simp only: dispatch_fold_other)
  next
    case False
    have "same_guard env env" by (simp add: same_guard_def)
    then show ?thesis
      unfolding dispatch_to_one [of ?devs n "map (other_handlers env h) es", OF table assms(2) False] dispatch_to_one [of devs n es, OF assms False] find_other
      by (simp add: dispatch_other split: option.split)
  qed
next
  assume one: "env_dest_endpoint env \<noteq> WPAN_ENDPOINT_BROADCAST" "find (addressed env) es = Some ep" and "refuses env ep"
  then show "wpan_envelope_dispatch ic devs env w = Some (let (r, w') = ic env w in (r, env, w'))"
    unfolding dispatch_to_one [of devs n es, OF assms one(1)] by (simp add: dispatch_refused)
next
  assume one: "env_dest_endpoint env \<noteq> WPAN_ENDPOINT_BROADCAST" "find (addressed env) es = Some ep"
    and "wpan_cluster_match (env_cluster_id env) WPAN_CLUST_FLAG_INOUT (ep_cluster_table ep) = Some c"
    "ct_flags c AND WPAN_CLUST_FLAG_NOT_ZCL \<noteq> 0" "ct_handler c = Some f"
  then show "wpan_envelope_dispatch ic devs env w =
      (let env' = env\<lparr>env_options := env_options env OR ucast (ct_flags c)\<rparr>; (r, w') = f env' (ct_context c) w
       in Some (r, env', w'))"
    unfolding dispatch_to_one [of devs n es, OF assms one(1)] by (simp add: wpan_endpoint_dispatch_def Let_def case_prod_unfold)
qed

text \<open>An endpoint with a protected cluster, whose handler would clear the memory it is given.\<close>

definition protected_cluster :: "(unit, mem \<times> u8 list list) wpan_cluster_table_entry" where
  "protected_cluster = \<lparr>ct_cluster_id = 6, ct_handler = Some (\<lambda>e c (m, sent). (Inr 0, \<lambda>_. 0, sent)), ct_context = (), ct_flags = 0x11\<rparr>"

definition protected_endpoint :: "u8 \<Rightarrow> (unit, mem \<times> u8 list list) wpan_endpoint_table_entry" where
  "protected_endpoint n =
     \<lparr>ep_endpoint = n, ep_profile_id = 0x104, ep_handler = None, ep_state = None, ep_device_id = 0, ep_device_version = 0,
      ep_cluster_table = Some [protected_cluster]\<rparr>"

definition protected_device :: "(unit, mem \<times> u8 list list) wpan_dev" where
  "protected_device = frame_log_dev\<lparr>dev_endpoint_table := Some [protected_endpoint 2, protected_endpoint 0xFF]\<rparr>"

theorem encrypted_cluster_protected_witness:
  "wpan_envelope_dispatch (\<lambda>e. zcl_invalid_cluster (\<lambda>_. frame_log_dev) (Some e)) (\<lambda>_. protected_device)
     (sample_envelope 0 [0x01, 5, 0]) (\<lambda>_. 7, []) =
   Some (let (r, w') = zcl_invalid_cluster (\<lambda>_. frame_log_dev) (Some (sample_envelope 0 [0x01, 5, 0])) (\<lambda>_. 7, [])
         in (r, sample_envelope 0 [0x01, 5, 0], w'))"
proof -
  have "table_device protected_device [protected_endpoint 2]"
    by (simp add: table_device_def protected_device_def protected_endpoint_def frame_log_dev_def)
  moreover have "env_dev (sample_envelope 0 [0x01, 5, 0]) = Some 0" by (simp add: sample_envelope_def)
  moreover have "find (addressed (sample_envelope 0 [0x01, 5, 0])) [protected_endpoint 2] = Some (protected_endpoint 2)"
    by (simp add: addressed_def sample_envelope_def protected_endpoint_def)
  moreover have "refuses (sample_envelope 0 [0x01, 5, 0]) (protected_endpoint 2)"
    by (simp add: refuses_def sample_envelope_def protected_endpoint_def protected_cluster_def wpan_cluster_match_def)
  moreover have "env_dest_endpoint (sample_envelope 0 [0x01, 5, 0]) \<noteq> WPAN_ENDPOINT_BROADCAST"
    by (simp add: sample_envelope_def)
  ultimately show ?thesis
    using encrypted_cluster_protected [where devs = "\<lambda>_. protected_device" and n = 0 and es = "[protected_endpoint 2]"
        and env = "sample_envelope 0 [0x01, 5, 0]" and ep = "protected_endpoint 2"
        and ic = "\<lambda>e. zcl_invalid_cluster (\<lambda>_. frame_log_dev) (Some e)" and w = "(\<lambda>_. 7, [])"] by blast
qed

end
