(* ===== verification/Gpio.thy ===== *)
theory Gpio
  imports Pxbee_Prelude
begin

text \<open>
  The general-purpose pins of the HCS08: drivers/gpio/gpios.c with the pin
  codes of headers/hardware.h.  A port has a data register, whose bits read the
  level of the pin where it is an input and the value last written where it is
  an output, and the direction, pull-up, slew-rate and drive-strength registers.
  Every write of the driver is a read-modify-write of a whole register.
  A port code with no registers is the null pointer of the source: the
  operations have no defined outcome there and return \<open>None\<close>.
\<close>

unbundle bit_operations_syntax

section \<open>Pin codes (headers/hardware.h)\<close>

type_synonym xpin = u16

definition IRQABLE :: u16 where "IRQABLE = push_bit 15 1"
definition NOGPIO :: u16 where "NOGPIO = push_bit 3 7"

definition adcch :: "u16 \<Rightarrow> u16" where "adcch a = push_bit 6 a"
definition pwmch :: "u16 \<Rightarrow> u16" where "pwmch a = push_bit 10 a"

definition PORT_A :: u16 where "PORT_A = push_bit 3 0"
definition PORT_B :: u16 where "PORT_B = push_bit 3 1"
definition PORT_C :: u16 where "PORT_C = push_bit 3 2"
definition PORT_D :: u16 where "PORT_D = push_bit 3 3"
definition PORT_E :: u16 where "PORT_E = push_bit 3 4"

lemmas port_codes = IRQABLE_def NOGPIO_def adcch_def pwmch_def PORT_A_def PORT_B_def PORT_C_def
  PORT_D_def PORT_E_def

text \<open>The pins of the surface-mount module that the application and the SDK name.\<close>

definition XPIN_5 :: xpin where "XPIN_5 = pwmch 4 OR adcch 15 OR PORT_B OR 4"
definition XPIN_6 :: xpin where "XPIN_6 = pwmch 15 OR adcch 15 OR PORT_A OR 5"
definition XPIN_24 :: xpin where "XPIN_24 = IRQABLE OR pwmch 15 OR adcch 7 OR PORT_B OR 3"
definition XPIN_33 :: xpin where "XPIN_33 = IRQABLE OR pwmch 0 OR adcch 0 OR PORT_A OR 0"
definition XPIN_UNDEF :: xpin where "XPIN_UNDEF = pwmch 15 OR adcch 15 OR NOGPIO"

definition xpin_get_portbit_mask :: "xpin \<Rightarrow> u8" where
  "xpin_get_portbit_mask pin = push_bit (unat (pin AND 7)) 1"

definition xpin_get_port :: "xpin \<Rightarrow> u16" where
  "xpin_get_port pin = pin AND push_bit 3 7"

definition xpin_is_gpioable :: "xpin \<Rightarrow> bool" where
  "xpin_is_gpioable pin \<longleftrightarrow> xpin_get_port pin \<noteq> NOGPIO"

definition xpin_is_irqable :: "xpin \<Rightarrow> bool" where
  "xpin_is_irqable pin \<longleftrightarrow> pin AND IRQABLE \<noteq> 0"

section \<open>Registers\<close>

datatype gport = GA | GB | GC | GD | GE

record port_regs =
  pt_latch :: u8    \<comment> \<open>PTxD as last written\<close>
  pt_dir :: u8      \<comment> \<open>PTxDD\<close>
  pt_pull :: u8     \<comment> \<open>PTxPE\<close>
  pt_slew :: u8     \<comment> \<open>PTxSE\<close>
  pt_drive :: u8    \<comment> \<open>PTxDS\<close>
  pt_level :: u8    \<comment> \<open>the levels outside drives the pins to\<close>

type_synonym gpio = "gport \<Rightarrow> port_regs"

text \<open>Reading PTxD: the pin where it is an input, the latch where it is an output.\<close>

definition read_data :: "port_regs \<Rightarrow> u8" where
  "read_data r = (pt_latch r AND pt_dir r) OR (pt_level r AND NOT (pt_dir r))"

definition modify_bit :: "u8 \<Rightarrow> u8 \<Rightarrow> bool \<Rightarrow> u8" where
  "modify_bit reg portbit v = (if v then reg OR portbit else reg AND NOT portbit)"

definition gpio_get_offset_data_port :: "xpin \<Rightarrow> gport option" where
  "gpio_get_offset_data_port pin =
     (let port = xpin_get_port pin in
      if port = PORT_A then Some GA
      else if port = PORT_B then Some GB
      else if port = PORT_C then Some GC
      else if port = PORT_D then Some GD
      else if port = PORT_E then Some GE
      else None)"

definition gpio_get_offset_pull_port :: "xpin \<Rightarrow> gport option" where
  "gpio_get_offset_pull_port pin =
     (let port = xpin_get_port pin in
      if port = PORT_A then Some GA
      else if port = PORT_B then Some GB
      else if port = PORT_C then Some GC
      else if port = PORT_D then Some GD
      else if port = PORT_E then Some GE
      else None)"

section \<open>Single pins\<close>

definition gpio_set :: "gpio \<Rightarrow> xpin \<Rightarrow> bool \<Rightarrow> gpio option" where
  "gpio_set g pin val =
     (case gpio_get_offset_data_port pin of
        None \<Rightarrow> None
      | Some p \<Rightarrow> Some (g(p := (g p)\<lparr>pt_latch :=
          modify_bit (read_data (g p)) (xpin_get_portbit_mask pin) val\<rparr>)))"

definition gpio_get :: "gpio \<Rightarrow> xpin \<Rightarrow> bool option" where
  "gpio_get g pin =
     (case gpio_get_offset_data_port pin of
        None \<Rightarrow> None
      | Some p \<Rightarrow> Some (read_data (g p) AND xpin_get_portbit_mask pin \<noteq> 0))"

text \<open>
  The fast direction change indexes the registers by arithmetic on the address of
  PTADD: with a port code above E it would write past the port registers.
\<close>

definition gpio_config_dir :: "gpio \<Rightarrow> xpin \<Rightarrow> u8 \<Rightarrow> gpio option" where
  "gpio_config_dir g pin dir =
     (let n = unat (drop_bit 2 (pin AND push_bit 3 7)) div 2 in
      if n < 5
      then (let p = [GA, GB, GC, GD, GE] ! n in
            Some (g(p := (g p)\<lparr>pt_dir :=
              modify_bit (pt_dir (g p)) (xpin_get_portbit_mask pin) (dir \<noteq> 0)\<rparr>)))
      else None)"

definition GPIO_CFG_OUTPUT :: u8 where "GPIO_CFG_OUTPUT = 1"
definition GPIO_CFG_PULL_UP_EN :: u8 where "GPIO_CFG_PULL_UP_EN = 2"
definition GPIO_CFG_SLEW_RATE_EN :: u8 where "GPIO_CFG_SLEW_RATE_EN = 4"
definition GPIO_CFG_DRV_STR_HIGH :: u8 where "GPIO_CFG_DRV_STR_HIGH = 8"

datatype gpio_error = GPIO_EINVAL

definition gpio_config :: "gpio \<Rightarrow> xpin \<Rightarrow> u8 \<Rightarrow> ((gpio_error + unit) \<times> gpio) option" where
  "gpio_config g pin cfg =
     (if \<not> xpin_is_gpioable pin then Some (Inl GPIO_EINVAL, g)
      else case gpio_get_offset_data_port pin of
        None \<Rightarrow> None
      | Some p \<Rightarrow>
         (let portbit = xpin_get_portbit_mask pin;
              g = g(p := (g p)\<lparr>pt_dir := modify_bit (pt_dir (g p)) portbit (cfg AND GPIO_CFG_OUTPUT \<noteq> 0)\<rparr>) in
          case gpio_get_offset_pull_port pin of
            None \<Rightarrow> None
          | Some q \<Rightarrow>
             (let g = g(q := (g q)\<lparr>pt_pull := modify_bit (pt_pull (g q)) portbit (cfg AND GPIO_CFG_PULL_UP_EN \<noteq> 0)\<rparr>);
                  g = g(q := (g q)\<lparr>pt_slew := modify_bit (pt_slew (g q)) portbit (cfg AND GPIO_CFG_SLEW_RATE_EN \<noteq> 0)\<rparr>);
                  g = g(q := (g q)\<lparr>pt_drive := modify_bit (pt_drive (g q)) portbit (cfg AND GPIO_CFG_DRV_STR_HIGH \<noteq> 0)\<rparr>) in
              Some (Inr (), g))))"

section \<open>Groups of pins\<close>

text \<open>
  A port of the API is an array of two to eight pins; the arrays are fixed by the
  configuration (PORT0_XPINS .. PORT3_XPINS), here the parameter \<open>ports\<close>.
  A port that is not enabled has no pins.
\<close>

fun port_set_loop :: "gpio \<Rightarrow> xpin list \<Rightarrow> u8 \<Rightarrow> u8 \<Rightarrow> gpio option" where
  "port_set_loop g [] val m = Some g"
| "port_set_loop g (p # ps) val m =
     (case gpio_set g p (val AND m \<noteq> 0) of
        None \<Rightarrow> None
      | Some g \<Rightarrow> port_set_loop g ps val (push_bit 1 m))"

definition port_set :: "(u8 \<Rightarrow> xpin list) \<Rightarrow> gpio \<Rightarrow> u8 \<Rightarrow> u8 \<Rightarrow> gpio option" where
  "port_set ports g port val = port_set_loop g (ports port) val 1"

definition port_bit_set :: "(u8 \<Rightarrow> xpin list) \<Rightarrow> gpio \<Rightarrow> u8 \<Rightarrow> u8 \<Rightarrow> bool \<Rightarrow> ((gpio_error + unit) \<times> gpio) option" where
  "port_bit_set ports g port b val =
     (if unat b \<ge> length (ports port) then Some (Inl GPIO_EINVAL, g)
      else case gpio_set g (ports port ! unat b) val of
        None \<Rightarrow> None
      | Some g \<Rightarrow> Some (Inr (), g))"

fun port_get_loop :: "gpio \<Rightarrow> xpin list \<Rightarrow> nat \<Rightarrow> u8 \<Rightarrow> u8 option" where
  "port_get_loop g [] i portval = Some portval"
| "port_get_loop g (p # ps) i portval =
     (case gpio_get g p of
        None \<Rightarrow> None
      | Some v \<Rightarrow> port_get_loop g ps (Suc i) (portval OR push_bit i (if v then 1 else 0)))"

definition port_get :: "(u8 \<Rightarrow> xpin list) \<Rightarrow> gpio \<Rightarrow> u8 \<Rightarrow> u8 option" where
  "port_get ports g port = port_get_loop g (ports port) 0 0"

definition port_bit_get :: "(u8 \<Rightarrow> xpin list) \<Rightarrow> gpio \<Rightarrow> u8 \<Rightarrow> u8 \<Rightarrow> (gpio_error + bool) option" where
  "port_bit_get ports g port b =
     (if unat b \<ge> length (ports port) then Some (Inl GPIO_EINVAL)
      else map_option Inr (gpio_get g (ports port ! unat b)))"

text \<open>The result of an empty port is the uninitialised \<open>ret\<close> of the source.\<close>

fun port_config_loop :: "gpio \<Rightarrow> xpin list \<Rightarrow> u8 \<Rightarrow> (gpio_error + unit) option \<Rightarrow> ((gpio_error + unit) \<times> gpio) option" where
  "port_config_loop g [] cfg ret = map_option (\<lambda>r. (r, g)) ret"
| "port_config_loop g (p # ps) cfg ret =
     (case gpio_config g p cfg of
        None \<Rightarrow> None
      | Some (Inl e, g) \<Rightarrow> Some (Inl e, g)
      | Some (Inr u, g) \<Rightarrow> port_config_loop g ps cfg (Some (Inr u)))"

definition port_config :: "(u8 \<Rightarrow> xpin list) \<Rightarrow> gpio \<Rightarrow> u8 \<Rightarrow> u8 \<Rightarrow> ((gpio_error + unit) \<times> gpio) option" where
  "port_config ports g port cfg = port_config_loop g (ports port) cfg None"

section \<open>Which pin a code is\<close>

text \<open>A pin is a bit of a port; two codes are the same pin when both agree.\<close>

definition pin_of :: "xpin \<Rightarrow> (gport \<times> nat) option" where
  "pin_of pin = map_option (\<lambda>p. (p, unat (pin AND 7))) (gpio_get_offset_data_port pin)"

definition is_output :: "gpio \<Rightarrow> gport \<times> nat \<Rightarrow> bool" where
  "is_output g pb \<longleftrightarrow> bit (pt_dir (g (fst pb))) (snd pb)"

definition pin_level :: "gpio \<Rightarrow> gport \<times> nat \<Rightarrow> bool" where
  "pin_level g pb \<longleftrightarrow> bit (read_data (g (fst pb))) (snd pb)"

lemma pin_bit_less: "unat (pin AND 7 :: u16) < 8"
proof -
  have "pin AND 7 \<le> (7 :: u16)" by (rule word_and_le1)
  then have "unat (pin AND 7) \<le> unat (7 :: u16)" by (simp only: word_le_nat_alt)
  then show ?thesis by simp
qed

lemma pin_of_less: "pin_of pin = Some (p, b) \<Longrightarrow> b < 8"
  by (auto simp: pin_of_def pin_bit_less)

lemma bit_portbit_mask: "bit (xpin_get_portbit_mask pin) n \<longleftrightarrow> n = unat (pin AND 7)"
  using pin_bit_less [of pin] by (auto simp: xpin_get_portbit_mask_def bit_simps bit_1_iff)

lemma bit_modify_bit:
  "n < 8 \<Longrightarrow> bit (modify_bit r (xpin_get_portbit_mask pin) v) n =
    (if n = unat (pin AND 7) then v else bit r n)"
  by (auto simp: modify_bit_def bit_simps bit_portbit_mask)

lemma and_portbit: "r AND xpin_get_portbit_mask pin \<noteq> 0 \<longleftrightarrow> bit r (unat (pin AND 7))"
  using pin_bit_less [of pin]
  by (auto simp: bit_eq_iff [of "r AND xpin_get_portbit_mask pin" 0] bit_simps bit_portbit_mask
      dest: bit_imp_le_length)

lemma gpio_get_pin: "gpio_get g pin = map_option (pin_level g) (pin_of pin)"
  by (auto simp: gpio_get_def pin_of_def pin_level_def and_portbit split: option.splits)

lemma gpio_set_pin:
  "gpio_set g pin v = map_option (\<lambda>pb. g(fst pb := (g (fst pb))\<lparr>pt_latch :=
     modify_bit (read_data (g (fst pb))) (xpin_get_portbit_mask pin) v\<rparr>)) (pin_of pin)"
  by (auto simp: gpio_set_def pin_of_def split: option.splits)

lemma bit_read_data:
  "n < 8 \<Longrightarrow> bit (read_data r) n = (if bit (pt_dir r) n then bit (pt_latch r) n else bit (pt_level r) n)"
  by (auto simp: read_data_def bit_simps)

text \<open>What a write does to the levels: the written pin if it is an output, and no other.\<close>

lemma gpio_set_level:
  assumes "gpio_set g pin v = Some g'" "b < 8"
  shows "pin_level g' (p, b) = (if pin_of pin = Some (p, b) \<and> is_output g (p, b) then v else pin_level g (p, b))"
  using assms by (auto simp: gpio_set_pin pin_of_def pin_level_def is_output_def bit_read_data bit_modify_bit split: if_splits)

lemma gpio_set_keeps:
  assumes "gpio_set g pin v = Some g'"
  shows "is_output g' = is_output g" "pt_level (g' p) = pt_level (g p)" "pt_dir (g' p) = pt_dir (g p)"
  using assms by (auto simp: gpio_set_pin is_output_def intro!: ext split: if_splits)

text \<open>
  Writing one pin of the general-purpose driver succeeds for every pin code with a port,
  and afterwards that pin reads the written value if it is an output, while every other
  pin, of the same port or another, reads what it read before, although the write is a
  read-modify-write of the whole data register.  A pin that is an input keeps reading its
  level.
\<close>

theorem gpio_set_exact:
  assumes "pin_of pin = Some pb"
  shows "\<exists>g'. gpio_set g pin v = Some g' \<and>
    (\<forall>q. gpio_get g' q = (if pin_of q = Some pb \<and> is_output g pb then Some v else gpio_get g q))"
proof -
  obtain g' where g': "gpio_set g pin v = Some g'" using assms by (auto simp: gpio_set_pin)
  have "gpio_get g' q = (if pin_of q = Some pb \<and> is_output g pb then Some v else gpio_get g q)" for q
  proof (cases "pin_of q")
    case (Some qb)
    obtain p b where qb: "qb = (p, b)" by (cases qb)
    with Some have "b < 8" using pin_of_less by blast
    from gpio_set_level [OF g' this, of p] show ?thesis
      using Some qb assms by (auto simp: gpio_get_pin)
  qed (use assms in \<open>simp add: gpio_get_pin\<close>)
  with g' show ?thesis by blast
qed

definition demo_gpio :: gpio where
  "demo_gpio = (\<lambda>p. \<lparr>pt_latch = 0, pt_dir = (if p = GB then 0x08 else 0), pt_pull = 0, pt_slew = 0,
     pt_drive = 0, pt_level = (if p = GB then 0x10 else 0)\<rparr>)"

lemma pin_of_led: "pin_of XPIN_24 = Some (GB, 3)" by code_simp
lemma pin_of_sensor: "pin_of XPIN_5 = Some (GB, 4)" by code_simp

theorem gpio_set_exact_witness:
  "\<exists>g'. gpio_set demo_gpio XPIN_24 True = Some g' \<and>
    (\<forall>q. gpio_get g' q = (if pin_of q = Some (GB, 3) \<and> is_output demo_gpio (GB, 3) then Some True
      else gpio_get demo_gpio q))"
  by (rule gpio_set_exact [OF pin_of_led])

section \<open>Configuration\<close>

lemma pull_port_eq: "gpio_get_offset_pull_port = gpio_get_offset_data_port"
  by (simp add: fun_eq_iff gpio_get_offset_pull_port_def gpio_get_offset_data_port_def)

lemma pin_of_gpioable: "pin_of pin = Some pb \<Longrightarrow> xpin_is_gpioable pin"
  by (auto simp: pin_of_def xpin_is_gpioable_def gpio_get_offset_data_port_def Let_def port_codes)

lemma cfg_bits:
  "cfg AND GPIO_CFG_OUTPUT \<noteq> 0 \<longleftrightarrow> bit cfg 0" "cfg AND GPIO_CFG_PULL_UP_EN \<noteq> 0 \<longleftrightarrow> bit cfg 1"
  "cfg AND GPIO_CFG_SLEW_RATE_EN \<noteq> 0 \<longleftrightarrow> bit cfg 2" "cfg AND GPIO_CFG_DRV_STR_HIGH \<noteq> 0 \<longleftrightarrow> bit cfg 3"
proof -
  note * = and_exp_eq_0_iff_not_bit [of cfg]
  show "cfg AND GPIO_CFG_OUTPUT \<noteq> 0 \<longleftrightarrow> bit cfg 0" "cfg AND GPIO_CFG_PULL_UP_EN \<noteq> 0 \<longleftrightarrow> bit cfg 1"
    "cfg AND GPIO_CFG_SLEW_RATE_EN \<noteq> 0 \<longleftrightarrow> bit cfg 2" "cfg AND GPIO_CFG_DRV_STR_HIGH \<noteq> 0 \<longleftrightarrow> bit cfg 3"
    using * [of 0] * [of 1] * [of 2] * [of 3]
    by (simp_all add: GPIO_CFG_OUTPUT_def GPIO_CFG_PULL_UP_EN_def GPIO_CFG_SLEW_RATE_EN_def
        GPIO_CFG_DRV_STR_HIGH_def)
qed

text \<open>
  C39: Configuring a pin refuses a pin that is not a general-purpose one without touching a
  register; otherwise the pin's direction, pull-up, slew-rate and drive-strength bits become
  the four bits of the configuration byte, and the bits of every other pin stay as they were.
\<close>

theorem gpio_config_exact:
  assumes "pin_of pin = Some (p, b)"
  shows "\<exists>g'. gpio_config g pin cfg = Some (Inr (), g') \<and>
    (\<forall>q n. n < 8 \<longrightarrow>
      bit (pt_dir (g' q)) n = (if (q, n) = (p, b) then bit cfg 0 else bit (pt_dir (g q)) n) \<and>
      bit (pt_pull (g' q)) n = (if (q, n) = (p, b) then bit cfg 1 else bit (pt_pull (g q)) n) \<and>
      bit (pt_slew (g' q)) n = (if (q, n) = (p, b) then bit cfg 2 else bit (pt_slew (g q)) n) \<and>
      bit (pt_drive (g' q)) n = (if (q, n) = (p, b) then bit cfg 3 else bit (pt_drive (g q)) n) \<and>
      pt_latch (g' q) = pt_latch (g q))"
proof -
  from assms have port: "gpio_get_offset_data_port pin = Some p" and b: "b = unat (pin AND 7)"
    by (auto simp: pin_of_def)
  show ?thesis
    by (auto simp: gpio_config_def pin_of_gpioable [OF assms] pull_port_eq port b cfg_bits Let_def
        bit_modify_bit)
qed

theorem gpio_config_exact_witness:
  "\<exists>g'. gpio_config demo_gpio XPIN_5 2 = Some (Inr (), g') \<and>
    (\<forall>q n. n < 8 \<longrightarrow>
      bit (pt_dir (g' q)) n = (if (q, n) = (GB, 4) then bit (2 :: u8) 0 else bit (pt_dir (demo_gpio q)) n) \<and>
      bit (pt_pull (g' q)) n = (if (q, n) = (GB, 4) then bit (2 :: u8) 1 else bit (pt_pull (demo_gpio q)) n) \<and>
      bit (pt_slew (g' q)) n = (if (q, n) = (GB, 4) then bit (2 :: u8) 2 else bit (pt_slew (demo_gpio q)) n) \<and>
      bit (pt_drive (g' q)) n = (if (q, n) = (GB, 4) then bit (2 :: u8) 3 else bit (pt_drive (demo_gpio q)) n) \<and>
      pt_latch (g' q) = pt_latch (demo_gpio q))"
  by (rule gpio_config_exact [OF pin_of_sensor])

section \<open>Writing and reading a group of pins\<close>

text \<open>The pins of a group: distinct, every one a general-purpose output, at most eight.\<close>

definition output_group :: "gpio \<Rightarrow> xpin list \<Rightarrow> bool" where
  "output_group g ps \<longleftrightarrow> length ps \<le> 8 \<and> distinct (map pin_of ps) \<and>
     list_all (\<lambda>p. pin_of p \<noteq> None \<and> is_output g (the (pin_of p))) ps"

lemma gpio_set_get:
  assumes "gpio_set g pin v = Some g'" "pin_of pin = Some pb" "is_output g pb"
  shows "gpio_get g' q = (if pin_of q = pin_of pin then Some v else gpio_get g q)"
proof (cases "pin_of q")
  case (Some qb)
  obtain p b where qb: "qb = (p, b)" by (cases qb)
  with Some have "b < 8" using pin_of_less by blast
  from gpio_set_level [OF assms(1) this, of p] show ?thesis
    using Some qb assms by (auto simp: gpio_get_pin)
qed (use assms in \<open>simp add: gpio_get_pin\<close>)

lemma port_set_loop_levels:
  assumes "list_all (\<lambda>p. pin_of p \<noteq> None \<and> is_output g (the (pin_of p))) ps"
    and "distinct (map pin_of ps)" "i + length ps \<le> 8"
  shows "\<exists>g'. port_set_loop g ps val (2 ^ i) = Some g' \<and>
    (\<forall>k < length ps. gpio_get g' (ps ! k) = Some (bit val (i + k))) \<and>
    (\<forall>q. pin_of q \<notin> pin_of ` set ps \<longrightarrow> gpio_get g' q = gpio_get g q)"
  using assms
proof (induction ps arbitrary: g i)
  case (Cons p ps)
  then obtain pb where pb: "pin_of p = Some pb" "is_output g pb" by (auto split: option.splits)
  let ?v = "bit val i"
  obtain g1 where g1: "gpio_set g p ?v = Some g1" using pb by (auto simp: gpio_set_pin)
  have out: "is_output g1 = is_output g" by (rule gpio_set_keeps(1) [OF g1])
  have "\<exists>g'. port_set_loop g1 ps val (2 ^ Suc i) = Some g' \<and>
    (\<forall>k < length ps. gpio_get g' (ps ! k) = Some (bit val (Suc i + k))) \<and>
    (\<forall>q. pin_of q \<notin> pin_of ` set ps \<longrightarrow> gpio_get g' q = gpio_get g1 q)"
    by (rule Cons.IH) (use Cons.prems in \<open>auto simp: out\<close>)
  then obtain g' where g': "port_set_loop g1 ps val (2 ^ Suc i) = Some g'"
    "\<forall>k < length ps. gpio_get g' (ps ! k) = Some (bit val (Suc i + k))"
    "\<forall>q. pin_of q \<notin> pin_of ` set ps \<longrightarrow> gpio_get g' q = gpio_get g1 q" by blast
  have "val AND 2 ^ i \<noteq> 0 \<longleftrightarrow> ?v" by (simp add: and_exp_eq_0_iff_not_bit)
  moreover have "gpio_get g' p = Some ?v"
    using g'(3) Cons.prems(2) gpio_set_get [OF g1 pb, of p] by auto
  ultimately show ?case
    using g' g1 gpio_set_get [OF g1 pb]
    by (auto simp: nth_Cons push_bit_eq_mult mult.commute [of _ 2] split: nat.splits)
qed simp

lemma port_get_loop_bits:
  assumes "\<forall>k < length ps. gpio_get g (ps ! k) = Some (f k)" "i + length ps \<le> 8"
  shows "\<exists>r. port_get_loop g ps i pv = Some r \<and>
    (\<forall>n < 8. bit r n = (bit pv n \<or> i \<le> n \<and> n < i + length ps \<and> f (n - i)))"
  using assms
proof (induction ps arbitrary: i pv f)
  case (Cons p ps)
  have hd: "gpio_get g p = Some (f 0)" using Cons.prems(1) by force
  let ?pv = "pv OR push_bit i (if f 0 then 1 else 0)"
  have "\<forall>k < length ps. gpio_get g (ps ! k) = Some (f (Suc k))"
    using Cons.prems(1) by fastforce
  from Cons.IH [OF this, of "Suc i" ?pv] Cons.prems(2) obtain r where
    r: "port_get_loop g ps (Suc i) ?pv = Some r"
    "\<forall>n < 8. bit r n = (bit ?pv n \<or> Suc i \<le> n \<and> n < Suc i + length ps \<and> f (Suc (n - Suc i)))"
    by auto
  have "bit r n = (bit pv n \<or> i \<le> n \<and> n < i + length (p # ps) \<and> f (n - i))" if "n < 8" for n
  proof -
    have "n > i \<Longrightarrow> Suc (n - Suc i) = n - i" by simp
    with r(2) that show ?thesis
      by (cases "n = i") (auto simp: bit_simps bit_1_iff)
  qed
  with r(1) hd show ?case by auto
qed auto

text \<open>
  Writing a byte to a group of output pins and reading the group back gives the
  written byte, cut to as many bits as the group has pins.
\<close>

theorem port_set_get:
  assumes "output_group g (ports port)"
  shows "\<exists>g'. port_set ports g port val = Some g' \<and>
    port_get ports g' port = Some (take_bit (length (ports port)) val)"
proof -
  from assms have grp: "list_all (\<lambda>p. pin_of p \<noteq> None \<and> is_output g (the (pin_of p))) (ports port)"
    "distinct (map pin_of (ports port))" "0 + length (ports port) \<le> 8" by (auto simp: output_group_def)
  from port_set_loop_levels [OF this, of val] obtain g' where
    g': "port_set_loop g (ports port) val 1 = Some g'"
    "\<forall>k < length (ports port). gpio_get g' (ports port ! k) = Some (bit val k)" by auto
  from port_get_loop_bits [OF g'(2) grp(3), of 0] obtain r where
    r: "port_get_loop g' (ports port) 0 0 = Some r"
    "\<forall>n < 8. bit r n = (n < length (ports port) \<and> bit val n)" by auto
  have "r = take_bit (length (ports port)) val"
    by (rule u8_bits_eqI) (use r(2) in \<open>auto simp: bit_simps\<close>)
  with g'(1) r(1) show ?thesis by (simp add: port_set_def port_get_def)
qed

theorem port_set_get_witness:
  "\<exists>g'. port_set (\<lambda>_. [XPIN_24]) demo_gpio 0 0xFF = Some g' \<and>
    port_get (\<lambda>_. [XPIN_24]) g' 0 = Some (take_bit (length [XPIN_24]) 0xFF)"
  using port_set_get [of demo_gpio "\<lambda>_. [XPIN_24]" 0 "0xFF"] pin_of_led
  by (simp add: output_group_def is_output_def demo_gpio_def bit_numeral_rec)

end
