(* ===== verification/Rtc.thy ===== *)
theory Rtc
  imports Pxbee_Prelude
begin

text \<open>
  The real-time clock driver: drivers/rtc/rtc.c.  The hardware interrupts every 4 ms (HZ is
  250); the interrupt counts the two timeouts, the milliseconds and the seconds, and runs
  the periodic task.  The build has no power management, so the clock is never slowed; the
  calendar with its alarm is the option RTC_ENABLE_CALENDAR and is modelled beside it.

  The periodic task and the alarm task belong to the application: they are the parameter
  \<open>task\<close> on the application's state, with \<open>None\<close> for a task without a defined
  outcome.
\<close>

unbundle bit_operations_syntax

section \<open>Counters (rtc.c)\<close>

definition HZ :: nat where "HZ = 250"

definition RTC_FAST_MSEC_INC :: u32 where "RTC_FAST_MSEC_INC = 4"

record rtc =
  rt_ticks :: u16
  rt_uptime :: u32
  rt_ms_uptime :: u32
  wait_for_tout1 :: u16
  wait_for_tout2 :: u16
  ticks_ptask_tout :: u32
  ticks_ptask_cnt :: u32

definition rtc_reset :: rtc where
  "rtc_reset = \<lparr>rt_ticks = 0, rt_uptime = 0, rt_ms_uptime = 0, wait_for_tout1 = 0,
     wait_for_tout2 = 0, ticks_ptask_tout = 0, ticks_ptask_cnt = 0\<rparr>"

definition rtc_set_periodic_task_period :: "rtc \<Rightarrow> u32 \<Rightarrow> rtc" where
  "rtc_set_periodic_task_period r period = r\<lparr>ticks_ptask_tout := period, ticks_ptask_cnt := 0\<rparr>"

definition rtc_cancel_periodic_task :: "rtc \<Rightarrow> rtc" where
  "rtc_cancel_periodic_task r = r\<lparr>ticks_ptask_tout := 0\<rparr>"

definition rtc_get_uptime :: "rtc \<Rightarrow> u32" where
  "rtc_get_uptime r = rt_uptime r"

text \<open>
  The milliseconds are read again until the counter register shows the same millisecond
  before and after.  The interrupt may run in between, so each turn of the loop sees its own
  values: a turn is the register, the variable and the register again.  \<open>None\<close> is a
  loop that is still turning when the list of turns ends.
\<close>

fun rtc_get_ms_uptime :: "(u8 \<times> u32 \<times> u8) list \<Rightarrow> u32 option" where
  "rtc_get_ms_uptime [] = None"
| "rtc_get_ms_uptime ((cnt1, ms_uptime, cnt2) # turns) =
     (let ms1 = drop_bit 5 cnt1;
          ms_uptime_adj = ms_uptime + ucast ms1;
          ms2 = drop_bit 5 cnt2 in
      if ms1 \<noteq> ms2 then rtc_get_ms_uptime turns else Some ms_uptime_adj)"

definition rtc_set_timeout :: "rtc \<Rightarrow> u16 \<Rightarrow> rtc" where
  "rtc_set_timeout r timeout = r\<lparr>wait_for_tout2 := timeout\<rparr>"

definition rtc_timeout_expired :: "rtc \<Rightarrow> bool" where
  "rtc_timeout_expired r \<longleftrightarrow> wait_for_tout2 r = 0"

definition check_clock_and_update :: "rtc \<Rightarrow> rtc" where
  "check_clock_and_update r =
     (let r = r\<lparr>rt_ms_uptime := rt_ms_uptime r + RTC_FAST_MSEC_INC\<rparr>;
          r = r\<lparr>rt_ticks := rt_ticks r + 1\<rparr> in
      if unat (rt_ticks r) \<ge> HZ
      then (let r = r\<lparr>rt_uptime := rt_uptime r + of_nat (unat (rt_ticks r) div HZ)\<rparr> in
            r\<lparr>rt_ticks := of_nat (unat (rt_ticks r) mod HZ)\<rparr>)
      else r)"

definition check_periodic_task :: "('s \<Rightarrow> 's option) \<Rightarrow> rtc \<times> 's \<Rightarrow> (rtc \<times> 's) option" where
  "check_periodic_task task = (\<lambda>(r, s).
     if ticks_ptask_tout r \<noteq> 0
     then (let r = r\<lparr>ticks_ptask_cnt := ticks_ptask_cnt r + 1\<rparr> in
           if ticks_ptask_cnt r \<ge> ticks_ptask_tout r
           then (let r = r\<lparr>ticks_ptask_cnt := 0\<rparr> in map_option (Pair r) (task s))
           else Some (r, s))
     else Some (r, s))"

definition rtc_isr :: "('s \<Rightarrow> 's option) \<Rightarrow> rtc \<times> 's \<Rightarrow> (rtc \<times> 's) option" where
  "rtc_isr task = (\<lambda>(r, s).
     let r = (if wait_for_tout1 r \<noteq> 0 then r\<lparr>wait_for_tout1 := wait_for_tout1 r - 1\<rparr> else r);
         r = (if wait_for_tout2 r \<noteq> 0 then r\<lparr>wait_for_tout2 := wait_for_tout2 r - 1\<rparr> else r);
         r = check_clock_and_update r
     in check_periodic_task task (r, s))"

text \<open>A run of interrupts.\<close>

fun interrupts :: "('s \<Rightarrow> 's option) \<Rightarrow> nat \<Rightarrow> rtc \<times> 's \<Rightarrow> (rtc \<times> 's) option" where
  "interrupts task 0 rs = Some rs"
| "interrupts task (Suc n) rs = Option.bind (interrupts task n rs) (rtc_isr task)"

text \<open>
  The busy delay: the loop has no effect of its own (it strokes the watchdog), so what counts
  are the interrupts that happen while it turns.  \<open>fuel\<close> bounds the interrupts that are
  waited for; \<open>None\<close> is a delay that has not returned by then.
\<close>

fun delay_loop :: "nat \<Rightarrow> ('s \<Rightarrow> 's option) \<Rightarrow> rtc \<times> 's \<Rightarrow> (rtc \<times> 's) option" where
  "delay_loop fuel task rs =
     (if wait_for_tout1 (fst rs) = 0 then Some rs
      else case fuel of 0 \<Rightarrow> None | Suc fuel \<Rightarrow> Option.bind (rtc_isr task rs) (delay_loop fuel task))"

definition delay_ticks :: "nat \<Rightarrow> ('s \<Rightarrow> 's option) \<Rightarrow> u16 \<Rightarrow> rtc \<times> 's \<Rightarrow> (rtc \<times> 's) option" where
  "delay_ticks fuel task delay rs = delay_loop fuel task ((fst rs)\<lparr>wait_for_tout1 := delay\<rparr>, snd rs)"

declare delay_loop.simps [simp del]

section \<open>What the counters show\<close>

text \<open>
  The state of the clock after \<open>n\<close> interrupts with a task of the given period that
  does return: the abstract clock the driver implements.
\<close>

definition rtc_at :: "rtc \<Rightarrow> nat \<Rightarrow> rtc" where
  "rtc_at r n = \<lparr>
     rt_ticks = of_nat ((unat (rt_ticks r) + n) mod HZ),
     rt_uptime = rt_uptime r + of_nat ((unat (rt_ticks r) + n) div HZ),
     rt_ms_uptime = rt_ms_uptime r + of_nat (4 * n),
     wait_for_tout1 = of_nat (unat (wait_for_tout1 r) - n),
     wait_for_tout2 = of_nat (unat (wait_for_tout2 r) - n),
     ticks_ptask_tout = ticks_ptask_tout r,
     ticks_ptask_cnt = (if ticks_ptask_tout r = 0 then ticks_ptask_cnt r
       else of_nat ((unat (ticks_ptask_cnt r) + n) mod unat (ticks_ptask_tout r)))\<rparr>"

fun task_times :: "('s \<Rightarrow> 's option) \<Rightarrow> nat \<Rightarrow> 's \<Rightarrow> 's option" where
  "task_times task 0 s = Some s"
| "task_times task (Suc n) s = Option.bind (task_times task n s) task"

definition tasks_due :: "rtc \<Rightarrow> nat \<Rightarrow> nat" where
  "tasks_due r n = (if ticks_ptask_tout r = 0 then 0
     else (unat (ticks_ptask_cnt r) + n) div unat (ticks_ptask_tout r))"

definition rtc_wf :: "rtc \<Rightarrow> bool" where
  "rtc_wf r \<longleftrightarrow> unat (rt_ticks r) < HZ \<and>
     (ticks_ptask_tout r \<noteq> 0 \<longrightarrow> ticks_ptask_cnt r < ticks_ptask_tout r)"

lemma rtc_at_0: "rtc_wf r \<Longrightarrow> rtc_at r 0 = r"
  by (cases r) (auto simp: rtc_at_def rtc_wf_def HZ_def word_less_nat_alt)

lemma tout_step:
  "(let x = of_nat (unat w - n) :: u16 in if x \<noteq> 0 then x - 1 else x) = of_nat (unat (w :: u16) - Suc n)"
proof (cases "n < unat w")
  case True
  have "unat w - n < 65536" by (rule le_less_trans [OF diff_le_self unat_u16_bound])
  then have "(of_nat (unat w - n) :: u16) \<noteq> 0"
    using True unat_of_nat_u16 [of "unat w - n"] by (metis unat_0 zero_less_diff less_not_refl)
  moreover have "unat w - n = Suc (unat w - Suc n)" using True by simp
  ultimately show ?thesis by (simp add: Let_def)
qed simp

lemma clock_step:
  assumes "t < HZ" "rt_ticks r = of_nat t"
  shows "check_clock_and_update r = r\<lparr>rt_ticks := of_nat (Suc t mod HZ),
    rt_uptime := rt_uptime r + of_nat (Suc t div HZ), rt_ms_uptime := rt_ms_uptime r + 4\<rparr>"
proof -
  have "of_nat t + 1 = (of_nat (Suc t) :: u16)" "unat (of_nat (Suc t) :: u16) = Suc t"
    using assms(1) by (simp_all add: HZ_def unat_of_nat_u16 del: of_nat_Suc) simp
  then show ?thesis
    using assms by (auto simp: check_clock_and_update_def Let_def RTC_FAST_MSEC_INC_def HZ_def not_le
        simp del: of_nat_Suc)
qed

lemma ptask_step:
  assumes "c < unat (ticks_ptask_tout r)" "ticks_ptask_cnt r = of_nat c"
  shows "check_periodic_task task (r, s) =
    map_option (Pair (r\<lparr>ticks_ptask_cnt := of_nat (Suc c mod unat (ticks_ptask_tout r))\<rparr>))
      (if Suc c = unat (ticks_ptask_tout r) then task s else Some s)"
proof -
  have nz: "ticks_ptask_tout r \<noteq> 0" using assms(1) by auto
  have lt: "Suc c < 4294967296" using assms(1) unat_u32_bound [of "ticks_ptask_tout r"] by linarith
  have "of_nat c + 1 = (of_nat (Suc c) :: u32)" by simp
  moreover have "(of_nat (Suc c) :: u32) \<ge> ticks_ptask_tout r \<longleftrightarrow> Suc c = unat (ticks_ptask_tout r)"
    using assms(1) unat_of_nat_u32 [OF lt] by (auto simp: word_le_nat_alt simp del: of_nat_Suc)
  ultimately show ?thesis
    using assms nz by (auto simp: check_periodic_task_def Let_def simp del: of_nat_Suc)
qed

lemma Suc_div_step:
  assumes "0 < (m :: nat)"
  shows "Suc (a mod m) div m + a div m = Suc a div m"
proof (cases "Suc (a mod m) = m")
  case False
  then have "Suc (a mod m) < m" using mod_less_divisor [OF assms, of a] by linarith
  then show ?thesis using False by (simp add: div_Suc mod_Suc)
qed (simp add: div_Suc mod_Suc)

lemma tasks_due_Suc:
  assumes "ticks_ptask_tout r \<noteq> 0"
  shows "tasks_due r (Suc n) = Suc (tasks_due r n) \<longleftrightarrow>
    Suc ((unat (ticks_ptask_cnt r) + n) mod unat (ticks_ptask_tout r)) = unat (ticks_ptask_tout r)"
    "tasks_due r (Suc n) \<noteq> Suc (tasks_due r n) \<Longrightarrow> tasks_due r (Suc n) = tasks_due r n"
  using assms by (auto simp: tasks_due_def div_Suc mod_Suc)

lemma rtc_isr_at:
  assumes "rtc_wf r"
  shows "rtc_isr task (rtc_at r n, s) =
    map_option (Pair (rtc_at r (Suc n)))
      (if tasks_due r (Suc n) = Suc (tasks_due r n) then task s else Some s)"
proof -
  define a where "a = rtc_at r n"
  define b where "b = (if wait_for_tout1 a \<noteq> 0 then a\<lparr>wait_for_tout1 := wait_for_tout1 a - 1\<rparr> else a)"
  define c where "c = (if wait_for_tout2 b \<noteq> 0 then b\<lparr>wait_for_tout2 := wait_for_tout2 b - 1\<rparr> else b)"
  define t where "t = (unat (rt_ticks r) + n) mod HZ"
  have t: "t < HZ" "rt_ticks c = of_nat t" by (auto simp: t_def HZ_def a_def b_def c_def rtc_at_def)
  have c: "c = a\<lparr>wait_for_tout1 := of_nat (unat (wait_for_tout1 r) - Suc n),
      wait_for_tout2 := of_nat (unat (wait_for_tout2 r) - Suc n)\<rparr>"
    using tout_step [of "wait_for_tout1 r" n] tout_step [of "wait_for_tout2 r" n]
    by (cases a) (auto simp: c_def b_def a_def rtc_at_def Let_def split: if_splits)
  define d where "d = check_clock_and_update c"
  have d: "d = c\<lparr>rt_ticks := of_nat (Suc t mod HZ), rt_uptime := rt_uptime c + of_nat (Suc t div HZ),
      rt_ms_uptime := rt_ms_uptime c + 4\<rparr>"
    unfolding d_def by (rule clock_step [OF t])
  have up: "Suc t mod HZ = (unat (rt_ticks r) + Suc n) mod HZ"
    "Suc t div HZ + (unat (rt_ticks r) + n) div HZ = (unat (rt_ticks r) + Suc n) div HZ"
    using Suc_div_step [of HZ "unat (rt_ticks r) + n"] by (simp_all add: t_def mod_Suc_eq HZ_def)
  have d': "d = (rtc_at r (Suc n))\<lparr>ticks_ptask_cnt := ticks_ptask_cnt a\<rparr>"
    unfolding d c a_def rtc_at_def up(1) up(2) [symmetric] by (simp add: add.commute add.left_commute)
  have isr: "rtc_isr task (rtc_at r n, s) = check_periodic_task task (d, s)"
    by (simp add: rtc_isr_def Let_def a_def [symmetric] b_def c_def d_def)
  show ?thesis
  proof (cases "ticks_ptask_tout r = 0")
    case True
    then show ?thesis
      unfolding isr by (simp add: d' check_periodic_task_def tasks_due_def rtc_at_def a_def)
  next
    case False
    let ?c = "(unat (ticks_ptask_cnt r) + n) mod unat (ticks_ptask_tout r)"
    have "?c < unat (ticks_ptask_tout d)" "ticks_ptask_cnt d = of_nat ?c"
      using False by (simp_all add: d' a_def rtc_at_def unat_gt_0)
    note step = ptask_step [OF this, of task s]
    have tout: "ticks_ptask_tout d = ticks_ptask_tout r" by (simp add: d' rtc_at_def)
    have "d\<lparr>ticks_ptask_cnt := of_nat (Suc ?c mod unat (ticks_ptask_tout r))\<rparr> = rtc_at r (Suc n)"
      using False by (simp add: d' rtc_at_def mod_Suc_eq)
    then show ?thesis
      unfolding isr tasks_due_Suc(1) [OF False] step tout by simp
  qed
qed

lemma interrupts_at:
  assumes "rtc_wf r"
  shows "interrupts task n (r, s) = map_option (Pair (rtc_at r n)) (task_times task (tasks_due r n) s)"
proof (induction n)
  case 0
  have "tasks_due r 0 = 0" using assms by (auto simp: tasks_due_def rtc_wf_def word_less_nat_alt)
  then show ?case using assms by (simp add: rtc_at_0)
next
  case (Suc n)
  have same: "tasks_due r (Suc n) = tasks_due r n" if "tasks_due r (Suc n) \<noteq> Suc (tasks_due r n)"
    using that tasks_due_Suc(2) by (cases "ticks_ptask_tout r = 0") (auto simp: tasks_due_def)
  show ?case
    by (cases "tasks_due r (Suc n) = Suc (tasks_due r n)"; cases "task_times task (tasks_due r n) s")
      (simp_all add: Suc.IH rtc_isr_at [OF assms] same)
qed

lemma rtc_wf_at:
  assumes "rtc_wf r"
  shows "rtc_wf (rtc_at r n)"
proof -
  have "unat (of_nat ((unat (rt_ticks r) + n) mod HZ) :: u16) = (unat (rt_ticks r) + n) mod HZ"
    by (rule unat_of_nat_u16) (simp add: HZ_def)
  moreover have "unat (of_nat (k mod unat p) :: u32) = k mod unat p" "k mod unat p < unat p"
    if "p \<noteq> 0" for k and p :: u32
  proof -
    show lt: "k mod unat p < unat p" using that by (simp add: unat_gt_0)
    show "unat (of_nat (k mod unat p) :: u32) = k mod unat p"
      by (rule unat_of_nat_u32) (rule less_trans [OF lt unat_u32_bound])
  qed
  ultimately show ?thesis by (auto simp: rtc_wf_def rtc_at_def HZ_def word_less_nat_alt)
qed

text \<open>
  After any number \<open>n\<close> of clock interrupts, as long as the periodic task returns,
  the driver's counters are those of an ideal clock: the uptime counts every 250th interrupt
  and the milliseconds 4 for each, both modulo \<open>2 ^ 32\<close>, and the timeout has expired
  exactly when at least as many interrupts have passed as it was set to.
\<close>

theorem rtc_clock_exact:
  assumes "rtc_wf r" "interrupts task n (r, s) = Some (r', s')"
  shows "rtc_get_uptime r' = rt_uptime r + of_nat ((unat (rt_ticks r) + n) div 250) \<and>
    rt_ms_uptime r' = rt_ms_uptime r + of_nat (4 * n) \<and>
    (rtc_timeout_expired r' \<longleftrightarrow> unat (wait_for_tout2 r) \<le> n) \<and> rtc_wf r'"
proof -
  from assms have r': "r' = rtc_at r n" by (auto simp: interrupts_at)
  have "unat (of_nat (unat (wait_for_tout2 r) - n) :: u16) = unat (wait_for_tout2 r) - n"
    by (rule unat_of_nat_u16) (rule le_less_trans [OF diff_le_self unat_u16_bound])
  then have tmo: "rtc_timeout_expired r' \<longleftrightarrow> unat (wait_for_tout2 r) \<le> n"
    unfolding r' rtc_timeout_expired_def rtc_at_def by (simp add: unat_eq_0 [symmetric])
  from rtc_wf_at [OF assms(1)] have "rtc_wf r'" by (simp add: r')
  with tmo show ?thesis by (simp add: r' rtc_at_def rtc_get_uptime_def HZ_def)
qed

theorem rtc_clock_exact_witness:
  "\<exists>r'. rtc_get_uptime r' = 2 \<and> rt_ms_uptime r' = 2400 \<and> rtc_timeout_expired r' \<and> rtc_wf r'"
proof -
  let ?r = "rtc_set_timeout rtc_reset 600"
  have wf: "rtc_wf ?r" by (simp add: rtc_wf_def rtc_set_timeout_def rtc_reset_def HZ_def)
  have "interrupts Some 600 (?r, ()) = Some (rtc_at ?r 600, ())"
    by (simp only: interrupts_at [OF wf]) (simp add: tasks_due_def rtc_set_timeout_def rtc_reset_def)
  from rtc_clock_exact [OF wf this] show ?thesis
    by (intro exI [of _ "rtc_at ?r 600"]) (simp add: rtc_set_timeout_def rtc_reset_def)
qed

text \<open>
  C37: From the moment its period is set, the periodic task runs at every \<open>p\<close>-th clock
  interrupt and at no other: after \<open>n\<close> interrupts it has run \<open>n div p\<close> times, one
  run after the other; with the period 0 it never runs.
\<close>

theorem rtc_periodic_exact:
  assumes "unat (rt_ticks r) < 250"
  shows "map_option snd (interrupts task n (rtc_set_periodic_task_period r p, s)) =
    task_times task (if p = 0 then 0 else n div unat p) s"
proof -
  have "rtc_wf (rtc_set_periodic_task_period r p)"
    using assms by (auto simp: rtc_wf_def rtc_set_periodic_task_period_def HZ_def word_less_nat_alt unat_gt_0)
  from interrupts_at [OF this, of task n s] show ?thesis
    by (simp add: option.map_comp comp_def tasks_due_def rtc_set_periodic_task_period_def option.map_ident)
qed

theorem rtc_periodic_exact_witness:
  "map_option snd (interrupts (\<lambda>n. Some (Suc n)) 400 (rtc_set_periodic_task_period rtc_reset 125, 0)) =
    task_times (\<lambda>n. Some (Suc n)) 3 (0 :: nat)"
  using rtc_periodic_exact [of rtc_reset "\<lambda>n. Some (Suc n)" 400 125 0] by (simp add: rtc_reset_def)

lemma interrupts_front:
  "interrupts task (Suc n) rs = Option.bind (rtc_isr task rs) (interrupts task n)"
  by (induction n) (auto split: bind_splits)

lemma delay_loop_eq:
  assumes "rtc_wf r" "unat (wait_for_tout1 r) = k"
  shows "delay_loop fuel task (r, s) = (if k \<le> fuel then interrupts task k (r, s) else None)"
  using assms
proof (induction fuel arbitrary: r s k)
  case 0
  then show ?case by (subst delay_loop.simps) (auto simp: unat_eq_0 unat_gt_0)
next
  case (Suc fuel)
  show ?case
  proof (cases k)
    case 0
    then show ?thesis using Suc.prems by (subst delay_loop.simps) (simp add: unat_eq_0)
  next
    case (Suc j)
    let ?r = "rtc_at r (Suc 0)"
    have w: "unat (wait_for_tout1 ?r) = j"
      using Suc Suc.prems(2) unat_u16_bound [of "wait_for_tout1 r"]
      by (simp add: rtc_at_def unat_of_nat_u16 del: unat_u16_bound)
    have "rtc_isr task (r, s) = map_option (Pair ?r) (if tasks_due r (Suc 0) = Suc (tasks_due r 0) then task s else Some s)"
      using rtc_isr_at [OF Suc.prems(1), of task 0 s] by (simp add: rtc_at_0 [OF Suc.prems(1)])
    moreover have "wait_for_tout1 r \<noteq> 0" using Suc Suc.prems(2) by auto
    ultimately show ?thesis
      by (subst delay_loop.simps)
        (auto simp: Suc interrupts_front Suc.IH [OF rtc_wf_at [OF Suc.prems(1)] w] simp del: interrupts.simps
          split: bind_splits)
  qed
qed

text \<open>
  The busy delay returns after exactly as many interrupts as it was asked for, and leaves
  the clock and the application in the state those interrupts left them in: it waits
  neither one tick less nor one more, and it has not returned while fewer have happened.
\<close>

theorem delay_ticks_exact:
  assumes "rtc_wf r"
  shows "delay_ticks fuel task delay (r, s) =
    (if unat delay \<le> fuel then interrupts task (unat delay) (r\<lparr>wait_for_tout1 := delay\<rparr>, s) else None)"
proof -
  have "rtc_wf (r\<lparr>wait_for_tout1 := delay\<rparr>)" using assms by (simp add: rtc_wf_def)
  from delay_loop_eq [OF this refl, of fuel task s] show ?thesis by (simp add: delay_ticks_def)
qed

theorem delay_ticks_exact_witness:
  "delay_ticks 10 Some 3 (rtc_reset, ()) = interrupts Some 3 (rtc_reset\<lparr>wait_for_tout1 := 3\<rparr>, ())"
  using delay_ticks_exact [of rtc_reset 10 Some 3 "()"] by (simp add: rtc_wf_def rtc_reset_def HZ_def)

end
