(* ===== verification/Rtc_Calendar.thy ===== *)
theory Rtc_Calendar
  imports Pxbee_Prelude
begin

text \<open>
  The calendar option of the real-time clock driver (RTC_ENABLE_CALENDAR and
  RTC_ENABLE_ALARM in drivers/rtc/rtc.c): the date that the clock advances once a second and
  the alarm.  Neither option is set in the build of the application.
\<close>

section \<open>Date and alarm (rtc.c)\<close>

record tm_t =
  t_sec :: u8
  t_min :: u8
  t_hour :: u8
  t_mday :: u8
  t_month :: u8
  t_year :: u16

record calendar =
  cal_date :: tm_t
  cal_alarm :: tm_t

definition rtc_set_date :: "calendar \<Rightarrow> tm_t \<Rightarrow> calendar" where
  "rtc_set_date c newdate = c\<lparr>cal_date := newdate\<rparr>"

datatype rtc_error = RTC_EINVAL

text \<open>What \<open>now\<close> points at, if it is not null, becomes the date.\<close>

definition rtc_get_date :: "tm_t option \<Rightarrow> calendar \<Rightarrow> (rtc_error + unit) \<times> tm_t option" where
  "rtc_get_date now c =
     (case now of None \<Rightarrow> (Inl RTC_EINVAL, None) | Some _ \<Rightarrow> (Inr (), Some (cal_date c)))"

definition rtc_set_alarm :: "calendar \<Rightarrow> tm_t \<Rightarrow> (rtc_error + unit) \<times> calendar" where
  "rtc_set_alarm c newalarm =
     (let d = cal_date c; einval = (Inl RTC_EINVAL, c); ok = (Inr (), c\<lparr>cal_alarm := newalarm\<rparr>) in
      if t_year d > t_year newalarm then einval
      else if t_year d = t_year newalarm then
        (if t_month d > t_month newalarm then einval
         else if t_month d = t_month newalarm then
           (if t_mday d > t_mday newalarm then einval
            else if t_mday d = t_mday newalarm then
              (if t_hour d > t_hour newalarm then einval
               else if t_hour d = t_hour newalarm then
                 (if t_min d > t_min newalarm then einval
                  else if t_min d = t_min newalarm then
                    (if t_sec d \<ge> t_sec newalarm then einval else ok)
                  else ok)
               else ok)
            else ok)
         else ok)
      else ok)"

definition month_has_30_days :: "u8 \<Rightarrow> bool" where
  "month_has_30_days m \<longleftrightarrow> m = 4 \<or> m = 6 \<or> m = 9 \<or> m = 11"

definition leap_year :: "u16 \<Rightarrow> bool" where
  "leap_year y \<longleftrightarrow> unat y mod 4 = 0 \<and> (unat y mod 100 \<noteq> 0 \<or> unat y mod 400 = 0)"

definition trigger_alarm :: "calendar \<Rightarrow> bool" where
  "trigger_alarm c \<longleftrightarrow> cal_date c = cal_alarm c"

definition next_month :: "tm_t \<Rightarrow> tm_t" where
  "next_month d =
     (if t_mday d > 31 \<or> t_mday d = 31 \<and> month_has_30_days (t_month d)
         \<or> t_mday d = 30 \<and> t_month d = 2
         \<or> t_mday d = 29 \<and> t_month d = 2 \<and> \<not> leap_year (t_year d)
      then d\<lparr>t_month := t_month d + 1, t_mday := 1\<rparr> else d)"

definition next_year :: "tm_t \<Rightarrow> tm_t" where
  "next_year d = (if t_month d > 12 then d\<lparr>t_month := 1, t_year := t_year d + 1\<rparr> else d)"

definition next_second :: "tm_t \<Rightarrow> tm_t" where
  "next_second d =
     (let d = d\<lparr>t_sec := t_sec d + 1\<rparr> in
      if t_sec d > 59 then
        (let d = d\<lparr>t_sec := t_sec d - 60, t_min := t_min d + 1\<rparr> in
         if t_min d > 59 then
           (let d = d\<lparr>t_min := 0, t_hour := t_hour d + 1\<rparr> in
            if t_hour d > 23 then
              next_year (next_month (d\<lparr>t_hour := 0, t_mday := t_mday d + 1\<rparr>))
            else d)
         else d)
      else d)"

text \<open>\<open>task\<close> is the application's rtc_alarm_task.\<close>

definition update_date :: "('s \<Rightarrow> 's) \<Rightarrow> calendar \<times> 's \<Rightarrow> calendar \<times> 's" where
  "update_date task = (\<lambda>(c, s).
     let c = c\<lparr>cal_date := next_second (cal_date c)\<rparr> in
     if trigger_alarm c then (c, task s) else (c, s))"

section \<open>The calendar as seconds\<close>

definition leap :: "nat \<Rightarrow> bool" where
  "leap y \<longleftrightarrow> 4 dvd y \<and> (\<not> 100 dvd y \<or> 400 dvd y)"

definition month_days :: "nat \<Rightarrow> nat \<Rightarrow> nat" where
  "month_days y m = (if m = 2 then if leap y then 29 else 28 else if m \<in> {4, 6, 9, 11} then 30 else 31)"

fun days_before_month :: "nat \<Rightarrow> nat \<Rightarrow> nat" where
  "days_before_month y 0 = 0"
| "days_before_month y (Suc m) = days_before_month y m + (if m = 0 then 0 else month_days y m)"

fun days_before_year :: "nat \<Rightarrow> nat" where
  "days_before_year 0 = 0"
| "days_before_year (Suc y) = days_before_year y + (if leap y then 366 else 365)"

definition date_days :: "tm_t \<Rightarrow> nat" where
  "date_days d = days_before_year (unat (t_year d)) + days_before_month (unat (t_year d)) (unat (t_month d))
     + unat (t_mday d) - 1"

definition day_seconds :: "tm_t \<Rightarrow> nat" where
  "day_seconds d = (unat (t_hour d) * 60 + unat (t_min d)) * 60 + unat (t_sec d)"

definition date_seconds :: "tm_t \<Rightarrow> nat" where
  "date_seconds d = date_days d * 86400 + day_seconds d"

definition valid_date :: "tm_t \<Rightarrow> bool" where
  "valid_date d \<longleftrightarrow> t_sec d < 60 \<and> t_min d < 60 \<and> t_hour d < 24 \<and> 1 \<le> t_month d \<and> t_month d \<le> 12 \<and>
     1 \<le> t_mday d \<and> unat (t_mday d) \<le> month_days (unat (t_year d)) (unat (t_month d))"

lemma days_before_month_13: "days_before_month y 13 = (if leap y then 366 else 365)"
  by (simp add: numeral_eq_Suc month_days_def)

lemma leap_year_leap: "leap_year y = leap (unat y)"
  by (auto simp: leap_year_def leap_def dvd_eq_mod_eq_0)

lemma u8_inc: "w < 255 \<Longrightarrow> unat (w + 1 :: u8) = Suc (unat w)"
  by (simp add: unat_plus_if' word_less_nat_alt)

lemma u16_inc: "w < 65535 \<Longrightarrow> unat (w + 1 :: u16) = Suc (unat w)"
  by (simp add: unat_plus_if' word_less_nat_alt)

lemma month_days_bounds: "28 \<le> month_days y m" "month_days y m \<le> 31"
  by (auto simp: month_days_def)

lemma day_bound: "valid_date d \<Longrightarrow> unat (t_mday d) \<le> 31 \<and> unat (t_month d) \<le> 12 \<and> 1 \<le> unat (t_mday d) \<and> 1 \<le> unat (t_month d)"
  using month_days_bounds(2) [of "unat (t_year d)" "unat (t_month d)"]
  by (auto simp: valid_date_def word_le_nat_alt)

text \<open>The month step: the day after the last of the month becomes the first of the next.\<close>

lemma next_month_iff:
  assumes "valid_date d"
  shows "next_month (d\<lparr>t_mday := t_mday d + 1\<rparr>) =
    (if unat (t_mday d) = month_days (unat (t_year d)) (unat (t_month d))
     then d\<lparr>t_month := t_month d + 1, t_mday := 1\<rparr> else d\<lparr>t_mday := t_mday d + 1\<rparr>)"
proof -
  have md: "unat (t_mday d + 1) = Suc (unat (t_mday d))"
    using day_bound [OF assms] by (intro u8_inc) (simp add: word_less_nat_alt)
  have num: "t_mday d + 1 > 31 \<longleftrightarrow> unat (t_mday d) > 30" "t_mday d + 1 = 31 \<longleftrightarrow> unat (t_mday d) = 30"
    "t_mday d + 1 = 30 \<longleftrightarrow> unat (t_mday d) = 29" "t_mday d + 1 = 29 \<longleftrightarrow> unat (t_mday d) = 28"
    by (simp_all only: word_less_nat_alt word_unat_eq_iff md) simp_all
  have mon: "t_month d = 2 \<longleftrightarrow> unat (t_month d) = 2"
    "month_has_30_days (t_month d) \<longleftrightarrow> unat (t_month d) \<in> {4, 6, 9, 11}"
    by (auto simp: month_has_30_days_def word_unat_eq_iff)
  have "unat (t_mday d) \<le> month_days (unat (t_year d)) (unat (t_month d))"
    using assms by (simp add: valid_date_def)
  then show ?thesis
    unfolding next_month_def using leap_year_leap [of "t_year d"]
    by (auto simp: num mon month_days_def simp del: One_nat_def split: if_splits)
qed

lemma days_before_Suc_year:
  "days_before_year (Suc y) + 1 = days_before_year y + days_before_month y 12 + month_days y 12 + 1"
  using days_before_month_13 [of y] by (simp add: numeral_eq_Suc)

lemma next_day:
  assumes "valid_date d" "t_year d < 65535"
  defines "d' \<equiv> next_year (next_month (d\<lparr>t_mday := t_mday d + 1\<rparr>))"
  shows "date_days d' = Suc (date_days d) \<and> 1 \<le> t_month d' \<and> t_month d' \<le> 12 \<and> 1 \<le> t_mday d' \<and>
    unat (t_mday d') \<le> month_days (unat (t_year d')) (unat (t_month d'))"
proof -
  let ?y = "unat (t_year d)" and ?m = "unat (t_month d)" and ?D = "unat (t_mday d)"
  have b: "?D \<le> 31" "?m \<le> 12" "1 \<le> ?D" "1 \<le> ?m" "?D \<le> month_days ?y ?m"
    using day_bound [OF assms(1)] assms(1) by (auto simp: valid_date_def)
  have md: "unat (t_mday d + 1) = Suc ?D" "unat (t_month d + 1) = Suc ?m" "unat (t_year d + 1) = Suc ?y"
    using b assms(2) by (auto intro!: u8_inc u16_inc simp: word_less_nat_alt)
  consider (day) "?D < month_days ?y ?m" | (month) "?D = month_days ?y ?m" "?m < 12"
    | (year) "?D = month_days ?y ?m" "?m = 12" using b by linarith
  then show ?thesis
  proof cases
    case day
    have "\<not> t_month d > 12" using b(2) by (simp add: word_less_nat_alt)
    with day have "d' = d\<lparr>t_mday := t_mday d + 1\<rparr>"
      by (simp add: d'_def next_month_iff [OF assms(1)] next_year_def)
    then show ?thesis using b day by (simp add: date_days_def word_le_nat_alt md)
  next
    case month
    have "\<not> t_month d + 1 > 12" using month(2) by (simp add: word_less_nat_alt md)
    with month have "d' = d\<lparr>t_month := t_month d + 1, t_mday := 1\<rparr>"
      by (simp add: d'_def next_month_iff [OF assms(1)] next_year_def)
    then show ?thesis using b month month_days_bounds(1) [of ?y "Suc ?m"]
      by (simp add: date_days_def word_le_nat_alt md)
  next
    case year
    have "t_month d + 1 > 12" using year(2) by (simp add: word_less_nat_alt md)
    with year(1) have "d' = d\<lparr>t_month := 1, t_mday := 1, t_year := t_year d + 1\<rparr>"
      by (simp add: d'_def next_month_iff [OF assms(1)] next_year_def)
    then show ?thesis using b year month_days_bounds(1) [of "Suc ?y" 1] days_before_Suc_year [of ?y]
      by (simp add: date_days_def word_le_nat_alt md)
  qed
qed

lemma next_month_year_time [simp]:
  "t_sec (next_year d) = t_sec d" "t_min (next_year d) = t_min d" "t_hour (next_year d) = t_hour d"
  "t_sec (next_month d) = t_sec d" "t_min (next_month d) = t_min d" "t_hour (next_month d) = t_hour d"
  by (auto simp: next_year_def next_month_def)

lemma date_days_time [simp]:
  "date_days (d\<lparr>t_sec := s\<rparr>) = date_days d" "date_days (d\<lparr>t_min := s\<rparr>) = date_days d"
  "date_days (d\<lparr>t_hour := s\<rparr>) = date_days d"
  by (simp_all add: date_days_def)

lemma inc_limit:
  assumes "w < 60"
  shows "w + 1 > (59 :: u8) \<longleftrightarrow> w = 59" "w \<noteq> 59 \<Longrightarrow> w + 1 < 60 \<and> unat (w + 1) = Suc (unat w)"
proof -
  have *: "unat (w + 1) = Suc (unat w)" using assms by (intro u8_inc) (simp add: word_less_nat_alt)
  show "w + 1 > (59 :: u8) \<longleftrightarrow> w = 59" "w \<noteq> 59 \<Longrightarrow> w + 1 < 60 \<and> unat (w + 1) = Suc (unat w)"
    using assms by (simp_all only: word_less_nat_alt word_unat_eq_iff *) auto
qed

lemma inc_hour:
  assumes "w < 24"
  shows "w + 1 > (23 :: u8) \<longleftrightarrow> w = 23" "w \<noteq> 23 \<Longrightarrow> w + 1 < 24 \<and> unat (w + 1) = Suc (unat w)"
proof -
  have *: "unat (w + 1) = Suc (unat w)" using assms by (intro u8_inc) (simp add: word_less_nat_alt)
  show "w + 1 > (23 :: u8) \<longleftrightarrow> w = 23" "w \<noteq> 23 \<Longrightarrow> w + 1 < 24 \<and> unat (w + 1) = Suc (unat w)"
    using assms by (simp_all only: word_less_nat_alt word_unat_eq_iff *) auto
qed

lemma next_second_correct:
  assumes "valid_date d" "t_year d < 65535"
  shows "valid_date (next_second d) \<and> date_seconds (next_second d) = Suc (date_seconds d)"
proof -
  have lim: "t_sec d < 60" "t_min d < 60" "t_hour d < 24" using assms(1) by (auto simp: valid_date_def)
  consider (sec) "t_sec d \<noteq> 59" | (min) "t_sec d = 59" "t_min d \<noteq> 59"
    | (hour) "t_sec d = 59" "t_min d = 59" "t_hour d \<noteq> 23"
    | (day) "t_sec d = 59" "t_min d = 59" "t_hour d = 23" by blast
  then show ?thesis
  proof cases
    case sec
    then show ?thesis using assms(1) inc_limit [OF lim(1)]
      by (simp add: next_second_def valid_date_def date_seconds_def day_seconds_def)
  next
    case min
    then show ?thesis using assms(1) inc_limit [OF lim(2)]
      by (simp add: next_second_def valid_date_def date_seconds_def day_seconds_def)
  next
    case hour
    then show ?thesis using assms(1) inc_hour [OF lim(3)]
      by (simp add: next_second_def valid_date_def date_seconds_def day_seconds_def)
  next
    case day
    let ?e = "d\<lparr>t_sec := 0, t_min := 0, t_hour := 0\<rparr>"
    have e: "valid_date ?e" "t_year ?e < 65535" using assms by (simp_all add: valid_date_def)
    have "next_second d = next_year (next_month (?e\<lparr>t_mday := t_mday ?e + 1\<rparr>))"
      using day by (simp add: next_second_def)
    with next_day [OF e] day show ?thesis
      by (simp add: valid_date_def date_seconds_def day_seconds_def)
  qed
qed

section \<open>The order of dates and the alarm\<close>

definition date_before :: "tm_t \<Rightarrow> tm_t \<Rightarrow> bool" where
  "date_before d e \<longleftrightarrow> t_year d < t_year e \<or> t_year d = t_year e \<and>
     (t_month d < t_month e \<or> t_month d = t_month e \<and>
       (t_mday d < t_mday e \<or> t_mday d = t_mday e \<and>
         (t_hour d < t_hour e \<or> t_hour d = t_hour e \<and>
           (t_min d < t_min e \<or> t_min d = t_min e \<and> t_sec d < t_sec e))))"

lemma date_before_total: "date_before d e \<or> d = e \<or> date_before e d"
  by (cases d; cases e) (auto simp: date_before_def)

lemma rtc_set_alarm_iff:
  "rtc_set_alarm c a = (if date_before (cal_date c) a then (Inr (), c\<lparr>cal_alarm := a\<rparr>) else (Inl RTC_EINVAL, c))"
  by (auto simp: rtc_set_alarm_def date_before_def Let_def not_less)

lemma days_before_year_mono: "y \<le> y' \<Longrightarrow> days_before_year y \<le> days_before_year y'"
  by (induction y' rule: dec_induct) auto

lemma days_before_month_mono: "m \<le> m' \<Longrightarrow> days_before_month y m \<le> days_before_month y m'"
  by (induction m' rule: dec_induct) auto

text \<open>The last day of a month is before the next month, the last day of a year before the next year.\<close>

lemma date_days_month:
  assumes "valid_date d" "unat (t_month d) < m"
  shows "date_days d < days_before_year (unat (t_year d)) + days_before_month (unat (t_year d)) m"
proof -
  have "days_before_month (unat (t_year d)) (Suc (unat (t_month d))) \<le> days_before_month (unat (t_year d)) m"
    using assms(2) by (intro days_before_month_mono) simp
  then show ?thesis using day_bound [OF assms(1)] assms(1)
    by (auto simp: date_days_def valid_date_def split: if_splits)
qed

lemma date_days_year:
  assumes "valid_date d" "unat (t_year d) < y"
  shows "date_days d < days_before_year y"
proof -
  have "date_days d < days_before_year (Suc (unat (t_year d)))"
    using date_days_month [OF assms(1), of 13] day_bound [OF assms(1)]
    by (simp add: days_before_month_13 split: if_splits)
  also have "\<dots> \<le> days_before_year y" using assms(2) by (intro days_before_year_mono) simp
  finally show ?thesis .
qed

lemma day_seconds_bound: "valid_date d \<Longrightarrow> day_seconds d < 86400"
  by (simp add: valid_date_def day_seconds_def word_less_nat_alt)

lemma date_days_from: "valid_date d \<Longrightarrow>
  days_before_year (unat (t_year d)) + days_before_month (unat (t_year d)) (unat (t_month d)) \<le> date_days d"
  by (drule day_bound) (auto simp: date_days_def)

lemma date_before_seconds:
  assumes "valid_date d" "valid_date e" "date_before d e"
  shows "date_seconds d < date_seconds e"
proof (cases "date_days d < date_days e")
  case True
  then show ?thesis using day_seconds_bound [OF assms(1)] by (simp add: date_seconds_def)
next
  case False
  have "\<not> unat (t_year d) < unat (t_year e)"
    using False date_days_year [OF assms(1), of "unat (t_year e)"] date_days_from [OF assms(2)] by linarith
  with assms(3) have y: "t_year d = t_year e" by (auto simp: date_before_def word_less_nat_alt)
  have "\<not> unat (t_month d) < unat (t_month e)"
    using False date_days_month [OF assms(1), of "unat (t_month e)"] date_days_from [OF assms(2)] y by auto
  with assms(3) y have m: "t_month d = t_month e" by (auto simp: date_before_def word_less_nat_alt)
  have D: "t_mday d = t_mday e"
    using False y m assms(3) day_bound [OF assms(1)] by (auto simp: date_days_def date_before_def word_less_nat_alt)
  have "day_seconds d < day_seconds e"
    using assms y m D by (auto simp: date_before_def day_seconds_def valid_date_def word_less_nat_alt)
  then show ?thesis by (simp add: date_seconds_def date_days_def y m D)
qed

lemma date_seconds_less:
  assumes "valid_date d" "valid_date e"
  shows "date_seconds d < date_seconds e \<longleftrightarrow> date_before d e" "date_seconds d = date_seconds e \<longleftrightarrow> d = e"
  using assms date_before_total [of d e] date_before_seconds [of d e] date_before_seconds [of e d] by auto

text \<open>
  C38: The second tick of the calendar takes a valid date to the valid date one second later,
  over the ends of minutes, hours, days, months of every length, February of leap and common
  years, and years (up to the last year the 16-bit field holds).
\<close>

theorem update_date_correct:
  assumes "valid_date (cal_date c)" "t_year (cal_date c) < 65535"
  shows "valid_date (cal_date (fst (update_date task (c, s)))) \<and>
    date_seconds (cal_date (fst (update_date task (c, s)))) = date_seconds (cal_date c) + 1"
  using next_second_correct [OF assms] by (simp add: update_date_def Let_def)

definition demo_calendar :: calendar where
  "demo_calendar = (let d = \<lparr>t_sec = 59, t_min = 59, t_hour = 23, t_mday = 28, t_month = 2, t_year = 2024\<rparr>
     in \<lparr>cal_date = d, cal_alarm = d\<lparr>t_year := 0xFFFF\<rparr>\<rparr>)"

lemma demo_calendar_valid: "valid_date (cal_date demo_calendar)"
  by (simp add: demo_calendar_def Let_def valid_date_def month_days_def leap_def dvd_eq_mod_eq_0)

theorem update_date_correct_witness:
  "valid_date (cal_date (fst (update_date id (demo_calendar, ())))) \<and>
    date_seconds (cal_date (fst (update_date id (demo_calendar, ())))) = date_seconds (cal_date demo_calendar) + 1"
  by (rule update_date_correct [OF demo_calendar_valid]) (simp add: demo_calendar_def)

lemma updates_before_alarm:
  assumes "valid_date (cal_date c)" "valid_date (cal_alarm c)" "t_year (cal_alarm c) < 65535"
    and "date_seconds (cal_date c) + n < date_seconds (cal_alarm c)"
  shows "\<exists>c'. (update_date task ^^ n) (c, s) = (c', s) \<and> cal_alarm c' = cal_alarm c \<and>
    valid_date (cal_date c') \<and> date_seconds (cal_date c') = date_seconds (cal_date c) + n"
  using assms(4)
proof (induction n)
  case (Suc n)
  then obtain c' where c': "(update_date task ^^ n) (c, s) = (c', s)" "cal_alarm c' = cal_alarm c"
    "valid_date (cal_date c')" "date_seconds (cal_date c') = date_seconds (cal_date c) + n" by auto
  have "date_before (cal_date c') (cal_alarm c)"
    using Suc.prems c'(4) date_seconds_less(1) [OF c'(3) assms(2)] by simp
  then have "t_year (cal_date c') < 65535" using assms(3) by (auto simp: date_before_def)
  note nx = next_second_correct [OF c'(3) this]
  then have "next_second (cal_date c') \<noteq> cal_alarm c" using Suc.prems c'(4) by auto
  with nx c' show ?case by (simp add: update_date_def Let_def trigger_alarm_def)
qed (use assms in auto)

text \<open>
  An alarm that the driver accepts rings exactly when it is due: counting second ticks
  from the moment it is set, the alarm task does not run before the tick that reaches the
  alarm's date and runs at that tick, once; an alarm that is not in the future is refused.
\<close>

theorem rtc_alarm_exact:
  assumes "valid_date (cal_date c)" "valid_date a" "t_year a < 65535"
  shows "case rtc_set_alarm c a of
      (Inl _, c1) \<Rightarrow> date_seconds a \<le> date_seconds (cal_date c) \<and> c1 = c
    | (Inr _, c1) \<Rightarrow> (\<exists>n. date_seconds (cal_date c) + Suc n = date_seconds a \<and>
        (\<forall>k \<le> n. snd ((update_date task ^^ k) (c1, s)) = s) \<and>
        snd ((update_date task ^^ Suc n) (c1, s)) = task s)"
proof (cases "date_before (cal_date c) a")
  case True
  let ?c = "c\<lparr>cal_alarm := a\<rparr>"
  define n where "n = date_seconds a - date_seconds (cal_date c) - 1"
  have n: "date_seconds (cal_date c) + Suc n = date_seconds a"
    using True date_seconds_less(1) [OF assms(1,2)] by (simp add: n_def)
  have before: "\<exists>c'. (update_date task ^^ k) (?c, s) = (c', s) \<and> cal_alarm c' = a \<and>
    valid_date (cal_date c') \<and> date_seconds (cal_date c') = date_seconds (cal_date c) + k" if "k \<le> n" for k
    using updates_before_alarm [of ?c k task s] assms n that by simp
  then obtain c' where c': "(update_date task ^^ n) (?c, s) = (c', s)" "cal_alarm c' = a"
    "valid_date (cal_date c')" "date_seconds (cal_date c') = date_seconds (cal_date c) + n" by blast
  have "date_before (cal_date c') a" using n c'(4) date_seconds_less(1) [OF c'(3) assms(2)] by simp
  then have "t_year (cal_date c') < 65535" using assms(3) by (auto simp: date_before_def)
  note nx = next_second_correct [OF c'(3) this]
  then have "next_second (cal_date c') = a"
    using n c'(4) date_seconds_less(2) [OF conjunct1 [OF nx] assms(2)] by simp
  then have "snd ((update_date task ^^ Suc n) (?c, s)) = task s"
    using c' by (simp add: update_date_def Let_def trigger_alarm_def)
  moreover have "\<forall>k \<le> n. snd ((update_date task ^^ k) (?c, s)) = s" using before by fastforce
  ultimately show ?thesis using True n unfolding rtc_set_alarm_iff if_P [OF True] prod.case sum.case by blast
next
  case False
  then show ?thesis using date_seconds_less(1) [OF assms(1,2)] by (simp add: rtc_set_alarm_iff not_less)
qed

theorem rtc_alarm_exact_witness:
  "case rtc_set_alarm demo_calendar (cal_date demo_calendar\<lparr>t_mday := 29\<rparr>) of
      (Inl _, c1) \<Rightarrow> date_seconds (cal_date demo_calendar\<lparr>t_mday := 29\<rparr>) \<le> date_seconds (cal_date demo_calendar)
        \<and> c1 = demo_calendar
    | (Inr _, c1) \<Rightarrow> (\<exists>n. date_seconds (cal_date demo_calendar) + Suc n = date_seconds (cal_date demo_calendar\<lparr>t_mday := 29\<rparr>) \<and>
        (\<forall>k \<le> n. snd ((update_date Suc ^^ k) (c1, 0)) = 0) \<and>
        snd ((update_date Suc ^^ Suc n) (c1, 0)) = Suc 0)"
  by (rule rtc_alarm_exact [OF demo_calendar_valid])
    (simp_all add: demo_calendar_def Let_def valid_date_def month_days_def leap_def dvd_eq_mod_eq_0)

end
