(* ===== verification/App_At.thy ===== *)
theory App_At
  imports App_Callback Xbee_Atcmd_Correct
begin

text \<open>
  The AT command layer under this application.  What its functions leave alone: the serial ports of the
  devices, whether they use flow control and are inside a tick, the time, and the rest of the system except what is
  printed.  And what makes them return: requests for command lists belong to the list that queries
  the device, and that list's position is inside it.
\<close>

section \<open>The invariant\<close>

definition app_request :: "xbee_cmd_request \<Rightarrow> bool" where
  "app_request r \<longleftrightarrow> (rq_callback r = Some 0 \<longrightarrow> rq_context r = 0 \<and> rq_command r \<noteq> 0)"

text \<open>Flow control, and that the device is not inside a tick.\<close>

abbreviation KEPT_FLAGS :: u16 where "KEPT_FLAGS \<equiv> 0x8080"

definition list_pos :: "('p, 'w) at_state \<Rightarrow> nat" where
  "list_pos s = lc_first (as_lists s 0) + unat (lc_index (as_lists s 0))"

definition surroundings ::
    "('p, 'w console_state_scheme) at_state \<Rightarrow> u32 \<times> 'w console_state_scheme \<times> (nat \<Rightarrow> xbee_serial \<times> u16)" where
  "surroundings s = (as_seconds s, (as_world s)\<lparr>cs_out := []\<rparr>,
     \<lambda>d. (xd_serport (as_dev s d), xd_flags (as_dev s d) AND KEPT_FLAGS))"

definition app_inv ::
    "u32 \<times> 'w console_state_scheme \<times> (nat \<Rightarrow> xbee_serial \<times> u16) \<Rightarrow> ('p, 'w console_state_scheme) at_state \<Rightarrow> bool" where
  "app_inv F s \<longleftrightarrow> length (as_table s) = 2 \<and> (\<forall>r \<in> set (as_table s). app_request r) \<and>
     lc_list (as_lists s 0) = 0 \<and> list_pos s \<le> 8 \<and> surroundings s = F"

lemma app_inv_nth: "app_inv F s \<Longrightarrow> i < 2 \<Longrightarrow> app_request (as_table s ! i)"
  by (simp add: app_inv_def)

section \<open>Elementary updates\<close>

lemma inv_same:
  assumes "app_inv F s" "as_table s' = as_table s" "as_lists s' = as_lists s" "surroundings s' = surroundings s"
  shows "app_inv F s'"
  using assms by (simp add: app_inv_def list_pos_def)

lemma inv_update_request:
  assumes "app_inv F s" "i < 2 \<Longrightarrow> app_request (f (as_table s ! i))"
  shows "app_inv F (update_request i f s)"
proof -
  have "app_request r" if "r \<in> set ((as_table s)[i := f (as_table s ! i)])" for r
    using that assms set_update_subset_insert [of "as_table s" i "f (as_table s ! i)"]
    by (cases "i < 2") (auto simp: app_inv_def list_update_beyond)
  then show ?thesis
    using assms(1) by (simp add: app_inv_def update_request_def list_pos_def surroundings_def)
qed

lemma inv_update_dev:
  assumes "app_inv F s" "\<And>x. xd_serport (f x) = xd_serport x"
    "\<And>x. xd_flags (f x) AND KEPT_FLAGS = xd_flags x AND KEPT_FLAGS"
  shows "app_inv F (update_dev d f s)"
  by (rule inv_same [OF assms(1)]) (use assms in \<open>auto simp: update_dev_def surroundings_def\<close>)

lemma inv_update_status: "app_inv F s \<Longrightarrow> app_inv F (update_list c (\<lambda>lc. lc\<lparr>lc_status := st\<rparr>) s)"
  by (simp add: app_inv_def update_list_def list_pos_def surroundings_def)

lemma inv_on_request:
  assumes "app_inv F s" "\<And>i. xbee_cmd_handle_to_address h s = Some i \<Longrightarrow> app_request (as_table s ! i) \<Longrightarrow> app_request (f (as_table s ! i))"
  shows "app_inv F (snd (on_request h f s))"
  using assms handle_to_address_less [of h s] app_inv_nth [OF assms(1)]
  by (auto simp: on_request_def intro!: inv_update_request split: option.splits)

lemma kept_or: "flags AND KEPT_FLAGS = 0 \<Longrightarrow> (x OR flags) AND KEPT_FLAGS = x AND KEPT_FLAGS" for x flags :: u16
  by (simp add: bit.conj_disj_distrib2)

lemma kept_and_not: "flags AND KEPT_FLAGS = 0 \<Longrightarrow> (x AND NOT flags) AND KEPT_FLAGS = x AND KEPT_FLAGS" for x flags :: u16
  by (rule bit_eqI) (use bit_eq_iff [of "flags AND KEPT_FLAGS" 0] in \<open>auto simp: bit_and_iff bit_not_iff\<close>)

lemma inv_flags:
  assumes "app_inv F s" "flags AND KEPT_FLAGS = 0"
  shows "app_inv F (set_dev_flags d flags s)" "app_inv F (clear_dev_flags d flags s)"
  using assms by (auto simp: set_dev_flags_def clear_dev_flags_def kept_or kept_and_not intro!: inv_update_dev)

section \<open>Operations on a request\<close>

lemma inv_setters:
  assumes "app_inv F s"
  shows "app_inv F (snd (xbee_cmd_set_target h ieee network s))"
    "app_inv F (snd (xbee_cmd_set_param h v s))"
    "app_inv F (snd (xbee_cmd_set_param_bytes h data len s))"
    "app_inv F (snd (xbee_cmd_set_param_str h str s))"
    "command \<noteq> 0 \<Longrightarrow> app_inv F (snd (xbee_cmd_set_command h command s))"
    "cb \<noteq> Some 0 \<Longrightarrow> app_inv F (snd (xbee_cmd_set_callback h cb c s))"
  using assms
  unfolding xbee_cmd_set_target_def xbee_cmd_set_param_def xbee_cmd_set_param_bytes_def xbee_cmd_set_param_str_def
    xbee_cmd_set_command_def xbee_cmd_set_callback_def
  by (auto intro!: inv_on_request simp: app_request_def store_param_def split: option.splits)

lemma inv_release: "app_inv F s \<Longrightarrow> app_inv F (snd (xbee_cmd_release_request i s))"
  using app_inv_nth [of F s "the i"]
  by (auto simp: xbee_cmd_release_request_def app_request_def intro!: inv_update_request split: option.splits)

lemma inv_release_handle: "app_inv F s \<Longrightarrow> app_inv F (snd (xbee_cmd_release_handle h s))"
  by (simp add: xbee_cmd_release_handle_def inv_release)

lemma inv_frame_write: "app_inv F s \<Longrightarrow> app_inv F (snd (dev_frame_write device header data dl s))"
proof (cases device)
  case (Some d)
  assume inv: "app_inv F s"
  obtain tx where "snd (xbee_frame_write (Some (as_dev s d)) (Some header) (of_nat (length header)) data dl 0)
      = Some ((as_dev s d)\<lparr>xd_stx := tx\<rparr>)"
    using frame_write_stx by blast
  then have eq: "snd (dev_frame_write device header data dl s) = update_dev d (\<lambda>x. x\<lparr>xd_stx := tx\<rparr>) s"
    using Some by (simp add: dev_frame_write_def case_prod_unfold update_dev_def)
  show ?thesis unfolding eq using inv by (rule inv_update_dev) simp_all
qed (simp add: dev_frame_write_def)

lemma inv_next_frame_id: "app_inv F s \<Longrightarrow> app_inv F (snd (dev_next_frame_id device s))"
  by (cases device) (simp_all add: dev_next_frame_id_some Let_def inv_update_dev, simp add: dev_next_frame_id_def)

lemma inv_send: "app_inv F s \<Longrightarrow> app_inv F (snd (xbee_cmd_send h s))"
proof -
  assume inv: "app_inv F s"
  have id: "app_inv F (send_id i s)" for i
    unfolding send_id_def Let_def case_prod_unfold
    by (rule inv_update_request)
      (use inv_next_frame_id [OF inv] app_inv_nth [OF inv] in \<open>auto simp: inv app_request_def\<close>)
  have frame: "app_inv F (snd (send_frame i (send_id i s)))" for i
    unfolding send_frame_def Let_def by (rule inv_frame_write [OF id])
  have finish: "app_inv F (send_done i t)" if "app_inv F t" for i t
    using that app_inv_nth [OF that] by (auto simp: send_done_def Let_def inv_release app_request_def intro!: inv_update_request)
  then show ?thesis
    using inv frame finish [OF frame] by (simp add: xbee_cmd_send_def case_prod_unfold Let_def split: option.splits)
qed

section \<open>Printing\<close>

lemma inv_print: "app_inv F s \<Longrightarrow> app_inv F (print item s)"
  by (rule inv_same) (simp_all add: print_def surroundings_def)

lemma inv_callback: "app_inv F s \<Longrightarrow> app_inv F (snd (xbee_cmd_callback response s))"
  by (simp add: xbee_cmd_callback_def Let_def inv_print)

lemma inv_simple: "app_inv F s \<Longrightarrow> app_inv F (snd (xbee_cmd_simple x command v s))"
  by (simp add: xbee_cmd_simple_def inv_frame_write)

lemma inv_execute: "app_inv F s \<Longrightarrow> app_inv F (snd (xbee_cmd_execute x command data len s))"
  using inv_frame_write [OF inv_next_frame_id] by (simp add: xbee_cmd_execute_def case_prod_unfold Let_def)

section \<open>The query list\<close>

text \<open>List 0 is the list that queries a device, with some function at its end.\<close>

definition query_list :: "(nat \<Rightarrow> ('p, 'w) xbee_atcmd_reg list) \<Rightarrow> bool" where
  "query_list regs \<longleftrightarrow> (\<exists>fin. regs 0 = query_regs_with fin)"

lemma query_list_at_regs: "query_list (at_regs env create)" "query_list (command_regs env)"
  by (auto simp: query_list_def at_regs_def command_regs_def xbee_atcmd_query_regs_def)

lemma list_param_bytes:
  "ar_type reg \<in> {XBEE_CLT_NONE, XBEE_CLT_COPY, XBEE_CLT_COPY_BE} \<Longrightarrow>
   set_list_param h reg base s = snd (xbee_cmd_set_param_bytes h [] 0 s)"
  by (auto simp: set_list_param_def Let_def)

text \<open>The request of a list after its next command has been put into it.\<close>

lemma issued_request:
  fixes h :: int and base :: nat and command :: u16
  assumes "app_inv F s" "command \<noteq> 0"
    and "ar_type reg \<in> {XBEE_CLT_NONE, XBEE_CLT_COPY, XBEE_CLT_COPY_BE}"
  defines "t \<equiv> set_list_param h reg base (snd (xbee_cmd_set_command h command s))"
  shows "app_inv F t \<and> (\<forall>i. xbee_cmd_handle_to_address h t = Some i \<longrightarrow> rq_command (as_table t ! i) \<noteq> 0)"
proof -
  have inv: "app_inv F t"
    unfolding t_def list_param_bytes [OF assms(3)] by (rule inv_setters(3) [OF inv_setters(5) [OF assms(1,2)]])
  have len: "length (as_table s) = 2" using assms(1) by (simp add: app_inv_def)
  have "rq_command (as_table t ! i) = command" if h: "xbee_cmd_handle_to_address h t = Some i" for i
  proof -
    have "xbee_cmd_handle_to_address h s = Some i"
      using h by (simp add: t_def list_param_bytes [OF assms(3)] xbee_cmd_set_param_bytes_def xbee_cmd_set_command_def
          on_request_handle store_param_def)
    then show ?thesis
      using len handle_to_address_less [of h s i] on_request_handle [of "\<lambda>r. r\<lparr>rq_command := command\<rparr>" h h s]
      by (simp add: t_def list_param_bytes [OF assms(3)] xbee_cmd_set_param_bytes_def xbee_cmd_set_command_def
          on_request_def update_request_def store_param_def nth_list_update)
  qed
  then show ?thesis using inv assms(2) by simp
qed

text \<open>The elements of the list: the entries for a command, and the end with its function.\<close>

lemma reg_at_query:
  assumes "regs 0 = query_regs_with fin" "lc_list lc = 0" "lc_first lc + i < 8"
  shows "ar_command (reg_at regs lc i) \<noteq> 0"
    "ar_type (reg_at regs lc i) \<in> {XBEE_CLT_NONE, XBEE_CLT_COPY, XBEE_CLT_COPY_BE}"
    "\<exists>s'. call_reg (reg_at regs lc i) response b base s = Some s' \<and> (app_inv F s \<longrightarrow> app_inv F s') \<and> at_keep s s' \<and>
       as_lists s' = as_lists s"
    "app_inv F s \<longrightarrow> app_inv F (store_response (reg_at regs lc i) response base s)"
    "as_lists (store_response (reg_at regs lc i) response base s) = as_lists s"
    "at_keep s (store_response (reg_at regs lc i) response base s)"
proof -
  let ?k = "lc_first lc + i"
  have reg: "reg_at regs lc i = query_regs_with fin ! ?k" using assms by (simp add: reg_at_def)
  note facts = query_reg_facts [OF assms(3), of fin]
  show "ar_command (reg_at regs lc i) \<noteq> 0" "ar_type (reg_at regs lc i) \<in> {XBEE_CLT_NONE, XBEE_CLT_COPY, XBEE_CLT_COPY_BE}"
    unfolding reg using facts by blast+
  have eo: "app_inv F s \<longrightarrow> app_inv F (xbee_cmd_query_handle_eo response base s)"
    "at_keep s (xbee_cmd_query_handle_eo response base s)" "as_lists (xbee_cmd_query_handle_eo response base s) = as_lists s"
    by (auto simp: xbee_cmd_query_handle_eo_def at_keep_refl intro!: inv_update_dev update_dev_keep)
  have ai: "app_inv F s \<longrightarrow> app_inv F (xbee_cmd_query_handle_ai response base s)"
    "at_keep s (xbee_cmd_query_handle_ai response base s)" "as_lists (xbee_cmd_query_handle_ai response base s) = as_lists s"
    by (auto simp: xbee_cmd_query_handle_ai_def at_keep_refl Let_def intro!: inv_update_dev update_dev_keep)
  show "\<exists>s'. call_reg (reg_at regs lc i) response b base s = Some s' \<and> (app_inv F s \<longrightarrow> app_inv F s') \<and> at_keep s s' \<and>
      as_lists s' = as_lists s"
    unfolding reg call_reg_def facts(5) using eo ai at_keep_refl by auto
  have k: "?k \<in> {0, 1, 2, 3, 4, 5, 6, 7}" using assms(3) by auto
  have dev: "(app_inv F s \<longrightarrow> app_inv F (update_dev base f s)) \<and> at_keep s (update_dev base f s)"
    if "\<And>x. xd_serport (f x) = xd_serport x \<and> xd_flags (f x) = xd_flags x" for f
    using that by (auto intro!: inv_update_dev update_dev_keep)
  have "(app_inv F s \<longrightarrow> app_inv F (store_response (query_regs_with fin ! ?k) response base s)) \<and>
      at_keep s (store_response (query_regs_with fin ! ?k) response base s) \<and>
      as_lists (store_response (query_regs_with fin ! ?k) response base s) = as_lists s"
    using k by (elim insertE emptyE)
      (simp_all add: query_regs_with_def reg_copy_def reg_cb_def store_response_def Let_def dev at_keep_refl)
  then show "app_inv F s \<longrightarrow> app_inv F (store_response (reg_at regs lc i) response base s)"
    "as_lists (store_response (reg_at regs lc i) response base s) = as_lists s"
    "at_keep s (store_response (reg_at regs lc i) response base s)"
    unfolding reg by blast+
qed

lemma status_no_timeout: "(ucast (status :: u8) :: u16) AND XBEE_CMD_RESP_FLAG_TIMEOUT = 0"
proof -
  have "\<not> bit (ucast status :: u16) 15" by (auto simp: bit_simps dest: bit_imp_le_length)
  then show ?thesis using and_exp_eq_0_iff_not_bit [of "ucast status :: u16" 15] by simp
qed

section \<open>Functions that create requests\<close>

text \<open>What they rely on: \<open>xbee_cmd_create\<close>, when it returns, has kept the invariant.\<close>

locale at_invariant =
  fixes F :: "u32 \<times> 'w console_state_scheme \<times> (nat \<Rightarrow> xbee_serial \<times> u16)"
    and create :: "('p, 'w console_state_scheme) at_create"
  assumes create_inv: "app_inv F s \<Longrightarrow> create xbee command s = Some (r, s') \<Longrightarrow> app_inv F s'"
begin

lemma list_execute_inv:
  assumes "query_list regs" "first \<le> 6" "app_inv F s" "xbee_cmd_list_execute create regs xbee 0 0 first base address s = Some (r, s')"
  shows "app_inv F s'"
proof -
  obtain fin where fin: "regs 0 = query_regs_with fin" using assms(1) by (auto simp: query_list_def)
  define u where "u = update_list 0 (\<lambda>_. \<lparr>lc_list = 0, lc_first = first, lc_base = base,
    lc_status = XBEE_COMMAND_LIST_RUNNING, lc_index = 0\<rparr>) s"
  have u: "app_inv F u" using assms(2,3) by (simp add: u_def app_inv_def update_list_def list_pos_def surroundings_def)
  let ?reg = "reg_at regs (as_lists u 0) 0"
  have lc: "lc_list (as_lists u 0) = 0" "lc_first (as_lists u 0) + 0 < 8" "lc_index (as_lists u 0) = 0"
    using assms(2) by (simp_all add: u_def update_list_def)
  note reg = reg_at_query(1,2) [where regs = regs and lc = "as_lists u 0" and i = 0, OF fin lc(1,2)]
  show ?thesis
  proof (cases "create xbee (Some (ar_command ?reg)) u")
    case None
    then show ?thesis
      using assms(4) lc(3) by (simp add: xbee_cmd_list_execute_def u_def [symmetric] xbee_cmd_issue_list_def Let_def)
  next
    case (Some res)
    obtain q v where q: "create xbee (Some (ar_command ?reg)) u = Some (q, v)" using Some by (cases res) auto
    have v: "app_inv F v" by (rule create_inv [OF u q])
    show ?thesis
    proof (cases q)
      case (Inl e)
      then show ?thesis
        using assms(4) q v lc(3) by (simp add: xbee_cmd_list_execute_def u_def [symmetric] xbee_cmd_issue_list_def Let_def)
    next
      case (Inr h)
      define b where "b = lc_base (as_lists (snd (xbee_cmd_set_command h (ar_command ?reg) v)) 0)"
      define w where "w = set_list_param h ?reg b (snd (xbee_cmd_set_command h (ar_command ?reg) v))"
      have w: "app_inv F w" "\<And>i. xbee_cmd_handle_to_address h w = Some i \<Longrightarrow> rq_command (as_table w ! i) \<noteq> 0"
        using issued_request [OF v reg, of h b] unfolding w_def by blast+
      define x where "x = (case address of Some (ieee, network) \<Rightarrow> snd (xbee_cmd_set_target h (Some ieee) network w) | None \<Rightarrow> w)"
      have x: "app_inv F x" unfolding x_def using w(1) by (auto intro: inv_setters split: option.splits)
      have xh: "rq_command (as_table x ! i) \<noteq> 0" if h: "xbee_cmd_handle_to_address h x = Some i" for i
      proof -
        have "xbee_cmd_handle_to_address h w = Some i"
          using h by (auto simp: x_def xbee_cmd_set_target_def on_request_handle split: option.splits)
        then show ?thesis
          using w(2) app_inv_def [of F w] w(1) handle_to_address_less [of h w i]
          by (auto simp: x_def xbee_cmd_set_target_def on_request_def update_request_def split: option.splits)
      qed
      have y: "app_inv F (snd (xbee_cmd_set_callback h (Some 0) 0 x))"
        unfolding xbee_cmd_set_callback_def
        by (rule inv_on_request [OF x]) (use xh in \<open>simp add: app_request_def\<close>)
      have "xbee_cmd_list_execute create regs xbee 0 0 first base address s =
        Some (if fst (xbee_cmd_set_callback h (Some 0) 0 x) \<noteq> Inr 0 then xbee_cmd_set_callback h (Some 0) 0 x
            else xbee_cmd_send h (snd (xbee_cmd_set_callback h (Some 0) 0 x)))"
        using q Inr lc(3)
        by (cases address) (simp_all add: xbee_cmd_list_execute_def u_def [symmetric] xbee_cmd_issue_list_def w_def x_def b_def
            Let_def case_prod_unfold)
      then have "(r, s') = (if fst (xbee_cmd_set_callback h (Some 0) 0 x) \<noteq> Inr 0 then xbee_cmd_set_callback h (Some 0) 0 x
            else xbee_cmd_send h (snd (xbee_cmd_set_callback h (Some 0) 0 x)))"
        using assms(4) by simp
      from arg_cong [OF this, of snd] show ?thesis using y inv_send [OF y, of h] by (simp split: if_splits)
    qed
  qed
qed

lemma query_device_inv:
  assumes "query_list regs" "app_inv F s" "xbee_cmd_query_device create regs xbee refresh s = Some (r, s')"
  shows "app_inv F s'"
proof (cases xbee)
  case (Some d)
  define u where "u = (if refresh then set_dev_flags d XBEE_DEV_FLAG_QUERY_REFRESH s else s)"
  have u: "app_inv F u" using assms(2) by (simp add: u_def inv_flags)
  show ?thesis
  proof (cases "dev_flag d XBEE_DEV_FLAG_QUERY_INPROGRESS u")
    case True
    then show ?thesis using assms(3) u Some by (simp add: xbee_cmd_query_device_def u_def [symmetric])
  next
    case False
    let ?run = "xbee_cmd_list_execute create regs (Some d) 0 0 (if refresh then XBEE_ATCMD_REG_REFRESH_IDX else 0) d None u"
    obtain e t where t: "?run = Some (e, t)"
      using assms(3) False Some by (cases ?run) (auto simp: xbee_cmd_query_device_def u_def [symmetric])
    have "app_inv F t" by (rule list_execute_inv [OF assms(1) _ u t]) simp
    then show ?thesis
      using assms(3) False Some t by (auto simp: xbee_cmd_query_device_def u_def [symmetric] inv_flags split: if_splits)
  qed
qed (use assms in \<open>simp add: xbee_cmd_query_device_def\<close>)

lemma query_handle_end_inv:
  assumes "query_list regs" "app_inv F s" "xbee_cmd_query_handle_end create regs response has_reg d s = Some s'"
  shows "app_inv F s'"
proof -
  define u where "u = clear_dev_flags d XBEE_DEV_FLAG_QUERY_INPROGRESS s"
  define v where "v = set_dev_flags d
                (if \<not> has_reg then XBEE_DEV_FLAG_QUERY_ERROR
                 else if re_flags response AND XBEE_CMD_RESP_FLAG_TIMEOUT \<noteq> 0 then XBEE_DEV_FLAG_QUERY_ERROR
                 else XBEE_DEV_FLAG_QUERY_DONE) u"
  define w where "w = (if dev_flag d XBEE_DEV_FLAG_QUERY_ERROR v
                  \<and> xd_wpan_flags (as_dev v d) AND WPAN_FLAG_JOINED \<noteq> 0
                  \<and> xd_network (as_dev v d) = WPAN_NET_ADDR_UNDEFINED
               then set_dev_flags d XBEE_DEV_FLAG_QUERY_REFRESH v else v)"
  have "app_inv F u" using assms(2) by (simp add: u_def inv_flags)
  then have "app_inv F v" by (simp add: v_def inv_flags)
  then have w: "app_inv F w" by (simp add: w_def inv_flags)
  have eq: "xbee_cmd_query_handle_end create regs response has_reg d s =
    (if dev_flag d XBEE_DEV_FLAG_QUERY_REFRESH w
     then map_option snd (xbee_cmd_query_device create regs (Some d) True w) else Some w)"
    unfolding xbee_cmd_query_handle_end_def Let_def w_def v_def u_def ..
  show ?thesis using assms(3) w query_device_inv [OF assms(1) w] unfolding eq by (auto split: if_splits)
qed

lemma end_reg_inv:
  assumes "reg \<in> set (at_regs app_env create 0)" "ar_command reg = 0" "app_inv F s"
    "call_reg reg response has_reg base s = Some s'"
  shows "app_inv F s'"
proof -
  have "reg = reg_cb 0 (xbee_cmd_query_handle_end create (command_regs app_env))"
    using assms(1,2) query_cmds_nonzero
    by (auto simp: at_regs_def xbee_atcmd_query_regs_def query_regs_with_def reg_copy_def reg_cb_def)
  then show ?thesis
    using assms(4) query_handle_end_inv [OF query_list_at_regs(2) assms(3)] by (simp add: call_reg_def reg_cb_def)
qed

lemma timeout_callback_inv:
  assumes "app_inv F s" "re_flags response AND XBEE_CMD_RESP_FLAG_TIMEOUT \<noteq> 0" "f = 0 \<longrightarrow> re_context response = 0"
    "call_callback app_env create f response s = Some (r, s')"
  shows "app_inv F s'"
proof (cases "f = 0")
  case True
  let ?t = "update_list 0 (\<lambda>lc. lc\<lparr>lc_status := XBEE_COMMAND_LIST_TIMEOUT\<rparr>) s"
  have t: "app_inv F ?t" using assms(1) by (rule inv_update_status)
  let ?final = "find_end (at_regs app_env create) (as_lists ?t 0)"
  have run: "(case ?final of Some reg \<Rightarrow> call_reg reg response True (lc_base (as_lists s 0)) ?t | None \<Rightarrow> Some ?t) = Some s'"
    using assms(2-4) True by (auto simp: call_callback_def xbee_cmd_list_callback_def Let_def split: option.splits)
  show ?thesis
  proof (cases ?final)
    case (Some reg)
    have "reg \<in> set (at_regs app_env create (lc_list (as_lists ?t 0)))" "ar_command reg = 0"
      using find_SomeD [OF Some [unfolded find_end_def]] by (auto dest: in_set_dropD)
    then show ?thesis using run Some end_reg_inv [OF _ _ t] t by (simp add: app_inv_def)
  qed (use run t in simp)
next
  case False
  then show ?thesis
    using assms(4) inv_callback [OF assms(1), of response] by (auto simp: call_callback_def app_env_def)
qed

lemma tick_request_inv:
  assumes "app_inv F s" "i < 2" "tick_request app_env create i (count, s) = Some (n, s')"
  shows "app_inv F s'"
proof (cases "\<exists>d. rq_device (as_table s ! i) = Some d \<and> XBEE_CHECK_TIMEOUT_SEC (rq_timeout (as_table s ! i)) s")
  case True
  then obtain d where d: "rq_device (as_table s ! i) = Some d" "XBEE_CHECK_TIMEOUT_SEC (rq_timeout (as_table s ! i)) s" by auto
  define call where "call = (case rq_callback (as_table s ! i) of None \<Rightarrow> Some (XBEE_ATCMD_DONE, s)
    | Some f \<Rightarrow> call_callback app_env create f (expired_response d i s) s)"
  obtain reuse t where t: "call = Some (reuse, t)"
    using assms(3) d by (cases call) (auto simp: tick_request_def Let_def call_def)
  have inv: "app_inv F t"
  proof (cases "rq_callback (as_table s ! i)")
    case (Some f)
    have "f = 0 \<longrightarrow> re_context (expired_response d i s) = 0"
      using app_inv_nth [OF assms(1,2)] Some by (simp add: app_request_def expired_response_def)
    then show ?thesis
      using timeout_callback_inv [OF assms(1) app.expired_flags, of f d i s reuse t] t Some by (simp add: call_def)
  qed (use t assms(1) in \<open>simp add: call_def\<close>)
  have run: "(if reuse \<noteq> XBEE_ATCMD_REUSE then
       (case rq_device (as_table t ! i) of None \<Rightarrow> None
        | Some device \<Rightarrow>
            let u = snd (xbee_cmd_release_request (Some i) t) in
            if dev_flag device XBEE_DEV_FLAG_QUERY_REFRESH u
            then map_option (\<lambda>(_, s). (count + 1, s)) (xbee_cmd_query_device create (at_regs app_env create) (Some device) True u)
            else Some (count + 1, u))
     else Some (count + 1, t)) = Some (n, s')"
    using assms(3) d t [unfolded call_def] by (simp add: tick_request_def Let_def)
  show ?thesis
    using run inv inv_release [OF inv, of "Some i"] query_device_inv [OF query_list_at_regs(1) inv_release [OF inv, of "Some i"]]
    by (auto simp: Let_def split: if_splits option.splits)
next
  case False
  then have "tick_request app_env create i (count, s) = Some (count, s)"
    by (auto simp: tick_request_def Let_def split: option.splits)
  then show ?thesis using assms(1,3) by simp
qed

lemma tick_inv:
  assumes "app_inv F s" "xbee_cmd_tick app_env create s = Some (n, s')"
  shows "app_inv F s'"
proof -
  have mark: "app_inv F (s\<lparr>as_last_time := t\<rparr>)" for t
    by (rule inv_same [OF assms(1)]) (simp_all add: surroundings_def)
  show ?thesis
  proof (cases "as_last_time s = ucast (as_seconds s)")
    case False
    then obtain k t where t: "tick_request app_env create 0 (0, s\<lparr>as_last_time := ucast (as_seconds s)\<rparr>) = Some (k, t)"
      "tick_request app_env create 1 (k, t) = Some (n, s')"
      using assms(2) by (auto simp: xbee_cmd_tick_def Let_def bind_eq_Some_conv)
    have "app_inv F t" by (rule tick_request_inv [OF mark _ t(1)]) simp
    then show ?thesis by (rule tick_request_inv [OF _ _ t(2)]) simp
  qed (use assms in \<open>simp add: xbee_cmd_tick_def\<close>)
qed

lemma init_device_inv:
  assumes "app_inv F s" "xbee_cmd_init_device app_env create xbee s = Some (r, s')"
  shows "app_inv F s'"
  using assms query_device_inv [OF query_list_at_regs(1) inv_flags(1) [OF assms(1), of XBEE_DEV_FLAG_CMD_INIT]]
    inv_flags(1) [OF assms(1), of XBEE_DEV_FLAG_CMD_INIT]
  by (auto simp: xbee_cmd_init_device_def Let_def split: option.splits if_splits)

lemma create_step_inv:
  assumes "app_inv F s" "create_step app_env create xbee command s = Some (r, s')"
  shows "app_inv F s'"
proof (cases "xbee = None \<or> command = None")
  case False
  then obtain d cmd where c: "xbee = Some d" "command = Some cmd" by auto
  have set_init: "app_inv F t \<Longrightarrow> app_inv F (t\<lparr>as_initialized := k\<rparr>)" for t k
    by (erule inv_same) (simp_all add: surroundings_def)
  have rest: "app_inv F s'" if t: "app_inv F t" "create_rest app_env create d cmd t = Some (r, s')" for t
  proof (cases "free_slot (as_table t)")
    case (Some i)
    have "app_inv F (allocate d cmd i t)"
      unfolding allocate_def by (rule inv_update_request [OF t(1)]) (simp add: app_request_def request_zero_def)
    then show ?thesis using t(2) Some by (simp add: create_rest_def)
  next
    case None
    show ?thesis
    proof (cases "as_initialized t = 2")
      case False
      then obtain k u v where u: "xbee_cmd_tick app_env create (t\<lparr>as_initialized := 2\<rparr>) = Some (k, u)"
        "create (Some d) (Some cmd) u = Some (r, v)" "s' = v\<lparr>as_initialized := 1\<rparr>"
        using t(2) None by (auto simp: create_rest_def split: option.splits)
      have "app_inv F u" by (rule tick_inv [OF set_init [OF t(1)] u(1)])
      then have "app_inv F v" by (rule create_inv [OF _ u(2)])
      then show ?thesis unfolding u(3) by (rule set_init)
    qed (use t None in \<open>simp add: create_rest_def\<close>)
  qed
  have init: "app_inv F (table_init s)"
    using assms(1) by (auto simp: table_init_def app_inv_def app_request_def request_zero_def list_pos_def surroundings_def)
  show ?thesis
  proof (cases "dev_flag d XBEE_DEV_FLAG_CMD_INIT s")
    case True
    then show ?thesis using rest [OF init] assms(2) by (simp add: create_step_eq c)
  next
    case False
    then obtain q t where t: "xbee_cmd_init_device app_env create (Some d) (table_init s) = Some (q, t)"
      "create_rest app_env create d cmd t = Some (r, s')"
      using assms(2) by (auto simp: create_step_eq c bind_eq_Some_conv)
    have "app_inv F t" by (rule init_device_inv [OF init t(1)])
    then show ?thesis by (rule rest [OF _ t(2)])
  qed
qed (use assms create_step_invalid [of xbee command app_env create s] in auto)

text \<open>A response to a request of the list: the next command of the list is sent, or the list ends.\<close>

lemma list_next_inv:
  assumes "app_inv F s" "list_pos s < 8"
  shows "app_inv F (update_list 0 (\<lambda>lc. lc\<lparr>lc_index := lc_index lc + 1\<rparr>) s)"
    "list_pos (update_list 0 (\<lambda>lc. lc\<lparr>lc_index := lc_index lc + 1\<rparr>) s) = Suc (list_pos s)"
proof -
  have "unat (lc_index (as_lists s 0)) < 8" using assms(2) by (simp add: list_pos_def)
  then have "unat (lc_index (as_lists s 0) + 1) = Suc (unat (lc_index (as_lists s 0)))"
    by (simp add: unat_word_ariths)
  then show "app_inv F (update_list 0 (\<lambda>lc. lc\<lparr>lc_index := lc_index lc + 1\<rparr>) s)"
    "list_pos (update_list 0 (\<lambda>lc. lc\<lparr>lc_index := lc_index lc + 1\<rparr>) s) = Suc (list_pos s)"
    using assms by (simp_all add: app_inv_def update_list_def list_pos_def surroundings_def)
qed

lemma list_end_inv:
  assumes "app_inv F s" "list_pos s = 8" "call_reg (reg_at (at_regs app_env create) (as_lists s 0) (unat (lc_index (as_lists s 0))))
    response has_reg base (update_list 0 (\<lambda>lc. lc\<lparr>lc_status := st\<rparr>) s) = Some s'"
  shows "app_inv F s'"
proof (rule end_reg_inv [OF _ _ inv_update_status [OF assms(1)] assms(3)])
  let ?reg = "reg_at (at_regs app_env create) (as_lists s 0) (unat (lc_index (as_lists s 0)))"
  have "?reg = at_regs app_env create 0 ! 8"
    using assms(1,2) by (simp add: reg_at_def app_inv_def list_pos_def)
  then show "?reg \<in> set (at_regs app_env create 0)" "ar_command ?reg = 0"
    by (simp_all add: at_regs_def xbee_atcmd_query_regs_def query_regs_with_def reg_cb_def)
qed

lemma list_response_inv:
  assumes "app_inv F s" "re_context response = 0" "re_command response \<noteq> 0" "re_flags response AND XBEE_CMD_RESP_FLAG_TIMEOUT = 0"
    and "xbee_cmd_list_callback create (at_regs app_env create) response s = Some (r, s')"
  shows "app_inv F s'"
proof -
  let ?regs = "at_regs app_env create"
  let ?base = "lc_base (as_lists s 0)"
  define at where "at = (\<lambda>s :: ('p, 'w console_state_scheme) at_state. reg_at ?regs (as_lists s 0) (unat (lc_index (as_lists s 0))))"
  obtain fin where fin: "?regs 0 = query_regs_with fin" using query_list_at_regs(1) by (auto simp: query_list_def)
  have inside: "ar_command (at s) \<noteq> 0" "ar_type (at s) \<in> {XBEE_CLT_NONE, XBEE_CLT_COPY, XBEE_CLT_COPY_BE}"
    "\<exists>s'. call_reg (at s) response b base t = Some s' \<and> (app_inv F t \<longrightarrow> app_inv F s') \<and> at_keep t s' \<and> as_lists s' = as_lists t"
    "app_inv F t \<longrightarrow> app_inv F (store_response (at s) response base t)" "as_lists (store_response (at s) response base t) = as_lists t"
    if "app_inv F s" "list_pos s < 8" for s t :: "('p, 'w console_state_scheme) at_state" and b base
  proof -
    have lc: "lc_list (as_lists s 0) = 0" "lc_first (as_lists s 0) + unat (lc_index (as_lists s 0)) < 8"
      using that by (simp_all add: app_inv_def list_pos_def)
    note q = reg_at_query [where regs = ?regs, OF fin lc, folded at_def]
    show "ar_command (at s) \<noteq> 0" "ar_type (at s) \<in> {XBEE_CLT_NONE, XBEE_CLT_COPY, XBEE_CLT_COPY_BE}"
      unfolding at_def by (rule q(1), rule q(2))
    show "\<exists>s'. call_reg (at s) response b base t = Some s' \<and> (app_inv F t \<longrightarrow> app_inv F s') \<and> at_keep t s' \<and> as_lists s' = as_lists t"
      unfolding at_def by (rule q(3))
    show "app_inv F t \<longrightarrow> app_inv F (store_response (at s) response base t)" "as_lists (store_response (at s) response base t) = as_lists t"
      unfolding at_def by (rule q(4), rule q(5))
  qed
  have pos: "list_pos s \<le> 8" using assms(1) by (simp add: app_inv_def)
  have finish: "app_inv F u" if "app_inv F t" "list_pos t = 8"
    "call_reg (at t) response b ?base (update_list 0 (\<lambda>lc. lc\<lparr>lc_status := st\<rparr>) t) = Some u" for t u b st
    using list_end_inv [OF that(1,2)] that(3) unfolding at_def by blast
  show ?thesis
  proof (cases "re_command response = ar_command (at s)")
    case False
    then have run: "call_reg (at s) response False ?base (update_list 0 (\<lambda>lc. lc\<lparr>lc_status := XBEE_COMMAND_LIST_ERROR\<rparr>) s) = Some s'"
      using assms(2,4,5) by (auto simp: xbee_cmd_list_callback_def Let_def at_def)
    show ?thesis
    proof (cases "list_pos s = 8")
      case False
      then show ?thesis
        using inside(3) [OF assms(1), of False ?base "update_list 0 (\<lambda>lc. lc\<lparr>lc_status := XBEE_COMMAND_LIST_ERROR\<rparr>) s"] pos run
          inv_update_status [OF assms(1), of 0 XBEE_COMMAND_LIST_ERROR] by auto
    qed (use finish [OF assms(1)] run in blast)
  next
    case True
    have lt: "list_pos s < 8"
    proof (rule ccontr)
      assume "\<not> list_pos s < 8"
      then have "at s = ?regs 0 ! 8" using pos assms(1) by (simp add: at_def reg_at_def app_inv_def list_pos_def)
      then show False using True assms(3) by (simp add: fin query_regs_with_def reg_cb_def)
    qed
    define t where "t = (if re_flags response AND XBEE_CMD_RESP_MASK_STATUS = XBEE_AT_RESP_SUCCESS
      then store_response (at s) response ?base s else s)"
    have t: "app_inv F t" "as_lists t = as_lists s" using inside(4,5) [OF assms(1) lt] assms(1) by (simp_all add: t_def)
    obtain u where u: "call_reg (at s) response True ?base t = Some u" "app_inv F u" "as_lists u = as_lists t"
      using inside(3) [OF assms(1) lt] t(1) by blast
    define v where "v = update_list 0 (\<lambda>lc. lc\<lparr>lc_index := lc_index lc + 1\<rparr>) u"
    have lu: "list_pos u < 8" using lt t(2) u(3) by (simp add: list_pos_def)
    have v: "app_inv F v" "list_pos v = Suc (list_pos u)" unfolding v_def by (rule list_next_inv [OF u(2) lu])+
    have run: "(if ar_command (at v) \<noteq> 0 then
        (case xbee_cmd_issue_list create ?regs (Some (re_device response)) 0 (Some (re_handle response)) v of
           None \<Rightarrow> None
         | Some (_, s) \<Rightarrow>
             let s = snd (xbee_cmd_send (re_handle response) s) in
             if ar_type (at v) = XBEE_CLT_LAST
             then map_option (Pair XBEE_ATCMD_DONE) (call_reg (at v) response True ?base
               (update_list 0 (\<lambda>lc. lc\<lparr>lc_status := XBEE_COMMAND_LIST_DONE\<rparr>) (snd (xbee_cmd_release_handle (re_handle response) s))))
             else Some (XBEE_ATCMD_REUSE, s))
      else map_option (Pair XBEE_ATCMD_DONE) (call_reg (at v) response True ?base
         (update_list 0 (\<lambda>lc. lc\<lparr>lc_status := XBEE_COMMAND_LIST_DONE\<rparr>) v))) = Some (r, s')"
      using assms(5) [unfolded xbee_cmd_list_callback_def Let_def assms(2)] assms(4) True u(1) [unfolded t_def]
      unfolding at_def v_def Let_def by (simp split del: if_split cong: if_cong option.case_cong)
    show ?thesis
    proof (cases "list_pos v = 8")
      case True
      then have "at v = ?regs 0 ! 8" using v(1) by (simp add: at_def reg_at_def app_inv_def list_pos_def)
      then have "ar_command (at v) = 0" by (simp add: fin query_regs_with_def reg_cb_def)
      then show ?thesis using run finish [OF v(1) True] by auto
    next
      case False
      then have lv: "list_pos v < 8" using lu v(2) by simp
      note cmd = inside(1,2) [OF v(1) lv]
      have sent: "app_inv F (snd (xbee_cmd_send (re_handle response)
          (set_list_param (re_handle response) (at v) (lc_base (as_lists v 0)) (snd (xbee_cmd_set_command (re_handle response) (ar_command (at v)) v)))))"
        using issued_request [OF v(1) cmd] by (blast intro: inv_send)
      have base: "lc_base (as_lists (snd (xbee_cmd_set_command h c v)) 0) = lc_base (as_lists v 0)" for h c
        by (simp add: xbee_cmd_set_command_def on_request_def update_request_def split: option.split)
      show ?thesis
        using run cmd sent by (auto simp: xbee_cmd_issue_list_def Let_def at_def base)
    qed
  qed
qed

lemma handle_response_inv:
  assumes "app_inv F s" "xbee_cmd_handle_response app_env create xbee frame n s = Some (r, s')"
  shows "app_inv F s'"
proof (cases "Option.bind frame (\<lambda>f. at_response_fields f n)")
  case (Some f)
  show ?thesis
  proof (cases "find_request xbee f (as_table s)")
    case None
    then show ?thesis using assms Some by (simp add: xbee_cmd_handle_response_def split: if_splits)
  next
    case (Some i)
    have i: "i < 2" using Some by (auto simp: find_request_def find_Some_iff)
    note f = \<open>Option.bind frame (\<lambda>f. at_response_fields f n) = Some f\<close>
    show ?thesis
    proof (cases "rq_callback (as_table s ! i)")
      case None
      then show ?thesis using assms f Some inv_release [OF assms(1), of "Some i"] by (auto simp: xbee_cmd_handle_response_def)
    next
      case (Some cb)
      obtain v t where t: "call_callback app_env create cb (build_response xbee f i s) s = Some (v, t)"
        "s' = (if v = XBEE_ATCMD_REUSE then update_request i (\<lambda>r. r\<lparr>rq_timeout := XBEE_SET_TIMEOUT_SEC 5 t\<rparr>) t
          else snd (xbee_cmd_release_request (Some i) t))"
        using assms(2) f \<open>find_request xbee f (as_table s) = Some i\<close> Some by (auto simp: xbee_cmd_handle_response_def)
      have "app_inv F t"
      proof (cases "cb = 0")
        case True
        then have "rq_context (as_table s ! i) = 0 \<and> rq_command (as_table s ! i) \<noteq> 0"
          using app_inv_nth [OF assms(1) i] Some by (simp add: app_request_def)
        then show ?thesis
          using t(1) True by (intro list_response_inv [OF assms(1), of "build_response xbee f i s" v])
            (simp_all add: build_response_def call_callback_def status_no_timeout)
      next
        case False
        then show ?thesis
          using t(1) inv_callback [OF assms(1), of "build_response xbee f i s"] by (auto simp: call_callback_def app_env_def)
      qed
      then show ?thesis
        using t(2) inv_release [of F t "Some i"] app_inv_nth [of F t i] i by (auto simp: app_request_def intro!: inv_update_request)
    qed
  qed
qed (use assms in \<open>simp add: xbee_cmd_handle_response_def\<close>)

lemma modem_status_inv:
  assumes "app_inv F s" "xbee_cmd_modem_status app_env create xbee payload s = Some (r, s')"
  shows "app_inv F s'"
  using assms query_device_inv [OF query_list_at_regs(1) assms(1)]
  by (auto simp: xbee_cmd_modem_status_def Let_def split: option.splits if_splits)

end

text \<open>The number of nested calls does not matter.\<close>

lemma app_create_inv: "app_inv F s \<Longrightarrow> xbee_cmd_create app_env n xbee command s = Some (r, s') \<Longrightarrow> app_inv F s'"
proof (induction n arbitrary: xbee command s r s')
  case (Suc n)
  show ?case
    by (rule at_invariant.create_step_inv [OF at_invariant.intro Suc.prems(1)])
      (use Suc.IH Suc.prems(2) in \<open>auto simp: create_Suc\<close>)
qed simp

interpretation app_calls: at_invariant F "xbee_cmd_create app_env n" for F n
  by unfold_locales (rule app_create_inv)

section \<open>Everything returns\<close>

definition app_good ::
    "u32 \<times> 'w console_state_scheme \<times> (nat \<Rightarrow> xbee_serial \<times> u16) \<Rightarrow> ('p, 'w console_state_scheme) at_state \<Rightarrow> bool" where
  "app_good F s \<longleftrightarrow> at_wf s \<and> all_init s \<and> app_inv F s"

lemma good_step: "app_good F s \<Longrightarrow> at_step s s' \<Longrightarrow> app_inv F s' \<Longrightarrow> app_good F s'"
  using at_step_wf at_step_all_init by (auto simp: app_good_def)

lemma good_keep: "app_good F s \<Longrightarrow> at_keep s s' \<Longrightarrow> app_inv F s' \<Longrightarrow> app_good F s'"
  by (rule good_step [OF _ at_keep_step])

abbreviation "app_calls \<equiv> xbee_cmd_create app_env 4"

lemma app_started: "at_creates (\<lambda>s. at_wf s \<and> all_init s) at_step app_calls"
  using app.started_calls [of 1] by (simp add: numeral_eq_Suc)

lemma good_query_device:
  assumes "query_list regs" "app_good F s"
  shows "\<exists>r s'. xbee_cmd_query_device app_calls regs d refresh s = Some (r, s') \<and> app_good F s'"
proof -
  obtain r s' where "xbee_cmd_query_device app_calls regs d refresh s = Some (r, s')" "at_step s s'"
    using at_creates.query_device_runs [OF app_started] assms(2) unfolding app_good_def runs_def by blast
  then show ?thesis
    using good_step [OF assms(2)] app_calls.query_device_inv [OF assms(1)] assms(2) unfolding app_good_def by blast
qed

lemma good_query_end:
  assumes "query_list regs" "app_good F s"
  shows "\<exists>s'. xbee_cmd_query_handle_end app_calls regs response has_reg d s = Some s' \<and> app_good F s'"
proof -
  obtain s' where "xbee_cmd_query_handle_end app_calls regs response has_reg d s = Some s'" "at_step s s'"
    using at_creates.query_handle_end_runs [OF app_started] assms(2) unfolding app_good_def by blast
  then show ?thesis
    using good_step [OF assms(2)] app_calls.query_handle_end_inv [OF assms(1)] assms(2) unfolding app_good_def by blast
qed

lemma good_create:
  assumes "app_good F s"
  shows "\<exists>r s'. app_calls x command s = Some (r, s') \<and> app_good F s'"
proof -
  obtain r s' where "app_calls x command s = Some (r, s')" "at_step s s'"
    using at_creates.create_runs [OF app_started] assms unfolding app_good_def runs_def by blast
  then show ?thesis using good_step [OF assms] app_create_inv assms unfolding app_good_def by blast
qed

lemma good_tick:
  assumes "app_good F s"
  shows "\<exists>n s'. xbee_cmd_tick app_env app_calls s = Some (n, s') \<and> app_good F s'"
proof -
  obtain n s' where "xbee_cmd_tick app_env app_calls s = Some (n, s')" "at_step s s'"
    using app.tick_runs [of s 2] assms unfolding app_good_def runs_def by (auto simp: numeral_eq_Suc)
  then show ?thesis using good_step [OF assms] app_calls.tick_inv assms unfolding app_good_def by blast
qed

end
