(* ===== verification/App_State.thy ===== *)
theory App_State
  imports App_Callback Gpio Rtc Xbee_Wpan Zdo_Correct Cbuf
begin

text \<open>
  The state of the application and its views.  The program has one device, \<open>xdev\<close>; its frame
  handlers work on the device, of which everything else is the part \<open>xd_world\<close>.  The AT command layer
  works on a state of its own with a table of devices; \<open>at_of\<close> and \<open>dev_of\<close> convert between the two.
\<close>

section \<open>The state\<close>

text \<open>
  The console, the pins, the receive buffer of the console's UART, the states of the endpoints
  (number 0 is \<open>zdo_ep_state\<close>, number 1 \<open>custom_ha_ep_state\<close>), whether something without a defined
  outcome has happened, and the reset to the boot loader (\<open>sys_reset\<close>), with its cause and the
  address stored for it.  What the model does after a reset has no meaning.
\<close>

datatype app_rst_cause = APP_CAUSE_FIRMWARE_UPDATE | APP_CAUSE_FIRMWARE_UPDATE_APS

record app_state = console_state +
  app_gpio :: gpio
  app_rxcb :: cbuf
  app_eps :: "nat \<Rightarrow> wpan_ep_state"
  app_fault :: bool
  app_reset :: "(app_rst_cause \<times> addr64) option"

type_synonym app_at = "(unit, app_state) at_state"
type_synonym app_dev = "app_at xbee_dev"

definition app :: "app_dev \<Rightarrow> app_state" where
  "app d = as_world (xd_world d)"

definition update_app :: "(app_state \<Rightarrow> app_state) \<Rightarrow> app_dev \<Rightarrow> app_dev" where
  "update_app f d = d\<lparr>xd_world := (xd_world d)\<lparr>as_world := f (app d)\<rparr>\<rparr>"

definition fault :: "app_dev \<Rightarrow> app_dev" where
  "fault = update_app (\<lambda>a. a\<lparr>app_fault := True\<rparr>)"

definition say :: "console_item list \<Rightarrow> app_dev \<Rightarrow> app_dev" where
  "say items = update_app (\<lambda>a. a\<lparr>cs_out := cs_out a @ items\<rparr>)"

definition set_gpio :: "gpio option \<Rightarrow> app_dev \<Rightarrow> app_dev" where
  "set_gpio g d = (case g of None \<Rightarrow> fault d | Some g \<Rightarrow> update_app (\<lambda>a. a\<lparr>app_gpio := g\<rparr>) d)"

text \<open>The two pins of \<open>xbee_config.h\<close>.\<close>

definition SENSOR :: xpin where "SENSOR = XPIN_5"
definition LED :: xpin where "LED = XPIN_24"

text \<open>\<open>gpio_get\<close>; both pins exist, so it has a value.\<close>

definition pin :: "xpin \<Rightarrow> app_dev \<Rightarrow> bool" where
  "pin p d = (gpio_get (app_gpio (app d)) p = Some True)"

lemma pin_cases: "pin_of p \<noteq> None \<Longrightarrow> gpio_get g p = Some (gpio_get g p = Some True)"
  by (auto simp: pin_of_def gpio_get_def split: option.splits)

section \<open>The AT command layer on the device\<close>

text \<open>
  The device as the AT command layer sees it: it uses neither the receiver nor the functions for
  the pins of the module.
\<close>

definition at_dev :: "app_dev \<Rightarrow> unit xbee_dev" where
  "at_dev d =
     \<lparr>xd_wpan_flags = xd_wpan_flags d, xd_network = xd_network d, xd_ieee = xd_ieee d, xd_payload = xd_payload d,
      xd_serport = xd_serport d, xd_reset = None, xd_is_awake = None,
      xd_hardware_version = xd_hardware_version d, xd_firmware_version = xd_firmware_version d, xd_flags = xd_flags d,
      xd_rx = \<lparr>rx_state = XBEE_RX_STATE_WAITSTART, rx_bytes_in_frame = 0, rx_bytes_read = 0, rx_frame_data = []\<rparr>,
      xd_frame_id = xd_frame_id d,
      xd_srx = \<lparr>rx_flags = 0, rx_bufs = (\<lambda>_. \<lparr>xc_lock = 0, xc_head = 0, xc_tail = 0, xc_mask = 0, xc_data = []\<rparr>),
                rx_rts_pin = (\<lambda>_. False), rx_rts_out = (\<lambda>_. False)\<rparr>,
      xd_stx = xd_stx d, xd_world = ()\<rparr>"

definition at_of :: "app_dev \<Rightarrow> app_at" where
  "at_of d = (xd_world d)\<lparr>as_dev := (\<lambda>_. at_dev d)\<rparr>"

definition dev_of :: "app_dev \<Rightarrow> app_at \<Rightarrow> app_dev" where
  "dev_of d s =
     (let x = as_dev s 0 in
      d\<lparr>xd_wpan_flags := xd_wpan_flags x, xd_network := xd_network x, xd_ieee := xd_ieee x, xd_payload := xd_payload x,
        xd_hardware_version := xd_hardware_version x, xd_firmware_version := xd_firmware_version x,
        xd_flags := xd_flags x, xd_frame_id := xd_frame_id x, xd_stx := xd_stx x, xd_world := s\<rparr>)"

text \<open>An operation of the AT command layer; without a defined outcome it is a fault.\<close>

definition at_run :: "(app_at \<Rightarrow> ('r \<times> app_at) option) \<Rightarrow> app_dev \<Rightarrow> 'r option \<times> app_dev" where
  "at_run f d = (case f (at_of d) of None \<Rightarrow> (None, fault d) | Some (r, s) \<Rightarrow> (Some r, dev_of d s))"

definition at_do :: "(app_at \<Rightarrow> 'r \<times> app_at) \<Rightarrow> app_dev \<Rightarrow> 'r \<times> app_dev" where
  "at_do f d = (case f (at_of d) of (r, s) \<Rightarrow> (r, dev_of d s))"

text \<open>\<open>xbee_cmd_create\<close> with the application's callback; four nested calls are enough.\<close>

definition app_create :: "(unit, app_state) at_create" where
  "app_create = xbee_cmd_create app_env 4"

section \<open>The device in the support layer\<close>

text \<open>
  \<open>xdev.wpan_dev\<close>: the fields that the support layer has in common with the device, and its table.
\<close>

definition wpan_dev_of :: "(unit, app_dev) ep_ptr option \<Rightarrow> app_dev \<Rightarrow> (unit, app_dev) wpan_dev" where
  "wpan_dev_of table d =
     \<lparr>dev_tick = None, dev_endpoint_send = Some xbee_endpoint_send, dev_endpoint_get_next = None,
      dev_ieee = xd_ieee d, dev_network = xd_network d, dev_payload = xd_payload d, dev_flags = xd_wpan_flags d,
      dev_endpoint_table = table\<rparr>"

text \<open>The state of its receiver and of the serial port stays as it is.\<close>

definition rx_keep :: "(app_dev \<Rightarrow> app_dev) \<Rightarrow> bool" where
  "rx_keep f \<longleftrightarrow> (\<forall>d. xd_serport (f d) = xd_serport d \<and>
     (\<forall>r s. f (d\<lparr>xd_rx := r, xd_srx := s\<rparr>) = (f d)\<lparr>xd_rx := r, xd_srx := s\<rparr>))"

end
