(* ===== verification/App_Clusters.thy ===== *)
theory App_Clusters
  imports App_State Zcl_Command Byte_Util
begin

text \<open>
  What the application does with a message for one of its clusters: \<open>src/lib/rx_cluster_callback.c\<close>,
  \<open>src/lib/default_cluster_callback.c\<close>, \<open>src/lib/utils.c\<close>, \<open>xbee_transparent_rx\<close> of \<open>src/main.c\<close>, and
  the server for updates over the air (\<open>pxbee/pan/xbee/xbee_ota_server.c\<close>, \<open>pxbee/pan/ota_fw_update.c\<close>).

  An item is printed for each \<open>printf\<close> and \<open>puts\<close> that prints a text or a number; \<open>hex_dump\<close>, \<open>dump\<close>
  and \<open>zcl_envelope_payload_dump\<close> print the bytes.
\<close>

definition envelope_bytes :: "wpan_envelope \<Rightarrow> u8 list" where
  "envelope_bytes e = take (unat (env_length e)) (the (env_payload e))"

section \<open>Answering a command\<close>

text \<open>
  \<open>ZCL_CMD_MATCH(&zcl.frame_control, GENERAL, CLIENT_TO_SERVER, PROFILE)\<close>, where the mask has the bits
  for manufacturer-specific commands, the direction and the type.
\<close>

definition general_profile_command :: "u8 \<Rightarrow> bool" where
  "general_profile_command frame_control \<longleftrightarrow>
     frame_control AND (ZCL_FRAME_MFG_SPECIFIC OR ZCL_FRAME_DIRECTION OR ZCL_FRAME_TYPE_MASK) = 0"

abbreviation ZCL_CMD_CONFIGURE_REPORT :: u8 where "ZCL_CMD_CONFIGURE_REPORT \<equiv> 0x06"
abbreviation ZCL_CMD_CONFIGURE_REPORT_RESP :: u8 where "ZCL_CMD_CONFIGURE_REPORT_RESP \<equiv> 0x07"
abbreviation ZCL_DIRECTION_SEND :: u8 where "ZCL_DIRECTION_SEND \<equiv> 0x00"

text \<open>The response is sent, and its length and its success are printed.\<close>

definition answer :: "app_dev zcl_command \<Rightarrow> u8 list \<Rightarrow> app_dev \<Rightarrow> app_dev" where
  "answer zcl response d =
     (let d = say [PrintNumber ''Response length: '' (int (length response))] d;
          (r, d) = zcl_send_response (\<lambda>_. wpan_dev_of None d) (Some zcl) response d
      in if r = Inr 0 then say [PrintLine ''Response sent successfully''] d else d)"

definition command_items :: "app_dev zcl_command \<Rightarrow> console_item list" where
  "command_items zcl =
     [PrintLine ''OK!'', PrintLine ''----------------------'',
      PrintNumber ''Frame Control: '' (uint (cmd_frame_control zcl)), PrintNumber ''Command: '' (uint (cmd_command zcl)),
      PrintNumber ''ZCL Payload length: '' (cmd_length zcl), PrintBytes (take (nat (cmd_length zcl)) (cmd_zcl_payload zcl))]"

section \<open>The sensor's cluster\<close>

definition rx_cluster_callback :: "wpan_envelope \<Rightarrow> unit \<Rightarrow> app_dev \<Rightarrow> rc \<times> app_dev" where
  "rx_cluster_callback envelope ctx d =
     (let d = say [PrintLine ''CUSTOM ENDPOINT HANDLER'', PrintLine ''=======================''] d;
          d = say [PrintLine ''Building ZCL Command based on received envelope: ''] d in
      case zcl_command_build (Some envelope) None of
        Inl _ \<Rightarrow> (Inr 0, say [PrintLine ''Error!''] d)
      | Inr zcl \<Rightarrow>
          let d = say (command_items zcl @ [PrintLine ''----------------------'', PrintBytes (envelope_bytes envelope)]) d in
          (Inr 0,
           if general_profile_command (cmd_frame_control zcl) then
             if cmd_command zcl = ZCL_CMD_READ_ATTRIB then
               let d = say [PrintLine ''Handling response for switch state read''] d in
               answer zcl (response_start zcl ZCL_CMD_READ_ATTRIB_RESP @
                 [0x00, 0x00, ZCL_STATUS_SUCCESS, ZCL_TYPE_LOGICAL_BOOLEAN, if pin SENSOR d then 0x01 else 0x00]) d
             else if cmd_command zcl = ZCL_CMD_CONFIGURE_REPORT then
               let d = say [PrintLine ''Handling response for configure report command''] d in
               answer zcl (response_start zcl ZCL_CMD_CONFIGURE_REPORT_RESP @
                 [ZCL_STATUS_SUCCESS, ZCL_DIRECTION_SEND, 0x00, 0x00]) d
             else say [PrintLine ''Unhandled Profile command received''] d
           else d))"

section \<open>The other clusters of the custom endpoint\<close>

definition c_bytes :: "string \<Rightarrow> u8 list" where
  "c_bytes s = map of_char s"

definition ZCL_MANUFACTURER :: "u8 list" where "ZCL_MANUFACTURER = c_bytes ''Root''"
definition ZCL_MODEL :: "u8 list" where "ZCL_MODEL = c_bytes ''Occupied''"

text \<open>
  The callback hands its context to \<open>zcl_command_build\<close> as the tree of attributes, but the context of
  an endpoint's handler is the state of the endpoint.  The manufacturer of the first branch is then the
  last transaction and the identifier of the first conversation; while both are 0 the walk ends there.
  A walk behind the state is a fault.  The attributes found are not used.
\<close>

definition state_as_branch :: "wpan_ep_state \<Rightarrow> app_dev zcl_attribute_tree" where
  "state_as_branch st =
     \<lparr>tr_manufacturer_id = be16 (es_last_transaction st) (cv_transaction_id (es_conversations st ! 0)),
      tr_server = None, tr_client = None\<rparr>"

definition tree_left :: "app_dev zcl_attribute_tree \<Rightarrow> app_dev zcl_command \<Rightarrow> bool" where
  "tree_left branch zcl \<longleftrightarrow> tr_manufacturer_id branch \<noteq> cmd_mfg_code zcl \<and> tr_manufacturer_id branch \<noteq> ZCL_MFG_NONE"

text \<open>What is printed about an envelope; the end of the text is written behind the payload, where the frame has its checksum.\<close>

definition envelope_items :: "wpan_envelope \<Rightarrow> console_item list" where
  "envelope_items envelope =
     (let payload = envelope_bytes envelope;
          number = (\<lambda>text n. PrintNumber text (uint n)) in
      [PrintLine ''CUSTOM ENDPOINT'', PrintLine ''Received  : '', PrintText (takeWhile (\<lambda>c. c \<noteq> 0) payload)]
      @ (if payload \<noteq> [] then [PrintLine ''Payload in Hex: '', PrintBytes payload] else [])
      @ [number ''Payload length: '' (env_length envelope), number ''Cluster ID:     '' (env_cluster_id envelope),
         number ''Profile ID:     '' (env_profile_id envelope),
         PrintNumber ''Destin. EP:     '' (uint (env_dest_endpoint envelope)),
         PrintNumber ''Source  EP:     '' (uint (env_source_endpoint envelope)), PrintBytes payload,
         PrintLine ''Building ZCL Command based on received envelope: ''])"

text \<open>The answers about the version, the manufacturer and the model.\<close>

definition answer_basic :: "app_dev zcl_command \<Rightarrow> app_dev \<Rightarrow> app_dev" where
  "answer_basic zcl d =
     (let p = cmd_zcl_payload zcl;
          start = response_start zcl ZCL_CMD_READ_ATTRIB_RESP in
      if general_profile_command (cmd_frame_control zcl) \<and> cmd_command zcl = ZCL_CMD_READ_ATTRIB \<and> cmd_length zcl = 2
      then
        if p ! 0 = 0x01 \<and> p ! 1 = 0x00 then
          answer zcl (start @ [0x01, 0x00, ZCL_STATUS_SUCCESS, 0x20, 0x00])
            (say [PrintLine ''Handling response for Application version request''] d)
        else if p ! 0 = 0x04 \<and> p ! 1 = 0x00 then
          answer zcl (start @ [0x04, 0x00, ZCL_STATUS_SUCCESS, 0x42] @ appendStringChar (ZCL_MANUFACTURER @ [0]))
            (say [PrintLine ''Handling response for Device manufacturer request'',
                  PrintLine ''Manufacturer:'', PrintText ZCL_MANUFACTURER] d)
        else if p ! 0 = 0x05 \<and> p ! 1 = 0x00 then
          answer zcl (start @ [0x05, 0x00, ZCL_STATUS_SUCCESS, 0x42] @ appendStringChar (ZCL_MODEL @ [0]))
            (say [PrintLine ''Handling response for Device model request'',
                  PrintLine ''Model:'', PrintText ZCL_MODEL] d)
        else d
      else d)"

definition default_cluster_callback :: "wpan_envelope \<Rightarrow> nat option \<Rightarrow> app_dev \<Rightarrow> rc \<times> app_dev" where
  "default_cluster_callback envelope state d =
     (let d = say (envelope_items envelope) d;
          branch = map_option (\<lambda>n. state_as_branch (app_eps (app d) n)) state;
          d = (case zcl_command_build (Some envelope) (map_option (\<lambda>b. [b]) branch) of
             Inl _ \<Rightarrow> say [PrintLine ''Error!''] d
           | Inr zcl \<Rightarrow>
               let d = (case branch of Some b \<Rightarrow> if tree_left b zcl then fault d else d | None \<Rightarrow> d)
               in answer_basic zcl (say (command_items zcl) d))
      in (Inr 0, say [PrintLine ''============''] d))"

section \<open>Serial data\<close>

definition xbee_transparent_rx :: "wpan_envelope \<Rightarrow> unit \<Rightarrow> app_dev \<Rightarrow> rc \<times> app_dev" where
  "xbee_transparent_rx envelope ctx d =
     (Inr 0, say
       [PrintLine ''Received Simple Frame'', PrintLine ''---------------------'',
        PrintLine ''Source     : '', PrintBytes (env_ieee_address envelope),
        PrintNumber ''Network    : '' (uint (env_network_address envelope)),
        PrintNumber ''Data length: '' (uint (env_length envelope)),
        PrintBytes (envelope_bytes envelope), PrintLine ''''] d)"

section \<open>Updates over the air\<close>

text \<open>
  \<open>TRIGGER_FW_UPDATE\<close> is not configured: its default is one zero byte.  \<open>start_ota_fw_update\<close> makes
  the module store its settings, keeps the host's address and resets the processor.
\<close>

definition TRIGGER_FW_UPDATE :: "u8 list" where "TRIGGER_FW_UPDATE = [0]"

definition start_ota_fw_update :: "addr64 \<Rightarrow> app_rst_cause \<Rightarrow> app_dev \<Rightarrow> app_dev" where
  "start_ota_fw_update host_address reason d =
     (let (r, d) = at_do (xbee_cmd_simple (Some 0) (at_cmd CHR ''W'' CHR ''R'') 1) d
      in update_app (\<lambda>a. a\<lparr>app_reset := Some (reason, host_address)\<rparr>) d)"

definition xbee_update_firmware_ota :: "wpan_envelope \<Rightarrow> app_dev \<Rightarrow> string option \<times> app_dev" where
  "xbee_update_firmware_ota envelope d =
     (if unat (env_length envelope) \<noteq> length TRIGGER_FW_UPDATE
         \<or> take (length TRIGGER_FW_UPDATE) (the (env_payload envelope)) \<noteq> TRIGGER_FW_UPDATE
      then (Some ''bad password'', say [PrintLine ''bad password''] d)
      else
        let d = say [PrintLine ''Password correct. Starting OTA update with XMODEM'',
                     PrintLine ''Host address: '', PrintBytes (env_ieee_address envelope),
                     PrintLine ''Host may start transfer when receiving C''] d;
            reason = (if env_options envelope AND WPAN_ENVELOPE_RX_APS_ENCRYPT \<noteq> 0
                      then APP_CAUSE_FIRMWARE_UPDATE_APS else APP_CAUSE_FIRMWARE_UPDATE)
        in (None, start_ota_fw_update (env_ieee_address envelope) reason d))"

text \<open>The handler of the cluster, for an envelope that is not null, as the dispatcher calls it.\<close>

definition xbee_ota_server_cmd :: "wpan_envelope \<Rightarrow> unit \<Rightarrow> app_dev \<Rightarrow> rc \<times> app_dev" where
  "xbee_ota_server_cmd envelope ctx d =
     (let options = env_options envelope AND (WPAN_ENVELOPE_RX_APS_ENCRYPT OR ucast WPAN_CLUST_FLAG_ENCRYPT);
          (err, d) = (if options = ucast WPAN_CLUST_FLAG_ENCRYPT then (Some ''encryption required'', d)
                      else xbee_update_firmware_ota envelope d)
      in case err of
           None \<Rightarrow> (Inr 0, d)
         | Some text \<Rightarrow>
             (Inr 0, snd (wpan_envelope_send (\<lambda>_. wpan_dev_of None d)
               (Some ((wpan_envelope_reply envelope)
                  \<lparr>env_payload := Some (c_bytes text), env_length := of_nat (length text)\<rparr>)) d)))"

end
