(* ===== verification/App_System.thy ===== *)
theory App_System
  imports App_Clusters Zcl_Replies
begin

text \<open>
  How the application is put together: its tables of clusters, endpoints and frame handlers
  (\<open>src/main.c\<close>, \<open>src/headers/config.h\<close>, \<open>pxbee/pan/endpoints.c\<close>, \<open>pxbee/pan/pan_init.c\<close>), the start of
  the network and the tick of the main loop (\<open>pxbee/pan/pan_init.c\<close>).

  The configuration is that of \<open>src/headers/xbee_config.h\<close>: no handlers of its own for modem status,
  transmit status and node identification frames.
\<close>

section \<open>Endpoints and clusters\<close>

definition cluster_entry ::
    "u16 \<Rightarrow> (wpan_envelope \<Rightarrow> unit \<Rightarrow> app_dev \<Rightarrow> rc \<times> app_dev) option \<Rightarrow> u8 \<Rightarrow> (unit, app_dev) wpan_cluster_table_entry" where
  "cluster_entry c h flags = \<lparr>ct_cluster_id = c, ct_handler = h, ct_context = (), ct_flags = flags\<rparr>"

definition custom_ep_clusters :: "(unit, app_dev) wpan_cluster_table_entry list" where
  "custom_ep_clusters =
     [cluster_entry 0x0000 None WPAN_CLUST_FLAG_INPUT,
      cluster_entry 0x0006 (Some rx_cluster_callback) WPAN_CLUST_FLAG_INPUT,
      cluster_entry WPAN_CLUSTER_END_OF_LIST None 0]"

definition digi_data_clusters :: "(unit, app_dev) wpan_cluster_table_entry list" where
  "digi_data_clusters =
     [cluster_entry 0x0011 (Some xbee_transparent_rx) (WPAN_CLUST_FLAG_INOUT OR WPAN_CLUST_FLAG_NOT_ZCL),
      cluster_entry 0x0000 None 0,
      cluster_entry 0x1000 (Some xbee_ota_server_cmd) (WPAN_CLUST_FLAG_INPUT OR WPAN_CLUST_FLAG_NOT_ZCL),
      cluster_entry 0x0000 None 0,
      cluster_entry WPAN_CLUSTER_END_OF_LIST None 0]"

text \<open>
  The table of endpoints with the handler of its ZDO endpoint.  That handler walks through the table
  itself, for the numbers and clusters of its endpoints only.
\<close>

definition CUSTOM_ENDPOINT :: u8 where "CUSTOM_ENDPOINT = 0xEA"
definition CUSTOM_EP_PROFILE :: u16 where "CUSTOM_EP_PROFILE = 0x0104"

definition endpoints_with ::
    "(wpan_envelope \<Rightarrow> nat option \<Rightarrow> app_dev \<Rightarrow> rc \<times> app_dev) option \<Rightarrow> (unit, app_dev) wpan_endpoint_table_entry list" where
  "endpoints_with zdo =
     [\<lparr>ep_endpoint = 0xE8, ep_profile_id = 0xC105, ep_handler = None, ep_state = None,
       ep_device_id = 0, ep_device_version = 0, ep_cluster_table = Some digi_data_clusters\<rparr>,
      \<lparr>ep_endpoint = CUSTOM_ENDPOINT, ep_profile_id = CUSTOM_EP_PROFILE, ep_handler = Some default_cluster_callback,
       ep_state = Some 1, ep_device_id = 2, ep_device_version = 0, ep_cluster_table = Some custom_ep_clusters\<rparr>,
      \<lparr>ep_endpoint = WPAN_ENDPOINT_ZDO, ep_profile_id = WPAN_PROFILE_ZDO, ep_handler = zdo, ep_state = Some 0,
       ep_device_id = 0, ep_device_version = 0, ep_cluster_table = None\<rparr>,
      \<lparr>ep_endpoint = WPAN_ENDPOINT_END_OF_LIST, ep_profile_id = 0, ep_handler = None, ep_state = None,
       ep_device_id = 0, ep_device_version = 0, ep_cluster_table = None\<rparr>]"

text \<open>The application starts no conversations, so there is no handler for one.\<close>

definition no_respond :: "app_dev respond" where
  "no_respond h conversation envelope d = (Inr 0, conversation, fault d)"

definition set_eps :: "(nat \<Rightarrow> wpan_ep_state) \<Rightarrow> app_dev \<Rightarrow> app_dev" where
  "set_eps states = update_app (\<lambda>a. a\<lparr>app_eps := states\<rparr>)"

definition zdo_endpoint_handler :: "wpan_envelope \<Rightarrow> nat option \<Rightarrow> app_dev \<Rightarrow> rc \<times> app_dev" where
  "zdo_endpoint_handler envelope state d =
     (case zdo_handler no_respond (\<lambda>_. wpan_dev_of (Some (endpoints_with None)) d) (app_eps (app d)) (Some envelope) state d of
        None \<Rightarrow> (Inr 0, fault d)
      | Some (r, states, d) \<Rightarrow> (r, set_eps states d))"

definition endpoints_table :: "(unit, app_dev) wpan_endpoint_table_entry list" where
  "endpoints_table = endpoints_with (Some zdo_endpoint_handler)"

section \<open>Frame handlers\<close>

text \<open>What handlers return is not looked at; an error is a negative number.\<close>

definition handler_result :: "rc \<Rightarrow> int" where
  "handler_result r = (case r of Inl _ \<Rightarrow> -1 | Inr n \<Rightarrow> n)"

definition run_result :: "rc option \<times> app_dev \<Rightarrow> int \<times> app_dev" where
  "run_result = (\<lambda>(r, d). (case r of None \<Rightarrow> 0 | Some r \<Rightarrow> handler_result r, d))"

definition handle_at_response :: "app_dev \<Rightarrow> u8 list \<Rightarrow> u16 \<Rightarrow> int \<times> app_dev" where
  "handle_at_response d frame len =
     run_result (at_run (xbee_cmd_handle_response app_env app_create 0 (Some frame) len) d)"

definition handle_modem_status :: "app_dev \<Rightarrow> u8 list \<Rightarrow> u16 \<Rightarrow> int \<times> app_dev" where
  "handle_modem_status d frame len =
     run_result (at_run (xbee_cmd_modem_status app_env app_create 0 (Some frame)) d)"

definition invalid_cluster :: "wpan_envelope \<Rightarrow> app_dev \<Rightarrow> rc \<times> app_dev" where
  "invalid_cluster envelope d = zcl_invalid_cluster (\<lambda>_. wpan_dev_of None d) (Some envelope) d"

definition handle_receive_explicit :: "app_dev \<Rightarrow> u8 list \<Rightarrow> u16 \<Rightarrow> int \<times> app_dev" where
  "handle_receive_explicit d frame len =
     (case xbee_handle_receive_explicit invalid_cluster (\<lambda>_. wpan_dev_of (Some endpoints_table) d) 0 d (Some frame) len of
        None \<Rightarrow> (0, fault d)
      | Some (r, d) \<Rightarrow> (handler_result r, d))"

text \<open>\<open>xbee_frame_handlers\<close>: \<open>XBEE_FRAME_HANDLE_LOCAL_AT\<close> is two entries.\<close>

definition xbee_frame_handlers :: "app_at xbee_dispatch_table_entry list" where
  "xbee_frame_handlers =
     [\<lparr>de_frame_type = XBEE_FRAME_LOCAL_AT_RESPONSE, de_frame_id = 0, de_handler = handle_at_response\<rparr>,
      \<lparr>de_frame_type = XBEE_FRAME_MODEM_STATUS, de_frame_id = 0, de_handler = handle_modem_status\<rparr>,
      \<lparr>de_frame_type = XBEE_FRAME_REMOTE_AT_RESPONSE, de_frame_id = 0, de_handler = handle_at_response\<rparr>,
      \<lparr>de_frame_type = XBEE_FRAME_RECEIVE_EXPLICIT, de_frame_id = 0, de_handler = handle_receive_explicit\<rparr>,
      \<lparr>de_frame_type = 0xFF, de_frame_id = 0, de_handler = (\<lambda>d _ _. (0, d))\<rparr>]"

section \<open>The tick\<close>

text \<open>
  \<open>wpan_tick\<close> for the application: the tick of the device, then the expiry of the conversations in the
  states of the endpoints, which the tick may have changed.
\<close>

definition app_wpan_tick :: "app_dev \<Rightarrow> rc \<times> app_dev" where
  "app_wpan_tick d =
     (let (retval, d) = xbee_wpan_tick xbee_frame_handlers d in
      case tick_walk no_respond (as_seconds (xd_world d)) (Some (wpan_dev_of (Some endpoints_table) d)) None (app_eps (app d)) d of
        None \<Rightarrow> (retval, fault d)
      | Some (states, d) \<Rightarrow> (retval, set_eps states d))"

definition sys_xbee_tick :: "app_dev \<Rightarrow> rc \<times> app_dev" where
  "sys_xbee_tick d = app_wpan_tick (snd (at_run (xbee_cmd_tick app_env app_create) d))"

section \<open>The start\<close>

definition xbee_params_init :: "app_dev \<Rightarrow> app_dev" where
  "xbee_params_init d =
     (let d = snd (at_do (xbee_cmd_execute (Some 0) (at_cmd CHR ''N'' CHR ''I'') (Some (c_bytes ''OCCUPIED'')) 8) d);
          d = snd (at_do (xbee_cmd_simple (Some 0) (at_cmd CHR ''S'' CHR ''C'') 0x7FFF) d)
      in snd (at_do (xbee_cmd_simple (Some 0) (at_cmd CHR ''A'' CHR ''O'') 3) d))"

text \<open>
  The loop of \<open>sys_xbee_init\<close> that waits for the answers to the query.  Between two turns the
  surroundings change the state: bytes arrive and time passes.
\<close>

definition query_status :: "app_dev \<Rightarrow> (errno + xbee_command_list_status) option \<times> app_dev" where
  "query_status = at_run (xbee_cmd_query_status app_env app_create (Some 0))"

fun init_loop :: "(app_dev \<Rightarrow> app_dev) list \<Rightarrow> app_dev \<Rightarrow> (xbee_command_list_status option \<times> app_dev) option" where
  "init_loop [] d = None"
| "init_loop (outside # turns) d =
     (let d = snd (xbee_wpan_tick xbee_frame_handlers (outside d)) in
      case query_status d of
        (Some (Inr st), d) \<Rightarrow> if st = XBEE_COMMAND_LIST_RUNNING then init_loop turns d else Some (Some st, d)
      | (_, d) \<Rightarrow> Some (None, d))"

text \<open>
  The pointers that \<open>xbee_wpan_init\<close> stores, the tick, \<open>endpoint_send\<close> and the table of endpoints, are
  those that \<open>app_wpan_tick\<close> and \<open>wpan_dev_of\<close> give the device; its error ends the start.
\<close>

definition sys_xbee_init ::
    "(app_dev \<Rightarrow> app_dev) list \<Rightarrow> app_dev \<Rightarrow> ((errno + xbee_command_list_status option) \<times> app_dev) option" where
  "sys_xbee_init turns d =
     (let d = xbee_params_init d in
      case fst (xbee_wpan_init xbee_frame_handlers (Some (wpan_dev_of None d)) (Some endpoints_table)) of
        Inl e \<Rightarrow> Some (Inl e, d)
      | Inr _ \<Rightarrow>
          let d = snd (at_run (xbee_cmd_init_device app_env app_create (Some 0)) d)
          in map_option (\<lambda>(status, d). (Inr status, d)) (init_loop turns d))"

end
