(* ===== verification/App_Main.thy ===== *)
theory App_Main
  imports App_System
begin

text \<open>
  The program: the task of the real-time clock, the menu on the console and the main loop
  (\<open>src/main.c\<close>, \<open>src/lib/read_console_commands.c\<close>), the receiver of the console's UART
  (\<open>pxbee/drivers/serial/uart.c\<close>), and the steps of the whole system: an iteration of the main loop,
  an interrupt of the clock, a byte on one of the two serial lines, a change of the sensor.  A step
  is not interrupted by another.
\<close>

section \<open>The periodic task\<close>

definition CUSTOM_SENSOR_CLUSTER :: u16 where "CUSTOM_SENSOR_CLUSTER = 0x0006"

definition sensor_report :: "bool \<Rightarrow> wpan_envelope" where
  "sensor_report v =
     (wpan_envelope_create (Some 0) WPAN_IEEE_ADDR_ALL_ZEROS WPAN_NET_ADDR_UNDEFINED)
     \<lparr>env_payload := Some [0x00, 0x00, ZCL_STATUS_SUCCESS, ZCL_TYPE_LOGICAL_BOOLEAN, if v then 0x01 else 0x00],
      env_options := 0, env_dest_endpoint := 0x01, env_source_endpoint := CUSTOM_ENDPOINT,
      env_profile_id := CUSTOM_EP_PROFILE, env_cluster_id := CUSTOM_SENSOR_CLUSTER, env_length := 5\<rparr>"

definition rtc_periodic_task :: "app_dev \<Rightarrow> app_dev" where
  "rtc_periodic_task d =
     (if pin LED d = pin SENSOR d then
        let d = set_gpio (gpio_set (app_gpio (app d)) LED (\<not> pin SENSOR d)) d
        in snd (wpan_envelope_send (\<lambda>_. wpan_dev_of (Some endpoints_table) d) (Some (sensor_report (pin SENSOR d))) d)
      else d)"

section \<open>The console's receiver\<close>

definition uart_bytes_in_rx_buffer :: "app_dev \<Rightarrow> u8" where
  "uart_bytes_in_rx_buffer d = cbuf_data_in_buf (app_rxcb (app d))"

fun uart_read_loop :: "nat \<Rightarrow> cbuf \<Rightarrow> u8 list \<Rightarrow> u8 list \<times> cbuf" where
  "uart_read_loop 0 cb buf = (buf, cb)"
| "uart_read_loop (Suc n) cb buf = (let (c, cb) = cbuf_get_nocheck cb in uart_read_loop n cb (buf @ [c]))"

definition uart_read :: "nat \<Rightarrow> app_dev \<Rightarrow> u8 list \<times> app_dev" where
  "uart_read len d =
     (let available = min (unat (cbuf_data_in_buf (app_rxcb (app d)))) len;
          (buf, cb) = uart_read_loop available (app_rxcb (app d)) []
      in (buf, update_app (\<lambda>a. a\<lparr>app_rxcb := cb\<rparr>) d))"

text \<open>The errors of \<open>SCI1S1\<close>: parity, framing, noise and overrun.\<close>

definition UART_STAT_ERROR_MASK :: u8 where "UART_STAT_ERROR_MASK = 0x0F"

definition uart_isr :: "u8 \<Rightarrow> u8 \<Rightarrow> app_dev \<Rightarrow> app_dev" where
  "uart_isr status rdata d =
     (if status AND UART_STAT_ERROR_MASK \<noteq> 0 then d
      else update_app (\<lambda>a. a\<lparr>app_rxcb := cbuf_append (app_rxcb a) rdata\<rparr>) d)"

section \<open>The menu\<close>

text \<open>The number of \<open>xbee_cmd_callback\<close> among the callbacks.\<close>

abbreviation (input) APP_CALLBACK :: nat where "APP_CALLBACK \<equiv> 1"

definition request_command :: "string \<Rightarrow> u16 \<Rightarrow> app_dev \<Rightarrow> app_dev" where
  "request_command text command d =
     (let d = say [PrintLine text] d;
          (request, d) = at_run (app_create (Some 0) (Some command)) d in
      case request of
        None \<Rightarrow> d
      | Some (Inl e) \<Rightarrow> say [PrintLine ''Error creating request''] d
      | Some (Inr handle) \<Rightarrow>
          let d = snd (at_do (xbee_cmd_set_callback handle (Some APP_CALLBACK) 0) d)
          in snd (at_do (xbee_cmd_send handle) d))"

definition set_radio :: "string \<Rightarrow> u16 \<Rightarrow> u32 \<Rightarrow> app_dev \<Rightarrow> app_dev" where
  "set_radio text command v d = snd (at_do (xbee_cmd_simple (Some 0) command v) (say [PrintLine text] d))"

definition XBEE_PARAM_KY :: "u8 list" where
  "XBEE_PARAM_KY = c_bytes ''5A6967426565416C6C69616E63653039''"

definition set_radio_settings :: "app_dev \<Rightarrow> app_dev" where
  "set_radio_settings d =
     (let d = set_radio ''Setting additional radio settings: ZS '' (at_cmd CHR ''Z'' CHR ''S'') 2 d;
          d = set_radio ''NJ '' (at_cmd CHR ''N'' CHR ''J'') 0x5A d;
          d = set_radio ''NH '' (at_cmd CHR ''N'' CHR ''H'') 0x1E d;
          d = set_radio ''NO '' (at_cmd CHR ''N'' CHR ''O'') 3 d;
          d = set_radio ''EE '' (at_cmd CHR ''E'' CHR ''E'') 1 d;
          d = set_radio ''EO '' (at_cmd CHR ''E'' CHR ''O'') 1 d;
          d = set_radio ''AP '' (at_cmd CHR ''A'' CHR ''P'') 1 d;
          d = snd (at_do (xbee_cmd_execute (Some 0) (at_cmd CHR ''K'' CHR ''Y'') (Some XBEE_PARAM_KY) 32) (say [PrintLine ''KY ''] d));
          d = snd (at_do (xbee_cmd_execute (Some 0) (at_cmd CHR ''W'' CHR ''R'') None 0) (say [PrintLine ''WR ''] d))
      in say [PrintLine ''Done!''] d)"

text \<open>\<open>sys_app_banner\<close>.\<close>

definition node_type_text :: "u32 \<Rightarrow> string" where
  "node_type_text version =
     (let t = version AND 0x0F00 in
      if t = 0x0100 then '' (coordinator)''
      else if t = 0x0300 then '' (router)''
      else if t = 0x0900 then '' (end-device)''
      else '''')"

definition sys_app_banner :: "app_dev \<Rightarrow> app_dev" where
  "sys_app_banner d = say
     [PrintLine ''---------------------------------------------'',
      PrintLine ''  o Application: Occupied v0.0.1'', PrintLine ''  o XBee module: S2C 32kB flash'',
      PrintLine ''  o HW address : '', PrintText (butlast (addr64_format (xd_ieee d))),
      PrintHex 1 (ucast (xd_hardware_version d)), PrintHex 1 (xd_firmware_version d),
      PrintLine (node_type_text (xd_firmware_version d)),
      PrintLine ''---------------------------------------------''] d"

definition read_console_commands :: "app_dev \<Rightarrow> app_dev" where
  "read_console_commands d =
     (if uart_bytes_in_rx_buffer d > 0 then
        let (buf, d) = uart_read 1 d;
            option = buf ! 0;
            d = say [PrintNumber ''Got option: '' (uint option)] d;
            d = (if option = 49 then request_command ''Requesting Operating PAN ID (OP)'' (at_cmd CHR ''O'' CHR ''P'') d
                 else if option = 50 then request_command ''Requesting Operating 16-BIT PAN (OI)'' (at_cmd CHR ''O'' CHR ''I'') d
                 else if option = 51 then request_command ''Requesting Operating PAN ID (MY)'' (at_cmd CHR ''M'' CHR ''Y'') d
                 else if option = 115 then set_radio_settings d
                 else if option = 114 then
                   set_radio ''Resetting Network'' (at_cmd CHR ''N'' CHR ''R'') 0 d
                 else if option = 98 then sys_app_banner d
                 else if option = 104 \<or> option = 72 then d
                 else if option = 13 then
                   say [PrintLine ''|              H E L P              |'',
                        PrintLine ''[1] - Print Operating PAN ID'', PrintLine ''[2] - Print Operating PAN (16-BIT) ID'',
                        PrintLine ''[3] - Print PAN Network Address'', PrintLine ''[s] - Set additional radio settings'',
                        PrintLine ''[b] - Print Banner'', PrintLine ''[r] - Local network reset''] d
                 else d)
        in say [PrintLine ''> ''] d
      else d)"

section \<open>The steps of the system\<close>

record sys =
  sy_rtc :: rtc
  sy_dev :: app_dev

datatype event = MainLoop | Clock | RadioByte u8 | ConsoleByte u8 u8 | SensorLevel bool

text \<open>One iteration of the loop in \<open>main\<close>.\<close>

definition main_loop :: "app_dev \<Rightarrow> app_dev" where
  "main_loop d = snd (sys_xbee_tick (read_console_commands d))"

text \<open>The interrupt of the clock; \<open>xbee_seconds_timer\<close> is its counter \<open>uptime\<close>.\<close>

definition clock_interrupt :: "sys \<Rightarrow> sys" where
  "clock_interrupt s =
     (case rtc_isr (\<lambda>d. Some (rtc_periodic_task d)) (sy_rtc s, sy_dev s) of
        None \<Rightarrow> s
      | Some (r, d) \<Rightarrow>
          \<lparr>sy_rtc = r, sy_dev = d\<lparr>xd_world := (xd_world d)\<lparr>as_seconds := rtc_get_uptime r\<rparr>\<rparr>\<rparr>)"

definition set_sensor :: "bool \<Rightarrow> app_dev \<Rightarrow> app_dev" where
  "set_sensor v = update_app (\<lambda>a. a\<lparr>app_gpio :=
     (app_gpio a)(GB := (app_gpio a GB)\<lparr>pt_level := modify_bit (pt_level (app_gpio a GB)) (xpin_get_portbit_mask SENSOR) v\<rparr>)\<rparr>)"

fun step :: "event \<Rightarrow> sys \<Rightarrow> sys" where
  "step MainLoop s = s\<lparr>sy_dev := main_loop (sy_dev s)\<rparr>"
| "step Clock s = clock_interrupt s"
| "step (RadioByte b) s =
     s\<lparr>sy_dev := (sy_dev s)\<lparr>xd_srx := radio_uart_isr (xd_serport (sy_dev s)) b (xd_srx (sy_dev s))\<rparr>\<rparr>"
| "step (ConsoleByte status b) s = s\<lparr>sy_dev := uart_isr status b (sy_dev s)\<rparr>"
| "step (SensorLevel v) s = s\<lparr>sy_dev := set_sensor v (sy_dev s)\<rparr>"

definition main_start :: "app_dev \<Rightarrow> app_dev" where
  "main_start d =
     (let d = say [PrintLine ''> ''] (sys_app_banner d)
      in set_gpio (gpio_set (app_gpio (app d)) LED (\<not> pin SENSOR d)) d)"

text \<open>The states the system reaches from one in which the loop of \<open>main\<close> starts.\<close>

inductive reachable :: "sys \<Rightarrow> sys \<Rightarrow> bool" for s where
  start: "reachable s s"
| step: "reachable s t \<Longrightarrow> reachable s (step e t)"

end
