(* ===== verification/App_Keep.thy ===== *)
theory App_Keep
  imports App_Main
begin

text \<open>
  What the functions of the application do to the device: the lemmas its properties share.
\<close>

section \<open>The parts of the device\<close>

lemma say_fields [simp]:
  "xd_serport (say is d) = xd_serport d" "xd_flags (say is d) = xd_flags d" "xd_stx (say is d) = xd_stx d"
  "xd_frame_id (say is d) = xd_frame_id d" "xd_ieee (say is d) = xd_ieee d" "xd_network (say is d) = xd_network d"
  "xd_rx (say is d) = xd_rx d" "xd_srx (say is d) = xd_srx d"
  "app_gpio (app (say is d)) = app_gpio (app d)" "app_eps (app (say is d)) = app_eps (app d)"
  "app_fault (app (say is d)) = app_fault (app d)" "app_reset (app (say is d)) = app_reset (app d)"
  "app_rxcb (app (say is d)) = app_rxcb (app d)"
  by (simp_all add: say_def update_app_def app_def)

lemma say_say [simp]: "say is (say js d) = say (js @ is) d"
  by (simp add: say_def update_app_def app_def)

lemma say_wire [simp]: "device_wire (say is d) = device_wire d" "pin p (say is d) = pin p d"
  by (simp_all add: device_wire_def pin_def)

text \<open>
  The device can send: its port exists, and flow control is left to the serial driver, as
  \<open>sys_hw_init\<close> configures it.
\<close>

definition app_ready :: "app_dev \<Rightarrow> bool" where
  "app_ready d \<longleftrightarrow> \<not> xbee_ser_invalid (Some (xd_serport d)) \<and> xd_flags d AND XBEE_DEV_FLAG_USE_FLOWCONTROL = 0"

lemma say_ready [simp]: "app_ready (say is d) = app_ready d"
  by (simp add: app_ready_def)

definition next_id :: "app_dev \<Rightarrow> u8" where
  "next_id d = fst (xbee_next_frame_id (Some d))"

lemma next_id_eq: "next_id d = (if xd_frame_id d + 1 = 0 then 1 else xd_frame_id d + 1)"
  by (simp add: next_id_def xbee_next_frame_id_def Let_def)

lemma say_next_id [simp]: "next_id (say is d) = next_id d"
  by (simp add: next_id_eq)

section \<open>Sending\<close>

lemma frame_write_ready:
  assumes "\<not> xbee_ser_invalid (Some (xd_serport d))" "xd_flags d AND XBEE_DEV_FLAG_USE_FLOWCONTROL = 0"
    and "0 < headerlen" "unat headerlen + unat datalen < 500"
  shows "fst (xbee_frame_write (Some d) (Some header) headerlen (Some data) datalen flags) = Inr 0"
proof -
  have "unat headerlen + unat datalen + 4 < 2 ^ 15" using assms(4) by simp
  then have "unat (headerlen + datalen + 3 + 1) = unat headerlen + unat datalen + 4"
    by (simp add: unat_word_ariths add.assoc)
  then have "sint (headerlen + datalen + 3 + 1) = int (unat headerlen + unat datalen + 4)"
    using assms(4) by (subst sint_small_u16) simp_all
  moreover have "uint headerlen + uint datalen < 500" unfolding uint_nat using assms(4) by linarith
  ultimately show ?thesis
    using assms(1-3) uint_ge_0 [of headerlen] uint_ge_0 [of datalen]
    by (auto simp: xbee_frame_write_def Let_def xbee_ser_tx_free_def)
qed

lemma endpoint_send_ready:
  assumes "app_ready d" "length (env_ieee_address e) = 8" "env_payload e = Some payload"
    and "env_length e = of_nat (length payload)" "length payload \<le> 235"
  obtains tx where "xbee_endpoint_send e flags d = (Inr 0, d\<lparr>xd_frame_id := next_id d, xd_stx := tx\<rparr>)"
    "tx_sent tx (sp_port (xd_serport d)) = device_wire d @ frame_bytes (transmit_explicit_header (next_id d) e flags @ payload)"
proof -
  obtain r d' where send: "xbee_endpoint_send e flags d = (r, d')" by force
  have n: "unat (env_length e) = length payload" using assms(4,5) by (simp add: unat_of_nat_u16)
  obtain d1 where d1: "xbee_next_frame_id (Some d) = (next_id d, Some d1)" "d1 = d\<lparr>xd_frame_id := next_id d\<rparr>"
    using next_frame_id [OF refl, of d] unfolding next_id_def by auto
  have "fst (xbee_frame_write (Some d1) (Some (transmit_explicit_header (next_id d) e flags)) 20 (Some payload) (env_length e) 0) = Inr 0"
    using assms(1,5) n d1(2) by (intro frame_write_ready) (simp_all add: app_ready_def)
  then have r: "r = Inr 0"
    using send d1(1) assms(3) by (auto simp: xbee_endpoint_send_def split: prod.splits)
  have "d' = d\<lparr>xd_frame_id := next_id d, xd_stx := xd_stx d'\<rparr> \<and> device_wire d' = device_wire d @
      frame_bytes (transmit_explicit_header (next_id d) e flags @ payload)"
    using xbee_endpoint_send_sends [OF send [unfolded r] assms(2,3)] n assms(5) by (auto simp: next_id_def)
  moreover from this have "xd_serport d' = xd_serport d" by (metis xbee_dev.ext_inject xbee_dev.surjective xbee_dev.update_convs(12,14))
  ultimately show thesis
    using that [of "xd_stx d'"] send r by (auto simp: device_wire_def)
qed

text \<open>An envelope leaves the device as one frame; nothing else changes than its sender and frame number.\<close>

definition sends :: "wpan_envelope \<Rightarrow> u8 list \<Rightarrow> app_dev \<Rightarrow> app_dev \<Rightarrow> bool" where
  "sends e payload d d' \<longleftrightarrow> (\<exists>tx. d' = d\<lparr>xd_frame_id := next_id d, xd_stx := tx\<rparr> \<and>
     tx_sent tx (sp_port (xd_serport d)) = device_wire d @ frame_bytes
       (transmit_explicit_header (next_id d) e (if env_options e AND ucast WPAN_CLUST_FLAG_ENCRYPT \<noteq> 0 then 1 else 0) @ payload))"

lemma envelope_send_sends:
  assumes "app_ready d" "length (env_ieee_address e) = 8" "env_payload e = Some payload" "env_dev e = Some n"
    and "env_length e = of_nat (length payload)" "length payload \<le> 235"
  shows "\<exists>d'. wpan_envelope_send (\<lambda>_. wpan_dev_of table d0) (Some e) d = (Inr 0, d') \<and> sends e payload d d'"
  using endpoint_send_ready [OF assms(1,2,3,5,6), of "if env_options e AND ucast WPAN_CLUST_FLAG_ENCRYPT \<noteq> 0 then 1 else 0"] assms(4)
  by (fastforce simp: wpan_envelope_send_def wpan_dev_of_def sends_def)

lemma sends_fields:
  assumes "sends e payload d d'"
  shows "xd_serport d' = xd_serport d" "xd_flags d' = xd_flags d" "xd_ieee d' = xd_ieee d" "xd_network d' = xd_network d"
    "xd_rx d' = xd_rx d" "xd_srx d' = xd_srx d" "xd_world d' = xd_world d" "app d' = app d" "app_ready d' = app_ready d"
    "pin p d' = pin p d"
  using assms by (auto simp: sends_def app_def app_ready_def pin_def)

lemma sends_wire:
  "sends e payload d d' \<Longrightarrow> device_wire d' = device_wire d @ frame_bytes
       (transmit_explicit_header (next_id d) e (if env_options e AND ucast WPAN_CLUST_FLAG_ENCRYPT \<noteq> 0 then 1 else 0) @ payload)"
  by (auto simp: sends_def device_wire_def)

lemma sends_frame_id: "sends e payload d d' \<Longrightarrow> xd_frame_id d' = next_id d"
  by (auto simp: sends_def)

section \<open>Dispatching to the application\<close>

lemma endpoints_table_device:
  "table_device (wpan_dev_of (Some (endpoints_with z)) d) (take 3 (endpoints_with z))"
  by (simp add: table_device_def wpan_dev_of_def endpoints_with_def CUSTOM_ENDPOINT_def)

lemma endpoint_found:
  "wpan_endpoint_match (Some (wpan_dev_of (Some (endpoints_with z)) d)) n profile =
    Some (find (\<lambda>e. ep_endpoint e = n \<and> (profile = WPAN_APS_PROFILE_ANY \<or> ep_profile_id e = profile)) (take 3 (endpoints_with z)))"
  by (rule wpan_endpoint_match_first [OF endpoints_table_device])

text \<open>The options an envelope has when it is received.\<close>

definition rx_options :: "u8 \<Rightarrow> u16" where
  "rx_options options = (if options AND XBEE_RX_OPT_BROADCAST \<noteq> 0 then WPAN_ENVELOPE_BROADCAST_ADDR else 0)
     OR (if options AND XBEE_RX_OPT_APS_ENCRYPT \<noteq> 0 then WPAN_ENVELOPE_RX_APS_ENCRYPT else 0)"

definition received :: "wpan_envelope \<Rightarrow> u8 \<Rightarrow> u8 list \<Rightarrow> wpan_envelope" where
  "received e options payload = e\<lparr>env_dev := Some 0, env_options := rx_options options,
     env_payload := Some payload, env_length := of_nat (length payload)\<rparr>"

lemma handle_receive_explicit_eq:
  assumes "length (env_ieee_address e) = 8" "length payload \<le> 128"
  shows "handle_receive_explicit d (receive_explicit_frame e options payload) (of_nat (18 + length payload)) =
    (case wpan_envelope_dispatch invalid_cluster (\<lambda>_. wpan_dev_of (Some endpoints_table) d) (received e options payload) d of
       None \<Rightarrow> (0, fault d) | Some (r, _, d) \<Rightarrow> (handler_result r, d))"
  using receive_explicit_envelope_frame [OF assms(1), of 0 options payload] of_nat_less_18 [of "length payload"] assms(2)
  by (simp add: handle_receive_explicit_def xbee_handle_receive_explicit_def received_def rx_options_def
      split: option.splits)

lemma dispatch_sensor_cluster:
  assumes "env_dest_endpoint e = CUSTOM_ENDPOINT" "env_profile_id e = CUSTOM_EP_PROFILE" "env_cluster_id e = CUSTOM_SENSOR_CLUSTER"
    and "env_dev e = Some 0"
  shows "wpan_envelope_dispatch ic (\<lambda>_. wpan_dev_of (Some endpoints_table) d0) e d =
    (case rx_cluster_callback (e\<lparr>env_options := env_options e OR 1\<rparr>) () d of (r, d) \<Rightarrow> Some (r, e\<lparr>env_options := env_options e OR 1\<rparr>, d))"
  using assms
  by (simp add: wpan_envelope_dispatch_def endpoints_table_def endpoint_found CUSTOM_ENDPOINT_def Let_def)
    (simp add: endpoints_with_def wpan_endpoint_dispatch_def wpan_cluster_match_def custom_ep_clusters_def cluster_entry_def CUSTOM_ENDPOINT_def CUSTOM_EP_PROFILE_def
      CUSTOM_SENSOR_CLUSTER_def Let_def case_prod_unfold)

end
