(* ===== verification/App_Correct.thy ===== *)
theory App_Correct
  imports App_Keep Xbee_Atcmd_Correct
begin

text \<open>
  The application from the radio to the radio: what it answers, what it reports by itself, and when
  it gives up the processor for an update.
\<close>

section \<open>Answers\<close>

text \<open>
  The frame by which the application answers a message: back to the sender, from the endpoint the
  message was for, encrypted if the message was.
\<close>

definition reply_frame :: "u8 \<Rightarrow> wpan_envelope \<Rightarrow> u8 \<Rightarrow> u8 list \<Rightarrow> u8 list" where
  "reply_frame i e options payload = frame_bytes
     ([XBEE_FRAME_TRANSMIT_EXPLICIT, i] @ env_ieee_address e @ bytes16 (env_network_address e) @
      [env_dest_endpoint e, env_source_endpoint e] @ bytes16 (env_cluster_id e) @ bytes16 (env_profile_id e) @
      [0, if options AND XBEE_RX_OPT_APS_ENCRYPT \<noteq> 0 then XBEE_TX_OPT_APS_ENCRYPT else 0] @ payload)"

lemma rx_options_encrypt:
  "(rx_options options OR ucast (flags :: u8)) AND WPAN_ENVELOPE_RX_APS_ENCRYPT \<noteq> 0 \<longleftrightarrow> options AND XBEE_RX_OPT_APS_ENCRYPT \<noteq> 0"
proof -
  have "\<not> bit (ucast flags :: u16) 10" by (auto simp: bit_simps dest: bit_imp_le_length)
  moreover have "(w :: u16) AND 0x0400 \<noteq> 0 \<longleftrightarrow> bit w 10" for w
    using and_exp_eq_0_iff_not_bit [of w 10] by simp
  ultimately show ?thesis
    by (auto simp: rx_options_def bit_or_iff)
qed

lemma general_profile_bits:
  assumes "general_profile_command fc"
  shows "fc AND ZCL_FRAME_MFG_SPECIFIC = 0" "fc AND (ZCL_FRAME_DIRECTION OR ZCL_FRAME_TYPE_MASK) = 0"
proof -
  have fc: "fc AND 15 = 0" using assms by (simp add: general_profile_command_def)
  have "fc AND m = (fc AND 15) AND m" if "15 AND m = m" for m using that by (simp add: and.assoc)
  then show "fc AND ZCL_FRAME_MFG_SPECIFIC = 0" "fc AND (ZCL_FRAME_DIRECTION OR ZCL_FRAME_TYPE_MASK) = 0"
    unfolding fc by simp_all
qed

text \<open>A general command for a profile, from a client, as the application's callbacks parse it.\<close>

definition parsed :: "wpan_envelope \<Rightarrow> u8 \<Rightarrow> u8 \<Rightarrow> u8 \<Rightarrow> u8 list \<Rightarrow> app_dev zcl_command" where
  "parsed e fc sequence command args =
     \<lparr>cmd_envelope = e, cmd_frame_control = fc, cmd_mfg_code = 0, cmd_sequence = sequence, cmd_command = command,
      cmd_attributes = None, cmd_zcl_payload = args, cmd_length = int (length args)\<rparr>"

lemma command_build_parsed:
  assumes "general_profile_command fc" "env_payload e = Some (fc # sequence # command # args)"
    and "env_length e = of_nat (3 + length args)" "length args \<le> 125"
  shows "zcl_command_build (Some e) None = Inr (parsed e fc sequence command args)"
proof -
  have "unat (env_length e) = 3 + length args" unfolding assms(3) using assms(4) by (intro unat_of_nat_u16) simp
  then have "sint (env_length e) = int (3 + length args)" using assms(4) by (subst sint_small_u16) simp_all
  moreover have "s16 (int (length args)) = int (length args)" using assms(4) by simp
  ultimately show ?thesis
    using general_profile_bits [OF assms(1)] assms(2) by (simp add: zcl_command_build_def parsed_def Let_def)
qed

lemma response_start_parsed:
  assumes "general_profile_command fc"
  shows "response_start (parsed e fc sequence command args) response = [0x18, sequence, response]"
  using general_profile_bits [OF assms]
  by (simp add: response_start_def zcl_build_header_def parsed_def Let_def numeral_eq_Suc)

lemma answer_wire:
  assumes "app_ready d" "cmd_envelope zcl = e" "length (env_ieee_address e) = 8" "env_dev e = Some 0" "length response \<le> 200"
    and "env_options e = rx_options options OR ucast (flags :: u8)"
  shows "device_wire (answer zcl response d) = device_wire d @ reply_frame (next_id d) e options response \<and>
    app_gpio (app (answer zcl response d)) = app_gpio (app d) \<and> app_reset (app (answer zcl response d)) = app_reset (app d) \<and>
    app_ready (answer zcl response d)"
proof -
  let ?d = "say [PrintNumber ''Response length: '' (int (length response))] d"
  let ?e = "(wpan_envelope_reply e)\<lparr>env_payload := Some response, env_length := of_nat (length response)\<rparr>"
  have e: "app_ready ?d" "length (env_ieee_address ?e) = 8" "env_payload ?e = Some response" "env_dev ?e = Some 0"
    "env_length ?e = of_nat (length response)" "length response \<le> 235"
    using assms by (simp_all add: wpan_envelope_reply_def)
  obtain d' where d': "wpan_envelope_send (\<lambda>_. wpan_dev_of None ?d) (Some ?e) ?d = (Inr 0, d')" "sends ?e response ?d d'"
    using envelope_send_sends [OF e] by blast
  have "answer zcl response d = say [PrintLine ''Response sent successfully''] d'"
    using d'(1) assms(2) by (simp add: answer_def zcl_send_response_def Let_def)
  moreover have "env_options ?e AND ucast WPAN_CLUST_FLAG_ENCRYPT \<noteq> 0 \<longleftrightarrow> options AND XBEE_RX_OPT_APS_ENCRYPT \<noteq> 0"
    using rx_options_encrypt [of options flags] assms(6) by (simp add: wpan_envelope_reply_def)
  ultimately show ?thesis
    using sends_wire [OF d'(2)] sends_fields [OF d'(2)] assms(1)
    by (simp add: reply_frame_def transmit_explicit_header_def wpan_envelope_reply_def)
qed

text \<open>
  Reading the sensor over the air.  When a packet for the sensor's cluster of the custom endpoint
  arrives that holds a ZCL command to read attributes, whatever attributes it names, the module is
  handed exactly one frame: to the sender of the packet, from the custom endpoint to the endpoint
  the packet came from, with the sequence number of the command, and the attribute 0 as a Boolean
  with the level of the sensor's pin.  The pins stay as they are.
\<close>

lemma sensor_read_answered:
  fixes fc sequence :: u8
  assumes "app_ready d" "length (env_ieee_address e) = 8" "general_profile_command fc" "length args \<le> 125"
    and "env_dest_endpoint e = CUSTOM_ENDPOINT" "env_profile_id e = CUSTOM_EP_PROFILE" "env_cluster_id e = CUSTOM_SENSOR_CLUSTER"
  defines "payload \<equiv> fc # sequence # ZCL_CMD_READ_ATTRIB # args"
  shows "\<exists>d'. handle_receive_explicit d (receive_explicit_frame e options payload) (of_nat (18 + length payload)) = (0, d') \<and>
    device_wire d' = device_wire d @ reply_frame (next_id d) e options
      [0x18, sequence, ZCL_CMD_READ_ATTRIB_RESP, 0, 0, ZCL_STATUS_SUCCESS, ZCL_TYPE_LOGICAL_BOOLEAN, if pin SENSOR d then 1 else 0] \<and>
    app_gpio (app d') = app_gpio (app d) \<and> app_reset (app d') = app_reset (app d)"
proof -
  have len: "length payload \<le> 128" using assms(4) by (simp add: payload_def)
  let ?r = "received e options payload"
  let ?e = "?r\<lparr>env_options := env_options ?r OR 1\<rparr>"
  have "zcl_command_build (Some ?e) None = Inr (parsed ?e fc sequence ZCL_CMD_READ_ATTRIB args)"
    using assms(3,4) by (intro command_build_parsed) (simp_all add: received_def payload_def)
  then obtain items where cb: "rx_cluster_callback ?e () d = (Inr 0, answer (parsed ?e fc sequence ZCL_CMD_READ_ATTRIB args)
      [0x18, sequence, ZCL_CMD_READ_ATTRIB_RESP, 0, 0, ZCL_STATUS_SUCCESS, ZCL_TYPE_LOGICAL_BOOLEAN, if pin SENSOR d then 1 else 0]
      (say items d))"
    using assms(3) response_start_parsed [OF assms(3)]
    by (simp add: rx_cluster_callback_def Let_def parsed_def)
  have "handle_receive_explicit d (receive_explicit_frame e options payload) (of_nat (18 + length payload)) =
      (0, snd (rx_cluster_callback ?e () d))"
    unfolding handle_receive_explicit_eq [OF assms(2) len]
    using dispatch_sensor_cluster [of ?r] assms(5-7) cb by (simp add: received_def handler_result_def)
  moreover have "env_options ?e = rx_options options OR ucast (1 :: u8)" by (simp add: received_def)
  ultimately show ?thesis
    using answer_wire [where d = "say items d" and e = ?e and zcl = "parsed ?e fc sequence ZCL_CMD_READ_ATTRIB args"
        and options = options and flags = 1] assms(1,2) cb
    by (simp add: received_def reply_frame_def parsed_def)
qed

section \<open>Reports\<close>

text \<open>The LED is an output and the sensor an input, as the pins are configured.\<close>

definition pins_configured :: "app_dev \<Rightarrow> bool" where
  "pins_configured d \<longleftrightarrow> is_output (app_gpio (app d)) (GB, 3) \<and> \<not> is_output (app_gpio (app d)) (GB, 4)"

lemma pin_level_of: "pin LED d = pin_level (app_gpio (app d)) (GB, 3)" "pin SENSOR d = pin_level (app_gpio (app d)) (GB, 4)"
  by (simp_all add: pin_def LED_def SENSOR_def gpio_get_pin pin_of_led pin_of_sensor)

lemma app_update [simp]: "app (update_app f d) = f (app d)"
  by (simp add: app_def update_app_def)

lemma update_app_fields [simp]:
  "xd_serport (update_app f d) = xd_serport d" "xd_flags (update_app f d) = xd_flags d" "xd_stx (update_app f d) = xd_stx d"
  "xd_frame_id (update_app f d) = xd_frame_id d" "device_wire (update_app f d) = device_wire d"
  "app_ready (update_app f d) = app_ready d" "next_id (update_app f d) = next_id d"
  by (simp_all add: update_app_def device_wire_def app_ready_def next_id_eq)

lemma set_led:
  assumes "pins_configured d"
  obtains d' where "set_gpio (gpio_set (app_gpio (app d)) LED v) d = d'" "pin LED d' = v" "pin SENSOR d' = pin SENSOR d"
    "pins_configured d'" "device_wire d' = device_wire d" "next_id d' = next_id d" "app_ready d' = app_ready d"
    "xd_frame_id d' = xd_frame_id d"
proof -
  have led: "pin_of LED = Some (GB, 3)" by (simp add: LED_def pin_of_led)
  obtain g where g: "gpio_set (app_gpio (app d)) LED v = Some g"
    using led by (auto simp: gpio_set_pin)
  let ?d = "update_app (\<lambda>a. a\<lparr>app_gpio := g\<rparr>) d"
  have "set_gpio (gpio_set (app_gpio (app d)) LED v) d = ?d" by (simp add: set_gpio_def g)
  moreover have "pin LED ?d = v" "pin SENSOR ?d = pin SENSOR d" "pins_configured ?d"
    using assms gpio_set_level [OF g, of 3 GB] gpio_set_level [OF g, of 4 GB] gpio_set_keeps [OF g] led
    by (simp_all add: pins_configured_def pin_level_of)
  ultimately show thesis using that [of ?d] by simp
qed

text \<open>The frame of a report: to endpoint 1 of the coordinator.\<close>

definition report_frame :: "u8 \<Rightarrow> bool \<Rightarrow> u8 list" where
  "report_frame i v = frame_bytes
     ([XBEE_FRAME_TRANSMIT_EXPLICIT, i] @ replicate 8 0 @ [0xFF, 0xFE, 0xEA, 0x01, 0x00, 0x06, 0x01, 0x04, 0, 0] @
      [0, 0, ZCL_STATUS_SUCCESS, ZCL_TYPE_LOGICAL_BOOLEAN, if v then 1 else 0])"

lemma report_header:
  "transmit_explicit_header i (sensor_report v) 0 =
    [XBEE_FRAME_TRANSMIT_EXPLICIT, i] @ replicate 8 0 @ [0xFF, 0xFE, 0xEA, 0x01, 0x00, 0x06, 0x01, 0x04, 0, 0]"
proof -
  have "bytes16 0xFFFE = [0xFF, 0xFE]" "bytes16 0x0006 = [0, 6]" "bytes16 0x0104 = [1, 4]" by code_simp+
  then show ?thesis
    by (simp add: transmit_explicit_header_def sensor_report_def wpan_envelope_create_def WPAN_IEEE_ADDR_ALL_ZEROS_def
        CUSTOM_ENDPOINT_def CUSTOM_EP_PROFILE_def CUSTOM_SENSOR_CLUSTER_def numeral_eq_Suc)
qed

lemma task_effect:
  assumes "app_ready d" "pins_configured d"
  defines "d' \<equiv> rtc_periodic_task d"
  shows "if pin LED d = pin SENSOR d
    then pin LED d' = (\<not> pin SENSOR d) \<and> pin SENSOR d' = pin SENSOR d \<and> pins_configured d' \<and> app_ready d' \<and>
      xd_frame_id d' = next_id d \<and> device_wire d' = device_wire d @ report_frame (next_id d) (pin SENSOR d)
    else d' = d"
proof (cases "pin LED d = pin SENSOR d")
  case True
  obtain d1 where d1: "set_gpio (gpio_set (app_gpio (app d)) LED (\<not> pin SENSOR d)) d = d1"
    "pin LED d1 = (\<not> pin SENSOR d)" "pin SENSOR d1 = pin SENSOR d" "pins_configured d1" "device_wire d1 = device_wire d"
    "next_id d1 = next_id d" "app_ready d1 = app_ready d" "xd_frame_id d1 = xd_frame_id d"
    using set_led [OF assms(2)] by blast
  let ?e = "sensor_report (pin SENSOR d)" and ?p = "[0, 0, 0, 16, if pin SENSOR d then 1 else 0] :: u8 list"
  have e: "app_ready d1" "length (env_ieee_address ?e) = 8" "env_payload ?e = Some ?p" "env_dev ?e = Some 0"
    "env_length ?e = of_nat (length ?p)" "length ?p \<le> 235" "env_options ?e = 0"
    using assms(1) d1(7) by (simp_all add: sensor_report_def wpan_envelope_create_def WPAN_IEEE_ADDR_ALL_ZEROS_def)
  obtain d2 where d2: "wpan_envelope_send (\<lambda>_. wpan_dev_of (Some endpoints_table) d1) (Some ?e) d1 = (Inr 0, d2)" "sends ?e ?p d1 d2"
    using envelope_send_sends [OF e(1-6)] by blast
  have "d' = d2" using True d1(1,3) d2(1) by (simp add: d'_def rtc_periodic_task_def Let_def)
  then show ?thesis
    using True d1 e(1,7) sends_fields [OF d2(2)] sends_wire [OF d2(2)] sends_frame_id [OF d2(2)]
    by (simp add: report_frame_def report_header pins_configured_def)
qed (simp add: d'_def rtc_periodic_task_def)

text \<open>The changes of a level that is sampled, and the reports of them.\<close>

fun changes :: "bool \<Rightarrow> bool list \<Rightarrow> bool list" where
  "changes v [] = []"
| "changes v (w # ws) = (if w = v then changes v ws else w # changes w ws)"

definition id_after :: "u8 \<Rightarrow> u8" where
  "id_after i = (if i + 1 = 0 then 1 else i + 1)"

fun reports :: "u8 \<Rightarrow> bool list \<Rightarrow> u8 list" where
  "reports i [] = []"
| "reports i (v # vs) = report_frame (id_after i) v @ reports (id_after i) vs"

text \<open>The task is run once for each level of the sensor.\<close>

definition watch :: "bool list \<Rightarrow> app_dev \<Rightarrow> app_dev" where
  "watch vs d = fold (\<lambda>v d. rtc_periodic_task (set_sensor v d)) vs d"

lemma set_sensor_pins:
  assumes "pins_configured d"
  shows "pin SENSOR (set_sensor v d) = v" "pin LED (set_sensor v d) = pin LED d" "pins_configured (set_sensor v d)"
    "device_wire (set_sensor v d) = device_wire d" "app_ready (set_sensor v d) = app_ready d" "next_id (set_sensor v d) = next_id d"
    "xd_frame_id (set_sensor v d) = xd_frame_id d"
proof -
  have "unat (SENSOR AND 7) = 4" by (simp add: SENSOR_def) code_simp
  then show "pin SENSOR (set_sensor v d) = v" "pin LED (set_sensor v d) = pin LED d" "pins_configured (set_sensor v d)"
    using assms
    by (simp_all add: set_sensor_def pin_level_of pin_level_def pins_configured_def is_output_def bit_read_data bit_modify_bit)
qed (simp_all add: set_sensor_def)

text \<open>
  C3: Reports.  Whatever the levels of the sensor at successive runs of the periodic task, the bytes
  handed to the module are exactly one report for each change of the level, in order, with the new
  level and with successive frame numbers, and after each run the LED shows the opposite of the
  sensor.
\<close>

theorem sensor_reports_exact:
  assumes "app_ready d" "pins_configured d" "pin LED d = (\<not> pin SENSOR d)"
  shows "device_wire (watch vs d) = device_wire d @ reports (xd_frame_id d) (changes (pin SENSOR d) vs) \<and>
    pin LED (watch vs d) = (\<not> pin SENSOR (watch vs d)) \<and>
    pin SENSOR (watch vs d) = last (pin SENSOR d # vs)"
  using assms
proof (induction vs arbitrary: d)
  case (Cons v vs)
  let ?s = "set_sensor v d" and ?t = "rtc_periodic_task (set_sensor v d)"
  note s = set_sensor_pins [OF Cons.prems(2), of v]
  note effect = task_effect [of ?s]
  have eq: "watch (v # vs) d = watch vs ?t" by (simp add: watch_def)
  show ?case
  proof (cases "v = pin SENSOR d")
    case True
    then have "?t = ?s" using effect s Cons.prems by auto
    then show ?thesis unfolding eq using Cons.IH [of ?t] s Cons.prems True by simp
  next
    case False
    then have "app_ready ?t \<and> pins_configured ?t \<and> pin LED ?t = (\<not> v) \<and> pin SENSOR ?t = v \<and>
      xd_frame_id ?t = next_id d \<and> device_wire ?t = device_wire d @ report_frame (next_id d) v"
      using effect s Cons.prems by auto
    then show ?thesis unfolding eq using Cons.IH [of ?t] False by (simp add: next_id_eq id_after_def)
  qed
qed (simp add: watch_def)

section \<open>A device\<close>

text \<open>A device with an idle line, two free requests, the sensor high and the LED low.\<close>

definition idle_device :: "'w \<Rightarrow> 'w xbee_dev" where
  "idle_device w =
     \<lparr>xd_wpan_flags = 0, xd_network = 0xFFFE, xd_ieee = replicate 8 0, xd_payload = 0, xd_serport = demo_port,
      xd_reset = None, xd_is_awake = None, xd_hardware_version = 0, xd_firmware_version = 0, xd_flags = XBEE_DEV_FLAG_CMD_INIT,
      xd_rx = \<lparr>rx_state = XBEE_RX_STATE_WAITSTART, rx_bytes_in_frame = 0, rx_bytes_read = 0, rx_frame_data = replicate 147 0\<rparr>,
      xd_frame_id = 0, xd_srx = demo_rx,
      xd_stx = \<lparr>tx_sent = (\<lambda>_. []), tx_cts_pin = (\<lambda>_. False), tx_baud = (\<lambda>_. 0), tx_control = (\<lambda>_. [])\<rparr>,
      xd_world = w\<rparr>"

definition demo_app :: app_dev where
  "demo_app = idle_device
     \<lparr>as_dev = (\<lambda>_. idle_device ()), as_table = [request_zero, request_zero], as_initialized = 1, as_last_time = 0,
      as_last_id = 0, as_lists = (\<lambda>_. query_context 0 0), as_seconds = 0,
      as_world = \<lparr>cs_out = [], app_gpio = demo_gpio, app_rxcb = cbuf_demo,
        app_eps = (\<lambda>_. ep_state_idle),
        app_fault = False, app_reset = None\<rparr>\<rparr>"

lemmas demo_app_defs = demo_app_def idle_device_def

lemma demo_app_facts: "app_ready demo_app" "pins_configured demo_app" "pin LED demo_app = (\<not> pin SENSOR demo_app)"
proof -
  show "app_ready demo_app" by (simp add: app_ready_def demo_app_defs demo_port_def xbee_ser_invalid_def)
  show "pins_configured demo_app" by (simp add: pins_configured_def demo_app_defs app_def is_output_def demo_gpio_def bit_numeral_rec)
  show "pin LED demo_app = (\<not> pin SENSOR demo_app)"
    by (simp add: pin_level_of demo_app_defs app_def pin_level_def demo_gpio_def is_output_def bit_read_data bit_numeral_rec)
qed

definition demo_message :: wpan_envelope where
  "demo_message = (wpan_envelope_create None (replicate 8 7) 0x1234)
     \<lparr>env_dest_endpoint := CUSTOM_ENDPOINT, env_source_endpoint := 1, env_profile_id := CUSTOM_EP_PROFILE,
      env_cluster_id := CUSTOM_SENSOR_CLUSTER\<rparr>"

theorem sensor_reports_exact_witness:
  "device_wire (watch [False, False, True] demo_app) =
      device_wire demo_app @ reports (xd_frame_id demo_app) (changes (pin SENSOR demo_app) [False, False, True]) \<and>
    pin LED (watch [False, False, True] demo_app) = (\<not> pin SENSOR (watch [False, False, True] demo_app)) \<and>
    pin SENSOR (watch [False, False, True] demo_app) = last (pin SENSOR demo_app # [False, False, True])"
  by (rule sensor_reports_exact [OF demo_app_facts])

end
