(* ===== verification/App_Related.thy ===== *)
theory App_Related
  imports Wpan_Related App_Keep
begin

text \<open>
  Relations that the callbacks of the application respect, and two of them: states that differ in the
  receiver of the radio's serial line, and a state that keeps everything but what an answer changes.
\<close>

text \<open>The messages that reach the server for updates.\<close>

definition update_endpoint :: "wpan_envelope \<Rightarrow> bool" where
  "update_endpoint env \<longleftrightarrow> env_cluster_id env = 0x1000 \<and>
     (env_dest_endpoint env = 0xFF \<and> env_profile_id env = 0xC105 \<or>
      env_dest_endpoint env = 0xE8 \<and> env_profile_id env \<in> {0xC105, WPAN_APS_PROFILE_ANY})"

section \<open>The interface\<close>

text \<open>
  The callbacks send, print, note a fault and store the states of the endpoints; they look at the device
  as the support layer sees it and at the application's own state.
\<close>

locale app_related =
  fixes R :: "app_dev \<Rightarrow> app_dev \<Rightarrow> bool"
  assumes endpoint_send: "R s t \<Longrightarrow> rel_prod (=) R (xbee_endpoint_send e flags s) (xbee_endpoint_send e flags t)"
    and view: "R s t \<Longrightarrow> wpan_dev_of T s = wpan_dev_of T t"
    and app: "R s t \<Longrightarrow> app s = app t"
    and say: "R s t \<Longrightarrow> R (say items s) (say items t)"
    and set_eps: "R s t \<Longrightarrow> R (set_eps states s) (set_eps states t)"
    and fault: "R s t \<Longrightarrow> R (fault s) (fault t)"

sublocale app_related \<subseteq> wpan: wpan_related R "\<lambda>_. wpan_dev_of T d" no_respond for T d
  by unfold_locales (auto simp: wpan_dev_of_def no_respond_def intro!: endpoint_send fault)

context app_related begin

lemma answer: "R s t \<Longrightarrow> R (answer zcl response s) (answer zcl response t)"
proof -
  assume "R s t"
  then have said: "R (say [PrintNumber ''Response length: '' (int (length response))] s) (say [PrintNumber ''Response length: '' (int (length response))] t)"
    by (rule say)
  show ?thesis
    using wpan.zcl_send [OF said] view [OF said] by (auto simp: answer_def Let_def rel_prod_sel case_prod_unfold intro: say)
qed

lemma pin: "R s t \<Longrightarrow> pin p s = pin p t"
  by (simp add: pin_def app)

lemma rx_cluster: "R s t \<Longrightarrow> rel_prod (=) R (rx_cluster_callback env ctx s) (rx_cluster_callback env ctx t)"
  by (auto simp: rx_cluster_callback_def Let_def pin intro!: say answer split: sum.split)

lemma transparent: "R s t \<Longrightarrow> rel_prod (=) R (xbee_transparent_rx env ctx s) (xbee_transparent_rx env ctx t)"
  by (simp add: xbee_transparent_rx_def say)

lemma same_if: "R a b \<Longrightarrow> R a' b' \<Longrightarrow> R (if c then a else a') (if c then b else b')"
  by simp

lemma basic: "R s t \<Longrightarrow> R (answer_basic zcl s) (answer_basic zcl t)"
  unfolding answer_basic_def Let_def by (intro same_if answer say)

lemma default_cluster:
  assumes "R s t"
  shows "rel_prod (=) R (default_cluster_callback env st s) (default_cluster_callback env st t)"
proof -
  have eps: "app_eps (app s) = app_eps (app t)" using app [OF assms] by simp
  show ?thesis
    by (cases st) (auto simp: default_cluster_callback_def Let_def eps simp del: say_say split: sum.split
      intro!: say basic fault assms)
qed

lemma zdo_endpoint: "R s t \<Longrightarrow> rel_prod (=) R (zdo_endpoint_handler env st s) (zdo_endpoint_handler env st t)"
  using wpan.zdo_handler [of s t "Some (endpoints_with None)" t "app_eps (app t)" "Some env" st] view [of s t] app [of s t]
  by (auto simp: zdo_endpoint_handler_def rel_prod_sel intro: fault set_eps split: option.splits prod.splits)

lemma invalid: "invalid_respects R invalid_cluster"
  using wpan.invalid_cluster view by (auto simp: invalid_respects_def invalid_cluster_def)

section \<open>Messages\<close>

text \<open>Every message that starts no update, and every message if starting an update respects the relation.\<close>

lemma receive:
  assumes "R s t"
    and ota: "\<And>env s t. update_endpoint (receive_explicit_envelope 0 frame len) \<Longrightarrow> same_message (receive_explicit_envelope 0 frame len) env \<Longrightarrow>
      R s t \<Longrightarrow> rel_prod (=) R (xbee_ota_server_cmd env () s) (xbee_ota_server_cmd env () t)"
  shows "rel_prod (=) R (handle_receive_explicit s frame len) (handle_receive_explicit t frame len)"
proof -
  let ?e = "receive_explicit_envelope 0 frame len"
  have "\<forall>ep \<in> set (take 3 endpoints_table). addressed ?e ep \<longrightarrow> entry_respects R ?e ep"
    using ota rx_cluster transparent default_cluster zdo_endpoint
    by (auto simp: endpoints_table_def endpoints_with_def entry_respects_def digi_data_clusters_def custom_ep_clusters_def
        cluster_entry_def addressed_def update_endpoint_def split: if_splits)
  then have "rel_option (rel_prod (=) (rel_prod (=) R))
      (wpan_envelope_dispatch invalid_cluster (\<lambda>_. wpan_dev_of (Some endpoints_table) t) ?e s)
      (wpan_envelope_dispatch invalid_cluster (\<lambda>_. wpan_dev_of (Some endpoints_table) t) ?e t)"
    by (intro envelope_dispatch_related [OF _ _ _ invalid assms(1), where n = 0 and es = "take 3 endpoints_table"])
      (simp_all add: endpoints_table_def endpoints_table_device receive_explicit_envelope_def Let_def)
  then show ?thesis
    using assms(1) view [OF assms(1)] fault [OF assms(1)]
    by (auto simp: handle_receive_explicit_def xbee_handle_receive_explicit_def rel_prod_sel
        split: option.splits elim!: option.rel_cases)
qed

end

end
