(* ===== verification/App_Frames.thy ===== *)
theory App_Frames
  imports App_Related
begin

text \<open>
  The frame handlers of the application neither use nor change the receiver; what the handler of
  messages changes in the device.
\<close>

section \<open>Sending\<close>

lemma frame_write_receiver:
  "xbee_frame_write (Some (d\<lparr>xd_rx := r, xd_srx := x\<rparr>)) h n da k fl =
    (case xbee_frame_write (Some d) h n da k fl of (res, y) \<Rightarrow> (res, map_option (\<lambda>d. d\<lparr>xd_rx := r, xd_srx := x\<rparr>) y))"
  by (simp add: xbee_frame_write_def Let_def case_prod_unfold)

lemma endpoint_send_receiver:
  fixes d :: app_dev
  shows "xbee_endpoint_send e flags (d\<lparr>xd_rx := r, xd_srx := x\<rparr>) =
    (case xbee_endpoint_send e flags d of (res, d) \<Rightarrow> (res, d\<lparr>xd_rx := r, xd_srx := x\<rparr>))"
proof -
  obtain d1 where d1: "xbee_next_frame_id (Some d) = (next_id d, Some d1)" "d1 = d\<lparr>xd_frame_id := next_id d\<rparr>"
    using next_frame_id [OF refl, of d] unfolding next_id_def by auto
  have d2: "xbee_next_frame_id (Some (d\<lparr>xd_rx := r, xd_srx := x\<rparr>)) = (next_id d, Some (d1\<lparr>xd_rx := r, xd_srx := x\<rparr>))"
    using next_id_eq [of d] d1(2) by (simp add: xbee_next_frame_id_def Let_def)
  obtain tx where "snd (xbee_frame_write (Some d1) (Some (transmit_explicit_header (next_id d) e flags)) 20 (env_payload e) (env_length e) 0)
      = Some (d1\<lparr>xd_stx := tx\<rparr>)"
    using frame_write_stx by blast
  then show ?thesis
    by (simp add: xbee_endpoint_send_def d1(1) d2 frame_write_receiver case_prod_unfold)
qed

lemma endpoint_send_shape:
  obtains tx where "snd (xbee_endpoint_send e flags d) = d\<lparr>xd_frame_id := next_id d, xd_stx := tx\<rparr>"
proof -
  obtain d1 where d1: "xbee_next_frame_id (Some d) = (next_id d, Some d1)" "d1 = d\<lparr>xd_frame_id := next_id d\<rparr>"
    using next_frame_id [OF refl, of d] unfolding next_id_def by auto
  obtain tx where "snd (xbee_frame_write (Some d1) (Some (transmit_explicit_header (next_id d) e flags)) 20 (env_payload e) (env_length e) 0)
      = Some (d1\<lparr>xd_stx := tx\<rparr>)"
    using frame_write_stx by blast
  then show thesis
    using that d1(2) by (simp add: xbee_endpoint_send_def d1(1) case_prod_unfold)
qed

section \<open>The receiver\<close>

text \<open>Two devices that differ in the receiver at most, with the same port.\<close>

definition rx_twin :: "xbee_rx \<Rightarrow> serial_rx \<Rightarrow> xbee_serial \<Rightarrow> app_dev \<Rightarrow> app_dev \<Rightarrow> bool" where
  "rx_twin r x p d e \<longleftrightarrow> e = d\<lparr>xd_rx := r, xd_srx := x\<rparr> \<and> xd_serport d = p"

lemma twin_update: "rx_twin r x p s t \<Longrightarrow> rx_twin r x p (update_app f s) (update_app f t)"
  by (simp add: rx_twin_def update_app_def app_def)

interpretation twin: app_related "rx_twin r x p" for r x p
proof
  fix s t :: app_dev and e :: wpan_envelope and flags :: u16
  assume st: "rx_twin r x p s t"
  obtain tx where "snd (xbee_endpoint_send e flags s) = s\<lparr>xd_frame_id := next_id s, xd_stx := tx\<rparr>"
    by (rule endpoint_send_shape)
  then show "rel_prod (=) (rx_twin r x p) (xbee_endpoint_send e flags s) (xbee_endpoint_send e flags t)"
    using st endpoint_send_receiver [where e = e and flags = flags and d = s and r = r and x = x] by (auto simp: rx_twin_def rel_prod_sel case_prod_unfold)
qed (auto simp: wpan_dev_of_def app_def say_def set_eps_def fault_def intro: twin_update, auto simp: rx_twin_def)

text \<open>The AT command layer sees nothing of the receiver.\<close>

lemma twin_at:
  assumes "rx_twin r x p s t"
  shows "rel_prod (=) (rx_twin r x p) (at_run f s) (at_run f t)" "rel_prod (=) (rx_twin r x p) (at_do g s) (at_do g t)"
proof -
  have at: "at_of t = at_of s" using assms by (simp add: rx_twin_def at_of_def at_dev_def)
  have dev: "rx_twin r x p (dev_of s u) (dev_of t u)" for u using assms by (simp add: rx_twin_def dev_of_def Let_def)
  show "rel_prod (=) (rx_twin r x p) (at_run f s) (at_run f t)" "rel_prod (=) (rx_twin r x p) (at_do g s) (at_do g t)"
    using dev twin.fault [OF assms] by (auto simp: at_run_def at_do_def at split: option.split prod.split)
qed

lemma twin_ota:
  assumes "rx_twin r x p s t"
  shows "rel_prod (=) (rx_twin r x p) (xbee_ota_server_cmd env () s) (xbee_ota_server_cmd env () t)"
proof -
  have start: "rx_twin r x p (start_ota_fw_update a c s) (start_ota_fw_update a c t)" if "rx_twin r x p s t" for a c s t
    using twin_at(2) [OF that, of "xbee_cmd_simple (Some 0) (at_cmd CHR ''W'' CHR ''R'') 1"]
    by (auto simp: start_ota_fw_update_def rel_prod_sel case_prod_unfold intro: twin_update)
  have update: "rel_prod (=) (rx_twin r x p) (xbee_update_firmware_ota env s) (xbee_update_firmware_ota env t)"
    using assms by (auto simp: xbee_update_firmware_ota_def Let_def intro!: twin.say start simp del: say_say)
  show ?thesis
    using assms update twin.wpan.envelope_send twin.view
    by (auto simp: xbee_ota_server_cmd_def Let_def rel_prod_sel case_prod_unfold split: option.split)
qed

lemma frame_handlers_neutral: "rx_neutral xbee_frame_handlers"
proof -
  have twin: "xd_serport (snd (de_handler e d f n)) = xd_serport d \<and> (\<forall>r s. snd (de_handler e (d\<lparr>xd_rx := r, xd_srx := s\<rparr>) f n) =
      (snd (de_handler e d f n))\<lparr>xd_rx := r, xd_srx := s\<rparr>)"
    if "\<And>r x p s t. rx_twin r x p s t \<Longrightarrow> rel_prod (=) (rx_twin r x p) (de_handler e s f n) (de_handler e t f n)"
    for e :: "app_at xbee_dispatch_table_entry" and d f n
    using that [of _ _ "xd_serport d" d] by (simp add: rx_twin_def rel_prod_sel)
  have result: "rel_prod (=) (rx_twin r x p) (run_result a) (run_result b)" if "rel_prod (=) (rx_twin r x p) a b" for r x p a b
    using that by (auto simp: run_result_def rel_prod_sel case_prod_unfold)
  have "rel_prod (=) (rx_twin r x p) (handle_receive_explicit s f n) (handle_receive_explicit t f n)"
    "rel_prod (=) (rx_twin r x p) (handle_at_response s f n) (handle_at_response t f n)"
    "rel_prod (=) (rx_twin r x p) (handle_modem_status s f n) (handle_modem_status t f n)"
    if "rx_twin r x p s t" for r x p s t f n
    using twin.receive [OF that] twin_ota twin_at(1) [OF that]
    unfolding handle_at_response_def handle_modem_status_def by (blast intro: result)+
  then have "rel_prod (=) (rx_twin r x p) (de_handler e s f n) (de_handler e t f n)"
    if "e \<in> set xbee_frame_handlers" "rx_twin r x p s t" for e r x p s t f n
    using that by (auto simp: xbee_frame_handlers_def)
  then show ?thesis
    unfolding rx_neutral_def by (intro ballI allI twin)
qed

end
