(* ===== verification/App_Radio.thy ===== *)
theory App_Radio
  imports App_Frames App_Correct App_At
begin

text \<open>
  The application at the radio's serial line: what one tick of the network does with the bytes that
  have arrived, down to the bytes it sends.
\<close>

section \<open>One tick\<close>

abbreviation in_tick :: "app_dev \<Rightarrow> app_dev" where
  "in_tick d \<equiv> d\<lparr>xd_flags := xd_flags d OR XBEE_DEV_FLAG_IN_TICK\<rparr>"

lemma flow_in_tick: "(w OR XBEE_DEV_FLAG_IN_TICK) AND XBEE_DEV_FLAG_USE_FLOWCONTROL = w AND XBEE_DEV_FLAG_USE_FLOWCONTROL"
  "(w AND NOT XBEE_DEV_FLAG_IN_TICK) AND XBEE_DEV_FLAG_USE_FLOWCONTROL = w AND XBEE_DEV_FLAG_USE_FLOWCONTROL" for w :: u16
  by (simp_all add: bit.conj_disj_distrib2 and.assoc bit.conj_disj_distrib)

text \<open>The device after the frames that one tick takes from the line, before the flag of the tick is cleared.\<close>

definition after_frames :: "u8 list list \<Rightarrow> app_dev \<Rightarrow> app_dev" where
  "after_frames fs d = fold (dispatch_frame xbee_frame_handlers) fs (in_tick d)"

lemma wpan_tick_frames:
  assumes "dev_wf d" "xd_flags d AND XBEE_DEV_FLAG_IN_TICK = 0"
    and "parse_some 5 (rx_abs (xd_rx d)) (queue d) = (q, fs, rest)"
  obtains d' where "snd (xbee_wpan_tick xbee_frame_handlers d) = d'" "rx_abs (xd_rx d') = q" "queue d' = rest" "dev_wf d'"
    "d' = (after_frames fs d)\<lparr>xd_flags := xd_flags (after_frames fs d) AND NOT XBEE_DEV_FLAG_IN_TICK, xd_rx := xd_rx d', xd_srx := xd_srx d'\<rparr>"
proof -
  have wf: "dev_wf (in_tick d)" using assms(1) by (simp add: dev_wf_def)
  have "parse_some 5 (rx_abs (xd_rx (in_tick d))) (queue (in_tick d)) = (q, fs, rest)" using assms(3) by (simp add: queue_def)
  from frame_load_parse [OF wf frame_handlers_neutral this] obtain e where e:
    "xbee_frame_load xbee_frame_handlers (Some (in_tick d)) = Some (Inr (int (length fs)), Some e)"
    "rx_abs (xd_rx e) = q" "queue e = rest" "same_rest (after_frames fs d) e" "dev_wf e"
    unfolding after_frames_def by blast
  let ?d' = "e\<lparr>xd_flags := xd_flags e AND NOT XBEE_DEV_FLAG_IN_TICK\<rparr>"
  have "snd (xbee_wpan_tick xbee_frame_handlers d) = ?d'"
    using assms(2) e(1) by (simp add: xbee_wpan_tick_def xbee_dev_tick_def)
  moreover have "?d' = (after_frames fs d)\<lparr>xd_flags := xd_flags (after_frames fs d) AND NOT XBEE_DEV_FLAG_IN_TICK, xd_rx := xd_rx ?d', xd_srx := xd_srx ?d'\<rparr>"
    using e(4) by (cases e; cases "after_frames fs d") (simp add: same_rest_def)
  moreover have "rx_abs (xd_rx ?d') = q" "queue ?d' = rest" "dev_wf ?d'" using e by (simp_all add: queue_def dev_wf_def)
  ultimately show thesis using that by blast
qed

text \<open>The walk through the conversations afterwards notes a fault at most.\<close>

lemma tick_walk_fault:
  fixes g :: "app_dev \<Rightarrow> 'g"
  assumes "\<And>d. g (fault d) = g d"
    and "tick_walk no_respond seconds (Some (wpan_dev_of (Some endpoints_table) x)) None states d = Some (states', d')"
  shows "g d' = g d"
proof -
  have "wpan_related (\<lambda>s t. s = t \<and> g s = g d) (\<lambda>_. wpan_dev_of None x\<lparr>dev_endpoint_send := None\<rparr>) no_respond"
    using assms(1) by unfold_locales (simp_all add: no_respond_def)
  note walk = wpan_related.tick_walk [OF this, where d = "wpan_dev_of (Some endpoints_table) x" and es = "take 3 endpoints_table"
      and s = d and t = d and seconds = seconds and states = states]
  show ?thesis using assms(2) walk endpoints_table_device [of "Some zdo_endpoint_handler" x] by (simp add: endpoints_table_def)
qed

lemma app_wpan_tick_keeps:
  fixes g :: "app_dev \<Rightarrow> 'g"
  assumes "\<And>d. g (fault d) = g d" "\<And>states d. g (set_eps states d) = g d"
  shows "g (snd (app_wpan_tick d)) = g (snd (xbee_wpan_tick xbee_frame_handlers d))"
  using tick_walk_fault [of g, OF assms(1)] assms
  by (auto simp: app_wpan_tick_def Let_def case_prod_unfold split: option.splits)

section \<open>A message from the line to the line\<close>

lemma dispatch_explicit:
  assumes "length (env_ieee_address e) = 8" "length payload \<le> 128"
  shows "dispatch_frame xbee_frame_handlers (receive_explicit_frame e options payload) d =
    snd (handle_receive_explicit d (receive_explicit_frame e options payload) (of_nat (18 + length payload)))"
proof -
  have "dispatch_frame xbee_frame_handlers f d = snd (handle_receive_explicit d f (of_nat (length f)))"
    if "f ! 0 = XBEE_FRAME_RECEIVE_EXPLICIT" "0 < length f" "length f < 65536" for f
    using that by (simp add: dispatch_frame_eq xbee_frame_handlers_def)
  then show ?thesis
    using receive_explicit_frame_length [OF assms(1), of options payload] assms(2)
    by (simp add: receive_explicit_frame_def)
qed

text \<open>What is seen of the application from outside: the line out, the bytes left, the pins and a reset.\<close>

definition outside :: "app_dev \<Rightarrow> u8 list \<times> u8 list \<times> gpio \<times> (app_rst_cause \<times> addr64) option \<times> bool" where
  "outside d = (device_wire d, queue d, app_gpio (app d), app_reset (app d), dev_wf d)"

lemma outside_update: "(\<And>a. app_gpio (f a) = app_gpio a) \<Longrightarrow> (\<And>a. app_reset (f a) = app_reset a) \<Longrightarrow> outside (update_app f d) = outside d"
  by (simp add: outside_def device_wire_def queue_def dev_wf_def update_app_def app_def)

lemma message_tick:
  assumes "dev_wf d" "xd_flags d AND XBEE_DEV_FLAG_IN_TICK = 0" "rx_state (xd_rx d) = XBEE_RX_STATE_WAITSTART"
    and "length (env_ieee_address e) = 8" "length payload \<le> 128"
    and "queue d = junk @ frame_bytes (receive_explicit_frame e options payload)" "0x7E \<notin> set junk"
  defines "h \<equiv> snd (handle_receive_explicit (in_tick d) (receive_explicit_frame e options payload) (of_nat (18 + length payload)))"
  shows "outside (snd (app_wpan_tick d)) = (device_wire h, [], app_gpio (app h), app_reset (app h), True)"
proof -
  let ?f = "receive_explicit_frame e options payload"
  have len: "length ?f = 18 + length payload" by (rule receive_explicit_frame_length [OF assms(4)])
  have "parse_some 5 (rx_abs (xd_rx d)) (queue d) = (Hunting, [?f], [])"
    using parse_frame [of ?f junk "0xFF - sum_list ?f"] len assms(3,5-7) by (simp add: rx_abs_def frame_bytes_def)
  from wpan_tick_frames [OF assms(1,2) this] obtain d' where d': "snd (xbee_wpan_tick xbee_frame_handlers d) = d'" "queue d' = []" "dev_wf d'"
    "d' = (after_frames [?f] d)\<lparr>xd_flags := xd_flags (after_frames [?f] d) AND NOT XBEE_DEV_FLAG_IN_TICK, xd_rx := xd_rx d', xd_srx := xd_srx d'\<rparr>"
    by blast
  have h: "after_frames [?f] d = h"
    unfolding h_def by (simp add: after_frames_def dispatch_explicit [OF assms(4,5)])
  have "device_wire d' = device_wire h \<and> app d' = app h"
    unfolding h [symmetric] by (subst d'(4), subst (2) d'(4)) (simp add: device_wire_def app_def)
  moreover have "outside (snd (app_wpan_tick d)) = outside d'"
    unfolding d'(1) [symmetric]
    by (rule app_wpan_tick_keeps) (simp_all add: fault_def set_eps_def outside_update)
  ultimately show ?thesis using d'(2,3) by (simp add: outside_def)
qed

text \<open>
  C1: Reading the sensor, from the bytes on the radio's serial line to the bytes on the line back.  When
  the bytes that have arrived are, after noise without a start marker, the frame of a packet for
  the sensor's cluster of the custom endpoint with a ZCL command to read attributes, whatever
  attributes it names, one tick of the network takes them all and hands the module exactly one
  frame: to the sender of the packet, from the custom endpoint to the endpoint the packet came from,
  with the sequence number of the command and the attribute 0 as a Boolean with the level of the
  sensor's pin.  The pins stay as they are, and nothing is reset.
\<close>

theorem sensor_read_over_line:
  fixes fc sequence :: u8
  assumes "app_ready d" "dev_wf d" "xd_flags d AND XBEE_DEV_FLAG_IN_TICK = 0" "rx_state (xd_rx d) = XBEE_RX_STATE_WAITSTART"
    and "length (env_ieee_address e) = 8" "general_profile_command fc" "length args \<le> 125"
    and "env_dest_endpoint e = CUSTOM_ENDPOINT" "env_profile_id e = CUSTOM_EP_PROFILE" "env_cluster_id e = CUSTOM_SENSOR_CLUSTER"
    and "queue d = junk @ frame_bytes (receive_explicit_frame e options (fc # sequence # ZCL_CMD_READ_ATTRIB # args))" "0x7E \<notin> set junk"
  defines "d' \<equiv> snd (app_wpan_tick d)"
  shows "device_wire d' = device_wire d @ reply_frame (next_id d) e options
      [0x18, sequence, ZCL_CMD_READ_ATTRIB_RESP, 0, 0, ZCL_STATUS_SUCCESS, ZCL_TYPE_LOGICAL_BOOLEAN, if pin SENSOR d then 1 else 0] \<and>
    queue d' = [] \<and> app_gpio (app d') = app_gpio (app d) \<and> app_reset (app d') = app_reset (app d)"
proof -
  have ready: "app_ready (in_tick d)" using assms(1) by (simp add: app_ready_def flow_in_tick)
  have same: "device_wire (in_tick d) = device_wire d" "next_id (in_tick d) = next_id d" "app (in_tick d) = app d"
    "pin SENSOR (in_tick d) = pin SENSOR d"
    by (simp_all add: device_wire_def next_id_eq app_def pin_def)
  show ?thesis
    using sensor_read_answered [OF ready assms(5-10), of options sequence]
      message_tick [OF assms(2-5) _ assms(11,12)] assms(7)
    by (auto simp: d'_def outside_def same)
qed

section \<open>Giving up the processor\<close>

text \<open>What an answer leaves alone: everything but the sender, the output and the states of the endpoints.\<close>

definition quiet :: "app_dev \<Rightarrow> app_dev" where
  "quiet d = update_app (\<lambda>a. a\<lparr>cs_out := [], app_eps := (\<lambda>_. ep_state_idle), app_fault := False\<rparr>)
     (d\<lparr>xd_frame_id := 0, xd_stx := \<lparr>tx_sent = (\<lambda>_. []), tx_cts_pin = (\<lambda>_. False), tx_baud = (\<lambda>_. 0), tx_control = (\<lambda>_. [])\<rparr>\<rparr>)"

lemma quiet_update:
  "(\<And>a. (f a)\<lparr>cs_out := [], app_eps := (\<lambda>_. ep_state_idle), app_fault := False\<rparr> = a\<lparr>cs_out := [], app_eps := (\<lambda>_. ep_state_idle), app_fault := False\<rparr>)
    \<Longrightarrow> quiet (update_app f d) = quiet d"
  by (simp add: quiet_def update_app_def app_def)

lemma quiet_send: "quiet (d\<lparr>xd_frame_id := i, xd_stx := tx\<rparr>) = quiet d"
  by (simp add: quiet_def update_app_def app_def)

lemma quiet_reset: "app_reset (app (quiet d)) = app_reset (app d)"
  by (simp add: quiet_def update_app_def app_def)

definition kept :: "app_dev \<Rightarrow> app_dev \<Rightarrow> app_dev \<Rightarrow> bool" where
  "kept v s t \<longleftrightarrow> s = t \<and> quiet s = v"

interpretation kept: app_related "kept v" for v
proof
  fix s t :: app_dev and e :: wpan_envelope and flags :: u16
  assume st: "kept v s t"
  obtain tx where "snd (xbee_endpoint_send e flags s) = s\<lparr>xd_frame_id := next_id s, xd_stx := tx\<rparr>"
    by (rule endpoint_send_shape)
  then show "rel_prod (=) (kept v) (xbee_endpoint_send e flags s) (xbee_endpoint_send e flags t)"
    using st quiet_send by (auto simp: kept_def rel_prod_sel)
qed (auto simp: kept_def say_def set_eps_def fault_def quiet_update)

text \<open>The password is what the update server looks for.\<close>

definition password :: "wpan_envelope \<Rightarrow> bool" where
  "password env \<longleftrightarrow> env_length env = 1 \<and> take 1 (the (env_payload env)) = [0]"

lemma ota_refused: "\<not> password env \<Longrightarrow> kept v s t \<Longrightarrow> rel_prod (=) (kept v) (xbee_ota_server_cmd env () s) (xbee_ota_server_cmd env () t)"
proof -
  assume np: "\<not> password env" and st: "kept v s t"
  have one: "unat (env_length env) = 1 \<longleftrightarrow> env_length env = 1" by (simp add: word_unat_eq_iff)
  have "kept v (snd (xbee_update_firmware_ota env s)) (snd (xbee_update_firmware_ota env t)) \<and>
    fst (xbee_update_firmware_ota env s) = Some ''bad password'' \<and> fst (xbee_update_firmware_ota env t) = Some ''bad password''"
    using np st one kept.say by (auto simp: xbee_update_firmware_ota_def password_def TRIGGER_FW_UPDATE_def)
  then show ?thesis
    using st kept.wpan.envelope_send kept.view
    by (auto simp: xbee_ota_server_cmd_def Let_def rel_prod_sel case_prod_unfold split: option.split)
qed

lemma message_kept:
  assumes "\<not> (update_endpoint (receive_explicit_envelope 0 frame len) \<and> password (receive_explicit_envelope 0 frame len))"
  shows "quiet (snd (handle_receive_explicit d frame len)) = quiet d"
proof -
  let ?e = "receive_explicit_envelope 0 frame len"
  have "rel_prod (=) (kept (quiet d)) (handle_receive_explicit d frame len) (handle_receive_explicit d frame len)"
  proof (rule kept.receive)
    fix env s t
    assume "update_endpoint ?e" "same_message ?e env" "kept (quiet d) s t"
    moreover from this have "\<not> password env"
      using assms same_message_fields(3,4) [of ?e env] by (simp add: password_def)
    ultimately show "rel_prod (=) (kept (quiet d)) (xbee_ota_server_cmd env () s) (xbee_ota_server_cmd env () t)"
      using ota_refused by blast
  qed (simp add: kept_def)
  then show ?thesis by (simp add: kept_def rel_prod_sel)
qed

lemma ota_started:
  assumes "password env" "env_options env AND (WPAN_ENVELOPE_RX_APS_ENCRYPT OR ucast WPAN_CLUST_FLAG_ENCRYPT) \<noteq> ucast WPAN_CLUST_FLAG_ENCRYPT"
  shows "app_reset (app (snd (xbee_ota_server_cmd env () d))) =
    Some (if env_options env AND WPAN_ENVELOPE_RX_APS_ENCRYPT \<noteq> 0 then APP_CAUSE_FIRMWARE_UPDATE_APS else APP_CAUSE_FIRMWARE_UPDATE,
      env_ieee_address env)"
  using assms by (simp add: xbee_ota_server_cmd_def xbee_update_firmware_ota_def start_ota_fw_update_def password_def
      TRIGGER_FW_UPDATE_def Let_def case_prod_unfold)

text \<open>The options of a message for the update server when it is called.\<close>

lemma ota_options:
  fixes options :: u8
  defines "w \<equiv> (rx_options options OR WPAN_ENVELOPE_BROADCAST_EP) AND NOT WPAN_ENVELOPE_CLUSTER_FLAGS OR 0x81"
  shows "(rx_options options OR 0x81) AND (WPAN_ENVELOPE_RX_APS_ENCRYPT OR ucast WPAN_CLUST_FLAG_ENCRYPT) \<noteq> ucast WPAN_CLUST_FLAG_ENCRYPT"
    "w AND (WPAN_ENVELOPE_RX_APS_ENCRYPT OR ucast WPAN_CLUST_FLAG_ENCRYPT) \<noteq> ucast WPAN_CLUST_FLAG_ENCRYPT"
    "(rx_options options OR 0x81) AND WPAN_ENVELOPE_RX_APS_ENCRYPT \<noteq> 0 \<longleftrightarrow> options AND XBEE_RX_OPT_APS_ENCRYPT \<noteq> 0"
    "w AND WPAN_ENVELOPE_RX_APS_ENCRYPT \<noteq> 0 \<longleftrightarrow> options AND XBEE_RX_OPT_APS_ENCRYPT \<noteq> 0"
  unfolding w_def by (simp_all add: rx_options_def)

definition update_cause :: "u8 \<Rightarrow> app_rst_cause" where
  "update_cause options = (if options AND XBEE_RX_OPT_APS_ENCRYPT \<noteq> 0 then APP_CAUSE_FIRMWARE_UPDATE_APS else APP_CAUSE_FIRMWARE_UPDATE)"

lemma ota_message:
  assumes "update_endpoint e" "length (env_ieee_address e) = 8"
  shows "app_reset (app (snd (handle_receive_explicit d (receive_explicit_frame e options [0]) (of_nat (18 + length [0 :: u8]))))) =
    Some (update_cause options, env_ieee_address e)"
proof -
  let ?e = "received e options [0]" and ?o = "rx_options options"
  have ep: "env_dev ?e = Some 0" "env_cluster_id ?e = 0x1000" using assms(1) by (simp_all add: received_def update_endpoint_def)
  have start: "app_reset (app (snd (xbee_ota_server_cmd env () d))) = Some (update_cause options, env_ieee_address e)"
    if "same_message ?e env" "env_options env \<in> {?o OR 0x81, (?o OR WPAN_ENVELOPE_BROADCAST_EP) AND NOT WPAN_ENVELOPE_CLUSTER_FLAGS OR 0x81}" for env
  proof -
    have "password env" "env_ieee_address env = env_ieee_address e"
      using same_message_fields [OF that(1)] by (simp_all add: password_def received_def)
    then show ?thesis
      using ota_started [of env d] that(2) ota_options [of options] by (auto simp: update_cause_def)
  qed
  let ?first = "hd (endpoints_table)"
  have disp: "wpan_endpoint_dispatch invalid_cluster env ?first d =
      (case xbee_ota_server_cmd (env\<lparr>env_options := env_options env OR 0x81\<rparr>) () d of (r, d') \<Rightarrow> (r, env\<lparr>env_options := env_options env OR 0x81\<rparr>, d'))"
    if "env_cluster_id env = 0x1000" for env
    using that by (simp add: wpan_endpoint_dispatch_def endpoints_table_def endpoints_with_def wpan_cluster_match_def digi_data_clusters_def
        cluster_entry_def Let_def case_prod_unfold)
  have dev: "table_device ((\<lambda>_ :: nat. wpan_dev_of (Some endpoints_table) d) 0) (take 3 endpoints_table)"
    by (simp add: endpoints_table_def endpoints_table_device)
  show ?thesis
  proof (cases "env_dest_endpoint e = WPAN_ENDPOINT_BROADCAST")
    case True
    then have only: "filter (addressed ?e) (take 3 endpoints_table) = [?first]"
      using assms(1) by (simp add: addressed_def update_endpoint_def received_def endpoints_table_def endpoints_with_def CUSTOM_EP_PROFILE_def)
    let ?b = "?e\<lparr>env_options := env_options ?e OR WPAN_ENVELOPE_BROADCAST_EP\<rparr>"
    let ?m = "?b\<lparr>env_dest_endpoint := ep_endpoint ?first, env_options := env_options ?b AND NOT WPAN_ENVELOPE_CLUSTER_FLAGS\<rparr>"
    have "wpan_envelope_dispatch invalid_cluster (\<lambda>_. wpan_dev_of (Some endpoints_table) d) ?e d =
        Some (dispatch_one invalid_cluster (Inl ENOENT, ?b, d) ?first)"
      using dispatch_to_all [where devs = "\<lambda>_. wpan_dev_of (Some endpoints_table) d" and ic = invalid_cluster, OF dev ep(1)] True only
      by (simp add: received_def)
    moreover have "snd (snd (dispatch_one invalid_cluster (Inl ENOENT, ?b, d) ?first)) =
        snd (xbee_ota_server_cmd (?m\<lparr>env_options := env_options ?m OR 0x81\<rparr>) () d)"
      using disp [of ?m] ep(2) by (simp add: dispatch_one_def Let_def case_prod_unfold)
    moreover have "same_message ?e (?m\<lparr>env_options := env_options ?m OR 0x81\<rparr>)" by (simp add: same_message_def)
    moreover have "env_options (?m\<lparr>env_options := env_options ?m OR 0x81\<rparr>) =
        (?o OR WPAN_ENVELOPE_BROADCAST_EP) AND NOT WPAN_ENVELOPE_CLUSTER_FLAGS OR 0x81"
      by (simp add: received_def)
    ultimately show ?thesis
      using start [of "?m\<lparr>env_options := env_options ?m OR 0x81\<rparr>"] handle_receive_explicit_eq [OF assms(2), of "[0]" d options]
      by (simp only: option.case case_prod_unfold snd_conv list.size) simp
  next
    case False
    then have only: "find (addressed ?e) (take 3 endpoints_table) = Some ?first"
      using assms(1) by (auto simp: addressed_def update_endpoint_def received_def endpoints_table_def endpoints_with_def)
    have "wpan_envelope_dispatch invalid_cluster (\<lambda>_. wpan_dev_of (Some endpoints_table) d) ?e d =
        Some (wpan_endpoint_dispatch invalid_cluster ?e ?first d)"
      using dispatch_to_one [where devs = "\<lambda>_. wpan_dev_of (Some endpoints_table) d" and ic = invalid_cluster, OF dev ep(1)] False only
      by (simp add: received_def)
    moreover have "snd (snd (wpan_endpoint_dispatch invalid_cluster ?e ?first d)) =
        snd (xbee_ota_server_cmd (?e\<lparr>env_options := env_options ?e OR 0x81\<rparr>) () d)"
      using disp [OF ep(2)] by (simp add: case_prod_unfold)
    moreover have "env_options (?e\<lparr>env_options := env_options ?e OR 0x81\<rparr>) = ?o OR 0x81"
      by (simp add: received_def)
    ultimately show ?thesis
      using start [of "?e\<lparr>env_options := env_options ?e OR 0x81\<rparr>"] handle_receive_explicit_eq [OF assms(2), of "[0]" d options]
      by (simp only: option.case case_prod_unfold snd_conv list.size) simp
  qed
qed

text \<open>
  C2: Giving up the processor.  Whatever packet the bytes that have arrived hold, the application jumps
  into the boot loader in the tick that takes it exactly when the packet is for the update cluster
  of the endpoint for serial data, or of all endpoints of that profile, and its payload is the
  password, one zero byte; the sender is then the host of the update.  No other packet, and no
  answer to one, makes the application give up the processor.
\<close>

theorem update_reset_exact:
  assumes "dev_wf d" "xd_flags d AND XBEE_DEV_FLAG_IN_TICK = 0" "rx_state (xd_rx d) = XBEE_RX_STATE_WAITSTART"
    and "length (env_ieee_address e) = 8" "length payload \<le> 128"
    and "queue d = junk @ frame_bytes (receive_explicit_frame e options payload)" "0x7E \<notin> set junk"
  shows "app_reset (app (snd (app_wpan_tick d))) =
    (if update_endpoint e \<and> payload = [0] then Some (update_cause options, env_ieee_address e) else app_reset (app d))"
proof -
  let ?f = "receive_explicit_frame e options payload" and ?n = "of_nat (18 + length payload) :: u16"
  have tick: "app_reset (app (snd (app_wpan_tick d))) = app_reset (app (snd (handle_receive_explicit (in_tick d) ?f ?n)))"
    using message_tick [OF assms] by (simp add: outside_def)
  have env: "receive_explicit_envelope 0 ?f ?n = received e options payload"
    using receive_explicit_envelope_frame [OF assms(4)] assms(5) by (simp add: received_def rx_options_def)
  show ?thesis
  proof (cases "update_endpoint e \<and> payload = [0]")
    case True
    then show ?thesis using tick ota_message [OF _ assms(4), of "in_tick d" options] by simp
  next
    case False
    have len: "of_nat (length payload) = (1 :: u16) \<longleftrightarrow> length payload = 1"
      using assms(5) unat_of_nat_u16 [of "length payload"] by (auto simp: word_unat_eq_iff)
    have "update_endpoint (received e options payload) = update_endpoint e" by (simp add: update_endpoint_def received_def)
    moreover have "password (received e options payload) \<longleftrightarrow> payload = [0]"
      using len by (auto simp: password_def received_def length_Suc_conv)
    ultimately have "quiet (snd (handle_receive_explicit (in_tick d) ?f ?n)) = quiet (in_tick d)"
      using message_kept [of ?f ?n "in_tick d"] False env by auto
    then have "app_reset (app (snd (handle_receive_explicit (in_tick d) ?f ?n))) = app_reset (app (in_tick d))"
      by (metis (no_types, lifting) quiet_reset)
    then show ?thesis using False tick by (auto simp: app_def)
  qed
qed

section \<open>An example\<close>

text \<open>The device with bytes that have arrived.\<close>

definition demo_line :: "u8 list \<Rightarrow> app_dev" where
  "demo_line bs = demo_app\<lparr>xd_srx := demo_rx\<lparr>rx_bufs := (\<lambda>_.
     \<lparr>xc_lock = 0, xc_head = 0, xc_tail = of_nat (length bs), xc_mask = 63, xc_data = bs @ replicate (64 - length bs) 0\<rparr>)\<rparr>\<rparr>"

lemma demo_line_ok:
  assumes "length bs < 64"
  shows "queue (demo_line bs) = bs" "dev_wf (demo_line bs)" "app_ready (demo_line bs)"
    "xd_flags (demo_line bs) AND XBEE_DEV_FLAG_IN_TICK = 0" "rx_state (xd_rx (demo_line bs)) = XBEE_RX_STATE_WAITSTART"
proof -
  have n: "unat (of_nat (length bs) :: u8) = length bs" using assms by (intro unat_of_nat_u8) simp
  then have le: "(of_nat (length bs) :: u8) \<le> 63" using assms by (simp add: word_le_nat_alt)
  have "map (\<lambda>i. (bs @ replicate (64 - length bs) 0) ! (i mod 64)) [0..<length bs] = bs"
    using assms by (intro nth_equalityI) (simp_all add: nth_append)
  then show "queue (demo_line bs) = bs"
    using n assms by (simp add: queue_def demo_line_def demo_app_defs demo_rx_def xcb_contents_def xcb_count_def
        xcb_size_def ring_list_def)
  show "dev_wf (demo_line bs)"
    using n le assms by (simp add: dev_wf_def demo_line_def demo_app_defs demo_rx_def xcb_wf_def xcb_size_def rx_wf_def
        xbee_ser_invalid_def demo_port_def)
  show "app_ready (demo_line bs)" using demo_app_facts(1) by (simp add: app_ready_def demo_line_def)
  show "xd_flags (demo_line bs) AND XBEE_DEV_FLAG_IN_TICK = 0" "rx_state (xd_rx (demo_line bs)) = XBEE_RX_STATE_WAITSTART"
    by (simp_all add: demo_line_def demo_app_defs)
qed

lemma length_frame_bytes [simp]: "length (frame_bytes p) = length p + 4"
  by (simp add: frame_bytes_def)

definition demo_read :: app_dev where
  "demo_read = demo_line ([0x55] @ frame_bytes (receive_explicit_frame demo_message 0 [0, 9, ZCL_CMD_READ_ATTRIB, 0, 0]))"

theorem sensor_read_over_line_witness:
  "device_wire (snd (app_wpan_tick demo_read)) = device_wire demo_read @ reply_frame (next_id demo_read) demo_message 0
      [0x18, 9, ZCL_CMD_READ_ATTRIB_RESP, 0, 0, ZCL_STATUS_SUCCESS, ZCL_TYPE_LOGICAL_BOOLEAN, if pin SENSOR demo_read then 1 else 0] \<and>
    queue (snd (app_wpan_tick demo_read)) = [] \<and> app_gpio (app (snd (app_wpan_tick demo_read))) = app_gpio (app demo_read) \<and>
    app_reset (app (snd (app_wpan_tick demo_read))) = app_reset (app demo_read)"
proof -
  have m: "length (env_ieee_address demo_message) = 8" by (simp add: demo_message_def wpan_envelope_create_def)
  note ok = demo_line_ok [of "[0x55] @ frame_bytes (receive_explicit_frame demo_message 0 [0, 9, ZCL_CMD_READ_ATTRIB, 0, 0])", folded demo_read_def]
  show ?thesis
    by (rule sensor_read_over_line [where junk = "[0x55]" and args = "[0, 0]"])
      (use ok receive_explicit_frame_length [OF m, of 0 "[0, 9, ZCL_CMD_READ_ATTRIB, 0, 0]"] m in
        \<open>simp_all add: demo_message_def wpan_envelope_create_def general_profile_command_def\<close>)
qed

definition demo_update :: wpan_envelope where
  "demo_update = demo_message\<lparr>env_dest_endpoint := 0xE8, env_profile_id := 0xC105, env_cluster_id := 0x1000\<rparr>"

definition demo_host :: app_dev where
  "demo_host = demo_line ([] @ frame_bytes (receive_explicit_frame demo_update 0 [0]))"

theorem update_reset_exact_witness:
  "app_reset (app (snd (app_wpan_tick demo_host))) = Some (APP_CAUSE_FIRMWARE_UPDATE, replicate 8 7)"
proof -
  have m: "length (env_ieee_address demo_update) = 8" by (simp add: demo_update_def demo_message_def wpan_envelope_create_def)
  note ok = demo_line_ok [of "[] @ frame_bytes (receive_explicit_frame demo_update 0 [0])", folded demo_host_def]
  have "app_reset (app (snd (app_wpan_tick demo_host))) =
    (if update_endpoint demo_update \<and> [0] = [0 :: u8] then Some (update_cause 0, env_ieee_address demo_update) else app_reset (app demo_host))"
    by (rule update_reset_exact [where junk = "[]"])
      (use ok receive_explicit_frame_length [OF m, of 0 "[0]"] m in simp_all)
  then show ?thesis
    by (simp add: update_endpoint_def demo_update_def demo_message_def wpan_envelope_create_def update_cause_def)
qed

end
