(* ===== verification/Xbee_Xmodem.thy ===== *)
theory Xbee_Xmodem
  imports Xbee_Serial Byte_Util
begin

text \<open>
  Sending a file with XMODEM (\<open>pxbee/pan/xbee/xbee_xmodem.c\<close>), which firmware updates use: packets of
  64, 128 or 1024 bytes with a checksum or a CRC, each sent until the receiver acknowledges it, at
  most three times.

  The file and the line to the receiver are function pointers with a context; here they are functions
  on the state \<open>'w\<close> of everything else.  A function that reads returns its result and the bytes it has
  stored.  The result \<open>None\<close> of a tick stands for a loop that does not end.
\<close>

section \<open>The state\<close>

abbreviation XMODEM_NAK :: u8 where "XMODEM_NAK \<equiv> 0x15"
abbreviation XMODEM_CRC :: u8 where "XMODEM_CRC \<equiv> 0x43"
abbreviation XMODEM_SOH :: u8 where "XMODEM_SOH \<equiv> 0x01"
abbreviation XMODEM_STX :: u8 where "XMODEM_STX \<equiv> 0x02"
abbreviation XMODEM_ACK :: u8 where "XMODEM_ACK \<equiv> 0x06"
abbreviation XMODEM_CAN :: u8 where "XMODEM_CAN \<equiv> 0x18"
abbreviation XMODEM_EOT :: u8 where "XMODEM_EOT \<equiv> 0x04"

abbreviation XBEE_XMODEM_FLAG_CHECKSUM :: u16 where "XBEE_XMODEM_FLAG_CHECKSUM \<equiv> 0x0001"
abbreviation XBEE_XMODEM_FLAG_CRC :: u16 where "XBEE_XMODEM_FLAG_CRC \<equiv> 0x0002"
abbreviation XBEE_XMODEM_FLAG_FORCE_CRC :: u16 where "XBEE_XMODEM_FLAG_FORCE_CRC \<equiv> 0x0008"
abbreviation XBEE_XMODEM_MASK_BLOCKSIZE :: u16 where "XBEE_XMODEM_MASK_BLOCKSIZE \<equiv> 0x0300"
abbreviation XBEE_XMODEM_FLAG_64 :: u16 where "XBEE_XMODEM_FLAG_64 \<equiv> 0x0100"
abbreviation XBEE_XMODEM_FLAG_1K :: u16 where "XBEE_XMODEM_FLAG_1K \<equiv> 0x0200"

definition XBEE_XMODEM_FLAG_USER :: u16 where
  "XBEE_XMODEM_FLAG_USER = XBEE_XMODEM_MASK_BLOCKSIZE OR XBEE_XMODEM_FLAG_FORCE_CRC"

datatype xbee_xmodem_state =
    XM_FLUSH | XM_START | XM_SEND | XM_RESEND | XM_SENDING | XM_WAIT_ACK | XM_EOF | XM_FINAL_ACK
  | XM_SUCCESS | XM_FAILURE

type_synonym 'w xmodem_read = "int \<Rightarrow> 'w \<Rightarrow> (errno + int) \<times> u8 list \<times> 'w"
type_synonym 'w xmodem_write = "u8 list \<Rightarrow> int \<Rightarrow> 'w \<Rightarrow> (errno + int) \<times> 'w"

text \<open>\<open>xbee_xmodem_state_t\<close>; the buffer and the functions are \<open>None\<close> until they are set.\<close>

record 'w xmodem =
  xm_flags :: u16
  xm_packet_num :: u16
  xm_timer :: u16
  xm_state :: xbee_xmodem_state
  xm_tries :: u8
  xm_offset :: int
  xm_buffer :: "u8 list option"
  xm_file_read :: "'w xmodem_read"
  xm_read :: "'w xmodem_read"
  xm_write :: "'w xmodem_write"

definition xbee_xmodem_set_stream ::
    "'w xmodem option \<Rightarrow> 'w xmodem_read option \<Rightarrow> 'w xmodem_write option \<Rightarrow> (errno + int) \<times> 'w xmodem option" where
  "xbee_xmodem_set_stream xbxm read_fn write_fn =
     (case (xbxm, read_fn, write_fn) of
        (Some x, Some rd, Some wr) \<Rightarrow> (Inr 0, Some (x\<lparr>xm_read := rd, xm_write := wr\<rparr>))
      | _ \<Rightarrow> (Inl EINVAL, xbxm))"

definition xbee_xmodem_set_source ::
    "'w xmodem option \<Rightarrow> u8 list option \<Rightarrow> 'w xmodem_read option \<Rightarrow> (errno + int) \<times> 'w xmodem option" where
  "xbee_xmodem_set_source xbxm buffer read_fn =
     (case (xbxm, buffer, read_fn) of
        (Some x, Some b, Some rd) \<Rightarrow> (Inr 0, Some (x\<lparr>xm_buffer := Some b, xm_file_read := rd\<rparr>))
      | _ \<Rightarrow> (Inl EINVAL, xbxm))"

definition xbee_xmodem_tx_init :: "'w xmodem option \<Rightarrow> u16 \<Rightarrow> (errno + int) \<times> 'w xmodem option" where
  "xbee_xmodem_tx_init xbxm flags =
     (case xbxm of
        None \<Rightarrow> (Inl EINVAL, None)
      | Some x \<Rightarrow>
          (Inr 0, Some (x\<lparr>xm_flags := flags AND XBEE_XMODEM_FLAG_USER, xm_packet_num := 0, xm_state := XM_START\<rparr>)))"

section \<open>A serial port as the line\<close>

definition xmodem_ser_read :: "xbee_serial \<Rightarrow> (serial_rx \<times> serial_tx) xmodem_read" where
  "xmodem_ser_read serport bytes = (\<lambda>(rx, tx). case xbee_ser_read serport bytes rx of (r, bs, rx) \<Rightarrow> (r, bs, (rx, tx)))"

definition xmodem_ser_write :: "xbee_serial \<Rightarrow> (serial_rx \<times> serial_tx) xmodem_write" where
  "xmodem_ser_write serport buffer bytes = (\<lambda>(rx, tx). case xbee_ser_write serport buffer bytes tx of (r, tx) \<Rightarrow> (r, (rx, tx)))"

definition xbee_xmodem_use_serport ::
    "(serial_rx \<times> serial_tx) xmodem option \<Rightarrow> xbee_serial \<Rightarrow> (errno + int) \<times> (serial_rx \<times> serial_tx) xmodem option" where
  "xbee_xmodem_use_serport xbxm serport =
     xbee_xmodem_set_stream xbxm (Some (xmodem_ser_read serport)) (Some (xmodem_ser_write serport))"

section \<open>Characters and packets\<close>

definition xmodem_getchar :: "'w xmodem \<Rightarrow> 'w \<Rightarrow> (errno + int) \<times> 'w" where
  "xmodem_getchar x w =
     (case xm_read x 1 w of
        (Inr retval, bs, w) \<Rightarrow>
          (if retval = 1 then Inr (uint (if bs = [] then 0 else hd bs))
           else if retval = 0 then Inl ENODATA else Inr retval, w)
      | (Inl e, bs, w) \<Rightarrow> (Inl e, w))"

definition xmodem_putchar :: "'w xmodem \<Rightarrow> u8 \<Rightarrow> 'w \<Rightarrow> (errno + int) \<times> 'w" where
  "xmodem_putchar x ch w =
     (case xm_write x [ch] 1 w of
        (Inr retval, w) \<Rightarrow> (if retval = 1 then Inr 0 else if retval = 0 then Inl ENOSPC else Inr retval, w)
      | (Inl e, w) \<Rightarrow> (Inl e, w))"

text \<open>Bytes stored into the buffer from an index on.\<close>

definition store_at :: "nat \<Rightarrow> u8 list \<Rightarrow> 'w xmodem \<Rightarrow> 'w xmodem" where
  "store_at i bs x = x\<lparr>xm_buffer := map_option (\<lambda>b. take i b @ bs @ drop (i + length bs) b) (xm_buffer x)\<rparr>"

definition buffer_part :: "nat \<Rightarrow> nat \<Rightarrow> 'w xmodem \<Rightarrow> u8 list" where
  "buffer_part i n x = take n (drop i (the (xm_buffer x)))"

text \<open>The checksum adds \<open>char\<close>s into 16 bits; only the low byte is sent, which does not depend on the sign of \<open>char\<close>.\<close>

definition packet_check :: "'w xmodem \<Rightarrow> u16 \<Rightarrow> u8 list" where
  "packet_check x block_size =
     (let block = buffer_part 3 (unat block_size) x in
      if xm_flags x AND XBEE_XMODEM_FLAG_CRC \<noteq> 0 then
        let checksum = crc16_calc block block_size 0
        in [ucast (drop_bit 8 checksum), ucast (checksum AND 0x00FF)]
      else [ucast (foldl (\<lambda>c b. c + scast b) (0 :: u16) block)])"

definition assemble_packet :: "'w xmodem \<Rightarrow> u16 \<Rightarrow> 'w \<Rightarrow> (errno + int) \<times> 'w xmodem \<times> 'w" where
  "assemble_packet x block_size w =
     (let packet_num = ucast (xm_packet_num x);
          x = store_at 0 [if xm_flags x AND XBEE_XMODEM_FLAG_1K \<noteq> 0 then XMODEM_STX else XMODEM_SOH,
                          packet_num, NOT packet_num] (x\<lparr>xm_tries := 3\<rparr>);
          (err, bs, w) = xm_file_read x (uint block_size) w;
          x = store_at 3 bs x in
      case err of
        Inl e \<Rightarrow> if e = ENODATA then (Inr 1, x\<lparr>xm_state := XM_EOF\<rparr>, w) else (Inl e, x, w)
      | Inr n \<Rightarrow>
          if n = 0 then (Inr 1, x\<lparr>xm_state := XM_EOF\<rparr>, w)
          else
            let (more, w) = (if n < uint block_size
                             then case xm_file_read x 1 w of (r, _, w) \<Rightarrow> (r = Inr 1, w)
                             else (False, w)) in
            if more then (Inl EIO, x, w)
            else
              let x = (if n < uint block_size
                       then store_at (3 + nat n) (replicate (unat block_size - nat n) 0xFF) x else x)
              in (Inr 0, store_at (3 + unat block_size) (packet_check x block_size) x, w))"

definition block_size :: "'w xmodem \<Rightarrow> u16" where
  "block_size x =
     (let m = xm_flags x AND XBEE_XMODEM_MASK_BLOCKSIZE in
      if m = XBEE_XMODEM_FLAG_64 then 64 else if m = XBEE_XMODEM_FLAG_1K then 1024 else 128)"

section \<open>The tick\<close>

type_synonym 'w xm_result = "((errno + int) \<times> 'w xmodem \<times> 'w) option"

text \<open>The label \<open>failure\<close>.\<close>

definition xm_failure :: "errno \<Rightarrow> 'w xmodem \<Rightarrow> 'w \<Rightarrow> 'w xm_result" where
  "xm_failure err x w =
     (case xm_write x [XMODEM_CAN, XMODEM_CAN] 2 w of (_, w) \<Rightarrow> Some (Inl err, x\<lparr>xm_state := XM_FAILURE\<rparr>, w))"

definition xm_sending :: "('w \<Rightarrow> u32) \<Rightarrow> 'w xmodem \<Rightarrow> 'w \<Rightarrow> 'w xm_result" where
  "xm_sending ms x w =
     (let packet_size = uint (block_size x + (if xm_flags x AND XBEE_XMODEM_FLAG_CRC \<noteq> 0 then 5 else 4));
          (sent, w) = xm_write x (drop (nat (xm_offset x)) (the (xm_buffer x))) (packet_size - xm_offset x) w in
      case sent of
        Inl e \<Rightarrow> xm_failure e x w
      | Inr n \<Rightarrow>
          let x = x\<lparr>xm_offset := xm_offset x + n\<rparr>
          in Some (Inr 0, if xm_offset x = packet_size then x\<lparr>xm_state := XM_WAIT_ACK, xm_timer := ucast (ms w)\<rparr> else x, w))"

definition xm_resend :: "('w \<Rightarrow> u32) \<Rightarrow> 'w xmodem \<Rightarrow> 'w \<Rightarrow> 'w xm_result" where
  "xm_resend ms x w = xm_sending ms (x\<lparr>xm_offset := 0\<rparr>) w"

text \<open>The loop that reads characters until there are none.\<close>

partial_function (option) skip_chars :: "'w xmodem \<Rightarrow> 'w \<Rightarrow> 'w option" where
  "skip_chars x w = (case xmodem_getchar x w of (r, w) \<Rightarrow> if r \<noteq> Inl ENODATA then skip_chars x w else Some w)"

definition xm_send :: "('w \<Rightarrow> u32) \<Rightarrow> 'w xmodem \<Rightarrow> 'w \<Rightarrow> 'w xm_result" where
  "xm_send ms x w =
     (case assemble_packet x (block_size x) w of
        (Inl e, x, w) \<Rightarrow> xm_failure e x w
      | (Inr r, x, w) \<Rightarrow>
          if r > 0 then Some (Inr 0, x, w)
          else case skip_chars x w of None \<Rightarrow> None | Some w \<Rightarrow> xm_resend ms x w)"

definition xm_start :: "('w \<Rightarrow> u32) \<Rightarrow> 'w xmodem \<Rightarrow> 'w \<Rightarrow> 'w xm_result" where
  "xm_start ms x w =
     (let (ch, w) = xmodem_getchar x w;
          go = (\<lambda>flag. xm_send ms (x\<lparr>xm_flags := xm_flags x OR flag, xm_state := XM_SEND, xm_packet_num := 1\<rparr>) w) in
      if ch = Inr (uint XMODEM_NAK) \<and> xm_flags x AND XBEE_XMODEM_FLAG_FORCE_CRC = 0 then go XBEE_XMODEM_FLAG_CHECKSUM
      else if ch = Inr (uint XMODEM_CRC) then go XBEE_XMODEM_FLAG_CRC
      else Some (Inr 0, x, w))"

partial_function (option) flush_line :: "'w xmodem \<Rightarrow> 'w \<Rightarrow> ('w xmodem \<times> 'w) option" where
  "flush_line x w =
     (case xm_read x 64 w of
        (r, bs, w) \<Rightarrow>
          let x = store_at 0 bs x
          in case r of Inr n \<Rightarrow> if n > 0 then flush_line x w else Some (x, w) | Inl e \<Rightarrow> Some (x, w))"

definition xm_flush :: "('w \<Rightarrow> u32) \<Rightarrow> 'w xmodem \<Rightarrow> 'w \<Rightarrow> 'w xm_result" where
  "xm_flush ms x w =
     (case flush_line x w of None \<Rightarrow> None | Some (x, w) \<Rightarrow> xm_start ms (x\<lparr>xm_state := XM_START\<rparr>) w)"

definition xm_wait_ack :: "('w \<Rightarrow> u32) \<Rightarrow> 'w xmodem \<Rightarrow> 'w \<Rightarrow> 'w xm_result" where
  "xm_wait_ack ms x w =
     (let (ch, w) = xmodem_getchar x w in
      if ch = Inr (uint XMODEM_ACK) then
        Some (Inr 0, x\<lparr>xm_packet_num := xm_packet_num x + 1, xm_state := XM_SEND\<rparr>, w)
      else if (case ch of Inl _ \<Rightarrow> True | Inr c \<Rightarrow> c < 0) \<and> ucast (ms w) - xm_timer x < 10000 then Some (Inr 0, x, w)
      else
        let x = x\<lparr>xm_tries := xm_tries x - 1\<rparr>
        in if xm_tries x \<noteq> 0 then Some (Inr 0, x\<lparr>xm_state := XM_RESEND\<rparr>, w) else xm_failure ETIMEDOUT x w)"

definition xm_eof :: "('w \<Rightarrow> u32) \<Rightarrow> 'w xmodem \<Rightarrow> 'w \<Rightarrow> 'w xm_result" where
  "xm_eof ms x w =
     (let (_, w) = xmodem_putchar x XMODEM_EOT w
      in Some (Inr 0, x\<lparr>xm_state := XM_FINAL_ACK, xm_timer := ucast (ms w)\<rparr>, w))"

definition xm_final_ack :: "('w \<Rightarrow> u32) \<Rightarrow> 'w xmodem \<Rightarrow> 'w \<Rightarrow> 'w xm_result" where
  "xm_final_ack ms x w =
     (let (ch, w) = xmodem_getchar x w in
      if ch = Inr (uint XMODEM_ACK) then Some (Inr 1, x\<lparr>xm_state := XM_SUCCESS\<rparr>, w)
      else if (case ch of Inl _ \<Rightarrow> True | Inr c \<Rightarrow> c < 0) \<and> ucast (ms w) - xm_timer x < 3000 then Some (Inr 0, x, w)
      else
        let x = x\<lparr>xm_tries := xm_tries x - 1\<rparr>
        in if xm_tries x \<noteq> 0 then Some (Inr 0, x\<lparr>xm_state := XM_EOF\<rparr>, w) else xm_failure ETIMEDOUT x w)"

definition xbee_xmodem_tx_tick :: "('w \<Rightarrow> u32) \<Rightarrow> 'w xmodem \<Rightarrow> 'w \<Rightarrow> 'w xm_result" where
  "xbee_xmodem_tx_tick ms x w =
     (if xm_buffer x = None then Some (Inl EINVAL, x, w)
      else
        case xm_state x of
          XM_FLUSH \<Rightarrow> xm_flush ms x w
        | XM_START \<Rightarrow> xm_start ms x w
        | XM_SEND \<Rightarrow> xm_send ms x w
        | XM_RESEND \<Rightarrow> xm_resend ms x w
        | XM_SENDING \<Rightarrow> xm_sending ms x w
        | XM_WAIT_ACK \<Rightarrow> xm_wait_ack ms x w
        | XM_EOF \<Rightarrow> xm_eof ms x w
        | XM_FINAL_ACK \<Rightarrow> xm_final_ack ms x w
        | XM_SUCCESS \<Rightarrow> Some (Inr 1, x, w)
        | XM_FAILURE \<Rightarrow> Some (Inl ETIMEDOUT, x, w))"

end
