(* ===== verification/Xmodem_Line.thy ===== *)
theory Xmodem_Line
  imports Xbee_Xmodem
begin

text \<open>
  The other end of an XMODEM transfer, and the line between the two.  The receiver is a
  specification: it accepts intact packets in order, answers each with ACK, also one that it has got
  already, and refuses everything else.  The line may lose or damage packets and answers, but does
  not make up an ACK.  The locale \<open>xmodem_line\<close> states this of the functions that the sender is
  given; what the sender does over any such line is proved in it.
\<close>

section \<open>The receiver\<close>

record receiver =
  rc_crc :: bool
  rc_blk :: nat
  rc_next :: nat
  rc_data :: "u8 list"
  rc_done :: bool

definition check_bytes :: "bool \<Rightarrow> u8 list \<Rightarrow> u8 list" where
  "check_bytes crc block = (if crc then [ucast (drop_bit 8 (crc16_ref block 0)), ucast (crc16_ref block 0)] else [sum_list block])"

definition packet_good :: "receiver \<Rightarrow> u8 list \<Rightarrow> bool" where
  "packet_good r bs \<longleftrightarrow>
     length bs = rc_blk r + (if rc_crc r then 5 else 4) \<and> bs ! 0 \<in> {XMODEM_SOH, XMODEM_STX} \<and> bs ! 2 = NOT (bs ! 1) \<and>
     drop (3 + rc_blk r) bs = check_bytes (rc_crc r) (take (rc_blk r) (drop 3 bs))"

text \<open>The receiver has accepted \<open>rc_next\<close> packets; their numbers start with 1.\<close>

definition receive :: "u8 list \<Rightarrow> receiver \<Rightarrow> u8 \<times> receiver" where
  "receive bs r =
     (if bs = [XMODEM_EOT] then (XMODEM_ACK, r\<lparr>rc_done := True\<rparr>)
      else if \<not> packet_good r bs then (XMODEM_NAK, r)
      else if bs ! 1 = of_nat (Suc (rc_next r)) then
        (XMODEM_ACK, r\<lparr>rc_next := Suc (rc_next r), rc_data := rc_data r @ take (rc_blk r) (drop 3 bs)\<rparr>)
      else if bs ! 1 = of_nat (rc_next r) then (XMODEM_ACK, r)
      else (XMODEM_CAN, r))"

text \<open>What a write may do: it reaches the receiver or not, and an ACK comes only from a receiver that gave it.\<close>

definition heard :: "u8 list \<Rightarrow> receiver \<Rightarrow> receiver \<Rightarrow> u8 list \<Rightarrow> bool" where
  "heard bs r r' rs \<longleftrightarrow>
     (r' = r \<or> r' = snd (receive bs r)) \<and>
     (XMODEM_ACK \<in> set rs \<longrightarrow> r' = snd (receive bs r) \<and> fst (receive bs r) = XMODEM_ACK)"

section \<open>Packets\<close>

text \<open>The packet the sender makes of a block.\<close>

definition packet_of :: "'w xmodem \<Rightarrow> u16 \<Rightarrow> u8 list \<Rightarrow> u8 list" where
  "packet_of x num block =
     [if xm_flags x AND XBEE_XMODEM_FLAG_1K \<noteq> 0 then XMODEM_STX else XMODEM_SOH, ucast num, NOT (ucast num)] @ block @
     check_bytes (xm_flags x AND XBEE_XMODEM_FLAG_CRC \<noteq> 0) block"

lemma length_check_bytes [simp]: "length (check_bytes crc block) = (if crc then 2 else 1)"
  by (simp add: check_bytes_def)

lemma length_packet_of [simp]:
  "length (packet_of x num block) = 3 + length block + (if xm_flags x AND XBEE_XMODEM_FLAG_CRC \<noteq> 0 then 2 else 1)"
  by (simp add: packet_of_def)

lemma ucast_add_u8: "(ucast (a + b :: u16) :: u8) = ucast a + ucast b"
  by (rule word_unat_eq_iff [THEN iffD2]) (simp add: unat_word_ariths unsigned_ucast_eq take_bit_eq_mod mod_simps mod_mod_cancel)

lemma ucast_scast_u8: "(ucast (scast (b :: u8) :: u16) :: u8) = b"
  by (rule bit_word_eqI) (auto simp: bit_simps)

lemma low_byte_foldl: "ucast (foldl (\<lambda>c b. c + scast b) c block) = ucast c + sum_list block" for c :: u16 and block :: "u8 list"
  by (induction block arbitrary: c) (simp_all add: ucast_add_u8 ucast_scast_u8 add.assoc)

lemma ucast_and_255: "(ucast (c AND 255 :: u16) :: u8) = ucast c"
proof -
  have "(ucast (c AND mask 8) :: u8) = ucast c" by (rule bit_word_eqI) (auto simp: bit_simps)
  then show ?thesis by (simp add: mask_eq_exp_minus_1)
qed

lemma packet_check_eq:
  assumes "xm_buffer x = Some b" "take (unat n) (drop 3 b) = block" "length block = unat n"
  shows "packet_check x n = check_bytes (xm_flags x AND XBEE_XMODEM_FLAG_CRC \<noteq> 0) block"
  using assms crc16_loop_eq [of "unat n" block 0]
  by (simp add: packet_check_def buffer_part_def Let_def crc16_calc_def check_bytes_def low_byte_foldl ucast_and_255)

text \<open>The file in blocks, the last one filled up.\<close>

definition block_of :: "nat \<Rightarrow> u8 list \<Rightarrow> nat \<Rightarrow> u8 list" where
  "block_of blk f i = (let b = take blk (drop (i * blk) f) in b @ replicate (blk - length b) 0xFF)"

definition blocks_of :: "nat \<Rightarrow> u8 list \<Rightarrow> nat \<Rightarrow> u8 list" where
  "blocks_of blk f n = concat (map (block_of blk f) [0..<n])"

lemma length_block_of [simp]: "length (block_of blk f i) = blk"
  by (simp add: block_of_def Let_def)

lemma blocks_of_Suc: "blocks_of blk f (Suc n) = blocks_of blk f n @ block_of blk f n"
  by (simp add: blocks_of_def)

lemma blocks_of_prefix: "blocks_of blk f n = take (n * blk) f @ replicate (n * blk - length f) 0xFF"
proof (induction n)
  case (Suc n)
  have "n * blk - length f + (blk - (length f - n * blk)) = Suc n * blk - length f" if "length f \<le> n * blk"
    using that by simp
  moreover have "take (Suc n * blk) f = take (n * blk) f @ take blk (drop (n * blk) f)"
    by (simp add: take_add [symmetric] add.commute)
  ultimately show ?case
    using Suc by (cases "length f \<le> n * blk") (simp_all add: blocks_of_Suc block_of_def Let_def replicate_add [symmetric] min_def not_le)
qed (simp add: blocks_of_def)

text \<open>The file filled up to whole blocks.\<close>

definition padded :: "nat \<Rightarrow> u8 list \<Rightarrow> u8 list" where
  "padded blk f = f @ replicate ((blk - length f mod blk) mod blk) 0xFF"

lemma padded_eq:
  assumes "length f \<le> n * blk" "n * blk < length f + blk"
  shows "blocks_of blk f n = padded blk f"
proof -
  let ?d = "n * blk - length f"
  have "(blk - length f mod blk) mod blk = ?d"
  proof (cases "?d = 0")
    case True
    then have "length f = n * blk" using assms(1) by simp
    then show ?thesis by simp
  next
    case False
    then obtain m where "n = Suc m" by (cases n) auto
    then have "length f = (blk - ?d) + m * blk" "blk - ?d < blk" using False assms by auto
    then have "length f mod blk = blk - ?d" by (metis mod_less mod_mult_self1)
    then show ?thesis using assms False by simp
  qed
  then show ?thesis using assms(1) by (simp add: blocks_of_prefix padded_def)
qed

lemma receive_packet_eq:
  assumes "length block = rc_blk r"
  shows "receive (packet_of x num block) r =
    (if \<not> packet_good r (packet_of x num block) then (XMODEM_NAK, r)
     else if ucast num = (of_nat (Suc (rc_next r)) :: u8) then
       (XMODEM_ACK, r\<lparr>rc_next := Suc (rc_next r), rc_data := rc_data r @ block\<rparr>)
     else if ucast num = (of_nat (rc_next r) :: u8) then (XMODEM_ACK, r) else (XMODEM_CAN, r))"
proof -
  have "packet_of x num block ! 1 = ucast num" "take (rc_blk r) (drop 3 (packet_of x num block)) = block"
    using assms by (simp_all add: packet_of_def)
  moreover have "packet_of x num block \<noteq> [XMODEM_EOT]" by (simp add: packet_of_def)
  ultimately show ?thesis unfolding receive_def by (simp only: if_False)
qed

lemma receive_packet:
  assumes "length block = rc_blk r" "snd (receive (packet_of x num block) r) = r'"
  shows "rc_blk r' = rc_blk r"
    and "r' = r \<or> (ucast num = (of_nat (Suc (rc_next r)) :: u8) \<and> rc_next r' = Suc (rc_next r) \<and> rc_data r' = rc_data r @ block)"
    and "fst (receive (packet_of x num block) r) = XMODEM_ACK \<Longrightarrow> r' = r \<Longrightarrow> ucast num = (of_nat (rc_next r) :: u8)"
  using assms(2) by (auto simp: receive_packet_eq [OF assms(1)] dest: arg_cong [of _ _ rc_next] split: if_splits)

lemma store_parts:
  "xm_buffer x = Some (pre @ mid @ post) \<Longrightarrow> length pre = i \<Longrightarrow> length mid = length bs \<Longrightarrow>
    store_at i bs x = x\<lparr>xm_buffer := Some (pre @ bs @ post)\<rparr>"
  by (simp add: store_at_def)

lemma buffer_parts:
  assumes "i + j + k + l \<le> length b"
  obtains b0 b1 b2 b3 b4 where "b = b0 @ b1 @ b2 @ b3 @ b4" "length b0 = i" "length b1 = j" "length b2 = k" "length b3 = l"
proof
  let ?r = "drop i b"
  show "b = take i b @ take j ?r @ take k (drop j ?r) @ take l (drop k (drop j ?r)) @ drop l (drop k (drop j ?r))"
    by (simp only: append_take_drop_id)
qed (use assms in simp_all)

section \<open>The invariant\<close>

text \<open>How the sender, the file that is left, the answers that wait and the receiver fit together.\<close>

definition xm_inv :: "nat \<Rightarrow> u8 list \<Rightarrow> 'w xmodem \<Rightarrow> u8 list \<Rightarrow> u8 list \<Rightarrow> receiver \<Rightarrow> bool" where
  "xm_inv blk f x inp ans r \<longleftrightarrow> rc_blk r = blk \<and> rc_data r = blocks_of blk f (rc_next r) \<and>
     (case xm_state x of
        XM_FLUSH \<Rightarrow> inp = f \<and> rc_next r = 0
      | XM_START \<Rightarrow> inp = f \<and> rc_next r = 0
      | XM_SEND \<Rightarrow> xm_packet_num x = of_nat (Suc (rc_next r)) \<and> inp = drop (rc_next r * blk) f \<and>
          rc_next r * blk < length f + blk
      | XM_SENDING \<Rightarrow> False
      | XM_EOF \<Rightarrow> length f \<le> rc_next r * blk \<and> rc_next r * blk < length f + blk
      | XM_FINAL_ACK \<Rightarrow> length f \<le> rc_next r * blk \<and> rc_next r * blk < length f + blk
      | XM_SUCCESS \<Rightarrow> length f \<le> rc_next r * blk \<and> rc_next r * blk < length f + blk
      | XM_FAILURE \<Rightarrow> True
      | _ \<Rightarrow> \<exists>n rest. xm_packet_num x = of_nat (Suc n) \<and> inp = drop (Suc n * blk) f \<and> n * blk < length f \<and> rc_next r \<in> {n, Suc n} \<and>
          (XMODEM_ACK \<in> set ans \<longrightarrow> rc_next r = Suc n) \<and>
          xm_buffer x = Some (packet_of x (xm_packet_num x) (block_of blk f n) @ rest))"

lemma neighbours_differ: "(of_nat n :: u8) \<noteq> of_nat (Suc n)"
  by simp

lemma low_of_nat: "(ucast (of_nat n :: u16) :: u8) = of_nat n"
  by (rule word_unat_eq_iff [THEN iffD2]) (simp only: unsigned_ucast_eq unsigned_of_nat take_bit_eq_mod, simp add: mod_mod_cancel)

text \<open>A packet is sent, for the first time or again.\<close>

lemma waiting_inv:
  assumes "rc_blk r = blk" "rc_data r = blocks_of blk f (rc_next r)" "rc_next r \<in> {n, Suc n}"
    and "XMODEM_ACK \<in> set ans \<longrightarrow> rc_next r = Suc n"
    and "heard (packet_of x num (block_of blk f n)) r r' rs" "ans' = ans @ rs"
    and "xm_state y = XM_WAIT_ACK" "xm_packet_num y = num" "num = of_nat (Suc n)" "inp = drop (Suc n * blk) f"
    and "xm_buffer y = Some (packet_of y num (block_of blk f n) @ rest)" "n * blk < length f"
  shows "xm_inv blk f y inp ans' r'"
proof -
  let ?p = "packet_of x num (block_of blk f n)"
  have low: "(ucast num :: u8) = of_nat (Suc n)" unfolding assms(9) by (rule low_of_nat)
  let ?q = "snd (receive ?p r)"
  have len: "length (block_of blk f n) = rc_blk r" using assms(1) by simp
  have next_low: "rc_next r = Suc n \<Longrightarrow> (ucast num :: u8) \<noteq> of_nat (Suc (rc_next r))"
    unfolding low by (simp only: neighbours_differ not_False_eq_True)
  have q: "rc_blk ?q = blk" "?q = r \<or> (rc_next r = n \<and> rc_next ?q = Suc n \<and> rc_data ?q = rc_data r @ block_of blk f n)"
    using receive_packet(1,2) [OF len refl, of x num] assms(1,3) next_low by auto
  have acked: "rc_next ?q = Suc n" if "fst (receive ?p r) = XMODEM_ACK"
  proof (cases "?q = r")
    case True
    then have "(of_nat (Suc n) :: u8) = of_nat (rc_next r)" using receive_packet(3) [OF len refl that] low by simp
    then show ?thesis using assms(3) True neighbours_differ [of n] by (metis insertE singletonD)
  qed (use q(2) in blast)
  have r': "rc_blk r' = blk" "r' = r \<or> (rc_next r = n \<and> rc_next r' = Suc n \<and> rc_data r' = rc_data r @ block_of blk f n)"
    using assms(1,5) q unfolding heard_def by blast+
  have "XMODEM_ACK \<in> set ans' \<longrightarrow> rc_next r' = Suc n"
    using assms(4,5,6) acked r'(2) unfolding heard_def by auto
  then show ?thesis
    using r' assms(2,3,7-12) by (auto simp: xm_inv_def blocks_of_Suc)
qed

lemma xm_inv_answers:
  assumes "xm_inv blk f x inp ans r" "XMODEM_ACK \<in> set ans' \<longrightarrow> XMODEM_ACK \<in> set ans"
  shows "xm_inv blk f x inp ans' r"
  using assms unfolding xm_inv_def by (cases "xm_state x"; simp; blast)

lemma xm_inv_data: "xm_inv blk f x inp ans r \<Longrightarrow> rc_blk r = blk \<and> rc_data r = blocks_of blk f (rc_next r)"
  by (simp add: xm_inv_def)

section \<open>The sender over a line\<close>

text \<open>The buffer is large enough and the functions are those of the line.\<close>

locale xmodem_reads =
  fixes input :: "'w \<Rightarrow> u8 list" and answers :: "'w \<Rightarrow> u8 list" and peer :: "'w \<Rightarrow> receiver" and ok :: "'w \<Rightarrow> bool"
    and file_read :: "'w xmodem_read" and rd :: "'w xmodem_read" and wr :: "'w xmodem_write"
  assumes read_file: "ok w \<Longrightarrow> 0 \<le> n \<Longrightarrow> file_read n w = (r, bs, w') \<Longrightarrow>
      bs = take (nat n) (input w) \<and> r = Inr (int (length bs)) \<and> input w' = drop (nat n) (input w) \<and>
      answers w' = answers w \<and> peer w' = peer w \<and> ok w'"
    and read_line: "ok w \<Longrightarrow> 0 \<le> n \<Longrightarrow> rd n w = (r, bs, w') \<Longrightarrow>
      bs = take (nat n) (answers w) \<and> r = Inr (int (length bs)) \<and> answers w' = drop (nat n) (answers w) \<and>
      input w' = input w \<and> peer w' = peer w \<and> ok w'"
begin

definition wired :: "nat \<Rightarrow> 'w xmodem \<Rightarrow> bool" where
  "wired blk x \<longleftrightarrow> xm_file_read x = file_read \<and> xm_read x = rd \<and> xm_write x = wr \<and> unat (block_size x) = blk \<and>
     (\<exists>b. xm_buffer x = Some b \<and> blk + 5 \<le> length b)"

lemma getchar:
  assumes "ok w" "wired blk x" "xmodem_getchar x w = (r, w')"
  shows "input w' = input w" "peer w' = peer w" "ok w'"
    and "answers w' = tl (answers w)" "r = (if answers w = [] then Inl ENODATA else Inr (uint (hd (answers w))))"
proof -
  obtain q bs v where q: "rd 1 w = (q, bs, v)" by (metis prod_cases3)
  show "input w' = input w" "peer w' = peer w" "ok w'" "answers w' = tl (answers w)"
    "r = (if answers w = [] then Inl ENODATA else Inr (uint (hd (answers w))))"
    using assms read_line [OF assms(1) _ q] q by (cases "answers w"; simp add: xmodem_getchar_def wired_def)+
qed

lemma skip_chars:
  assumes "ok w" "wired blk x"
  obtains w' where "skip_chars x w = Some w'" "input w' = input w" "peer w' = peer w" "ok w'" "answers w' = []"
proof -
  have "\<exists>w'. skip_chars x w = Some w' \<and> input w' = input w \<and> peer w' = peer w \<and> ok w' \<and> answers w' = []"
    using assms(1)
  proof (induction "length (answers w)" arbitrary: w rule: less_induct)
    case less
    obtain r v where rv: "xmodem_getchar x w = (r, v)" by fastforce
    note g = getchar [OF less.prems assms(2) rv]
    show ?case
    proof (cases "answers w = []")
      case True
      then show ?thesis using g rv by (simp add: skip_chars.simps)
    next
      case False
      then have "length (answers v) < length (answers w)" using g(4) by simp
      from less.hyps [OF this g(3)] show ?thesis using g False rv by (subst skip_chars.simps) (auto simp: rv)
    qed
  qed
  then show thesis using that by blast
qed

lemma assemble:
  assumes "ok w" "wired blk x" "assemble_packet x (block_size x) w = (r, x', w')" "blk > 0"
  shows "answers w' = answers w" "peer w' = peer w" "ok w'" "wired blk x'"
    and "input w = [] \<Longrightarrow> r = Inr 1 \<and> xm_state x' = XM_EOF \<and> input w' = []"
    and "input w \<noteq> [] \<Longrightarrow> r = Inr 0 \<and> input w' = drop blk (input w) \<and> xm_state x' = xm_state x \<and>
      xm_packet_num x' = xm_packet_num x \<and> xm_flags x' = xm_flags x \<and> xm_tries x' = 3 \<and>
      (\<exists>rest. xm_buffer x' = Some (packet_of x (xm_packet_num x) (block_of blk (input w) 0) @ rest))"
proof -
  obtain b where b: "xm_buffer x = Some b" "blk + 5 \<le> length b" using assms(2) by (auto simp: wired_def)
  have size: "unat (block_size x) = blk" "uint (block_size x) = int blk" using assms(2) by (auto simp: wired_def)
  let ?h = "[if xm_flags x AND XBEE_XMODEM_FLAG_1K \<noteq> 0 then XMODEM_STX else XMODEM_SOH, ucast (xm_packet_num x), NOT (ucast (xm_packet_num x))]"
  obtain q bs v where v: "file_read (int blk) w = (q, bs, v)" by (metis prod_cases3)
  have f: "bs = take blk (input w)" "q = Inr (int (length bs))" "input v = drop blk (input w)" "answers v = answers w"
    "peer v = peer w" "ok v"
    using read_file [OF assms(1) _ v] by simp_all
  have wired: "xm_file_read x = file_read" "xm_read x = rd" "xm_write x = wr" using assms(2) by (simp_all add: wired_def)
  have short: "\<exists>u. (if int (length bs) < uint (block_size x) then case file_read 1 v of (r, _, w) \<Rightarrow> (r = Inr 1, w) else (False, v)) = (False, u) \<and>
      input u = drop blk (input w) \<and> answers u = answers w \<and> peer u = peer w \<and> ok u"
  proof (cases "length bs < blk")
    case True
    then have none: "input v = []" using f(1,3) by simp
    obtain q' bs' u where u: "file_read 1 v = (q', bs', u)" by (metis prod_cases3)
    show ?thesis using read_file [OF f(6) _ u] none f True size u by simp
  qed (use f size in simp)
  obtain u where u: "(if int (length bs) < uint (block_size x) then case file_read 1 v of (r, _, w) \<Rightarrow> (r = Inr 1, w) else (False, v)) = (False, u)"
    "input u = drop blk (input w)" "answers u = answers w" "peer u = peer w" "ok u"
    using short by blast
  have cs: "3 + length bs + (blk - length bs) + (if xm_flags x AND XBEE_XMODEM_FLAG_CRC \<noteq> 0 then 2 else 1) \<le> length b"
    using b f(1) by auto
  from buffer_parts [OF cs] obtain b0 b1 b2 b3 b4 where parts: "b = b0 @ b1 @ b2 @ b3 @ b4" "length b0 = 3" "length b1 = length bs"
    "length b2 = blk - length bs" "length b3 = (if xm_flags x AND XBEE_XMODEM_FLAG_CRC \<noteq> 0 then 2 else 1)"
    by blast
  let ?x1 = "x\<lparr>xm_tries := 3, xm_buffer := Some (?h @ bs @ b2 @ b3 @ b4)\<rparr>"
  let ?fill = "replicate (blk - length bs) 0xFF"
  let ?block = "bs @ ?fill"
  have x1: "store_at 3 bs (store_at 0 ?h (x\<lparr>xm_tries := 3\<rparr>)) = ?x1"
    using b(1) parts store_parts [of "x\<lparr>xm_tries := 3\<rparr>" "[]" b0 "b1 @ b2 @ b3 @ b4" 0 ?h]
      store_parts [of "x\<lparr>xm_tries := 3, xm_buffer := Some (?h @ b1 @ b2 @ b3 @ b4)\<rparr>" ?h b1 "b2 @ b3 @ b4" 3 bs] by simp
  let ?x2 = "x\<lparr>xm_tries := 3, xm_buffer := Some (?h @ ?block @ b3 @ b4)\<rparr>"
  have x2: "(if int (length bs) < uint (block_size x) then store_at (3 + nat (int (length bs))) (replicate (unat (block_size x) - nat (int (length bs))) 0xFF) ?x1
      else ?x1) = ?x2"
    using parts size f(1) store_parts [of ?x1 "?h @ bs" b2 "b3 @ b4" "3 + length bs" ?fill] by auto
  have block: "?block = block_of blk (input w) 0" using f(1) by (simp add: block_of_def)
  have x3: "store_at (3 + unat (block_size x)) (packet_check ?x2 (block_size x)) ?x2 =
      x\<lparr>xm_tries := 3, xm_buffer := Some (packet_of x (xm_packet_num x) ?block @ b4)\<rparr>"
    using packet_check_eq [of ?x2 "?h @ ?block @ b3 @ b4" "block_size x" ?block] size parts(5) f(1)
      store_parts [of ?x2 "?h @ ?block" b3 b4 "3 + blk" "check_bytes (xm_flags x AND XBEE_XMODEM_FLAG_CRC \<noteq> 0) ?block"]
    by (simp add: packet_of_def)
  have result: "assemble_packet x (block_size x) w =
      (if bs = [] then (Inr 1, ?x1\<lparr>xm_state := XM_EOF\<rparr>, v)
       else (Inr 0, x\<lparr>xm_tries := 3, xm_buffer := Some (packet_of x (xm_packet_num x) ?block @ b4)\<rparr>, u))"
  proof -
    have reader: "xm_file_read (store_at i c y) = xm_file_read y" for i c and y :: "'w xmodem" by (simp add: store_at_def)
    have "xm_file_read (store_at 3 bs (store_at 0 ?h (x\<lparr>xm_tries := 3\<rparr>))) = file_read" by (simp add: reader wired)
    then have w1: "xm_file_read ?x1 = file_read" by (simp only: x1)
    have w0: "xm_file_read (store_at 0 ?h (x\<lparr>xm_tries := 3\<rparr>)) = file_read" by (simp add: reader wired)
    show ?thesis
      by (simp only: assemble_packet_def Let_def w0 w1 v [folded size(2)] prod.case sum.case f(2) x1 u(1) if_False x2 x3) simp
  qed
  show "answers w' = answers w" "peer w' = peer w" "ok w'"
    using assms(3) result u f by (auto split: if_splits)
  show "wired blk x'"
    using assms(2,3) result b parts by (auto simp: wired_def block_size_def packet_of_def split: if_splits)
  show "input w = [] \<Longrightarrow> r = Inr 1 \<and> xm_state x' = XM_EOF \<and> input w' = []"
    using assms(3) result f by auto
  show "input w \<noteq> [] \<Longrightarrow> r = Inr 0 \<and> input w' = drop blk (input w) \<and> xm_state x' = xm_state x \<and>
      xm_packet_num x' = xm_packet_num x \<and> xm_flags x' = xm_flags x \<and> xm_tries x' = 3 \<and>
      (\<exists>rest. xm_buffer x' = Some (packet_of x (xm_packet_num x) (block_of blk (input w) 0) @ rest))"
    using assms(3,4) result f u block by (auto simp: take_eq_Nil)
qed

lemma wired_same:
  assumes "wired blk x" "xm_file_read y = xm_file_read x" "xm_read y = xm_read x" "xm_write y = xm_write x"
    "xm_flags y AND XBEE_XMODEM_MASK_BLOCKSIZE = xm_flags x AND XBEE_XMODEM_MASK_BLOCKSIZE" "xm_buffer y = xm_buffer x"
  shows "wired blk y"
  using assms by (simp add: wired_def block_size_def)

end

locale xmodem_line = xmodem_reads +
  assumes write_line: "ok w \<Longrightarrow> 0 \<le> n \<Longrightarrow> nat n \<le> length bs \<Longrightarrow> wr bs n w = (r, w') \<Longrightarrow>
      r = Inr n \<and> input w' = input w \<and> ok w' \<and>
      (\<exists>rs. answers w' = answers w @ rs \<and> heard (take (nat n) bs) (peer w) (peer w') rs)"
begin

lemma resend_write:
  assumes "ok w" "wired blk x" "xm_buffer x = Some (packet_of x num block @ rest)" "length block = blk"
  obtains w' i t rs where "xm_resend ms x w = Some (Inr 0, x\<lparr>xm_offset := i, xm_state := XM_WAIT_ACK, xm_timer := t\<rparr>, w')"
    "ok w'" "input w' = input w" "answers w' = answers w @ rs" "heard (packet_of x num block) (peer w) (peer w') rs"
    "wr (packet_of x num block @ rest) (int (length (packet_of x num block))) w = (Inr (int (length (packet_of x num block))), w')"
proof -
  let ?p = "packet_of x num block" and ?c = "if xm_flags x AND XBEE_XMODEM_FLAG_CRC \<noteq> 0 then 5 else 4 :: u16"
  let ?x = "x\<lparr>xm_offset := 0\<rparr>"
  have blk: "block_size ?x = block_size x" by (simp add: block_size_def)
  have "block_size x \<in> {64, 128, 1024}" by (simp add: block_size_def Let_def)
  then have "uint (block_size x + ?c) = uint (block_size x) + uint ?c" by auto
  moreover have "uint (block_size x) = int blk" using assms(2) by (auto simp: wired_def)
  ultimately have size: "uint (block_size x + ?c) = int (length ?p)" using assms(4) by auto
  obtain q w' where q: "wr (?p @ rest) (int (length ?p)) w = (q, w')" by fastforce
  have wr: "xm_write x = wr" using assms(2) by (simp add: wired_def)
  have line: "q = Inr (int (length ?p))" "input w' = input w" "ok w'" "\<exists>rs. answers w' = answers w @ rs \<and> heard ?p (peer w) (peer w') rs"
    using write_line [OF assms(1) _ _ q] by simp_all
  have "xm_resend ms x w = Some (Inr 0, x\<lparr>xm_offset := int (length ?p), xm_state := XM_WAIT_ACK, xm_timer := ucast (ms w')\<rparr>, w')"
    using size q assms(3) line(1) by (simp add: xm_resend_def xm_sending_def blk wr)
  then show thesis using line(2-) that q [unfolded line(1)] by blast
qed

lemma resend:
  assumes "ok w" "wired blk x" "xm_buffer x = Some (packet_of x num block @ rest)" "length block = blk"
  obtains w' i t rs where "xm_resend ms x w = Some (Inr 0, x\<lparr>xm_offset := i, xm_state := XM_WAIT_ACK, xm_timer := t\<rparr>, w')"
    "ok w'" "input w' = input w" "answers w' = answers w @ rs" "heard (packet_of x num block) (peer w) (peer w') rs"
  by (rule resend_write [OF assms]) (rule that)

definition inv :: "nat \<Rightarrow> u8 list \<Rightarrow> 'a xmodem \<Rightarrow> 'a \<Rightarrow> bool" where
  "inv blk f x w \<longleftrightarrow> ok w \<and> wired blk x \<and> xm_inv blk f x (input w) (answers w) (peer w)"

lemma send_tick:
  assumes "ok w" "wired blk x" "0 < blk" "rc_blk (peer w) = blk" "rc_data (peer w) = blocks_of blk f (rc_next (peer w))"
    and "xm_packet_num x = of_nat (Suc (rc_next (peer w)))" "input w = drop (rc_next (peer w) * blk) f"
    and "rc_next (peer w) * blk < length f + blk"
  shows "\<exists>r x' w'. xm_send ms x w = Some (r, x', w') \<and> inv blk f x' w' \<and> r \<noteq> Inr 1"
proof -
  let ?n = "rc_next (peer w)"
  obtain r y v where a: "assemble_packet x (block_size x) w = (r, y, v)" by (metis prod_cases3)
  note asm = assemble [OF assms(1,2) a assms(3)]
  show ?thesis
  proof (cases "input w = []")
    case True
    then have "length f \<le> ?n * blk" using assms(7) by simp
    then have "xm_inv blk f y (input v) (answers v) (peer v)"
      using asm(2,5) True assms(4,5,8) by (simp add: xm_inv_def)
    then show ?thesis using a asm(3,4,5) True by (auto simp: xm_send_def inv_def)
  next
    case False
    have block: "block_of blk (input w) 0 = block_of blk f ?n" by (simp add: block_of_def assms(7))
    from asm(6) [OF False] obtain rest where y: "r = Inr 0" "input v = drop blk (input w)" "xm_packet_num y = xm_packet_num x"
        "xm_flags y = xm_flags x" "xm_buffer y = Some (packet_of x (xm_packet_num x) (block_of blk f ?n) @ rest)"
      unfolding block by blast
    have same: "packet_of x k c = packet_of y k c" "packet_of (y\<lparr>xm_offset := i, xm_state := st, xm_timer := t\<rparr>) k c = packet_of y k c" for k c i st t
      by (simp_all add: packet_of_def y(4))
    obtain u where u: "skip_chars y v = Some u" "input u = input v" "peer u = peer v" "ok u" "answers u = []"
      by (rule skip_chars [OF asm(3,4)])
    obtain w' i t rs where w': "xm_resend ms y u = Some (Inr 0, y\<lparr>xm_offset := i, xm_state := XM_WAIT_ACK, xm_timer := t\<rparr>, w')"
      "ok w'" "input w' = input u" "answers w' = answers u @ rs" "heard (packet_of y (xm_packet_num x) (block_of blk f ?n)) (peer u) (peer w') rs"
      by (rule resend [OF u(4) asm(4), where num = "xm_packet_num x" and block = "block_of blk f ?n" and rest = rest and ms = ms])
        (use y(5) same in simp_all)
    have "xm_inv blk f (y\<lparr>xm_offset := i, xm_state := XM_WAIT_ACK, xm_timer := t\<rparr>) (input w') (answers w') (peer w')"
      by (rule waiting_inv [of "peer u" blk f ?n "answers u" y "xm_packet_num x" "peer w'" rs _ _ _ rest])
        (use u asm(2) assms(4-7) y w' False in \<open>simp_all add: same add.commute\<close>)
    then show ?thesis using a y(1) u(1) w'(1,2) asm(4) by (auto simp: xm_send_def inv_def intro: wired_same)
  qed
qed

lemma start_tick:
  assumes "inv blk f x w" "0 < blk" "xm_state x = XM_START"
  shows "\<exists>r x' w'. xm_start ms x w = Some (r, x', w') \<and> inv blk f x' w' \<and> r \<noteq> Inr 1"
proof -
  note i = assms(1) [unfolded inv_def]
  have start: "input w = f" "rc_next (peer w) = 0" "rc_blk (peer w) = blk" "rc_data (peer w) = blocks_of blk f 0"
    using i assms(3) by (simp_all add: xm_inv_def)
  obtain ch v where ch: "xmodem_getchar x w = (ch, v)" by fastforce
  note g = getchar [OF _ _ ch, of blk]
  have go: "\<exists>r x' w'. xm_send ms (x\<lparr>xm_flags := xm_flags x OR flag, xm_state := XM_SEND, xm_packet_num := 1\<rparr>) v = Some (r, x', w') \<and>
      inv blk f x' w' \<and> r \<noteq> Inr 1" if "flag \<in> {1, 2}" for flag
  proof -
    have w: "wired blk (x\<lparr>xm_flags := xm_flags x OR flag, xm_state := XM_SEND, xm_packet_num := 1\<rparr>)"
      using i that by (auto simp: bit.conj_disj_distrib2 intro: wired_same)
    show ?thesis by (rule send_tick [OF _ w assms(2)]) (use g i start assms(2) in auto)
  qed
  have "xm_inv blk f x (input v) (answers v) (peer v)" using g i start assms(3) by (simp add: xm_inv_def)
  then have stay: "inv blk f x v" using g i by (simp add: inv_def)
  show ?thesis using go [of 1] go [of 2] stay ch by (auto simp: xm_start_def)
qed

lemma flush_line:
  assumes "ok w" "wired blk x"
  shows "\<exists>b w'. flush_line x w = Some (x\<lparr>xm_buffer := b\<rparr>, w') \<and> wired blk (x\<lparr>xm_buffer := b\<rparr>) \<and>
    input w' = input w \<and> peer w' = peer w \<and> ok w'"
  using assms
proof (induction "length (answers w)" arbitrary: w x rule: less_induct)
  case less
  obtain r bs v where v: "rd 64 w = (r, bs, v)" by (metis prod_cases3)
  note l = read_line [OF less.prems(1) _ v]
  obtain b where b: "xm_buffer x = Some b" "blk + 5 \<le> length b" "xm_read x = rd" using less.prems(2) by (auto simp: wired_def)
  let ?b = "Some (take 0 b @ bs @ drop (0 + length bs) b)"
  have x': "store_at 0 bs x = x\<lparr>xm_buffer := ?b\<rparr>" using b(1) by (simp add: store_at_def)
  have "wired blk (store_at 0 bs x)"
    using less.prems(2) b unfolding x' by (auto simp: wired_def block_size_def)
  then have w': "wired blk (x\<lparr>xm_buffer := ?b\<rparr>)" unfolding x' .
  show ?case
  proof (cases "answers w = []")
    case True
    then show ?thesis using l v x' w' b(3) by (subst flush_line.simps) auto
  next
    case False
    then have "length (answers v) < length (answers w)" using l by simp
    from less.hyps [OF this _ w'] l obtain c u where u: "flush_line (x\<lparr>xm_buffer := ?b\<rparr>) v = Some (x\<lparr>xm_buffer := c\<rparr>, u)"
      "wired blk (x\<lparr>xm_buffer := c\<rparr>)" "input u = input v" "peer u = peer v" "ok u" by auto
    have "flush_line x w = flush_line (x\<lparr>xm_buffer := ?b\<rparr>) v"
      using False l v x' b(3) by (subst flush_line.simps) auto
    then show ?thesis using u l by auto
  qed
qed

text \<open>An answer that is no acknowledgement, or none in time.\<close>

lemma retry:
  assumes "inv blk f x w" "xm_state x \<in> {XM_WAIT_ACK, XM_FINAL_ACK}" "st = (if xm_state x = XM_WAIT_ACK then XM_RESEND else XM_EOF)"
  shows "inv blk f (x\<lparr>xm_tries := n, xm_state := st\<rparr>) w"
  using assms by (auto simp: inv_def xm_inv_def packet_of_def intro: wired_same)

lemma failing:
  assumes "inv blk f x w" "xm_tries y = n" "y = x\<lparr>xm_tries := n\<rparr>"
  shows "\<exists>x' w'. xm_failure e y w = Some (Inl e, x', w') \<and> inv blk f x' w'"
proof -
  note i = assms(1) [unfolded inv_def]
  obtain q w' where q: "wr [XMODEM_CAN, XMODEM_CAN] 2 w = (q, w')" by fastforce
  have "snd (receive [XMODEM_CAN, XMODEM_CAN] (peer w)) = peer w" by (simp add: receive_def packet_good_def)
  then have w': "peer w' = peer w" "ok w'" using write_line [OF _ _ _ q] i by (auto simp: heard_def)
  have wr: "xm_write y = wr" using i assms(3) by (simp add: wired_def)
  have "wired blk (y\<lparr>xm_state := XM_FAILURE\<rparr>)" using i assms(3) by (auto intro: wired_same)
  moreover have "xm_inv blk f (y\<lparr>xm_state := XM_FAILURE\<rparr>) (input w') (answers w') (peer w')"
    using w'(1) xm_inv_data i by (subst xm_inv_def) fastforce
  ultimately have "inv blk f (y\<lparr>xm_state := XM_FAILURE\<rparr>) w'" using w'(2) by (simp add: inv_def)
  then show ?thesis using q wr by (simp add: xm_failure_def)
qed

lemma wait_ack_tick:
  assumes "inv blk f x w" "xm_state x = XM_WAIT_ACK"
  shows "\<exists>r x' w'. xm_wait_ack ms x w = Some (r, x', w') \<and> inv blk f x' w' \<and> r \<noteq> Inr 1"
proof -
  note i = assms(1) [unfolded inv_def]
  obtain ch v where ch: "xmodem_getchar x w = (ch, v)" by fastforce
  note g = getchar [OF _ _ ch, of blk]
  have stay: "inv blk f x v"
    using i g xm_inv_answers [of blk f x "input w" "answers w" "peer w" "tl (answers w)"]
    by (cases "answers w") (auto simp: inv_def)
  show ?thesis
  proof (cases "ch = Inr (uint XMODEM_ACK)")
    case True
    then have "answers w \<noteq> []" "uint (hd (answers w)) = uint XMODEM_ACK" using g(5) i by (auto split: if_splits)
    then have "XMODEM_ACK \<in> set (answers w)" by (metis hd_in_set word_uint_eq_iff)
    then have n: "xm_packet_num x = of_nat (rc_next (peer w))" "input w = drop (rc_next (peer w) * blk) f"
      "rc_next (peer w) * blk < length f + blk"
      using i assms(2) by (auto simp: xm_inv_def)
    have r: "rc_blk (peer w) = blk \<and> rc_data (peer w) = blocks_of blk f (rc_next (peer w))" using i xm_inv_data by blast
    have "wired blk (x\<lparr>xm_packet_num := xm_packet_num x + 1, xm_state := XM_SEND\<rparr>)" using i by (auto intro: wired_same)
    then have "inv blk f (x\<lparr>xm_packet_num := xm_packet_num x + 1, xm_state := XM_SEND\<rparr>) v"
      using r g n i by (simp add: inv_def) (simp add: xm_inv_def)
    then show ?thesis using True ch by (auto simp: xm_wait_ack_def)
  next
    case False
    let ?n = "xm_tries x - 1"
    show ?thesis
      using False ch stay retry [OF stay, of XM_RESEND ?n] failing [OF stay, of "x\<lparr>xm_tries := ?n\<rparr>" ?n ETIMEDOUT] assms(2)
      by (auto simp: xm_wait_ack_def Let_def)
  qed
qed

lemma eof_tick:
  assumes "inv blk f x w" "xm_state x = XM_EOF"
  shows "\<exists>r x' w'. xm_eof ms x w = Some (r, x', w') \<and> inv blk f x' w' \<and> r \<noteq> Inr 1"
proof -
  note i = assms(1) [unfolded inv_def]
  obtain q w' where q: "wr [XMODEM_EOT] 1 w = (q, w')" by fastforce
  have eot: "snd (receive [XMODEM_EOT] r) = r\<lparr>rc_done := True\<rparr>" for r by (simp add: receive_def)
  have w': "ok w'" "peer w' = peer w \<or> peer w' = (peer w)\<lparr>rc_done := True\<rparr>"
    using write_line [OF _ _ _ q] i by (auto simp: heard_def eot)
  have r: "rc_blk (peer w) = blk" "rc_data (peer w) = blocks_of blk f (rc_next (peer w))" "length f \<le> rc_next (peer w) * blk"
    "rc_next (peer w) * blk < length f + blk"
    using i assms(2) by (simp_all add: xm_inv_def)
  have inv: "inv blk f (x\<lparr>xm_state := XM_FINAL_ACK, xm_timer := t\<rparr>) w'" for t
  proof -
    have "wired blk (x\<lparr>xm_state := XM_FINAL_ACK, xm_timer := t\<rparr>)" using i by (auto intro: wired_same)
    then show ?thesis using w' r by (auto simp: inv_def xm_inv_def)
  qed
  have "snd (xmodem_putchar x XMODEM_EOT w) = w'"
    using q i by (simp add: xmodem_putchar_def wired_def split: sum.split)
  then show ?thesis using inv by (simp add: xm_eof_def case_prod_unfold)
qed

lemma final_ack_tick:
  assumes "inv blk f x w" "xm_state x = XM_FINAL_ACK"
  shows "\<exists>r x' w'. xm_final_ack ms x w = Some (r, x', w') \<and> inv blk f x' w' \<and> (r = Inr 1 \<longrightarrow> xm_state x' = XM_SUCCESS)"
proof -
  note i = assms(1) [unfolded inv_def]
  obtain ch v where ch: "xmodem_getchar x w = (ch, v)" by fastforce
  note g = getchar [OF _ _ ch, of blk]
  have "wired blk (x\<lparr>xm_state := XM_SUCCESS\<rparr>)" using i by (auto intro: wired_same)
  then have stay: "inv blk f x v" "inv blk f (x\<lparr>xm_state := XM_SUCCESS\<rparr>) v"
    using i g assms(2) by (simp_all add: inv_def xm_inv_def)
  show ?thesis
    using ch stay retry [OF stay(1), of XM_EOF "xm_tries x - 1"]
      failing [OF stay(1), of "x\<lparr>xm_tries := xm_tries x - 1\<rparr>" "xm_tries x - 1" ETIMEDOUT] assms(2)
    by (auto simp: xm_final_ack_def Let_def)
qed

lemma resend_tick:
  assumes "inv blk f x w" "xm_state x = XM_RESEND"
  shows "\<exists>r x' w'. xm_resend ms x w = Some (r, x', w') \<and> inv blk f x' w' \<and> r \<noteq> Inr 1"
proof -
  note i = assms(1) [unfolded inv_def]
  obtain n rest where x: "xm_packet_num x = of_nat (Suc n)" "input w = drop (Suc n * blk) f" "rc_next (peer w) \<in> {n, Suc n}" "n * blk < length f"
      "XMODEM_ACK \<in> set (answers w) \<longrightarrow> rc_next (peer w) = Suc n"
      "xm_buffer x = Some (packet_of x (xm_packet_num x) (block_of blk f n) @ rest)"
    and r: "rc_blk (peer w) = blk" "rc_data (peer w) = blocks_of blk f (rc_next (peer w))"
    using i assms(2) unfolding xm_inv_def by auto
  obtain w' j t rs where w': "xm_resend ms x w = Some (Inr 0, x\<lparr>xm_offset := j, xm_state := XM_WAIT_ACK, xm_timer := t\<rparr>, w')"
    "ok w'" "input w' = input w" "answers w' = answers w @ rs" "heard (packet_of x (xm_packet_num x) (block_of blk f n)) (peer w) (peer w') rs"
    by (rule resend [of w blk x "xm_packet_num x" "block_of blk f n" rest ms]) (use x(6) i in simp_all)
  have same: "packet_of (x\<lparr>xm_offset := j, xm_state := st, xm_timer := t\<rparr>) k c = packet_of x k c" for k c st
    by (simp add: packet_of_def)
  have "xm_inv blk f (x\<lparr>xm_offset := j, xm_state := XM_WAIT_ACK, xm_timer := t\<rparr>) (input w') (answers w') (peer w')"
    by (rule waiting_inv [of "peer w" blk f n "answers w" x "xm_packet_num x" "peer w'" rs _ _ _ rest])
      (use x r w' in \<open>simp_all add: same\<close>)
  then show ?thesis using w'(1,2) i by (auto simp: inv_def intro: wired_same)
qed

lemma tick:
  assumes "inv blk f x w" "0 < blk"
  shows "\<exists>r x' w'. xbee_xmodem_tx_tick ms x w = Some (r, x', w') \<and> inv blk f x' w' \<and> (r = Inr 1 \<longrightarrow> xm_state x' = XM_SUCCESS)"
proof -
  note i = assms(1) [unfolded inv_def]
  have buf: "xm_buffer x \<noteq> None" using i by (auto simp: wired_def)
  show ?thesis
  proof (cases "xm_state x")
    case XM_FLUSH
    obtain b v where v: "flush_line x w = Some (x\<lparr>xm_buffer := b\<rparr>, v)" "wired blk (x\<lparr>xm_buffer := b\<rparr>)"
      "input v = input w" "peer v = peer w" "ok v"
      using flush_line i by blast
    let ?x = "x\<lparr>xm_buffer := b, xm_state := XM_START\<rparr>"
    have "wired blk ?x" using v(2) by (rule wired_same) simp_all
    then have "inv blk f ?x v" using v(3-5) i XM_FLUSH by (simp add: inv_def xm_inv_def)
    from start_tick [OF this assms(2), of ms] show ?thesis using buf XM_FLUSH v(1) by (auto simp: xbee_xmodem_tx_tick_def xm_flush_def)
  next
    case XM_START
    then show ?thesis using start_tick [OF assms XM_START, of ms] buf by (auto simp: xbee_xmodem_tx_tick_def)
  next
    case XM_SEND
    then have "\<exists>r x' w'. xm_send ms x w = Some (r, x', w') \<and> inv blk f x' w' \<and> r \<noteq> Inr 1"
      by (intro send_tick) (use i assms(2) in \<open>auto simp: xm_inv_def\<close>)
    then show ?thesis using buf XM_SEND by (auto simp: xbee_xmodem_tx_tick_def)
  next
    case XM_RESEND
    then show ?thesis using resend_tick [OF assms(1) XM_RESEND, of ms] buf by (auto simp: xbee_xmodem_tx_tick_def)
  next
    case XM_SENDING
    then show ?thesis using i by (simp add: xm_inv_def)
  next
    case XM_WAIT_ACK
    then show ?thesis using wait_ack_tick [OF assms(1) XM_WAIT_ACK, of ms] buf by (auto simp: xbee_xmodem_tx_tick_def)
  next
    case XM_EOF
    then show ?thesis using eof_tick [OF assms(1) XM_EOF, of ms] buf by (auto simp: xbee_xmodem_tx_tick_def)
  next
    case XM_FINAL_ACK
    then show ?thesis using final_ack_tick [OF assms(1) XM_FINAL_ACK, of ms] buf by (auto simp: xbee_xmodem_tx_tick_def)
  qed (use assms(1) buf in \<open>auto simp: xbee_xmodem_tx_tick_def\<close>)
qed

text \<open>At the end the receiver has the file.\<close>

lemma complete:
  assumes "inv blk f x w" "xm_state x = XM_SUCCESS"
  shows "rc_data (peer w) = padded blk f"
  using assms by (auto simp: inv_def xm_inv_def intro: padded_eq)

end

section \<open>A line without errors\<close>

text \<open>Ticks until the sender has a result, at most \<open>n\<close>.\<close>

fun run_ticks :: "nat \<Rightarrow> ('w \<Rightarrow> u32) \<Rightarrow> 'w xmodem \<Rightarrow> 'w \<Rightarrow> 'w xm_result" where
  "run_ticks 0 ms x w = Some (Inr 0, x, w)"
| "run_ticks (Suc n) ms x w =
     (case xbee_xmodem_tx_tick ms x w of
        Some (r, x, w) \<Rightarrow> if r = Inr 0 then run_ticks n ms x w else Some (r, x, w)
      | None \<Rightarrow> None)"

locale clean_line = xmodem_line +
  assumes clean: "ok w \<Longrightarrow> 0 \<le> n \<Longrightarrow> nat n \<le> length bs \<Longrightarrow> wr bs n w = (r, w') \<Longrightarrow>
      answers w' = answers w @ [fst (receive (take (nat n) bs) (peer w))] \<and> peer w' = snd (receive (take (nat n) bs) (peer w))"
begin

text \<open>The sender is about to send the block after the first \<open>n\<close>.\<close>

definition between :: "nat \<Rightarrow> u8 list \<Rightarrow> nat \<Rightarrow> 'a xmodem \<Rightarrow> 'a \<Rightarrow> bool" where
  "between blk f n x w \<longleftrightarrow> ok w \<and> wired blk x \<and> xm_state x = XM_SEND \<and> xm_packet_num x = of_nat (Suc n) \<and>
     input w = drop (n * blk) f \<and> answers w = [] \<and> rc_blk (peer w) = blk \<and> rc_next (peer w) = n \<and>
     rc_data (peer w) = blocks_of blk f n \<and> (rc_crc (peer w) \<longleftrightarrow> xm_flags x AND XBEE_XMODEM_FLAG_CRC \<noteq> 0)"

lemma good_packet:
  "length block = rc_blk r \<Longrightarrow> (rc_crc r \<longleftrightarrow> xm_flags x AND XBEE_XMODEM_FLAG_CRC \<noteq> 0) \<Longrightarrow> packet_good r (packet_of x num block)"
  by (simp add: packet_good_def packet_of_def numeral_3_eq_3)

lemma clean_resend:
  assumes "ok w" "wired blk x" "xm_buffer x = Some (packet_of x num block @ rest)" "length block = blk"
  obtains w' i t where "xm_resend ms x w = Some (Inr 0, x\<lparr>xm_offset := i, xm_state := XM_WAIT_ACK, xm_timer := t\<rparr>, w')"
    "ok w'" "input w' = input w" "answers w' = answers w @ [fst (receive (packet_of x num block) (peer w))]"
    "peer w' = snd (receive (packet_of x num block) (peer w))"
proof -
  let ?p = "packet_of x num block"
  obtain i t w' rs where w': "xm_resend ms x w = Some (Inr 0, x\<lparr>xm_offset := i, xm_state := XM_WAIT_ACK, xm_timer := t\<rparr>, w')"
    "ok w'" "input w' = input w" "wr (?p @ rest) (int (length ?p)) w = (Inr (int (length ?p)), w')"
    by (rule resend_write [OF assms]) blast
  have "answers w' = answers w @ [fst (receive ?p (peer w))] \<and> peer w' = snd (receive ?p (peer w))"
    using clean [OF assms(1) _ _ w'(4)] by simp
  then show thesis using w' that by blast
qed

text \<open>A tick that sends a block, and one that gets the answer.\<close>

lemma send_block:
  assumes "between blk f n x w" "0 < blk" "n * blk < length f"
  shows "\<exists>x' w'. run_ticks 2 ms x w = Some (Inr 0, x', w') \<and> between blk f (Suc n) x' w'"
proof -
  note b = assms(1) [unfolded between_def]
  obtain r y v where a: "assemble_packet x (block_size x) w = (r, y, v)" by (metis prod_cases3)
  note asm = assemble [OF _ _ a assms(2)]
  have some: "input w \<noteq> []" using b assms(3) by simp
  have block: "block_of blk (input w) 0 = block_of blk f n" using b by (simp add: block_of_def)
  have y: "r = Inr 0" "input v = drop blk (input w)" "xm_packet_num y = xm_packet_num x" "xm_flags y = xm_flags x"
    "\<exists>rest. xm_buffer y = Some (packet_of x (xm_packet_num x) (block_of blk f n) @ rest)" "wired blk y" "ok v" "peer v = peer w"
    using asm some b unfolding block by blast+
  obtain rest where rest: "xm_buffer y = Some (packet_of x (xm_packet_num x) (block_of blk f n) @ rest)" using y(5) by blast
  let ?p = "packet_of y (xm_packet_num x) (block_of blk f n)"
  have same: "packet_of x k c = packet_of y k c" for k c by (simp add: packet_of_def y(4))
  obtain u where u: "skip_chars y v = Some u" "input u = input v" "peer u = peer v" "ok u" "answers u = []"
    by (rule skip_chars [OF y(7,6)])
  obtain w' i t where w': "xm_resend ms y u = Some (Inr 0, y\<lparr>xm_offset := i, xm_state := XM_WAIT_ACK, xm_timer := t\<rparr>, w')"
    "ok w'" "input w' = input u" "answers w' = answers u @ [fst (receive ?p (peer u))]" "peer w' = snd (receive ?p (peer u))"
    by (rule clean_resend [OF u(4) y(6), of "xm_packet_num x" "block_of blk f n" rest ms]) (use rest same in simp_all)
  let ?y = "y\<lparr>xm_offset := i, xm_state := XM_WAIT_ACK, xm_timer := t\<rparr>"
  have num: "xm_packet_num x = of_nat (Suc n)" "xm_state x = XM_SEND" "xm_buffer x \<noteq> None" using b by (auto simp: wired_def)
  have low: "(ucast (xm_packet_num x) :: u8) = of_nat (Suc n)" unfolding num(1) by (rule low_of_nat)
  have len: "length (block_of blk f n) = rc_blk (peer u)" using b u(3) y(8) by simp
  have good: "packet_good (peer u) ?p"
    by (rule good_packet [OF len]) (use b u(3) y(4,8) in simp)
  have got: "fst (receive ?p (peer u)) = XMODEM_ACK" "snd (receive ?p (peer u)) = (peer w)\<lparr>rc_next := Suc n, rc_data := blocks_of blk f n @ block_of blk f n\<rparr>"
    using receive_packet_eq [OF len, of y "xm_packet_num x"] good low b u(3) y(8) by simp_all
  have first: "xbee_xmodem_tx_tick ms x w = Some (Inr 0, ?y, w')"
    using num(2,3) a y(1) u(1) w'(1) by (simp add: xbee_xmodem_tx_tick_def xm_send_def)
  have wy: "wired blk ?y" using y(6) by (rule wired_same) simp_all
  obtain ch z where ch: "xmodem_getchar ?y w' = (ch, z)" by fastforce
  note g = getchar [OF w'(2) wy ch]
  have "ch = Inr (uint XMODEM_ACK)" using g(5) w'(4) u(5) got(1) by simp
  then have "xbee_xmodem_tx_tick ms ?y w' = Some (Inr 0, ?y\<lparr>xm_packet_num := xm_packet_num ?y + 1, xm_state := XM_SEND\<rparr>, z)"
    using ch rest by (simp add: xbee_xmodem_tx_tick_def xm_wait_ack_def)
  moreover have "wired blk (?y\<lparr>xm_packet_num := xm_packet_num ?y + 1, xm_state := XM_SEND\<rparr>)"
    using wy by (rule wired_same) simp_all
  ultimately show ?thesis
    using first g w'(3,4,5) u(2,5) y(2,3,4) got b
    by (simp add: numeral_2_eq_2 between_def blocks_of_Suc add.commute)
qed

lemma end_of_file:
  assumes "between blk f n x w" "0 < blk" "length f \<le> n * blk"
  shows "\<exists>x' w'. run_ticks 3 ms x w = Some (Inr 1, x', w') \<and> rc_data (peer w') = blocks_of blk f n \<and> rc_done (peer w')"
proof -
  note b = assms(1) [unfolded between_def]
  obtain r y v where a: "assemble_packet x (block_size x) w = (r, y, v)" by (metis prod_cases3)
  have none: "input w = []" using b assms(3) by simp
  have st: "xm_state x = XM_SEND" "wired blk x" using b by blast+
  have num: "xm_state x = XM_SEND" "xm_buffer x \<noteq> None" "xm_buffer y \<noteq> None" if "wired blk y"
    using st(1) st(2) [unfolded wired_def] that [unfolded wired_def] by auto
  have bw: "ok w" "wired blk x" "answers w = []" using b by blast+
  note asm = assemble [OF bw(1,2) a assms(2)]
  have y: "r = Inr 1" "xm_state y = XM_EOF" "answers v = []" "peer v = peer w" "ok v" "wired blk y"
    using asm(1-4) asm(5) [OF none] bw(3) by simp_all
  have first: "xbee_xmodem_tx_tick ms x w = Some (Inr 0, y, v)"
    using num [OF y(6)] a y(1) by (simp add: xbee_xmodem_tx_tick_def xm_send_def)
  obtain q w' where q: "wr [XMODEM_EOT] 1 v = (q, w')" by fastforce
  have w': "ok w'" "answers w' = [XMODEM_ACK]" "peer w' = (peer w)\<lparr>rc_done := True\<rparr>"
    using write_line [OF y(5) _ _ q] clean [OF y(5) _ _ q] y(3,4) by (simp_all add: receive_def)
  have "snd (xmodem_putchar y XMODEM_EOT v) = w'"
    using q y(6) by (simp add: xmodem_putchar_def wired_def split: sum.split)
  then have second: "xbee_xmodem_tx_tick ms y v = Some (Inr 0, y\<lparr>xm_state := XM_FINAL_ACK, xm_timer := ucast (ms w')\<rparr>, w')" (is "_ = Some (_, ?y, _)")
    using y(2) num [OF y(6)] by (simp add: xbee_xmodem_tx_tick_def xm_eof_def case_prod_unfold)
  have wy: "wired blk ?y" using y(6) by (rule wired_same) simp_all
  obtain ch z where ch: "xmodem_getchar ?y w' = (ch, z)" by fastforce
  note g = getchar [OF w'(1) wy ch]
  have "ch = Inr (uint XMODEM_ACK)" using g(5) w'(2) by simp
  then have "xbee_xmodem_tx_tick ms ?y w' = Some (Inr 1, ?y\<lparr>xm_state := XM_SUCCESS\<rparr>, z)"
    using ch num [OF y(6)] by (simp add: xbee_xmodem_tx_tick_def xm_final_ack_def)
  then show ?thesis using first second g(2) w'(3) b by (simp add: numeral_3_eq_3)
qed

lemma run_ticks_add: "run_ticks (m + n) ms x w =
    (case run_ticks m ms x w of Some (r, x, w) \<Rightarrow> if r = Inr 0 then run_ticks n ms x w else Some (r, x, w) | None \<Rightarrow> None)"
  by (induction m arbitrary: x w) (auto split: option.split)

lemma rest_of_file:
  assumes "between blk f n x w" "0 < blk" "n * blk < length f + blk" "k = (length f - n * blk + (blk - 1)) div blk"
  shows "\<exists>x' w'. run_ticks (2 * k + 3) ms x w = Some (Inr 1, x', w') \<and> rc_data (peer w') = padded blk f \<and> rc_done (peer w')"
  using assms
proof (induction k arbitrary: n x w)
  case 0
  then have "length f - n * blk + (blk - 1) < blk" by (metis div_eq_0_iff less_not_refl)
  then have "length f \<le> n * blk" by linarith
  then show ?case using end_of_file [OF 0(1,2)] padded_eq 0(3) by simp
next
  case (Suc k)
  have more: "n * blk < length f"
  proof (rule ccontr)
    assume "\<not> n * blk < length f"
    then show False using Suc.prems(2,4) by simp
  qed
  obtain x' w' where s: "run_ticks 2 ms x w = Some (Inr 0, x', w')" "between blk f (Suc n) x' w'"
    using send_block [OF Suc.prems(1,2) more] by blast
  have "k = (length f - Suc n * blk + (blk - 1)) div blk"
  proof (cases "length f - n * blk < blk")
    case True
    then have "(length f - n * blk + (blk - 1)) div blk = 1" using more Suc.prems(2) by (intro div_nat_eqI) simp_all
    then show ?thesis using Suc.prems(2,4) True by simp
  next
    case False
    let ?q = "length f - Suc n * blk + (blk - 1)"
    have "length f - n * blk + (blk - 1) = ?q + blk" using False more by simp
    moreover have "blk \<noteq> 0" using Suc.prems(2) by simp
    then have "(?q + blk) div blk = Suc (?q div blk)" using div_add_self2 [of blk ?q] by (simp only: Suc_eq_plus1 simp_thms)
    ultimately have "Suc k = Suc (?q div blk)" using Suc.prems(4) by (simp only:)
    then show ?thesis by simp
  qed
  then obtain y v where "run_ticks (2 * k + 3) ms x' w' = Some (Inr 1, y, v)" "rc_data (peer v) = padded blk f" "rc_done (peer v)"
    using Suc.IH [OF s(2)] more Suc.prems(2) by auto
  then show ?case using run_ticks_add [of 2 "2 * k + 3" ms x w] s(1) by (simp add: add.commute)
qed

end

end
