(* ===== verification/Xmodem_Correct.thy ===== *)
theory Xmodem_Correct
  imports Xmodem_Line
begin

text \<open>
  XMODEM transfers over a concrete line: what a successful transfer means, that one over a line without errors
  succeeds, and what happens when a write is refused once.
\<close>

section \<open>The line\<close>

text \<open>
  What happens to the next writes: all is well; the write is refused (no byte is accepted); or the packet arrives
  or does not, and other bytes come back instead of the answer.
\<close>

datatype fate = Clean | Busy | Lossy bool "u8 list"

record xlink =
  ln_file :: "u8 list"
  ln_back :: "u8 list"
  ln_peer :: receiver
  ln_ms :: u32
  ln_fates :: "fate list"

definition link_file :: "xlink xmodem_read" where
  "link_file n w = (let bs = take (nat n) (ln_file w) in (Inr (int (length bs)), bs, w\<lparr>ln_file := drop (nat n) (ln_file w)\<rparr>))"

definition link_read :: "xlink xmodem_read" where
  "link_read n w = (let bs = take (nat n) (ln_back w) in (Inr (int (length bs)), bs, w\<lparr>ln_back := drop (nat n) (ln_back w)\<rparr>))"

definition link_deliver :: "u8 list \<Rightarrow> xlink \<Rightarrow> xlink" where
  "link_deliver bs w = (case receive bs (ln_peer w) of (answer, r) \<Rightarrow> w\<lparr>ln_back := ln_back w @ [answer], ln_peer := r\<rparr>)"

definition link_write :: "xlink xmodem_write" where
  "link_write buffer n w =
     (let bs = take (nat n) buffer; later = w\<lparr>ln_fates := tl (ln_fates w)\<rparr> in
      case ln_fates w of
        Busy # _ \<Rightarrow> (Inr 0, later)
      | Lossy arrives rs # _ \<Rightarrow>
          (Inr n, later\<lparr>ln_back := ln_back w @ rs, ln_peer := if arrives then snd (receive bs (ln_peer w)) else ln_peer w\<rparr>)
      | _ \<Rightarrow> (Inr n, link_deliver bs later))"

text \<open>Fates that the protocol is made for: nothing is refused, and no ACK comes out of nothing.\<close>

fun legal :: "fate \<Rightarrow> bool" where
  "legal Clean = True"
| "legal Busy = False"
| "legal (Lossy arrives rs) = (XMODEM_ACK \<notin> set rs)"

definition legal_link :: "xlink \<Rightarrow> bool" where
  "legal_link w \<longleftrightarrow> list_all legal (ln_fates w)"

interpretation any: xmodem_reads ln_file ln_back ln_peer "\<lambda>w. ln_fates w = fates" link_file link_read link_write for fates
  by unfold_locales (auto simp: link_file_def link_read_def Let_def)

interpretation lossy: xmodem_line ln_file ln_back ln_peer legal_link link_file link_read link_write
  by unfold_locales
    (auto simp: link_file_def link_read_def link_write_def link_deliver_def legal_link_def heard_def Let_def case_prod_unfold
      split: list.splits fate.splits if_splits)

interpretation clean: clean_line ln_file ln_back ln_peer "\<lambda>w. ln_fates w = []" link_file link_read link_write
  by unfold_locales
    (auto simp: link_file_def link_read_def link_write_def link_deliver_def heard_def Let_def case_prod_unfold)

section \<open>Setting up a transfer\<close>

definition sender :: "u16 \<Rightarrow> u8 list \<Rightarrow> xlink xmodem \<Rightarrow> xlink xmodem" where
  "sender flags buf x = the (snd (xbee_xmodem_tx_init (snd (xbee_xmodem_set_stream (snd (xbee_xmodem_set_source (Some x) (Some buf) (Some link_file)))
     (Some link_read) (Some link_write))) flags))"

definition flags_size :: "u16 \<Rightarrow> nat" where
  "flags_size flags =
     (if flags AND XBEE_XMODEM_MASK_BLOCKSIZE = XBEE_XMODEM_FLAG_64 then 64
      else if flags AND XBEE_XMODEM_MASK_BLOCKSIZE = XBEE_XMODEM_FLAG_1K then 1024 else 128)"

definition new_receiver :: "bool \<Rightarrow> nat \<Rightarrow> receiver" where
  "new_receiver crc blk = \<lparr>rc_crc = crc, rc_blk = blk, rc_next = 0, rc_data = [], rc_done = False\<rparr>"

definition new_link :: "bool \<Rightarrow> nat \<Rightarrow> u8 list \<Rightarrow> u8 list \<Rightarrow> fate list \<Rightarrow> xlink" where
  "new_link crc blk f waiting fates = \<lparr>ln_file = f, ln_back = waiting, ln_peer = new_receiver crc blk, ln_ms = 0, ln_fates = fates\<rparr>"

lemma flags_size_pos: "0 < flags_size flags"
  by (simp add: flags_size_def)

lemma sender_fields:
  "xm_flags (sender flags buf x) = flags AND XBEE_XMODEM_FLAG_USER" "xm_state (sender flags buf x) = XM_START"
  "xm_buffer (sender flags buf x) = Some buf" "xm_file_read (sender flags buf x) = link_file"
  "xm_read (sender flags buf x) = link_read" "xm_write (sender flags buf x) = link_write"
  by (simp_all add: sender_def xbee_xmodem_tx_init_def xbee_xmodem_set_stream_def xbee_xmodem_set_source_def)

lemma sender_wired:
  "flags_size flags + 5 \<le> length buf \<Longrightarrow> any.wired (flags_size flags) (sender flags buf x)"
  by (simp add: any.wired_def sender_fields block_size_def flags_size_def XBEE_XMODEM_FLAG_USER_def Let_def and.assoc)

section \<open>Every run\<close>

text \<open>Ticks of the sender, and what happens on the line between them: time, other bytes than ACK, new fates.\<close>

inductive transfer :: "u16 \<Rightarrow> u8 list \<Rightarrow> xlink xmodem \<Rightarrow> xlink \<Rightarrow> bool" for flags :: u16 and f :: "u8 list" where
  start: "flags_size flags + 5 \<le> length buf \<Longrightarrow> list_all legal fates \<Longrightarrow>
    transfer flags f (sender flags buf x) (new_link crc (flags_size flags) f waiting fates)"
| tick: "transfer flags f x w \<Longrightarrow> xbee_xmodem_tx_tick ln_ms x w = Some (r, x', w') \<Longrightarrow> transfer flags f x' w'"
| line: "transfer flags f x w \<Longrightarrow> XMODEM_ACK \<notin> set noise \<Longrightarrow> list_all legal fates \<Longrightarrow>
    transfer flags f x (w\<lparr>ln_ms := t, ln_back := ln_back w @ noise, ln_fates := fates\<rparr>)"

lemma transfer_inv: "transfer flags f x w \<Longrightarrow> lossy.inv (flags_size flags) f x w"
proof (induction rule: transfer.induct)
  case (start buf fates x crc waiting)
  then show ?case
    using sender_wired [of flags buf x]
    by (simp add: lossy.inv_def new_link_def new_receiver_def xm_inv_def sender_fields blocks_of_def) (simp add: legal_link_def)
next
  case (tick x w r x' w')
  then show ?case using lossy.tick [OF tick.IH flags_size_pos, of ln_ms] by auto
next
  case (line x w noise fates t)
  then show ?case
    using xm_inv_answers [of "flags_size flags" f x "ln_file w" "ln_back w" "ln_peer w" "ln_back w @ noise"]
    by (simp add: lossy.inv_def) (simp add: legal_link_def)
qed

text \<open>
  C4: A successful transfer.  Whatever a line does that may lose or damage packets and answers, and lets
  time pass, but does not make up an acknowledgement or refuse bytes: every tick of the sender
  returns, and when it reports success, the receiver, which accepts intact packets in order, has the
  whole file, filled up with 0xFF to a multiple of the packet size.
\<close>

theorem xmodem_success_complete:
  assumes "transfer flags f x w"
  shows "\<exists>r x' w'. xbee_xmodem_tx_tick ln_ms x w = Some (r, x', w') \<and>
    (r = Inr 1 \<longrightarrow> rc_data (ln_peer w') = padded (flags_size flags) f)"
  using lossy.tick [OF transfer_inv [OF assms] flags_size_pos, of ln_ms] lossy.complete by blast

section \<open>A line without errors\<close>

text \<open>The first character tells which check the receiver wants.\<close>

definition start_char :: "bool \<Rightarrow> u8" where
  "start_char crc = (if crc then XMODEM_CRC else XMODEM_NAK)"

lemma first_tick:
  fixes x :: "xlink xmodem" and buf :: "u8 list"
  assumes "crc \<or> flags AND XBEE_XMODEM_FLAG_FORCE_CRC = 0"
  defines "x1 \<equiv> (sender flags buf x)\<lparr>xm_flags := (flags AND XBEE_XMODEM_FLAG_USER) OR (if crc then 2 else 1), xm_state := XM_SEND, xm_packet_num := 1\<rparr>"
  shows "xbee_xmodem_tx_tick ms (sender flags buf x) (new_link crc blk f [start_char crc] fates) =
    xbee_xmodem_tx_tick ms x1 (new_link crc blk f [] fates)"
    and "flags_size flags + 5 \<le> length buf \<Longrightarrow> any.wired (flags_size flags) x1"
    and "xm_flags x1 AND XBEE_XMODEM_FLAG_CRC \<noteq> 0 \<longleftrightarrow> crc"
proof -
  have "xmodem_getchar (sender flags buf x) (new_link crc blk f [start_char crc] fates) = (Inr (uint (start_char crc)), new_link crc blk f [] fates)"
    by (simp add: xmodem_getchar_def sender_fields link_read_def new_link_def)
  then show "xbee_xmodem_tx_tick ms (sender flags buf x) (new_link crc blk f [start_char crc] fates) =
    xbee_xmodem_tx_tick ms x1 (new_link crc blk f [] fates)"
    using assms(1) by (auto simp: x1_def xbee_xmodem_tx_tick_def sender_fields xm_start_def start_char_def
        XBEE_XMODEM_FLAG_USER_def and.assoc)
  show "any.wired (flags_size flags) x1" if "flags_size flags + 5 \<le> length buf"
    by (rule any.wired_same [OF sender_wired [OF that, of x]])
      (simp_all add: x1_def sender_fields bit.conj_disj_distrib2)
  show "xm_flags x1 AND XBEE_XMODEM_FLAG_CRC \<noteq> 0 \<longleftrightarrow> crc"
    by (simp add: x1_def bit.conj_disj_distrib2 XBEE_XMODEM_FLAG_USER_def and.assoc)
qed

text \<open>
  C5: A transfer over a line without errors, to a receiver that asks for packets with a checksum or a
  CRC: after two ticks for each packet and three more, the sender reports success, and the receiver
  has the padded file and has seen its end.
\<close>

theorem xmodem_clean_transfer:
  assumes "flags_size flags + 5 \<le> length buf" "crc \<or> flags AND XBEE_XMODEM_FLAG_FORCE_CRC = 0"
  defines "blk \<equiv> flags_size flags"
  shows "\<exists>x' w'. run_ticks (2 * ((length f + (blk - 1)) div blk) + 3) ln_ms (sender flags buf x)
      (new_link crc blk f [start_char crc] []) = Some (Inr 1, x', w') \<and>
    rc_data (ln_peer w') = padded blk f \<and> rc_done (ln_peer w')"
proof -
  note first = first_tick [where buf = buf and x = x, OF assms(2)]
  obtain x1 where x1: "\<And>ms w. xbee_xmodem_tx_tick ms (sender flags buf x) (new_link crc blk f [start_char crc] []) =
      xbee_xmodem_tx_tick ms x1 (new_link crc blk f [] [])" "any.wired blk x1"
    "xm_flags x1 AND XBEE_XMODEM_FLAG_CRC \<noteq> 0 \<longleftrightarrow> crc" "xm_state x1 = XM_SEND" "xm_packet_num x1 = 1"
    using first(1) first(2) [OF assms(1)] first(3) unfolding blk_def by fastforce
  have "clean.between blk f 0 x1 (new_link crc blk f [] [])"
    using x1(2-5) by (simp add: clean.between_def new_link_def new_receiver_def blocks_of_def)
  from clean.rest_of_file [OF this, of _ ln_ms] flags_size_pos [of flags]
  obtain x' w' where r: "run_ticks (2 * ((length f + (blk - 1)) div blk) + 3) ln_ms x1 (new_link crc blk f [] []) = Some (Inr 1, x', w')"
    "rc_data (ln_peer w') = padded blk f" "rc_done (ln_peer w')"
    unfolding blk_def by auto
  have "run_ticks (Suc n) ln_ms (sender flags buf x) (new_link crc blk f [start_char crc] []) = run_ticks (Suc n) ln_ms x1 (new_link crc blk f [] [])" for n
    by (simp add: x1(1))
  then show ?thesis using r by (simp add: eval_nat_numeral)
qed

section \<open>A refused write\<close>

text \<open>
  The state of the sender after a packet is assembled stays XBEE_XMODEM_STATE_SEND until all of
  it is written; no code sets XBEE_XMODEM_STATE_SENDING.  So the tick after a write that took
  no bytes assembles the next block of the file.
\<close>

lemma refused_tick:
  assumes "any.wired blk x" "xm_state x = XM_SEND" "xm_packet_num x = 1" "0 < blk" "f \<noteq> []"
    and "xm_flags x AND XBEE_XMODEM_FLAG_CRC \<noteq> 0 \<longleftrightarrow> crc"
  shows "\<exists>x' w'. xbee_xmodem_tx_tick ms x (new_link crc blk f [] [Busy]) = Some (Inr 0, x', w') \<and> clean.between blk (drop blk f) 0 x' w'"
proof -
  let ?w = "new_link crc blk f [] [Busy]"
  obtain r y v where a: "assemble_packet x (block_size x) ?w = (r, y, v)" by (metis prod_cases3)
  have w: "ln_fates ?w = [Busy]" "ln_file ?w = f" "ln_back ?w = []" "ln_peer ?w = new_receiver crc blk" by (simp_all add: new_link_def)
  note asm = any.assemble [OF w(1) assms(1) a assms(4), unfolded w(2,3,4)]
  obtain rest where y: "r = Inr 0" "ln_file v = drop blk f" "xm_state y = XM_SEND" "xm_packet_num y = 1" "xm_flags y = xm_flags x"
    "xm_buffer y = Some (packet_of x 1 (block_of blk f 0) @ rest)"
    using asm(6) assms(2,3,5) by auto
  obtain u where u: "skip_chars y v = Some u" "ln_file u = ln_file v" "ln_peer u = ln_peer v" "ln_fates u = [Busy]" "ln_back u = []"
    by (rule any.skip_chars [OF asm(3,4)])
  let ?y = "y\<lparr>xm_offset := 0\<rparr>" and ?u = "u\<lparr>ln_fates := []\<rparr>"
  have "xm_write y = link_write" using asm(4) by (simp add: any.wired_def)
  moreover have size: "block_size y \<in> {64, 128, 1024}" by (simp add: block_size_def Let_def)
  ultimately have "xm_resend ms y u = Some (Inr 0, ?y, ?u)"
    using u(4) by (auto simp: xm_resend_def xm_sending_def link_write_def block_size_def Let_def)
  then have "xbee_xmodem_tx_tick ms x ?w = Some (Inr 0, ?y, ?u)"
    using assms(1,2) a y(1) u(1) by (auto simp: xbee_xmodem_tx_tick_def xm_send_def any.wired_def)
  moreover have "any.wired blk ?y" using asm(4) by (rule any.wired_same) simp_all
  then have "clean.between blk (drop blk f) 0 ?y ?u"
    using y u asm(2) assms(6) by (simp add: clean.between_def new_receiver_def blocks_of_def)
  ultimately show ?thesis by blast
qed

text \<open>
  C36: A write that is refused once loses a block.  When the first write of a packet takes no bytes, as the
  function that writes for updates over the air returns when a frame could not be sent, and everything else goes
  well, the sender reports success, and the receiver has the file without its first block.
\<close>

theorem xmodem_refused_write_loses_block:
  assumes "flags_size flags + 5 \<le> length buf" "crc \<or> flags AND XBEE_XMODEM_FLAG_FORCE_CRC = 0" "f \<noteq> []"
  defines "blk \<equiv> flags_size flags"
  shows "\<exists>n x' w'. run_ticks n ln_ms (sender flags buf x) (new_link crc blk f [start_char crc] [Busy]) = Some (Inr 1, x', w') \<and>
    rc_data (ln_peer w') = padded blk (drop blk f) \<and> rc_done (ln_peer w')"
proof -
  note first = first_tick [where buf = buf and x = x, OF assms(2)]
  obtain x1 where x1: "\<And>ms. xbee_xmodem_tx_tick ms (sender flags buf x) (new_link crc blk f [start_char crc] [Busy]) =
      xbee_xmodem_tx_tick ms x1 (new_link crc blk f [] [Busy])" "any.wired blk x1"
    "xm_flags x1 AND XBEE_XMODEM_FLAG_CRC \<noteq> 0 \<longleftrightarrow> crc" "xm_state x1 = XM_SEND" "xm_packet_num x1 = 1"
    using first(1) first(2) [OF assms(1)] first(3) unfolding blk_def by fastforce
  have pos: "0 < blk" using flags_size_pos blk_def by simp
  obtain x2 w2 where x2: "xbee_xmodem_tx_tick ln_ms x1 (new_link crc blk f [] [Busy]) = Some (Inr 0, x2, w2)"
    "clean.between blk (drop blk f) 0 x2 w2"
    using refused_tick [OF x1(2,4,5) pos assms(3) x1(3)] by blast
  from clean.rest_of_file [OF x2(2) pos _ refl, of ln_ms] pos
  obtain m x' w' where "run_ticks m ln_ms x2 w2 = Some (Inr 1, x', w')"
    "rc_data (ln_peer w') = padded blk (drop blk f)" "rc_done (ln_peer w')" by auto
  then show ?thesis using x1(1) x2(1) by (intro exI [of _ "Suc m"]) auto
qed

section \<open>Examples\<close>

definition demo_sender :: "xlink xmodem" where
  "demo_sender = sender XBEE_XMODEM_FLAG_64 (replicate 69 0)
     \<lparr>xm_flags = 0, xm_packet_num = 0, xm_timer = 0, xm_state = XM_FAILURE, xm_tries = 0, xm_offset = 0, xm_buffer = None,
      xm_file_read = link_file, xm_read = link_read, xm_write = link_write\<rparr>"

lemma demo_flags: "flags_size XBEE_XMODEM_FLAG_64 = 64"
  by (simp add: flags_size_def)

theorem xmodem_success_complete_witness:
  "\<exists>r x' w'. xbee_xmodem_tx_tick ln_ms demo_sender (new_link True 64 [1, 2, 3] [XMODEM_CRC] [Lossy False []]) = Some (r, x', w') \<and>
    (r = Inr 1 \<longrightarrow> rc_data (ln_peer w') = padded 64 [1, 2, 3])"
proof -
  have "transfer XBEE_XMODEM_FLAG_64 [1, 2, 3] demo_sender (new_link True 64 [1, 2, 3] [XMODEM_CRC] [Lossy False []])"
    unfolding demo_sender_def demo_flags [symmetric] by (rule transfer.start) (simp_all add: demo_flags)
  from xmodem_success_complete [OF this] show ?thesis by (simp only: demo_flags)
qed

theorem xmodem_clean_transfer_witness:
  "\<exists>x' w'. run_ticks 5 ln_ms demo_sender (new_link True 64 [1, 2, 3] [XMODEM_CRC] []) = Some (Inr 1, x', w') \<and>
    rc_data (ln_peer w') = padded 64 [1, 2, 3] \<and> rc_done (ln_peer w')"
  using xmodem_clean_transfer [of XBEE_XMODEM_FLAG_64 "replicate 69 0" True "[1, 2, 3]", unfolded demo_flags]
  by (simp add: demo_sender_def start_char_def)

theorem xmodem_refused_write_loses_block_witness:
  "\<exists>n x' w'. run_ticks n ln_ms demo_sender (new_link True 64 (replicate 65 7) [XMODEM_CRC] [Busy]) = Some (Inr 1, x', w') \<and>
    rc_data (ln_peer w') = padded 64 [7] \<and> rc_done (ln_peer w')"
  using xmodem_refused_write_loses_block [of XBEE_XMODEM_FLAG_64 "replicate 69 0" True "replicate 65 7", unfolded demo_flags]
  by (simp add: demo_sender_def start_char_def)

end
