(* ===== verification/Xbee_Ota_Client.thy ===== *)
theory Xbee_Ota_Client
  imports Xmodem_Correct Wpan_Aps
begin

text \<open>
  Updating a remote module over the air (\<open>pxbee/pan/xbee/xbee_ota_client.c\<close>): the update is an XMODEM
  transfer whose line is the transparent serial cluster (\<open>xbee_transparent_serial.c\<close>).  The
  stream functions of the transfer have the structure \<open>xbee_ota_t\<close> as their context; so the
  world of the sender is that structure, with everything else in \<open>ot_world\<close>, and the sender's own state,
  its field \<open>xbxm\<close>, is beside it.
\<close>

section \<open>Transparent serial data\<close>

abbreviation WPAN_PROFILE_DIGI :: u16 where "WPAN_PROFILE_DIGI \<equiv> 0xC105"
abbreviation WPAN_ENDPOINT_DIGI_DATA :: u8 where "WPAN_ENDPOINT_DIGI_DATA \<equiv> 0xE8"
abbreviation DIGI_CLUST_SERIAL :: u16 where "DIGI_CLUST_SERIAL \<equiv> 0x0011"
abbreviation DIGI_CLUST_PROG_XBEE_OTA_UPD :: u16 where "DIGI_CLUST_PROG_XBEE_OTA_UPD \<equiv> 0x1000"

definition serial_envelope :: "wpan_envelope \<Rightarrow> wpan_envelope" where
  "serial_envelope envelope = envelope\<lparr>env_profile_id := WPAN_PROFILE_DIGI, env_source_endpoint := WPAN_ENDPOINT_DIGI_DATA,
     env_dest_endpoint := WPAN_ENDPOINT_DIGI_DATA, env_cluster_id := DIGI_CLUST_SERIAL\<rparr>"

definition xbee_transparent_serial ::
    "(nat \<Rightarrow> ('c, 'w) wpan_dev) \<Rightarrow> wpan_envelope \<Rightarrow> 'w \<Rightarrow> rc \<times> wpan_envelope \<times> 'w" where
  "xbee_transparent_serial devs envelope w =
     (let e = serial_envelope envelope; (r, w) = wpan_envelope_send devs (Some e) w in (r, e, w))"

definition xbee_transparent_serial_str ::
    "(nat \<Rightarrow> ('c, 'w) wpan_dev) \<Rightarrow> wpan_envelope \<Rightarrow> u8 list \<Rightarrow> 'w \<Rightarrow> rc \<times> wpan_envelope \<times> 'w" where
  "xbee_transparent_serial_str devs envelope data w =
     xbee_transparent_serial devs
       (envelope\<lparr>env_payload := Some data, env_length := of_nat (length (takeWhile (\<lambda>c. c \<noteq> 0) data))\<rparr>) w"

section \<open>The client\<close>

abbreviation XBEE_OTA_FLAG_APS_ENCRYPT :: u16 where "XBEE_OTA_FLAG_APS_ENCRYPT \<equiv> 0x0001"

record 'w xbee_ota =
  ot_dev :: "nat option"
  ot_target :: addr64
  ot_flags :: u16
  ot_rxbuf :: xbee_cbuf
  ot_auth_data :: "u8 list"
  ot_auth_length :: u8
  ot_world :: 'w

text \<open>\<open>_xbee_ota_transparent_rx\<close>, the handler of the transparent serial cluster.\<close>

definition ota_transparent_rx :: "wpan_envelope \<Rightarrow> 'w xbee_ota \<Rightarrow> (errno + int) \<times> 'w xbee_ota" where
  "ota_transparent_rx envelope ota =
     (Inr 0,
      if ot_target ota = env_ieee_address envelope
      then ota\<lparr>ot_rxbuf := snd (xbee_cbuf_put (ot_rxbuf ota) (the (env_payload envelope)) (ucast (env_length envelope)))\<rparr>
      else ota)"

definition ota_xmodem_read :: "'w xbee_ota xmodem_read" where
  "ota_xmodem_read bytes ota =
     (if bytes < 0 then (Inl EINVAL, [], ota)
      else case xbee_cbuf_get (ot_rxbuf ota) (if bytes > 255 then 255 else word_of_int bytes) of
             (n, bs, cb) \<Rightarrow> (Inr (uint n), bs, ota\<lparr>ot_rxbuf := cb\<rparr>))"

definition ota_options :: "'w xbee_ota \<Rightarrow> u16" where
  "ota_options ota = (if ot_flags ota AND XBEE_OTA_FLAG_APS_ENCRYPT \<noteq> 0 then ucast WPAN_CLUST_FLAG_ENCRYPT else 0)"

definition ota_xmodem_write :: "(nat \<Rightarrow> ('c, 'w) wpan_dev) \<Rightarrow> 'w xbee_ota xmodem_write" where
  "ota_xmodem_write devs buffer bytes ota =
     (if bytes < 0 then (Inl EINVAL, ota)
      else
        let e = (wpan_envelope_create (ot_dev ota) (ot_target ota) 0xFFFE)
                  \<lparr>env_payload := Some (take (nat bytes) buffer), env_length := word_of_int bytes, env_options := ota_options ota\<rparr>;
            (r, _, w) = xbee_transparent_serial devs e (ot_world ota)
        in (Inr (if r \<noteq> Inr 0 then 0 else bytes), ota\<lparr>ot_world := w\<rparr>))"

definition ota_start_envelope :: "'w xbee_ota \<Rightarrow> wpan_envelope" where
  "ota_start_envelope ota = (wpan_envelope_create (ot_dev ota) (ot_target ota) 0xFFFE)
     \<lparr>env_profile_id := WPAN_PROFILE_DIGI, env_source_endpoint := WPAN_ENDPOINT_DIGI_DATA,
      env_dest_endpoint := WPAN_ENDPOINT_DIGI_DATA, env_cluster_id := DIGI_CLUST_PROG_XBEE_OTA_UPD,
      env_options := ota_options ota,
      env_length := (if ot_auth_length ota \<noteq> 0 then ucast (ot_auth_length ota) else 1),
      env_payload := Some (if ot_auth_length ota \<noteq> 0 then ot_auth_data ota else [0])\<rparr>"

text \<open>The letter F, for the boot loader.\<close>

definition ota_boot_envelope :: "wpan_envelope \<Rightarrow> wpan_envelope" where
  "ota_boot_envelope e = e\<lparr>env_payload := Some [0x46], env_length := 1, env_cluster_id := DIGI_CLUST_SERIAL\<rparr>"

definition xbee_ota_init ::
    "(nat \<Rightarrow> ('c, 'w) wpan_dev) \<Rightarrow> 'w xbee_ota option \<Rightarrow> 'w xbee_ota xmodem \<Rightarrow> nat option \<Rightarrow> addr64 option
     \<Rightarrow> (errno + int) \<times> 'w xbee_ota option \<times> 'w xbee_ota xmodem" where
  "xbee_ota_init devs ota xbxm dev target =
     (case (ota, dev, target) of
        (Some ota, Some d, Some target) \<Rightarrow>
          (let cb = (case xbee_cbuf_init (Some (ot_rxbuf ota)) 255 of (_, cb) \<Rightarrow> the cb);
               ota = ota\<lparr>ot_dev := Some d, ot_target := target, ot_rxbuf := cb\<rparr>;
               e = ota_start_envelope ota;
               (error, w) = wpan_envelope_send devs (Some e) (ot_world ota);
               ota = ota\<lparr>ot_world := w\<rparr> in
           if error \<noteq> Inr 0 then (error, Some ota, xbxm)
           else
             let (_, w) = wpan_envelope_send devs (Some (ota_boot_envelope e)) (ot_world ota);
                 xbxm = the (snd (xbee_xmodem_tx_init (Some xbxm) XBEE_XMODEM_FLAG_64));
                 (r, xbxm') = xbee_xmodem_set_stream (Some xbxm) (Some ota_xmodem_read) (Some (ota_xmodem_write devs))
             in (r, Some (ota\<lparr>ot_world := w\<rparr>), the xbxm'))
      | _ \<Rightarrow> (Inl EINVAL, ota, xbxm))"

section \<open>The line of the transfer\<close>

text \<open>A packet is sent as one message, or refused when it could not be sent.\<close>

lemma ota_write_message:
  fixes ota :: "'w xbee_ota" and buffer :: "u8 list" and d :: nat
  assumes "0 \<le> bytes" "ot_dev ota = Some d" "dev_endpoint_send (devs d) = Some send"
  defines "e \<equiv> serial_envelope ((wpan_envelope_create (Some d) (ot_target ota) 0xFFFE)
      \<lparr>env_payload := Some (take (nat bytes) buffer), env_length := word_of_int bytes, env_options := ota_options ota\<rparr>)"
  shows "ota_xmodem_write devs buffer bytes ota =
    (case send e (if ot_flags ota AND XBEE_OTA_FLAG_APS_ENCRYPT \<noteq> 0 then 1 else 0) (ot_world ota) of
       (r, w) \<Rightarrow> (Inr (if r = Inr 0 then bytes else 0), ota\<lparr>ot_world := w\<rparr>))"
  using assms(1-3)
  by (simp add: ota_xmodem_write_def xbee_transparent_serial_def wpan_envelope_send_def e_def serial_envelope_def
      wpan_envelope_create_def ota_options_def Let_def case_prod_unfold)

text \<open>Only the target can answer.\<close>

lemma ota_rx_contents:
  assumes "xcb_wf (ot_rxbuf ota)" "env_payload e = Some p" "unat (env_length e) = length p" "length p < 256"
    and "length p \<le> unat (xbee_cbuf_free (ot_rxbuf ota))"
  shows "xcb_contents (ot_rxbuf (snd (ota_transparent_rx e ota))) =
    (if env_ieee_address e = ot_target ota then xcb_contents (ot_rxbuf ota) @ p else xcb_contents (ot_rxbuf ota))"
proof -
  have len: "unat (ucast (env_length e) :: u8) = length p"
    using assms(3,4) by (simp add: unsigned_ucast_eq take_bit_nat_eq_self)
  obtain n cb where n: "xbee_cbuf_put (ot_rxbuf ota) p (ucast (env_length e)) = (n, cb)" by fastforce
  have "xcb_contents cb = xcb_contents (ot_rxbuf ota) @ p"
    using xbee_cbuf_put_facts(1,2) [OF assms(1) _ n] len assms(5) by simp
  then show ?thesis using n assms(2) by (simp add: ota_transparent_rx_def)
qed

end
