(* ===== verification/Xbee_Discovery.thy ===== *)
theory Xbee_Discovery
  imports Xbee_Atcmd_Lists Wpan_Aps
begin

text \<open>
  Node discovery (\<open>pxbee/pan/xbee/xbee_discovery.c\<close>): messages that name a node, in the
  three forms in which the module delivers them, and the function registered to receive them.

  A pointer into a message is the list of bytes from there to the end of the message.  The code does not use the
  length it is given; \<open>None\<close> is the result when it reads past the end of the message.
\<close>

section \<open>Parsing\<close>

abbreviation XBEE_DISC_MAX_NODEID_LEN :: nat where "XBEE_DISC_MAX_NODEID_LEN \<equiv> 20"
abbreviation XBEE_ND_DEVICE_TYPE_ENDDEV :: u8 where "XBEE_ND_DEVICE_TYPE_ENDDEV \<equiv> 2"

record xbee_node_id =
  ni_ieee_addr :: addr64
  ni_network_addr :: u16
  ni_parent_addr :: u16
  ni_device_type :: u8
  ni_node_info :: "u8 list"

text \<open>\<open>strlen\<close> of a string in memory of which only the given bytes belong to the message.\<close>

fun c_strlen :: "u8 list \<Rightarrow> nat option" where
  "c_strlen [] = None"
| "c_strlen (c # cs) = (if c = 0 then Some 0 else map_option Suc (c_strlen cs))"

text \<open>\<open>xbee_disc_nd_parse\<close> for a destination that is not null, which all of its callers pass.\<close>

definition xbee_disc_nd_parse :: "u8 list option \<Rightarrow> int \<Rightarrow> (errno + xbee_node_id) option" where
  "xbee_disc_nd_parse source source_length =
     (case source of
        None \<Rightarrow> Some (Inl EINVAL)
      | Some id1 \<Rightarrow>
          (case c_strlen (drop 10 id1) of
             None \<Rightarrow> None
           | Some ni_len \<Rightarrow>
               if ni_len > XBEE_DISC_MAX_NODEID_LEN then Some (Inl EBADMSG)
               else
                 let id2 = drop (10 + ni_len + 1) id1 in
                 if length id2 < 3 then None
                 else Some (Inr
                   \<lparr>ni_ieee_addr = take 8 (drop 2 id1),
                    ni_network_addr = be16 (id1 ! 0) (id1 ! 1),
                    ni_parent_addr = be16 (id2 ! 0) (id2 ! 1),
                    ni_device_type = id2 ! 2,
                    ni_node_info = take ni_len (drop 10 id1) @ replicate (XBEE_DISC_MAX_NODEID_LEN + 1 - ni_len) 0\<rparr>)))"

definition xbee_disc_device_type_str :: "u8 \<Rightarrow> string" where
  "xbee_disc_device_type_str device_type =
     (let device_type = (if device_type > XBEE_ND_DEVICE_TYPE_ENDDEV then XBEE_ND_DEVICE_TYPE_ENDDEV + 1 else device_type)
      in [''Coord'', ''Router'', ''EndDev'', ''???''] ! unat device_type)"

section \<open>Receivers of messages\<close>

text \<open>
  The field \<open>node_id_handler\<close> of the device is kept with it; a handler works on the state of the rest of the
  system, and its number stands for the function pointer when pointers are compared.
\<close>

record 'w node_dev =
  nd_handler :: "nat option"
  nd_world :: 'w

definition xbee_disc_add_node_id_handler :: "'w node_dev option \<Rightarrow> nat option \<Rightarrow> (errno + int) \<times> 'w node_dev option" where
  "xbee_disc_add_node_id_handler xbee fn =
     (case (xbee, fn) of
        (Some d, Some f) \<Rightarrow> if nd_handler d \<noteq> None then (Inl ENOSPC, xbee) else (Inr 0, Some (d\<lparr>nd_handler := Some f\<rparr>))
      | _ \<Rightarrow> (Inl EINVAL, xbee))"

definition xbee_disc_remove_node_id_handler :: "'w node_dev option \<Rightarrow> nat option \<Rightarrow> (errno + int) \<times> 'w node_dev option" where
  "xbee_disc_remove_node_id_handler xbee fn =
     (case (xbee, fn) of
        (Some d, Some f) \<Rightarrow> if nd_handler d \<noteq> Some f then (Inl ENOENT, xbee) else (Inr 0, Some (d\<lparr>nd_handler := None\<rparr>))
      | _ \<Rightarrow> (Inl EINVAL, xbee))"

text \<open>A handler called with a node, or with the null pointer.\<close>

definition call_node_handler ::
    "(nat \<Rightarrow> xbee_node_id option \<Rightarrow> 'w \<Rightarrow> 'w) \<Rightarrow> xbee_node_id option \<Rightarrow> 'w node_dev option \<Rightarrow> 'w node_dev option" where
  "call_node_handler handle node xbee =
     (case xbee of
        None \<Rightarrow> None
      | Some d \<Rightarrow> (case nd_handler d of None \<Rightarrow> Some d | Some f \<Rightarrow> Some (d\<lparr>nd_world := handle f node (nd_world d)\<rparr>)))"

definition xbee_disc_parse_and_pass ::
    "(nat \<Rightarrow> xbee_node_id option \<Rightarrow> 'w \<Rightarrow> 'w) \<Rightarrow> 'w node_dev option \<Rightarrow> u8 list option \<Rightarrow> int
     \<Rightarrow> ((errno + int) \<times> 'w node_dev option) option" where
  "xbee_disc_parse_and_pass handle xbee node_data len =
     (case xbee_disc_nd_parse node_data len of
        None \<Rightarrow> None
      | Some (Inl e) \<Rightarrow> Some (Inl e, xbee)
      | Some (Inr node_id) \<Rightarrow> Some (Inr 0, call_node_handler handle (Some node_id) xbee))"

definition xbee_disc_nodeid_cluster_handler ::
    "(nat \<Rightarrow> xbee_node_id option \<Rightarrow> 'w \<Rightarrow> 'w) \<Rightarrow> 'w node_dev option \<Rightarrow> wpan_envelope option
     \<Rightarrow> ((errno + int) \<times> 'w node_dev option) option" where
  "xbee_disc_nodeid_cluster_handler handle xbee envelope =
     (case envelope of
        None \<Rightarrow> Some (Inl EINVAL, xbee)
      | Some e \<Rightarrow> xbee_disc_parse_and_pass handle xbee (env_payload e) (sint (env_length e)))"

abbreviation XBEE_AT_RESP_STATUS_MASK :: u8 where "XBEE_AT_RESP_STATUS_MASK \<equiv> 0x0F"

definition xbee_disc_atnd_response_handler ::
    "(nat \<Rightarrow> xbee_node_id option \<Rightarrow> 'w \<Rightarrow> 'w) \<Rightarrow> 'w node_dev option \<Rightarrow> u8 list option \<Rightarrow> u16
     \<Rightarrow> ((errno + int) \<times> 'w node_dev option) option" where
  "xbee_disc_atnd_response_handler handle xbee raw len =
     (case raw of
        None \<Rightarrow> Some (Inl EINVAL, xbee)
      | Some resp \<Rightarrow>
          if length resp < 5 then None
          else if be16 (resp ! 2) (resp ! 3) = at_cmd CHR ''N'' CHR ''D'' then
            if resp ! 4 AND XBEE_AT_RESP_STATUS_MASK = 0 then
              xbee_disc_parse_and_pass handle xbee (Some (drop 5 resp)) (sint (len - 5))
            else if resp ! 4 AND XBEE_AT_RESP_STATUS_MASK = 1 then Some (Inr 0, call_node_handler handle None xbee)
            else Some (Inr 0, xbee)
          else Some (Inr 0, xbee))"

definition xbee_disc_nodeid_frame_handler ::
    "(nat \<Rightarrow> xbee_node_id option \<Rightarrow> 'w \<Rightarrow> 'w) \<Rightarrow> 'w node_dev option \<Rightarrow> u8 list option \<Rightarrow> u16
     \<Rightarrow> ((errno + int) \<times> 'w node_dev option) option" where
  "xbee_disc_nodeid_frame_handler handle xbee raw len =
     (case raw of
        None \<Rightarrow> Some (Inl EINVAL, xbee)
      | Some frame \<Rightarrow> xbee_disc_parse_and_pass handle xbee (Some (drop 12 frame)) (sint (len - 12)))"

section \<open>Asking for nodes\<close>

definition xbee_disc_discover_nodes ::
    "nat option \<Rightarrow> u8 list option \<Rightarrow> ('p, 'w) at_state \<Rightarrow> (errno + int) \<times> ('p, 'w) at_state" where
  "xbee_disc_discover_nodes xbee identifier s =
     (let ni_len = (case identifier of None \<Rightarrow> 0 | Some cs \<Rightarrow> length (takeWhile (\<lambda>c. c \<noteq> 0) cs)) in
      if ni_len > XBEE_DISC_MAX_NODEID_LEN then (Inl EINVAL, s)
      else xbee_cmd_execute xbee (at_cmd CHR ''N'' CHR ''D'') identifier (of_nat ni_len) s)"

section \<open>What a message tells\<close>

text \<open>A message as a node sends it: its addresses, its name, its parent, its type, and what follows.\<close>

definition node_message :: "u16 \<Rightarrow> addr64 \<Rightarrow> u8 list \<Rightarrow> u16 \<Rightarrow> u8 \<Rightarrow> u8 list \<Rightarrow> u8 list" where
  "node_message network ieee name parent kind rest =
     bytes16 network @ ieee @ name @ [0] @ bytes16 parent @ [kind] @ rest"

lemma c_strlen_append: "0 \<notin> set name \<Longrightarrow> c_strlen (name @ 0 # rest) = Some (length name)"
  by (induction name) auto

lemma c_strlen_None: "c_strlen bs = None \<longleftrightarrow> 0 \<notin> set bs"
  by (induction bs) auto

definition node_of :: "u16 \<Rightarrow> addr64 \<Rightarrow> u8 list \<Rightarrow> u16 \<Rightarrow> u8 \<Rightarrow> xbee_node_id" where
  "node_of network ieee name parent kind =
     \<lparr>ni_ieee_addr = ieee, ni_network_addr = network, ni_parent_addr = parent, ni_device_type = kind,
      ni_node_info = name @ replicate (21 - length name) 0\<rparr>"

lemma nd_parse_message:
  assumes "length ieee = 8" "0 \<notin> set name"
  shows "xbee_disc_nd_parse (Some (node_message network ieee name parent kind rest)) n =
    Some (if length name \<le> 20 then Inr (node_of network ieee name parent kind) else Inl EBADMSG)"
proof -
  let ?m = "node_message network ieee name parent kind rest" and ?tail = "[0] @ bytes16 parent @ [kind] @ rest"
  have m: "?m = bytes16 network @ ieee @ name @ ?tail" by (simp add: node_message_def)
  have d2: "drop 2 ?m = ieee @ name @ ?tail" by (simp add: m)
  have d10: "drop 10 ?m = name @ ?tail" using assms(1) by (simp add: m)
  have "drop (10 + length name + 1) ?m = drop (length name + 1) (drop 10 ?m)" by (simp only: drop_drop) (simp add: add.commute)
  then have d: "drop (10 + length name + 1) ?m = bytes16 parent @ kind # rest" unfolding d10 by simp
  have b: "be16 ((bytes16 w @ xs) ! 0) ((bytes16 w @ xs) ! 1) = w" for w xs by (simp add: nth_append)
  have len: "c_strlen (drop 10 ?m) = Some (length name)" using c_strlen_append [OF assms(2)] by (simp add: d10)
  have net: "be16 (?m ! 0) (?m ! 1) = network" unfolding m by (rule b)
  have par: "be16 ((bytes16 parent @ kind # rest) ! 0) ((bytes16 parent @ kind # rest) ! 1) = parent" by (rule b)
  have "xbee_disc_nd_parse (Some ?m) n = Some (if length name > 20 then Inl EBADMSG else Inr
      \<lparr>ni_ieee_addr = take 8 (drop 2 ?m), ni_network_addr = network, ni_parent_addr = parent,
       ni_device_type = (bytes16 parent @ kind # rest) ! 2, ni_node_info = take (length name) (drop 10 ?m) @ replicate (20 + 1 - length name) 0\<rparr>)"
    by (simp only: xbee_disc_nd_parse_def option.case len Let_def d net par) simp
  then show ?thesis using assms(1) by (simp add: d2 d10 node_of_def nth_append)
qed

text \<open>
  C35: A node's message is understood.  From the message of a node with a name of up to 20 characters, in
  each of the three forms in which it arrives, the registered receiver gets the node's addresses,
  parent, type and name, padded with zeros; a longer name is refused, and the receiver not called.
\<close>

theorem node_message_received:
  assumes "length ieee = 8" "0 \<notin> set name" "length ieee2 = 8" "nd_handler d = Some f"
    and "msg = node_message network ieee name parent kind rest" "env_payload e = Some msg"
    and "result = (if length name \<le> 20
      then (Inr 0, Some (d\<lparr>nd_world := handle f (Some (node_of network ieee name parent kind)) (nd_world d)\<rparr>)) else (Inl EBADMSG, Some d))"
  shows "xbee_disc_nodeid_cluster_handler handle (Some d) (Some e) = Some result \<and>
    xbee_disc_nodeid_frame_handler handle (Some d) (Some ([0x95] @ ieee2 @ bytes16 net2 @ [options] @ msg)) n = Some result \<and>
    xbee_disc_atnd_response_handler handle (Some d)
      (Some ([XBEE_FRAME_LOCAL_AT_RESPONSE, frame_id] @ bytes16 (at_cmd CHR ''N'' CHR ''D'') @ [0] @ msg)) n = Some result"
proof -
  have pass: "xbee_disc_parse_and_pass handle (Some d) (Some msg) len = Some result" for len
    using nd_parse_message [OF assms(1,2), of network parent kind rest len] assms(4,5,7)
    by (simp add: xbee_disc_parse_and_pass_def call_node_handler_def)
  have "drop 12 ([0x95] @ ieee2 @ bytes16 net2 @ [options] @ msg) = msg" using assms(3) by simp
  then have frame: "xbee_disc_nodeid_frame_handler handle (Some d) (Some ([0x95] @ ieee2 @ bytes16 net2 @ [options] @ msg)) n = Some result"
    by (simp only: xbee_disc_nodeid_frame_handler_def option.case pass)
  let ?r = "[XBEE_FRAME_LOCAL_AT_RESPONSE, frame_id] @ bytes16 (at_cmd CHR ''N'' CHR ''D'') @ [0] @ msg"
  have r: "drop 5 ?r = msg" "be16 (?r ! 2) (?r ! 3) = at_cmd CHR ''N'' CHR ''D''" "?r ! 4 = 0" "\<not> length ?r < 5"
    by (simp_all add: nth_append nth_Cons' bytes16_def be16_bytes)
  have "xbee_disc_atnd_response_handler handle (Some d) (Some ?r) n = Some result"
    unfolding xbee_disc_atnd_response_handler_def option.case r(1,2,3) by (simp only: r(4) pass) simp
  then show ?thesis using frame pass assms(6) by (simp add: xbee_disc_nodeid_cluster_handler_def)
qed

theorem node_message_received_witness:
  "xbee_disc_nodeid_cluster_handler (\<lambda>f node seen. seen @ [(f, node)]) (Some \<lparr>nd_handler = Some 7, nd_world = []\<rparr>)
     (Some ((wpan_envelope_create None (replicate 8 1) 2)\<lparr>env_payload := Some (node_message 3 (replicate 8 4) [0x41] 5 1 [])\<rparr>)) =
   Some (Inr 0, Some \<lparr>nd_handler = Some 7, nd_world = [(7, Some (node_of 3 (replicate 8 4) [0x41] 5 1))]\<rparr>)"
  using node_message_received [of "replicate 8 4" "[0x41]" "replicate 8 1" "\<lparr>nd_handler = Some 7, nd_world = []\<rparr>" 7 _ 3 5 1 "[]"
      "(wpan_envelope_create None (replicate 8 1) 2)\<lparr>env_payload := Some (node_message 3 (replicate 8 4) [0x41] 5 1 [])\<rparr>"
      _ "\<lambda>f node seen. seen @ [(f, node)]"]
  by simp

text \<open>A message without the end of its name, or one cut after it, is read past its end, whatever length is given.\<close>

lemma nd_parse_overread: "0 \<notin> set name \<Longrightarrow> xbee_disc_nd_parse (Some (bytes16 network @ replicate 8 a @ name)) n = None"
  by (simp add: xbee_disc_nd_parse_def c_strlen_None [THEN iffD2])

end
