(* ===== verification/Zcl_Clusters.thy ===== *)
theory Zcl_Clusters
  imports Zcl_Replies
begin

text \<open>
  Four standard clusters of the SDK: Identify (\<open>pxbee/pan/zigbee/zcl_identify.c\<close>), Time
  (\<open>zcl_time.c\<close>), Basic (\<open>zcl_basic.c\<close>) and On/Off (\<open>zcl_onoff.c\<close>).  The variables behind attributes are in
  memory, at addresses the linker chooses; the other variables and the seconds timer are beside it.
\<close>

section \<open>State\<close>

record zcl_addrs =
  va_identify_time :: u16
  va_time_time :: u16
  va_timestatus :: u16

record 'w zcl_vars =
  zv_identify_end :: u32
  zv_time_skew :: u32
  zv_seconds :: u32
  zv_world :: 'w

type_synonym 'w zcl_state = "mem \<times> 'w zcl_vars"

definition mem32 :: "mem \<Rightarrow> u16 \<Rightarrow> u32" where
  "mem32 m a = be32 (m a) (m (a + 1)) (m (a + 2)) (m (a + 3))"

definition base_attribute :: "u16 \<Rightarrow> u8 \<Rightarrow> u16 \<Rightarrow> 's zcl_attribute" where
  "base_attribute i t a = \<lparr>at_id = i, at_flags = ZCL_ATTRIB_FLAG_FULL, at_type = t, at_value = a, at_min = 0, at_max = 0,
     at_read = None, at_write = None\<rparr>"

definition end_of_attributes :: "'s zcl_attribute" where
  "end_of_attributes = \<lparr>at_id = ZCL_ATTRIBUTE_END_OF_LIST, at_flags = 0, at_type = 0, at_value = 0, at_min = 0, at_max = 0,
     at_read = None, at_write = None\<rparr>"

text \<open>\<open>ZCL_CMD_MATCH(p, GENERAL, CLIENT_TO_SERVER, CLUSTER)\<close> and \<open>(p, GENERAL, SERVER_TO_CLIENT, PROFILE)\<close>.\<close>

definition zcl_cmd_match :: "u8 \<Rightarrow> u8 \<Rightarrow> u8 \<Rightarrow> u8 \<Rightarrow> bool" where
  "zcl_cmd_match p mfg dir type \<longleftrightarrow>
     p AND (ZCL_FRAME_MFG_SPECIFIC OR ZCL_FRAME_DIRECTION OR ZCL_FRAME_TYPE_MASK) = mfg OR dir OR type"

abbreviation ZCL_FRAME_GENERAL :: u8 where "ZCL_FRAME_GENERAL \<equiv> 0x00"
abbreviation ZCL_FRAME_SERVER_TO_CLIENT :: u8 where "ZCL_FRAME_SERVER_TO_CLIENT \<equiv> 0x08"
abbreviation ZCL_STATUS_UNSUP_CLUSTER_COMMAND :: u8 where "ZCL_STATUS_UNSUP_CLUSTER_COMMAND \<equiv> 0x81"

text \<open>A cluster handler: like \<open>zcl_general_command\<close>, with the conversations of the endpoints and the state.\<close>

type_synonym ('c, 's) zcl_handler =
  "'s respond \<Rightarrow> (nat \<Rightarrow> ('c, 's) wpan_dev) \<Rightarrow> (nat \<Rightarrow> wpan_ep_state) \<Rightarrow> wpan_envelope option
   \<Rightarrow> 's zcl_attribute_tree list option \<Rightarrow> 's \<Rightarrow> (rc \<times> (nat \<Rightarrow> wpan_ep_state) \<times> 's) option"

section \<open>Identify\<close>

abbreviation ZCL_IDENTIFY_ATTR_IDENTIFY_TIME :: u16 where "ZCL_IDENTIFY_ATTR_IDENTIFY_TIME \<equiv> 0x0000"
abbreviation ZCL_IDENTIFY_CMD_IDENTIFY :: u8 where "ZCL_IDENTIFY_CMD_IDENTIFY \<equiv> 0x00"
abbreviation ZCL_IDENTIFY_CMD_QUERY :: u8 where "ZCL_IDENTIFY_CMD_QUERY \<equiv> 0x01"
abbreviation ZCL_IDENTIFY_CMD_QUERY_RESPONSE :: u8 where "ZCL_IDENTIFY_CMD_QUERY_RESPONSE \<equiv> 0x00"
abbreviation ZCL_TYPE_UNSIGNED_16BIT :: u8 where "ZCL_TYPE_UNSIGNED_16BIT \<equiv> 0x21"

definition zcl_identify_isactive :: "zcl_addrs \<Rightarrow> 'w zcl_state \<Rightarrow> u16 \<times> 'w zcl_state" where
  "zcl_identify_isactive va s =
     (let (m, v) = s; identify_time = mem16 m (va_identify_time va) in
      if identify_time \<noteq> 0 then
        let delta = zv_identify_end v - zv_seconds v;
            identify_time = (if sint delta \<le> 0 then 0 else ucast delta)
        in (identify_time, mem_write m (va_identify_time va) (bytes16 identify_time), v)
      else (identify_time, s))"

text \<open>\<open>_zcl_identify_time_set\<close> without a record, and with one.\<close>

definition identify_time_start :: "zcl_addrs \<Rightarrow> 'w zcl_state \<Rightarrow> 'w zcl_state" where
  "identify_time_start va s =
     (let (m, v) = s in (m, v\<lparr>zv_identify_end := zv_seconds v + ucast (mem16 m (va_identify_time va))\<rparr>))"

definition zcl_identify_time_set ::
    "zcl_addrs \<Rightarrow> zcl_attribute_write_rec \<Rightarrow> 'w zcl_state \<Rightarrow> nat \<times> zcl_attribute_write_rec \<times> 'w zcl_state" where
  "zcl_identify_time_set va rec s =
     (let (m, v) = s;
          (bytes_read, rec, m) = decode_attribute
            (base_attribute ZCL_IDENTIFY_ATTR_IDENTIFY_TIME ZCL_TYPE_UNSIGNED_16BIT (va_identify_time va) :: unit zcl_attribute) rec m
      in (bytes_read, rec,
          if wr_flags rec AND ZCL_ATTR_WRITE_FLAG_ASSIGN = 0 then (m, v) else identify_time_start va (m, v)))"

definition zcl_identify_time_get :: "zcl_addrs \<Rightarrow> 'w zcl_state \<Rightarrow> u8 \<times> 'w zcl_state" where
  "zcl_identify_time_get va s = (ZCL_STATUS_SUCCESS, snd (zcl_identify_isactive va s))"

definition zcl_identify_attr :: "zcl_addrs \<Rightarrow> 'w zcl_state zcl_attribute list" where
  "zcl_identify_attr va =
     [(base_attribute ZCL_IDENTIFY_ATTR_IDENTIFY_TIME ZCL_TYPE_UNSIGNED_16BIT (va_identify_time va))
        \<lparr>at_read := Some (zcl_identify_time_get va), at_write := Some (zcl_identify_time_set va)\<rparr>,
      end_of_attributes]"

definition zcl_identify_attribute_tree :: "zcl_addrs \<Rightarrow> 'w zcl_state zcl_attribute_tree list" where
  "zcl_identify_attribute_tree va = [\<lparr>tr_manufacturer_id = ZCL_MFG_NONE, tr_server = Some (zcl_identify_attr va), tr_client = None\<rparr>]"

text \<open>The two bytes that a little-endian pointer reads.\<close>

definition le16_at :: "u8 list \<Rightarrow> u16" where
  "le16_at bs = le16toh (be16 (bs ! 0) (bs ! 1))"

definition zcl_identify_command :: "zcl_addrs \<Rightarrow> ('c, 'w zcl_state) zcl_handler" where
  "zcl_identify_command va respond devs states envelope context s =
     (let general = zcl_general_command respond devs states envelope context s;
          keep = (\<lambda>(r, s). Some (r, states, s)) in
      case zcl_command_build envelope context of
        Inl _ \<Rightarrow> general
      | Inr zcl \<Rightarrow>
          if zcl_cmd_match (cmd_frame_control zcl) ZCL_FRAME_GENERAL ZCL_FRAME_CLIENT_TO_SERVER ZCL_FRAME_TYPE_CLUSTER then
            if cmd_command zcl = ZCL_IDENTIFY_CMD_IDENTIFY then
              if cmd_length zcl \<ge> 2 then
                let s = (mem_write (fst s) (va_identify_time va) (bytes16 (le16_at (cmd_zcl_payload zcl))), snd s)
                in keep (zcl_default_response devs (Some zcl) ZCL_STATUS_SUCCESS (identify_time_start va s))
              else keep (zcl_default_response devs (Some zcl) ZCL_STATUS_MALFORMED_COMMAND s)
            else if cmd_command zcl = ZCL_IDENTIFY_CMD_QUERY then
              let s = snd (zcl_identify_time_get va s); identify_time = mem16 (fst s) (va_identify_time va) in
              if identify_time \<noteq> 0 then
                keep (zcl_send_response devs (Some zcl)
                  (response_start zcl ZCL_IDENTIFY_CMD_QUERY_RESPONSE @ bytes16 (htole16 identify_time)) s)
              else keep (zcl_default_response devs (Some zcl) ZCL_STATUS_SUCCESS s)
            else general
          else general)"

section \<open>Time\<close>

abbreviation ZCL_TIME_ATTR_TIME :: u16 where "ZCL_TIME_ATTR_TIME \<equiv> 0x0000"
abbreviation ZCL_TIME_ATTR_TIME_STATUS :: u16 where "ZCL_TIME_ATTR_TIME_STATUS \<equiv> 0x0001"
abbreviation ZCL_TIME_STATUS_MASTER :: u8 where "ZCL_TIME_STATUS_MASTER \<equiv> 0x01"
abbreviation ZCL_TIME_STATUS_SYNCHRONIZED :: u8 where "ZCL_TIME_STATUS_SYNCHRONIZED \<equiv> 0x02"
abbreviation ZCL_TYPE_TIME_UTCTIME :: u8 where "ZCL_TYPE_TIME_UTCTIME \<equiv> 0xE2"
abbreviation ZCL_TYPE_BITMAP_8BIT :: u8 where "ZCL_TYPE_BITMAP_8BIT \<equiv> 0x18"
abbreviation ZCL_UTCTIME_INVALID :: u32 where "ZCL_UTCTIME_INVALID \<equiv> 0xFFFFFFFF"

text \<open>The epoch of the seconds timer is that of ZCL on this platform (\<open>ZCL_TIME_EPOCH_DELTA\<close> is 0).\<close>

definition time_time_adjust :: "zcl_addrs \<Rightarrow> 'w zcl_state \<Rightarrow> 'w zcl_state" where
  "time_time_adjust va s = (let (m, v) = s in (m, v\<lparr>zv_time_skew := mem32 m (va_time_time va) - zv_seconds v\<rparr>))"

definition zcl_time_time_set ::
    "zcl_addrs \<Rightarrow> zcl_attribute_write_rec \<Rightarrow> 'w zcl_state \<Rightarrow> nat \<times> zcl_attribute_write_rec \<times> 'w zcl_state" where
  "zcl_time_time_set va rec s =
     (let (m, v) = s in
      if m (va_timestatus va) AND ZCL_TIME_STATUS_MASTER \<noteq> 0
      then (4, rec\<lparr>wr_status := ZCL_STATUS_READ_ONLY, wr_buffer := drop 4 (wr_buffer rec)\<rparr>, s)
      else
        let (bytes_read, rec, m) = decode_attribute
              (base_attribute ZCL_TIME_ATTR_TIME ZCL_TYPE_TIME_UTCTIME (va_time_time va) :: unit zcl_attribute) rec m
        in (bytes_read, rec,
            if wr_flags rec AND ZCL_ATTR_WRITE_FLAG_ASSIGN = 0 then (m, v) else time_time_adjust va (m, v)))"

definition zcl_time_time_get :: "zcl_addrs \<Rightarrow> 'w zcl_state \<Rightarrow> u8 \<times> 'w zcl_state" where
  "zcl_time_time_get va s =
     (let (m, v) = s in (ZCL_STATUS_SUCCESS, mem_write m (va_time_time va) (bytes32 (zv_time_skew v + zv_seconds v)), v))"

definition zcl_time_timestatus_set ::
    "zcl_addrs \<Rightarrow> zcl_attribute_write_rec \<Rightarrow> 'w zcl_state \<Rightarrow> nat \<times> zcl_attribute_write_rec \<times> 'w zcl_state" where
  "zcl_time_timestatus_set va rec s =
     (let (m, v) = s; a = va_timestatus va in
      (1, rec,
       if wr_flags rec AND ZCL_ATTR_WRITE_FLAG_ASSIGN \<noteq> 0 \<and> m a AND ZCL_TIME_STATUS_MASTER = 0
       then (m(a := if hd (wr_buffer rec) AND ZCL_TIME_STATUS_SYNCHRONIZED \<noteq> 0
                    then m a OR ZCL_TIME_STATUS_SYNCHRONIZED else m a AND NOT ZCL_TIME_STATUS_SYNCHRONIZED), v)
       else s))"

definition zcl_time_attr :: "zcl_addrs \<Rightarrow> 'w zcl_state zcl_attribute list" where
  "zcl_time_attr va =
     [(base_attribute ZCL_TIME_ATTR_TIME ZCL_TYPE_TIME_UTCTIME (va_time_time va))
        \<lparr>at_read := Some (zcl_time_time_get va), at_write := Some (zcl_time_time_set va)\<rparr>,
      (base_attribute ZCL_TIME_ATTR_TIME_STATUS ZCL_TYPE_BITMAP_8BIT (va_timestatus va))
        \<lparr>at_write := Some (zcl_time_timestatus_set va)\<rparr>,
      end_of_attributes]"

definition zcl_time_attribute_tree :: "zcl_addrs \<Rightarrow> 'w zcl_state zcl_attribute_tree list" where
  "zcl_time_attribute_tree va = [\<lparr>tr_manufacturer_id = ZCL_MFG_NONE, tr_server = Some (zcl_time_attr va), tr_client = None\<rparr>]"

definition zcl_time_now :: "zcl_addrs \<Rightarrow> 'w zcl_state \<Rightarrow> u32 \<times> 'w zcl_state" where
  "zcl_time_now va s =
     (if fst s (va_timestatus va) AND (ZCL_TIME_STATUS_MASTER OR ZCL_TIME_STATUS_SYNCHRONIZED) \<noteq> 0
      then let s = snd (zcl_time_time_get va s) in (mem32 (fst s) (va_time_time va), s)
      else (ZCL_UTCTIME_INVALID, s))"

text \<open>
  The loop over the records of a response: the status, the time and the time status found.  The code compares the pointer with the end
  only between records; \<open>None\<close> is a read past the end of the message.
\<close>

fun time_records :: "u8 list \<Rightarrow> u32 \<Rightarrow> u8 \<Rightarrow> (u8 \<times> u32 \<times> u8) option" where
  "time_records [] time status = Some (ZCL_STATUS_SUCCESS, time, status)"
| "time_records (i0 # i1 # failed # rest) time status =
     (if failed \<noteq> ZCL_STATUS_SUCCESS then time_records rest time status
      else
        case rest of
          [] \<Rightarrow> None
        | attribute_type # value_bytes \<Rightarrow>
            if le16_at [i0, i1] = ZCL_TIME_ATTR_TIME then
              if attribute_type \<noteq> ZCL_TYPE_TIME_UTCTIME then Some (ZCL_STATUS_INVALID_DATA_TYPE, time, status)
              else
                (case value_bytes of
                   b0 # b1 # b2 # b3 # rest \<Rightarrow> time_records rest (le32toh (be32 b0 b1 b2 b3)) status
                 | _ \<Rightarrow> None)
            else if le16_at [i0, i1] = ZCL_TIME_ATTR_TIME_STATUS then
              if attribute_type \<noteq> ZCL_TYPE_BITMAP_8BIT then Some (ZCL_STATUS_INVALID_DATA_TYPE, time, status)
              else (case value_bytes of b0 # rest \<Rightarrow> time_records rest time b0 | _ \<Rightarrow> None)
            else Some (ZCL_STATUS_UNSUPPORTED_ATTRIBUTE, time, status))"
| "time_records bs time status = None"

definition zcl_time_client :: "zcl_addrs \<Rightarrow> ('c, 'w zcl_state) zcl_handler" where
  "zcl_time_client va respond devs states envelope context s =
     (let general = zcl_general_command respond devs states envelope context s in
      case (envelope, zcl_command_build envelope context) of
        (Some e, Inr zcl) \<Rightarrow>
          if cmd_command zcl = ZCL_CMD_READ_ATTRIB_RESP
            \<and> zcl_cmd_match (cmd_frame_control zcl) ZCL_FRAME_GENERAL ZCL_FRAME_SERVER_TO_CLIENT ZCL_FRAME_TYPE_PROFILE then
            (case time_records (drop 3 (take (unat (env_length e)) (the (env_payload e)))) 0 0 of
               None \<Rightarrow> None
             | Some (response, time, time_status) \<Rightarrow>
                 let response = (if response = ZCL_STATUS_SUCCESS \<and> time = 0 then ZCL_STATUS_FAILURE else response);
                     (m, v) = s;
                     s = (if response = ZCL_STATUS_SUCCESS \<and> time \<noteq> ZCL_UTCTIME_INVALID
                            \<and> time_status AND (ZCL_TIME_STATUS_MASTER OR ZCL_TIME_STATUS_SYNCHRONIZED) \<noteq> 0
                          then let (m, v) = time_time_adjust va (mem_write m (va_time_time va) (bytes32 time), v);
                                   a = va_timestatus va
                               in (m(a := m a OR ZCL_TIME_STATUS_SYNCHRONIZED), v)
                          else s);
                     (r, s) = zcl_default_response devs (Some zcl) response s
                 in Some (r, states, s))
          else general
      | _ \<Rightarrow> general)"

section \<open>Basic and On/Off\<close>

abbreviation ZCL_BASIC_CMD_FACTORY_DEFAULTS :: u8 where "ZCL_BASIC_CMD_FACTORY_DEFAULTS \<equiv> 0x00"

text \<open>What \<open>ZCL_FACTORY_RESET_FN\<close> does is up to the program.\<close>

definition zcl_basic_server :: "(mem \<times> 'w \<Rightarrow> mem \<times> 'w) \<Rightarrow> ('c, mem \<times> 'w) zcl_handler" where
  "zcl_basic_server factory_reset respond devs states envelope context s =
     (let general = zcl_general_command respond devs states envelope context s in
      case zcl_command_build envelope context of
        Inl _ \<Rightarrow> general
      | Inr zcl \<Rightarrow>
          if zcl_cmd_match (cmd_frame_control zcl) ZCL_FRAME_GENERAL ZCL_FRAME_CLIENT_TO_SERVER ZCL_FRAME_TYPE_CLUSTER
            \<and> cmd_command zcl = ZCL_BASIC_CMD_FACTORY_DEFAULTS
          then let (r, s) = zcl_default_response devs (Some zcl) ZCL_STATUS_SUCCESS (factory_reset s) in Some (r, states, s)
          else general)"

text \<open>The commands of the On/Off cluster fall through to the default case.\<close>

definition zcl_onoff_handler :: "('c, mem \<times> 'w) zcl_handler" where
  "zcl_onoff_handler respond devs states envelope context s =
     (let general = zcl_general_command respond devs states envelope context s in
      case zcl_command_build envelope context of
        Inl _ \<Rightarrow> general
      | Inr zcl \<Rightarrow>
          if zcl_cmd_match (cmd_frame_control zcl) ZCL_FRAME_GENERAL ZCL_FRAME_CLIENT_TO_SERVER ZCL_FRAME_TYPE_CLUSTER
          then let (r, s) = zcl_default_response devs (Some zcl) ZCL_STATUS_UNSUP_CLUSTER_COMMAND s in Some (r, states, s)
          else general)"

end
