(* ===== verification/Zcl_Clusters_Correct.thy ===== *)
theory Zcl_Clusters_Correct
  imports Zcl_Clusters
begin

text \<open>
  What the Identify and the Time cluster promise: a device identifies itself for as long as it was
  told to, and a clock that has heard of the time tells it.
\<close>

section \<open>The variables of the clusters\<close>

definition cluster_vars :: "zcl_addrs \<Rightarrow> 'w zcl_state \<Rightarrow> u16 \<times> u32 \<times> u8 \<times> u32 \<times> u32 \<times> u32" where
  "cluster_vars va s = (mem16 (fst s) (va_identify_time va), mem32 (fst s) (va_time_time va), fst s (va_timestatus va),
     zv_identify_end (snd s), zv_time_skew (snd s), zv_seconds (snd s))"

text \<open>Sending a frame leaves them alone.\<close>

definition sends_aside :: "(nat \<Rightarrow> ('c, 'w zcl_state) wpan_dev) \<Rightarrow> zcl_addrs \<Rightarrow> bool" where
  "sends_aside devs va \<longleftrightarrow>
     (\<forall>n send. dev_endpoint_send (devs n) = Some send \<longrightarrow> (\<forall>e f s. cluster_vars va (snd (send e f s)) = cluster_vars va s))"

lemma send_response_aside:
  "sends_aside devs va \<Longrightarrow> cluster_vars va (snd (zcl_send_response devs req resp s)) = cluster_vars va s"
  by (auto simp: sends_aside_def zcl_send_response_def wpan_envelope_send_def simp del: split_paired_All split: option.split)

lemma default_response_aside:
  "sends_aside devs va \<Longrightarrow> cluster_vars va (snd (zcl_default_response devs (Some zcl) status s)) = cluster_vars va s"
  by (simp add: default_response_cases send_response_aside)

text \<open>Time passes.\<close>

definition later :: "nat \<Rightarrow> 'w zcl_state \<Rightarrow> 'w zcl_state" where
  "later k s = (fst s, (snd s)\<lparr>zv_seconds := zv_seconds (snd s) + of_nat k\<rparr>)"

section \<open>Identify\<close>

lemma sint_of_int_u32: "\<bar>k\<bar> < 2147483648 \<Longrightarrow> sint (of_int k :: u32) = k"
  by (simp add: signed_of_int signed_take_bit_int_eq_self)

text \<open>\<open>elapsed\<close> of \<open>span\<close> seconds have passed.\<close>

definition identifying :: "zcl_addrs \<Rightarrow> nat \<Rightarrow> nat \<Rightarrow> 'w zcl_state \<Rightarrow> bool" where
  "identifying va span elapsed s \<longleftrightarrow>
     (if mem16 (fst s) (va_identify_time va) = 0 then span \<le> elapsed
      else zv_identify_end (snd s) - zv_seconds (snd s) = of_int (int span - int elapsed))"

lemma identifying_vars: "cluster_vars va s' = cluster_vars va s \<Longrightarrow> identifying va span elapsed s' = identifying va span elapsed s"
  by (simp add: identifying_def cluster_vars_def)

lemma identifying_later: "identifying va span elapsed s \<Longrightarrow> identifying va span (elapsed + k) (later k s)"
  by (simp add: identifying_def later_def algebra_simps split: if_splits)

lemma low_half_of_nat: "(ucast (of_nat n :: u32) :: u16) = of_nat n"
  by (rule word_unat_eq_iff [THEN iffD2]) (simp only: unsigned_ucast_eq unsigned_of_nat take_bit_eq_mod, simp add: mod_mod_cancel)

lemma of_nat_unat_u32: "(of_nat (unat t) :: u32) = ucast (t :: u16)"
  by simp

lemma mem16_write: "mem16 (mem_write m a (bytes16 w)) a = w"
  by (simp add: mem16_def bytes16_def be16_bytes)

lemma identifying_query:
  assumes "identifying va span elapsed s" "span < 65536" "elapsed < 2147418112"
  shows "fst (zcl_identify_isactive va s) = of_nat (span - elapsed)"
    and "identifying va span elapsed (snd (zcl_identify_isactive va s))"
proof -
  let ?left = "zv_identify_end (snd s) - zv_seconds (snd s)"
  have "fst (zcl_identify_isactive va s) = of_nat (span - elapsed) \<and> identifying va span elapsed (snd (zcl_identify_isactive va s))"
  proof (cases "mem16 (fst s) (va_identify_time va) = 0")
    case True
    then show ?thesis using assms(1) by (simp add: identifying_def zcl_identify_isactive_def case_prod_unfold Let_def)
  next
    case False
    then have left: "?left = of_int (int span - int elapsed)" using assms(1) by (simp add: identifying_def)
    then have sint: "sint ?left = int span - int elapsed" using assms(2,3) sint_of_int_u32 [of "int span - int elapsed"] by simp
    show ?thesis
    proof (cases "elapsed < span")
      case True
      then have "?left = of_nat (span - elapsed)" unfolding left by (simp add: of_nat_diff)
      then have low: "(ucast ?left :: u16) = of_nat (span - elapsed)" by (simp only: low_half_of_nat)
      have "(of_nat (span - elapsed) :: u16) \<noteq> 0"
        using True assms(2) by (metis diff_le_self le_less_trans neq0_conv unat_0 unat_of_nat_u16 zero_less_diff)
      then show ?thesis
        using False sint True low left by (simp add: zcl_identify_isactive_def case_prod_unfold Let_def identifying_def mem16_write)
    next
      case nb: False
      then show ?thesis
        using False sint by (simp add: zcl_identify_isactive_def case_prod_unfold Let_def identifying_def mem16_write)
    qed
  qed
  then show "fst (zcl_identify_isactive va s) = of_nat (span - elapsed)"
    "identifying va span elapsed (snd (zcl_identify_isactive va s))" by blast+
qed

text \<open>The program asks now and then.\<close>

definition ask_after :: "zcl_addrs \<Rightarrow> nat \<Rightarrow> 'w zcl_state \<Rightarrow> 'w zcl_state" where
  "ask_after va k s = snd (zcl_identify_isactive va (later k s))"

lemma identifying_asked:
  "identifying va span elapsed s \<Longrightarrow> span < 65536 \<Longrightarrow> elapsed + sum_list ks < 2147418112 \<Longrightarrow>
    identifying va span (elapsed + sum_list ks) (fold (ask_after va) ks s)"
proof (induction ks arbitrary: elapsed s)
  case (Cons k ks)
  have "identifying va span (elapsed + k) (ask_after va k s)"
    using identifying_query(2) [OF identifying_later [OF Cons.prems(1), of k] Cons.prems(2)] Cons.prems(3) by (simp add: ask_after_def)
  then show ?case using Cons.IH [of "elapsed + k" "ask_after va k s"] Cons.prems by (simp add: add.assoc)
qed simp

text \<open>
  C33: Identifying for as long as told.  After an Identify command with a time of \<open>t\<close> seconds, the program, asking however often in
  between, finds the device identifying with \<open>t\<close> less the seconds passed still to go, and not at all from
  then on, for almost 2 to the 31 seconds; the seconds timer may wrap on the way.
\<close>

theorem identify_counts_down:
  assumes "sends_aside devs va" "fc AND 0x0F = 0x01"
    and "env_payload e = Some (fc # sequence # ZCL_IDENTIFY_CMD_IDENTIFY # bytes16 (htole16 t) @ rest)"
    and "env_length e = of_nat (5 + length rest)" "length rest < 1000"
    and "zcl_identify_command va respond devs states (Some e) tree s = Some (r, states', s1)"
    and "sum_list ks + k < 2147418112"
  shows "fst (zcl_identify_isactive va (later k (fold (ask_after va) ks s1))) = of_nat (unat t - (sum_list ks + k))"
proof -
  have "fc AND ZCL_FRAME_MFG_SPECIFIC = (fc AND 0x0F) AND ZCL_FRAME_MFG_SPECIFIC" by (simp add: and.assoc)
  then have mfg: "fc AND ZCL_FRAME_MFG_SPECIFIC = 0" by (simp add: assms(2))
  have len: "sint (env_length e) = int (5 + length rest)" using assms(4,5) sint_of_nat_u16 [of "5 + length rest"] by simp
  obtain zcl where zcl: "zcl_command_build (Some e) tree = Inr zcl" "cmd_frame_control zcl = fc" "cmd_command zcl = ZCL_IDENTIFY_CMD_IDENTIFY"
    "cmd_zcl_payload zcl = bytes16 (htole16 t) @ rest" "cmd_length zcl = int (2 + length rest)"
    using assms(3,5) mfg len by (simp add: zcl_command_build_def Let_def)
  let ?s = "identify_time_start va (mem_write (fst s) (va_identify_time va) (bytes16 t), snd s)"
  have payload: "le16_at (bytes16 (htole16 t) @ rest) = t" by (simp add: le16_at_def nth_append)
  have s1: "s1 = snd (zcl_default_response devs (Some zcl) ZCL_STATUS_SUCCESS ?s)"
    using assms(2,6) zcl payload by (auto simp: zcl_identify_command_def zcl_cmd_match_def Let_def case_prod_unfold)
  have "identifying va (unat t) 0 ?s"
    using of_nat_unat_u32 [of t] by (simp add: identifying_def identify_time_start_def mem16_write)
  then have "identifying va (unat t) 0 s1"
    using identifying_vars [OF default_response_aside [OF assms(1), of zcl ZCL_STATUS_SUCCESS ?s]] unfolding s1 by blast
  from identifying_asked [OF this, of ks] assms(7)
  have "identifying va (unat t) (sum_list ks) (fold (ask_after va) ks s1)" by simp
  from identifying_query(1) [OF identifying_later [OF this, of k]] assms(7) show ?thesis by simp
qed

section \<open>Time\<close>

text \<open>The records of a response with the time and its status.\<close>

definition time_record :: "u32 \<Rightarrow> u8 list" where
  "time_record t = bytes16 (htole16 ZCL_TIME_ATTR_TIME) @ [ZCL_STATUS_SUCCESS, ZCL_TYPE_TIME_UTCTIME] @ bytes32 (htole32 t)"

definition status_record :: "u8 \<Rightarrow> u8 list" where
  "status_record st = bytes16 (htole16 ZCL_TIME_ATTR_TIME_STATUS) @ [ZCL_STATUS_SUCCESS, ZCL_TYPE_BITMAP_8BIT, st]"

lemma bytes32_cases:
  obtains b0 b1 b2 b3 where "bytes32 w = [b0, b1, b2, b3]" "be32 b0 b1 b2 b3 = w"
proof -
  have cat: "(word_cat (ucast (drop_bit 16 w) :: u16) (ucast w :: u16) :: u32) = w"
    by (rule bit_word_eqI) (auto simp: bit_simps)
  show thesis
    by (rule that [of "ucast (drop_bit 8 (ucast (drop_bit 16 w) :: u16))" "ucast (ucast (drop_bit 16 w) :: u16)"
        "ucast (drop_bit 8 (ucast w :: u16))" "ucast (ucast w :: u16)"])
      (simp_all only: bytes32_def bytes16_def append.simps be32_def be16_bytes cat)
qed

lemma bytes16_cases:
  obtains a b where "bytes16 (htole16 w) = [a, b]" "le16_at [a, b] = w"
  by (rule that [of "ucast (drop_bit 8 (htole16 w))" "ucast (htole16 w)"]) (simp_all add: bytes16_def le16_at_def be16_bytes)

lemma time_record_step: "time_records (time_record t @ rest) time status = time_records rest t status"
proof -
  obtain a b where "bytes16 (htole16 ZCL_TIME_ATTR_TIME) = [a, b]" "le16_at [a, b] = ZCL_TIME_ATTR_TIME"
    by (rule bytes16_cases)
  moreover obtain p q r u where "bytes32 (htole32 t) = [p, q, r, u]" "be32 p q r u = htole32 t"
    by (rule bytes32_cases)
  ultimately show ?thesis by (simp add: time_record_def)
qed

lemma status_record_step: "time_records (status_record st @ rest) time status = time_records rest time st"
proof -
  obtain a b where "bytes16 (htole16 ZCL_TIME_ATTR_TIME_STATUS) = [a, b]" "le16_at [a, b] = ZCL_TIME_ATTR_TIME_STATUS"
    by (rule bytes16_cases)
  then show ?thesis by (simp add: status_record_def)
qed

lemma mem32_write: "mem32 (mem_write m a (bytes32 w)) a = w"
proof -
  obtain p q r u where b: "bytes32 w = [p, q, r, u]" "be32 p q r u = w" by (rule bytes32_cases)
  have "a + 1 \<noteq> a" "a + 2 \<noteq> a" "a + 3 \<noteq> a" "a + 2 \<noteq> a + 1" "a + 3 \<noteq> a + 1" "a + 3 \<noteq> a + 2" by simp_all
  then show ?thesis using b(2) by (simp add: mem32_def b(1) add.assoc)
qed

text \<open>The four bytes of the time do not include its status.\<close>

definition apart :: "zcl_addrs \<Rightarrow> bool" where
  "apart va \<longleftrightarrow> va_timestatus va \<notin> {va_time_time va, va_time_time va + 1, va_time_time va + 2, va_time_time va + 3}"

lemma status_apart: "apart va \<Longrightarrow> mem_write m (va_time_time va) (bytes32 w) (va_timestatus va) = m (va_timestatus va)"
proof -
  assume "apart va"
  moreover obtain p q r u where "bytes32 w = [p, q, r, u]" by (rule bytes32_cases)
  ultimately show ?thesis by (simp add: apart_def add.assoc)
qed

lemma or_sync: "((x :: u8) OR 2) AND 3 \<noteq> 0"
proof
  assume "(x OR 2) AND 3 = 0"
  then have "bit ((x OR 2) AND 3) 1 = bit (0 :: u8) 1" by simp
  then show False by (simp add: bit_simps)
qed

text \<open>
  C34: A clock that has heard of the time tells it.  When the response to the request for time and
  time status arrives, with its records in either order, and says that its sender is a master or is
  synchronised with one, then from then on, whatever other clocks have been used before,
  \<open>zcl_time_now\<close> tells that time plus the seconds passed.
\<close>

theorem time_client_synchronises:
  assumes "sends_aside devs va" "apart va" "fc AND 0x0F = ZCL_FRAME_SERVER_TO_CLIENT"
    and "records \<in> {time_record t @ status_record st, status_record st @ time_record t}"
    and "env_payload e = Some (fc # sequence # ZCL_CMD_READ_ATTRIB_RESP # records)" "env_length e = of_nat (3 + length records)"
    and "t \<noteq> 0" "t \<noteq> ZCL_UTCTIME_INVALID" "st AND 3 \<noteq> 0"
  shows "\<exists>r s1. zcl_time_client va respond devs states (Some e) tree s = Some (r, states, s1) \<and>
    fst (zcl_time_now va (later k s1)) = t + of_nat k"
proof -
  have "fc AND ZCL_FRAME_MFG_SPECIFIC = (fc AND 0x0F) AND ZCL_FRAME_MFG_SPECIFIC" by (simp add: and.assoc)
  then have mfg: "fc AND ZCL_FRAME_MFG_SPECIFIC = 0" by (simp add: assms(3))
  have n: "length records = 13" using assms(4) by (auto simp: time_record_def status_record_def)
  have len: "sint (env_length e) = 16" "unat (env_length e) = 16" using assms(6) n by simp_all
  obtain zcl where zcl: "zcl_command_build (Some e) tree = Inr zcl" "cmd_frame_control zcl = fc" "cmd_command zcl = ZCL_CMD_READ_ATTRIB_RESP"
    using assms(5) mfg len by (simp add: zcl_command_build_def Let_def)
  have recs: "time_records records 0 0 = Some (ZCL_STATUS_SUCCESS, t, st)"
    using assms(4) time_record_step [of t "status_record st" 0 0] status_record_step [of st "[]" t 0]
      status_record_step [of st "time_record t" 0 0] time_record_step [of t "[]" 0 st] by auto
  have all: "drop 3 (take (unat (env_length e)) (the (env_payload e))) = records"
    using assms(5) n len by simp
  define adj where "adj = time_time_adjust va (mem_write (fst s) (va_time_time va) (bytes32 t), snd s)"
  define s' where "s' = ((fst adj)(va_timestatus va := fst adj (va_timestatus va) OR ZCL_TIME_STATUS_SYNCHRONIZED), snd adj)"
  let ?d = "zcl_default_response devs (Some zcl) ZCL_STATUS_SUCCESS s'"
  have "zcl_time_client va respond devs states (Some e) tree s = Some (fst ?d, states, snd ?d)"
    using zcl assms(3,7-9) recs all
    by (simp add: zcl_time_client_def zcl_cmd_match_def Let_def case_prod_unfold s'_def adj_def)
  moreover have "fst (zcl_time_now va (later k (snd ?d))) = t + of_nat k"
  proof -
    have "cluster_vars va (snd ?d) = cluster_vars va s'" by (rule default_response_aside [OF assms(1)])
    then have d: "fst (snd ?d) (va_timestatus va) = fst s' (va_timestatus va)" "zv_time_skew (snd (snd ?d)) = zv_time_skew (snd s')"
      "zv_seconds (snd (snd ?d)) = zv_seconds (snd s')" by (simp_all add: cluster_vars_def)
    have "zv_time_skew (snd s') = t - zv_seconds (snd s)" "zv_seconds (snd s') = zv_seconds (snd s)"
      by (simp_all add: s'_def adj_def time_time_adjust_def mem32_write)
    moreover have "fst s' (va_timestatus va) AND 3 \<noteq> 0" using or_sync by (simp add: s'_def)
    ultimately show ?thesis using d
      by (simp add: zcl_time_now_def later_def zcl_time_time_get_def Let_def case_prod_unfold mem32_write)
  qed
  ultimately show ?thesis by blast
qed

section \<open>Examples\<close>

definition demo_addrs :: zcl_addrs where
  "demo_addrs = \<lparr>va_identify_time = 0x100, va_time_time = 0x104, va_timestatus = 0x108\<rparr>"

definition demo_zcl :: "u8 list list zcl_state" where
  "demo_zcl = (\<lambda>_. 0, \<lparr>zv_identify_end = 0, zv_time_skew = 0, zv_seconds = 0xFFFFFFF0, zv_world = []\<rparr>)"

definition aside_dev :: "(unit, u8 list list zcl_state) wpan_dev" where
  "aside_dev =
     \<lparr>dev_tick = None,
      dev_endpoint_send = Some (\<lambda>e f (m, v). (Inr 0, m, v\<lparr>zv_world := zv_world v @ [the (env_payload e)]\<rparr>)),
      dev_endpoint_get_next = None, dev_ieee = [], dev_network = 0, dev_payload = 84, dev_flags = 0, dev_endpoint_table = None\<rparr>"

lemma aside_dev_ok: "sends_aside (\<lambda>_. aside_dev) va"
  by (auto simp: sends_aside_def aside_dev_def cluster_vars_def)

theorem identify_counts_down_witness:
  "\<exists>r states' s1. zcl_identify_command demo_addrs (\<lambda>_ c _ s. (Inr 0, c, s)) (\<lambda>_. aside_dev) (\<lambda>_. ep_state_idle)
      (Some (sample_envelope 0 [0x11, 5, 0, 60, 0])) None demo_zcl = Some (r, states', s1) \<and>
    fst (zcl_identify_isactive demo_addrs (later 20 (fold (ask_after demo_addrs) [7, 8] s1))) = 25"
proof -
  let ?run = "zcl_identify_command demo_addrs (\<lambda>_ c _ s. (Inr 0, c, s)) (\<lambda>_. aside_dev) (\<lambda>_. ep_state_idle)
      (Some (sample_envelope 0 [0x11, 5, 0, 60, 0])) None demo_zcl"
  have "\<exists>r states' s1. ?run = Some (r, states', s1)"
    by (simp add: zcl_identify_command_def zcl_command_build_def zcl_cmd_match_def Let_def case_prod_unfold)
  then obtain r states' s1 where run: "?run = Some (r, states', s1)" by blast
  have "bytes16 (htole16 60) = [60, 0]" by (simp add: bytes16_htole16)
  then have "fst (zcl_identify_isactive demo_addrs (later 20 (fold (ask_after demo_addrs) [7, 8] s1))) = of_nat (unat (60 :: u16) - (sum_list [7, 8] + 20))"
    by (intro identify_counts_down [OF aside_dev_ok _ _ _ _ run, where rest = "[]" and fc = "0x11" and sequence = 5]) simp_all
  then show ?thesis using run by auto
qed

theorem time_client_synchronises_witness:
  "\<exists>r s1. zcl_time_client demo_addrs (\<lambda>_ c _ s. (Inr 0, c, s)) (\<lambda>_. aside_dev) (\<lambda>_. ep_state_idle)
      (Some (sample_envelope 0 (0x18 # 5 # ZCL_CMD_READ_ATTRIB_RESP # time_record 1000000 @ status_record 1))) None demo_zcl =
      Some (r, \<lambda>_. ep_state_idle, s1) \<and>
    fst (zcl_time_now demo_addrs (later 100 s1)) = 1000000 + of_nat 100"
  by (rule time_client_synchronises [OF aside_dev_ok, where fc = "0x18" and sequence = 5 and t = 1000000 and st = 1
        and records = "time_record 1000000 @ status_record 1"])
    (simp_all add: apart_def demo_addrs_def)

end
