(* ===== verification/Xbee_Atmode.thy ===== *)
theory Xbee_Atmode
  imports Xbee_Device
begin

text \<open>
  AT command mode (\<open>pxbee/pan/xbee/xbee_atmode.c\<close>): the module is brought into a mode in which it takes
  commands as text, by silence, three escape characters and silence.  Firmware updates use it.

  The fields and statements of \<open>xbee_device.c\<close> under \<open>XBEE_DEVICE_ENABLE_ATMODE\<close> are here: \<open>'w at_dev\<close> is an
  \<open>xbee_dev_t\<close> with them.  The millisecond timer is a function of the state \<open>'w\<close> of everything else.
\<close>

section \<open>The device\<close>

datatype xbee_dev_mode =
    XBEE_MODE_UNKNOWN | XBEE_MODE_BOOTLOADER | XBEE_MODE_API | XBEE_MODE_IDLE | XBEE_MODE_PRE_ESCAPE
  | XBEE_MODE_POST_ESCAPE | XBEE_MODE_COMMAND | XBEE_MODE_WAIT_IDLE | XBEE_MODE_WAIT_RESPONSE

record 'w at_dev =
  am_dev :: "'w xbee_dev"
  am_mode :: xbee_dev_mode
  am_timer :: u32
  am_guard_time :: u16
  am_idle_timeout :: u16
  am_escape_char :: u8

definition atmode_dev_init ::
    "'w at_dev option \<Rightarrow> xbee_serial \<Rightarrow> ('w \<Rightarrow> int) option \<Rightarrow> (bool \<Rightarrow> 'w \<Rightarrow> 'w) option
     \<Rightarrow> (errno + int) \<times> 'w at_dev option" where
  "atmode_dev_init xbee serport is_awake reset =
     (case xbee_dev_init (map_option am_dev xbee) serport is_awake reset of
        (error, None) \<Rightarrow> (error, xbee)
      | (error, Some d) \<Rightarrow>
          (error, Some \<lparr>am_dev = d, am_mode = XBEE_MODE_UNKNOWN, am_timer = 0, am_guard_time = 1000,
                        am_idle_timeout = 100, am_escape_char = 0x2B\<rparr>))"

definition atmode_dev_reset :: "'w at_dev option \<Rightarrow> (errno + int) \<times> 'w at_dev option" where
  "atmode_dev_reset xbee =
     (case xbee of
        None \<Rightarrow> (Inl EINVAL, None)
      | Some d \<Rightarrow>
          (case xbee_dev_reset (Some (am_dev d)) of
             (Inr r, Some dev) \<Rightarrow> (Inr r, Some (d\<lparr>am_dev := dev, am_mode := XBEE_MODE_UNKNOWN\<rparr>))
           | (error, _) \<Rightarrow> (error, Some d)))"

section \<open>The serial port of the device\<close>

text \<open>The functions of the serial driver on the port of a device.\<close>

definition am_port :: "'w at_dev \<Rightarrow> xbee_serial" where
  "am_port d = xd_serport (am_dev d)"

definition am_getchar :: "'w at_dev \<Rightarrow> (errno + int) \<times> 'w at_dev" where
  "am_getchar d =
     (case xbee_ser_getchar (am_port d) (xd_srx (am_dev d)) of
        (r, rx) \<Rightarrow> (r, d\<lparr>am_dev := (am_dev d)\<lparr>xd_srx := rx\<rparr>\<rparr>))"

definition am_read :: "int \<Rightarrow> 'w at_dev \<Rightarrow> (errno + int) \<times> u8 list \<times> 'w at_dev" where
  "am_read n d =
     (case xbee_ser_read (am_port d) n (xd_srx (am_dev d)) of
        (r, bytes, rx) \<Rightarrow> (r, bytes, d\<lparr>am_dev := (am_dev d)\<lparr>xd_srx := rx\<rparr>\<rparr>))"

definition am_write :: "u8 list \<Rightarrow> 'w at_dev \<Rightarrow> 'w at_dev" where
  "am_write buffer d =
     d\<lparr>am_dev := (am_dev d)\<lparr>xd_stx := snd (xbee_ser_write (am_port d) buffer (int (length buffer)) (xd_stx (am_dev d)))\<rparr>\<rparr>"

definition am_rx_flush :: "'w at_dev \<Rightarrow> 'w at_dev" where
  "am_rx_flush d = d\<lparr>am_dev := (am_dev d)\<lparr>xd_srx := xbee_ser_rx_flush (am_port d) (xd_srx (am_dev d))\<rparr>\<rparr>"

definition am_ms :: "('w \<Rightarrow> u32) \<Rightarrow> 'w at_dev \<Rightarrow> u32" where
  "am_ms ms d = ms (xd_world (am_dev d))"

section \<open>The state machine\<close>

text \<open>The sum \<open>guard_time + 200\<close> is a 16-bit one.\<close>

definition guard_passed :: "('w \<Rightarrow> u32) \<Rightarrow> 'w at_dev \<Rightarrow> bool" where
  "guard_passed ms d \<longleftrightarrow> am_ms ms d - am_timer d > ucast (am_guard_time d + 200)"

definition ok_response :: "u8 list" where
  "ok_response = [0x4F, 0x4B, 0x0D]"

definition atmode_post_escape :: "('w \<Rightarrow> u32) \<Rightarrow> 'w at_dev \<Rightarrow> 'w at_dev" where
  "atmode_post_escape ms d =
     (if xbee_ser_rx_used (am_port d) (xd_srx (am_dev d)) \<ge> 3 then
        let (_, bytes, d) = am_read 3 d in
        if take 3 (bytes @ replicate 3 0) = ok_response
        then d\<lparr>am_timer := am_ms ms d, am_mode := XBEE_MODE_COMMAND\<rparr>
        else d\<lparr>am_mode := XBEE_MODE_IDLE\<rparr>
      else if guard_passed ms d then d\<lparr>am_mode := XBEE_MODE_IDLE\<rparr>
      else d)"

definition atmode_step :: "('w \<Rightarrow> u32) \<Rightarrow> 'w at_dev \<Rightarrow> 'w at_dev" where
  "atmode_step ms d =
     (let passed = (\<lambda>t. am_ms ms d - am_timer d > t) in
      case am_mode d of
        XBEE_MODE_PRE_ESCAPE \<Rightarrow>
          if guard_passed ms d then
            let d = am_write (replicate 3 (am_escape_char d)) d
            in am_rx_flush (d\<lparr>am_mode := XBEE_MODE_POST_ESCAPE, am_timer := am_ms ms d\<rparr>)
          else d
      | XBEE_MODE_POST_ESCAPE \<Rightarrow> atmode_post_escape ms d
      | XBEE_MODE_WAIT_RESPONSE \<Rightarrow> if passed 2000 then d\<lparr>am_mode := XBEE_MODE_COMMAND\<rparr> else d
      | XBEE_MODE_WAIT_IDLE \<Rightarrow> if passed 2000 then d\<lparr>am_mode := XBEE_MODE_IDLE\<rparr> else d
      | XBEE_MODE_COMMAND \<Rightarrow>
          if passed (ucast (am_idle_timeout d) * 100) then d\<lparr>am_mode := XBEE_MODE_IDLE\<rparr> else d
      | _ \<Rightarrow> d)"

definition xbee_atmode_tick ::
    "('w \<Rightarrow> u32) \<Rightarrow> 'w at_dev option \<Rightarrow> (errno + xbee_dev_mode) \<times> 'w at_dev option" where
  "xbee_atmode_tick ms xbee =
     (case xbee of
        None \<Rightarrow> (Inl EINVAL, None)
      | Some d \<Rightarrow> let d = atmode_step ms d in (Inr (am_mode d), Some d))"

definition xbee_atmode_enter :: "('w \<Rightarrow> u32) \<Rightarrow> 'w at_dev option \<Rightarrow> (errno + int) \<times> 'w at_dev option" where
  "xbee_atmode_enter ms xbee =
     (case xbee of
        None \<Rightarrow> (Inl EINVAL, None)
      | Some d \<Rightarrow>
          let d = atmode_step ms d in
          if am_mode d \<in> {XBEE_MODE_PRE_ESCAPE, XBEE_MODE_POST_ESCAPE, XBEE_MODE_COMMAND, XBEE_MODE_WAIT_RESPONSE,
                          XBEE_MODE_WAIT_IDLE}
          then (Inr 0, Some d)
          else (Inr 0, Some (d\<lparr>am_mode := XBEE_MODE_PRE_ESCAPE, am_timer := am_ms ms d\<rparr>)))"

text \<open>A command is the characters of the string before its terminating zero.\<close>

definition xbee_atmode_send_request ::
    "('w \<Rightarrow> u32) \<Rightarrow> 'w at_dev option \<Rightarrow> u8 list option \<Rightarrow> (errno + int) \<times> 'w at_dev option" where
  "xbee_atmode_send_request ms xbee command =
     (case (xbee, command) of
        (Some d, Some cs) \<Rightarrow>
          if xbee_ser_tx_free (am_port d) < int (length cs) + 3 then (Inl ENOSPC, xbee)
          else
            let d = am_write [0x0D] (am_write cs (am_write [0x41, 0x54] d))
            in (Inr 0, Some (d\<lparr>am_mode := XBEE_MODE_WAIT_RESPONSE, am_timer := am_ms ms d\<rparr>))
      | _ \<Rightarrow> (Inl EINVAL, xbee))"

definition xbee_atmode_exit :: "('w \<Rightarrow> u32) \<Rightarrow> 'w at_dev option \<Rightarrow> (errno + int) \<times> 'w at_dev option" where
  "xbee_atmode_exit ms xbee =
     (case xbee of
        None \<Rightarrow> (Inl EINVAL, None)
      | Some d \<Rightarrow>
          let d = atmode_step ms d in
          case am_mode d of
            XBEE_MODE_PRE_ESCAPE \<Rightarrow> (Inr 0, Some (d\<lparr>am_mode := XBEE_MODE_IDLE\<rparr>))
          | XBEE_MODE_POST_ESCAPE \<Rightarrow> (Inl EBUSY, Some d)
          | XBEE_MODE_WAIT_RESPONSE \<Rightarrow> (Inl EBUSY, Some d)
          | XBEE_MODE_COMMAND \<Rightarrow>
              (Inr 0, map_option (\<lambda>d. d\<lparr>am_mode := XBEE_MODE_WAIT_IDLE\<rparr>)
                 (snd (xbee_atmode_send_request ms (Some d) (Some [0x43, 0x4E]))))
          | _ \<Rightarrow> (Inr 0, Some d))"

section \<open>Reading a response\<close>

text \<open>The loop that reads characters, with the number of characters in the buffer.\<close>

function atmode_response_loop ::
    "bool \<Rightarrow> int \<Rightarrow> int \<Rightarrow> u8 list \<Rightarrow> 'w at_dev \<Rightarrow> (errno + int) \<times> int \<times> u8 list \<times> 'w at_dev" where
  "atmode_response_loop late resp_size bytes response d =
     (if bytes + 1 \<ge> resp_size then (Inl ENOSPC, bytes, response, d)
      else
        case am_getchar d of
          (Inl e, d) \<Rightarrow> (Inl (if late then ETIMEDOUT else EAGAIN), bytes, response, d)
        | (Inr ch, d) \<Rightarrow>
            if ch = 13 then (Inr 0, bytes, response, d)
            else atmode_response_loop late resp_size (bytes + 1) (response[nat bytes := word_of_int ch]) d)"
  by pat_completeness auto

termination by (relation "measure (\<lambda>(late, resp_size, bytes, response, d). nat (resp_size - bytes))") auto

declare atmode_response_loop.simps [simp del]

definition response_mode :: "(errno + int) \<Rightarrow> 'w at_dev \<Rightarrow> 'w at_dev" where
  "response_mode retval d =
     (if retval = Inl ETIMEDOUT \<or> retval = Inr 0 then
        d\<lparr>am_mode := (case am_mode d of
            XBEE_MODE_WAIT_IDLE \<Rightarrow> XBEE_MODE_IDLE
          | XBEE_MODE_WAIT_RESPONSE \<Rightarrow> XBEE_MODE_COMMAND
          | m \<Rightarrow> m)\<rparr>
      else d)"

text \<open>
  The result is followed by the buffer and the counter that is pointed to.  It is \<open>None\<close> where the
  code reads or writes outside of the buffer.
\<close>

definition xbee_atmode_read_response ::
    "('w \<Rightarrow> u32) \<Rightarrow> 'w at_dev option \<Rightarrow> u8 list option \<Rightarrow> int \<Rightarrow> int option
     \<Rightarrow> ((errno + int) \<times> u8 list option \<times> int option \<times> 'w at_dev option) option" where
  "xbee_atmode_read_response ms xbee response resp_size bytesread =
     (case (xbee, response) of
        (Some d, Some buf) \<Rightarrow>
          if am_mode d \<noteq> XBEE_MODE_WAIT_IDLE \<and> am_mode d \<noteq> XBEE_MODE_WAIT_RESPONSE
          then Some (Inl EPERM, response, bytesread, xbee)
          else if bytesread = None \<and> 0 \<notin> set buf then None
          else
            let bytes = (case bytesread of Some n \<Rightarrow> n | None \<Rightarrow> int (length (takeWhile (\<lambda>c. c \<noteq> 0) buf)));
                (retval, n, buf, d) = atmode_response_loop (am_ms ms d - am_timer d > 2000) resp_size bytes buf d
            in if bytes < 0 \<or> n \<ge> int (length buf) then None
               else Some (retval, Some (buf[nat n := 0]), map_option (\<lambda>_. n) bytesread, Some (response_mode retval d))
      | _ \<Rightarrow> Some (Inl EINVAL, response, bytesread, xbee))"

end
