(* ===== verification/Xbee_Atmode_Correct.thy ===== *)
theory Xbee_Atmode_Correct
  imports Xbee_Atmode
begin

text \<open>
  What AT command mode guarantees.  The serial port of a device is seen as the bytes that wait to be read,
  \<open>am_input\<close>, and the bytes that were written, \<open>am_output\<close>; bytes arrive by the interrupt, \<open>am_arrive\<close>.
\<close>

section \<open>The port as a pair of byte sequences\<close>

definition am_input :: "'w at_dev \<Rightarrow> u8 list" where
  "am_input d = xcb_contents (rxbuf (am_port d) (xd_srx (am_dev d)))"

definition am_room :: "'w at_dev \<Rightarrow> nat" where
  "am_room d = xcb_capacity (rxbuf (am_port d) (xd_srx (am_dev d)))"

definition am_output :: "'w at_dev \<Rightarrow> u8 list" where
  "am_output d = tx_sent (xd_stx (am_dev d)) (sp_port (am_port d))"

definition am_ok :: "'w at_dev \<Rightarrow> bool" where
  "am_ok d \<longleftrightarrow> sp_port (am_port d) \<in> {SERIAL_PORT_SCI1, SERIAL_PORT_SCI2} \<and> xcb_wf (rxbuf (am_port d) (xd_srx (am_dev d)))"

definition am_arrive :: "u8 list \<Rightarrow> 'w at_dev \<Rightarrow> 'w at_dev" where
  "am_arrive bs d = d\<lparr>am_dev := (am_dev d)\<lparr>xd_srx := foldl (\<lambda>rx b. radio_uart_isr (am_port d) b rx) (xd_srx (am_dev d)) bs\<rparr>\<rparr>"

text \<open>Everything but the serial port: what reading and writing does not change.\<close>

definition same_but_port :: "'w at_dev \<Rightarrow> 'w at_dev \<Rightarrow> bool" where
  "same_but_port d d' \<longleftrightarrow> (\<exists>rx tx. d' = d\<lparr>am_dev := (am_dev d)\<lparr>xd_srx := rx, xd_stx := tx\<rparr>\<rparr>)"

lemma same_but_port_facts:
  assumes "same_but_port d d'"
  shows "am_mode d' = am_mode d" "am_timer d' = am_timer d" "am_port d' = am_port d" "am_ms ms d' = am_ms ms d"
    "am_guard_time d' = am_guard_time d" "am_escape_char d' = am_escape_char d" "xd_world (am_dev d') = xd_world (am_dev d)"
  using assms by (auto simp: same_but_port_def am_port_def am_ms_def)

lemma same_port_mode: "same_but_port d d' \<Longrightarrow> same_but_port (d\<lparr>am_mode := m\<rparr>) (d'\<lparr>am_mode := m\<rparr>)"
  by (cases d; cases d') (auto simp: same_but_port_def)

lemma same_but_port_trans: "same_but_port d d1 \<Longrightarrow> same_but_port d1 d2 \<Longrightarrow> same_but_port d d2"
  by (clarsimp simp: same_but_port_def) blast

lemma am_mode_update [simp]:
  "am_input (d\<lparr>am_mode := m\<rparr>) = am_input d" "am_output (d\<lparr>am_mode := m\<rparr>) = am_output d"
  "am_ok (d\<lparr>am_mode := m\<rparr>) = am_ok d" "am_port (d\<lparr>am_mode := m\<rparr>) = am_port d" "am_room (d\<lparr>am_mode := m\<rparr>) = am_room d"
  "am_ms ms (d\<lparr>am_mode := m\<rparr>) = am_ms ms d"
  "am_input (d\<lparr>am_timer := t\<rparr>) = am_input d" "am_output (d\<lparr>am_timer := t\<rparr>) = am_output d"
  "am_ok (d\<lparr>am_timer := t\<rparr>) = am_ok d" "am_port (d\<lparr>am_timer := t\<rparr>) = am_port d" "am_room (d\<lparr>am_timer := t\<rparr>) = am_room d"
  "am_ms ms (d\<lparr>am_timer := t\<rparr>) = am_ms ms d"
  by (simp_all add: am_input_def am_output_def am_ok_def am_port_def am_room_def am_ms_def)

lemma set_rxbuf_rts [simp]: "rx_bufs (set_rxbuf serial cb rx) = (rx_bufs rx)(sp_rxbuf serial := cb)"
  by (simp add: set_rxbuf_def)

lemma xbee_ser_getchar_queue:
  assumes "xcb_wf (rxbuf serial rx)" "xbee_ser_getchar serial rx = (r, rx')"
  shows "xcb_wf (rxbuf serial rx') \<and> xcb_capacity (rxbuf serial rx') = xcb_capacity (rxbuf serial rx) \<and>
    r = (case xcb_contents (rxbuf serial rx) of [] \<Rightarrow> Inl ENODATA | b # _ \<Rightarrow> Inr (uint b)) \<and>
    xcb_contents (rxbuf serial rx') = tl (xcb_contents (rxbuf serial rx))"
proof -
  let ?cb = "rxbuf serial rx"
  obtain v cb where get: "xbee_cbuf_getch ?cb = (v, cb)" by fastforce
  then have pop: "xcb_pop ?cb = (if v < 0 then None else Some (word_of_int v), cb)"
    by (simp add: xcb_pop_def)
  have v: "if v < 0 then xcb_contents ?cb = [] else \<exists>b bs. xcb_contents ?cb = b # bs \<and> v = uint b"
    using xcq.get_result [OF assms(1)] get pop
    by (auto simp: xbee_cbuf_getch_def Let_def split: if_splits list.splits)
  have cb: "xcb_wf cb" "xcb_contents cb = tl (xcb_contents ?cb)" "xcb_capacity cb = xcb_capacity ?cb"
    using xcq.get_inv [OF assms(1)] xcq.get_contents [OF assms(1)] xcq.get_capacity [OF assms(1)] pop by simp_all
  have "rxbuf serial rx' = cb" "r = (if v < 0 then Inl ENODATA else Inr v)"
    using assms(2) get by (auto simp: xbee_ser_getchar_def Let_def split: if_splits)
  then show ?thesis using cb v by (auto split: if_splits)
qed

lemma am_getchar_facts:
  assumes "am_ok d" "am_getchar d = (r, d')"
  shows "am_ok d'" "r = (case am_input d of [] \<Rightarrow> Inl ENODATA | b # _ \<Rightarrow> Inr (uint b))" "am_input d' = tl (am_input d)"
    "am_output d' = am_output d" "am_room d' = am_room d" "same_but_port d d'"
proof -
  obtain rx where g: "xbee_ser_getchar (am_port d) (xd_srx (am_dev d)) = (r, rx)"
    and d': "d' = d\<lparr>am_dev := (am_dev d)\<lparr>xd_srx := rx\<rparr>\<rparr>"
    using assms(2) by (auto simp: am_getchar_def split: prod.splits)
  show "same_but_port d d'" unfolding d' same_but_port_def
    by (rule exI [of _ rx], rule exI [of _ "xd_stx (am_dev d)"]) simp
  show "am_ok d'" "r = (case am_input d of [] \<Rightarrow> Inl ENODATA | b # _ \<Rightarrow> Inr (uint b))" "am_input d' = tl (am_input d)"
    "am_output d' = am_output d" "am_room d' = am_room d"
    using xbee_ser_getchar_queue [OF _ g] assms(1)
    by (simp_all add: d' am_ok_def am_input_def am_output_def am_room_def am_port_def)
qed

lemma xbee_ser_read_capacity:
  "xbee_ser_read serial n rx = (r, bytes, rx') \<Longrightarrow> xcb_capacity (rxbuf serial rx') = xcb_capacity (rxbuf serial rx)"
  by (auto simp: xbee_ser_read_def Let_def dest: get_capacity split: if_splits prod.splits)

lemma am_read_facts:
  assumes "am_ok d" "am_read n d = (r, bytes, d')" "0 \<le> n"
  shows "am_ok d'" "bytes = take (nat (min n 255)) (am_input d)" "r = Inr (int (length bytes))"
    "am_input d' = drop (length bytes) (am_input d)" "am_output d' = am_output d" "am_room d' = am_room d" "same_but_port d d'"
proof -
  obtain rx where g: "xbee_ser_read (am_port d) n (xd_srx (am_dev d)) = (r, bytes, rx)"
    and d': "d' = d\<lparr>am_dev := (am_dev d)\<lparr>xd_srx := rx\<rparr>\<rparr>"
    using assms(2) by (auto simp: am_read_def split: prod.splits)
  show "same_but_port d d'" unfolding d' same_but_port_def
    by (rule exI [of _ rx], rule exI [of _ "xd_stx (am_dev d)"]) simp
  show "am_ok d'" "bytes = take (nat (min n 255)) (am_input d)" "r = Inr (int (length bytes))"
    "am_input d' = drop (length bytes) (am_input d)" "am_output d' = am_output d" "am_room d' = am_room d"
    using xbee_ser_read_queue [OF _ g assms(3)] xbee_ser_read_capacity [OF g] assms(1)
    by (simp_all add: d' am_ok_def am_input_def am_output_def am_room_def am_port_def)
qed

lemma am_write_facts:
  assumes "am_ok d"
  shows "am_ok (am_write bs d)" "am_output (am_write bs d) = am_output d @ bs" "am_input (am_write bs d) = am_input d"
    "am_room (am_write bs d) = am_room d" "same_but_port d (am_write bs d)"
proof -
  show "same_but_port d (am_write bs d)" unfolding am_write_def same_but_port_def
    by (rule exI [of _ "xd_srx (am_dev d)"]) auto
  show "am_ok (am_write bs d)" "am_output (am_write bs d) = am_output d @ bs" "am_input (am_write bs d) = am_input d"
    "am_room (am_write bs d) = am_room d"
    using assms
    by (auto simp: am_write_def am_ok_def am_output_def am_input_def am_room_def am_port_def xbee_ser_write_def)
qed

lemma radio_uart_isr_buf: "rxbuf serial (radio_uart_isr serial b rx) = xcb_push (rxbuf serial rx) b"
  by (simp add: radio_uart_isr_def Let_def xcb_push_def set_rxbuf_def)

lemma isr_fold:
  fixes serial :: xbee_serial
  assumes "xcb_wf (rxbuf serial rx)" "length (xcb_contents (rxbuf serial rx)) + length bs \<le> xcb_capacity (rxbuf serial rx)"
  shows "xcb_wf (rxbuf serial (foldl (\<lambda>rx b. radio_uart_isr serial b rx) rx bs)) \<and>
    xcb_capacity (rxbuf serial (foldl (\<lambda>rx b. radio_uart_isr serial b rx) rx bs)) = xcb_capacity (rxbuf serial rx) \<and>
    xcb_contents (rxbuf serial (foldl (\<lambda>rx b. radio_uart_isr serial b rx) rx bs)) = xcb_contents (rxbuf serial rx) @ bs"
  using assms
proof (induction bs arbitrary: rx)
  case (Cons b bs)
  note push = xcb_push_facts [OF Cons.prems(1), of b]
  have "xcb_contents (rxbuf serial (radio_uart_isr serial b rx)) = xcb_contents (rxbuf serial rx) @ [b]"
    using push(3) Cons.prems(2) by (simp add: radio_uart_isr_buf del: length_xcb_contents)
  with Cons.IH [of "radio_uart_isr serial b rx"] push(1,2) Cons.prems(2) show ?case
    by (simp add: radio_uart_isr_buf del: length_xcb_contents)
qed simp

lemma am_arrive_facts:
  assumes "am_ok d" "length (am_input d) + length bs \<le> am_room d"
  shows "am_ok (am_arrive bs d)" "am_input (am_arrive bs d) = am_input d @ bs" "am_output (am_arrive bs d) = am_output d"
    "am_room (am_arrive bs d) = am_room d" "same_but_port d (am_arrive bs d)"
proof -
  show "same_but_port d (am_arrive bs d)" unfolding am_arrive_def same_but_port_def
    by (rule exI, rule exI [of _ "xd_stx (am_dev d)"]) auto
  show "am_ok (am_arrive bs d)" "am_input (am_arrive bs d) = am_input d @ bs" "am_output (am_arrive bs d) = am_output d"
    "am_room (am_arrive bs d) = am_room d"
    using assms isr_fold [where serial = "am_port d" and rx = "xd_srx (am_dev d)" and bs = bs]
    by (simp_all add: am_arrive_def am_ok_def am_output_def am_input_def am_room_def am_port_def del: length_xcb_contents)
qed

lemma am_flush_facts:
  assumes "am_ok d"
  shows "am_ok (am_rx_flush d)" "am_input (am_rx_flush d) = []" "am_output (am_rx_flush d) = am_output d"
    "am_room (am_rx_flush d) = am_room d" "same_but_port d (am_rx_flush d)"
proof -
  let ?cb = "rxbuf (am_port d) (xd_srx (am_dev d))"
  have wf: "xcb_wf (xbee_cbuf_flush ?cb)"
    using assms xcb_wf_update(4) by (simp add: am_ok_def xbee_cbuf_flush_def)
  then have "xcb_contents (xbee_cbuf_flush ?cb) = []"
    using xcb_empty_iff [OF wf] by (simp add: xbee_cbuf_flush_def xcb_contents_def)
  then show "am_ok (am_rx_flush d)" "am_input (am_rx_flush d) = []" "am_output (am_rx_flush d) = am_output d"
    "am_room (am_rx_flush d) = am_room d"
    using assms wf
    by (simp_all add: am_rx_flush_def xbee_ser_rx_flush_def am_ok_def am_output_def am_input_def am_room_def am_port_def
        xcb_capacity_def xbee_cbuf_flush_def)
  show "same_but_port d (am_rx_flush d)" unfolding am_rx_flush_def same_but_port_def
    by (rule exI, rule exI [of _ "xd_stx (am_dev d)"]) auto
qed

section \<open>Requests and responses\<close>

lemma atmode_response_loop_reads:
  assumes "am_ok d" "am_input d = bs @ tail" "13 \<notin> set bs" "tail = [] \<or> hd tail = 13"
    "n + length bs + 1 < sz" "sz \<le> length buf"
  shows "\<exists>buf' d'. atmode_response_loop late (int sz) (int n) buf d =
      (if tail = [] then Inl (if late then ETIMEDOUT else EAGAIN) else Inr 0, int (n + length bs), buf', d') \<and>
    take (n + length bs) buf' = take n buf @ bs \<and> length buf' = length buf \<and>
    am_ok d' \<and> am_input d' = tl tail \<and> am_output d' = am_output d \<and> am_room d' = am_room d \<and> same_but_port d d'"
  using assms
proof (induction bs arbitrary: n buf d)
  case Nil
  obtain r d1 where g: "am_getchar d = (r, d1)" by fastforce
  note f = am_getchar_facts [OF Nil.prems(1) g]
  have "r = (case tail of [] \<Rightarrow> Inl ENODATA | b # _ \<Rightarrow> Inr 13)"
    using f(2) Nil.prems(2,4) by (cases tail) simp_all
  then have "atmode_response_loop late (int sz) (int n) buf d =
      (if tail = [] then Inl (if late then ETIMEDOUT else EAGAIN) else Inr 0, int n, buf, d1)"
    using g Nil.prems(5) by (subst atmode_response_loop.simps) (auto split: list.splits)
  then show ?case using f Nil.prems by simp
next
  case (Cons b bs)
  obtain r d1 where g: "am_getchar d = (r, d1)" by fastforce
  note f = am_getchar_facts [OF Cons.prems(1) g]
  have r: "r = Inr (uint b)" "uint b \<noteq> 13" using f(2) Cons.prems(2,3) by (auto simp: word_uint_eq_iff)
  have "atmode_response_loop late (int sz) (int n) buf d = atmode_response_loop late (int sz) (int (Suc n)) (buf[n := b]) d1"
    using g r Cons.prems(5) by (subst atmode_response_loop.simps) (simp add: add.commute)
  moreover obtain buf' d' where "atmode_response_loop late (int sz) (int (Suc n)) (buf[n := b]) d1 =
      (if tail = [] then Inl (if late then ETIMEDOUT else EAGAIN) else Inr 0, int (Suc n + length bs), buf', d')"
    "take (Suc n + length bs) buf' = take (Suc n) (buf[n := b]) @ bs" "length buf' = length buf"
    "am_ok d'" "am_input d' = tl tail" "am_output d' = am_output d1" "am_room d' = am_room d1" "same_but_port d1 d'"
    using Cons.IH [of d1 "Suc n" "buf[n := b]"] f(1,3) Cons.prems by auto
  moreover have "same_but_port d d'"
    using same_but_port_trans [OF f(6)] \<open>same_but_port d1 d'\<close> .
  moreover have "take (Suc n) (buf[n := b]) = take n buf @ [b]"
    using Cons.prems(5,6) by (simp add: take_Suc_conv_app_nth)
  ultimately show ?case using f by simp
qed

text \<open>A buffer that holds a string.\<close>

definition holds :: "u8 list \<Rightarrow> u8 list \<Rightarrow> bool" where
  "holds buf str \<longleftrightarrow> length str < length buf \<and> take (Suc (length str)) buf = str @ [0] \<and> 0 \<notin> set str"

lemma holds_strlen: "holds buf str \<Longrightarrow> 0 \<in> set buf \<and> takeWhile (\<lambda>c. c \<noteq> 0) buf = str"
proof -
  assume h: "holds buf str"
  then have "buf = str @ 0 # drop (Suc (length str)) buf"
    using append_take_drop_id [of "Suc (length str)" buf] by (simp add: holds_def)
  moreover have "takeWhile (\<lambda>c. c \<noteq> 0) (str @ 0 # rest) = str" for rest
    using h by (subst takeWhile_append2) (auto simp: holds_def)
  ultimately show ?thesis by (metis in_set_conv_decomp)
qed

lemma read_response_step:
  assumes "am_ok d" "am_mode d = XBEE_MODE_WAIT_RESPONSE" "am_input d = bs @ tail" "13 \<notin> set bs" "0 \<notin> set bs"
    "tail = [] \<or> hd tail = 13" "holds buf acc" "length acc + length bs + 1 < length buf" "\<not> am_ms ms d - am_timer d > 2000"
  shows "\<exists>buf' d'. xbee_atmode_read_response ms (Some d) (Some buf) (int (length buf)) None =
      Some (if tail = [] then Inl EAGAIN else Inr 0, Some buf', None, Some d') \<and>
    holds buf' (acc @ bs) \<and> length buf' = length buf \<and> am_ok d' \<and> am_input d' = tl tail \<and> am_output d' = am_output d \<and>
    am_room d' = am_room d \<and> same_but_port (d\<lparr>am_mode := if tail = [] then XBEE_MODE_WAIT_RESPONSE else XBEE_MODE_COMMAND\<rparr>) d'"
proof -
  obtain buf' d' where loop: "atmode_response_loop False (int (length buf)) (int (length acc)) buf d =
      (if tail = [] then Inl EAGAIN else Inr 0, int (length acc + length bs), buf', d')"
    and buf': "take (length acc + length bs) buf' = take (length acc) buf @ bs" "length buf' = length buf"
    and d': "am_ok d'" "am_input d' = tl tail" "am_output d' = am_output d" "am_room d' = am_room d" "same_but_port d d'"
    using atmode_response_loop_reads [OF assms(1,3,4,6), of "length acc" "length buf" buf False] assms(8) by auto
  let ?buf = "buf'[length acc + length bs := 0]"
  have "take (length acc) (take (Suc (length acc)) buf) = acc"
    using assms(7) by (simp add: holds_def del: take_take)
  then have acc: "take (length acc) buf = acc" by simp
  have "holds ?buf (acc @ bs)"
    using buf' acc assms(5,7,8) by (simp add: holds_def take_Suc_conv_app_nth)
  moreover have "xbee_atmode_read_response ms (Some d) (Some buf) (int (length buf)) None =
      Some (if tail = [] then Inl EAGAIN else Inr 0, Some ?buf, None,
            Some (response_mode (if tail = [] then Inl EAGAIN else Inr 0) d'))"
    using loop holds_strlen [OF assms(7)] assms(2,8,9) buf'(2) by (simp add: xbee_atmode_read_response_def flip: of_nat_add)
  moreover have "am_mode d' = XBEE_MODE_WAIT_RESPONSE" using same_but_port_facts(1) [OF d'(5)] assms(2) by simp
  moreover have "same_but_port (d\<lparr>am_mode := m\<rparr>) (d'\<lparr>am_mode := m\<rparr>)" for m
    using same_port_mode [OF d'(5)] .
  moreover have "d\<lparr>am_mode := XBEE_MODE_WAIT_RESPONSE\<rparr> = d" using assms(2) by simp
  ultimately show ?thesis
    using d' buf'(2) by (cases "tail = []") (simp_all add: response_mode_def)
qed

text \<open>A response arrives in pieces, each at its time; after each piece the function is called.\<close>

definition am_later :: "'w \<Rightarrow> 'w at_dev \<Rightarrow> 'w at_dev" where
  "am_later w d = d\<lparr>am_dev := (am_dev d)\<lparr>xd_world := w\<rparr>\<rparr>"

lemma am_later_facts [simp]:
  "am_ok (am_later w d) = am_ok d" "am_input (am_later w d) = am_input d" "am_output (am_later w d) = am_output d"
  "am_room (am_later w d) = am_room d" "am_mode (am_later w d) = am_mode d" "am_timer (am_later w d) = am_timer d"
  "am_ms ms (am_later w d) = ms w"
  by (simp_all add: am_later_def am_ok_def am_input_def am_output_def am_room_def am_port_def am_ms_def)

fun read_pieces ::
    "('w \<Rightarrow> u32) \<Rightarrow> (u8 list \<times> 'w) list \<Rightarrow> u8 list \<Rightarrow> 'w at_dev \<Rightarrow> ((errno + int) list \<times> u8 list \<times> 'w at_dev) option" where
  "read_pieces ms [] buf d = Some ([], buf, d)"
| "read_pieces ms ((p, w) # ps) buf d =
     (case xbee_atmode_read_response ms (Some (am_arrive p (am_later w d))) (Some buf) (int (length buf)) None of
        Some (r, Some buf, _, Some d) \<Rightarrow> map_option (\<lambda>(rs, buf, d). (r # rs, buf, d)) (read_pieces ms ps buf d)
      | _ \<Rightarrow> None)"

text \<open>One piece, with the return or without.\<close>

lemma read_piece:
  assumes "am_ok d" "am_mode d = XBEE_MODE_WAIT_RESPONSE" "am_input d = []" "ms w - am_timer d \<le> 2000"
    "holds buf acc" "length acc + length bs + 1 < length buf" "13 \<notin> set bs" "0 \<notin> set bs" "tail = [] \<or> hd tail = 13"
    "length (bs @ tail) \<le> am_room d"
  shows "\<exists>buf' d'. xbee_atmode_read_response ms (Some (am_arrive (bs @ tail) (am_later w d))) (Some buf) (int (length buf)) None =
      Some (if tail = [] then Inl EAGAIN else Inr 0, Some buf', None, Some d') \<and>
    holds buf' (acc @ bs) \<and> length buf' = length buf \<and> am_ok d' \<and> am_input d' = tl tail \<and> am_output d' = am_output d \<and>
    am_room d' = am_room d \<and> am_timer d' = am_timer d \<and>
    am_mode d' = (if tail = [] then XBEE_MODE_WAIT_RESPONSE else XBEE_MODE_COMMAND)"
proof -
  let ?d = "am_arrive (bs @ tail) (am_later w d)"
  note arr = am_arrive_facts [of "am_later w d" "bs @ tail"]
  note same = same_but_port_facts [OF arr(5)]
  have d: "am_ok ?d" "am_input ?d = bs @ tail" "am_output ?d = am_output d" "am_room ?d = am_room d"
    "am_mode ?d = XBEE_MODE_WAIT_RESPONSE" "am_timer ?d = am_timer d" "am_ms ms ?d = ms w"
    using arr same assms by simp_all
  then obtain buf' d' where "xbee_atmode_read_response ms (Some ?d) (Some buf) (int (length buf)) None =
      Some (if tail = [] then Inl EAGAIN else Inr 0, Some buf', None, Some d')"
    "holds buf' (acc @ bs)" "length buf' = length buf" "am_ok d'" "am_input d' = tl tail" "am_output d' = am_output ?d"
    "am_room d' = am_room ?d"
    "same_but_port (?d\<lparr>am_mode := if tail = [] then XBEE_MODE_WAIT_RESPONSE else XBEE_MODE_COMMAND\<rparr>) d'"
    using read_response_step [where bs = bs and tail = tail and buf = buf and acc = acc and d = ?d and ms = ms] assms leD [OF assms(4)]
    by auto
  with d show ?thesis using same_but_port_facts(1,2) by (intro exI [of _ buf'] exI [of _ d']) fastforce
qed

lemma read_pieces_response:
  assumes "am_ok d" "am_mode d = XBEE_MODE_WAIT_RESPONSE" "am_input d = []"
    "holds buf acc" "length acc + length (concat (map fst ps) @ q) + 1 < length buf"
    "13 \<notin> set (concat (map fst ps) @ q)" "0 \<notin> set (concat (map fst ps) @ q)"
    "\<forall>(p, w)\<in>set (ps @ [(q @ 13 # rest, w)]). length p \<le> am_room d \<and> ms w - am_timer d \<le> 2000"
  shows "\<exists>buf' d'. read_pieces ms (ps @ [(q @ 13 # rest, w)]) buf d =
      Some (replicate (length ps) (Inl EAGAIN) @ [Inr 0], buf', d') \<and>
    holds buf' (acc @ concat (map fst ps) @ q) \<and> am_input d' = rest \<and> am_output d' = am_output d \<and>
    am_mode d' = XBEE_MODE_COMMAND"
  using assms
proof (induction ps arbitrary: acc buf d)
  case Nil
  then show ?case
    using read_piece [where bs = q and tail = "13 # rest" and buf = buf and acc = acc and d = d and ms = ms and w = w] by auto
next
  case (Cons piece ps)
  obtain p v where piece: "piece = (p, v)" by fastforce
  obtain buf1 d1 where call: "xbee_atmode_read_response ms (Some (am_arrive p (am_later v d))) (Some buf) (int (length buf)) None =
      Some (Inl EAGAIN, Some buf1, None, Some d1)"
    and buf1: "holds buf1 (acc @ p)" "length buf1 = length buf"
    and d1: "am_ok d1" "am_input d1 = []" "am_output d1 = am_output d" "am_room d1 = am_room d" "am_timer d1 = am_timer d"
      "am_mode d1 = XBEE_MODE_WAIT_RESPONSE"
    using read_piece [where bs = p and tail = "[]" and buf = buf and acc = acc and d = d and ms = ms and w = v]
      Cons.prems piece by auto
  obtain buf' d' where "read_pieces ms (ps @ [(q @ 13 # rest, w)]) buf1 d1 =
      Some (replicate (length ps) (Inl EAGAIN) @ [Inr 0], buf', d')"
    "holds buf' ((acc @ p) @ concat (map fst ps) @ q)" "am_input d' = rest" "am_output d' = am_output d1"
    "am_mode d' = XBEE_MODE_COMMAND"
    using Cons.IH [OF d1(1,6,2) buf1(1)] Cons.prems d1(4,5) buf1(2) piece by auto
  then show ?case using call d1(3) piece by auto
qed

text \<open>
  C40: A request in AT command mode and its response.  Sending a command writes \<open>AT\<close>, the command and a return.
  When the response then arrives in any pieces, at any times within two seconds of the request,
  the calls of \<open>xbee_atmode_read_response\<close> return \<open>-EAGAIN\<close> until the piece with the return, and 0 for that one; the
  buffer then holds exactly the response, the device is in command mode again, and what followed the return
  is left for the next read.
\<close>

theorem atmode_request_response:
  assumes "am_ok d" "am_input d = []" "length cs < 32765" "holds buf []" "length resp + 1 < length buf"
    and pieces: "concat (map fst ps) @ q = resp" "13 \<notin> set resp" "0 \<notin> set resp"
    and fits: "\<forall>(p, w)\<in>set (ps @ [(q @ 13 # rest, w)]). length p \<le> am_room d \<and> ms w - am_ms ms d \<le> 2000"
  shows "\<exists>d1 buf' d2. xbee_atmode_send_request ms (Some d) (Some cs) = (Inr 0, Some d1) \<and>
    am_output d1 = am_output d @ [0x41, 0x54] @ cs @ [0x0D] \<and>
    read_pieces ms (ps @ [(q @ 13 # rest, w)]) buf d1 = Some (replicate (length ps) (Inl EAGAIN) @ [Inr 0], buf', d2) \<and>
    holds buf' resp \<and> am_input d2 = rest \<and> am_mode d2 = XBEE_MODE_COMMAND \<and> am_output d2 = am_output d1"
proof -
  let ?w = "am_write [0x0D] (am_write cs (am_write [0x41, 0x54] d))"
  let ?d1 = "?w\<lparr>am_mode := XBEE_MODE_WAIT_RESPONSE, am_timer := am_ms ms ?w\<rparr>"
  have w: "am_ok ?w" "am_output ?w = am_output d @ [0x41, 0x54] @ cs @ [0x0D]" "am_input ?w = []" "am_room ?w = am_room d"
    "am_ms ms ?w = am_ms ms d"
    using assms(1,2) by (simp_all add: am_write_facts same_but_port_facts(4) [OF am_write_facts(5)])
  have "xbee_atmode_send_request ms (Some d) (Some cs) = (Inr 0, Some ?d1)"
    using assms(3) by (simp add: xbee_atmode_send_request_def xbee_ser_tx_free_def Let_def)
  moreover obtain buf' d2 where
    "read_pieces ms (ps @ [(q @ 13 # rest, w)]) buf ?d1 = Some (replicate (length ps) (Inl EAGAIN) @ [Inr 0], buf', d2)"
    "holds buf' ([] @ concat (map fst ps) @ q)" "am_input d2 = rest" "am_output d2 = am_output ?d1"
    "am_mode d2 = XBEE_MODE_COMMAND"
    using read_pieces_response [where d = ?d1 and ms = ms and buf = buf and acc = "[]" and ps = ps and q = q and rest = rest and w = w]
      w(1,3) assms(4,5) pieces fits [folded w(4,5)] by (auto simp: w(4,5))
  ultimately show ?thesis
    using w(2) pieces(1) by (intro exI [of _ ?d1] exI [of _ buf'] exI [of _ d2]) simp
qed

definition demo_module :: "'w \<Rightarrow> 'w at_dev" where
  "demo_module w = \<lparr>am_dev = \<lparr>xd_wpan_flags = 0, xd_network = 0, xd_ieee = replicate 8 0, xd_payload = 0, xd_serport = demo_port,
      xd_reset = Some (\<lambda>asserted w. w), xd_is_awake = None, xd_hardware_version = 0, xd_firmware_version = 0, xd_flags = 0,
      xd_rx = \<lparr>rx_state = XBEE_RX_STATE_WAITSTART, rx_bytes_in_frame = 0, rx_bytes_read = 0, rx_frame_data = replicate 147 0\<rparr>,
      xd_frame_id = 0, xd_srx = demo_rx,
      xd_stx = \<lparr>tx_sent = (\<lambda>_. []), tx_cts_pin = (\<lambda>_. False), tx_baud = (\<lambda>_. 0), tx_control = (\<lambda>_. [])\<rparr>, xd_world = w\<rparr>,
     am_mode = XBEE_MODE_COMMAND, am_timer = 0, am_guard_time = 1000, am_idle_timeout = 100, am_escape_char = 0x2B\<rparr>"

lemma demo_module_facts [simp]:
  "am_ok (demo_module w)" "am_input (demo_module w) = []" "am_output (demo_module w) = []" "am_room (demo_module w) = 15"
  "am_ms ms (demo_module w) = ms w" "xd_world (am_dev (demo_module w)) = w" "am_mode (demo_module w) = XBEE_MODE_COMMAND"
  by (simp_all add: demo_module_def am_ok_def am_input_def am_output_def am_room_def am_port_def am_ms_def demo_port_def demo_rx_def
      xcb_wf_def xcb_size_def xcb_contents_def xcb_count_def xcb_capacity_def)

theorem atmode_request_response_witness:
  "\<exists>d1 buf' d2. xbee_atmode_send_request id (Some (demo_module 5)) (Some [0x48, 0x56]) = (Inr 0, Some d1) \<and>
    am_output d1 = [0x41, 0x54, 0x48, 0x56, 0x0D] \<and>
    read_pieces id [([0x31, 0x45], 100), ([0x34], 300), ([0x35, 13, 7], 1900)] (replicate 20 0) d1 =
      Some ([Inl EAGAIN, Inl EAGAIN, Inr 0], buf', d2) \<and>
    holds buf' [0x31, 0x45, 0x34, 0x35] \<and> am_input d2 = [7] \<and> am_mode d2 = XBEE_MODE_COMMAND"
proof -
  have "holds (replicate 20 0) []" by (simp add: holds_def)
  then show ?thesis
    using atmode_request_response [of "demo_module 5" "[0x48, 0x56]" "replicate 20 0" "[0x31, 0x45, 0x34, 0x35]"
        "[([0x31, 0x45], 100), ([0x34], 300)]" "[0x35]" "[7]" 1900 id]
    by simp blast
qed

end
