(* ===== verification/Spec2Isabelle.thy ===== *)
theory Spec2Isabelle
  imports Cbuf Xbee_Cbuf Byte_Util Jslong_Ops Xbee_Time Wpan_Types Wpan_Aps Zcl_Types Zcl_General Xbee_Frames
    Xbee_Atcmd_Correct Xbee_Atcmd_Expiry Xbee_Atcmd_Handles Xbee_Wpan Wpan_Protected Zdo_Correct Gpio Rtc Rtc_Calendar App_At App_Correct App_Radio
    Xbee_Ota_Client Xbee_Discovery Zcl_Clusters_Correct Xbee_Atmode_Correct
begin

text \<open>
  A model of the open/close sensor for the programmable XBee, and what it guarantees.

  The program.  A Freescale HCS08 microcontroller sits on the radio module and talks to it over a
  serial line.  \<open>src/src\<close> is the application: it reports each change of a sensor's pin, answers
  requests to read the sensor, accepts firmware updates over the air, and has a menu on a console.
  \<open>src/pxbee\<close> is the SDK below it: serial line, frames, AT commands, the application support
  layer of ZigBee (APS), device objects (ZDO) and the cluster library (ZCL), with the drivers of the
  processor.  The model is that of the build of the application: XBEE_CW10, SMT module, ZigBee, ZCL
  frames handled, updates enabled, \<open>int\<close> of 16 bits, most significant byte first.

  How a message travels.  The interrupt of the serial line (\<open>Xbee_Serial\<close>) puts bytes into a
  circular buffer (\<open>Xbee_Cbuf\<close>).  The main loop (\<open>App_Main\<close>, \<open>step\<close>) calls the tick of the network,
  which takes at most five frames out of it (\<open>Xbee_Device\<close>, \<open>xbee_frame_load\<close>), checks the checksum
  and dispatches each by its type: AT responses and modem status to the table of AT requests
  (\<open>Xbee_Atcmd_Lists\<close>), received packets to \<open>Xbee_Wpan\<close>, which makes an envelope of them.  The
  envelope is dispatched to an endpoint and a cluster (\<open>Wpan_Aps\<close>): to ZDO (\<open>Zdo\<close>), to ZCL
  (\<open>Zcl_Command\<close>) or to the callbacks of the application (\<open>App_Clusters\<close>).  Answers travel back by
  \<open>xbee_endpoint_send\<close> and \<open>xbee_frame_write\<close> to the bytes sent, \<open>device_wire\<close> in the properties.

  Which theory models what.
    \<^item> \<open>Pxbee_Prelude\<close>: integer types, return codes, tactics' lemma collections.  \<open>Byte_Order\<close>: words as
      bytes in memory.  \<open>Byte_Queue\<close>: the contract of a bounded byte queue, a locale with both circular
      buffers as its interpretations (\<open>Cbuf\<close> for \<open>misc/cbuffer.c\<close>, \<open>Xbee_Cbuf\<close> for \<open>xbee_cbuf.c\<close>).
    \<^item> \<open>Byte_Util\<close>: swaps, copies, CRC and number parsing of \<open>pan/util\<close>.  \<open>Jslong\<close>,
      \<open>Jslong_Division\<close>, \<open>Jslong_Udivmod\<close>, \<open>Jslong_Ops\<close>: 64-bit arithmetic of \<open>jslong.c\<close> in pairs of
      32-bit words, its division against the integers.  \<open>Xbee_Time\<close>: \<open>xbee_time.c\<close>.
    \<^item> \<open>Wpan_Types\<close>: 64-bit addresses.  \<open>Wpan_Aps\<close>: endpoints, clusters, conversations and envelopes of
      \<open>wpan_aps.c\<close>.  Handlers and the functions of a device are parameters there, as they are function
      pointers in the code.
    \<^item> \<open>Zcl_Types\<close>, \<open>Zcl_Attr\<close>, \<open>Zcl_Command\<close>: \<open>zcl_types.c\<close> and \<open>zigbee_zcl.c\<close>; \<open>Zcl_Values\<close>, \<open>Zcl_Replies\<close>
      and \<open>Zcl_General\<close> hold what is proved of them.  \<open>Zdo\<close>, \<open>Zdo_Correct\<close>: \<open>zigbee_zdo.c\<close>.
      \<open>Wpan_Related\<close>: relations between states that APS, ZCL and ZDO respect; \<open>Wpan_Protected\<close>: the encryption of clusters.
    \<^item> \<open>Xbee_Serial\<close>: \<open>xbee_serial_hcs08.c\<close> over the hardware of the two serial ports.
      \<open>Xbee_Device\<close>, \<open>Xbee_Frames\<close>: \<open>xbee_device.c\<close>.  \<open>Xbee_Wpan\<close>: \<open>xbee_wpan.c\<close>.
    \<^item> \<open>Xbee_Atcmd\<close>, \<open>Xbee_Atcmd_Lists\<close>: \<open>xbee_atcmd.c\<close>; \<open>Xbee_Atcmd_Calls\<close> and \<open>Xbee_Atcmd_Correct\<close> hold
      the contracts of its recursive functions and its properties; \<open>Xbee_Atcmd_Expiry\<close> and \<open>Xbee_Atcmd_Handles\<close>
      are about the expiry of requests and the life of handles.
    \<^item> \<open>Xbee_Atmode\<close>, \<open>Xbee_Atmode_Correct\<close>: AT commands as text, \<open>xbee_atmode.c\<close>.
    \<^item> \<open>Xbee_Xmodem\<close>: the sender of \<open>xbee_xmodem.c\<close>; \<open>Xmodem_Line\<close> has the receiver of the protocol and the
      contracts of a line, \<open>Xmodem_Correct\<close> a line that loses bytes and what the sender does on it.
      \<open>Xbee_Ota_Client\<close>: \<open>xbee_transparent_serial.c\<close> and \<open>xbee_ota_client.c\<close>, the other side of the update.
    \<^item> \<open>Xbee_Discovery\<close>: \<open>xbee_discovery.c\<close>.  \<open>Zcl_Clusters\<close>, \<open>Zcl_Clusters_Correct\<close>: the clusters identify, time, basic and on/off.
    \<^item> \<open>Gpio\<close>: \<open>gpios.c\<close>.  \<open>Rtc\<close>, \<open>Rtc_Calendar\<close>: \<open>rtc.c\<close>.
    \<^item> \<open>App_Callback\<close>, \<open>App_State\<close>, \<open>App_Clusters\<close>, \<open>App_System\<close>, \<open>App_Main\<close>: the application, its
      tables and its main loop; \<open>App_Keep\<close>, \<open>App_At\<close>, \<open>App_Related\<close>, \<open>App_Frames\<close>, \<open>App_Correct\<close> and
      \<open>App_Radio\<close> hold what is proved of it.

  State.  Each component has a record with the fields of its C structure, and static variables are
  fields too; a pointer to a structure is an index or \<open>None\<close>.  A function of the code that changes state takes
  and returns it.  A handler gets the device with everything else in \<open>xd_world\<close>, and while the AT layer
  runs, the device is taken out into its table of devices (\<open>at_of\<close>, \<open>dev_of\<close>), so that no part
  of the state exists twice.  Errors are values: \<open>rc\<close> is \<open>Inl\<close> an error number or \<open>Inr\<close> the
  result; \<open>None\<close> stands for what has no defined outcome in C (a null pointer followed, a table without an
  end run off) or for a recursion that does not return.

  Interfaces.  \<open>byte_queue\<close>: the circular buffers.  \<open>at_creates\<close>: what the nested calls of
  \<open>xbee_cmd_create\<close> keep, so that the functions which call it through callbacks are proved once for any depth.
  \<open>at_application\<close>: what an application's callbacks must keep; interpreted by this application's callback.
  \<open>at_quiet_application\<close> extends it by callbacks that end their request and start no more than the table takes;
  interpreted by the same callback.
  \<open>at_invariant\<close>: an invariant of the AT layer under this application, for calls of any depth.
  \<open>wpan_related\<close>: relations between states that sending and the handlers respect are
  respected by all of APS, ZCL and ZDO; \<open>app_related\<close> extends it by what the callbacks of the application do, and is
  interpreted twice, to see that handlers do not look at the receiver and that answers change nothing but the
  sender, the output and the states of the endpoints.
  \<open>xmodem_reads\<close>: the callback that reads the source of a transfer; \<open>xmodem_line\<close> extends it by the callback that
  writes to a line, \<open>clean_line\<close> by a line that loses nothing.  They are interpreted by a line whose fate
  decides each byte, once with any fates, once with losses and once with none.

  What is proved.
    \<^item> From line to line: the bytes of a read request, after noise, make exactly the bytes of the answer
      (\<open>sensor_read_over_line\<close>); each change of the sensor is reported once, in order
      (\<open>sensor_reports_exact\<close>); only a packet with the password gives the processor up
      (\<open>update_reset_exact\<close>).
    \<^item> Frames: the receiver is a parser of the byte stream, which finds frames after noise, drops damaged ones and
      resynchronises; what is written is read back; a peer that obeys RTS loses no byte.
    \<^item> AT commands: a request gets its own response; every request expires in time, whatever the expiry of
      another one does; a released handle is refused until 256 releases later; \<open>xbee_cmd_create\<close> returns; the query of a device stores what the module answered.
    \<^item> APS, ZDO, ZCL: dispatch, conversations with their expiry and broadcasts; the answers of the device objects are
      read back from their bytes; attributes are written, read and discovered as the tables say;
      undivided writes, with their one exception; encryption of clusters, with the one it ignores; sizes of
      responses.
    \<^item> AT command mode: a command sent as text gets its response, in whatever pieces it arrives.
    \<^item> Libraries: queues refine lists; calendar conversions are inverse and agree with the calendar; 64-bit division
      agrees with the integers; the CRC is that of the polynomial.
    \<^item> Transfers: when the sender of XMODEM reports success, the receiver has the file, whatever packets and answers the line lost (\<open>transfer\<close>);
      on a line that loses nothing, the transfer ends with success; a write that the line refuses leaves a block out.
    \<^item> Discovery and standard clusters: a node's message is parsed to the node that sent it; the identify time counts
      down; the time client sets the clock to the time of the server.
    \<^item> Drivers: the clock calls its task every period, whatever it counts besides; the date advances as the
      calendar does; a pin is configured without touching another.

  Bounds and fuel.  Loops over C strings and tables end with the list that models them.  The stack of
  \<open>xbee_cmd_create\<close> calling itself through a callback is four calls deep in the application
  (\<open>xbee_cmd_create app_env 4\<close>); \<open>xbee_cmd_create_returns\<close> shows that from three on the result exists.  A tick
  takes five frames, which is the bound of the code.  Word sizes are those of the target, and
  wrap-around is written out by word arithmetic.  A delay waits for the clock, so it takes the
  interrupts it waits for as an argument.

  Choices.  The steps of the system (\<open>step\<close>: one round of the main loop, a tick of the clock, a byte
  from the radio, a byte from the console, a change of the sensor) do not interrupt each other; where that hides a
  fault of the code, it is noted as a finding.  Output on the console is a list of items, one per call of
  \<open>printf\<close>.  Where \<open>default_cluster_callback\<close> passes the state of an endpoint as a tree of attributes, the model
  sets the flag \<open>app_fault\<close>.  After a reset the state has no meaning.  The ports of a group of pins are a
  parameter, as the code takes them from the configuration.  \<open>discover_records []\<close> is \<open>None\<close>: the code
  runs off a table that has no end marker.  So is an answer of ZDO with more than \<open>ZDO_MAX_ENDPOINTS\<close>
  endpoints, which the code writes past its response.  Where a function writes to a pointer that it checks
  against null first and whose target the model returns, the theory says so.

  Not modelled.  Register maps, start-up and clocks of the processor, flash, power management, and the drivers
  of peripherals the application does not use (I2C, SPI, 1-Wire, EEPROM, LCD, timers): sequences of register
  accesses whose effect is that of the hardware.  Services of the SDK that are not linked into the application: firmware,
  route, commissioning, and the ZCL client and commissioning clusters.  Hex dumps and debug output.  The boot loader that runs after a reset is not in the repository.
\<close>

end
